(* ===== verification/Prelude.thy ===== *)
theory Prelude
  imports Main
begin

text \<open>
  Shared vocabulary of the development.

  \<^item> Types that name what the code passes around: instants (\<open>Date\<close> values, in
    milliseconds), identifiers (UUID strings), JSON metadata.
  \<^item> The Prisma query operations the services use, on tables that are lists of rows in
    insertion order: \<open>findFirst\<close> / \<open>findUnique\<close>, ordered reads, \<open>count\<close>, \<open>updateMany\<close>,
    \<open>deleteMany\<close>, pagination by \<open>skip\<close> / \<open>take\<close>.
  \<^item> The lemmas on these operations every component uses, in the simp set or in the
    collections \<open>row_simps\<close> (how reads see writes), \<open>frame_simps\<close> (what an operation
    leaves alone) and \<open>step_defs\<close> (definitions unfolded to run a handler).
\<close>

named_theorems row_simps \<open>reads of a table after a write\<close>
named_theorems frame_simps \<open>what an operation leaves unchanged\<close>
named_theorems step_defs \<open>definitions unfolded when a handler is run\<close>

type_synonym time = int
type_synonym ident = string

datatype json =
    JNull
  | JBool bool
  | JInt int
  | JStr string
  | JArr "json list"
  | JObj "(string \<times> json) list"

section \<open>Durations\<close>

definition ms_per_minute :: int where "ms_per_minute = 60000"
definition ms_per_hour :: int where "ms_per_hour = 3600000"
definition ms_per_day :: int where "ms_per_day = 86400000"

lemmas duration_defs = ms_per_minute_def ms_per_hour_def ms_per_day_def

section \<open>JavaScript values\<close>

text \<open>A nullable string is truthy when it is present and not empty.\<close>

definition truthy :: "string option \<Rightarrow> bool" where
  "truthy v = (case v of None \<Rightarrow> False | Some s \<Rightarrow> s \<noteq> [])"

lemma truthy_simps [simp]:
  "truthy None = False"
  "truthy (Some s) = (s \<noteq> [])"
  by (simp_all add: truthy_def)

lemma truthyE: "truthy v \<Longrightarrow> (\<And>s. v = Some s \<Longrightarrow> s \<noteq> [] \<Longrightarrow> P) \<Longrightarrow> P"
  by (cases v) auto

text \<open>The \<open>??\<close> operator: the value if it is present, the default otherwise.\<close>

definition nullish :: "'a option \<Rightarrow> 'a \<Rightarrow> 'a" where
  "nullish v d = (case v of None \<Rightarrow> d | Some x \<Rightarrow> x)"

lemma nullish_simps [simp]:
  "nullish None d = d"
  "nullish (Some x) d = x"
  by (simp_all add: nullish_def)

text \<open>Characters outside ASCII are written as their UTF-8 bytes.\<close>

definition em_dash :: string where "em_dash = [CHR 0xE2, CHR 0x80, CHR 0x94]"
definition right_quote :: string where "right_quote = [CHR 0xE2, CHR 0x80, CHR 0x99]"
definition right_arrow :: string where "right_arrow = [CHR 0xE2, CHR 0x86, CHR 0x92]"
definition check_mark :: string where "check_mark = [CHR 0xE2, CHR 0x9C, CHR 0x93]"

text \<open>\<open>toLowerCase\<close> and \<open>trim\<close> on the ASCII range, which is what email addresses use.\<close>

definition lower_char :: "char \<Rightarrow> char" where
  "lower_char c =
     (if 65 \<le> (of_char c :: nat) \<and> (of_char c :: nat) \<le> 90
      then char_of ((of_char c :: nat) + 32) else c)"

definition js_space :: "char \<Rightarrow> bool" where
  "js_space c = ((of_char c :: nat) \<in> {9, 10, 11, 12, 13, 32})"

definition toLowerCase :: "string \<Rightarrow> string" where
  "toLowerCase s = map lower_char s"

definition trim :: "string \<Rightarrow> string" where
  "trim s = rev (dropWhile js_space (rev (dropWhile js_space s)))"

text \<open>\<open>s.includes(p)\<close>.\<close>

definition js_includes :: "string \<Rightarrow> string \<Rightarrow> bool" where
  "js_includes s p \<longleftrightarrow> (\<exists>k \<in> set [0..<length s + 1]. take (length p) (drop k s) = p)"

text \<open>\<open>s.split(c)\<close>: the pieces between the separators.\<close>

fun js_split :: "char \<Rightarrow> string \<Rightarrow> string list" where
  "js_split c [] = [[]]"
| "js_split c (x # xs) = (if x = c then [] # js_split c xs
     else (case js_split c xs of [] \<Rightarrow> [[x]] | p # ps \<Rightarrow> (x # p) # ps))"

lemma js_split_plain: "c \<notin> set s \<Longrightarrow> js_split c s = [s]"
  by (induction s) auto

lemma js_split_append: "c \<notin> set s \<Longrightarrow> js_split c (s @ c # rest) = s # js_split c rest"
  by (induction s) auto

text \<open>The slices of \<open>n\<close> elements a loop with the step \<open>n\<close> cuts out of a list.\<close>

fun chunks :: "nat \<Rightarrow> 'a list \<Rightarrow> 'a list list" where
  "chunks n xs = (if n = 0 \<or> xs = [] then [] else take n xs # chunks n (drop n xs))"

declare chunks.simps [simp del]

lemma concat_chunks: "0 < n \<Longrightarrow> concat (chunks n xs) = xs"
  by (induction n xs rule: chunks.induct) (subst chunks.simps, simp)

lemma set_in_chunks: "ch \<in> set (chunks n xs) \<Longrightarrow> set ch \<subseteq> set xs"
proof (induction n xs rule: chunks.induct)
  case (1 n xs)
  show ?case
  proof (cases "n = 0 \<or> xs = []")
    case True
    then show ?thesis using 1 by (simp add: chunks.simps)
  next
    case False
    then have "ch = take n xs \<or> ch \<in> set (chunks n (drop n xs))"
      using "1.prems" by (subst (asm) chunks.simps) simp
    then show ?thesis using "1.IH" [OF False] by (meson order_trans set_drop_subset set_take_subset)
  qed
qed

lemma lower_char_idem [simp]: "lower_char (lower_char c) = lower_char c"
  by (auto simp: lower_char_def of_char_of take_bit_eq_mod)

lemma js_space_lower [simp]: "js_space (lower_char c) = js_space c"
  by (auto simp: lower_char_def js_space_def of_char_of take_bit_eq_mod)

lemma toLowerCase_idem [simp]: "toLowerCase (toLowerCase s) = toLowerCase s"
  by (simp add: toLowerCase_def comp_def)

lemma dropWhile_idem_snoc:
  "dropWhile P (rev (dropWhile P (rev (dropWhile P xs)))) = rev (dropWhile P (rev (dropWhile P xs)))"
proof (cases "dropWhile P xs")
  case Nil
  show ?thesis unfolding Nil by simp
next
  case (Cons y ys)
  then have y: "\<not> P y"
    by (metis dropWhile_eq_Cons_conv)
  then have "dropWhile P (rev ys @ [y]) = dropWhile P (rev ys) @ [y]"
    by (simp add: dropWhile_append3)
  with y show ?thesis unfolding Cons by simp
qed

lemma trim_idem [simp]: "trim (trim s) = trim s"
  by (simp add: trim_def dropWhile_idem_snoc)

lemma trim_toLowerCase: "trim (toLowerCase s) = toLowerCase (trim s)"
  by (simp add: trim_def toLowerCase_def dropWhile_map rev_map comp_def)

section \<open>Tables\<close>

definition findFirst :: "('r \<Rightarrow> bool) \<Rightarrow> 'r list \<Rightarrow> 'r option" where
  "findFirst p rows = List.find p rows"

definition findMany :: "('r \<Rightarrow> bool) \<Rightarrow> 'r list \<Rightarrow> 'r list" where
  "findMany p rows = filter p rows"

definition countRows :: "('r \<Rightarrow> bool) \<Rightarrow> 'r list \<Rightarrow> nat" where
  "countRows p rows = length (filter p rows)"

definition updateMany :: "('r \<Rightarrow> bool) \<Rightarrow> ('r \<Rightarrow> 'r) \<Rightarrow> 'r list \<Rightarrow> 'r list" where
  "updateMany p f rows = map (\<lambda>r. if p r then f r else r) rows"

definition deleteMany :: "('r \<Rightarrow> bool) \<Rightarrow> 'r list \<Rightarrow> 'r list" where
  "deleteMany p rows = filter (\<lambda>r. \<not> p r) rows"

definition orderAsc :: "('r \<Rightarrow> 'k::linorder) \<Rightarrow> 'r list \<Rightarrow> 'r list" where
  "orderAsc key rows = sort_key key rows"

definition orderDesc :: "('r \<Rightarrow> int) \<Rightarrow> 'r list \<Rightarrow> 'r list" where
  "orderDesc key rows = sort_key (\<lambda>r. - key r) rows"

definition findFirstDesc :: "('r \<Rightarrow> int) \<Rightarrow> ('r \<Rightarrow> bool) \<Rightarrow> 'r list \<Rightarrow> 'r option" where
  "findFirstDesc key p rows =
     (case orderDesc key (findMany p rows) of [] \<Rightarrow> None | r # _ \<Rightarrow> Some r)"

text \<open>\<open>skip: (page - 1) * pageSize, take: pageSize\<close>.\<close>

definition paginate :: "nat \<Rightarrow> nat \<Rightarrow> 'r list \<Rightarrow> 'r list" where
  "paginate page pageSize rows = take pageSize (drop ((page - 1) * pageSize) rows)"

text \<open>A unique column: no two rows agree on it.\<close>

definition unique_on :: "('r \<Rightarrow> 'k) \<Rightarrow> 'r list \<Rightarrow> bool" where
  "unique_on key rows = distinct (map key rows)"

subsection \<open>What reads return\<close>

lemma findFirst_SomeD: "findFirst p rows = Some r \<Longrightarrow> r \<in> set rows \<and> p r"
  by (auto simp: findFirst_def find_Some_iff)

lemma findFirst_None_iff: "findFirst p rows = None \<longleftrightarrow> (\<forall>r \<in> set rows. \<not> p r)"
  by (auto simp: findFirst_def find_None_iff)

lemma findFirst_Nil [simp]: "findFirst p [] = None"
  by (simp add: findFirst_def)

lemma findFirst_Cons [simp]:
  "findFirst p (r # rows) = (if p r then Some r else findFirst p rows)"
  by (simp add: findFirst_def)

lemma findFirst_append:
  "findFirst p (xs @ ys) = (case findFirst p xs of Some r \<Rightarrow> Some r | None \<Rightarrow> findFirst p ys)"
  by (induction xs) auto

lemma findFirst_unique:
  assumes "unique_on key rows" and "r \<in> set rows"
  shows "findFirst (\<lambda>x. key x = key r) rows = Some r"
  using assms by (induction rows) (auto simp: unique_on_def)

lemma unique_onD:
  "unique_on key rows \<Longrightarrow> x \<in> set rows \<Longrightarrow> y \<in> set rows \<Longrightarrow> key x = key y \<Longrightarrow> x = y"
  by (auto simp: unique_on_def distinct_map inj_on_def)

lemma findFirst_only:
  assumes "r \<in> set rows" and "p r" and "\<And>x. x \<in> set rows \<Longrightarrow> p x \<Longrightarrow> x = r"
  shows "findFirst p rows = Some r"
proof (cases "findFirst p rows")
  case None
  with assms(1,2) show ?thesis by (auto simp: findFirst_None_iff)
next
  case (Some x)
  with assms(3) show ?thesis by (auto dest: findFirst_SomeD)
qed

lemma findFirst_cong_set:
  "(\<And>r. r \<in> set rows \<Longrightarrow> p r = q r) \<Longrightarrow> findFirst p rows = findFirst q rows"
  by (induction rows) auto

lemma findFirstDesc_SomeD:
  assumes "findFirstDesc key p rows = Some r"
  shows "r \<in> set rows \<and> p r \<and> (\<forall>x \<in> set rows. p x \<longrightarrow> key x \<le> key r)"
proof -
  let ?s = "sort_key (\<lambda>x. - key x) (filter p rows)"
  from assms obtain rest where s: "?s = r # rest"
    by (auto simp: findFirstDesc_def orderDesc_def findMany_def split: list.splits)
  have "sorted (map (\<lambda>x. - key x) (r # rest))"
    using s by (metis sorted_sort_key)
  then have le: "\<forall>x \<in> set rest. key x \<le> key r" by auto
  have "set ?s = set (filter p rows)" by (rule set_sort)
  with s have "insert r (set rest) = {x \<in> set rows. p x}" by simp
  with le show ?thesis by auto
qed

lemma findFirstDesc_None_iff: "findFirstDesc key p rows = None \<longleftrightarrow> (\<forall>r \<in> set rows. \<not> p r)"
proof -
  have "findFirstDesc key p rows = None \<longleftrightarrow> sort_key (\<lambda>r. - key r) (filter p rows) = []"
    by (auto simp: findFirstDesc_def orderDesc_def findMany_def split: list.splits)
  also have "\<dots> \<longleftrightarrow> set (sort_key (\<lambda>r. - key r) (filter p rows)) = {}"
    by (simp only: set_empty)
  also have "\<dots> \<longleftrightarrow> (\<forall>r \<in> set rows. \<not> p r)" by auto
  finally show ?thesis .
qed

lemma findFirstDesc_only:
  assumes "x \<in> set rows" "P x" "\<And>y. y \<in> set rows \<Longrightarrow> P y \<Longrightarrow> y = x"
  shows "findFirstDesc key P rows = Some x"
proof (cases "findFirstDesc key P rows")
  case None
  with assms(1,2) show ?thesis by (auto simp: findFirstDesc_None_iff)
next
  case (Some y)
  with findFirstDesc_SomeD [OF this] assms(3) show ?thesis by auto
qed

lemma length_orderDesc [simp]: "length (orderDesc key rows) = length rows"
  by (simp add: orderDesc_def)

lemma set_orderDesc [simp]: "set (orderDesc key rows) = set rows"
  by (simp add: orderDesc_def)

lemma length_paginate: "length (paginate page n rows) \<le> n"
  by (simp add: paginate_def)

lemma set_paginate: "set (paginate page n rows) \<subseteq> set rows"
  by (auto simp: paginate_def dest: in_set_takeD in_set_dropD)

subsection \<open>What writes change\<close>

lemma updateMany_Nil [simp]: "updateMany p f [] = []"
  by (simp add: updateMany_def)

lemma updateMany_Cons [simp]:
  "updateMany p f (r # rows) = (if p r then f r else r) # updateMany p f rows"
  by (simp add: updateMany_def)

lemma updateMany_append [simp]:
  "updateMany p f (xs @ ys) = updateMany p f xs @ updateMany p f ys"
  by (simp add: updateMany_def)

lemma length_updateMany [simp]: "length (updateMany p f rows) = length rows"
  by (simp add: updateMany_def)

lemma set_updateMany:
  "set (updateMany p f rows) = (\<lambda>r. if p r then f r else r) ` set rows"
  by (simp add: updateMany_def)

lemma in_updateManyE:
  assumes "x \<in> set (updateMany p f rows)"
  obtains r where "r \<in> set rows" "p r" "x = f r"
    | "x \<in> set rows" "\<not> p x"
  using assms by (auto simp: set_updateMany split: if_splits)

lemma updateMany_noop: "(\<And>r. r \<in> set rows \<Longrightarrow> \<not> p r) \<Longrightarrow> updateMany p f rows = rows"
  by (induction rows) auto

lemma map_updateMany [row_simps]:
  "(\<And>r. key (f r) = key r) \<Longrightarrow> map key (updateMany p f rows) = map key rows"
  by (induction rows) auto

lemma image_updateMany [row_simps]:
  assumes "\<And>r. key (f r) = key r"
  shows "key ` set (updateMany p f rows) = key ` set rows"
proof -
  have "set (map key (updateMany p f rows)) = set (map key rows)"
    using assms by (simp only: map_updateMany)
  then show ?thesis by simp
qed

lemma unique_on_updateMany:
  "(\<And>r. key (f r) = key r) \<Longrightarrow> unique_on key (updateMany p f rows) = unique_on key rows"
  by (simp add: unique_on_def map_updateMany)

lemma unique_on_snoc:
  "unique_on key (rows @ [r]) \<longleftrightarrow> unique_on key rows \<and> key r \<notin> key ` set rows"
  by (auto simp: unique_on_def)

text \<open>Reading back a row through an update that keeps what the read tests.\<close>

lemma findFirst_updateMany:
  assumes "\<And>r. q (f r) = q r"
  shows "findFirst q (updateMany p f rows) =
    map_option (\<lambda>r. if p r then f r else r) (findFirst q rows)"
  using assms by (induction rows) auto

lemma countRows_updateMany_le:
  assumes "\<And>r. p r \<Longrightarrow> q (f r) \<Longrightarrow> q r"
  shows "countRows q (updateMany p f rows) \<le> countRows q rows"
  using assms by (induction rows) (auto simp: countRows_def)

lemma countRows_append [simp]: "countRows q (xs @ ys) = countRows q xs + countRows q ys"
  by (simp add: countRows_def)

lemma countRows_Nil [simp]: "countRows q [] = 0"
  by (simp add: countRows_def)

lemma countRows_Cons [simp]: "countRows q (r # rs) = (if q r then 1 else 0) + countRows q rs"
  by (simp add: countRows_def)

lemma countRows_0_iff: "countRows q rows = 0 \<longleftrightarrow> (\<forall>r \<in> set rows. \<not> q r)"
  by (auto simp: countRows_def filter_empty_conv)

lemma unique_on_filter: "unique_on key rows \<Longrightarrow> unique_on key (filter p rows)"
  by (simp add: unique_on_def distinct_map_filter)

lemma filter_not_taken:
  assumes "distinct (map key xs)"
  shows "filter (\<lambda>x. key x \<notin> set (map key (take n xs))) xs = drop n xs"
proof -
  have d: "set (map key (take n xs)) \<inter> set (map key (drop n xs)) = {}"
    using assms by (metis append_take_drop_id distinct_append map_append)
  have "filter (\<lambda>x. key x \<notin> set (map key (take n xs))) (take n xs @ drop n xs) = drop n xs"
    unfolding filter_append using d by (auto simp: filter_empty_conv filter_id_conv)
  then show ?thesis unfolding append_take_drop_id .
qed

lemma countRows_mono: "(\<And>r. r \<in> set rows \<Longrightarrow> p r \<Longrightarrow> q r) \<Longrightarrow> countRows p rows \<le> countRows q rows"
  by (induction rows) auto

text \<open>Changing one row, whose key is unique, adds at most one row to a count.\<close>

lemma countRows_update_one:
  assumes "unique_on key rows"
  shows "countRows p (updateMany (\<lambda>r. key r = k) f rows) \<le> countRows p rows + 1"
proof (cases "\<exists>r \<in> set rows. key r = k")
  case False
  then show ?thesis by (simp add: updateMany_noop)
next
  case True
  then obtain r xs ys where rows: "rows = xs @ r # ys" "key r = k" by (auto simp: in_set_conv_decomp)
  with assms have "\<forall>x \<in> set xs \<union> set ys. key x \<noteq> k"
    by (auto simp: unique_on_def rev_image_eqI)
  then have "updateMany (\<lambda>r. key r = k) f rows = xs @ f r # ys"
    using rows by (simp add: updateMany_noop)
  then show ?thesis using rows by simp
qed

lemma countRows_deleteMany_le: "countRows p (deleteMany d rows) \<le> countRows p rows"
  by (induction rows) (auto simp: deleteMany_def countRows_def)

lemma unique_on_deleteMany: "unique_on key rows \<Longrightarrow> unique_on key (deleteMany p rows)"
  by (simp add: unique_on_def deleteMany_def distinct_map_filter)

text \<open>A loop that updates the rows of a batch one after the other, each by its unique key.\<close>

fun stamp_all :: "('r \<Rightarrow> 'k) \<Rightarrow> ('r \<Rightarrow> 'r \<Rightarrow> 'r) \<Rightarrow> 'r list \<Rightarrow> 'r list \<Rightarrow> 'r list" where
  "stamp_all key g [] rows = rows"
| "stamp_all key g (r # rs) rows = stamp_all key g rs (updateMany (\<lambda>x. key x = key r) (g r) rows)"

lemma stamp_all_batch:
  assumes "unique_on key rows" and "set rs \<subseteq> set rows" and "distinct rs" and "\<And>r x. key (g r x) = key x"
  shows "stamp_all key g rs rows = map (\<lambda>x. if x \<in> set rs then g x x else x) rows"
  using assms(1-3)
proof (induction rs arbitrary: rows)
  case Nil
  then show ?case by simp
next
  case (Cons r rs)
  then have r: "r \<in> set rows" "r \<notin> set rs" and rs: "set rs \<subseteq> set rows" "distinct rs" by auto
  let ?rows = "updateMany (\<lambda>x. key x = key r) (g r) rows"
  have tab: "?rows = map (\<lambda>x. if x = r then g r r else x) rows"
    unfolding updateMany_def using unique_onD [OF Cons.prems(1) _ r(1)] by (auto simp: map_eq_conv)
  have u: "unique_on key ?rows" using Cons.prems(1) assms(4) by (simp add: unique_on_updateMany)
  have sub: "set rs \<subseteq> set ?rows" unfolding tab using rs(1) r(2) by force
  have "g r r \<notin> set rs"
    using unique_onD [OF Cons.prems(1) _ r(1)] rs(1) r(2) assms(4) by (metis subsetD)
  then show ?case
    using Cons.IH [OF u sub rs(2)] r(2) by (auto simp: tab comp_def)
qed

text \<open>For evaluation: a condition on what an option holds.\<close>

lemma ex_Some_code [code_unfold]: "(\<exists>s. x = Some s \<and> P s) \<longleftrightarrow> (case x of None \<Rightarrow> False | Some s \<Rightarrow> P s)"
  by (cases x) auto

end
