(* ===== verification/Messages.thy ===== *)
theory Messages
  imports Prelude
begin

text \<open>
  The texts the services put into exceptions and into the \<open>action\<close> column of the audit log,
  one constant each, so that handlers stay readable and proofs never look inside a text.
\<close>

named_theorems message_defs \<open>the texts behind the message and action constants\<close>

section \<open>Exception messages\<close>

definition Account_with_this_email_already_exists :: string where [message_defs]:
  "Account_with_this_email_already_exists = ''An account with this email already exists''"

definition Invalid_email_or_password :: string where [message_defs]:
  "Invalid_email_or_password = ''Invalid email or password''"

definition Too_many_failed_attempts_try_later :: string where [message_defs]:
  "Too_many_failed_attempts_try_later = ''Too many failed login attempts. Try again later.''"

definition Too_many_failed_attempts_locked :: string where [message_defs]:
  "Too_many_failed_attempts_locked = ''Too many failed login attempts. This account is temporarily locked.''"

definition Account_not_active_contact_us :: string where [message_defs]:
  "Account_not_active_contact_us = ''This account is not active. Contact us if you believe this is a mistake.''"

definition Verification_expired :: string where [message_defs]:
  "Verification_expired = ''Verification expired '' @ em_dash @ '' please log in again''"

definition Invalid_verification_token :: string where [message_defs]:
  "Invalid_verification_token = ''Invalid verification token''"

definition Account_not_found :: string where [message_defs]:
  "Account_not_found = ''Account not found''"

definition Too_many_attempts_log_in_again :: string where [message_defs]:
  "Too_many_attempts_log_in_again = ''Too many attempts '' @ em_dash @ '' please log in again''"

definition TwoFactor_not_set_up :: string where [message_defs]:
  "TwoFactor_not_set_up = ''2FA is not set up on this account''"

definition Invalid_code :: string where [message_defs]:
  "Invalid_code = ''Invalid code''"

definition Session_expired :: string where [message_defs]:
  "Session_expired = ''Session expired '' @ em_dash @ '' please log in again''"

definition Account_is_not_active :: string where [message_defs]:
  "Account_is_not_active = ''Account is not active''"

definition TwoFactor_already_enabled :: string where [message_defs]:
  "TwoFactor_already_enabled = ''Two-factor authentication is already enabled''"

definition Start_2fa_before_confirming :: string where [message_defs]:
  "Start_2fa_before_confirming = ''Start 2FA setup before confirming it''"

definition Incorrect_password :: string where [message_defs]:
  "Incorrect_password = ''Incorrect password''"

definition Invalid_or_expired_link :: string where [message_defs]:
  "Invalid_or_expired_link = ''Invalid or expired link''"

definition Link_already_used :: string where [message_defs]:
  "Link_already_used = ''This link has already been used''"

definition Link_expired :: string where [message_defs]:
  "Link_expired = ''This link has expired''"

definition Missing_access_token :: string where [message_defs]:
  "Missing_access_token = ''Missing access token''"

definition Invalid_or_expired_access_token :: string where [message_defs]:
  "Invalid_or_expired_access_token = ''Invalid or expired access token''"

definition Invalid_token_type :: string where [message_defs]:
  "Invalid_token_type = ''Invalid token type''"

definition Access_has_been_revoked :: string where [message_defs]:
  "Access_has_been_revoked = ''Access has been revoked''"

definition Insufficient_permissions :: string where [message_defs]:
  "Insufficient_permissions = ''Insufficient permissions''"

definition Active_subscription_required :: string where [message_defs]:
  "Active_subscription_required = ''An active subscription is required for this feature''"

definition Active_or_previous_subscription_required :: string where [message_defs]:
  "Active_or_previous_subscription_required = ''An active or previous subscription is required for this feature''"

definition Device_not_found :: string where [message_defs]:
  "Device_not_found = ''Device not found''"

definition Inviter_not_found :: string where [message_defs]:
  "Inviter_not_found = ''Inviter not found''"

definition Cannot_invite_yourself :: string where [message_defs]:
  "Cannot_invite_yourself = ''You can't invite yourself.''"

definition Person_already_has_account :: string where [message_defs]:
  "Person_already_has_account = ''This person already has an account.''"

definition Credit_pack_not_found :: string where [message_defs]:
  "Credit_pack_not_found = ''Credit pack not found''"

definition No_checkout_url :: string where [message_defs]:
  "No_checkout_url = ''Stripe did not return a checkout URL''"

definition Plan_not_found :: string where [message_defs]:
  "Plan_not_found = ''Plan not found''"

definition Already_have_subscription :: string where [message_defs]:
  "Already_have_subscription = ''You already have a subscription. Use the billing portal to change or cancel it.''"

definition No_billing_account :: string where [message_defs]:
  "No_billing_account = ''No billing account yet '' @ em_dash @ '' subscribe first''"

definition No_active_subscription :: string where [message_defs]:
  "No_active_subscription = ''No active subscription to cancel''"

definition No_pending_cancellation :: string where [message_defs]:
  "No_pending_cancellation = ''No pending cancellation to undo''"

definition Plan_not_available_for_checkout :: string where [message_defs]:
  "Plan_not_available_for_checkout = ''This plan is not available for checkout''"

definition Already_have_lead_finder_plan :: string where [message_defs]:
  "Already_have_lead_finder_plan = ''You already have a Lead Finder plan. Use the billing portal to change or cancel it.''"

definition No_active_lead_finder_plan :: string where [message_defs]:
  "No_active_lead_finder_plan = ''No active Lead Finder plan to cancel''"

definition Missing_signature :: string where [message_defs]:
  "Missing_signature = ''Missing Stripe-Signature header''"

definition Signature_verification_failed :: string where [message_defs]:
  "Signature_verification_failed = ''Webhook signature verification failed''"

definition Could_not_queue_event :: string where [message_defs]:
  "Could_not_queue_event = ''Could not queue webhook event for processing''"

definition Search_not_found :: string where [message_defs]:
  "Search_not_found = ''Search not found''"

definition Search_still_running :: string where [message_defs]:
  "Search_still_running = ''This search is still running.''"

definition Search_predates_filters :: string where [message_defs]:
  "Search_predates_filters = ''This search predates structured filters and cannot be extended '' @ em_dash @ '' start a new search.''"

definition Buy_credits_for_more_leads :: string where [message_defs]:
  "Buy_credits_for_more_leads = ''Buy a credit pack or upgrade to a paid plan to get more leads per search '' @ em_dash @ '' the free plan is capped at 3 results per search.''"

definition Out_of_credits :: string where [message_defs]:
  "Out_of_credits = ''You're out of Lead Finder credits. Buy more to keep searching.''"

definition Free_search_demo_unavailable :: string where [message_defs]:
  "Free_search_demo_unavailable = ''The free search demo is temporarily unavailable '' @ em_dash @ '' please try again in a moment, or sign up for full access.''"

definition Ai_search_unavailable :: string where [message_defs]:
  "Ai_search_unavailable = ''AI search is temporarily unavailable '' @ em_dash @ '' please try again in a moment.''"

definition Lead_not_found :: string where [message_defs]:
  "Lead_not_found = ''Lead not found''"

definition User_not_found :: string where [message_defs]:
  "User_not_found = ''User not found''"

definition Cannot_suspend_self :: string where [message_defs]:
  "Cannot_suspend_self = ''You cannot suspend your own account''"

definition Cannot_delete_self :: string where [message_defs]:
  "Cannot_delete_self = ''You cannot delete your own account''"

definition Already_deleted :: string where [message_defs]:
  "Already_deleted = ''This account is already deleted''"

definition Cannot_impersonate_self :: string where [message_defs]:
  "Cannot_impersonate_self = ''You cannot impersonate your own account''"

definition Cannot_impersonate_admin :: string where [message_defs]:
  "Cannot_impersonate_admin = ''Cannot impersonate an admin account''"

definition Email_has_account_grant_instead :: string where [message_defs]:
  "Email_has_account_grant_instead = ''This email already has an account '' @ em_dash @ '' grant or revoke Directory access on their existing user instead.''"

definition Email_has_account_pitch_instead :: string where [message_defs]:
  "Email_has_account_pitch_instead = ''This email already has an account '' @ em_dash @ '' pitch them directly from the Prospects list instead.''"

definition Email_unsubscribed :: string where [message_defs]:
  "Email_unsubscribed = ''This email unsubscribed from prospect invites and cannot be re-invited.''"

definition Lead_already_approved :: string where [message_defs]:
  "Lead_already_approved = ''This lead is already approved''"

definition Contact_message_not_found :: string where [message_defs]:
  "Contact_message_not_found = ''Contact message not found''"

definition Message_already_resolved :: string where [message_defs]:
  "Message_already_resolved = ''This message is already resolved''"

definition Mailing_address_too_short :: string where [message_defs]:
  "Mailing_address_too_short = ''Mailing address looks too short to be real '' @ em_dash @ '' leave it blank to use the default, or enter the full address.''"

definition Invalid_unsubscribe_link :: string where [message_defs]:
  "Invalid_unsubscribe_link = ''Invalid or expired unsubscribe link.''"

definition Webhook_not_configured :: string where [message_defs]:
  "Webhook_not_configured = ''Webhook not configured''"

definition Invalid_json_payload :: string where [message_defs]:
  "Invalid_json_payload = ''Invalid JSON payload''"

definition Malformed_encrypted_payload :: string where [message_defs]:
  "Malformed_encrypted_payload = ''Malformed encrypted payload''"

section \<open>Audit actions\<close>

definition Admin_user_suspended :: string where [message_defs]:
  "Admin_user_suspended = ''admin.user_suspended''"

definition Admin_user_reactivated :: string where [message_defs]:
  "Admin_user_reactivated = ''admin.user_reactivated''"

definition Admin_password_reset_sent :: string where [message_defs]:
  "Admin_password_reset_sent = ''admin.password_reset_sent''"

definition Admin_user_deleted :: string where [message_defs]:
  "Admin_user_deleted = ''admin.user_deleted''"

definition Admin_user_force_logout :: string where [message_defs]:
  "Admin_user_force_logout = ''admin.user_force_logout''"

definition Admin_user_impersonated :: string where [message_defs]:
  "Admin_user_impersonated = ''admin.user_impersonated''"

definition Admin_user_invited :: string where [message_defs]:
  "Admin_user_invited = ''admin.user_invited''"

definition Admin_directory_access_granted :: string where [message_defs]:
  "Admin_directory_access_granted = ''admin.directory_access_granted''"

definition Admin_directory_access_revoked :: string where [message_defs]:
  "Admin_directory_access_revoked = ''admin.directory_access_revoked''"

definition Admin_lead_finder_access_granted :: string where [message_defs]:
  "Admin_lead_finder_access_granted = ''admin.lead_finder_access_granted''"

definition Admin_lead_finder_access_revoked :: string where [message_defs]:
  "Admin_lead_finder_access_revoked = ''admin.lead_finder_access_revoked''"

definition Admin_prospect_pitched :: string where [message_defs]:
  "Admin_prospect_pitched = ''admin.prospect_pitched''"

definition Admin_prospect_invited :: string where [message_defs]:
  "Admin_prospect_invited = ''admin.prospect_invited''"

definition Admin_lead_created :: string where [message_defs]:
  "Admin_lead_created = ''admin.lead_created''"

definition Admin_lead_approved :: string where [message_defs]:
  "Admin_lead_approved = ''admin.lead_approved''"

definition Admin_lead_updated :: string where [message_defs]:
  "Admin_lead_updated = ''admin.lead_updated''"

definition Admin_lead_deleted :: string where [message_defs]:
  "Admin_lead_deleted = ''admin.lead_deleted''"

definition Admin_contact_message_resolved :: string where [message_defs]:
  "Admin_contact_message_resolved = ''admin.contact_message_resolved''"

definition Admin_contact_message_deleted :: string where [message_defs]:
  "Admin_contact_message_deleted = ''admin.contact_message_deleted''"

definition Admin_contact_message_replied :: string where [message_defs]:
  "Admin_contact_message_replied = ''admin.contact_message_replied''"

definition Auth_register :: string where [message_defs]:
  "Auth_register = ''auth.register''"

definition Auth_email_verified :: string where [message_defs]:
  "Auth_email_verified = ''auth.email_verified''"

definition Auth_login_failed :: string where [message_defs]:
  "Auth_login_failed = ''auth.login_failed''"

definition Auth_new_device_challenge :: string where [message_defs]:
  "Auth_new_device_challenge = ''auth.new_device_challenge''"

definition Auth_device_verification_failed :: string where [message_defs]:
  "Auth_device_verification_failed = ''auth.device_verification_failed''"

definition Auth_refresh_token_reuse_detected :: string where [message_defs]:
  "Auth_refresh_token_reuse_detected = ''auth.refresh_token_reuse_detected''"

definition Auth_logout :: string where [message_defs]:
  "Auth_logout = ''auth.logout''"

definition Auth_logout_all :: string where [message_defs]:
  "Auth_logout_all = ''auth.logout_all''"

definition Auth_password_reset_requested :: string where [message_defs]:
  "Auth_password_reset_requested = ''auth.password_reset_requested''"

definition Auth_password_reset_completed :: string where [message_defs]:
  "Auth_password_reset_completed = ''auth.password_reset_completed''"

definition Auth_2fa_enabled :: string where [message_defs]:
  "Auth_2fa_enabled = ''auth.2fa_enabled''"

definition Auth_2fa_disabled :: string where [message_defs]:
  "Auth_2fa_disabled = ''auth.2fa_disabled''"

definition Auth_device_trusted :: string where [message_defs]:
  "Auth_device_trusted = ''auth.device_trusted''"

definition Auth_device_removed :: string where [message_defs]:
  "Auth_device_removed = ''auth.device_removed''"

definition Auth_data_export_requested :: string where [message_defs]:
  "Auth_data_export_requested = ''auth.data_export_requested''"

definition Auth_account_deletion_requested :: string where [message_defs]:
  "Auth_account_deletion_requested = ''auth.account_deletion_requested''"

definition Auth_login :: string where [message_defs]:
  "Auth_login = ''auth.login''"

definition Auth_high_risk_login :: string where [message_defs]:
  "Auth_high_risk_login = ''auth.high_risk_login''"

definition Billing_lead_finder_checkout_started :: string where [message_defs]:
  "Billing_lead_finder_checkout_started = ''billing.lead_finder_checkout_started''"

definition Billing_lead_finder_cancel_requested :: string where [message_defs]:
  "Billing_lead_finder_cancel_requested = ''billing.lead_finder_cancel_requested''"

definition Billing_duplicate_lead_finder_subscription_prevented :: string where [message_defs]:
  "Billing_duplicate_lead_finder_subscription_prevented = ''billing.duplicate_lead_finder_subscription_prevented''"

definition Billing_lead_finder_credits_granted :: string where [message_defs]:
  "Billing_lead_finder_credits_granted = ''billing.lead_finder_credits_granted''"

definition Leads_ai_search :: string where [message_defs]:
  "Leads_ai_search = ''leads.ai_search''"

definition Leads_self_submitted :: string where [message_defs]:
  "Leads_self_submitted = ''leads.self_submitted''"

definition Admin_prospect_campaign_uploaded :: string where [message_defs]:
  "Admin_prospect_campaign_uploaded = ''admin.prospect_campaign_uploaded''"

definition Admin_prospect_campaign_settings_updated :: string where [message_defs]:
  "Admin_prospect_campaign_settings_updated = ''admin.prospect_campaign_settings_updated''"

definition Admin_prospect_campaign_template_updated :: string where [message_defs]:
  "Admin_prospect_campaign_template_updated = ''admin.prospect_campaign_template_updated''"

definition Admin_prospect_campaign_daily_drip :: string where [message_defs]:
  "Admin_prospect_campaign_daily_drip = ''admin.prospect_campaign_daily_drip''"

definition Billing_webhook_processing_failed :: string where [message_defs]:
  "Billing_webhook_processing_failed = ''billing.webhook_processing_failed''"

definition Billing_credits_checkout_started :: string where [message_defs]:
  "Billing_credits_checkout_started = ''billing.credits_checkout_started''"

definition Billing_checkout_started :: string where [message_defs]:
  "Billing_checkout_started = ''billing.checkout_started''"

definition Billing_subscription_cancel_requested :: string where [message_defs]:
  "Billing_subscription_cancel_requested = ''billing.subscription_cancel_requested''"

definition Billing_subscription_resumed :: string where [message_defs]:
  "Billing_subscription_resumed = ''billing.subscription_resumed''"

definition Billing_credits_purchased :: string where [message_defs]:
  "Billing_credits_purchased = ''billing.credits_purchased''"

definition Billing_duplicate_subscription_prevented :: string where [message_defs]:
  "Billing_duplicate_subscription_prevented = ''billing.duplicate_subscription_prevented''"

definition Billing_subscription_synced :: string where [message_defs]:
  "Billing_subscription_synced = ''billing.subscription_synced''"

end
