(* ===== verification/Schema.thy ===== *)
theory Schema
  imports Prelude Messages
begin

text \<open>
  The data model: every table of \<open>prisma/schema.prisma\<close> the services read or write, as a
  record of its columns; the Redis keys, the BullMQ jobs and the Stripe calls as data; and
  the records that carry everything a handler sees.

  \<^item> \<open>cfg\<close> is what is fixed for a deployment: the configuration values the services read
    from \<open>ConfigService\<close> and the functions of third-party packages (SHA-256, argon2, JWT,
    TOTP, GeoIP, the user-agent parser, AES-GCM) as parameters, with the server's time zone (the
    midnights before and after an instant) and the database's case-insensitive \<open>contains\<close>.
  \<^item> \<open>req\<close> is what is fixed for one request or job: the instant it runs at, whether Redis,
    the queue and Stripe answer, and the random values it draws.
  \<^item> \<open>world\<close> is the mutable state: one list of rows per table (insertion order), the Redis
    keys, the queued jobs and the calls made to Stripe.

  A handler takes the three and its arguments and returns either an error or its result,
  with the state it leaves behind: an exception keeps the writes made before it.
  Columns that nothing reads (\<open>updatedAt\<close>, the ids of append-only rows) are left out.
\<close>

section \<open>Enumerations\<close>

datatype role = USER | PREMIUM | ADMIN | SUPER_ADMIN

datatype accountStatus = ACTIVE | SUSPENDED | DELETED

datatype billingInterval = MONTH | SIX_MONTHS | YEAR

datatype subscriptionStatus = Sub_TRIALING | Sub_ACTIVE | Sub_PAST_DUE | Sub_CANCELED | Sub_EXPIRED

datatype invoiceStatus = Inv_PAID | Inv_OPEN | Inv_VOID | Inv_UNCOLLECTIBLE

datatype consentDocumentType = TERMS | PRIVACY

datatype tokenPurpose = EMAIL_VERIFICATION | PASSWORD_RESET

datatype inviteStatus = Invite_PENDING | Invite_ACCEPTED

datatype creditGrantSource = CREDIT_PACK_PURCHASE | LEAD_FINDER_TIER_GRANT | ADMIN_ADJUSTMENT

datatype companyType =
  ADVERTISER | AD_NETWORK | AFFILIATE | AFFILIATE_NETWORK | AGENCY | SOLUTION_PROVIDER

datatype jobStatus = RUNNING | COMPLETED | FAILED | CANCELLED

datatype resultStatus = Res_pending | Res_enriched | Res_failed | Res_skipped

datatype contactReason = BILLING | ACCOUNT_ISSUE | REMOVE_RECORD | OTHER

datatype prospectStatus =
  Pro_PENDING | Pro_SENT | Pro_SKIPPED_EXISTING_USER | Pro_SKIPPED_UNSUBSCRIBED
  | Pro_BOUNCED | Pro_COMPLAINED

datatype challengeMethod = EMAIL_CODE | TOTP

section \<open>Rows\<close>

record user =
  u_id :: ident
  u_email :: string
  u_fullName :: string
  u_passwordHash :: string
  u_phone :: "string option"
  u_role :: role
  u_status :: accountStatus
  u_adminGrantedDirectoryAccess :: bool
  u_adminGrantedLeadFinderAccess :: bool
  u_stripeCustomerId :: "string option"
  u_emailVerifiedAt :: "time option"
  u_twoFactorEnabled :: bool
  u_twoFactorSecret :: "string option"
  u_failedLoginCount :: int
  u_lockedUntil :: "time option"
  u_lastLoginAt :: "time option"
  u_createdAt :: time
  u_deletedAt :: "time option"
  u_leadFinderCredits :: int

record device =
  d_id :: ident
  d_userId :: ident
  d_fingerprint :: string
  d_browserName :: "string option"
  d_browserVersion :: "string option"
  d_os :: "string option"
  d_deviceType :: "string option"
  d_isTrusted :: bool
  d_trustedAt :: "time option"
  d_firstSeenAt :: time
  d_lastSeenAt :: time

record session =
  s_id :: ident
  s_userId :: ident
  s_deviceId :: "ident option"
  s_tokenHash :: string
  s_ipAddress :: "string option"
  s_country :: "string option"
  s_city :: "string option"
  s_timezone :: "string option"
  s_riskScore :: int
  s_riskSignals :: "json option"
  s_replacedByTokenId :: "ident option"
  s_createdAt :: time
  s_lastActivityAt :: time
  s_expiresAt :: time
  s_revokedAt :: "time option"

record verificationToken =
  vt_id :: ident
  vt_userId :: ident
  vt_tokenHash :: string
  vt_purpose :: tokenPurpose
  vt_expiresAt :: time
  vt_usedAt :: "time option"

record consentRecord =
  cr_userId :: ident
  cr_documentType :: consentDocumentType
  cr_version :: string
  cr_ipAddress :: "string option"
  cr_acceptedAt :: time

record invite =
  iv_id :: ident
  iv_inviterId :: ident
  iv_email :: string
  iv_status :: inviteStatus
  iv_createdAt :: time
  iv_acceptedAt :: "time option"

record adminAccessInvite =
  ai_id :: ident
  ai_invitedByUserId :: ident
  ai_email :: string
  ai_role :: role
  ai_grantDirectoryAccess :: bool
  ai_grantLeadFinderAccess :: bool
  ai_status :: inviteStatus
  ai_acceptedAt :: "time option"

record plan =
  pl_id :: ident
  pl_name :: string
  pl_slug :: string
  pl_stripePriceId :: string
  pl_interval :: billingInterval
  pl_amountCents :: int
  pl_currency :: string
  pl_isActive :: bool

record creditPack =
  cp_id :: ident
  cp_name :: string
  cp_slug :: string
  cp_credits :: int
  cp_stripePriceId :: string
  cp_amountCents :: int
  cp_currency :: string
  cp_isActive :: bool

record leadFinderTier =
  ti_id :: ident
  ti_name :: string
  ti_slug :: string
  ti_credits :: int
  ti_stripePriceId :: "string option"
  ti_amountCents :: int
  ti_currency :: string
  ti_recurring :: bool
  ti_isActive :: bool

record subscription =
  sb_id :: ident
  sb_userId :: ident
  sb_planId :: ident
  sb_stripeCustomerId :: string
  sb_stripeSubscriptionId :: string
  sb_status :: subscriptionStatus
  sb_currentPeriodStart :: time
  sb_currentPeriodEnd :: time
  sb_cancelAtPeriodEnd :: bool
  sb_trialEndsAt :: "time option"
  sb_pastDueSince :: "time option"
  sb_renewalReminderSentForPeriodEnd :: "time option"
  sb_createdAt :: time

record leadFinderSubscription =
  lf_id :: ident
  lf_userId :: ident
  lf_tierId :: ident
  lf_stripeCustomerId :: string
  lf_stripeSubscriptionId :: string
  lf_status :: subscriptionStatus
  lf_currentPeriodStart :: time
  lf_currentPeriodEnd :: time
  lf_cancelAtPeriodEnd :: bool
  lf_pastDueSince :: "time option"
  lf_renewalReminderSentForPeriodEnd :: "time option"
  lf_createdAt :: time

record invoice =
  in_subscriptionId :: ident
  in_stripeInvoiceId :: string
  in_amountCents :: int
  in_currency :: string
  in_status :: invoiceStatus
  in_pdfUrl :: "string option"
  in_paidAt :: "time option"

record creditGrant =
  cg_userId :: ident
  cg_credits :: int
  cg_source :: creditGrantSource
  cg_amountPaidCents :: "int option"
  cg_stripeReference :: "string option"
  cg_createdAt :: time

record lead =
  le_id :: ident
  le_name :: string
  le_title :: "string option"
  le_company :: "string option"
  le_website :: "string option"
  le_linkedin :: "string option"
  le_appLink :: "string option"
  le_email :: "string option"
  le_phone :: "string option"
  le_companyType :: "companyType option"
  le_likelyToAttend :: string
  le_approved :: bool
  le_submittedByUserId :: "ident option"
  le_createdAt :: time

record apolloFilters =
  af_organizationKeywordTags :: "string list"
  af_excludeOrganizationKeywordTags :: "string list option"
  af_personTitles :: "string list option"
  af_personSeniorities :: "string list option"
  af_personFunctions :: "string list option"
  af_organizationLocations :: "string list option"
  af_organizationNumEmployeesRanges :: "string list option"
  af_revenueMin :: "int option"
  af_revenueMax :: "int option"
  af_personName :: "string option"
  af_personOrganization :: "string option"

record leadSearchJob =
  jb_id :: ident
  jb_userId :: ident
  jb_query :: string
  jb_jobTitles :: "string list"
  jb_filters :: "apolloFilters option"
  jb_status :: jobStatus
  jb_createdAt :: time

record leadSearchResult =
  rs_id :: ident
  rs_jobId :: ident
  rs_apolloPersonId :: string
  rs_name :: "string option"
  rs_title :: "string option"
  rs_company :: "string option"
  rs_linkedin :: "string option"
  rs_email :: "string option"
  rs_status :: resultStatus
  rs_reviewStatus :: string
  rs_createdAt :: time

record contactMessage =
  cm_id :: ident
  cm_name :: string
  cm_email :: string
  cm_reason :: contactReason
  cm_message :: string
  cm_resolved :: bool
  cm_createdAt :: time

record prospectInvite =
  pi_id :: ident
  pi_email :: string
  pi_status :: prospectStatus
  pi_uploadedByUserId :: "ident option"
  pi_createdAt :: time
  pi_sentAt :: "time option"

record campaignSettings =
  cs_dailyCap :: nat
  cs_paused :: bool
  cs_emailSubject :: "string option"
  cs_emailHeading :: "string option"
  cs_emailBody :: "string option"
  cs_emailCtaLabel :: "string option"
  cs_emailFootnote :: "string option"
  cs_emailMailingAddress :: "string option"

section \<open>Audit log\<close>

record auditLog =
  al_actorUserId :: "ident option"
  al_action :: string
  al_targetType :: "string option"
  al_targetId :: "string option"
  al_metadata :: "json option"
  al_ipAddress :: "string option"
  al_createdAt :: time

section \<open>Redis, queues, Stripe\<close>

text \<open>
  Redis keys by their prefix: \<open>revoked:user:\<close>, \<open>login-challenge-attempts:\<close> (of the hash of
  the challenge token) and \<open>anon-ai-search:\<close>.
\<close>

datatype redisKey =
    RevokedUser ident
  | ChallengeAttempts string
  | AnonAiSearch string

record redisEntry =
  re_value :: int
  re_expiresAt :: "time option"

datatype emailJob =
    WelcomeEmail string string
  | VerificationEmail string string
  | PasswordResetEmail string string
  | DeviceCodeEmail string string
  | ContactFormEmail string string contactReason string
  | ContactReplyEmail string string string string
  | SubscriptionConfirmedEmail string string int time
  | AdminAccessInviteEmail string bool bool
  | ProspectPitchEmail string string string
  | InviteEmail string string
  | RenewalReminderEmail string string time int
  | PaymentFailedEmail string string int
  | CancellationScheduledEmail string string time

datatype stripeCall =
    CustomerCreate string string ident
  | CheckoutCreate string "(string \<times> string) list"
  | PortalCreate string
  | SubscriptionCancel string
  | SubscriptionSetCancelAtPeriodEnd string bool
  | SubscriptionRetrieve string

record apolloJob =
  aj_jobId :: ident
  aj_userId :: ident
  aj_filters :: apolloFilters
  aj_cap :: int
  aj_exclude :: "string list"

section \<open>Errors\<close>

text \<open>
  The constructor of \<open>http_error\<close> is the Nest exception class, its argument the message (empty
  for an exception thrown without one). \<open>Internal\<close> is every error that is not an
  \<open>HttpException\<close>: the Prisma codes of a unique violation (\<open>P2002\<close>), a foreign key violation
  (\<open>P2003\<close>) and a missing row (\<open>P2025\<close>), a failing Stripe call, a malformed ciphertext, a
  failing upstream API, a database statement that fails or a number its column cannot hold.
\<close>

datatype internal_error =
  P2002 | P2003 | P2025 | StripeError | MalformedPayload | UpstreamError | DatabaseError

datatype http_error =
    BadRequest string
  | Unauthorized string
  | Forbidden string
  | NotFound string
  | Conflict string
  | ServiceUnavailable string
  | Internal internal_error

type_synonym 'a result = "http_error + 'a"

section \<open>JWT payloads\<close>

datatype jwtPayload =
    AccessTokenPayload ident string role "ident option"
  | LoginChallengePayload ident ident challengeMethod "string option"

fun payload_sub :: "jwtPayload \<Rightarrow> ident" where
  "payload_sub (AccessTokenPayload sub _ _ _) = sub"
| "payload_sub (LoginChallengePayload sub _ _ _) = sub"

section \<open>Deployment, request and state\<close>

record geoResult =
  geo_country :: string
  geo_city :: string
  geo_timezone :: string

record uaResult =
  ua_browserName :: "string option"
  ua_browserVersion :: "string option"
  ua_osName :: "string option"
  ua_deviceType :: "string option"

record cfg =
  c_riskHighThreshold :: int
  c_refreshExpiryDays :: int
  c_maxTrustedDevices :: int
  c_maxAttempts :: int
  c_lockoutMinutes :: int
  c_gracePeriodDays :: int
  c_accessTokenTtlSeconds :: int
  c_maxResultsPerSearch :: int
  c_hash :: "string \<Rightarrow> string"
  c_argonVerify :: "string \<Rightarrow> string \<Rightarrow> bool"
  c_jwtSign :: "time \<Rightarrow> jwtPayload \<Rightarrow> int \<Rightarrow> string"
  c_jwtVerify :: "time \<Rightarrow> string \<Rightarrow> jwtPayload option"
  c_totpVerify :: "time \<Rightarrow> string \<Rightarrow> string \<Rightarrow> bool"
  c_totpUri :: "string \<Rightarrow> string \<Rightarrow> string"
  c_qrDataUrl :: "string \<Rightarrow> string"
  c_geoLookup :: "string \<Rightarrow> geoResult option"
  c_uaParse :: "string \<Rightarrow> uaResult"
  c_gcmSeal :: "string \<Rightarrow> string \<Rightarrow> string \<times> string"
  c_gcmOpen :: "string \<Rightarrow> string \<Rightarrow> string \<Rightarrow> string option"
  c_startOfDay :: "time \<Rightarrow> time"
  c_nextDay :: "time \<Rightarrow> time"
  c_contains :: "string \<Rightarrow> string \<Rightarrow> bool"

record req =
  q_now :: time
  q_redisUp :: bool
  q_queueUp :: bool
  q_stripeUp :: bool
  q_newId :: ident
  q_newDeviceId :: ident
  q_rawToken :: string
  q_code :: nat
  q_passwordHash :: "string \<Rightarrow> string"
  q_totpSecret :: string
  q_iv :: string
  q_stripeId :: string
  q_checkoutUrl :: "string option"
  q_dbFails :: "nat option"

record world =
  users :: "user list"
  devices :: "device list"
  sessions :: "session list"
  verificationTokens :: "verificationToken list"
  consentRecords :: "consentRecord list"
  invites :: "invite list"
  adminAccessInvites :: "adminAccessInvite list"
  auditLogs :: "auditLog list"
  plans :: "plan list"
  creditPacks :: "creditPack list"
  leadFinderTiers :: "leadFinderTier list"
  subscriptions :: "subscription list"
  leadFinderSubscriptions :: "leadFinderSubscription list"
  invoices :: "invoice list"
  creditGrants :: "creditGrant list"
  leads :: "lead list"
  leadSearchJobs :: "leadSearchJob list"
  leadSearchResults :: "leadSearchResult list"
  contactMessages :: "contactMessage list"
  emailSuppressions :: "string list"
  prospectInviteQueue :: "prospectInvite list"
  campaign :: "campaignSettings option"
  redis :: "redisKey \<Rightarrow> redisEntry option"
  emailQueue :: "emailJob list"
  bulkEmailQueue :: "string list"
  apolloQueue :: "apolloJob list"
  stripeCalls :: "stripeCall list"

definition empty_world :: world where
  "empty_world = \<lparr>users = [], devices = [], sessions = [], verificationTokens = [],
     consentRecords = [], invites = [], adminAccessInvites = [], auditLogs = [], plans = [],
     creditPacks = [], leadFinderTiers = [], subscriptions = [], leadFinderSubscriptions = [],
     invoices = [], creditGrants = [], leads = [], leadSearchJobs = [], leadSearchResults = [],
     contactMessages = [], emailSuppressions = [], prospectInviteQueue = [], campaign = None,
     redis = (\<lambda>_. None), emailQueue = [], bulkEmailQueue = [], apolloQueue = [],
     stripeCalls = []\<rparr>"

end
