(* ===== verification/Infra.thy ===== *)
theory Infra
  imports Schema
begin

text \<open>
  The services every other component calls: the audit log (\<open>audit.service.ts\<close>), the producer
  side of the email queues (\<open>email.service.ts\<close>) and the Redis commands the code uses.

  The audit log is written through \<open>audit_record\<close> only, which appends; \<open>extends_audit\<close> is
  the relation "only appended to the log", and every handler of the development satisfies it.
  A failing queue never fails the caller: \<open>enqueue\<close> drops the job. Redis commands take the
  instant they run at, so that an expired key reads as absent.
\<close>

section \<open>Audit log\<close>

record auditEntry =
  ae_actorUserId :: "ident option"
  ae_action :: string
  ae_targetType :: "string option"
  ae_targetId :: "string option"
  ae_metadata :: "json option"
  ae_ipAddress :: "string option"

definition entry :: "ident option \<Rightarrow> string \<Rightarrow> auditEntry" where
  "entry actor action = \<lparr>ae_actorUserId = actor, ae_action = action, ae_targetType = None,
     ae_targetId = None, ae_metadata = None, ae_ipAddress = None\<rparr>"

definition audit_record :: "req \<Rightarrow> auditEntry \<Rightarrow> world \<Rightarrow> world" where
  "audit_record q e w = w\<lparr>auditLogs := auditLogs w @
     [\<lparr>al_actorUserId = ae_actorUserId e, al_action = ae_action e,
       al_targetType = ae_targetType e, al_targetId = ae_targetId e,
       al_metadata = ae_metadata e, al_ipAddress = ae_ipAddress e, al_createdAt = q_now q\<rparr>]\<rparr>"

definition extends_audit :: "world \<Rightarrow> world \<Rightarrow> bool" where
  "extends_audit w w' \<longleftrightarrow> (\<exists>rows. auditLogs w' = auditLogs w @ rows)"

lemma extends_audit_refl [simp, intro]: "extends_audit w w"
  by (simp add: extends_audit_def)

lemma extends_audit_trans:
  "extends_audit w1 w2 \<Longrightarrow> extends_audit w2 w3 \<Longrightarrow> extends_audit w1 w3"
  by (auto simp: extends_audit_def)

lemma extends_audit_eq: "auditLogs w' = auditLogs w \<Longrightarrow> extends_audit w w'"
  by (simp add: extends_audit_def)

lemma extends_audit_record [intro]: "extends_audit w w' \<Longrightarrow> extends_audit w (audit_record q e w')"
  by (auto simp: extends_audit_def audit_record_def)

lemma audit_record_frame [frame_simps, simp]:
  "users (audit_record q e w) = users w"
  "devices (audit_record q e w) = devices w"
  "sessions (audit_record q e w) = sessions w"
  "verificationTokens (audit_record q e w) = verificationTokens w"
  "consentRecords (audit_record q e w) = consentRecords w"
  "invites (audit_record q e w) = invites w"
  "adminAccessInvites (audit_record q e w) = adminAccessInvites w"
  "plans (audit_record q e w) = plans w"
  "creditPacks (audit_record q e w) = creditPacks w"
  "leadFinderTiers (audit_record q e w) = leadFinderTiers w"
  "subscriptions (audit_record q e w) = subscriptions w"
  "leadFinderSubscriptions (audit_record q e w) = leadFinderSubscriptions w"
  "invoices (audit_record q e w) = invoices w"
  "creditGrants (audit_record q e w) = creditGrants w"
  "leads (audit_record q e w) = leads w"
  "leadSearchJobs (audit_record q e w) = leadSearchJobs w"
  "leadSearchResults (audit_record q e w) = leadSearchResults w"
  "contactMessages (audit_record q e w) = contactMessages w"
  "emailSuppressions (audit_record q e w) = emailSuppressions w"
  "prospectInviteQueue (audit_record q e w) = prospectInviteQueue w"
  "campaign (audit_record q e w) = campaign w"
  "redis (audit_record q e w) = redis w"
  "emailQueue (audit_record q e w) = emailQueue w"
  "bulkEmailQueue (audit_record q e w) = bulkEmailQueue w"
  "apolloQueue (audit_record q e w) = apolloQueue w"
  "stripeCalls (audit_record q e w) = stripeCalls w"
  by (simp_all add: audit_record_def)

lemma audit_record_logs [row_simps]:
  "map al_action (auditLogs (audit_record q e w)) = map al_action (auditLogs w) @ [ae_action e]"
  by (simp add: audit_record_def)

section \<open>Email queues\<close>

text \<open>\<open>EmailService.enqueue\<close>: a queue that does not answer in time is logged and ignored.\<close>

definition enqueue :: "req \<Rightarrow> emailJob \<Rightarrow> world \<Rightarrow> world" where
  "enqueue q job w = (if q_queueUp q then w\<lparr>emailQueue := emailQueue w @ [job]\<rparr> else w)"

lemma enqueue_frame [frame_simps, simp]:
  "users (enqueue q j w) = users w"
  "devices (enqueue q j w) = devices w"
  "sessions (enqueue q j w) = sessions w"
  "verificationTokens (enqueue q j w) = verificationTokens w"
  "consentRecords (enqueue q j w) = consentRecords w"
  "invites (enqueue q j w) = invites w"
  "adminAccessInvites (enqueue q j w) = adminAccessInvites w"
  "auditLogs (enqueue q j w) = auditLogs w"
  "plans (enqueue q j w) = plans w"
  "creditPacks (enqueue q j w) = creditPacks w"
  "leadFinderTiers (enqueue q j w) = leadFinderTiers w"
  "subscriptions (enqueue q j w) = subscriptions w"
  "leadFinderSubscriptions (enqueue q j w) = leadFinderSubscriptions w"
  "invoices (enqueue q j w) = invoices w"
  "creditGrants (enqueue q j w) = creditGrants w"
  "leads (enqueue q j w) = leads w"
  "leadSearchJobs (enqueue q j w) = leadSearchJobs w"
  "leadSearchResults (enqueue q j w) = leadSearchResults w"
  "contactMessages (enqueue q j w) = contactMessages w"
  "emailSuppressions (enqueue q j w) = emailSuppressions w"
  "prospectInviteQueue (enqueue q j w) = prospectInviteQueue w"
  "campaign (enqueue q j w) = campaign w"
  "redis (enqueue q j w) = redis w"
  "bulkEmailQueue (enqueue q j w) = bulkEmailQueue w"
  "apolloQueue (enqueue q j w) = apolloQueue w"
  "stripeCalls (enqueue q j w) = stripeCalls w"
  by (simp_all add: enqueue_def)

lemma extends_audit_enqueue [intro]: "extends_audit w w' \<Longrightarrow> extends_audit w (enqueue q j w')"
  by (simp add: extends_audit_def)

section \<open>Redis\<close>

definition redis_get :: "req \<Rightarrow> redisKey \<Rightarrow> world \<Rightarrow> int option" where
  "redis_get q k w = (case redis w k of
       None \<Rightarrow> None
     | Some e \<Rightarrow> (case re_expiresAt e of
           None \<Rightarrow> Some (re_value e)
         | Some t \<Rightarrow> if q_now q < t then Some (re_value e) else None))"

definition redis_setEx :: "req \<Rightarrow> redisKey \<Rightarrow> int \<Rightarrow> int \<Rightarrow> world \<Rightarrow> world" where
  "redis_setEx q k v ttlSeconds w =
     w\<lparr>redis := (redis w)(k := Some \<lparr>re_value = v,
         re_expiresAt = Some (q_now q + ttlSeconds * 1000)\<rparr>)\<rparr>"

text \<open>\<open>INCR\<close>: an absent or expired key counts as 0 and gets no expiry; the expiry is kept otherwise.\<close>

definition redis_incr :: "req \<Rightarrow> redisKey \<Rightarrow> world \<Rightarrow> int \<times> world" where
  "redis_incr q k w = (case redis_get q k w of
       None \<Rightarrow> (1, w\<lparr>redis := (redis w)(k := Some \<lparr>re_value = 1, re_expiresAt = None\<rparr>)\<rparr>)
     | Some v \<Rightarrow> (v + 1, w\<lparr>redis := (redis w)(k :=
           map_option (\<lambda>e. e\<lparr>re_value := v + 1\<rparr>) (redis w k))\<rparr>))"

definition redis_expire :: "req \<Rightarrow> redisKey \<Rightarrow> int \<Rightarrow> world \<Rightarrow> world" where
  "redis_expire q k ttlSeconds w =
     w\<lparr>redis := (redis w)(k :=
         map_option (\<lambda>e. e\<lparr>re_expiresAt := Some (q_now q + ttlSeconds * 1000)\<rparr>) (redis w k))\<rparr>"

lemma redis_get_setEx [row_simps]:
  "redis_get q' k' (redis_setEx q k v ttl w) =
     (if k' = k then (if q_now q' < q_now q + ttl * 1000 then Some v else None)
      else redis_get q' k' w)"
  by (simp add: redis_get_def redis_setEx_def)

text \<open>Expiring counter: the value \<open>INCR\<close> returns, with the expiry set on the first use only.\<close>

definition redis_count :: "req \<Rightarrow> redisKey \<Rightarrow> int \<Rightarrow> world \<Rightarrow> int \<times> world" where
  "redis_count q k ttlSeconds w =
     (let (n, w1) = redis_incr q k w
      in (n, if n = 1 then redis_expire q k ttlSeconds w1 else w1))"

lemma redis_count_value:
  "fst (redis_count q k ttl w) = nullish (redis_get q k w) 0 + 1"
  by (auto simp: redis_count_def redis_incr_def Let_def split: option.splits)

lemma redis_get_count_same:
  assumes "redis_get q k w = None" and "q_now q' < q_now q + ttl * 1000"
  shows "redis_get q' k (snd (redis_count q k ttl w)) = Some 1"
  using assms
  by (simp add: redis_count_def redis_incr_def redis_expire_def redis_get_def)

lemma redis_get_count_live:
  assumes "redis w k = Some \<lparr>re_value = v, re_expiresAt = Some t\<rparr>"
    and "q_now q < t" and "0 < v"
  shows "redis (snd (redis_count q k ttl w)) k = Some \<lparr>re_value = v + 1, re_expiresAt = Some t\<rparr>"
  using assms by (simp add: redis_count_def redis_incr_def redis_get_def Let_def)

lemma redis_count_other:
  "k' \<noteq> k \<Longrightarrow> redis (snd (redis_count q k ttl w)) k' = redis w k'"
  by (auto simp: redis_count_def redis_incr_def redis_expire_def Let_def split: option.splits)

lemma redis_count_frame [frame_simps, simp]:
  "users (snd (redis_count q k ttl w)) = users w"
  "devices (snd (redis_count q k ttl w)) = devices w"
  "sessions (snd (redis_count q k ttl w)) = sessions w"
  "auditLogs (snd (redis_count q k ttl w)) = auditLogs w"
  "verificationTokens (snd (redis_count q k ttl w)) = verificationTokens w"
  "leadSearchJobs (snd (redis_count q k ttl w)) = leadSearchJobs w"
  "emailQueue (snd (redis_count q k ttl w)) = emailQueue w"
  by (auto simp: redis_count_def redis_incr_def redis_expire_def Let_def split: option.splits)

section \<open>Attempt limits\<close>

text \<open>
  The contract of a limit built on an expiring counter, shared by the login-challenge cap
  and by the anonymous search allowance: an attempt is counted, attempts are allowed until
  \<open>limit\<close> have been counted, and within the window the count never goes back.
\<close>

fun attempts :: "(req \<Rightarrow> world \<Rightarrow> bool \<times> world) \<Rightarrow> req list \<Rightarrow> world \<Rightarrow> bool list" where
  "attempts att [] w = []"
| "attempts att (q # qs) w = fst (att q w) # attempts att qs (snd (att q w))"

lemma length_attempts [simp]: "length (attempts att qs w) = length qs"
  by (induction qs arbitrary: w) auto

locale attempt_limit =
  fixes attempt :: "'k \<Rightarrow> req \<Rightarrow> world \<Rightarrow> bool \<times> world"
    and used :: "'k \<Rightarrow> world \<Rightarrow> int"
    and window :: "'k \<Rightarrow> world \<Rightarrow> time \<Rightarrow> bool"
    and limit :: int
  assumes attempt_counts:
    "window k w (q_now q) \<Longrightarrow> used k (snd (attempt k q w)) = used k w + 1"
    and attempt_allows:
    "window k w (q_now q) \<Longrightarrow> fst (attempt k q w) \<longleftrightarrow> used k w < limit"
    and window_kept:
    "window k w (q_now q) \<Longrightarrow> window k (snd (attempt k q w)) t = window k w t"
begin

text \<open>Inside the window at most \<open>limit - used\<close> further attempts are let through.\<close>

lemma attempts_bound:
  assumes "\<forall>q \<in> set qs. window k w (q_now q)"
  shows "int (length (filter (\<lambda>b. b) (attempts (attempt k) qs w))) \<le> max 0 (limit - used k w)"
  using assms
proof (induction qs arbitrary: w)
  case Nil
  then show ?case by simp
next
  case (Cons q qs)
  let ?w = "snd (attempt k q w)"
  from Cons.prems have q: "window k w (q_now q)" by simp
  have "\<forall>r \<in> set qs. window k ?w (q_now r)"
    using Cons.prems window_kept [OF q] by simp
  then have "int (length (filter (\<lambda>b. b) (attempts (attempt k) qs ?w))) \<le> max 0 (limit - used k ?w)"
    by (rule Cons.IH)
  with attempt_counts [OF q] attempt_allows [OF q] show ?case by auto
qed

text \<open>And the allowed attempts are exactly the first ones.\<close>

lemma attempts_prefix:
  assumes "\<forall>q \<in> set qs. window k w (q_now q)" and "i < length qs"
  shows "attempts (attempt k) qs w ! i \<longleftrightarrow> used k w + int i < limit"
  using assms
proof (induction qs arbitrary: w i)
  case Nil
  then show ?case by simp
next
  case (Cons q qs)
  let ?w = "snd (attempt k q w)"
  from Cons.prems have q: "window k w (q_now q)" by simp
  have "\<forall>r \<in> set qs. window k ?w (q_now r)"
    using Cons.prems window_kept [OF q] by simp
  then show ?case
    using Cons.IH [of ?w] Cons.prems attempt_counts [OF q] attempt_allows [OF q]
    by (cases i) auto
qed

end

end
