(* ===== verification/Users.thy ===== *)
theory Users
  imports Infra
begin

text \<open>
  \<open>users.service.ts\<close> and \<open>users.controller.ts\<close>: lookups by normalised email and by id, the
  single-column updates the other services ask for, the failed-login counter with its lockout.

  \<open>prisma.user.update\<close> by id is \<open>update_user\<close>; it changes nothing when the row is missing,
  where Prisma throws \<open>P2025\<close>. The services call it for a row they have just read; the two
  callers that do not (\<open>updateProfile\<close>, the webhook credit grants) test for the row first.
\<close>

section \<open>Operations\<close>

definition normalizeEmail :: "string \<Rightarrow> string" where
  "normalizeEmail email = toLowerCase (trim email)"

definition findByEmail :: "string \<Rightarrow> world \<Rightarrow> user option" where
  "findByEmail email w = findFirst (\<lambda>u. u_email u = normalizeEmail email) (users w)"

definition findById :: "ident \<Rightarrow> world \<Rightarrow> user option" where
  "findById i w = findFirst (\<lambda>u. u_id u = i) (users w)"

definition update_user :: "ident \<Rightarrow> (user \<Rightarrow> user) \<Rightarrow> world \<Rightarrow> world" where
  "update_user i f w = w\<lparr>users := updateMany (\<lambda>u. u_id u = i) f (users w)\<rparr>"

text \<open>A new row with the column defaults of the schema.\<close>

definition new_user :: "req \<Rightarrow> string \<Rightarrow> string \<Rightarrow> string \<Rightarrow> string option \<Rightarrow> user" where
  "new_user q email fullName passwordHash phone =
     \<lparr>u_id = q_newId q, u_email = email, u_fullName = fullName, u_passwordHash = passwordHash,
      u_phone = phone, u_role = USER, u_status = ACTIVE, u_adminGrantedDirectoryAccess = False,
      u_adminGrantedLeadFinderAccess = False, u_stripeCustomerId = None, u_emailVerifiedAt = None,
      u_twoFactorEnabled = False, u_twoFactorSecret = None, u_failedLoginCount = 0,
      u_lockedUntil = None, u_lastLoginAt = None, u_createdAt = q_now q, u_deletedAt = None,
      u_leadFinderCredits = 100\<rparr>"

text \<open>\<open>prisma.user.create\<close>: the primary key and the email are unique columns.\<close>

definition insert_user :: "user \<Rightarrow> world \<Rightarrow> world result" where
  "insert_user u w =
     (if \<exists>x \<in> set (users w). u_id x = u_id u \<or> u_email x = u_email u then Inl (Internal P2002)
      else Inr (w\<lparr>users := users w @ [u]\<rparr>))"

definition create_user ::
  "req \<Rightarrow> string \<Rightarrow> string \<Rightarrow> string \<Rightarrow> string option \<Rightarrow> world \<Rightarrow> user result \<times> world" where
  "create_user q email fullName passwordHash phone w =
     (let u = new_user q (normalizeEmail email) fullName passwordHash phone
      in case insert_user u w of Inl e \<Rightarrow> (Inl e, w) | Inr w' \<Rightarrow> (Inr u, w'))"

definition updateProfile ::
  "ident \<Rightarrow> string option \<Rightarrow> string option \<Rightarrow> world \<Rightarrow> user result \<times> world" where
  "updateProfile i fullName phone w =
     (let f = (\<lambda>u. u\<lparr>u_fullName := nullish fullName (u_fullName u),
                     u_phone := (case phone of None \<Rightarrow> u_phone u | Some p \<Rightarrow> Some p)\<rparr>)
      in case findById i w of
           None \<Rightarrow> (Inl (Internal P2025), w)
         | Some u \<Rightarrow> (Inr (f u), update_user i f w))"

definition markEmailVerified :: "req \<Rightarrow> ident \<Rightarrow> world \<Rightarrow> world" where
  "markEmailVerified q i w = update_user i (\<lambda>u. u\<lparr>u_emailVerifiedAt := Some (q_now q)\<rparr>) w"

definition updatePasswordHash :: "ident \<Rightarrow> string \<Rightarrow> world \<Rightarrow> world" where
  "updatePasswordHash i h w = update_user i (\<lambda>u. u\<lparr>u_passwordHash := h\<rparr>) w"

definition updateLastLogin :: "req \<Rightarrow> ident \<Rightarrow> world \<Rightarrow> world" where
  "updateLastLogin q i w = update_user i (\<lambda>u. u\<lparr>u_lastLoginAt := Some (q_now q)\<rparr>) w"

definition isLocked :: "req \<Rightarrow> user \<Rightarrow> bool" where
  "isLocked q u = (case u_lockedUntil u of None \<Rightarrow> False | Some t \<Rightarrow> q_now q < t)"

definition registerFailedLogin :: "cfg \<Rightarrow> req \<Rightarrow> ident \<Rightarrow> world \<Rightarrow> bool \<times> world" where
  "registerFailedLogin c q i w =
     (let w1 = update_user i (\<lambda>u. u\<lparr>u_failedLoginCount := u_failedLoginCount u + 1\<rparr>) w
      in case findById i w1 of
           None \<Rightarrow> (False, w1)
         | Some user \<Rightarrow>
             if u_failedLoginCount user \<ge> c_maxAttempts c
             then (True, update_user i
                    (\<lambda>u. u\<lparr>u_failedLoginCount := 0,
                           u_lockedUntil := Some (q_now q + c_lockoutMinutes c * ms_per_minute)\<rparr>) w1)
             else (False, w1))"

definition resetFailedLogins :: "ident \<Rightarrow> world \<Rightarrow> world" where
  "resetFailedLogins i w =
     update_user i (\<lambda>u. u\<lparr>u_failedLoginCount := 0, u_lockedUntil := None\<rparr>) w"

definition setTwoFactorSecret :: "ident \<Rightarrow> string \<Rightarrow> world \<Rightarrow> world" where
  "setTwoFactorSecret i secret w = update_user i (\<lambda>u. u\<lparr>u_twoFactorSecret := Some secret\<rparr>) w"

definition enableTwoFactor :: "ident \<Rightarrow> world \<Rightarrow> world" where
  "enableTwoFactor i w = update_user i (\<lambda>u. u\<lparr>u_twoFactorEnabled := True\<rparr>) w"

definition disableTwoFactor :: "ident \<Rightarrow> world \<Rightarrow> world" where
  "disableTwoFactor i w =
     update_user i (\<lambda>u. u\<lparr>u_twoFactorEnabled := False, u_twoFactorSecret := None\<rparr>) w"

lemmas user_update_defs =
  markEmailVerified_def updatePasswordHash_def updateLastLogin_def resetFailedLogins_def
  setTwoFactorSecret_def enableTwoFactor_def disableTwoFactor_def

subsection \<open>The profile endpoints\<close>

record profile =
  pr_id :: ident
  pr_email :: string
  pr_fullName :: string
  pr_phone :: "string option"
  pr_emailVerified :: bool

definition toProfile :: "user \<Rightarrow> profile" where
  "toProfile u = \<lparr>pr_id = u_id u, pr_email = u_email u, pr_fullName = u_fullName u,
     pr_phone = u_phone u, pr_emailVerified = (u_emailVerifiedAt u \<noteq> None)\<rparr>"

definition getProfile :: "ident \<Rightarrow> world \<Rightarrow> profile result" where
  "getProfile sub w = (case findById sub w of
     None \<Rightarrow> Inl (NotFound User_not_found) | Some u \<Rightarrow> Inr (toProfile u))"

definition patchProfile ::
  "ident \<Rightarrow> string option \<Rightarrow> string option \<Rightarrow> world \<Rightarrow> profile result \<times> world" where
  "patchProfile sub fullName phone w = (case updateProfile sub fullName phone w of
     (Inl e, w') \<Rightarrow> (Inl e, w') | (Inr u, w') \<Rightarrow> (Inr (toProfile u), w'))"

section \<open>Frames and lookups\<close>

lemma update_user_frame [frame_simps, simp]:
  "devices (update_user i f w) = devices w"
  "sessions (update_user i f w) = sessions w"
  "verificationTokens (update_user i f w) = verificationTokens w"
  "consentRecords (update_user i f w) = consentRecords w"
  "invites (update_user i f w) = invites w"
  "adminAccessInvites (update_user i f w) = adminAccessInvites w"
  "auditLogs (update_user i f w) = auditLogs w"
  "plans (update_user i f w) = plans w"
  "creditPacks (update_user i f w) = creditPacks w"
  "leadFinderTiers (update_user i f w) = leadFinderTiers w"
  "subscriptions (update_user i f w) = subscriptions w"
  "leadFinderSubscriptions (update_user i f w) = leadFinderSubscriptions w"
  "invoices (update_user i f w) = invoices w"
  "creditGrants (update_user i f w) = creditGrants w"
  "leads (update_user i f w) = leads w"
  "leadSearchJobs (update_user i f w) = leadSearchJobs w"
  "leadSearchResults (update_user i f w) = leadSearchResults w"
  "emailSuppressions (update_user i f w) = emailSuppressions w"
  "prospectInviteQueue (update_user i f w) = prospectInviteQueue w"
  "redis (update_user i f w) = redis w"
  "emailQueue (update_user i f w) = emailQueue w"
  "apolloQueue (update_user i f w) = apolloQueue w"
  "stripeCalls (update_user i f w) = stripeCalls w"
  by (simp_all add: update_user_def)

lemma findById_SomeD: "findById i w = Some u \<Longrightarrow> u \<in> set (users w) \<and> u_id u = i"
  by (auto simp: findById_def dest: findFirst_SomeD)

lemma findByEmail_SomeD: "findByEmail e w = Some u \<Longrightarrow> u \<in> set (users w) \<and> u_email u = normalizeEmail e"
  by (auto simp: findByEmail_def dest: findFirst_SomeD)

lemma findById_users_cong: "users w' = users w \<Longrightarrow> findById i w' = findById i w"
  by (simp add: findById_def)

lemma findByEmail_users_cong: "users w' = users w \<Longrightarrow> findByEmail i w' = findByEmail i w"
  by (simp add: findByEmail_def)

lemma findById_update_user:
  assumes "\<And>u. u_id (f u) = u_id u"
  shows "findById j (update_user i f w) =
    (if j = i then map_option f (findById j w) else findById j w)"
proof -
  have "findById j (update_user i f w) =
      map_option (\<lambda>u. if u_id u = i then f u else u) (findById j w)"
    using assms by (simp add: findById_def update_user_def findFirst_updateMany)
  then show ?thesis
    by (cases "findById j w") (auto dest: findById_SomeD)
qed

lemma findByEmail_update_user:
  assumes "\<And>u. u_email (f u) = u_email u"
  shows "findByEmail e (update_user i f w) =
    map_option (\<lambda>u. if u_id u = i then f u else u) (findByEmail e w)"
  using assms by (simp add: findByEmail_def update_user_def findFirst_updateMany)

lemma normalizeEmail_idem [simp]: "normalizeEmail (normalizeEmail e) = normalizeEmail e"
  by (simp add: normalizeEmail_def trim_toLowerCase)

section \<open>Invariant\<close>

text \<open>The unique columns of the users table.\<close>

definition users_ok :: "world \<Rightarrow> bool" where
  "users_ok w \<longleftrightarrow> unique_on u_id (users w) \<and> unique_on u_email (users w)"

lemma users_ok_cong: "users w' = users w \<Longrightarrow> users_ok w' = users_ok w"
  by (simp add: users_ok_def)

lemma users_ok_update_user:
  assumes "\<And>u. u_id (f u) = u_id u" and "\<And>u. u_email (f u) = u_email u"
  shows "users_ok (update_user i f w) = users_ok w"
  using assms by (simp add: users_ok_def update_user_def unique_on_updateMany)

lemma users_ok_insert_user: "users_ok w \<Longrightarrow> insert_user u w = Inr w' \<Longrightarrow> users_ok w'"
  by (fastforce simp: users_ok_def insert_user_def unique_on_snoc split: if_splits)

lemma findByEmail_findById:
  assumes "users_ok w" and "findByEmail e w = Some u"
  shows "findById (u_id u) w = Some u"
  using assms findFirst_unique [of u_id "users w" u]
  by (auto simp: users_ok_def findById_def dest: findByEmail_SomeD)

section \<open>Lockout\<close>

lemma registerFailedLogin_cases:
  assumes "findById i w = Some u"
  shows "registerFailedLogin c q i w =
    (if u_failedLoginCount u + 1 \<ge> c_maxAttempts c
     then (True, update_user i (\<lambda>u. u\<lparr>u_failedLoginCount := 0,
            u_lockedUntil := Some (q_now q + c_lockoutMinutes c * ms_per_minute)\<rparr>) w)
     else (False, update_user i (\<lambda>u. u\<lparr>u_failedLoginCount := u_failedLoginCount u + 1\<rparr>) w))"
  using assms
  by (simp add: registerFailedLogin_def findById_update_user Let_def)
    (auto simp: update_user_def updateMany_def)

lemma findById_registerFailedLogin:
  assumes "findById i w = Some u"
  shows "findById i (snd (registerFailedLogin c q i w)) =
    Some (if u_failedLoginCount u + 1 \<ge> c_maxAttempts c
          then u\<lparr>u_failedLoginCount := 0,
                 u_lockedUntil := Some (q_now q + c_lockoutMinutes c * ms_per_minute)\<rparr>
          else u\<lparr>u_failedLoginCount := u_failedLoginCount u + 1\<rparr>)"
  using assms by (simp add: registerFailedLogin_cases findById_update_user)

lemma registerFailedLogin_frame [frame_simps, simp]:
  "devices (snd (registerFailedLogin c q i w)) = devices w"
  "sessions (snd (registerFailedLogin c q i w)) = sessions w"
  "verificationTokens (snd (registerFailedLogin c q i w)) = verificationTokens w"
  "auditLogs (snd (registerFailedLogin c q i w)) = auditLogs w"
  "redis (snd (registerFailedLogin c q i w)) = redis w"
  "emailQueue (snd (registerFailedLogin c q i w)) = emailQueue w"
  by (auto simp: registerFailedLogin_def Let_def split: option.splits)

lemma users_ok_registerFailedLogin:
  "users_ok (snd (registerFailedLogin c q i w)) = users_ok w"
  by (auto simp: registerFailedLogin_def Let_def users_ok_update_user split: option.splits)

end
