(* ===== verification/Samples.thy ===== *)
theory Samples
  imports Schema
begin

text \<open>
  Concrete data on which the theorems are instantiated: a deployment with the default
  configuration of \<open>.env.example\<close> and simple concrete functions in the place of the
  third-party packages, requests at a given instant, and one row of each of the main tables.
\<close>

definition sample_payload :: "string \<Rightarrow> jwtPayload option" where
  "sample_payload tok =
     (if tok = ''access'' then Some (AccessTokenPayload ''u1'' ''ann@example.com'' USER None)
      else if tok = ''admin'' then Some (AccessTokenPayload ''a1'' ''root@example.com'' ADMIN None)
      else if tok = ''challenge'' then Some (LoginChallengePayload ''u1'' ''d1'' EMAIL_CODE (Some ''000042''))
      else None)"

definition sample_cfg :: cfg where
  "sample_cfg = \<lparr>c_riskHighThreshold = 50, c_refreshExpiryDays = 30, c_maxTrustedDevices = 3,
     c_maxAttempts = 5, c_lockoutMinutes = 15, c_gracePeriodDays = 7,
     c_accessTokenTtlSeconds = 900, c_maxResultsPerSearch = 25,
     c_hash = (\<lambda>s. s), c_argonVerify = (\<lambda>h p. h = p),
     c_jwtSign = (\<lambda>_ p _. case p of AccessTokenPayload _ _ _ _ \<Rightarrow> ''access''
                                | LoginChallengePayload _ _ _ _ \<Rightarrow> ''challenge''),
     c_jwtVerify = (\<lambda>_ tok. sample_payload tok),
     c_totpVerify = (\<lambda>_ tok secret. tok = secret), c_totpUri = (\<lambda>a b. a @ b),
     c_qrDataUrl = (\<lambda>s. s), c_geoLookup = (\<lambda>_. None),
     c_uaParse = (\<lambda>_. \<lparr>ua_browserName = None, ua_browserVersion = None, ua_osName = None,
                       ua_deviceType = None\<rparr>),
     c_gcmSeal = (\<lambda>_ p. (p, replicate 16 (CHR ''t''))), c_gcmOpen = (\<lambda>_ p _. Some p),
     c_startOfDay = (\<lambda>t. t div 86400000 * 86400000), c_nextDay = (\<lambda>t. (t div 86400000 + 1) * 86400000),
     c_contains = (\<lambda>s p. js_includes (toLowerCase s) (toLowerCase p))\<rparr>"

definition sample_req :: "time \<Rightarrow> req" where
  "sample_req t = \<lparr>q_now = t, q_redisUp = True, q_queueUp = True, q_stripeUp = True,
     q_newId = ''n1'', q_newDeviceId = ''d9'', q_rawToken = ''fresh'', q_code = 42,
     q_passwordHash = (\<lambda>p. p), q_totpSecret = ''secret'', q_iv = ''iv'',
     q_stripeId = ''cus_1'', q_checkoutUrl = Some ''https://checkout'', q_dbFails = None\<rparr>"

definition sample_user :: user where
  "sample_user = \<lparr>u_id = ''u1'', u_email = ''ann@example.com'', u_fullName = ''Ann'',
     u_passwordHash = ''pw'', u_phone = None, u_role = USER, u_status = ACTIVE,
     u_adminGrantedDirectoryAccess = False, u_adminGrantedLeadFinderAccess = False,
     u_stripeCustomerId = None, u_emailVerifiedAt = None, u_twoFactorEnabled = False,
     u_twoFactorSecret = None, u_failedLoginCount = 0, u_lockedUntil = None,
     u_lastLoginAt = None, u_createdAt = 0, u_deletedAt = None, u_leadFinderCredits = 100\<rparr>"

definition sample_device :: device where
  "sample_device = \<lparr>d_id = ''d1'', d_userId = ''u1'', d_fingerprint = ''laptop'',
     d_browserName = None, d_browserVersion = None, d_os = None, d_deviceType = None,
     d_isTrusted = False, d_trustedAt = None, d_firstSeenAt = 0, d_lastSeenAt = 0\<rparr>"

definition sample_session :: session where
  "sample_session = \<lparr>s_id = ''s1'', s_userId = ''u1'', s_deviceId = Some ''d1'',
     s_tokenHash = ''tok'', s_ipAddress = None, s_country = None, s_city = None,
     s_timezone = None, s_riskScore = 0, s_riskSignals = None, s_replacedByTokenId = None,
     s_createdAt = 0, s_lastActivityAt = 0, s_expiresAt = 1000000, s_revokedAt = None\<rparr>"

definition sample_world :: world where
  "sample_world = empty_world\<lparr>users := [sample_user], devices := [sample_device],
     sessions := [sample_session]\<rparr>"

lemmas sample_defs =
  sample_payload_def sample_cfg_def sample_req_def sample_user_def sample_device_def
  sample_session_def sample_world_def empty_world_def

end
