(* ===== verification/Crypto.thy ===== *)
theory Crypto
  imports Infra Samples
begin

text \<open>
  The helpers of \<open>src/common\<close> that turn values into other values: one-time codes
  (\<open>token.service.ts\<close>), the storage format of encrypted TOTP secrets
  (\<open>encryption.service.ts\<close>), device identity and description
  (\<open>device-fingerprint.util.ts\<close>) and IP geolocation (\<open>geoip.service.ts\<close>).

  Node's base64 codec is written out: the encoder with padding, and the lenient decoder that
  skips characters outside the alphabet and stops at the first \<open>=\<close>. AES-256-GCM under the
  configured key is a pair of parameters of \<open>cfg\<close>; \<open>gcm_laws\<close> is what the code relies on.
  A \<open>string\<close> is a list of bytes.
\<close>

section \<open>Decimal numbers\<close>

definition digit_char :: "nat \<Rightarrow> char" where
  "digit_char d = char_of (48 + d)"

fun show_nat :: "nat \<Rightarrow> string" where
  "show_nat n = (if n < 10 then [digit_char n] else show_nat (n div 10) @ [digit_char (n mod 10)])"

declare show_nat.simps [simp del]

definition padStart :: "nat \<Rightarrow> char \<Rightarrow> string \<Rightarrow> string" where
  "padStart n c s = replicate (n - length s) c @ s"

text \<open>\<open>randomInt(0, 1_000_000).toString().padStart(6, '0')\<close>, with the drawn number given.\<close>

definition generateNumericCode :: "nat \<Rightarrow> string" where
  "generateNumericCode n = padStart 6 (digit_char 0) (show_nat n)"

fun decimal :: "nat \<Rightarrow> string \<Rightarrow> nat" where
  "decimal acc [] = acc"
| "decimal acc (c # cs) = decimal (10 * acc + (of_char c - 48)) cs"

lemma decimal_append: "decimal acc (xs @ ys) = decimal (decimal acc xs) ys"
  by (induction xs arbitrary: acc) auto

lemma of_digit_char: "d < 10 \<Longrightarrow> (of_char (digit_char d) :: nat) = 48 + d"
  by (simp add: digit_char_def of_char_of take_bit_eq_mod)

lemma decimal_zeros: "decimal 0 (replicate k (digit_char 0)) = 0"
  by (induction k) (simp_all add: of_digit_char)

lemma decimal_show_nat: "decimal 0 (show_nat n) = n"
proof (induction n rule: show_nat.induct)
  case (1 n)
  then show ?case
    by (subst show_nat.simps) (simp add: decimal_append of_digit_char)
qed

lemma length_show_nat: "0 < k \<Longrightarrow> n < 10 ^ k \<Longrightarrow> length (show_nat n) \<le> k"
proof (induction n arbitrary: k rule: show_nat.induct)
  case (1 n)
  show ?case
  proof (cases "n < 10")
    case True
    with 1 show ?thesis by (subst show_nat.simps) simp
  next
    case False
    with "1.prems" have "k \<noteq> 1" by auto
    with "1.prems" obtain j where k: "k = Suc j" "0 < j" by (cases k) auto
    with "1.prems" have "n div 10 < 10 ^ j" by auto
    with False k "1.IH" [of j] show ?thesis by (subst show_nat.simps) simp
  qed
qed

lemma set_show_nat: "set (show_nat n) \<subseteq> digit_char ` {..<10}"
proof (induction n rule: show_nat.induct)
  case (1 n)
  then show ?case by (subst show_nat.simps) auto
qed

lemma decimal_generateNumericCode: "decimal 0 (generateNumericCode n) = n"
  by (simp add: generateNumericCode_def padStart_def decimal_append decimal_zeros decimal_show_nat)

lemma length_generateNumericCode: "n < 1000000 \<Longrightarrow> length (generateNumericCode n) = 6"
  using length_show_nat [of 6 n] by (simp add: generateNumericCode_def padStart_def)

section \<open>Base64\<close>

text \<open>The alphabet: \<open>A-Z\<close>, \<open>a-z\<close>, \<open>0-9\<close>, \<open>+\<close>, \<open>/\<close>.\<close>

definition b64_char :: "nat \<Rightarrow> char" where
  "b64_char i = (if i < 26 then char_of (65 + i) else if i < 52 then char_of (71 + i)
     else if i < 62 then char_of (i - 4) else if i = 62 then CHR ''+'' else CHR ''/'')"

text \<open>The value of a character: the standard alphabet, then the two URL-safe variants.\<close>

definition b64_val :: "char \<Rightarrow> nat option" where
  "b64_val c = (let n = (of_char c :: nat) in
     if 65 \<le> n \<and> n \<le> 90 then Some (n - 65)
     else if 97 \<le> n \<and> n \<le> 122 then Some (n - 71)
     else if 48 \<le> n \<and> n \<le> 57 then Some (n + 4)
     else if n = 43 \<or> n = 45 then Some 62
     else if n = 47 \<or> n = 95 then Some 63
     else None)"

fun toBase64 :: "string \<Rightarrow> string" where
  "toBase64 [] = []"
| "toBase64 [a] =
     (let x = of_char a in [b64_char (x div 4), b64_char (x mod 4 * 16), CHR ''='', CHR ''=''])"
| "toBase64 [a, b] =
     (let x = of_char a; y = of_char b in
      [b64_char (x div 4), b64_char (x mod 4 * 16 + y div 16), b64_char (y mod 16 * 4), CHR ''=''])"
| "toBase64 (a # b # c # rest) =
     (let x = of_char a; y = of_char b; z = of_char c in
      b64_char (x div 4) # b64_char (x mod 4 * 16 + y div 16)
      # b64_char (y mod 16 * 4 + z div 64) # b64_char (z mod 64) # toBase64 rest)"

fun b64_bytes :: "nat list \<Rightarrow> string" where
  "b64_bytes (i # j # k # l # rest) =
     char_of (i * 4 + j div 16) # char_of (j mod 16 * 16 + k div 4) # char_of (k mod 4 * 64 + l)
     # b64_bytes rest"
| "b64_bytes [i, j, k] = [char_of (i * 4 + j div 16), char_of (j mod 16 * 16 + k div 4)]"
| "b64_bytes [i, j] = [char_of (i * 4 + j div 16)]"
| "b64_bytes [i] = []"
| "b64_bytes [] = []"

definition fromBase64 :: "string \<Rightarrow> string" where
  "fromBase64 s = b64_bytes (List.map_filter b64_val (takeWhile (\<lambda>c. c \<noteq> CHR ''='') s))"

lemma b64_val_char: "i < 64 \<Longrightarrow> b64_val (b64_char i) = Some i"
  by (auto simp: b64_char_def b64_val_def Let_def)

lemma b64_char_props:
  "i < 64 \<Longrightarrow> b64_val (b64_char i) = Some i"
  "i < 64 \<Longrightarrow> b64_char i \<noteq> CHR ''=''"
  "i < 64 \<Longrightarrow> b64_char i \<noteq> CHR '':''"
proof -
  have "b64_val (CHR ''='') = None" "b64_val (CHR '':'') = None"
    by (simp_all add: b64_val_def)
  then show "i < 64 \<Longrightarrow> b64_val (b64_char i) = Some i"
    "i < 64 \<Longrightarrow> b64_char i \<noteq> CHR ''=''" "i < 64 \<Longrightarrow> b64_char i \<noteq> CHR '':''"
    using b64_val_char [of i] by auto
qed

lemma of_char_lt: "(of_char c :: nat) < 256"
  by (metis of_char_mod_256 mod_less_divisor zero_less_numeral)

text \<open>The sextets of up to three bytes, and the bytes they give back.\<close>

lemma six_bits:
  fixes x y z :: nat
  shows "x < 256 \<Longrightarrow> x div 4 < 64"
    and "x mod 4 * 16 < 64"
    and "y < 256 \<Longrightarrow> x mod 4 * 16 + y div 16 < 64"
    and "y mod 16 * 4 < 64"
    and "z < 256 \<Longrightarrow> y mod 16 * 4 + z div 64 < 64"
    and "z mod 64 < 64"
proof -
  have "x mod 4 < 4" "y mod 16 < 16" by simp_all
  moreover have "y < 256 \<Longrightarrow> y div 16 < 16" "z < 256 \<Longrightarrow> z div 64 < 4" by auto
  ultimately show "x < 256 \<Longrightarrow> x div 4 < 64" "x mod 4 * 16 < 64"
    "y < 256 \<Longrightarrow> x mod 4 * 16 + y div 16 < 64" "y mod 16 * 4 < 64"
    "z < 256 \<Longrightarrow> y mod 16 * 4 + z div 64 < 64" "z mod 64 < 64"
    by linarith+
qed

lemma eight_bits:
  fixes x y z :: nat
  shows "y < 256 \<Longrightarrow> x + y div 16 div 16 = x"
    and "y < 256 \<Longrightarrow> z < 256 \<Longrightarrow> y div 16 mod 16 * 16 + (y mod 16 + z div 64 div 4) = y"
    and "z < 256 \<Longrightarrow> z div 64 mod 4 * 64 + z mod 64 = z"
  by auto

lemmas base64_arith = b64_char_props six_bits eight_bits of_char_lt

lemma fromBase64_toBase64 [simp]: "fromBase64 (toBase64 s) = s"
proof (induction s rule: toBase64.induct)
  case 1
  then show ?case by (simp add: fromBase64_def)
next
  case (2 a)
  have "(of_char a :: nat) div 4 * 4 + of_char a mod 4 = of_char a" by simp
  then show ?case
    by (simp add: fromBase64_def Let_def map_filter_simps base64_arith)
next
  case (3 a b)
  show ?case
    using eight_bits(2) [of "of_char b" 0]
    by (simp add: fromBase64_def Let_def map_filter_simps base64_arith)
next
  case (4 a b c rest)
  then show ?case
    by (simp add: fromBase64_def Let_def map_filter_simps base64_arith)
qed

lemma toBase64_no_colon: "CHR '':'' \<notin> set (toBase64 s)"
  by (induction s rule: toBase64.induct)
    (simp_all add: Let_def six_bits of_char_lt b64_char_props(3) [symmetric])

lemma toBase64_Nil_iff [simp]: "toBase64 s = [] \<longleftrightarrow> s = []"
  by (cases s rule: toBase64.cases) (simp_all add: Let_def)

section \<open>Encryption at rest\<close>

text \<open>\<open>payload.split(':')\<close>.\<close>

abbreviation splitColon :: "string \<Rightarrow> string list" where
  "splitColon \<equiv> js_split (CHR '':'')"

definition encrypt :: "cfg \<Rightarrow> req \<Rightarrow> string \<Rightarrow> string" where
  "encrypt c q plaintext =
     (let (ciphertext, authTag) = c_gcmSeal c (q_iv q) plaintext
      in toBase64 (q_iv q) @ '':'' @ toBase64 authTag @ '':'' @ toBase64 ciphertext)"

definition decrypt :: "cfg \<Rightarrow> string \<Rightarrow> string option" where
  "decrypt c payload =
     (case splitColon payload of
        ivB64 # authTagB64 # ciphertextB64 # _ \<Rightarrow>
          if ivB64 = [] \<or> authTagB64 = [] \<or> ciphertextB64 = [] then None
          else c_gcmOpen c (fromBase64 ivB64) (fromBase64 ciphertextB64) (fromBase64 authTagB64)
      | _ \<Rightarrow> None)"

text \<open>
  What AES-256-GCM promises: opening what was sealed under the same IV gives the plaintext
  back, the ciphertext is as long as the plaintext, the tag has 16 bytes.
\<close>

definition gcm_laws :: "cfg \<Rightarrow> bool" where
  "gcm_laws c \<longleftrightarrow> (\<forall>iv p. let (ct, tag) = c_gcmSeal c iv p in
     c_gcmOpen c iv ct tag = Some p \<and> length ct = length p \<and> length tag = 16)"

lemma splitColon_encrypt:
  assumes "c_gcmSeal c (q_iv q) p = (ct, tag)"
  shows "splitColon (encrypt c q p) = [toBase64 (q_iv q), toBase64 tag, toBase64 ct]"
  using assms
  by (simp add: encrypt_def js_split_append js_split_plain toBase64_no_colon)

section \<open>Devices and addresses\<close>

definition hashDeviceId :: "cfg \<Rightarrow> string \<Rightarrow> string" where
  "hashDeviceId c rawDeviceId = c_hash c rawDeviceId"

record deviceDescriptor =
  dd_browserName :: "string option"
  dd_browserVersion :: "string option"
  dd_os :: "string option"
  dd_deviceType :: "string option"

definition describeUserAgent :: "cfg \<Rightarrow> string option \<Rightarrow> deviceDescriptor" where
  "describeUserAgent c userAgent =
     (if \<not> truthy userAgent
      then \<lparr>dd_browserName = None, dd_browserVersion = None, dd_os = None, dd_deviceType = None\<rparr>
      else (let parsed = c_uaParse c (the userAgent) in
        \<lparr>dd_browserName = ua_browserName parsed, dd_browserVersion = ua_browserVersion parsed,
         dd_os = ua_osName parsed,
         dd_deviceType = Some (nullish (ua_deviceType parsed) ''desktop'')\<rparr>))"

record geoLocation =
  gl_country :: string
  gl_city :: "string option"
  gl_timezone :: "string option"

definition strip_prefix :: "string \<Rightarrow> string \<Rightarrow> string" where
  "strip_prefix pre s = (if take (length pre) s = pre then drop (length pre) s else s)"

definition geo_lookup :: "cfg \<Rightarrow> string option \<Rightarrow> geoLocation option" where
  "geo_lookup c ipAddress =
     (if \<not> truthy ipAddress then None
      else (let ip = the ipAddress;
                normalized = (if ip = ''::1'' then ''127.0.0.1'' else strip_prefix ''::ffff:'' ip)
            in case c_geoLookup c normalized of
                 None \<Rightarrow> None
               | Some r \<Rightarrow> Some \<lparr>gl_country = geo_country r,
                   gl_city = (if geo_city r = [] then None else Some (geo_city r)),
                   gl_timezone = (if geo_timezone r = [] then None else Some (geo_timezone r))\<rparr>))"

section \<open>Properties\<close>

text \<open>
  A value encrypted with \<open>EncryptionService.encrypt\<close> is given back by \<open>decrypt\<close>, for every
  plaintext that is not empty, whatever (non-empty) IV was drawn: the colons that join the
  three base64 parts never occur inside them.
\<close>

theorem encryption_roundtrip:
  assumes "gcm_laws c" and "q_iv q \<noteq> []" and "p \<noteq> []"
  shows "decrypt c (encrypt c q p) = Some p"
proof -
  obtain ct tag where seal: "c_gcmSeal c (q_iv q) p = (ct, tag)" by (cases "c_gcmSeal c (q_iv q) p")
  with assms(1) have "c_gcmOpen c (q_iv q) ct tag = Some p" "length ct = length p" "length tag = 16"
    by (auto simp: gcm_laws_def dest: spec [of _ "q_iv q"] split: prod.splits)
  with assms(2,3) have "ct \<noteq> []" "tag \<noteq> []" "c_gcmOpen c (q_iv q) ct tag = Some p" by auto
  then show ?thesis
    using assms(2) by (simp add: decrypt_def splitColon_encrypt [OF seal])
qed

theorem encryption_roundtrip_witness:
  "decrypt sample_cfg (encrypt sample_cfg (sample_req 0) ''JBSWY3DP'') = Some ''JBSWY3DP''"
proof (rule encryption_roundtrip)
  show "gcm_laws sample_cfg" by (simp add: gcm_laws_def sample_cfg_def)
qed (simp_all add: sample_req_def)

text \<open>
  The six-digit codes emailed for a new device: for every number \<open>randomInt(0, 1_000_000)\<close>
  can draw, the code has exactly six characters, all digits, and reads back as that number,
  so no two draws give the same code.
\<close>

theorem numeric_code_six_digits:
  assumes "n < 1000000"
  shows "length (generateNumericCode n) = 6
    \<and> set (generateNumericCode n) \<subseteq> digit_char ` {..<10}
    \<and> decimal 0 (generateNumericCode n) = n"
proof (intro conjI)
  show "length (generateNumericCode n) = 6" using assms by (rule length_generateNumericCode)
  show "set (generateNumericCode n) \<subseteq> digit_char ` {..<10}"
    using set_show_nat [of n] by (auto simp: generateNumericCode_def padStart_def)
  show "decimal 0 (generateNumericCode n) = n" by (rule decimal_generateNumericCode)
qed

theorem numeric_code_six_digits_witness:
  "generateNumericCode 42 = ''000042'' \<and> length (generateNumericCode 42) = 6
   \<and> decimal 0 (generateNumericCode 42) = 42"
proof -
  have "generateNumericCode 42 = ''000042''" by code_simp
  with numeric_code_six_digits [of 42] show ?thesis by simp
qed

end
