(* ===== verification/Sessions.thy ===== *)
theory Sessions
  imports Users Crypto Samples "HOL-Library.Multiset"
begin

text \<open>
  \<open>sessions.service.ts\<close>: refresh-token sessions, the concurrent-session cap, rotation and
  revocation; \<open>devices.service.ts\<close>: recognised and trusted devices; \<open>risk.service.ts\<close>: the
  point score of a login.

  A refresh token is live when its session is neither revoked nor expired. The invariant
  \<open>sessions_ok\<close> states the unique columns and the foreign keys of the two tables;
  \<open>session_evolves\<close> says how any operation may change the session table: rows are never
  removed, keep their owner, hash and expiry, and a revoked row stays revoked.
\<close>

section \<open>Sessions\<close>

definition session_live :: "time \<Rightarrow> session \<Rightarrow> bool" where
  "session_live now s \<longleftrightarrow> s_revokedAt s = None \<and> now < s_expiresAt s"

definition update_sessions :: "(session \<Rightarrow> bool) \<Rightarrow> (session \<Rightarrow> session) \<Rightarrow> world \<Rightarrow> world" where
  "update_sessions p f w = w\<lparr>sessions := updateMany p f (sessions w)\<rparr>"

definition revoke_row :: "req \<Rightarrow> session \<Rightarrow> session" where
  "revoke_row q s = s\<lparr>s_revokedAt := Some (q_now q)\<rparr>"

definition enforceLimit :: "cfg \<Rightarrow> req \<Rightarrow> ident \<Rightarrow> world \<Rightarrow> world" where
  "enforceLimit c q userId w =
     (let active = orderAsc s_createdAt
            (findMany (\<lambda>s. s_userId s = userId \<and> session_live (q_now q) s) (sessions w));
          overBy = int (length active) - c_maxTrustedDevices c + 1
      in if overBy \<le> 0 then w
         else update_sessions (\<lambda>s. s_id s \<in> set (map s_id (take (nat overBy) active)))
                (revoke_row q) w)"

record createSessionInput =
  ci_userId :: ident
  ci_deviceId :: "ident option"
  ci_ipAddress :: "string option"
  ci_country :: "string option"
  ci_city :: "string option"
  ci_timezone :: "string option"
  ci_riskScore :: int
  ci_riskSignals :: "json option"

definition new_session :: "cfg \<Rightarrow> req \<Rightarrow> createSessionInput \<Rightarrow> session" where
  "new_session c q i =
     \<lparr>s_id = q_newId q, s_userId = ci_userId i, s_deviceId = ci_deviceId i,
      s_tokenHash = c_hash c (q_rawToken q), s_ipAddress = ci_ipAddress i,
      s_country = ci_country i, s_city = ci_city i, s_timezone = ci_timezone i,
      s_riskScore = ci_riskScore i, s_riskSignals = ci_riskSignals i,
      s_replacedByTokenId = None, s_createdAt = q_now q, s_lastActivityAt = q_now q,
      s_expiresAt = q_now q + c_refreshExpiryDays c * ms_per_day, s_revokedAt = None\<rparr>"

text \<open>
  \<open>SessionsService.create\<close>: the id and the token hash are unique columns, the user and the
  device are foreign keys.
\<close>

definition create_session ::
  "cfg \<Rightarrow> req \<Rightarrow> createSessionInput \<Rightarrow> world \<Rightarrow> (string \<times> session) result \<times> world" where
  "create_session c q i w =
     (let s = new_session c q i in
      if \<exists>x \<in> set (sessions w). s_id x = s_id s \<or> s_tokenHash x = s_tokenHash s
      then (Inl (Internal P2002), w)
      else if ci_userId i \<notin> u_id ` set (users w) then (Inl (Internal P2003), w)
      else if \<exists>d. ci_deviceId i = Some d \<and> d \<notin> d_id ` set (devices w)
      then (Inl (Internal P2003), w)
      else (Inr (q_rawToken q, s), w\<lparr>sessions := sessions w @ [s]\<rparr>))"

definition findActiveByRawToken :: "cfg \<Rightarrow> req \<Rightarrow> string \<Rightarrow> world \<Rightarrow> session option" where
  "findActiveByRawToken c q rawToken w =
     findFirst (\<lambda>s. s_tokenHash s = c_hash c rawToken \<and> session_live (q_now q) s) (sessions w)"

definition findAnyByRawToken :: "cfg \<Rightarrow> string \<Rightarrow> world \<Rightarrow> session option" where
  "findAnyByRawToken c rawToken w =
     findFirst (\<lambda>s. s_tokenHash s = c_hash c rawToken) (sessions w)"

definition findSessionById :: "ident \<Rightarrow> world \<Rightarrow> session option" where
  "findSessionById i w = findFirst (\<lambda>s. s_id s = i) (sessions w)"

text \<open>The fields a rotation passes; the rest stay at the column defaults.\<close>

definition rotation_input :: "session \<Rightarrow> string option \<Rightarrow> createSessionInput" where
  "rotation_input oldSession ipAddress =
     \<lparr>ci_userId = s_userId oldSession, ci_deviceId = s_deviceId oldSession,
      ci_ipAddress = ipAddress, ci_country = None, ci_city = None, ci_timezone = None,
      ci_riskScore = 0, ci_riskSignals = None\<rparr>"

definition rotate_session ::
  "cfg \<Rightarrow> req \<Rightarrow> session \<Rightarrow> string option \<Rightarrow> world \<Rightarrow> (string \<times> session) result \<times> world" where
  "rotate_session c q oldSession ipAddress w =
     (case create_session c q (rotation_input oldSession ipAddress) w of
        (Inl e, w1) \<Rightarrow> (Inl e, w1)
      | (Inr (rawToken, s), w1) \<Rightarrow>
          (Inr (rawToken, s),
           update_sessions (\<lambda>x. s_id x = s_id oldSession)
             (\<lambda>x. (revoke_row q x)\<lparr>s_replacedByTokenId := Some (s_id s)\<rparr>) w1))"

definition revoke :: "req \<Rightarrow> ident \<Rightarrow> world \<Rightarrow> world" where
  "revoke q sessionId w = update_sessions (\<lambda>s. s_id s = sessionId) (revoke_row q) w"

definition revokeAllForUser :: "req \<Rightarrow> ident \<Rightarrow> world \<Rightarrow> world" where
  "revokeAllForUser q userId w =
     update_sessions (\<lambda>s. s_userId s = userId \<and> s_revokedAt s = None) (revoke_row q) w"

definition touchActivity :: "req \<Rightarrow> ident \<Rightarrow> world \<Rightarrow> world" where
  "touchActivity q sessionId w =
     update_sessions (\<lambda>s. s_id s = sessionId) (\<lambda>s. s\<lparr>s_lastActivityAt := q_now q\<rparr>) w"

text \<open>
  The client's view of its own sessions: the columns of the explicit \<open>select\<close>, which has
  neither the token hash nor the successor link.
\<close>

record deviceView =
  dv_id :: ident
  dv_browserName :: "string option"
  dv_browserVersion :: "string option"
  dv_os :: "string option"
  dv_deviceType :: "string option"
  dv_isTrusted :: bool
  dv_firstSeenAt :: time
  dv_lastSeenAt :: time

record sessionView =
  sv_id :: ident
  sv_deviceId :: "ident option"
  sv_ipAddress :: "string option"
  sv_country :: "string option"
  sv_city :: "string option"
  sv_timezone :: "string option"
  sv_createdAt :: time
  sv_lastActivityAt :: time
  sv_expiresAt :: time
  sv_device :: "deviceView option"

definition device_view :: "device \<Rightarrow> deviceView" where
  "device_view d = \<lparr>dv_id = d_id d, dv_browserName = d_browserName d,
     dv_browserVersion = d_browserVersion d, dv_os = d_os d, dv_deviceType = d_deviceType d,
     dv_isTrusted = d_isTrusted d, dv_firstSeenAt = d_firstSeenAt d, dv_lastSeenAt = d_lastSeenAt d\<rparr>"

definition session_view :: "world \<Rightarrow> session \<Rightarrow> sessionView" where
  "session_view w s = \<lparr>sv_id = s_id s, sv_deviceId = s_deviceId s, sv_ipAddress = s_ipAddress s,
     sv_country = s_country s, sv_city = s_city s, sv_timezone = s_timezone s,
     sv_createdAt = s_createdAt s, sv_lastActivityAt = s_lastActivityAt s,
     sv_expiresAt = s_expiresAt s,
     sv_device = (case s_deviceId s of None \<Rightarrow> None
        | Some i \<Rightarrow> map_option device_view (findFirst (\<lambda>d. d_id d = i) (devices w)))\<rparr>"

definition listActiveForUser :: "ident \<Rightarrow> world \<Rightarrow> sessionView list" where
  "listActiveForUser userId w =
     map (session_view w) (orderDesc s_lastActivityAt
       (findMany (\<lambda>s. s_userId s = userId \<and> s_revokedAt s = None) (sessions w)))"

section \<open>Devices\<close>

definition update_devices :: "(device \<Rightarrow> bool) \<Rightarrow> (device \<Rightarrow> device) \<Rightarrow> world \<Rightarrow> world" where
  "update_devices p f w = w\<lparr>devices := updateMany p f (devices w)\<rparr>"

definition find_device :: "ident \<Rightarrow> world \<Rightarrow> device option" where
  "find_device i w = findFirst (\<lambda>d. d_id d = i) (devices w)"

definition new_device :: "req \<Rightarrow> ident \<Rightarrow> string \<Rightarrow> deviceDescriptor \<Rightarrow> device" where
  "new_device q userId fingerprint dd =
     \<lparr>d_id = q_newDeviceId q, d_userId = userId, d_fingerprint = fingerprint,
      d_browserName = dd_browserName dd, d_browserVersion = dd_browserVersion dd,
      d_os = dd_os dd, d_deviceType = dd_deviceType dd, d_isTrusted = False,
      d_trustedAt = None, d_firstSeenAt = q_now q, d_lastSeenAt = q_now q\<rparr>"

definition findOrCreateDevice ::
  "req \<Rightarrow> ident \<Rightarrow> string \<Rightarrow> deviceDescriptor \<Rightarrow> world \<Rightarrow> (device \<times> bool) result \<times> world" where
  "findOrCreateDevice q userId fingerprint dd w =
     (case findFirst (\<lambda>d. d_userId d = userId \<and> d_fingerprint d = fingerprint) (devices w) of
        Some existing \<Rightarrow>
          (Inr (existing\<lparr>d_lastSeenAt := q_now q\<rparr>, False),
           update_devices (\<lambda>d. d_id d = d_id existing) (\<lambda>d. d\<lparr>d_lastSeenAt := q_now q\<rparr>) w)
      | None \<Rightarrow>
          (let d = new_device q userId fingerprint dd in
           if d_id d \<in> d_id ` set (devices w) then (Inl (Internal P2002), w)
           else if userId \<notin> u_id ` set (users w) then (Inl (Internal P2003), w)
           else (Inr (d, True), w\<lparr>devices := devices w @ [d]\<rparr>)))"

record deviceListView =
  dl_id :: ident
  dl_browserName :: "string option"
  dl_browserVersion :: "string option"
  dl_os :: "string option"
  dl_deviceType :: "string option"
  dl_isTrusted :: bool
  dl_trustedAt :: "time option"
  dl_firstSeenAt :: time
  dl_lastSeenAt :: time

definition device_list_view :: "device \<Rightarrow> deviceListView" where
  "device_list_view d = \<lparr>dl_id = d_id d, dl_browserName = d_browserName d,
     dl_browserVersion = d_browserVersion d, dl_os = d_os d, dl_deviceType = d_deviceType d,
     dl_isTrusted = d_isTrusted d, dl_trustedAt = d_trustedAt d,
     dl_firstSeenAt = d_firstSeenAt d, dl_lastSeenAt = d_lastSeenAt d\<rparr>"

definition listForUser :: "ident \<Rightarrow> world \<Rightarrow> deviceListView list" where
  "listForUser userId w =
     map device_list_view (orderDesc d_lastSeenAt (findMany (\<lambda>d. d_userId d = userId) (devices w)))"

definition countTrusted :: "ident \<Rightarrow> world \<Rightarrow> nat" where
  "countTrusted userId w = countRows (\<lambda>d. d_userId d = userId \<and> d_isTrusted d) (devices w)"

definition trusted_devices_message :: "int \<Rightarrow> string" where
  "trusted_devices_message n =
     ''You can have at most '' @ show_nat (nat n) @ '' trusted devices. Remove one first.''"

definition trust :: "cfg \<Rightarrow> req \<Rightarrow> ident \<Rightarrow> ident \<Rightarrow> world \<Rightarrow> deviceListView result \<times> world" where
  "trust c q userId deviceId w =
     (case find_device deviceId w of
        None \<Rightarrow> (Inl (NotFound Device_not_found), w)
      | Some device \<Rightarrow>
          if d_userId device \<noteq> userId then (Inl (NotFound Device_not_found), w)
          else if int (countTrusted userId w) \<ge> c_maxTrustedDevices c
          then (Inl (Forbidden (trusted_devices_message (c_maxTrustedDevices c))), w)
          else (let f = (\<lambda>d. d\<lparr>d_isTrusted := True, d_trustedAt := Some (q_now q)\<rparr>) in
            (Inr (device_list_view (f device)), update_devices (\<lambda>d. d_id d = deviceId) f w)))"

text \<open>
  \<open>remove\<close>: one transaction revokes the device's sessions and deletes the row; the foreign
  key of the session table is \<open>onDelete: SetNull\<close>.
\<close>

definition remove_device :: "req \<Rightarrow> ident \<Rightarrow> ident \<Rightarrow> world \<Rightarrow> unit result \<times> world" where
  "remove_device q userId deviceId w =
     (case find_device deviceId w of
        None \<Rightarrow> (Inl (NotFound Device_not_found), w)
      | Some device \<Rightarrow>
          if d_userId device \<noteq> userId then (Inl (NotFound Device_not_found), w)
          else (let w1 = update_sessions
                      (\<lambda>s. s_deviceId s = Some deviceId \<and> s_revokedAt s = None) (revoke_row q) w;
                    w2 = update_sessions (\<lambda>s. s_deviceId s = Some deviceId)
                      (\<lambda>s. s\<lparr>s_deviceId := None\<rparr>) w1
                in (Inr (), w2\<lparr>devices := deleteMany (\<lambda>d. d_id d = deviceId) (devices w2)\<rparr>)))"

section \<open>Risk\<close>

record assessRiskInput =
  ari_userId :: ident
  ari_isNewDevice :: bool
  ari_country :: "string option"
  ari_failedLoginCount :: int

definition RECENT_SESSIONS_LOOKBACK :: nat where "RECENT_SESSIONS_LOOKBACK = 5"
definition IMPOSSIBLE_TRAVEL_WINDOW_MS :: int where "IMPOSSIBLE_TRAVEL_WINDOW_MS = 60 * 60 * 1000"

text \<open>The distinct elements in order of first occurrence, as a JavaScript \<open>Set\<close> keeps them.\<close>

definition js_set :: "'a list \<Rightarrow> 'a list" where
  "js_set xs = rev (remdups (rev xs))"

lemma set_js_set [simp]: "set (js_set xs) = set xs"
  by (simp add: js_set_def)

definition recent_sessions :: "ident \<Rightarrow> world \<Rightarrow> session list" where
  "recent_sessions userId w = take RECENT_SESSIONS_LOOKBACK
     (orderDesc s_createdAt (findMany (\<lambda>s. s_userId s = userId) (sessions w)))"

text \<open>\<open>Math.round\<close> of a number of minutes given in milliseconds.\<close>

definition round_minutes :: "int \<Rightarrow> int" where
  "round_minutes ms = (2 * ms + ms_per_minute) div (2 * ms_per_minute)"

definition country_risk ::
  "req \<Rightarrow> string \<Rightarrow> session list \<Rightarrow> int \<times> (string \<times> json) list" where
  "country_risk q country recentSessions =
     (case recentSessions of
        [] \<Rightarrow> (0, [])
      | mostRecent # _ \<Rightarrow>
          (let knownCountries = js_set (List.map_filter s_country recentSessions);
               new = (knownCountries \<noteq> [] \<and> country \<notin> set knownCountries);
               travel = (truthy (s_country mostRecent) \<and> s_country mostRecent \<noteq> Some country
                         \<and> q_now q - s_createdAt mostRecent < IMPOSSIBLE_TRAVEL_WINDOW_MS)
           in ((if new then 25 else 0) + (if travel then 50 else 0),
               (if new then [(''newCountry'', JObj [(''country'', JStr country),
                    (''knownCountries'', JArr (map JStr knownCountries))])] else [])
               @ (if travel then [(''impossibleTravel'', JObj
                    [(''fromCountry'', JStr (the (s_country mostRecent))),
                     (''toCountry'', JStr country),
                     (''minutesSinceLastLogin'',
                       JInt (round_minutes (q_now q - s_createdAt mostRecent)))])] else []))))"

definition assess :: "req \<Rightarrow> assessRiskInput \<Rightarrow> world \<Rightarrow> int \<times> json" where
  "assess q i w =
     (let (s1, g1) = (if ari_isNewDevice i then (30, [(''newDevice'', JBool True)]) else (0, []));
          (s2, g2) = (if truthy (ari_country i)
                      then country_risk q (the (ari_country i)) (recent_sessions (ari_userId i) w)
                      else (0, []));
          (s3, g3) = (if ari_failedLoginCount i > 0
                      then (min (ari_failedLoginCount i * 5) 20,
                            [(''recentFailedLogins'', JInt (ari_failedLoginCount i))])
                      else (0, []))
      in (s1 + s2 + s3, JObj (g1 @ g2 @ g3)))"

section \<open>Frames\<close>

lemma update_sessions_frame [frame_simps, simp]:
  "users (update_sessions p f w) = users w"
  "devices (update_sessions p f w) = devices w"
  "sessions (update_sessions p f w) = updateMany p f (sessions w)"
  "verificationTokens (update_sessions p f w) = verificationTokens w"
  "consentRecords (update_sessions p f w) = consentRecords w"
  "invites (update_sessions p f w) = invites w"
  "adminAccessInvites (update_sessions p f w) = adminAccessInvites w"
  "auditLogs (update_sessions p f w) = auditLogs w"
  "plans (update_sessions p f w) = plans w"
  "creditPacks (update_sessions p f w) = creditPacks w"
  "leadFinderTiers (update_sessions p f w) = leadFinderTiers w"
  "subscriptions (update_sessions p f w) = subscriptions w"
  "leadFinderSubscriptions (update_sessions p f w) = leadFinderSubscriptions w"
  "invoices (update_sessions p f w) = invoices w"
  "creditGrants (update_sessions p f w) = creditGrants w"
  "leads (update_sessions p f w) = leads w"
  "leadSearchJobs (update_sessions p f w) = leadSearchJobs w"
  "leadSearchResults (update_sessions p f w) = leadSearchResults w"
  "redis (update_sessions p f w) = redis w"
  "emailQueue (update_sessions p f w) = emailQueue w"
  "apolloQueue (update_sessions p f w) = apolloQueue w"
  "stripeCalls (update_sessions p f w) = stripeCalls w"
  by (simp_all add: update_sessions_def)

lemma update_devices_frame [frame_simps, simp]:
  "users (update_devices p f w) = users w"
  "devices (update_devices p f w) = updateMany p f (devices w)"
  "sessions (update_devices p f w) = sessions w"
  "verificationTokens (update_devices p f w) = verificationTokens w"
  "auditLogs (update_devices p f w) = auditLogs w"
  "redis (update_devices p f w) = redis w"
  "emailQueue (update_devices p f w) = emailQueue w"
  "subscriptions (update_devices p f w) = subscriptions w"
  "leadFinderSubscriptions (update_devices p f w) = leadFinderSubscriptions w"
  by (simp_all add: update_devices_def)

lemma revoke_row_simps [simp]:
  "s_id (revoke_row q s) = s_id s"
  "s_userId (revoke_row q s) = s_userId s"
  "s_deviceId (revoke_row q s) = s_deviceId s"
  "s_tokenHash (revoke_row q s) = s_tokenHash s"
  "s_createdAt (revoke_row q s) = s_createdAt s"
  "s_expiresAt (revoke_row q s) = s_expiresAt s"
  "s_country (revoke_row q s) = s_country s"
  "s_revokedAt (revoke_row q s) = Some (q_now q)"
  "s_replacedByTokenId (revoke_row q s) = s_replacedByTokenId s"
  "session_live t (revoke_row q s) = False"
  by (simp_all add: revoke_row_def session_live_def)

lemma revokeAllForUser_frame [frame_simps, simp]:
  "users (revokeAllForUser q i w) = users w"
  "devices (revokeAllForUser q i w) = devices w"
  "auditLogs (revokeAllForUser q i w) = auditLogs w"
  "verificationTokens (revokeAllForUser q i w) = verificationTokens w"
  "redis (revokeAllForUser q i w) = redis w"
  "emailQueue (revokeAllForUser q i w) = emailQueue w"
  "subscriptions (revokeAllForUser q i w) = subscriptions w"
  "leadFinderSubscriptions (revokeAllForUser q i w) = leadFinderSubscriptions w"
  by (simp_all add: revokeAllForUser_def)

lemma revoke_frame [frame_simps, simp]:
  "users (revoke q i w) = users w"
  "devices (revoke q i w) = devices w"
  "auditLogs (revoke q i w) = auditLogs w"
  "verificationTokens (revoke q i w) = verificationTokens w"
  "redis (revoke q i w) = redis w"
  by (simp_all add: revoke_def)

lemma enforceLimit_frame [frame_simps, simp]:
  "users (enforceLimit c q i w) = users w"
  "devices (enforceLimit c q i w) = devices w"
  "auditLogs (enforceLimit c q i w) = auditLogs w"
  "verificationTokens (enforceLimit c q i w) = verificationTokens w"
  "redis (enforceLimit c q i w) = redis w"
  "emailQueue (enforceLimit c q i w) = emailQueue w"
  by (simp_all add: enforceLimit_def Let_def)

lemma create_session_cases:
  obtains e where "create_session c q i w = (Inl (Internal e), w)"
  | "create_session c q i w = (Inr (q_rawToken q, new_session c q i),
        w\<lparr>sessions := sessions w @ [new_session c q i]\<rparr>)"
    "q_newId q \<notin> s_id ` set (sessions w)" "c_hash c (q_rawToken q) \<notin> s_tokenHash ` set (sessions w)"
    "ci_userId i \<in> u_id ` set (users w)"
    "\<forall>d. ci_deviceId i = Some d \<longrightarrow> d \<in> d_id ` set (devices w)"
proof (cases "fst (create_session c q i w)")
  case (Inl e)
  then show thesis using that(1)
    by (auto simp: create_session_def Let_def split: if_splits)
next
  case (Inr p)
  then have fresh: "\<forall>x \<in> set (sessions w). s_id x \<noteq> q_newId q \<and> s_tokenHash x \<noteq> c_hash c (q_rawToken q)"
    and fks: "ci_userId i \<in> u_id ` set (users w)"
      "\<forall>d. ci_deviceId i = Some d \<longrightarrow> d \<in> d_id ` set (devices w)"
    and eq: "create_session c q i w = (Inr (q_rawToken q, new_session c q i),
        w\<lparr>sessions := sessions w @ [new_session c q i]\<rparr>)"
    by (simp_all add: create_session_def Let_def new_session_def split: if_splits)
  from fresh have "q_newId q \<notin> s_id ` set (sessions w)"
    "c_hash c (q_rawToken q) \<notin> s_tokenHash ` set (sessions w)" by force+
  then show thesis using that(2) eq fks by blast
qed

lemma new_session_simps [simp]:
  "s_id (new_session c q i) = q_newId q"
  "s_userId (new_session c q i) = ci_userId i"
  "s_deviceId (new_session c q i) = ci_deviceId i"
  "s_tokenHash (new_session c q i) = c_hash c (q_rawToken q)"
  "s_country (new_session c q i) = ci_country i"
  "s_createdAt (new_session c q i) = q_now q"
  "s_expiresAt (new_session c q i) = q_now q + c_refreshExpiryDays c * ms_per_day"
  "s_revokedAt (new_session c q i) = None"
  "s_riskScore (new_session c q i) = ci_riskScore i"
  by (simp_all add: new_session_def)

section \<open>Integrity of the two tables\<close>

definition devices_ok :: "world \<Rightarrow> bool" where
  "devices_ok w \<longleftrightarrow> unique_on d_id (devices w)
     \<and> unique_on (\<lambda>d. (d_userId d, d_fingerprint d)) (devices w)
     \<and> d_userId ` set (devices w) \<subseteq> u_id ` set (users w)"

definition sessions_ok :: "world \<Rightarrow> bool" where
  "sessions_ok w \<longleftrightarrow> unique_on s_id (sessions w) \<and> unique_on s_tokenHash (sessions w)
     \<and> s_userId ` set (sessions w) \<subseteq> u_id ` set (users w)
     \<and> (\<forall>s \<in> set (sessions w). \<forall>d. s_deviceId s = Some d \<longrightarrow> d \<in> d_id ` set (devices w))"

lemma devices_ok_cong:
  "devices w' = devices w \<Longrightarrow> u_id ` set (users w) \<subseteq> u_id ` set (users w') \<Longrightarrow> devices_ok w \<Longrightarrow> devices_ok w'"
  by (fastforce simp: devices_ok_def)

lemma sessions_ok_cong:
  "sessions w' = sessions w \<Longrightarrow> d_id ` set (devices w) \<subseteq> d_id ` set (devices w') \<Longrightarrow>
   u_id ` set (users w) \<subseteq> u_id ` set (users w') \<Longrightarrow> sessions_ok w \<Longrightarrow> sessions_ok w'"
  by (fastforce simp: sessions_ok_def)

lemma sessions_ok_update_sessions:
  assumes "\<And>s. s_id (f s) = s_id s" "\<And>s. s_userId (f s) = s_userId s"
    "\<And>s. s_tokenHash (f s) = s_tokenHash s" "\<And>s. s_deviceId (f s) = s_deviceId s \<or> s_deviceId (f s) = None"
    and "sessions_ok w"
  shows "sessions_ok (update_sessions p f w)"
proof -
  have "d \<in> d_id ` set (devices w)"
    if "x \<in> set (updateMany p f (sessions w))" and "s_deviceId x = Some d" for x d
    using that(1)
  proof (rule in_updateManyE)
    fix r assume r: "r \<in> set (sessions w)" "x = f r"
    with that(2) assms(4) [of r] have "s_deviceId r = Some d" by auto
    with r(1) assms(5) show ?thesis by (auto simp: sessions_ok_def)
  qed (use that(2) assms(5) in \<open>auto simp: sessions_ok_def\<close>)
  then show ?thesis
    using assms(1-3,5) by (simp add: sessions_ok_def unique_on_updateMany image_updateMany)
qed

lemma devices_ok_update_devices:
  assumes "\<And>d. d_id (f d) = d_id d" "\<And>d. d_userId (f d) = d_userId d"
    "\<And>d. d_fingerprint (f d) = d_fingerprint d" and "devices_ok w"
  shows "devices_ok (update_devices p f w)"
  using assms by (auto simp: devices_ok_def unique_on_updateMany set_updateMany image_subset_iff)

lemma d_ids_update_devices:
  assumes "\<And>d. d_id (f d) = d_id d"
  shows "d_id ` set (devices (update_devices p f w)) = d_id ` set (devices w)"
  using assms by (simp add: image_updateMany)

lemma u_ids_update_user:
  assumes "\<And>u. u_id (f u) = u_id u"
  shows "u_id ` set (users (update_user i f w)) = u_id ` set (users w)"
  using assms by (simp add: update_user_def image_updateMany)

lemma sessions_ok_create_session:
  "sessions_ok w \<Longrightarrow> sessions_ok (snd (create_session c q i w))"
  by (rule create_session_cases [of c q i w]) (auto simp: sessions_ok_def unique_on_snoc)

lemma devices_ok_findOrCreateDevice:
  "devices_ok w \<Longrightarrow> devices_ok (snd (findOrCreateDevice q i fp dd w))"
  by (auto simp: findOrCreateDevice_def Let_def intro!: devices_ok_update_devices split: option.splits)
    (auto simp: devices_ok_def unique_on_snoc new_device_def findFirst_None_iff)


lemma findOrCreateDevice_frame [frame_simps, simp]:
  "users (snd (findOrCreateDevice q i fp dd w)) = users w"
  "sessions (snd (findOrCreateDevice q i fp dd w)) = sessions w"
  "auditLogs (snd (findOrCreateDevice q i fp dd w)) = auditLogs w"
  "verificationTokens (snd (findOrCreateDevice q i fp dd w)) = verificationTokens w"
  "redis (snd (findOrCreateDevice q i fp dd w)) = redis w"
  "emailQueue (snd (findOrCreateDevice q i fp dd w)) = emailQueue w"
  by (auto simp: findOrCreateDevice_def Let_def split: option.splits)

section \<open>How the session table evolves\<close>

definition session_keeps :: "session \<Rightarrow> session \<Rightarrow> bool" where
  "session_keeps s s' \<longleftrightarrow> s_id s' = s_id s \<and> s_userId s' = s_userId s \<and> s_tokenHash s' = s_tokenHash s
     \<and> s_createdAt s' = s_createdAt s \<and> s_expiresAt s' = s_expiresAt s
     \<and> (s_revokedAt s \<noteq> None \<longrightarrow> s_revokedAt s' \<noteq> None)"

definition session_evolves :: "world \<Rightarrow> world \<Rightarrow> bool" where
  "session_evolves w w' \<longleftrightarrow>
     (\<exists>old new. sessions w' = old @ new \<and> list_all2 session_keeps (sessions w) old)"

lemma session_keeps_refl [simp]: "session_keeps s s"
  by (simp add: session_keeps_def)

lemma session_keeps_revoke [simp]: "session_keeps s (revoke_row q s)"
  by (simp add: session_keeps_def)

lemma session_keeps_trans: "session_keeps r s \<Longrightarrow> session_keeps s t \<Longrightarrow> session_keeps r t"
  by (auto simp: session_keeps_def)

lemma session_evolvesI:
  "sessions w' = old @ new \<Longrightarrow> list_all2 session_keeps (sessions w) old \<Longrightarrow> session_evolves w w'"
  by (auto simp: session_evolves_def)

lemma session_evolves_eq: "sessions w' = sessions w \<Longrightarrow> session_evolves w w'"
  by (rule session_evolvesI [where new = "[]"]) (auto simp: list.rel_refl)

lemma session_evolves_refl [simp]: "session_evolves w w"
  by (simp add: session_evolves_eq)

lemma session_evolves_trans:
  assumes "session_evolves w1 w2" and "session_evolves w2 w3"
  shows "session_evolves w1 w3"
proof -
  from assms obtain o1 n1 o2 n2 where
    w2: "sessions w2 = o1 @ n1" "list_all2 session_keeps (sessions w1) o1" and
    w3: "sessions w3 = o2 @ n2" "list_all2 session_keeps (o1 @ n1) o2"
    by (auto simp: session_evolves_def)
  from w3(2) obtain a b where ab: "o2 = a @ b" "list_all2 session_keeps o1 a"
    by (auto simp: list_all2_append1)
  from w2(2) ab(2) have "list_all2 session_keeps (sessions w1) a"
    by (rule list_all2_trans [rotated 1]) (erule (1) session_keeps_trans)
  then show ?thesis
    using w3(1) ab(1) by (intro session_evolvesI [of w3 a "b @ n2"]) auto
qed

lemma session_evolves_update:
  "(\<And>s. session_keeps s (f s)) \<Longrightarrow> session_evolves w (update_sessions p f w)"
  by (rule session_evolvesI [where new = "[]"]) (auto simp: updateMany_def list_all2_conv_all_nth)

lemma session_evolves_enforceLimit: "session_evolves w (enforceLimit c q i w)"
  by (simp add: enforceLimit_def Let_def session_evolves_update)

lemma session_evolves_create_session: "session_evolves w (snd (create_session c q i w))"
  by (rule create_session_cases [of c q i w])
    (auto simp: list.rel_refl intro: session_evolvesI)

lemma session_evolves_old:
  assumes "session_evolves w w'" and "s \<in> set (sessions w)"
  obtains s' where "s' \<in> set (sessions w')" "session_keeps s s'"
proof -
  from assms(1) obtain old new where w': "sessions w' = old @ new" "list_all2 session_keeps (sessions w) old"
    by (auto simp: session_evolves_def)
  with assms(2) obtain i where "i < length old" "session_keeps s (old ! i)"
    by (metis in_set_conv_nth list_all2_conv_all_nth)
  with w'(1) that [of "old ! i"] show thesis by simp
qed

section \<open>Tokens\<close>

text \<open>The user a refresh token still logs in at an instant.\<close>

definition holder :: "cfg \<Rightarrow> time \<Rightarrow> string \<Rightarrow> world \<Rightarrow> ident option" where
  "holder c now rawToken w = map_option s_userId
     (findFirst (\<lambda>s. s_tokenHash s = c_hash c rawToken \<and> session_live now s) (sessions w))"

lemma findActiveByRawToken_holder:
  "holder c (q_now q) tok w = map_option s_userId (findActiveByRawToken c q tok w)"
  by (simp add: holder_def findActiveByRawToken_def)

text \<open>
  The contract between the session store and its clients: owners of live tokens, a relation
  "later state" under which a dead token stays dead, and the action that logs a user out.
  Password reset, logout everywhere, the reuse response, suspension and erasure all rest on it.
\<close>

locale session_store =
  fixes owner :: "time \<Rightarrow> string \<Rightarrow> world \<Rightarrow> ident option"
    and issued :: "string \<Rightarrow> world \<Rightarrow> bool"
    and ok :: "world \<Rightarrow> bool"
    and later :: "world \<Rightarrow> world \<Rightarrow> bool"
    and logout_user :: "req \<Rightarrow> ident \<Rightarrow> world \<Rightarrow> world"
  assumes later_trans: "later w1 w2 \<Longrightarrow> later w2 w3 \<Longrightarrow> later w1 w3"
    and owner_issued: "owner t tok w = Some i \<Longrightarrow> issued tok w"
    and issued_later: "issued tok w \<Longrightarrow> later w w' \<Longrightarrow> issued tok w'"
    and dead_later: "ok w \<Longrightarrow> ok w' \<Longrightarrow> later w w' \<Longrightarrow> issued tok w \<Longrightarrow> owner t tok w = None \<Longrightarrow>
      t \<le> t' \<Longrightarrow> owner t' tok w' = None"
    and logout_later: "later w (logout_user q i w)"
    and logout_ok: "ok w \<Longrightarrow> ok (logout_user q i w)"
    and logout_owner: "ok w \<Longrightarrow> owner t tok (logout_user q i w) =
      (if owner t tok w = Some i then None else owner t tok w)"
begin

text \<open>Logging a user out ends every token they hold, in every later state and at every later instant.\<close>

lemma logged_out_for_good:
  assumes "ok w" and "ok w'" and "later (logout_user q i w) w'"
    and "owner t tok w = Some i" and "t \<le> t'"
  shows "owner t' tok w' = None"
proof (rule dead_later)
  show "ok (logout_user q i w)" using assms(1) by (rule logout_ok)
  show "issued tok (logout_user q i w)"
    using assms(4) owner_issued issued_later logout_later by blast
  show "owner t tok (logout_user q i w) = None"
    using assms(1,4) by (simp add: logout_owner)
qed fact+

text \<open>And nobody else's.\<close>

lemma others_stay: "ok w \<Longrightarrow> owner t tok w = Some j \<Longrightarrow> j \<noteq> i \<Longrightarrow> owner t tok (logout_user q i w) = Some j"
  by (simp add: logout_owner)

end

definition issued_token :: "cfg \<Rightarrow> string \<Rightarrow> world \<Rightarrow> bool" where
  "issued_token c tok w \<longleftrightarrow> (\<exists>s \<in> set (sessions w). s_tokenHash s = c_hash c tok)"

lemma holder_Some_iff:
  assumes "sessions_ok w"
  shows "holder c t tok w = Some i \<longleftrightarrow>
    (\<exists>s \<in> set (sessions w). s_tokenHash s = c_hash c tok \<and> session_live t s \<and> s_userId s = i)"
proof
  assume "holder c t tok w = Some i"
  then show "\<exists>s \<in> set (sessions w). s_tokenHash s = c_hash c tok \<and> session_live t s \<and> s_userId s = i"
    by (auto simp: holder_def dest!: findFirst_SomeD)
next
  assume "\<exists>s \<in> set (sessions w). s_tokenHash s = c_hash c tok \<and> session_live t s \<and> s_userId s = i"
  then obtain s where s: "s \<in> set (sessions w)" "s_tokenHash s = c_hash c tok" "session_live t s" "s_userId s = i"
    by blast
  have "findFirst (\<lambda>x. s_tokenHash x = c_hash c tok \<and> session_live t x) (sessions w) = Some s"
  proof (rule findFirst_only)
    fix x assume "x \<in> set (sessions w)" "s_tokenHash x = c_hash c tok \<and> session_live t x"
    with s assms show "x = s" unfolding sessions_ok_def by (metis unique_onD)
  qed (use s in simp_all)
  then show "holder c t tok w = Some i" using s by (simp add: holder_def)
qed

lemma holder_None_iff:
  "holder c t tok w = None \<longleftrightarrow>
    (\<forall>s \<in> set (sessions w). s_tokenHash s = c_hash c tok \<longrightarrow> \<not> session_live t s)"
  by (auto simp: holder_def findFirst_None_iff)

lemma session_keeps_live: "session_keeps s s' \<Longrightarrow> session_live t' s' \<Longrightarrow> t \<le> t' \<Longrightarrow> session_live t s"
  by (auto simp: session_keeps_def session_live_def)

lemma sessions_ok_revokeAllForUser: "sessions_ok w \<Longrightarrow> sessions_ok (revokeAllForUser q i w)"
  by (simp add: revokeAllForUser_def sessions_ok_update_sessions)

lemma session_evolves_revokeAllForUser: "session_evolves w (revokeAllForUser q i w)"
  by (simp add: revokeAllForUser_def session_evolves_update)

lemma holder_revokeAllForUser:
  assumes "sessions_ok w"
  shows "holder c t tok (revokeAllForUser q i w) =
    (if holder c t tok w = Some i then None else holder c t tok w)"
proof -
  have iff: "holder c t tok (revokeAllForUser q i w) = Some j \<longleftrightarrow> holder c t tok w = Some j \<and> j \<noteq> i" for j
    unfolding holder_Some_iff [OF assms] holder_Some_iff [OF sessions_ok_revokeAllForUser [OF assms]]
    by (auto simp: revokeAllForUser_def set_updateMany session_live_def split: if_splits)
  show ?thesis
    by (cases "holder c t tok (revokeAllForUser q i w)"; cases "holder c t tok w") (use iff in auto)
qed

interpretation store: session_store
  "holder c" "issued_token c" sessions_ok session_evolves revokeAllForUser
proof unfold_locales
  fix w w' :: world and tok t t' i
  show "issued_token c tok w" if "holder c t tok w = Some i"
    using that by (auto simp: holder_def issued_token_def dest!: findFirst_SomeD)
  show "issued_token c tok w'" if "issued_token c tok w" "session_evolves w w'"
    using that unfolding issued_token_def session_keeps_def
    by (metis session_evolves_old session_keeps_def)
  show "holder c t' tok w' = None"
    if ok: "sessions_ok w'" and ev: "session_evolves w w'" and iss: "issued_token c tok w"
      and dead: "holder c t tok w = None" and le: "t \<le> t'"
  proof -
    from iss obtain s where s: "s \<in> set (sessions w)" "s_tokenHash s = c_hash c tok"
      by (auto simp: issued_token_def)
    with dead have nl: "\<not> session_live t s" by (simp add: holder_None_iff)
    from ev s(1) obtain s' where s': "s' \<in> set (sessions w')" "session_keeps s s'"
      by (rule session_evolves_old)
    have "\<not> session_live t' x" if "x \<in> set (sessions w')" "s_tokenHash x = c_hash c tok" for x
    proof -
      have "x = s'"
        using that s' s(2) ok unfolding sessions_ok_def session_keeps_def by (metis unique_onD)
      with s'(2) nl le session_keeps_live show ?thesis by blast
    qed
    then show ?thesis by (simp add: holder_None_iff)
  qed
qed (auto intro: session_evolves_trans sessions_ok_revokeAllForUser session_evolves_revokeAllForUser
    simp: holder_revokeAllForUser)

section \<open>The concurrent-session cap\<close>

definition user_live :: "time \<Rightarrow> ident \<Rightarrow> session \<Rightarrow> bool" where
  "user_live now i s \<longleftrightarrow> s_userId s = i \<and> session_live now s"

definition liveCount :: "time \<Rightarrow> ident \<Rightarrow> world \<Rightarrow> nat" where
  "liveCount now i w = countRows (user_live now i) (sessions w)"

text \<open>The live sessions of a user in order of creation, as \<open>enforceLimit\<close> reads them.\<close>

definition active_sessions :: "time \<Rightarrow> ident \<Rightarrow> world \<Rightarrow> session list" where
  "active_sessions now i w = orderAsc s_createdAt (findMany (user_live now i) (sessions w))"

lemma length_active_sessions: "length (active_sessions t i w) = liveCount t i w"
  by (simp add: active_sessions_def liveCount_def orderAsc_def findMany_def countRows_def)

lemma mset_active_sessions: "mset (active_sessions t i w) = filter_mset (user_live t i) (mset (sessions w))"
  by (simp add: active_sessions_def orderAsc_def findMany_def mset_filter)

lemma set_active_sessions: "set (active_sessions t i w) = {s \<in> set (sessions w). user_live t i s}"
  by (simp add: active_sessions_def orderAsc_def findMany_def)

lemma distinct_active_sessions:
  assumes "sessions_ok w"
  shows "distinct (map s_id (active_sessions t i w))"
proof -
  have "distinct (sessions w)"
    using assms by (auto simp: sessions_ok_def unique_on_def distinct_map)
  moreover have "inj_on s_id (set (sessions w))"
    using assms by (simp add: sessions_ok_def unique_on_def distinct_map)
  ultimately show ?thesis
    by (auto simp: active_sessions_def orderAsc_def findMany_def distinct_map intro: inj_on_subset)
qed

definition overBy :: "cfg \<Rightarrow> time \<Rightarrow> ident \<Rightarrow> world \<Rightarrow> nat" where
  "overBy c t i w = nat (int (liveCount t i w) - c_maxTrustedDevices c + 1)"

lemma enforceLimit_active:
  "enforceLimit c q i w = update_sessions
     (\<lambda>s. s_id s \<in> set (map s_id (take (overBy c (q_now q) i w) (active_sessions (q_now q) i w))))
     (revoke_row q) w"
proof -
  have *: "findMany (\<lambda>s. s_userId s = i \<and> session_live (q_now q) s) (sessions w) =
      findMany (user_live (q_now q) i) (sessions w)"
    by (simp add: findMany_def user_live_def [abs_def])
  show ?thesis
    unfolding enforceLimit_def * active_sessions_def [symmetric] Let_def overBy_def
      length_active_sessions
    by (simp add: update_sessions_def updateMany_noop)
qed

text \<open>What survives: the rows after the first \<open>overBy\<close> ones.\<close>

lemma liveCount_enforceLimit:
  assumes "sessions_ok w"
  shows "liveCount (q_now q) i (enforceLimit c q i w) = liveCount (q_now q) i w - overBy c (q_now q) i w"
proof -
  let ?a = "active_sessions (q_now q) i w" and ?n = "overBy c (q_now q) i w"
  let ?out = "\<lambda>s. s_id s \<in> set (map s_id (take ?n ?a))"
  have "filter (user_live (q_now q) i) (updateMany ?out (revoke_row q) rows) =
      filter (\<lambda>s. user_live (q_now q) i s \<and> \<not> ?out s) rows" for rows
    by (induction rows) (auto simp: user_live_def)
  then have "liveCount (q_now q) i (enforceLimit c q i w) =
      length (filter (\<lambda>s. user_live (q_now q) i s \<and> \<not> ?out s) (sessions w))"
    by (simp add: liveCount_def enforceLimit_active countRows_def)
  also have "mset (filter (\<lambda>s. user_live (q_now q) i s \<and> \<not> ?out s) (sessions w)) =
      mset (filter (\<lambda>s. \<not> ?out s) ?a)"
    by (simp add: mset_active_sessions filter_filter_mset conj_commute)
  then have "length (filter (\<lambda>s. user_live (q_now q) i s \<and> \<not> ?out s) (sessions w)) =
      length (filter (\<lambda>s. \<not> ?out s) ?a)"
    by (rule mset_eq_length)
  also have "\<dots> = length (drop ?n ?a)"
    using filter_not_taken [OF distinct_active_sessions [OF assms]] by simp
  finally show ?thesis by (simp add: length_active_sessions)
qed

lemma liveCount_enforceLimit_bound:
  assumes "sessions_ok w"
  shows "int (liveCount (q_now q) i (enforceLimit c q i w)) \<le> max 0 (c_maxTrustedDevices c - 1)"
  unfolding liveCount_enforceLimit [OF assms] overBy_def by linarith

text \<open>The evicted rows are older than the ones kept.\<close>

lemma enforceLimit_oldest:
  assumes "sessions_ok w" and "s \<in> set (sessions w)" "user_live (q_now q) i s"
    and out: "s_id s \<in> set (map s_id (take n (active_sessions (q_now q) i w)))"
    and "s' \<in> set (sessions w)" "user_live (q_now q) i s'"
    and kept: "s_id s' \<notin> set (map s_id (take n (active_sessions (q_now q) i w)))"
  shows "s_createdAt s \<le> s_createdAt s'"
proof -
  let ?a = "active_sessions (q_now q) i w"
  from out obtain x where x: "x \<in> set (take n ?a)" "s_id x = s_id s" by auto
  then have "x \<in> set (sessions w)" by (auto simp: set_active_sessions dest!: in_set_takeD)
  with assms(1,2) x have "x = s" unfolding sessions_ok_def by (metis unique_onD)
  with x have s: "s \<in> set (take n ?a)" by simp
  have "s' \<in> set ?a" using assms by (simp add: set_active_sessions)
  then have "s' \<in> set (take n ?a @ drop n ?a)" unfolding append_take_drop_id .
  with kept have "s' \<in> set (drop n ?a)" unfolding set_append by auto
  moreover have "sorted (map s_createdAt (take n ?a @ drop n ?a))"
    by (simp add: active_sessions_def orderAsc_def)
  then have "\<forall>x \<in> set (take n ?a). \<forall>y \<in> set (drop n ?a). s_createdAt x \<le> s_createdAt y"
    unfolding map_append sorted_append by simp
  ultimately show ?thesis using s by blast
qed

lemma liveCount_update_le:
  assumes "\<And>s. session_keeps s (f s)"
  shows "liveCount t i (update_sessions p f w) \<le> liveCount t i w"
  unfolding liveCount_def update_sessions_frame
proof (rule countRows_updateMany_le)
  fix r assume "user_live t i (f r)"
  with assms [of r] show "user_live t i r"
    by (auto simp: user_live_def session_keeps_def session_live_def)
qed

lemma liveCount_mono_time: "t \<le> t' \<Longrightarrow> liveCount t' i w \<le> liveCount t i w"
  unfolding liveCount_def
  by (rule countRows_mono) (auto simp: user_live_def session_live_def)

section \<open>Rotation\<close>

definition rotated_row :: "req \<Rightarrow> session \<Rightarrow> session" where
  "rotated_row q x = (revoke_row q x)\<lparr>s_replacedByTokenId := Some (q_newId q)\<rparr>"

lemma rotated_row_simps [simp]:
  "s_id (rotated_row q s) = s_id s"
  "s_userId (rotated_row q s) = s_userId s"
  "s_deviceId (rotated_row q s) = s_deviceId s"
  "s_tokenHash (rotated_row q s) = s_tokenHash s"
  "s_createdAt (rotated_row q s) = s_createdAt s"
  "s_expiresAt (rotated_row q s) = s_expiresAt s"
  "s_revokedAt (rotated_row q s) = Some (q_now q)"
  "s_replacedByTokenId (rotated_row q s) = Some (q_newId q)"
  "session_keeps s (rotated_row q s)"
  by (simp_all add: rotated_row_def session_keeps_def)

lemma rotation_input_simps [simp]:
  "ci_userId (rotation_input s ip) = s_userId s"
  "ci_deviceId (rotation_input s ip) = s_deviceId s"
  "ci_country (rotation_input s ip) = None"
  by (simp_all add: rotation_input_def)

lemma rotate_cases:
  obtains e where "rotate_session c q s ip w = (Inl (Internal e), w)"
  | n where "rotate_session c q s ip w = (Inr (q_rawToken q, n), update_sessions (\<lambda>x. s_id x = s_id s)
        (rotated_row q) (w\<lparr>sessions := sessions w @ [n]\<rparr>))"
    "create_session c q (rotation_input s ip) w = (Inr (q_rawToken q, n), w\<lparr>sessions := sessions w @ [n]\<rparr>)"
    "n = new_session c q (rotation_input s ip)"
    "q_newId q \<notin> s_id ` set (sessions w)" "c_hash c (q_rawToken q) \<notin> s_tokenHash ` set (sessions w)"
  by (rule create_session_cases [of c q "rotation_input s ip" w])
    (auto simp: rotate_session_def rotated_row_def [abs_def])

lemma rotate_frame [frame_simps, simp]:
  "users (snd (rotate_session c q s ip w)) = users w"
  "devices (snd (rotate_session c q s ip w)) = devices w"
  "auditLogs (snd (rotate_session c q s ip w)) = auditLogs w"
  "verificationTokens (snd (rotate_session c q s ip w)) = verificationTokens w"
  "redis (snd (rotate_session c q s ip w)) = redis w"
  "emailQueue (snd (rotate_session c q s ip w)) = emailQueue w"
  by (rule rotate_cases [of c q s ip w]; simp)+

lemma sessions_ok_rotate:
  assumes "sessions_ok w"
  shows "sessions_ok (snd (rotate_session c q s ip w))"
  by (rule rotate_cases [of c q s ip w])
    (use sessions_ok_create_session [OF assms, of c q "rotation_input s ip"] assms in
      \<open>auto intro!: sessions_ok_update_sessions\<close>)

lemma session_evolves_rotate: "session_evolves w (snd (rotate_session c q s ip w))"
proof (rule rotate_cases [of c q s ip w])
  fix n assume r: "rotate_session c q s ip w = (Inr (q_rawToken q, n),
      update_sessions (\<lambda>x. s_id x = s_id s) (rotated_row q) (w\<lparr>sessions := sessions w @ [n]\<rparr>))"
    and "create_session c q (rotation_input s ip) w = (Inr (q_rawToken q, n), w\<lparr>sessions := sessions w @ [n]\<rparr>)"
  then have "session_evolves w (w\<lparr>sessions := sessions w @ [n]\<rparr>)"
    using session_evolves_create_session [of w c q "rotation_input s ip"] by simp
  then show ?thesis
    unfolding r snd_conv by (rule session_evolves_trans) (simp add: session_evolves_update)
qed simp

text \<open>A rotation replaces one live session by one live session.\<close>

lemma liveCount_rotate:
  assumes "sessions_ok w" and s: "s \<in> set (sessions w)" "session_live (q_now q) s"
  shows "liveCount (q_now q) i (snd (rotate_session c q s ip w)) \<le> liveCount (q_now q) i w"
proof (rule rotate_cases [of c q s ip w])
  fix n assume r: "rotate_session c q s ip w = (Inr (q_rawToken q, n),
      update_sessions (\<lambda>x. s_id x = s_id s) (rotated_row q) (w\<lparr>sessions := sessions w @ [n]\<rparr>))"
    and n: "n = new_session c q (rotation_input s ip)" and fresh: "q_newId q \<notin> s_id ` set (sessions w)"
  let ?l = "user_live (q_now q) i"
  from fresh s(1) have "s_id n \<noteq> s_id s" by (auto simp: n)
  from s(1) obtain xs ys where split: "sessions w = xs @ s # ys" by (auto simp: in_set_conv_decomp)
  have le: "countRows ?l (updateMany (\<lambda>x. s_id x = s_id s) (rotated_row q) zs) \<le> countRows ?l zs" for zs
    by (rule countRows_updateMany_le) (simp add: user_live_def session_live_def)
  have "countRows ?l [rotated_row q s] = 0"
    by (simp add: user_live_def session_live_def)
  moreover have "countRows ?l [n] \<le> countRows ?l [s]"
    using s(2) by (simp add: user_live_def n)
  ultimately show ?thesis
    using le [of xs] le [of ys] \<open>s_id n \<noteq> s_id s\<close> by (simp add: liveCount_def r split)
qed simp

section \<open>Devices\<close>

definition trusted_ok :: "cfg \<Rightarrow> world \<Rightarrow> bool" where
  "trusted_ok c w \<longleftrightarrow> (\<forall>i. int (countTrusted i w) \<le> max 0 (c_maxTrustedDevices c))"

lemma trusted_ok_cong: "devices w' = devices w \<Longrightarrow> trusted_ok c w' = trusted_ok c w"
  by (simp add: trusted_ok_def countTrusted_def)

lemma trust_cases:
  obtains e where "trust c q i d w = (Inl e, w)"
  | x where "trust c q i d w = (Inr (device_list_view (x\<lparr>d_isTrusted := True, d_trustedAt := Some (q_now q)\<rparr>)),
        update_devices (\<lambda>y. d_id y = d) (\<lambda>y. y\<lparr>d_isTrusted := True, d_trustedAt := Some (q_now q)\<rparr>) w)"
    "find_device d w = Some x" "d_userId x = i" "int (countTrusted i w) < c_maxTrustedDevices c"
proof (cases "find_device d w")
  case None
  then show thesis using that(1) by (simp add: trust_def)
next
  case (Some x)
  show thesis
  proof (cases "d_userId x = i \<and> int (countTrusted i w) < c_maxTrustedDevices c")
    case True
    with Some show thesis by (intro that(2) [of x]) (simp_all add: trust_def Let_def)
  next
    case False
    with Some have "\<exists>e. trust c q i d w = (Inl e, w)" by (auto simp: trust_def)
    with that(1) show thesis by blast
  qed
qed

lemma countTrusted_trust_other:
  assumes "devices_ok w" and "find_device d w = Some x" and "d_userId x = i" and "j \<noteq> i"
  shows "countTrusted j (update_devices (\<lambda>y. d_id y = d) (\<lambda>y. y\<lparr>d_isTrusted := True, d_trustedAt := t\<rparr>) w)
    = countTrusted j w"
proof -
  have x: "x \<in> set (devices w)" "d_id x = d" using assms(2) by (auto simp: find_device_def dest: findFirst_SomeD)
  have own: "\<forall>y \<in> set (devices w). d_id y = d \<longrightarrow> d_userId y = i"
    using x assms(1,3) unfolding devices_ok_def by (metis unique_onD)
  have "\<forall>y \<in> set rows. d_id y = d \<longrightarrow> d_userId y = i \<Longrightarrow>
      countRows (\<lambda>y. d_userId y = j \<and> d_isTrusted y)
        (updateMany (\<lambda>y. d_id y = d) (\<lambda>y. y\<lparr>d_isTrusted := True, d_trustedAt := t\<rparr>) rows) =
      countRows (\<lambda>y. d_userId y = j \<and> d_isTrusted y) rows" for rows
    using assms(4) by (induction rows) auto
  from this [OF own] show ?thesis by (simp add: countTrusted_def)
qed

lemma trusted_ok_trust:
  assumes "devices_ok w" and "trusted_ok c w"
  shows "trusted_ok c (snd (trust c q i d w))"
proof (rule trust_cases [of c q i d w])
  let ?f = "\<lambda>y. y\<lparr>d_isTrusted := True, d_trustedAt := Some (q_now q)\<rparr>"
  fix x assume t: "trust c q i d w = (Inr (device_list_view (?f x)), update_devices (\<lambda>y. d_id y = d) ?f w)"
    and x: "find_device d w = Some x" "d_userId x = i" "int (countTrusted i w) < c_maxTrustedDevices c"
  have "countTrusted i (snd (trust c q i d w)) \<le> countTrusted i w + 1"
    using assms(1) countRows_update_one [of d_id "devices w"]
    by (simp add: t countTrusted_def devices_ok_def)
  moreover have "countTrusted j (snd (trust c q i d w)) = countTrusted j w" if "j \<noteq> i" for j
    using countTrusted_trust_other [OF assms(1) x(1,2) that] by (simp add: t)
  ultimately have "int (countTrusted j (snd (trust c q i d w))) \<le> max 0 (c_maxTrustedDevices c)" for j
    using assms(2) x(3) by (cases "j = i") (auto simp: trusted_ok_def)
  then show ?thesis by (simp add: trusted_ok_def)
qed (use assms in simp)

lemma countTrusted_findOrCreateDevice:
  "countTrusted j (snd (findOrCreateDevice q i fp dd w)) = countTrusted j w"
proof -
  have "countRows (\<lambda>d. d_userId d = j \<and> d_isTrusted d) (updateMany p (\<lambda>d. d\<lparr>d_lastSeenAt := t\<rparr>) rows) =
      countRows (\<lambda>d. d_userId d = j \<and> d_isTrusted d) rows" for p t rows
    by (induction rows) auto
  then show ?thesis
    by (auto simp: findOrCreateDevice_def countTrusted_def new_device_def Let_def split: option.splits)
qed

text \<open>The two updates of the transaction on a session of the device, taken together.\<close>

definition detach_row :: "req \<Rightarrow> session \<Rightarrow> session" where
  "detach_row q s = s\<lparr>s_deviceId := None, s_revokedAt := Some (nullish (s_revokedAt s) (q_now q))\<rparr>"

lemma detach_row_simps [simp]:
  "s_id (detach_row q s) = s_id s"
  "s_userId (detach_row q s) = s_userId s"
  "s_deviceId (detach_row q s) = None"
  "s_tokenHash (detach_row q s) = s_tokenHash s"
  "s_createdAt (detach_row q s) = s_createdAt s"
  "s_expiresAt (detach_row q s) = s_expiresAt s"
  "s_revokedAt (detach_row q s) = Some (nullish (s_revokedAt s) (q_now q))"
  "session_keeps s (detach_row q s)"
  by (simp_all add: detach_row_def session_keeps_def)

lemma detach_row_eq:
  "(if s_revokedAt s = None then revoke_row q s else s)\<lparr>s_deviceId := None\<rparr> = detach_row q s"
  by (cases s) (auto simp: detach_row_def revoke_row_def)

lemma updateMany_detach:
  "updateMany (\<lambda>s. s_deviceId s = Some d) (\<lambda>s. s\<lparr>s_deviceId := None\<rparr>)
     (updateMany (\<lambda>s. s_deviceId s = Some d \<and> s_revokedAt s = None) (revoke_row q) rows) =
   updateMany (\<lambda>s. s_deviceId s = Some d) (detach_row q) rows"
proof (induction rows)
  case (Cons r rows)
  then show ?case using detach_row_eq [of r q] by (cases "s_revokedAt r = None") auto
qed simp

lemma remove_device_cases:
  obtains e where "remove_device q i d w = (Inl e, w)"
  | x where "find_device d w = Some x" "d_userId x = i" "fst (remove_device q i d w) = Inr ()"
    "users (snd (remove_device q i d w)) = users w"
    "auditLogs (snd (remove_device q i d w)) = auditLogs w"
    "verificationTokens (snd (remove_device q i d w)) = verificationTokens w"
    "redis (snd (remove_device q i d w)) = redis w"
    "devices (snd (remove_device q i d w)) = deleteMany (\<lambda>x. d_id x = d) (devices w)"
    "sessions (snd (remove_device q i d w)) = updateMany (\<lambda>s. s_deviceId s = Some d)
       (detach_row q) (sessions w)"
proof (cases "\<exists>x. find_device d w = Some x \<and> d_userId x = i")
  case False
  then have "\<exists>e. remove_device q i d w = (Inl e, w)"
    by (auto simp: remove_device_def split: option.splits)
  with that(1) show thesis by blast
next
  case True
  then obtain x where x: "find_device d w = Some x" "d_userId x = i" by blast
  then show thesis
    by (intro that(2) [of x]) (simp_all add: remove_device_def Let_def updateMany_detach)
qed

lemma integrity_remove_device:
  assumes "devices_ok w" and "sessions_ok w"
  shows "devices_ok (snd (remove_device q i d w)) \<and> sessions_ok (snd (remove_device q i d w))"
proof (rule remove_device_cases [of q i d w])
  fix x assume e: "users (snd (remove_device q i d w)) = users w"
    "devices (snd (remove_device q i d w)) = deleteMany (\<lambda>x. d_id x = d) (devices w)"
    "sessions (snd (remove_device q i d w)) = updateMany (\<lambda>s. s_deviceId s = Some d)
       (detach_row q) (sessions w)"
  have "d' \<in> d_id ` set (deleteMany (\<lambda>x. d_id x = d) (devices w))"
    if "d' \<in> d_id ` set (devices w)" "d' \<noteq> d" for d'
    using that by (auto simp: deleteMany_def)
  then show ?thesis
    using assms unfolding devices_ok_def sessions_ok_def e
    by (auto simp: unique_on_deleteMany unique_on_updateMany image_updateMany
        elim!: in_updateManyE) (auto simp: deleteMany_def)
qed (use assms in simp)

lemma evolves_remove_device: "session_evolves w (snd (remove_device q i d w))"
  by (rule remove_device_cases [of q i d w])
    (auto intro!: session_evolvesI [where new = "[]"]
      simp: updateMany_def list_all2_conv_all_nth)

section \<open>Risk\<close>

text \<open>The points each signal of an assessment stands for.\<close>

fun signal_points :: "string \<times> json \<Rightarrow> int" where
  "signal_points (k, v) =
     (if k = ''newDevice'' then 30
      else if k = ''newCountry'' then 25
      else if k = ''impossibleTravel'' then 50
      else case v of JInt n \<Rightarrow> min (n * 5) 20 | _ \<Rightarrow> 0)"

fun signal_fields :: "json \<Rightarrow> (string \<times> json) list" where
  "signal_fields (JObj fs) = fs"
| "signal_fields _ = []"

lemma country_risk_points:
  "fst (country_risk q country ss) = sum_list (map signal_points (snd (country_risk q country ss)))"
  by (auto simp: country_risk_def Let_def split: list.splits)

lemma country_risk_bounds: "0 \<le> fst (country_risk q country ss) \<and> fst (country_risk q country ss) \<le> 75"
  by (auto simp: country_risk_def Let_def split: list.splits)

lemma country_risk_keys:
  "set (map fst (snd (country_risk q country ss))) \<subseteq> {''newCountry'', ''impossibleTravel''}"
  by (auto simp: country_risk_def Let_def split: list.splits)

section \<open>Properties\<close>

text \<open>
  Before a login creates its session, \<open>enforceLimit\<close> leaves the user at most
  \<open>MAX_TRUSTED_DEVICES - 1\<close> live sessions, by revoking the oldest ones: every session it
  revokes was created no later than every session of the user it keeps, and the sessions of
  other users are untouched.
\<close>

theorem enforceLimit_evicts_oldest:
  assumes "sessions_ok w"
  shows "int (liveCount (q_now q) i (enforceLimit c q i w)) =
      min (int (liveCount (q_now q) i w)) (max 0 (c_maxTrustedDevices c - 1))
    \<and> (\<forall>s s'. s \<in> set (sessions w) \<and> s' \<in> set (sessions w) \<and> user_live (q_now q) i s
      \<and> user_live (q_now q) i s' \<and> s \<notin> set (sessions (enforceLimit c q i w))
      \<and> s' \<in> set (sessions (enforceLimit c q i w)) \<longrightarrow> s_createdAt s \<le> s_createdAt s')
    \<and> (\<forall>s \<in> set (sessions w). s_userId s \<noteq> i \<longrightarrow> s \<in> set (sessions (enforceLimit c q i w)))"
proof (intro conjI)
  let ?n = "overBy c (q_now q) i w" and ?a = "active_sessions (q_now q) i w"
  let ?out = "set (map s_id (take ?n ?a))"
  have upd: "sessions (enforceLimit c q i w) = updateMany (\<lambda>s. s_id s \<in> ?out) (revoke_row q) (sessions w)"
    by (simp add: enforceLimit_active)
  show "int (liveCount (q_now q) i (enforceLimit c q i w)) =
      min (int (liveCount (q_now q) i w)) (max 0 (c_maxTrustedDevices c - 1))"
    unfolding liveCount_enforceLimit [OF assms] overBy_def by linarith
  have kept: "s \<in> set (updateMany (\<lambda>s. s_id s \<in> ?out) (revoke_row q) (sessions w)) \<longleftrightarrow> s_id s \<notin> ?out"
    if "s \<in> set (sessions w)" "s_revokedAt s = None" for s
    using that by (auto simp: set_updateMany rev_image_eqI)
  show "\<forall>s s'. s \<in> set (sessions w) \<and> s' \<in> set (sessions w) \<and> user_live (q_now q) i s
      \<and> user_live (q_now q) i s' \<and> s \<notin> set (sessions (enforceLimit c q i w))
      \<and> s' \<in> set (sessions (enforceLimit c q i w)) \<longrightarrow> s_createdAt s \<le> s_createdAt s'"
    unfolding upd using kept enforceLimit_oldest [OF assms]
    by (metis session_live_def user_live_def)
  show "\<forall>s \<in> set (sessions w). s_userId s \<noteq> i \<longrightarrow> s \<in> set (sessions (enforceLimit c q i w))"
  proof (intro ballI impI)
    fix s assume s: "s \<in> set (sessions w)" "s_userId s \<noteq> i"
    have "s_id s \<notin> ?out"
    proof
      assume "s_id s \<in> ?out"
      then obtain x where x: "x \<in> set ?a" "s_id x = s_id s" by (auto dest: in_set_takeD)
      then have "x = s" using s assms unfolding sessions_ok_def set_active_sessions
        by (metis (mono_tags, lifting) mem_Collect_eq unique_onD)
      with x s show False by (simp add: set_active_sessions user_live_def)
    qed
    with s show "s \<in> set (sessions (enforceLimit c q i w))"
      unfolding upd by (auto simp: set_updateMany rev_image_eqI)
  qed
qed

theorem enforceLimit_evicts_oldest_witness:
  "sessions_ok (sample_world\<lparr>sessions := [sample_session, sample_session\<lparr>s_id := ''s2'', s_tokenHash := ''t2'', s_createdAt := 9\<rparr>,
       sample_session\<lparr>s_id := ''s3'', s_tokenHash := ''t3'', s_createdAt := 4\<rparr>]\<rparr>)
   \<and> int (liveCount 20 ''u1'' (enforceLimit sample_cfg (sample_req 20) ''u1''
       (sample_world\<lparr>sessions := [sample_session, sample_session\<lparr>s_id := ''s2'', s_tokenHash := ''t2'', s_createdAt := 9\<rparr>,
       sample_session\<lparr>s_id := ''s3'', s_tokenHash := ''t3'', s_createdAt := 4\<rparr>]\<rparr>))) = 2"
proof -
  let ?w = "sample_world\<lparr>sessions := [sample_session, sample_session\<lparr>s_id := ''s2'', s_tokenHash := ''t2'', s_createdAt := 9\<rparr>,
       sample_session\<lparr>s_id := ''s3'', s_tokenHash := ''t3'', s_createdAt := 4\<rparr>]\<rparr>"
  have ok: "sessions_ok ?w" by (simp add: sessions_ok_def unique_on_def sample_defs)
  moreover have "liveCount 20 ''u1'' ?w = 3"
    by (simp add: liveCount_def user_live_def session_live_def sample_defs)
  ultimately show ?thesis
    using enforceLimit_evicts_oldest [OF ok, of "sample_req 20" "''u1''" sample_cfg]
    by (simp add: sample_req_def sample_cfg_def)
qed

text \<open>
  The score of a login is explained by its signals: it is the sum of the points of the
  signals that are recorded with it (30 for a new device, 25 for a new country, 50 for
  impossible travel, five per failed attempt up to 20), it lies between 0 and 125, and it
  reaches the default threshold of 50 only with a country signal or with a new device and
  four failed attempts.
\<close>

theorem risk_score_explained:
  assumes "0 \<le> ari_failedLoginCount i"
  shows "fst (assess q i w) = sum_list (map signal_points (signal_fields (snd (assess q i w))))
    \<and> (0 \<le> fst (assess q i w) \<and> fst (assess q i w) \<le> 125)
    \<and> (50 \<le> fst (assess q i w) \<longrightarrow>
      ''newCountry'' \<in> set (map fst (signal_fields (snd (assess q i w))))
      \<or> ''impossibleTravel'' \<in> set (map fst (signal_fields (snd (assess q i w))))
      \<or> (ari_isNewDevice i \<and> 4 \<le> ari_failedLoginCount i))"
proof (intro conjI)
  let ?cr = "country_risk q (the (ari_country i)) (recent_sessions (ari_userId i) w)"
  show "fst (assess q i w) = sum_list (map signal_points (signal_fields (snd (assess q i w))))"
    by (simp add: assess_def Let_def case_prod_beta country_risk_points)
  show "0 \<le> fst (assess q i w)" "fst (assess q i w) \<le> 125"
    using assms country_risk_bounds [of q "the (ari_country i)" "recent_sessions (ari_userId i) w"]
    by (auto simp: assess_def Let_def case_prod_beta)
  have "fst ?cr \<noteq> 0 \<Longrightarrow> ''newCountry'' \<in> set (map fst (snd ?cr)) \<or> ''impossibleTravel'' \<in> set (map fst (snd ?cr))"
    by (auto simp: country_risk_def Let_def split: list.splits if_splits)
  then show "50 \<le> fst (assess q i w) \<longrightarrow>
      ''newCountry'' \<in> set (map fst (signal_fields (snd (assess q i w))))
      \<or> ''impossibleTravel'' \<in> set (map fst (signal_fields (snd (assess q i w))))
      \<or> (ari_isNewDevice i \<and> 4 \<le> ari_failedLoginCount i)"
    using assms by (auto simp: assess_def Let_def case_prod_beta split: if_splits)
qed


theorem risk_score_explained_witness:
  "fst (assess (sample_req 20) \<lparr>ari_userId = ''u1'', ari_isNewDevice = True, ari_country = Some ''FR'',
      ari_failedLoginCount = 2\<rparr> (sample_world\<lparr>sessions := [sample_session\<lparr>s_country := Some ''US''\<rparr>]\<rparr>)) = 115
   \<and> (115::int) \<le> 125"
proof -
  let ?i = "\<lparr>ari_userId = ''u1'', ari_isNewDevice = True, ari_country = Some ''FR'', ari_failedLoginCount = 2\<rparr>"
  let ?w = "sample_world\<lparr>sessions := [sample_session\<lparr>s_country := Some ''US''\<rparr>]\<rparr>"
  have "snd (assess (sample_req 20) ?i ?w) = JObj [(''newDevice'', JBool True),
      (''newCountry'', JObj [(''country'', JStr ''FR''), (''knownCountries'', JArr [JStr ''US''])]),
      (''impossibleTravel'', JObj [(''fromCountry'', JStr ''US''), (''toCountry'', JStr ''FR''),
         (''minutesSinceLastLogin'', JInt 0)]),
      (''recentFailedLogins'', JInt 2)]"
    by (simp add: assess_def country_risk_def recent_sessions_def RECENT_SESSIONS_LOOKBACK_def orderDesc_def
        findMany_def js_set_def List.map_filter_def IMPOSSIBLE_TRAVEL_WINDOW_MS_def round_minutes_def
        ms_per_minute_def sample_defs)
  then show ?thesis
    using risk_score_explained [of ?i "sample_req 20" ?w] by simp
qed

text \<open>
  A rotation blinds the travel check. \<open>rotate\<close> creates its session without a country, so
  once a user's newest session comes from a refresh, a login from another country seconds
  later is not scored as impossible travel, wherever the earlier sessions were.
\<close>

theorem rotation_blinds_travel_check:
  assumes rot: "rotate_session c q s ip w = (Inr r, w')"
    and newest: "\<forall>x \<in> set (sessions w). s_userId x = s_userId s \<longrightarrow> s_createdAt x < q_now q"
    and own: "ari_userId i = s_userId s"
  shows "''impossibleTravel'' \<notin> set (map fst (signal_fields (snd (assess q' i w'))))"
proof (rule rotate_cases [of c q s ip w])
  fix n assume r: "rotate_session c q s ip w = (Inr (q_rawToken q, n),
      update_sessions (\<lambda>x. s_id x = s_id s) (rotated_row q) (w\<lparr>sessions := sessions w @ [n]\<rparr>))"
    and n: "n = new_session c q (rotation_input s ip)"
  show ?thesis
  proof (cases "recent_sessions (s_userId s) w'")
    case Nil
    then show ?thesis by (auto simp: assess_def Let_def case_prod_beta country_risk_def own)
  next
    case (Cons m ms)
    then have m: "findFirstDesc s_createdAt (\<lambda>x. s_userId x = s_userId s) (sessions w') = Some m"
      by (auto simp: recent_sessions_def findFirstDesc_def RECENT_SESSIONS_LOOKBACK_def split: list.splits)
    note mm = findFirstDesc_SomeD [OF m]
    let ?n' = "if s_id n = s_id s then rotated_row q n else n"
    have w': "sessions w' = updateMany (\<lambda>x. s_id x = s_id s) (rotated_row q) (sessions w) @ [?n']"
      using r rot by simp
    then have "?n' \<in> set (sessions w')" by simp
    then have "s_createdAt ?n' \<le> s_createdAt m" using mm by (auto simp: n)
    then have ge: "q_now q \<le> s_createdAt m" by (simp add: n split: if_splits)
    have "m \<notin> set (updateMany (\<lambda>x. s_id x = s_id s) (rotated_row q) (sessions w))"
    proof
      assume "m \<in> set (updateMany (\<lambda>x. s_id x = s_id s) (rotated_row q) (sessions w))"
      then show False
        by (rule in_updateManyE) (use newest mm ge in \<open>force simp del: not_less\<close>)+
    qed
    with mm w' have "m = ?n'" by auto
    then have "s_country m = None" by (simp add: n rotated_row_def revoke_row_def)
    then show ?thesis
      by (auto simp: assess_def Let_def case_prod_beta country_risk_def own Cons)
  qed
qed (use rot in simp)

theorem rotation_blinds_travel_check_witness:
  "\<exists>r w'. rotate_session sample_cfg (sample_req 20) sample_session None sample_world = (Inr r, w')
     \<and> ''impossibleTravel'' \<notin> set (map fst (signal_fields (snd (assess (sample_req 30)
         \<lparr>ari_userId = ''u1'', ari_isNewDevice = True, ari_country = Some ''FR'',
          ari_failedLoginCount = 0\<rparr> w'))))"
proof -
  obtain r w' where e: "rotate_session sample_cfg (sample_req 20) sample_session None sample_world = (Inr r, w')"
    by (simp add: rotate_session_def create_session_def new_session_def rotation_input_def Let_def sample_defs)
  have "\<forall>x \<in> set (sessions sample_world). s_userId x = s_userId sample_session \<longrightarrow>
      s_createdAt x < q_now (sample_req 20)"
    by (simp add: sample_defs)
  from rotation_blinds_travel_check [OF e this] e show ?thesis
    by (simp add: sample_session_def)
qed

text \<open>
  Removing a device really logs it out. When \<open>remove\<close> succeeds, the device row is gone,
  every session that ran on it is revoked, no session refers to it any more, and every
  session of any other device is exactly as before.
\<close>

theorem remove_device_logs_out:
  assumes "sessions_ok w" and "remove_device q i d w = (Inr (), w')"
  shows "find_device d w' = None
    \<and> (\<forall>s \<in> set (sessions w'). s_deviceId s \<noteq> Some d)
    \<and> (\<forall>s \<in> set (sessions w). s_deviceId s = Some d \<longrightarrow>
        (\<exists>s' \<in> set (sessions w'). s_id s' = s_id s \<and> s_revokedAt s' \<noteq> None))
    \<and> (\<forall>s \<in> set (sessions w). s_deviceId s \<noteq> Some d \<longrightarrow> s \<in> set (sessions w'))
    \<and> length (sessions w') = length (sessions w)"
proof (rule remove_device_cases [of q i d w])
  assume e: "devices (snd (remove_device q i d w)) = deleteMany (\<lambda>x. d_id x = d) (devices w)"
    "sessions (snd (remove_device q i d w)) = updateMany (\<lambda>s. s_deviceId s = Some d) (detach_row q) (sessions w)"
  have "find_device d w' = None"
    using e(1) assms(2) by (simp add: find_device_def findFirst_None_iff deleteMany_def)
  moreover have "\<forall>s \<in> set (sessions w). s_deviceId s = Some d \<longrightarrow> detach_row q s \<in> set (sessions w')"
    using e(2) assms(2) by (auto simp: set_updateMany rev_image_eqI)
  then have "\<forall>s \<in> set (sessions w). s_deviceId s = Some d \<longrightarrow>
        (\<exists>s' \<in> set (sessions w'). s_id s' = s_id s \<and> s_revokedAt s' \<noteq> None)"
    by (metis detach_row_simps(1,7) option.distinct(1))
  ultimately show ?thesis
    using e(2) assms(2) by (auto simp: set_updateMany rev_image_eqI)
qed (use assms in auto)

theorem remove_device_logs_out_witness:
  "\<exists>w'. remove_device (sample_req 20) ''u1'' ''d1'' sample_world = (Inr (), w')
     \<and> find_device ''d1'' w' = None
     \<and> (\<exists>s' \<in> set (sessions w'). s_id s' = ''s1'' \<and> s_revokedAt s' \<noteq> None)"
proof -
  have ok: "sessions_ok sample_world" by (simp add: sessions_ok_def unique_on_def sample_defs)
  obtain w' where "remove_device (sample_req 20) ''u1'' ''d1'' sample_world = (Inr (), w')"
    by (simp add: remove_device_def find_device_def sample_defs)
  with remove_device_logs_out [OF ok this] show ?thesis
    by (auto simp: sample_world_def sample_session_def)
qed

end
