(* ===== verification/Revocation.thy ===== *)
theory Revocation
  imports Infra Samples
begin

text \<open>
  \<open>token-revocation.service.ts\<close>: the Redis layer that makes already issued access tokens
  and exhausted login challenges useless. Every method swallows a Redis failure: revocation
  is then not written, nobody is revoked, and no attempt is counted.
\<close>

section \<open>Operations\<close>

definition revokeUser :: "cfg \<Rightarrow> req \<Rightarrow> ident \<Rightarrow> world \<Rightarrow> world" where
  "revokeUser c q userId w =
     (if q_redisUp q then redis_setEx q (RevokedUser userId) 1 (c_accessTokenTtlSeconds c) w else w)"

definition isRevoked :: "req \<Rightarrow> ident \<Rightarrow> world \<Rightarrow> bool" where
  "isRevoked q userId w =
     (if q_redisUp q then redis_get q (RevokedUser userId) w \<noteq> None else False)"

definition MAX_CHALLENGE_ATTEMPTS :: int where
  "MAX_CHALLENGE_ATTEMPTS = 5"

definition registerChallengeAttempt ::
  "cfg \<Rightarrow> req \<Rightarrow> string \<Rightarrow> int \<Rightarrow> world \<Rightarrow> bool \<times> world" where
  "registerChallengeAttempt c q challengeToken ttlSeconds w =
     (if q_redisUp q
      then (let (n, w') = redis_count q (ChallengeAttempts (c_hash c challengeToken)) ttlSeconds w
            in (n \<le> MAX_CHALLENGE_ATTEMPTS, w'))
      else (True, w))"

section \<open>What they touch\<close>

lemma revokeUser_frame [frame_simps, simp]:
  "users (revokeUser c q i w) = users w"
  "devices (revokeUser c q i w) = devices w"
  "sessions (revokeUser c q i w) = sessions w"
  "verificationTokens (revokeUser c q i w) = verificationTokens w"
  "consentRecords (revokeUser c q i w) = consentRecords w"
  "invites (revokeUser c q i w) = invites w"
  "adminAccessInvites (revokeUser c q i w) = adminAccessInvites w"
  "auditLogs (revokeUser c q i w) = auditLogs w"
  "subscriptions (revokeUser c q i w) = subscriptions w"
  "leadFinderSubscriptions (revokeUser c q i w) = leadFinderSubscriptions w"
  "emailQueue (revokeUser c q i w) = emailQueue w"
  "stripeCalls (revokeUser c q i w) = stripeCalls w"
  by (simp_all add: revokeUser_def redis_setEx_def)

lemma registerChallengeAttempt_frame [frame_simps, simp]:
  "users (snd (registerChallengeAttempt c q t ttl w)) = users w"
  "devices (snd (registerChallengeAttempt c q t ttl w)) = devices w"
  "sessions (snd (registerChallengeAttempt c q t ttl w)) = sessions w"
  "auditLogs (snd (registerChallengeAttempt c q t ttl w)) = auditLogs w"
  "verificationTokens (snd (registerChallengeAttempt c q t ttl w)) = verificationTokens w"
  "emailQueue (snd (registerChallengeAttempt c q t ttl w)) = emailQueue w"
  by (simp_all add: registerChallengeAttempt_def case_prod_beta Let_def)

lemma isRevoked_after_revokeUser:
  assumes "q_redisUp q" and "q_redisUp q'"
  shows "isRevoked q' i (revokeUser c q i w) \<longleftrightarrow>
    q_now q' < q_now q + c_accessTokenTtlSeconds c * 1000"
  using assms by (simp add: isRevoked_def revokeUser_def redis_get_setEx)

lemma isRevoked_redis_cong: "redis w' = redis w \<Longrightarrow> isRevoked q i w' = isRevoked q i w"
  by (simp add: isRevoked_def redis_get_def)

lemma redis_get_redisUp [simp]: "redis_get (q\<lparr>q_redisUp := b\<rparr>) k w = redis_get q k w"
  by (auto simp: redis_get_def split: option.splits)

section \<open>The cap as an attempt limit\<close>

text \<open>The number of attempts counted so far, and the window in which the counter lives.\<close>

definition challenge_used :: "cfg \<Rightarrow> string \<Rightarrow> world \<Rightarrow> int" where
  "challenge_used c tok w = (case redis w (ChallengeAttempts (c_hash c tok)) of
     None \<Rightarrow> 0 | Some e \<Rightarrow> re_value e)"

definition challenge_window :: "cfg \<Rightarrow> string \<Rightarrow> world \<Rightarrow> time \<Rightarrow> bool" where
  "challenge_window c tok w t = (case redis w (ChallengeAttempts (c_hash c tok)) of
     None \<Rightarrow> False
   | Some e \<Rightarrow> 0 < re_value e \<and> (case re_expiresAt e of None \<Rightarrow> False | Some x \<Rightarrow> t < x))"

text \<open>An attempt made while Redis answers; during an outage nothing is counted.\<close>

definition challenge_attempt :: "cfg \<Rightarrow> int \<Rightarrow> string \<Rightarrow> req \<Rightarrow> world \<Rightarrow> bool \<times> world" where
  "challenge_attempt c ttl tok q w = registerChallengeAttempt c (q\<lparr>q_redisUp := True\<rparr>) tok ttl w"

lemma challenge_windowE:
  assumes "challenge_window c tok w t"
  obtains v x where "redis w (ChallengeAttempts (c_hash c tok)) =
      Some \<lparr>re_value = v, re_expiresAt = Some x\<rparr>" "0 < v" "t < x"
proof -
  from assms obtain e where e: "redis w (ChallengeAttempts (c_hash c tok)) = Some e"
    by (auto simp: challenge_window_def split: option.splits)
  with assms that show thesis
    by (cases e) (auto simp: challenge_window_def split: option.splits)
qed

lemma challenge_attempt_live:
  assumes r: "redis w (ChallengeAttempts (c_hash c tok)) =
      Some \<lparr>re_value = v, re_expiresAt = Some x\<rparr>" and "0 < v" "q_now q < x"
  shows "redis (snd (challenge_attempt c ttl tok q w)) (ChallengeAttempts (c_hash c tok)) =
      Some \<lparr>re_value = v + 1, re_expiresAt = Some x\<rparr>"
    and "fst (challenge_attempt c ttl tok q w) \<longleftrightarrow> v < MAX_CHALLENGE_ATTEMPTS"
proof -
  let ?q = "q\<lparr>q_redisUp := True\<rparr>" and ?k = "ChallengeAttempts (c_hash c tok)"
  have "redis (snd (redis_count ?q ?k ttl w)) ?k = Some \<lparr>re_value = v + 1, re_expiresAt = Some x\<rparr>"
    using assms by (intro redis_get_count_live) auto
  then show "redis (snd (challenge_attempt c ttl tok q w)) ?k =
      Some \<lparr>re_value = v + 1, re_expiresAt = Some x\<rparr>"
    by (simp add: challenge_attempt_def registerChallengeAttempt_def case_prod_beta Let_def)
  have "fst (redis_count ?q ?k ttl w) = v + 1"
    using assms by (simp add: redis_count_value redis_get_def)
  then show "fst (challenge_attempt c ttl tok q w) \<longleftrightarrow> v < MAX_CHALLENGE_ATTEMPTS"
    by (auto simp: challenge_attempt_def registerChallengeAttempt_def case_prod_beta Let_def
        MAX_CHALLENGE_ATTEMPTS_def)
qed

interpretation challenge: attempt_limit
  "challenge_attempt c ttl" "challenge_used c" "challenge_window c" MAX_CHALLENGE_ATTEMPTS
proof unfold_locales
  fix k :: string and w :: world and q :: req and t :: time
  assume "challenge_window c k w (q_now q)"
  then obtain v x where r: "redis w (ChallengeAttempts (c_hash c k)) =
      Some \<lparr>re_value = v, re_expiresAt = Some x\<rparr>" "0 < v" "q_now q < x"
    by (rule challenge_windowE)
  note live = challenge_attempt_live [OF r]
  show "challenge_used c k (snd (challenge_attempt c ttl k q w)) = challenge_used c k w + 1"
    by (simp add: challenge_used_def r live)
  show "fst (challenge_attempt c ttl k q w) = (challenge_used c k w < MAX_CHALLENGE_ATTEMPTS)"
    by (simp add: challenge_used_def r live)
  show "challenge_window c k (snd (challenge_attempt c ttl k q w)) t = challenge_window c k w t"
    using r(2) by (auto simp: challenge_window_def r(1) live)
qed

text \<open>The first attempt against a fresh challenge opens the window.\<close>

lemma challenge_first:
  assumes "redis_get q (ChallengeAttempts (c_hash c tok)) w = None"
  shows "fst (challenge_attempt c ttl tok q w)"
    and "challenge_used c tok (snd (challenge_attempt c ttl tok q w)) = 1"
    and "challenge_window c tok (snd (challenge_attempt c ttl tok q w)) t \<longleftrightarrow>
      t < q_now q + ttl * 1000"
  using assms
  by (simp_all add: challenge_attempt_def registerChallengeAttempt_def redis_count_def
      redis_incr_def redis_expire_def challenge_used_def challenge_window_def
      MAX_CHALLENGE_ATTEMPTS_def)

section \<open>Properties\<close>

text \<open>
  A login challenge can be answered at most five times. Whatever requests arrive after
  the first one within its lifetime, in any order and from anywhere, the attempts let through
  are exactly the first five; the cap does not depend on the answers or on the source.
\<close>

theorem challenge_attempts_capped:
  assumes fresh: "redis_get q (ChallengeAttempts (c_hash c tok)) w = None"
    and within: "\<forall>r \<in> set qs. q_now r < q_now q + ttl * 1000"
  shows "int (length (filter (\<lambda>b. b) (attempts (challenge_attempt c ttl tok) (q # qs) w))) \<le> 5
    \<and> (\<forall>i < length (q # qs). attempts (challenge_attempt c ttl tok) (q # qs) w ! i \<longleftrightarrow> i < 5)"
proof (intro conjI)
  let ?w = "snd (challenge_attempt c ttl tok q w)"
  note first = challenge_first [OF fresh]
  have win: "\<forall>r \<in> set qs. challenge_window c tok ?w (q_now r)"
    using within by (simp add: first)
  show "int (length (filter (\<lambda>b. b) (attempts (challenge_attempt c ttl tok) (q # qs) w))) \<le> 5"
    using challenge.attempts_bound [OF win] first by (simp add: MAX_CHALLENGE_ATTEMPTS_def)
  show "\<forall>i < length (q # qs). attempts (challenge_attempt c ttl tok) (q # qs) w ! i \<longleftrightarrow> i < 5"
  proof (intro allI impI)
    fix i assume "i < length (q # qs)"
    then show "attempts (challenge_attempt c ttl tok) (q # qs) w ! i \<longleftrightarrow> i < 5"
      using challenge.attempts_prefix [OF win, of "i - 1"] first
      by (cases i) (auto simp: MAX_CHALLENGE_ATTEMPTS_def)
  qed
qed

theorem challenge_attempts_capped_witness:
  "attempts (challenge_attempt sample_cfg 600 ''challenge'') (replicate 7 (sample_req 0)) empty_world ! 4
   \<and> \<not> attempts (challenge_attempt sample_cfg 600 ''challenge'') (replicate 7 (sample_req 0)) empty_world ! 5"
proof -
  have "redis_get (sample_req 0) (ChallengeAttempts (c_hash sample_cfg ''challenge'')) empty_world = None"
    by (simp add: redis_get_def empty_world_def)
  from challenge_attempts_capped [OF this, of "replicate 6 (sample_req 0)" 600]
  have "\<forall>i < 7. attempts (challenge_attempt sample_cfg 600 ''challenge'')
      (sample_req 0 # replicate 6 (sample_req 0)) empty_world ! i \<longleftrightarrow> i < 5"
    by (simp add: sample_req_def)
  moreover have "replicate 7 (sample_req 0) = sample_req 0 # replicate 6 (sample_req 0)"
    by (simp add: numeral_eq_Suc)
  ultimately show ?thesis by (simp del: attempts.simps)
qed

end
