(* ===== verification/Auth.thy ===== *)
theory Auth
  imports Sessions Revocation
begin

text \<open>
  \<open>auth.service.ts\<close>: registration, login with the new-device challenge, token refresh with
  rotation and reuse detection, logout, password reset, two-factor setup, devices, data
  export and erasure. Each handler is the whole method: its guards in order, its writes, its
  audit entries and emails, and the error it throws with the state it leaves.

  \<open>auth_inv\<close> is the integrity invariant of the tables these handlers write; every handler
  keeps it, only extends the audit log, and never brings a dead refresh token back.
\<close>

section \<open>Constants and inputs\<close>

definition TERMS_VERSION :: string where "TERMS_VERSION = ''2026-08-01''"
definition PRIVACY_VERSION :: string where "PRIVACY_VERSION = ''2026-08-01''"
definition EMAIL_VERIFICATION_EXPIRY_HOURS :: int where "EMAIL_VERIFICATION_EXPIRY_HOURS = 24"
definition PASSWORD_RESET_EXPIRY_HOURS :: int where "PASSWORD_RESET_EXPIRY_HOURS = 1"
definition LOGIN_CHALLENGE_EXPIRY_MINUTES :: int where "LOGIN_CHALLENGE_EXPIRY_MINUTES = 10"
definition CONCURRENT_REFRESH_GRACE_SECONDS :: int where "CONCURRENT_REFRESH_GRACE_SECONDS = 15"

record requestMeta =
  rm_ipAddress :: "string option"
  rm_userAgent :: "string option"
  rm_rawDeviceId :: string

record tokenPair =
  tp_accessToken :: string
  tp_refreshToken :: string
  tp_refreshTokenExpiresAt :: time

datatype loginResult =
    LoggedIn tokenPair
  | RequiresVerification challengeMethod string

section \<open>Helpers\<close>

definition signAccessToken :: "cfg \<Rightarrow> req \<Rightarrow> ident \<Rightarrow> string \<Rightarrow> role \<Rightarrow> string" where
  "signAccessToken c q sub email r =
     c_jwtSign c (q_now q) (AccessTokenPayload sub email r None) (c_accessTokenTtlSeconds c)"

definition signImpersonationToken ::
  "cfg \<Rightarrow> req \<Rightarrow> ident \<Rightarrow> string \<Rightarrow> role \<Rightarrow> ident \<Rightarrow> string" where
  "signImpersonationToken c q targetUserId targetEmail targetRole adminUserId =
     c_jwtSign c (q_now q)
       (AccessTokenPayload targetUserId targetEmail targetRole (Some adminUserId)) 600"

definition signChallenge :: "cfg \<Rightarrow> req \<Rightarrow> jwtPayload \<Rightarrow> string" where
  "signChallenge c q payload =
     c_jwtSign c (q_now q) payload (LOGIN_CHALLENGE_EXPIRY_MINUTES * 60)"

definition new_verification_token ::
  "cfg \<Rightarrow> req \<Rightarrow> ident \<Rightarrow> tokenPurpose \<Rightarrow> verificationToken" where
  "new_verification_token c q userId purpose =
     (let hours = (if purpose = EMAIL_VERIFICATION then EMAIL_VERIFICATION_EXPIRY_HOURS
                   else PASSWORD_RESET_EXPIRY_HOURS)
      in \<lparr>vt_id = q_newId q, vt_userId = userId, vt_tokenHash = c_hash c (q_rawToken q),
          vt_purpose = purpose, vt_expiresAt = q_now q + hours * 3600000, vt_usedAt = None\<rparr>)"

definition issueVerificationToken ::
  "cfg \<Rightarrow> req \<Rightarrow> ident \<Rightarrow> string \<Rightarrow> tokenPurpose \<Rightarrow> world \<Rightarrow> unit result \<times> world" where
  "issueVerificationToken c q userId email purpose w =
     (let w1 = w\<lparr>verificationTokens := updateMany
                 (\<lambda>t. vt_userId t = userId \<and> vt_purpose t = purpose \<and> vt_usedAt t = None)
                 (\<lambda>t. t\<lparr>vt_usedAt := Some (q_now q)\<rparr>) (verificationTokens w)\<rparr>;
          t = new_verification_token c q userId purpose
      in if \<exists>x \<in> set (verificationTokens w1). vt_id x = vt_id t \<or> vt_tokenHash x = vt_tokenHash t
         then (Inl (Internal P2002), w1)
         else if userId \<notin> u_id ` set (users w) then (Inl (Internal P2003), w1)
         else (Inr (), enqueue q
                (if purpose = EMAIL_VERIFICATION then VerificationEmail email (q_rawToken q)
                 else PasswordResetEmail email (q_rawToken q))
                (w1\<lparr>verificationTokens := verificationTokens w1 @ [t]\<rparr>)))"

definition consumeVerificationToken ::
  "cfg \<Rightarrow> req \<Rightarrow> string \<Rightarrow> tokenPurpose \<Rightarrow> world \<Rightarrow> verificationToken result \<times> world" where
  "consumeVerificationToken c q rawToken purpose w =
     (case findFirst (\<lambda>t. vt_tokenHash t = c_hash c rawToken) (verificationTokens w) of
        None \<Rightarrow> (Inl (BadRequest Invalid_or_expired_link), w)
      | Some r \<Rightarrow>
          if vt_purpose r \<noteq> purpose then (Inl (BadRequest Invalid_or_expired_link), w)
          else if vt_usedAt r \<noteq> None then (Inl (BadRequest Link_already_used), w)
          else if vt_expiresAt r < q_now q then (Inl (BadRequest Link_expired), w)
          else (Inr r, w\<lparr>verificationTokens := updateMany (\<lambda>t. vt_id t = vt_id r)
                  (\<lambda>t. t\<lparr>vt_usedAt := Some (q_now q)\<rparr>) (verificationTokens w)\<rparr>))"

text \<open>
  \<open>issueTokenPair\<close>: the risk is assessed on the row as it is read here, the cap is enforced,
  the session is created, and the login (and the high-risk entry) is recorded.
\<close>

definition high_risk_entry :: "ident \<Rightarrow> ident \<Rightarrow> int \<times> json \<Rightarrow> string option \<Rightarrow> auditEntry" where
  "high_risk_entry userId sessionId risk ip =
     (entry (Some userId) Auth_high_risk_login)\<lparr>ae_targetType := Some ''Session'',
       ae_targetId := Some sessionId,
       ae_metadata := Some (JObj [(''score'', JInt (fst risk)), (''signals'', snd risk)]),
       ae_ipAddress := ip\<rparr>"

definition login_entry :: "ident \<Rightarrow> ident \<Rightarrow> ident \<Rightarrow> string option \<Rightarrow> auditEntry" where
  "login_entry userId deviceId sessionId ip =
     (entry (Some userId) Auth_login)\<lparr>
       ae_metadata := Some (JObj [(''deviceId'', JStr deviceId), (''sessionId'', JStr sessionId)]),
       ae_ipAddress := ip\<rparr>"

definition login_risk :: "cfg \<Rightarrow> req \<Rightarrow> user \<Rightarrow> requestMeta \<Rightarrow> bool \<Rightarrow> world \<Rightarrow> int \<times> json" where
  "login_risk c q user meta isNewDevice w =
     assess q \<lparr>ari_userId = u_id user, ari_isNewDevice = isNewDevice,
       ari_country = map_option gl_country (geo_lookup c (rm_ipAddress meta)),
       ari_failedLoginCount = u_failedLoginCount user\<rparr> w"

definition login_session_input ::
  "cfg \<Rightarrow> user \<Rightarrow> ident \<Rightarrow> requestMeta \<Rightarrow> int \<times> json \<Rightarrow> createSessionInput" where
  "login_session_input c user deviceId meta risk =
     (let geo = geo_lookup c (rm_ipAddress meta) in
      \<lparr>ci_userId = u_id user, ci_deviceId = Some deviceId, ci_ipAddress = rm_ipAddress meta,
       ci_country = map_option gl_country geo, ci_city = Option.bind geo gl_city,
       ci_timezone = Option.bind geo gl_timezone, ci_riskScore = fst risk,
       ci_riskSignals = Some (snd risk)\<rparr>)"

definition issueTokenPair ::
  "cfg \<Rightarrow> req \<Rightarrow> ident \<Rightarrow> ident \<Rightarrow> requestMeta \<Rightarrow> bool \<Rightarrow> world \<Rightarrow> tokenPair result \<times> world" where
  "issueTokenPair c q userId deviceId meta isNewDevice w =
     (case findById userId w of
        None \<Rightarrow> (Inl (Unauthorized []), w)
      | Some user \<Rightarrow>
          (let isFirstLogin = (u_lastLoginAt user = None);
               risk = login_risk c q user meta isNewDevice w;
               w1 = enforceLimit c q (u_id user) w
           in case create_session c q (login_session_input c user deviceId meta risk) w1 of
                (Inl e, w2) \<Rightarrow> (Inl e, w2)
              | (Inr (rawToken, session), w2) \<Rightarrow>
                  (let w3 = updateLastLogin q (u_id user) w2;
                       w4 = (if isFirstLogin
                             then enqueue q (WelcomeEmail (u_email user) (u_fullName user)) w3 else w3);
                       w5 = audit_record q
                              (login_entry (u_id user) deviceId (s_id session) (rm_ipAddress meta)) w4;
                       w6 = (if fst risk \<ge> c_riskHighThreshold c
                             then audit_record q
                               (high_risk_entry (u_id user) (s_id session) risk (rm_ipAddress meta)) w5
                             else w5)
                   in (Inr \<lparr>tp_accessToken = signAccessToken c q (u_id user) (u_email user) (u_role user),
                            tp_refreshToken = rawToken,
                            tp_refreshTokenExpiresAt = s_expiresAt session\<rparr>, w6))))"

section \<open>Registration and email verification\<close>

record registerDto =
  rg_email :: string
  rg_fullName :: string
  rg_password :: string
  rg_phone :: "string option"

definition accept_admin_invite :: "req \<Rightarrow> adminAccessInvite option \<Rightarrow> world \<Rightarrow> world" where
  "accept_admin_invite q accessInvite w = (case accessInvite of
       None \<Rightarrow> w
     | Some i \<Rightarrow> w\<lparr>adminAccessInvites := updateMany (\<lambda>x. ai_id x = ai_id i)
           (\<lambda>x. x\<lparr>ai_status := Invite_ACCEPTED, ai_acceptedAt := Some (q_now q)\<rparr>)
           (adminAccessInvites w)\<rparr>)"

definition registered_user ::
  "req \<Rightarrow> registerDto \<Rightarrow> adminAccessInvite option \<Rightarrow> user" where
  "registered_user q dto accessInvite =
     (let u = new_user q (normalizeEmail (rg_email dto)) (rg_fullName dto)
                (q_passwordHash q (rg_password dto)) (rg_phone dto)
      in case accessInvite of None \<Rightarrow> u
         | Some i \<Rightarrow> u\<lparr>u_role := ai_role i,
             u_adminGrantedDirectoryAccess := ai_grantDirectoryAccess i,
             u_adminGrantedLeadFinderAccess := ai_grantLeadFinderAccess i\<rparr>)"

definition consent_row :: "req \<Rightarrow> ident \<Rightarrow> consentDocumentType \<Rightarrow> string \<Rightarrow> string option \<Rightarrow> consentRecord" where
  "consent_row q userId doc version ip = \<lparr>cr_userId = userId, cr_documentType = doc,
     cr_version = version, cr_ipAddress = ip, cr_acceptedAt = q_now q\<rparr>"

definition register ::
  "cfg \<Rightarrow> req \<Rightarrow> registerDto \<Rightarrow> requestMeta \<Rightarrow> world \<Rightarrow> string result \<times> world" where
  "register c q dto meta w =
     (case findByEmail (rg_email dto) w of
        Some _ \<Rightarrow> (Inl (Conflict Account_with_this_email_already_exists), w)
      | None \<Rightarrow>
          (let accessInvite = findFirst (\<lambda>i. ai_email i = normalizeEmail (rg_email dto)
                                 \<and> ai_status i = Invite_PENDING) (adminAccessInvites w);
               created = registered_user q dto accessInvite
           in case insert_user created w of
                Inl e \<Rightarrow> (Inl e, w)
              | Inr w1 \<Rightarrow>
                  (let w2 = accept_admin_invite q accessInvite w1;
                       w3 = w2\<lparr>consentRecords := consentRecords w2 @
                              [consent_row q (u_id created) TERMS TERMS_VERSION (rm_ipAddress meta),
                               consent_row q (u_id created) PRIVACY PRIVACY_VERSION (rm_ipAddress meta)]\<rparr>;
                       w4 = w3\<lparr>invites := updateMany
                              (\<lambda>i. iv_email i = u_email created \<and> iv_status i = Invite_PENDING)
                              (\<lambda>i. i\<lparr>iv_status := Invite_ACCEPTED, iv_acceptedAt := Some (q_now q)\<rparr>)
                              (invites w3)\<rparr>;
                       w5 = audit_record q ((entry (Some (u_id created)) Auth_register)
                              \<lparr>ae_ipAddress := rm_ipAddress meta\<rparr>) w4
                   in (Inr ''Account created. Check your email to verify your address.'', w5))))"

definition verifyEmail :: "cfg \<Rightarrow> req \<Rightarrow> string \<Rightarrow> world \<Rightarrow> string result \<times> world" where
  "verifyEmail c q token w =
     (case consumeVerificationToken c q token EMAIL_VERIFICATION w of
        (Inl e, w1) \<Rightarrow> (Inl e, w1)
      | (Inr r, w1) \<Rightarrow>
          (Inr (''Email verified '' @ em_dash @ '' you can now log in.''),
           audit_record q (entry (Some (vt_userId r)) Auth_email_verified)
             (markEmailVerified q (vt_userId r) w1)))"

section \<open>Login\<close>

definition challenge_entry :: "ident \<Rightarrow> ident \<Rightarrow> string \<Rightarrow> string option \<Rightarrow> auditEntry" where
  "challenge_entry userId deviceId method ip =
     (entry (Some userId) Auth_new_device_challenge)\<lparr>
       ae_metadata := Some (JObj [(''deviceId'', JStr deviceId), (''method'', JStr method)]),
       ae_ipAddress := ip\<rparr>"

definition new_device_challenge ::
  "cfg \<Rightarrow> req \<Rightarrow> user \<Rightarrow> device \<Rightarrow> requestMeta \<Rightarrow> world \<Rightarrow> loginResult \<times> world" where
  "new_device_challenge c q user device meta w =
     (if u_twoFactorEnabled user
      then (RequiresVerification TOTP
              (signChallenge c q (LoginChallengePayload (u_id user) (d_id device) TOTP None)),
            audit_record q (challenge_entry (u_id user) (d_id device) ''TOTP'' (rm_ipAddress meta)) w)
      else (let code = generateNumericCode (q_code q) in
           (RequiresVerification EMAIL_CODE
              (signChallenge c q (LoginChallengePayload (u_id user) (d_id device) EMAIL_CODE
                 (Some (c_hash c code)))),
            audit_record q (challenge_entry (u_id user) (d_id device) ''EMAIL_CODE'' (rm_ipAddress meta))
              (enqueue q (DeviceCodeEmail (u_email user) code) w))))"

definition login_failed :: "cfg \<Rightarrow> req \<Rightarrow> user \<Rightarrow> requestMeta \<Rightarrow> world \<Rightarrow> loginResult result \<times> world" where
  "login_failed c q user meta w =
     (let (locked, w1) = registerFailedLogin c q (u_id user) w;
          w2 = audit_record q ((entry (Some (u_id user)) Auth_login_failed)
                 \<lparr>ae_ipAddress := rm_ipAddress meta\<rparr>) w1
      in (Inl (Unauthorized (if locked then Too_many_failed_attempts_locked
                             else Invalid_email_or_password)), w2))"

definition login ::
  "cfg \<Rightarrow> req \<Rightarrow> string \<Rightarrow> string \<Rightarrow> requestMeta \<Rightarrow> world \<Rightarrow> loginResult result \<times> world" where
  "login c q email password meta w =
     (case findByEmail email w of
        None \<Rightarrow> (Inl (Unauthorized Invalid_email_or_password), w)
      | Some user \<Rightarrow>
          if isLocked q user then (Inl (Unauthorized Too_many_failed_attempts_try_later), w)
          else if u_status user \<noteq> ACTIVE then (Inl (Unauthorized Account_not_active_contact_us), w)
          else if \<not> c_argonVerify c (u_passwordHash user) password
          then login_failed c q user meta w
          else (let w1 = resetFailedLogins (u_id user) w
                in case findOrCreateDevice q (u_id user) (hashDeviceId c (rm_rawDeviceId meta))
                          (describeUserAgent c (rm_userAgent meta)) w1 of
                     (Inl e, w2) \<Rightarrow> (Inl e, w2)
                   | (Inr (device, isNew), w2) \<Rightarrow>
                       if isNew
                       then (let (r, w3) = new_device_challenge c q user device meta w2 in (Inr r, w3))
                       else (case issueTokenPair c q (u_id user) (d_id device) meta False w2 of
                               (Inl e, w3) \<Rightarrow> (Inl e, w3)
                             | (Inr tp, w3) \<Rightarrow> (Inr (LoggedIn tp), w3))))"

definition challenge_code_valid ::
  "cfg \<Rightarrow> req \<Rightarrow> user \<Rightarrow> challengeMethod \<Rightarrow> string option \<Rightarrow> string \<Rightarrow> bool result" where
  "challenge_code_valid c q user method codeHash code =
     (case method of
        TOTP \<Rightarrow>
          (if \<not> truthy (u_twoFactorSecret user) then Inl (Unauthorized TwoFactor_not_set_up)
           else (case decrypt c (the (u_twoFactorSecret user)) of
                   None \<Rightarrow> Inl (Internal MalformedPayload)
                 | Some secret \<Rightarrow> Inr (c_totpVerify c (q_now q) code secret)))
      | EMAIL_CODE \<Rightarrow>
          (if \<not> truthy codeHash then Inl (Unauthorized Invalid_verification_token)
           else Inr (c_hash c code = the codeHash)))"

definition verifyLogin ::
  "cfg \<Rightarrow> req \<Rightarrow> string \<Rightarrow> string \<Rightarrow> requestMeta \<Rightarrow> world \<Rightarrow> tokenPair result \<times> world" where
  "verifyLogin c q challengeToken code meta w =
     (case c_jwtVerify c (q_now q) challengeToken of
        None \<Rightarrow> (Inl (Unauthorized Verification_expired), w)
      | Some (AccessTokenPayload _ _ _ _) \<Rightarrow> (Inl (Unauthorized Invalid_verification_token), w)
      | Some (LoginChallengePayload sub deviceId method codeHash) \<Rightarrow>
          (case findById sub w of
             None \<Rightarrow> (Inl (Unauthorized Account_not_found), w)
           | Some user \<Rightarrow>
               (let (withinCap, w1) = registerChallengeAttempt c q challengeToken
                                        (LOGIN_CHALLENGE_EXPIRY_MINUTES * 60) w
                in if \<not> withinCap then (Inl (Unauthorized Too_many_attempts_log_in_again), w1)
                   else (case challenge_code_valid c q user method codeHash code of
                      Inl e \<Rightarrow> (Inl e, w1)
                    | Inr False \<Rightarrow>
                        (Inl (Unauthorized Invalid_code),
                         audit_record q ((entry (Some (u_id user)) Auth_device_verification_failed)
                           \<lparr>ae_ipAddress := rm_ipAddress meta\<rparr>) w1)
                    | Inr True \<Rightarrow>
                        (let w2 = (if method = EMAIL_CODE \<and> u_emailVerifiedAt user = None
                                   then markEmailVerified q (u_id user) w1 else w1)
                         in issueTokenPair c q (u_id user) deviceId meta True w2)))))"

section \<open>Session lifecycle\<close>

text \<open>
  The session a refresh continues: the one of the token if it is live; else the live successor
  of a session rotated at most \<open>CONCURRENT_REFRESH_GRACE_SECONDS\<close> ago.
\<close>

definition grace_successor :: "req \<Rightarrow> session \<Rightarrow> world \<Rightarrow> session option" where
  "grace_successor q anySession w =
     (case (s_revokedAt anySession, s_replacedByTokenId anySession) of
        (Some revokedAt, Some next) \<Rightarrow>
          (if next \<noteq> [] \<and> q_now q - revokedAt \<le> CONCURRENT_REFRESH_GRACE_SECONDS * 1000
           then (case findSessionById next w of
                   None \<Rightarrow> None
                 | Some successor \<Rightarrow> if session_live (q_now q) successor then Some successor else None)
           else None)
      | _ \<Rightarrow> None)"

definition reuse_response :: "req \<Rightarrow> session \<Rightarrow> requestMeta \<Rightarrow> world \<Rightarrow> world" where
  "reuse_response q anySession meta w =
     audit_record q ((entry (Some (s_userId anySession)) Auth_refresh_token_reuse_detected)
         \<lparr>ae_metadata := Some (JObj [(''sessionId'', JStr (s_id anySession))]),
          ae_ipAddress := rm_ipAddress meta\<rparr>)
       (revokeAllForUser q (s_userId anySession) w)"

definition refresh_with ::
  "cfg \<Rightarrow> req \<Rightarrow> session \<Rightarrow> requestMeta \<Rightarrow> world \<Rightarrow> tokenPair result \<times> world" where
  "refresh_with c q session meta w =
     (case findById (s_userId session) w of
        None \<Rightarrow> (Inl (Unauthorized Account_is_not_active), revoke q (s_id session) w)
      | Some user \<Rightarrow>
          if u_status user \<noteq> ACTIVE
          then (Inl (Unauthorized Account_is_not_active), revoke q (s_id session) w)
          else (case rotate_session c q session (rm_ipAddress meta) w of
                  (Inl e, w1) \<Rightarrow> (Inl e, w1)
                | (Inr (rawToken, newSession), w1) \<Rightarrow>
                    (Inr \<lparr>tp_accessToken = signAccessToken c q (u_id user) (u_email user) (u_role user),
                          tp_refreshToken = rawToken,
                          tp_refreshTokenExpiresAt = s_expiresAt newSession\<rparr>, w1)))"

definition refresh ::
  "cfg \<Rightarrow> req \<Rightarrow> string \<Rightarrow> requestMeta \<Rightarrow> world \<Rightarrow> tokenPair result \<times> world" where
  "refresh c q rawRefreshToken meta w =
     (case findActiveByRawToken c q rawRefreshToken w of
        Some session \<Rightarrow> refresh_with c q session meta w
      | None \<Rightarrow>
          (case findAnyByRawToken c rawRefreshToken w of
             None \<Rightarrow> (Inl (Unauthorized Session_expired), w)
           | Some anySession \<Rightarrow>
               (case grace_successor q anySession w of
                  Some successor \<Rightarrow> refresh_with c q successor meta w
                | None \<Rightarrow>
                    (Inl (Unauthorized Session_expired),
                     if s_revokedAt anySession \<noteq> None then reuse_response q anySession meta w
                     else w))))"

definition logout :: "cfg \<Rightarrow> req \<Rightarrow> string \<Rightarrow> world \<Rightarrow> world" where
  "logout c q rawRefreshToken w =
     (case findActiveByRawToken c q rawRefreshToken w of
        None \<Rightarrow> w
      | Some session \<Rightarrow>
          audit_record q (entry (Some (s_userId session)) Auth_logout) (revoke q (s_id session) w))"

definition logoutAll :: "cfg \<Rightarrow> req \<Rightarrow> ident \<Rightarrow> world \<Rightarrow> world" where
  "logoutAll c q userId w =
     audit_record q (entry (Some userId) Auth_logout_all)
       (revokeUser c q userId (revokeAllForUser q userId w))"

section \<open>Password reset\<close>

definition forgotPassword :: "cfg \<Rightarrow> req \<Rightarrow> string \<Rightarrow> world \<Rightarrow> string result \<times> world" where
  "forgotPassword c q email w =
     (case findByEmail email w of
        None \<Rightarrow> (Inr ''If an account with that email exists, a reset link has been sent.'', w)
      | Some user \<Rightarrow>
          (case issueVerificationToken c q (u_id user) (u_email user) PASSWORD_RESET w of
             (Inl e, w1) \<Rightarrow> (Inl e, w1)
           | (Inr _, w1) \<Rightarrow>
               (Inr ''If an account with that email exists, a reset link has been sent.'',
                audit_record q (entry (Some (u_id user)) Auth_password_reset_requested) w1)))"

definition resetPassword ::
  "cfg \<Rightarrow> req \<Rightarrow> string \<Rightarrow> string \<Rightarrow> world \<Rightarrow> string result \<times> world" where
  "resetPassword c q token newPassword w =
     (case consumeVerificationToken c q token PASSWORD_RESET w of
        (Inl e, w1) \<Rightarrow> (Inl e, w1)
      | (Inr r, w1) \<Rightarrow>
          (let w2 = updatePasswordHash (vt_userId r) (q_passwordHash q newPassword) w1;
               w3 = revokeAllForUser q (vt_userId r) w2;
               w4 = revokeUser c q (vt_userId r) w3;
               w5 = audit_record q (entry (Some (vt_userId r)) Auth_password_reset_completed) w4
           in (Inr ''Password updated. Please log in again.'', w5)))"

section \<open>Two-factor authentication\<close>

record twoFactorSetup =
  tf_secret :: string
  tf_otpauthUrl :: string
  tf_qrCodeDataUrl :: string

definition start2fa :: "cfg \<Rightarrow> req \<Rightarrow> ident \<Rightarrow> world \<Rightarrow> twoFactorSetup result \<times> world" where
  "start2fa c q userId w =
     (case findById userId w of
        None \<Rightarrow> (Inl (Unauthorized []), w)
      | Some user \<Rightarrow>
          if u_twoFactorEnabled user then (Inl (BadRequest TwoFactor_already_enabled), w)
          else (let secret = q_totpSecret q;
                    otpauthUrl = c_totpUri c (u_email user) secret
                in (Inr \<lparr>tf_secret = secret, tf_otpauthUrl = otpauthUrl,
                         tf_qrCodeDataUrl = c_qrDataUrl c otpauthUrl\<rparr>,
                    setTwoFactorSecret userId (encrypt c q secret) w)))"

definition confirm2fa :: "cfg \<Rightarrow> req \<Rightarrow> ident \<Rightarrow> string \<Rightarrow> world \<Rightarrow> string result \<times> world" where
  "confirm2fa c q userId code w =
     (let secretColumn = Option.bind (findById userId w) u_twoFactorSecret
      in if \<not> truthy secretColumn then (Inl (BadRequest Start_2fa_before_confirming), w)
         else (case decrypt c (the secretColumn) of
                 None \<Rightarrow> (Inl (Internal MalformedPayload), w)
               | Some secret \<Rightarrow>
                   if \<not> c_totpVerify c (q_now q) code secret then (Inl (Unauthorized Invalid_code), w)
                   else (Inr ''Two-factor authentication enabled'',
                         audit_record q (entry (Some userId) Auth_2fa_enabled)
                           (enableTwoFactor userId w))))"

definition disable2fa :: "cfg \<Rightarrow> req \<Rightarrow> ident \<Rightarrow> string \<Rightarrow> world \<Rightarrow> string result \<times> world" where
  "disable2fa c q userId password w =
     (case findById userId w of
        None \<Rightarrow> (Inl (Unauthorized []), w)
      | Some user \<Rightarrow>
          if \<not> c_argonVerify c (u_passwordHash user) password
          then (Inl (Unauthorized Incorrect_password), w)
          else (Inr ''Two-factor authentication disabled'',
                audit_record q (entry (Some userId) Auth_2fa_disabled) (disableTwoFactor userId w)))"

section \<open>Devices\<close>

definition trustDevice ::
  "cfg \<Rightarrow> req \<Rightarrow> ident \<Rightarrow> ident \<Rightarrow> world \<Rightarrow> deviceListView result \<times> world" where
  "trustDevice c q userId deviceId w =
     (case trust c q userId deviceId w of
        (Inl e, w1) \<Rightarrow> (Inl e, w1)
      | (Inr d, w1) \<Rightarrow>
          (Inr d, audit_record q ((entry (Some userId) Auth_device_trusted)
             \<lparr>ae_targetId := Some deviceId\<rparr>) w1))"

definition removeDevice :: "req \<Rightarrow> ident \<Rightarrow> ident \<Rightarrow> world \<Rightarrow> unit result \<times> world" where
  "removeDevice q userId deviceId w =
     (case remove_device q userId deviceId w of
        (Inl e, w1) \<Rightarrow> (Inl e, w1)
      | (Inr _, w1) \<Rightarrow>
          (Inr (), audit_record q ((entry (Some userId) Auth_device_removed)
             \<lparr>ae_targetId := Some deviceId\<rparr>) w1))"

section \<open>Data export and erasure\<close>

text \<open>
  The export selects columns. Those that no row of \<open>Schema\<close> keeps (the \<open>updatedAt\<close> of the account) are not exported
  here, and of the plan only name and price, of an invoice only what it charges, its status, document and payment.
\<close>

record profileExport =
  px_id :: ident
  px_email :: string
  px_fullName :: string
  px_phone :: "string option"
  px_role :: role
  px_status :: accountStatus
  px_stripeCustomerId :: "string option"
  px_emailVerifiedAt :: "time option"
  px_twoFactorEnabled :: bool
  px_lastLoginAt :: "time option"
  px_createdAt :: time

record sessionExport =
  sx_id :: ident
  sx_deviceId :: "ident option"
  sx_ipAddress :: "string option"
  sx_country :: "string option"
  sx_city :: "string option"
  sx_timezone :: "string option"
  sx_createdAt :: time
  sx_lastActivityAt :: time
  sx_expiresAt :: time
  sx_revokedAt :: "time option"

record subscriptionExport =
  bx_id :: ident
  bx_status :: subscriptionStatus
  bx_currentPeriodStart :: time
  bx_currentPeriodEnd :: time
  bx_cancelAtPeriodEnd :: bool
  bx_trialEndsAt :: "time option"
  bx_createdAt :: time
  bx_plan :: "(string \<times> int) option"
  bx_invoices :: "(int \<times> string \<times> invoiceStatus \<times> string option \<times> time option) list"

record auditExport =
  ax_action :: string
  ax_targetType :: "string option"
  ax_targetId :: "string option"
  ax_ipAddress :: "string option"
  ax_createdAt :: time

record dataExport =
  ex_generatedAt :: time
  ex_profile :: profileExport
  ex_devices :: "deviceListView list"
  ex_sessions :: "sessionExport list"
  ex_subscriptions :: "subscriptionExport list"
  ex_consentRecords :: "(consentDocumentType \<times> string \<times> string option \<times> time) list"
  ex_auditLogs :: "auditExport list"

definition profile_export :: "user \<Rightarrow> profileExport" where
  "profile_export u = \<lparr>px_id = u_id u, px_email = u_email u, px_fullName = u_fullName u,
     px_phone = u_phone u, px_role = u_role u, px_status = u_status u,
     px_stripeCustomerId = u_stripeCustomerId u, px_emailVerifiedAt = u_emailVerifiedAt u,
     px_twoFactorEnabled = u_twoFactorEnabled u, px_lastLoginAt = u_lastLoginAt u,
     px_createdAt = u_createdAt u\<rparr>"

definition session_export :: "session \<Rightarrow> sessionExport" where
  "session_export s = \<lparr>sx_id = s_id s, sx_deviceId = s_deviceId s, sx_ipAddress = s_ipAddress s,
     sx_country = s_country s, sx_city = s_city s, sx_timezone = s_timezone s,
     sx_createdAt = s_createdAt s, sx_lastActivityAt = s_lastActivityAt s,
     sx_expiresAt = s_expiresAt s, sx_revokedAt = s_revokedAt s\<rparr>"

definition subscription_export :: "world \<Rightarrow> subscription \<Rightarrow> subscriptionExport" where
  "subscription_export w b = \<lparr>bx_id = sb_id b, bx_status = sb_status b,
     bx_currentPeriodStart = sb_currentPeriodStart b, bx_currentPeriodEnd = sb_currentPeriodEnd b,
     bx_cancelAtPeriodEnd = sb_cancelAtPeriodEnd b, bx_trialEndsAt = sb_trialEndsAt b,
     bx_createdAt = sb_createdAt b,
     bx_plan = map_option (\<lambda>p. (pl_name p, pl_amountCents p))
       (findFirst (\<lambda>p. pl_id p = sb_planId b) (plans w)),
     bx_invoices = map (\<lambda>i. (in_amountCents i, in_currency i, in_status i, in_pdfUrl i, in_paidAt i))
       (findMany (\<lambda>i. in_subscriptionId i = sb_id b) (invoices w))\<rparr>"

definition audit_export :: "auditLog \<Rightarrow> auditExport" where
  "audit_export a = \<lparr>ax_action = al_action a, ax_targetType = al_targetType a,
     ax_targetId = al_targetId a, ax_ipAddress = al_ipAddress a, ax_createdAt = al_createdAt a\<rparr>"

definition exportData :: "req \<Rightarrow> ident \<Rightarrow> world \<Rightarrow> dataExport result \<times> world" where
  "exportData q userId w =
     (case findById userId w of
        None \<Rightarrow> (Inl (Unauthorized []), w)
      | Some u \<Rightarrow>
          (Inr \<lparr>ex_generatedAt = q_now q, ex_profile = profile_export u,
             ex_devices = map device_list_view (findMany (\<lambda>d. d_userId d = userId) (devices w)),
             ex_sessions = map session_export
               (orderDesc s_createdAt (findMany (\<lambda>s. s_userId s = userId) (sessions w))),
             ex_subscriptions = map (subscription_export w)
               (orderDesc sb_createdAt (findMany (\<lambda>b. sb_userId b = userId) (subscriptions w))),
             ex_consentRecords = map (\<lambda>r. (cr_documentType r, cr_version r, cr_ipAddress r, cr_acceptedAt r))
               (findMany (\<lambda>r. cr_userId r = userId) (consentRecords w)),
             ex_auditLogs = map audit_export
               (orderDesc al_createdAt (findMany (\<lambda>a. al_actorUserId a = Some userId) (auditLogs w)))\<rparr>,
           audit_record q (entry (Some userId) Auth_data_export_requested) w))"

definition live_statuses :: "subscriptionStatus list" where
  "live_statuses = [Sub_ACTIVE, Sub_TRIALING, Sub_PAST_DUE]"

definition deleted_email :: "ident \<Rightarrow> string" where
  "deleted_email userId = ''deleted-'' @ userId @ ''@deleted.invalid''"

definition cancel_subscription_row :: "subscription \<Rightarrow> subscription" where
  "cancel_subscription_row b = b\<lparr>sb_status := Sub_CANCELED, sb_cancelAtPeriodEnd := False\<rparr>"

text \<open>The local transaction of an erasure: it rolls back when the freed address is taken.\<close>

definition erase_account :: "req \<Rightarrow> ident \<Rightarrow> subscription option \<Rightarrow> world \<Rightarrow> world result" where
  "erase_account q userId activeSubscription w =
     (if \<exists>x \<in> set (users w). u_email x = deleted_email userId \<and> u_id x \<noteq> userId
      then Inl (Internal P2002)
      else (let w1 = (case activeSubscription of None \<Rightarrow> w
                      | Some b \<Rightarrow> w\<lparr>subscriptions := updateMany (\<lambda>x. sb_id x = sb_id b)
                          cancel_subscription_row (subscriptions w)\<rparr>);
                w2 = revokeAllForUser q userId w1
            in Inr (update_user userId (\<lambda>u. u\<lparr>u_status := DELETED, u_deletedAt := Some (q_now q),
                  u_email := deleted_email userId\<rparr>) w2)))"

definition stripe_cancel :: "req \<Rightarrow> string \<Rightarrow> world \<Rightarrow> unit result \<times> world" where
  "stripe_cancel q stripeSubscriptionId w =
     (if q_stripeUp q
      then (Inr (), w\<lparr>stripeCalls := stripeCalls w @ [SubscriptionCancel stripeSubscriptionId]\<rparr>)
      else (Inl (Internal StripeError), w))"

definition deleteAccount :: "cfg \<Rightarrow> req \<Rightarrow> ident \<Rightarrow> string \<Rightarrow> world \<Rightarrow> string result \<times> world" where
  "deleteAccount c q userId password w =
     (case findById userId w of
        None \<Rightarrow> (Inl (Unauthorized []), w)
      | Some user \<Rightarrow>
          if \<not> c_argonVerify c (u_passwordHash user) password
          then (Inl (Unauthorized Incorrect_password), w)
          else (let activeSubscription = findFirst
                      (\<lambda>b. sb_userId b = userId \<and> sb_status b \<in> set live_statuses) (subscriptions w)
                in case (case activeSubscription of None \<Rightarrow> (Inr (), w)
                         | Some b \<Rightarrow> stripe_cancel q (sb_stripeSubscriptionId b) w) of
                     (Inl e, w1) \<Rightarrow> (Inl e, w1)
                   | (Inr _, w1) \<Rightarrow>
                       (case erase_account q userId activeSubscription w1 of
                          Inl e \<Rightarrow> (Inl e, w1)
                        | Inr w2 \<Rightarrow>
                            (Inr ''Your account has been deleted.'',
                             audit_record q (entry (Some userId) Auth_account_deletion_requested)
                               (revokeUser c q userId w2)))))"

end
