(* ===== verification/AuthInvariant.thy ===== *)
theory AuthInvariant
  imports Auth
begin

text \<open>
  The integrity invariant of the account tables, the contract every authentication step
  meets, and what follows along runs of steps.

  \<^item> \<open>auth_inv\<close>: unique columns and foreign keys of users, devices, sessions and verification
    tokens, at most one unused link per user and purpose, the trusted-device cap, and the
    concurrent-session cap at the current instant.
  \<^item> \<open>auth_keeps\<close>: the contract of a step: the invariant is kept, the audit log only grows, no
    session or link is removed or comes back to life.
  \<^item> \<open>auth_step\<close> has one rule per handler of \<open>AuthService\<close>; the locale \<open>account_service\<close> derives
    the consequences for every run of a step relation that meets the contract.
\<close>

section \<open>The invariant and the contract of a step\<close>

definition unused_token :: "ident \<Rightarrow> tokenPurpose \<Rightarrow> verificationToken \<Rightarrow> bool" where
  "unused_token i p t \<longleftrightarrow> vt_userId t = i \<and> vt_purpose t = p \<and> vt_usedAt t = None"

definition tokens_ok :: "world \<Rightarrow> bool" where
  "tokens_ok w \<longleftrightarrow> unique_on vt_id (verificationTokens w) \<and> unique_on vt_tokenHash (verificationTokens w)
     \<and> vt_userId ` set (verificationTokens w) \<subseteq> u_id ` set (users w)
     \<and> (\<forall>i p. countRows (unused_token i p) (verificationTokens w) \<le> 1)"

definition sessionCap :: "cfg \<Rightarrow> int" where
  "sessionCap c = max 1 (c_maxTrustedDevices c)"

definition auth_inv :: "cfg \<Rightarrow> time \<Rightarrow> world \<Rightarrow> bool" where
  "auth_inv c t w \<longleftrightarrow> users_ok w \<and> devices_ok w \<and> sessions_ok w \<and> tokens_ok w \<and> trusted_ok c w
     \<and> (\<forall>i. int (liveCount t i w) \<le> sessionCap c)"

text \<open>Verification tokens are never removed, and a used one stays used.\<close>

definition token_evolves :: "world \<Rightarrow> world \<Rightarrow> bool" where
  "token_evolves w w' \<longleftrightarrow> (\<forall>t \<in> set (verificationTokens w). \<exists>t' \<in> set (verificationTokens w').
     vt_id t' = vt_id t \<and> vt_tokenHash t' = vt_tokenHash t \<and> vt_userId t' = vt_userId t
     \<and> (vt_usedAt t \<noteq> None \<longrightarrow> vt_usedAt t' \<noteq> None))"

definition auth_keeps :: "cfg \<Rightarrow> time \<Rightarrow> world \<Rightarrow> world \<Rightarrow> bool" where
  "auth_keeps c t w w' \<longleftrightarrow> (auth_inv c t w \<longrightarrow> auth_inv c t w') \<and> extends_audit w w'
     \<and> session_evolves w w' \<and> token_evolves w w' \<and> u_id ` set (users w) \<subseteq> u_id ` set (users w')"

lemma token_evolves_eq: "verificationTokens w' = verificationTokens w \<Longrightarrow> token_evolves w w'"
  by (auto simp: token_evolves_def)

lemma token_evolves_trans: "token_evolves w1 w2 \<Longrightarrow> token_evolves w2 w3 \<Longrightarrow> token_evolves w1 w3"
  unfolding token_evolves_def
proof
  fix t
  assume 12: "\<forall>t \<in> set (verificationTokens w1). \<exists>t' \<in> set (verificationTokens w2).
      vt_id t' = vt_id t \<and> vt_tokenHash t' = vt_tokenHash t \<and> vt_userId t' = vt_userId t
      \<and> (vt_usedAt t \<noteq> None \<longrightarrow> vt_usedAt t' \<noteq> None)"
    and 23: "\<forall>t \<in> set (verificationTokens w2). \<exists>t' \<in> set (verificationTokens w3).
      vt_id t' = vt_id t \<and> vt_tokenHash t' = vt_tokenHash t \<and> vt_userId t' = vt_userId t
      \<and> (vt_usedAt t \<noteq> None \<longrightarrow> vt_usedAt t' \<noteq> None)"
    and t: "t \<in> set (verificationTokens w1)"
  from 12 t obtain t2 where t2: "t2 \<in> set (verificationTokens w2)" "vt_id t2 = vt_id t"
    "vt_tokenHash t2 = vt_tokenHash t" "vt_userId t2 = vt_userId t" "vt_usedAt t \<noteq> None \<longrightarrow> vt_usedAt t2 \<noteq> None"
    by blast
  from 23 t2(1) obtain t3 where "t3 \<in> set (verificationTokens w3)" "vt_id t3 = vt_id t2"
    "vt_tokenHash t3 = vt_tokenHash t2" "vt_userId t3 = vt_userId t2" "vt_usedAt t2 \<noteq> None \<longrightarrow> vt_usedAt t3 \<noteq> None"
    by blast
  with t2 show "\<exists>t' \<in> set (verificationTokens w3). vt_id t' = vt_id t \<and> vt_tokenHash t' = vt_tokenHash t
      \<and> vt_userId t' = vt_userId t \<and> (vt_usedAt t \<noteq> None \<longrightarrow> vt_usedAt t' \<noteq> None)"
    by (intro bexI [of _ t3]) simp_all
qed

lemma auth_keeps_trans: "auth_keeps c t w1 w2 \<Longrightarrow> auth_keeps c t w2 w3 \<Longrightarrow> auth_keeps c t w1 w3"
  using extends_audit_trans [of w1 w2 w3] session_evolves_trans [of w1 w2 w3]
    token_evolves_trans [of w1 w2 w3]
  by (simp add: auth_keeps_def) blast

lemma tokens_ok_cong:
  "verificationTokens w' = verificationTokens w \<Longrightarrow> u_id ` set (users w) \<subseteq> u_id ` set (users w') \<Longrightarrow>
   tokens_ok w \<Longrightarrow> tokens_ok w'"
  by (fastforce simp: tokens_ok_def)

lemma auth_inv_cong:
  assumes "users w' = users w" "devices w' = devices w" "sessions w' = sessions w"
    "verificationTokens w' = verificationTokens w"
  shows "auth_inv c t w' = auth_inv c t w"
  using assms
  by (simp add: auth_inv_def users_ok_def devices_ok_def sessions_ok_def tokens_ok_def trusted_ok_def
      countTrusted_def liveCount_def)

lemma auth_keeps_frame:
  assumes "users w' = users w" "devices w' = devices w" "sessions w' = sessions w"
    "verificationTokens w' = verificationTokens w" "extends_audit w w'"
  shows "auth_keeps c t w w'"
  using assms auth_inv_cong [OF assms(1-4)]
  by (simp add: auth_keeps_def session_evolves_eq token_evolves_eq)

lemma auth_keeps_refl [simp, intro]: "auth_keeps c t w w"
  by (simp add: auth_keeps_frame)

lemma auth_keeps_audit [simp]: "auth_keeps c t w (audit_record q e w)"
  by (rule auth_keeps_frame) auto

lemma auth_keeps_enqueue [simp]: "auth_keeps c t w (enqueue q j w)"
  by (rule auth_keeps_frame) auto

lemma auth_keeps_revokeUser [simp]: "auth_keeps c t w (revokeUser c' q i w)"
  by (rule auth_keeps_frame) (auto intro: extends_audit_eq)

lemma auth_keeps_challenge [simp]: "auth_keeps c t w (snd (registerChallengeAttempt c' q tok ttl w))"
  by (rule auth_keeps_frame) (auto intro: extends_audit_eq)

text \<open>
  The general rule: each conjunct of the invariant from the conjuncts before the write, the
  identifiers of users kept, no user with more live sessions than before or than the cap.
\<close>

lemma auth_keepsI:
  assumes "u_id ` set (users w) \<subseteq> u_id ` set (users w')"
    and "extends_audit w w'" "session_evolves w w'" "token_evolves w w'"
    and "users_ok w \<Longrightarrow> users_ok w'"
    and "devices_ok w \<Longrightarrow> devices_ok w'"
    and "devices_ok w \<Longrightarrow> sessions_ok w \<Longrightarrow> sessions_ok w'"
    and "tokens_ok w \<Longrightarrow> tokens_ok w'"
    and "devices_ok w \<Longrightarrow> trusted_ok c w \<Longrightarrow> trusted_ok c w'"
    and "\<And>i. sessions_ok w \<Longrightarrow> int (liveCount t i w') \<le> max (int (liveCount t i w)) (sessionCap c)"
  shows "auth_keeps c t w w'"
proof -
  have "auth_inv c t w'" if "auth_inv c t w"
  proof -
    from that have w: "users_ok w" "devices_ok w" "sessions_ok w" "tokens_ok w" "trusted_ok c w"
      "\<And>i. int (liveCount t i w) \<le> sessionCap c" by (simp_all add: auth_inv_def)
    have "int (liveCount t i w') \<le> sessionCap c" for i
      using assms(10) [OF w(3), of i] w(6) [of i] by simp
    then show ?thesis using assms w by (simp add: auth_inv_def)
  qed
  with assms show ?thesis by (simp add: auth_keeps_def)
qed

text \<open>A write to the users table that keeps ids, and emails unique.\<close>

lemma auth_keeps_users:
  assumes "u_id ` set (users w) \<subseteq> u_id ` set (users w')" and "users_ok w \<Longrightarrow> users_ok w'"
    and "devices w' = devices w" "sessions w' = sessions w"
    "verificationTokens w' = verificationTokens w" "extends_audit w w'"
  shows "auth_keeps c t w w'"
proof (rule auth_keepsI)
  show "devices_ok w'" if "devices_ok w" using assms(3,1) that by (rule devices_ok_cong)
  show "sessions_ok w'" if "sessions_ok w"
    using assms(1,3,4) that by (intro sessions_ok_cong [of w' w]) simp_all
  show "tokens_ok w'" if "tokens_ok w" using assms(5,1) that by (rule tokens_ok_cong)
  show "trusted_ok c w'" if "trusted_ok c w" using that trusted_ok_cong [OF assms(3)] by simp
  show "int (liveCount t i w') \<le> max (int (liveCount t i w)) (sessionCap c)" for i
    using assms(4) by (simp add: liveCount_def)
qed (use assms in \<open>simp_all add: session_evolves_eq token_evolves_eq\<close>)

lemma auth_keeps_update_user:
  assumes "\<And>u. u_id (f u) = u_id u" and "\<And>u. u_email (f u) = u_email u"
  shows "auth_keeps c t w (update_user i f w)"
proof (rule auth_keeps_users)
  show "u_id ` set (users w) \<subseteq> u_id ` set (users (update_user i f w))"
    using u_ids_update_user [of f, OF assms(1)] by simp
  show "users_ok (update_user i f w)" if "users_ok w"
    using users_ok_update_user [of f, OF assms] that by simp
qed (simp_all add: extends_audit_eq)

lemma auth_keeps_user_updates [simp]:
  "auth_keeps c t w (markEmailVerified q i w)"
  "auth_keeps c t w (updatePasswordHash i h w)"
  "auth_keeps c t w (updateLastLogin q i w)"
  "auth_keeps c t w (resetFailedLogins i w)"
  "auth_keeps c t w (setTwoFactorSecret i h w)"
  "auth_keeps c t w (enableTwoFactor i w)"
  "auth_keeps c t w (disableTwoFactor i w)"
  by (simp_all add: user_update_defs auth_keeps_update_user)

lemma auth_keeps_registerFailedLogin [simp]: "auth_keeps c t w (snd (registerFailedLogin c' q i w))"
proof -
  let ?w1 = "update_user i (\<lambda>u. u\<lparr>u_failedLoginCount := u_failedLoginCount u + 1\<rparr>) w"
  have "auth_keeps c t w ?w1" by (simp add: auth_keeps_update_user)
  moreover have "auth_keeps c t ?w1 (update_user i (\<lambda>u. u\<lparr>u_failedLoginCount := 0,
      u_lockedUntil := Some (q_now q + c_lockoutMinutes c' * ms_per_minute)\<rparr>) ?w1)"
    by (simp add: auth_keeps_update_user)
  ultimately show ?thesis
    by (auto simp: registerFailedLogin_def Let_def intro: auth_keeps_trans split: option.splits)
qed

text \<open>Writes to the session table that only revoke.\<close>

lemma auth_keeps_update_sessions:
  assumes "\<And>s. session_keeps s (f s)" and "\<And>s. s_deviceId (f s) = s_deviceId s"
  shows "auth_keeps c t w (update_sessions p f w)"
proof -
  have k: "\<And>s. s_id (f s) = s_id s" "\<And>s. s_userId (f s) = s_userId s" "\<And>s. s_tokenHash (f s) = s_tokenHash s"
    using assms(1) by (simp_all add: session_keeps_def)
  have le: "liveCount t i (update_sessions p f w) \<le> liveCount t i w" for i
    using assms(1) by (rule liveCount_update_le)
  show ?thesis
  proof (rule auth_keepsI)
    show "sessions_ok (update_sessions p f w)" if "sessions_ok w"
      using k assms(2) that by (intro sessions_ok_update_sessions) auto
    show "devices_ok (update_sessions p f w)" if "devices_ok w"
      using that by (intro devices_ok_cong [of "update_sessions p f w" w]) simp_all
    show "tokens_ok (update_sessions p f w)" if "tokens_ok w"
      using that by (intro tokens_ok_cong [of "update_sessions p f w" w]) simp_all
    show "session_evolves w (update_sessions p f w)" using assms(1) by (rule session_evolves_update)
    show "int (liveCount t i (update_sessions p f w)) \<le> max (int (liveCount t i w)) (sessionCap c)" for i
      using le [of i] by simp
  qed (simp_all add: token_evolves_eq trusted_ok_cong [of "update_sessions p f w" w]
      users_ok_cong [of "update_sessions p f w" w] extends_audit_eq)
qed

lemma auth_keeps_revocations [simp]:
  "auth_keeps c t w (revokeAllForUser q i w)"
  "auth_keeps c t w (revoke q i w)"
  "auth_keeps c t w (enforceLimit c' q i w)"
  by (simp_all add: revokeAllForUser_def revoke_def enforceLimit_active auth_keeps_update_sessions)

lemma auth_keeps_rotate:
  assumes s: "s \<in> set (sessions w)" "session_live (q_now q) s"
  shows "auth_keeps c (q_now q) w (snd (rotate_session c q s ip w))"
proof -
  let ?w = "snd (rotate_session c q s ip w)"
  show ?thesis
  proof (rule auth_keepsI)
    show "devices_ok ?w" if "devices_ok w" using that by (intro devices_ok_cong [of ?w w]) simp_all
    show "tokens_ok ?w" if "tokens_ok w" using that by (intro tokens_ok_cong [of ?w w]) simp_all
    show "int (liveCount (q_now q) i ?w) \<le> max (int (liveCount (q_now q) i w)) (sessionCap c)"
      if "sessions_ok w" for i
      using liveCount_rotate [OF that s, of i c ip] by simp
  qed (simp_all add: token_evolves_eq trusted_ok_cong [of ?w w] users_ok_cong [of ?w w] extends_audit_eq
      sessions_ok_rotate session_evolves_rotate)
qed

text \<open>Devices.\<close>

lemma auth_keeps_devices:
  assumes "users w' = users w" "verificationTokens w' = verificationTokens w" "extends_audit w w'"
    and "session_evolves w w'" and "devices_ok w \<Longrightarrow> devices_ok w'"
    and "devices_ok w \<Longrightarrow> sessions_ok w \<Longrightarrow> sessions_ok w'"
    and "devices_ok w \<Longrightarrow> trusted_ok c w \<Longrightarrow> trusted_ok c w'" and "\<And>i. liveCount t i w' \<le> liveCount t i w"
  shows "auth_keeps c t w w'"
proof (rule auth_keepsI)
  show "tokens_ok w'" if "tokens_ok w" using assms(1,2) that by (intro tokens_ok_cong [of w' w]) simp_all
  show "int (liveCount t i w') \<le> max (int (liveCount t i w)) (sessionCap c)" for i
    using assms(8) [of i] by simp
qed (use assms(1-7) in \<open>simp_all add: token_evolves_eq users_ok_cong [of w' w]\<close>)

lemma d_ids_findOrCreateDevice:
  "d_id ` set (devices w) \<subseteq> d_id ` set (devices (snd (findOrCreateDevice q i fp dd w)))"
  by (cases "findFirst (\<lambda>d. d_userId d = i \<and> d_fingerprint d = fp) (devices w)")
    (auto simp: findOrCreateDevice_def Let_def image_updateMany)

lemma auth_keeps_findOrCreateDevice [simp]: "auth_keeps c t w (snd (findOrCreateDevice q i fp dd w))"
proof (rule auth_keeps_devices)
  let ?w = "snd (findOrCreateDevice q i fp dd w)"
  show "sessions_ok ?w" if "sessions_ok w"
    using that d_ids_findOrCreateDevice by (intro sessions_ok_cong [of ?w w]) simp_all
qed (simp_all add: session_evolves_eq trusted_ok_def countTrusted_findOrCreateDevice liveCount_def
    devices_ok_findOrCreateDevice extends_audit_eq)

lemma auth_keeps_trust [simp]: "auth_keeps c t w (snd (trust c q i d w))"
proof (rule trust_cases [of c q i d w])
  let ?f = "\<lambda>y. y\<lparr>d_isTrusted := True, d_trustedAt := Some (q_now q)\<rparr>"
  let ?w = "update_devices (\<lambda>y. d_id y = d) ?f w"
  fix x assume e: "trust c q i d w = (Inr (device_list_view (?f x)), ?w)"
  have ids: "d_id ` set (devices ?w) = d_id ` set (devices w)" by (rule d_ids_update_devices) simp
  show ?thesis unfolding e snd_conv
  proof (rule auth_keeps_devices)
    show "sessions_ok ?w" if "sessions_ok w"
      using that ids by (intro sessions_ok_cong [of ?w w]) simp_all
    show "trusted_ok c ?w" if "devices_ok w" "trusted_ok c w"
      using trusted_ok_trust [OF that, of q i d] by (simp add: e)
    show "devices_ok ?w" if "devices_ok w" using that by (intro devices_ok_update_devices) simp_all
  qed (simp_all add: session_evolves_eq liveCount_def extends_audit_eq)
qed simp

lemma auth_keeps_remove_device [simp]: "auth_keeps c t w (snd (remove_device q i d w))"
proof (rule remove_device_cases [of q i d w])
  fix x
  let ?w = "snd (remove_device q i d w)"
  assume e: "users ?w = users w" "auditLogs ?w = auditLogs w" "verificationTokens ?w = verificationTokens w"
    "devices ?w = deleteMany (\<lambda>x. d_id x = d) (devices w)"
    "sessions ?w = updateMany (\<lambda>s. s_deviceId s = Some d) (detach_row q) (sessions w)"
  have "int (countTrusted j ?w) \<le> n" if "int (countTrusted j w) \<le> n" for j n
    using that countRows_deleteMany_le [of "\<lambda>d. d_userId d = j \<and> d_isTrusted d" "\<lambda>x. d_id x = d" "devices w"]
    by (simp add: countTrusted_def e)
  then have "trusted_ok c w \<Longrightarrow> trusted_ok c ?w" by (simp add: trusted_ok_def)
  moreover have "liveCount t j ?w \<le> liveCount t j w" for j
    unfolding liveCount_def e
    by (rule countRows_updateMany_le) (simp add: user_live_def session_live_def)
  moreover have "devices_ok w \<Longrightarrow> devices_ok ?w" using e(1,4)
    by (simp add: devices_ok_def unique_on_deleteMany) (auto simp: deleteMany_def)
  ultimately show ?thesis
    using integrity_remove_device [of w q i d]
    by (intro auth_keeps_devices) (simp_all add: e evolves_remove_device extends_audit_eq)
qed simp

lemma create_session_frame [frame_simps, simp]:
  "users (snd (create_session c q i w)) = users w"
  "devices (snd (create_session c q i w)) = devices w"
  "auditLogs (snd (create_session c q i w)) = auditLogs w"
  "verificationTokens (snd (create_session c q i w)) = verificationTokens w"
  "redis (snd (create_session c q i w)) = redis w"
  "emailQueue (snd (create_session c q i w)) = emailQueue w"
  by (rule create_session_cases [of c q i w]; simp)+

text \<open>A login: the cap is enforced, then one session is added.\<close>

lemma auth_keeps_capped_create:
  assumes i: "ci_userId i = u"
  shows "auth_keeps c (q_now q) w (snd (create_session c q i (enforceLimit c q u w)))"
proof (rule auth_keepsI)
  let ?w1 = "enforceLimit c q u w"
  let ?w = "snd (create_session c q i ?w1)"
  have ok1: "sessions_ok ?w1" if "sessions_ok w"
    using that by (simp add: enforceLimit_active sessions_ok_update_sessions)
  show "sessions_ok ?w" if "sessions_ok w" using ok1 [OF that] by (rule sessions_ok_create_session)
  show "session_evolves w ?w"
    using session_evolves_enforceLimit session_evolves_create_session by (rule session_evolves_trans)
  show "devices_ok ?w" if "devices_ok w" using that by (intro devices_ok_cong [of ?w w]) simp_all
  show "tokens_ok ?w" if "tokens_ok w" using that by (intro tokens_ok_cong [of ?w w]) simp_all
  show "int (liveCount (q_now q) j ?w) \<le> max (int (liveCount (q_now q) j w)) (sessionCap c)"
    if ok: "sessions_ok w" for j
  proof -
    have le: "liveCount (q_now q) j ?w1 \<le> liveCount (q_now q) j w"
      by (simp add: enforceLimit_active liveCount_update_le)
    have "liveCount (q_now q) j ?w \<le> liveCount (q_now q) j ?w1 + (if j = u then 1 else 0)"
      by (rule create_session_cases [of c q i ?w1]) (auto simp: liveCount_def user_live_def i)
    with le liveCount_enforceLimit_bound [OF ok, of q u c] show ?thesis
      by (auto simp: sessionCap_def split: if_splits)
  qed
qed (simp_all add: token_evolves_eq extends_audit_eq
      users_ok_cong [of "snd (create_session c q i (enforceLimit c q u w))" w]
      trusted_ok_cong [of "snd (create_session c q i (enforceLimit c q u w))" w]
)

text \<open>Verification tokens.\<close>

definition use_token :: "req \<Rightarrow> verificationToken \<Rightarrow> verificationToken" where
  "use_token q t = t\<lparr>vt_usedAt := Some (q_now q)\<rparr>"

lemma use_token_simps [simp]:
  "vt_id (use_token q t) = vt_id t" "vt_userId (use_token q t) = vt_userId t"
  "vt_tokenHash (use_token q t) = vt_tokenHash t" "vt_purpose (use_token q t) = vt_purpose t"
  "vt_usedAt (use_token q t) = Some (q_now q)" "unused_token i p (use_token q t) = False"
  by (simp_all add: use_token_def unused_token_def)

definition mark_used :: "req \<Rightarrow> (verificationToken \<Rightarrow> bool) \<Rightarrow> world \<Rightarrow> world" where
  "mark_used q p w = w\<lparr>verificationTokens := updateMany p (use_token q) (verificationTokens w)\<rparr>"

lemma mark_used_frame [simp]:
  "users (mark_used q p w) = users w"
  "devices (mark_used q p w) = devices w"
  "sessions (mark_used q p w) = sessions w"
  "auditLogs (mark_used q p w) = auditLogs w"
  "redis (mark_used q p w) = redis w"
  "verificationTokens (mark_used q p w) = updateMany p (use_token q) (verificationTokens w)"
  by (simp_all add: mark_used_def)

lemma tokens_ok_mark_used:
  assumes "tokens_ok w"
  shows "tokens_ok (mark_used q p w)"
proof -
  have "countRows (unused_token i r) (updateMany p (use_token q) (verificationTokens w)) \<le> 1" for i r
    using assms countRows_updateMany_le [of p "unused_token i r" "use_token q" "verificationTokens w"]
    by (fastforce simp: tokens_ok_def intro: order_trans)
  then show ?thesis
    using assms by (simp add: tokens_ok_def unique_on_updateMany image_updateMany)
qed

lemma token_evolves_updateMany:
  assumes "verificationTokens w' = updateMany p (use_token q) (verificationTokens w) @ new"
  shows "token_evolves w w'"
  unfolding token_evolves_def
proof
  fix t assume t: "t \<in> set (verificationTokens w)"
  then have "(if p t then use_token q t else t) \<in> set (verificationTokens w')"
    by (simp add: assms set_updateMany rev_image_eqI)
  then show "\<exists>t' \<in> set (verificationTokens w'). vt_id t' = vt_id t \<and> vt_tokenHash t' = vt_tokenHash t
     \<and> vt_userId t' = vt_userId t \<and> (vt_usedAt t \<noteq> None \<longrightarrow> vt_usedAt t' \<noteq> None)"
    by (rule bexI [rotated]) simp
qed

lemma auth_keeps_tokens:
  assumes "users w' = users w" "devices w' = devices w" "sessions w' = sessions w" "auditLogs w' = auditLogs w"
    and "token_evolves w w'" "tokens_ok w \<Longrightarrow> tokens_ok w'"
  shows "auth_keeps c t w w'"
proof (rule auth_keepsI)
  show "devices_ok w'" if "devices_ok w" using that assms by (intro devices_ok_cong [of w' w]) simp_all
  show "sessions_ok w'" if "sessions_ok w" using that assms by (intro sessions_ok_cong [of w' w]) simp_all
qed (use assms in \<open>simp_all add: session_evolves_eq extends_audit_eq liveCount_def
      users_ok_cong [of w' w] trusted_ok_cong [of w' w]\<close>)

lemma auth_keeps_mark_used [simp]: "auth_keeps c t w (mark_used q p w)"
  by (rule auth_keeps_tokens) (simp_all add: tokens_ok_mark_used token_evolves_updateMany [where new = "[]"])

lemma consume_cases:
  obtains e where "consumeVerificationToken c q tok p w = (Inl (BadRequest e), w)"
  | r where "consumeVerificationToken c q tok p w = (Inr r, mark_used q (\<lambda>t. vt_id t = vt_id r) w)"
    "r \<in> set (verificationTokens w)" "vt_tokenHash r = c_hash c tok" "vt_purpose r = p"
    "vt_usedAt r = None" "q_now q \<le> vt_expiresAt r"
proof (cases "findFirst (\<lambda>t. vt_tokenHash t = c_hash c tok) (verificationTokens w)")
  case None
  then show thesis using that(1) by (simp add: consumeVerificationToken_def)
next
  case (Some r)
  note found = findFirst_SomeD [OF Some]
  show thesis
  proof (cases "vt_purpose r = p \<and> vt_usedAt r = None \<and> q_now q \<le> vt_expiresAt r")
    case True
    with Some found show thesis
      by (intro that(2) [of r])
        (simp_all add: consumeVerificationToken_def mark_used_def use_token_def [abs_def])
  next
    case False
    with Some have "\<exists>e. consumeVerificationToken c q tok p w = (Inl (BadRequest e), w)"
      by (auto simp: consumeVerificationToken_def)
    with that(1) show thesis by blast
  qed
qed

lemma auth_keeps_consume [simp]: "auth_keeps c t w (snd (consumeVerificationToken c' q tok p w))"
  by (rule consume_cases [of c' q tok p w]) simp_all

lemma issue_cases:
  fixes q p i w
  defines "w1 \<equiv> mark_used q (unused_token i p) w"
  obtains e where "issueVerificationToken c q i email p w = (Inl (Internal e), w1)"
  | "issueVerificationToken c q i email p w =
        (Inr (), enqueue q (if p = EMAIL_VERIFICATION then VerificationEmail email (q_rawToken q)
            else PasswordResetEmail email (q_rawToken q))
          (w1\<lparr>verificationTokens := verificationTokens w1 @ [new_verification_token c q i p]\<rparr>))"
    "q_newId q \<notin> vt_id ` set (verificationTokens w)"
    "c_hash c (q_rawToken q) \<notin> vt_tokenHash ` set (verificationTokens w)"
    "i \<in> u_id ` set (users w)"
proof -
  let ?t = "new_verification_token c q i p"
  have w1: "w1 = w\<lparr>verificationTokens := updateMany
      (\<lambda>t. vt_userId t = i \<and> vt_purpose t = p \<and> vt_usedAt t = None)
      (\<lambda>t. t\<lparr>vt_usedAt := Some (q_now q)\<rparr>) (verificationTokens w)\<rparr>"
    by (simp add: w1_def mark_used_def use_token_def [abs_def] unused_token_def [abs_def])
  have t: "vt_id ?t = q_newId q" "vt_tokenHash ?t = c_hash c (q_rawToken q)"
    by (simp_all add: new_verification_token_def Let_def)
  have ids: "vt_id ` set (verificationTokens w1) = vt_id ` set (verificationTokens w)"
    "vt_tokenHash ` set (verificationTokens w1) = vt_tokenHash ` set (verificationTokens w)"
    by (simp_all add: w1_def image_updateMany)
  show thesis
  proof (cases "(\<exists>x \<in> set (verificationTokens w1). vt_id x = vt_id ?t \<or> vt_tokenHash x = vt_tokenHash ?t)
      \<or> i \<notin> u_id ` set (users w)")
    case True
    then have "\<exists>e. issueVerificationToken c q i email p w = (Inl (Internal e), w1)"
      unfolding issueVerificationToken_def w1 [symmetric] Let_def by (auto split: if_splits)
    with that(1) show thesis by blast
  next
    case False
    have "q_newId q \<notin> vt_id ` set (verificationTokens w1)" using False t(1) by (metis imageE)
    moreover have "c_hash c (q_rawToken q) \<notin> vt_tokenHash ` set (verificationTokens w1)"
      using False t(2) by (metis imageE)
    moreover have "issueVerificationToken c q i email p w =
        (Inr (), enqueue q (if p = EMAIL_VERIFICATION then VerificationEmail email (q_rawToken q)
            else PasswordResetEmail email (q_rawToken q))
          (w1\<lparr>verificationTokens := verificationTokens w1 @ [?t]\<rparr>))"
      using False unfolding issueVerificationToken_def w1 [symmetric] Let_def by auto
    ultimately show thesis using that(2) False ids by auto
  qed
qed

lemma countRows_zero_after_mark:
  "countRows (unused_token i p) (updateMany (unused_token i p) (use_token q) rows) = 0"
  by (induction rows) auto

lemma auth_keeps_issue [simp]: "auth_keeps c t w (snd (issueVerificationToken c' q i email p w))"
proof (rule issue_cases [of c' q i email p w])
  let ?w1 = "mark_used q (unused_token i p) w" and ?t = "new_verification_token c' q i p"
  let ?w = "?w1\<lparr>verificationTokens := verificationTokens ?w1 @ [?t]\<rparr>"
  assume e: "issueVerificationToken c' q i email p w =
      (Inr (), enqueue q (if p = EMAIL_VERIFICATION then VerificationEmail email (q_rawToken q)
            else PasswordResetEmail email (q_rawToken q)) ?w)"
    and fresh: "q_newId q \<notin> vt_id ` set (verificationTokens w)"
      "c_hash c' (q_rawToken q) \<notin> vt_tokenHash ` set (verificationTokens w)" "i \<in> u_id ` set (users w)"
  have t: "vt_id ?t = q_newId q" "vt_tokenHash ?t = c_hash c' (q_rawToken q)" "vt_userId ?t = i" "vt_purpose ?t = p"
    by (simp_all add: new_verification_token_def Let_def)
  have "tokens_ok ?w" if ok: "tokens_ok w"
  proof -
    have ok1: "tokens_ok ?w1" using ok by (rule tokens_ok_mark_used)
    have "countRows (unused_token j r) (verificationTokens ?w) \<le> 1" for j r
    proof (cases "j = i \<and> r = p")
      case True
      then show ?thesis by (simp add: countRows_zero_after_mark)
    next
      case False
      then have "\<not> unused_token j r ?t" by (auto simp: unused_token_def t)
      with ok1 show ?thesis by (simp add: tokens_ok_def)
    qed
    then show ?thesis
      using ok1 fresh by (simp add: tokens_ok_def unique_on_snoc t image_updateMany)
  qed
  moreover have "token_evolves w ?w"
    by (rule token_evolves_updateMany [where new = "[?t]" and p = "unused_token i p"]) simp
  ultimately have "auth_keeps c t w ?w"
    by (intro auth_keeps_tokens) simp_all
  then show ?thesis unfolding e snd_conv by (rule auth_keeps_trans) simp
qed simp

section \<open>Every handler keeps the contract\<close>

lemma auth_keeps_if: "auth_keeps c t w a \<Longrightarrow> auth_keeps c t w b \<Longrightarrow> auth_keeps c t w (if x then a else b)"
  by simp

lemma auth_keeps_after [intro]:
  "auth_keeps c t w w' \<Longrightarrow> auth_keeps c t w (audit_record q e w')"
  "auth_keeps c t w w' \<Longrightarrow> auth_keeps c t w (enqueue q j w')"
  "auth_keeps c t w w' \<Longrightarrow> auth_keeps c t w (revokeUser c' q i w')"
  "auth_keeps c t w w' \<Longrightarrow> auth_keeps c t w (revokeAllForUser q i w')"
  "auth_keeps c t w w' \<Longrightarrow> auth_keeps c t w (revoke q i w')"
  "auth_keeps c t w w' \<Longrightarrow> auth_keeps c t w (markEmailVerified q i w')"
  "auth_keeps c t w w' \<Longrightarrow> auth_keeps c t w (updatePasswordHash i h w')"
  "auth_keeps c t w w' \<Longrightarrow> auth_keeps c t w (updateLastLogin q i w')"
  by (erule auth_keeps_trans, simp)+

lemma auth_keeps_issueTokenPair:
  "auth_keeps c (q_now q) w (snd (issueTokenPair c q i d meta isNew w))"
proof (cases "findById i w")
  case None
  then show ?thesis by (simp add: issueTokenPair_def)
next
  case (Some u)
  let ?in = "login_session_input c u d meta (login_risk c q u meta isNew w)"
  have "auth_keeps c (q_now q) w (snd (create_session c q ?in (enforceLimit c q (u_id u) w)))"
    by (rule auth_keeps_capped_create) (simp add: login_session_input_def Let_def)
  then show ?thesis
    by (cases "create_session c q ?in (enforceLimit c q (u_id u) w)")
      (auto simp: issueTokenPair_def Some Let_def split: sum.splits)
qed

lemma auth_keeps_login_failed: "auth_keeps c t w (snd (login_failed c' q u meta w))"
  by (auto simp: login_failed_def case_prod_beta Let_def)

lemma auth_keeps_challenge_sent: "auth_keeps c t w (snd (new_device_challenge c' q u d meta w))"
  by (auto simp: new_device_challenge_def Let_def)

lemma snd_result_map:
  "snd (case_sum (\<lambda>e. (Inl e, snd x)) (\<lambda>v. (Inr (g v), snd x)) (fst x)) = snd x"
  by (cases "fst x") simp_all

lemma auth_keeps_login: "auth_keeps c (q_now q) w (snd (login c q email pw meta w))"
proof (cases "findByEmail email w")
  case None
  then show ?thesis by (simp add: login_def)
next
  case (Some u)
  let ?w1 = "resetFailedLogins (u_id u) w"
  let ?fd = "findOrCreateDevice q (u_id u) (hashDeviceId c (rm_rawDeviceId meta))
      (describeUserAgent c (rm_userAgent meta)) ?w1"
  obtain r w2 where fd: "?fd = (r, w2)" by (cases ?fd)
  have w2: "auth_keeps c (q_now q) w w2"
  proof -
    have "auth_keeps c (q_now q) w (snd ?fd)" by (rule auth_keeps_trans [of _ _ _ ?w1]) simp_all
    then show ?thesis unfolding fd by simp
  qed
  have "auth_keeps c (q_now q) w (snd (new_device_challenge c q u d meta w2))" for d
    using w2 auth_keeps_challenge_sent by (rule auth_keeps_trans)
  moreover have "auth_keeps c (q_now q) w (snd (issueTokenPair c q (u_id u) d meta False w2))" for d
    using w2 auth_keeps_issueTokenPair by (rule auth_keeps_trans)
  ultimately show ?thesis
    using w2 by (auto simp: login_def Some Let_def fd auth_keeps_login_failed case_prod_beta snd_result_map
        split: sum.splits)
qed

lemma auth_keeps_verifyLogin: "auth_keeps c (q_now q) w (snd (verifyLogin c q tok code meta w))"
proof -
  obtain ok w1 where a: "registerChallengeAttempt c q tok (LOGIN_CHALLENGE_EXPIRY_MINUTES * 60) w = (ok, w1)"
    by (cases "registerChallengeAttempt c q tok (LOGIN_CHALLENGE_EXPIRY_MINUTES * 60) w")
  have w1: "auth_keeps c (q_now q) w w1"
    using auth_keeps_challenge [of c "q_now q" w c q tok "LOGIN_CHALLENGE_EXPIRY_MINUTES * 60"] by (simp add: a)
  have "auth_keeps c (q_now q) w (snd (issueTokenPair c q u d meta True w1))"
    "auth_keeps c (q_now q) w (snd (issueTokenPair c q u d meta True (markEmailVerified q u w1)))" for u d
    using w1 auth_keeps_issueTokenPair auth_keeps_trans by blast+
  with w1 show ?thesis
    by (auto simp: verifyLogin_def a split: option.splits jwtPayload.splits sum.splits bool.splits)
qed

lemma auth_keeps_refresh_with:
  assumes "s \<in> set (sessions w)" "session_live (q_now q) s"
  shows "auth_keeps c (q_now q) w (snd (refresh_with c q s meta w))"
  using auth_keeps_rotate [OF assms, of c "rm_ipAddress meta"]
  by (cases "rotate_session c q s (rm_ipAddress meta) w")
    (auto simp: refresh_with_def split: option.splits sum.splits)

lemma findActive_SomeD:
  "findActiveByRawToken c q tok w = Some s \<Longrightarrow>
   s \<in> set (sessions w) \<and> s_tokenHash s = c_hash c tok \<and> session_live (q_now q) s"
  by (auto simp: findActiveByRawToken_def dest: findFirst_SomeD)

lemma grace_successor_SomeD:
  "grace_successor q a w = Some s \<Longrightarrow> s \<in> set (sessions w) \<and> session_live (q_now q) s
     \<and> s_replacedByTokenId a = Some (s_id s) \<and> (\<exists>t. s_revokedAt a = Some t \<and> q_now q - t \<le> 15000)"
  by (auto simp: grace_successor_def findSessionById_def CONCURRENT_REFRESH_GRACE_SECONDS_def
      split: option.splits if_splits dest: findFirst_SomeD)

lemma auth_keeps_refresh: "auth_keeps c (q_now q) w (snd (refresh c q tok meta w))"
  by (auto simp: refresh_def reuse_response_def auth_keeps_refresh_with
      dest: findActive_SomeD grace_successor_SomeD split: option.splits)

lemma auth_keeps_logout: "auth_keeps c t w (logout c' q tok w)"
  by (auto simp: logout_def split: option.splits)

lemma auth_keeps_logoutAll: "auth_keeps c t w (logoutAll c' q i w)"
  by (auto simp: logoutAll_def)

lemma auth_keeps_forgotPassword: "auth_keeps c t w (snd (forgotPassword c' q email w))"
proof (cases "findByEmail email w")
  case (Some u)
  then show ?thesis
    using auth_keeps_issue [of c t w c' q "u_id u" "u_email u" PASSWORD_RESET]
    by (cases "issueVerificationToken c' q (u_id u) (u_email u) PASSWORD_RESET w")
      (auto simp: forgotPassword_def split: sum.splits)
qed (simp add: forgotPassword_def)

lemma auth_keeps_resetPassword: "auth_keeps c t w (snd (resetPassword c' q tok pw w))"
  using auth_keeps_consume [of c t w c' q tok PASSWORD_RESET]
  by (cases "consumeVerificationToken c' q tok PASSWORD_RESET w")
    (auto simp: resetPassword_def Let_def split: sum.splits)

lemma auth_keeps_verifyEmail: "auth_keeps c t w (snd (verifyEmail c' q tok w))"
  using auth_keeps_consume [of c t w c' q tok EMAIL_VERIFICATION]
  by (cases "consumeVerificationToken c' q tok EMAIL_VERIFICATION w")
    (auto simp: verifyEmail_def Let_def split: sum.splits)

lemma auth_keeps_2fa:
  "auth_keeps c t w (snd (start2fa c' q i w))"
  "auth_keeps c t w (snd (confirm2fa c' q i code w))"
  "auth_keeps c t w (snd (disable2fa c' q i pw w))"
proof -
  show "auth_keeps c t w (snd (start2fa c' q i w))"
    by (auto simp: start2fa_def Let_def split: option.splits)
  have "auth_keeps c t w (audit_record q e (enableTwoFactor i w))"
    "auth_keeps c t w (audit_record q e (disableTwoFactor i w))" for e
    by (auto intro: auth_keeps_after(1) auth_keeps_user_updates)
  then show "auth_keeps c t w (snd (confirm2fa c' q i code w))"
    "auth_keeps c t w (snd (disable2fa c' q i pw w))"
    by (auto simp: confirm2fa_def disable2fa_def Let_def split: option.splits)
qed

lemma auth_keeps_device_handlers:
  "auth_keeps c t w (snd (trustDevice c q i d w))"
  "auth_keeps c t w (snd (removeDevice q i d w))"
proof -
  show "auth_keeps c t w (snd (trustDevice c q i d w))"
    using auth_keeps_trust [of c t w q i d]
    by (cases "trust c q i d w") (auto simp: trustDevice_def split: sum.splits)
  show "auth_keeps c t w (snd (removeDevice q i d w))"
    using auth_keeps_remove_device [of c t w q i d]
    by (cases "remove_device q i d w") (auto simp: removeDevice_def split: sum.splits)
qed

lemma auth_keeps_exportData: "auth_keeps c t w (snd (exportData q i w))"
  by (auto simp: exportData_def split: option.splits)

lemma auth_keeps_insert_user:
  assumes "insert_user u w = Inr w'"
  shows "auth_keeps c t w w'"
proof (rule auth_keeps_users)
  show "u_id ` set (users w) \<subseteq> u_id ` set (users w')"
    using assms by (auto simp: insert_user_def split: if_splits)
  show "users_ok w'" if "users_ok w" using that assms by (rule users_ok_insert_user)
qed (use assms in \<open>auto simp: insert_user_def split: if_splits intro: extends_audit_eq\<close>)

lemma auth_keeps_register: "auth_keeps c t w (snd (register c' q dto meta w))"
proof -
  have "auth_keeps c t w1 (accept_admin_invite q i w1\<lparr>consentRecords := a, invites := b\<rparr>)" for w1 i a b
    by (rule auth_keeps_frame)
      (auto simp: accept_admin_invite_def intro: extends_audit_eq split: option.splits)
  then have "auth_keeps c t w (accept_admin_invite q i w1\<lparr>consentRecords := a, invites := b\<rparr>)"
    if "insert_user u w = Inr w1" for u w1 i a b
    using auth_keeps_insert_user [OF that] auth_keeps_trans by blast
  then show ?thesis
    by (auto simp: register_def Let_def split: option.splits sum.splits)
qed

lemma users_ok_erase:
  assumes "users_ok w" and "\<forall>x \<in> set (users w). u_email x = deleted_email i \<longrightarrow> u_id x = i"
    and f: "\<And>u. u_id (f u) = u_id u" "\<And>u. u_email (f u) = deleted_email i"
  shows "users_ok (update_user i f w)"
proof -
  have "distinct (map u_id rows) \<Longrightarrow> distinct (map u_email rows) \<Longrightarrow>
      \<forall>x \<in> set rows. u_email x = deleted_email i \<longrightarrow> u_id x = i \<Longrightarrow>
      distinct (map u_email (updateMany (\<lambda>u. u_id u = i) f rows))" for rows
  proof (induction rows)
    case (Cons r rows)
    have *: "u_email ` set (updateMany (\<lambda>u. u_id u = i) f rows) \<subseteq>
        u_email ` {x \<in> set rows. u_id x \<noteq> i} \<union> {e. e = deleted_email i \<and> i \<in> u_id ` set rows}"
      by (auto simp: set_updateMany f)
    show ?case
      using Cons * by (auto simp: f dest!: subsetD [OF *])
  qed simp
  then show ?thesis
    using assms by (simp add: users_ok_def update_user_def unique_on_def map_updateMany)
qed

lemma auth_keeps_deleteAccount: "auth_keeps c t w (snd (deleteAccount c' q i pw w))"
proof -
  have erase: "auth_keeps c t w1 w2" if e: "erase_account q i b w1 = Inr w2" for b w1 w2
  proof -
    let ?f = "\<lambda>u. u\<lparr>u_status := DELETED, u_deletedAt := Some (q_now q), u_email := deleted_email i\<rparr>"
    from e have free: "\<forall>x \<in> set (users w1). u_email x = deleted_email i \<longrightarrow> u_id x = i"
      by (auto simp: erase_account_def split: if_splits)
    define wb where "wb = (case b of None \<Rightarrow> w1 | Some b \<Rightarrow> w1\<lparr>subscriptions :=
        updateMany (\<lambda>x. sb_id x = sb_id b) cancel_subscription_row (subscriptions w1)\<rparr>)"
    from e have w2: "w2 = update_user i ?f (revokeAllForUser q i wb)"
      by (simp add: erase_account_def Let_def wb_def split: if_splits)
    have "users wb = users w1" by (simp add: wb_def split: option.splits)
    have "auth_keeps c t w1 wb"
      by (rule auth_keeps_frame) (auto simp: wb_def intro: extends_audit_eq split: option.splits)
    then have "auth_keeps c t w1 (revokeAllForUser q i wb)" by (rule auth_keeps_after)
    moreover have "auth_keeps c t (revokeAllForUser q i wb) w2"
      unfolding w2
    proof (rule auth_keeps_users)
      show "u_id ` set (users (revokeAllForUser q i wb)) \<subseteq> u_id ` set (users (update_user i ?f (revokeAllForUser q i wb)))"
        by (simp add: u_ids_update_user)
      show "users_ok (update_user i ?f (revokeAllForUser q i wb))" if "users_ok (revokeAllForUser q i wb)"
        using that free \<open>users wb = users w1\<close> by (intro users_ok_erase) simp_all
    qed (simp_all add: extends_audit_eq)
    ultimately show ?thesis by (rule auth_keeps_trans)
  qed
  have cancel: "auth_keeps c t w (w\<lparr>stripeCalls := x\<rparr>)" for x
    by (rule auth_keeps_frame) (auto intro: extends_audit_eq)
  have fin: "auth_keeps c t w (audit_record q e (revokeUser c' q i w2))"
    if "erase_account q i b w = Inr w2" for b w2 e
    using erase [OF that] by (intro auth_keeps_after)
  have fin': "auth_keeps c t w (audit_record q e (revokeUser c' q i w2))"
    if "erase_account q i b (w\<lparr>stripeCalls := x\<rparr>) = Inr w2" for b w2 e x
    using auth_keeps_trans [OF cancel erase [OF that]] by (intro auth_keeps_after)
  show ?thesis
    by (auto simp: deleteAccount_def Let_def stripe_cancel_def cancel fin fin'
        split: option.splits sum.splits)
qed

section \<open>Steps and runs\<close>

text \<open>One request to the authentication service.\<close>

inductive auth_step :: "cfg \<Rightarrow> req \<Rightarrow> world \<Rightarrow> world \<Rightarrow> bool" for c q w where
  step_register: "auth_step c q w (snd (register c q dto meta w))"
| step_verifyEmail: "auth_step c q w (snd (verifyEmail c q tok w))"
| step_login: "auth_step c q w (snd (login c q email pw meta w))"
| step_verifyLogin: "auth_step c q w (snd (verifyLogin c q tok code meta w))"
| step_refresh: "auth_step c q w (snd (refresh c q tok meta w))"
| step_logout: "auth_step c q w (logout c q tok w)"
| step_logoutAll: "auth_step c q w (logoutAll c q i w)"
| step_forgotPassword: "auth_step c q w (snd (forgotPassword c q email w))"
| step_resetPassword: "auth_step c q w (snd (resetPassword c q tok pw w))"
| step_start2fa: "auth_step c q w (snd (start2fa c q i w))"
| step_confirm2fa: "auth_step c q w (snd (confirm2fa c q i code w))"
| step_disable2fa: "auth_step c q w (snd (disable2fa c q i pw w))"
| step_trustDevice: "auth_step c q w (snd (trustDevice c q i d w))"
| step_removeDevice: "auth_step c q w (snd (removeDevice q i d w))"
| step_exportData: "auth_step c q w (snd (exportData q i w))"
| step_deleteAccount: "auth_step c q w (snd (deleteAccount c q i pw w))"

lemma auth_step_keeps: "auth_step c q w w' \<Longrightarrow> auth_keeps c (q_now q) w w'"
  by (induction rule: auth_step.induct)
    (rule auth_keeps_register auth_keeps_verifyEmail auth_keeps_login auth_keeps_verifyLogin
      auth_keeps_refresh auth_keeps_logout auth_keeps_logoutAll auth_keeps_forgotPassword
      auth_keeps_resetPassword auth_keeps_2fa auth_keeps_device_handlers auth_keeps_exportData
      auth_keeps_deleteAccount)+

text \<open>
  Runs of a step relation: any number of requests, in any order, at instants that do not go
  back. The locale states the contract a service's steps have to meet and derives what holds
  along every run.
\<close>

inductive runs :: "(cfg \<Rightarrow> req \<Rightarrow> world \<Rightarrow> world \<Rightarrow> bool) \<Rightarrow> cfg \<Rightarrow> time \<Rightarrow> world \<Rightarrow> time \<Rightarrow> world \<Rightarrow> bool"
  for step c t w where
  runs_refl: "runs step c t w t w"
| runs_step: "runs step c t w t1 w1 \<Longrightarrow> t1 \<le> q_now q \<Longrightarrow> step c q w1 w2 \<Longrightarrow> runs step c t w (q_now q) w2"

lemma auth_inv_later: "auth_inv c t w \<Longrightarrow> t \<le> t' \<Longrightarrow> auth_inv c t' w"
  unfolding auth_inv_def using liveCount_mono_time [of t t' _ w]
  by (meson of_nat_mono order_trans)

locale account_service =
  fixes step :: "cfg \<Rightarrow> req \<Rightarrow> world \<Rightarrow> world \<Rightarrow> bool"
  assumes step_keeps: "step c q w w' \<Longrightarrow> auth_keeps c (q_now q) w w'"
begin

lemma runs_time: "runs step c t w t' w' \<Longrightarrow> t \<le> t'"
  by (induction rule: runs.induct) auto

lemma runs_inv: "runs step c t w t' w' \<Longrightarrow> auth_inv c t w \<Longrightarrow> auth_inv c t' w'"
proof (induction rule: runs.induct)
  case (runs_step t1 w1 q w2)
  then have "auth_inv c (q_now q) w1" by (blast intro: auth_inv_later)
  with step_keeps [OF runs_step(3)] show ?case by (simp add: auth_keeps_def)
qed

lemma runs_evolve:
  "runs step c t w t' w' \<Longrightarrow> extends_audit w w' \<and> session_evolves w w' \<and> token_evolves w w'
     \<and> u_id ` set (users w) \<subseteq> u_id ` set (users w')"
proof (induction rule: runs.induct)
  case runs_refl
  then show ?case by (simp add: token_evolves_eq)
next
  case (runs_step t1 w1 q w2)
  with step_keeps [OF runs_step(3)] show ?case
    using extends_audit_trans [of w w1 w2] session_evolves_trans [of w w1 w2]
      token_evolves_trans [of w w1 w2] by (simp add: auth_keeps_def) blast
qed

text \<open>A refresh token that is dead once is dead for the rest of every run.\<close>

lemma dead_forever:
  assumes "auth_inv c t w" and "runs step c t w t' w'" and "issued_token c tok w" and "holder c t tok w = None"
  shows "holder c t' tok w' = None"
  using assms runs_inv [OF assms(2,1)] runs_evolve [OF assms(2)] runs_time [OF assms(2)]
    store.dead_later [of w w' c tok t t']
  by (auto simp: auth_inv_def)

text \<open>A link that has been used is refused for the rest of every run.\<close>

lemma used_forever:
  assumes inv: "auth_inv c t w" and run: "runs step c t w t' w'"
    and r: "r \<in> set (verificationTokens w)" "vt_tokenHash r = c_hash c tok" "vt_usedAt r \<noteq> None"
  shows "\<exists>e. consumeVerificationToken c q tok p w' = (Inl (BadRequest e), w')"
proof (rule consume_cases [of c q tok p w'])
  fix x assume x: "x \<in> set (verificationTokens w')" "vt_tokenHash x = c_hash c tok" "vt_usedAt x = None"
  have "token_evolves w w'" and "tokens_ok w'"
    using runs_evolve [OF run] runs_inv [OF run inv] by (auto simp: auth_inv_def)
  then obtain r' where r': "r' \<in> set (verificationTokens w')" "vt_tokenHash r' = c_hash c tok" "vt_usedAt r' \<noteq> None"
    using r by (auto simp: token_evolves_def)
  have "r' = x" using r' x \<open>tokens_ok w'\<close> unfolding tokens_ok_def by (metis unique_onD)
  with x r' show ?thesis by simp
qed blast

end

interpretation auth: account_service auth_step
  by unfold_locales (rule auth_step_keeps)

end
