(* ===== verification/AuthProperties.thy ===== *)
theory AuthProperties
  imports AuthInvariant
begin

text \<open>
  What the authentication handlers guarantee, branch by branch, and what they do not.
\<close>

section \<open>Refresh\<close>

text \<open>The random draws of a request are new to the session table.\<close>

definition fresh_session :: "cfg \<Rightarrow> req \<Rightarrow> world \<Rightarrow> bool" where
  "fresh_session c q w \<longleftrightarrow> q_newId q \<notin> s_id ` set (sessions w)
     \<and> c_hash c (q_rawToken q) \<notin> s_tokenHash ` set (sessions w)"

lemma create_session_fresh:
  assumes "fresh_session c q w" "ci_userId i \<in> u_id ` set (users w)"
    "\<forall>d. ci_deviceId i = Some d \<longrightarrow> d \<in> d_id ` set (devices w)"
  shows "create_session c q i w = (Inr (q_rawToken q, new_session c q i),
        w\<lparr>sessions := sessions w @ [new_session c q i]\<rparr>)"
proof -
  have "\<not> (\<exists>x \<in> set (sessions w). s_id x = q_newId q \<or> s_tokenHash x = c_hash c (q_rawToken q))"
    using assms(1) unfolding fresh_session_def by (metis imageI)
  with assms(2,3) show ?thesis by (auto simp: create_session_def Let_def)
qed

lemma rotate_fresh:
  assumes "sessions_ok w" "fresh_session c q w" "s \<in> set (sessions w)"
  shows "rotate_session c q s ip w = (Inr (q_rawToken q, new_session c q (rotation_input s ip)),
      update_sessions (\<lambda>x. s_id x = s_id s) (rotated_row q)
        (w\<lparr>sessions := sessions w @ [new_session c q (rotation_input s ip)]\<rparr>))"
proof -
  have "create_session c q (rotation_input s ip) w =
      (Inr (q_rawToken q, new_session c q (rotation_input s ip)),
       w\<lparr>sessions := sessions w @ [new_session c q (rotation_input s ip)]\<rparr>)"
    using assms by (intro create_session_fresh) (auto simp: sessions_ok_def)
  then show ?thesis by (simp add: rotate_session_def rotated_row_def [abs_def])
qed

lemma holder_rotated:
  assumes ok: "sessions_ok w" and fresh: "fresh_session c q w"
    and s: "s \<in> set (sessions w)" and days: "0 < c_refreshExpiryDays c"
  shows "holder c (q_now q) tok (snd (rotate_session c q s ip w)) =
    (if c_hash c tok = c_hash c (q_rawToken q) then Some (s_userId s)
     else if c_hash c tok = s_tokenHash s then None else holder c (q_now q) tok w)"
proof -
  let ?n = "new_session c q (rotation_input s ip)"
  have neq: "s_id ?n \<noteq> s_id s" using fresh s by (auto simp: fresh_session_def)
  have rows: "sessions (snd (rotate_session c q s ip w)) =
      updateMany (\<lambda>x. s_id x = s_id s) (rotated_row q) (sessions w) @ [?n]"
    using neq by (simp add: rotate_fresh [OF ok fresh s])
  have old: "findFirst (\<lambda>x. s_tokenHash x = h \<and> session_live (q_now q) x)
        (updateMany (\<lambda>x. s_id x = s_id s) (rotated_row q) (sessions w)) =
      (if h = s_tokenHash s then None
       else findFirst (\<lambda>x. s_tokenHash x = h \<and> session_live (q_now q) x) (sessions w))" for h
  proof -
    have "\<forall>x \<in> set rows. s_tokenHash x = s_tokenHash s \<longleftrightarrow> s_id x = s_id s \<Longrightarrow>
        findFirst (\<lambda>x. s_tokenHash x = h \<and> session_live (q_now q) x)
        (updateMany (\<lambda>x. s_id x = s_id s) (rotated_row q) rows) =
      (if h = s_tokenHash s then None
       else findFirst (\<lambda>x. s_tokenHash x = h \<and> session_live (q_now q) x) rows)" for rows
      by (induction rows) (auto simp: session_live_def)
    moreover have "\<forall>x \<in> set (sessions w). s_tokenHash x = s_tokenHash s \<longleftrightarrow> s_id x = s_id s"
      using ok s unfolding sessions_ok_def by (metis unique_onD)
    ultimately show ?thesis by blast
  qed
  have "\<forall>x \<in> set (sessions w). s_tokenHash x \<noteq> c_hash c (q_rawToken q)"
    using fresh unfolding fresh_session_def by (metis imageI)
  then have new: "findFirst (\<lambda>x. s_tokenHash x = c_hash c (q_rawToken q) \<and> session_live (q_now q) x) (sessions w) = None"
    by (simp add: findFirst_None_iff)
  have "session_live (q_now q) ?n" using days by (simp add: session_live_def ms_per_day_def)
  then show ?thesis
    by (auto simp: holder_def rows findFirst_append old new split: option.splits)
qed

text \<open>
  C1: a refresh with a live token of an active account rotates it. It returns the new token and
  an access token for the account's current email and role; from then on the new token is live
  for the same user, the presented one is dead, every other token is as before, and the user
  has at most as many live sessions as before.
\<close>

theorem refresh_rotates:
  assumes inv: "auth_inv c (q_now q) w" and fresh: "fresh_session c q w"
    and days: "0 < c_refreshExpiryDays c"
    and live: "findActiveByRawToken c q tok w = Some s"
    and user: "findById (s_userId s) w = Some u" "u_status u = ACTIVE"
  shows "fst (refresh c q tok meta w) =
      Inr \<lparr>tp_accessToken = signAccessToken c q (u_id u) (u_email u) (u_role u),
           tp_refreshToken = q_rawToken q,
           tp_refreshTokenExpiresAt = q_now q + c_refreshExpiryDays c * ms_per_day\<rparr>
    \<and> holder c (q_now q) (q_rawToken q) (snd (refresh c q tok meta w)) = Some (u_id u)
    \<and> holder c (q_now q) tok (snd (refresh c q tok meta w)) = None
    \<and> (\<forall>tok'. c_hash c tok' \<notin> {c_hash c tok, c_hash c (q_rawToken q)} \<longrightarrow>
        holder c (q_now q) tok' (snd (refresh c q tok meta w)) = holder c (q_now q) tok' w)
    \<and> liveCount (q_now q) (u_id u) (snd (refresh c q tok meta w)) \<le> liveCount (q_now q) (u_id u) w"
proof -
  have ok: "sessions_ok w" using inv by (simp add: auth_inv_def)
  from findActive_SomeD [OF live] have s: "s \<in> set (sessions w)" "s_tokenHash s = c_hash c tok"
    "session_live (q_now q) s" by auto
  have u: "u_id u = s_userId s" using user(1) by (auto dest: findById_SomeD)
  have eq: "refresh c q tok meta w =
      (Inr \<lparr>tp_accessToken = signAccessToken c q (u_id u) (u_email u) (u_role u),
           tp_refreshToken = q_rawToken q,
           tp_refreshTokenExpiresAt = q_now q + c_refreshExpiryDays c * ms_per_day\<rparr>,
       snd (rotate_session c q s (rm_ipAddress meta) w))"
    by (simp add: refresh_def live refresh_with_def user rotate_fresh [OF ok fresh s(1)])
  have neq: "c_hash c tok \<noteq> c_hash c (q_rawToken q)"
    using fresh s(1,2) unfolding fresh_session_def by (metis imageI)
  show ?thesis
    using neq liveCount_rotate [OF ok s(1,3), of "u_id u" c "rm_ipAddress meta"]
    by (simp add: eq holder_rotated [OF ok fresh s(1) days] u s(2))
qed

lemma sample_inv: "auth_inv sample_cfg 20 sample_world"
proof -
  have "trusted_ok sample_cfg sample_world"
    by (simp add: trusted_ok_def countTrusted_def sample_defs)
  moreover have "int (liveCount 20 i sample_world) \<le> sessionCap sample_cfg" for i
    by (simp add: liveCount_def sessionCap_def sample_defs)
  ultimately show ?thesis
    by (simp add: auth_inv_def users_ok_def devices_ok_def sessions_ok_def tokens_ok_def
        unique_on_def sample_defs)
qed

lemma sample_fresh: "fresh_session sample_cfg (sample_req 20) sample_world"
  by (simp add: fresh_session_def sample_defs)

definition sample_meta :: requestMeta where
  "sample_meta = \<lparr>rm_ipAddress = None, rm_userAgent = None, rm_rawDeviceId = ''laptop''\<rparr>"

theorem refresh_rotates_witness:
  "findActiveByRawToken sample_cfg (sample_req 20) ''tok'' sample_world = Some sample_session
   \<and> holder sample_cfg 20 ''fresh'' (snd (refresh sample_cfg (sample_req 20) ''tok'' sample_meta sample_world)) = Some ''u1''
   \<and> holder sample_cfg 20 ''tok'' (snd (refresh sample_cfg (sample_req 20) ''tok'' sample_meta sample_world)) = None"
proof -
  have a: "findActiveByRawToken sample_cfg (sample_req 20) ''tok'' sample_world = Some sample_session"
    by (simp add: findActiveByRawToken_def session_live_def sample_defs)
  have b: "findById (s_userId sample_session) sample_world = Some sample_user"
    by (simp add: findById_def sample_defs)
  have c: "auth_inv sample_cfg (q_now (sample_req 20)) sample_world" "0 < c_refreshExpiryDays sample_cfg"
    "u_status sample_user = ACTIVE" using sample_inv by (simp_all add: sample_defs)
  from refresh_rotates [OF c(1) sample_fresh c(2) a b c(3), of sample_meta] a show ?thesis
    by (simp add: sample_req_def sample_user_def)
qed

text \<open>
  Tokens are refreshed for active accounts only: whenever \<open>refresh\<close> returns a pair, the
  presented token belongs to a live session, or to one rotated at most 15 seconds ago whose
  successor is still live, and the owner's account is \<open>ACTIVE\<close> at that moment. A suspended or
  deleted account can never obtain new tokens this way.
\<close>

theorem refresh_only_active:
  assumes "fst (refresh c q tok meta w) = Inr tp"
  shows "\<exists>a \<in> set (sessions w). s_tokenHash a = c_hash c tok
    \<and> (\<exists>s \<in> set (sessions w). session_live (q_now q) s
        \<and> (s = a \<or> (s_replacedByTokenId a = Some (s_id s)
             \<and> (\<exists>t. s_revokedAt a = Some t \<and> q_now q - t \<le> 15000)))
        \<and> (\<exists>u \<in> set (users w). u_id u = s_userId s \<and> u_status u = ACTIVE))"
proof -
  have active: "\<exists>u \<in> set (users w). u_id u = s_userId s \<and> u_status u = ACTIVE"
    if "fst (refresh_with c q s meta w) = Inr tp" for s
    using that by (auto simp: refresh_with_def split: option.splits if_splits dest!: findById_SomeD)
  show ?thesis
  proof (cases "findActiveByRawToken c q tok w")
    case (Some s)
    with assms active [of s] findActive_SomeD [OF Some] show ?thesis
      by (auto simp: refresh_def)
  next
    case None
    with assms obtain a s where a: "findAnyByRawToken c tok w = Some a" "grace_successor q a w = Some s"
      "fst (refresh_with c q s meta w) = Inr tp"
      by (auto simp: refresh_def split: option.splits)
    have "a \<in> set (sessions w)" "s_tokenHash a = c_hash c tok"
      using a(1) by (auto simp: findAnyByRawToken_def dest: findFirst_SomeD)
    with active [OF a(3)] grace_successor_SomeD [OF a(2)] show ?thesis by blast
  qed
qed

theorem refresh_only_active_witness:
  "\<exists>a \<in> set (sessions sample_world). s_tokenHash a = ''tok''
    \<and> (\<exists>u \<in> set (users sample_world). u_status u = ACTIVE)"
proof -
  have a: "findActiveByRawToken sample_cfg (sample_req 20) ''tok'' sample_world = Some sample_session"
    by (simp add: findActiveByRawToken_def session_live_def sample_defs)
  have b: "findById (s_userId sample_session) sample_world = Some sample_user" "u_status sample_user = ACTIVE"
    by (simp_all add: findById_def sample_defs)
  have ok: "sessions_ok sample_world" using sample_inv by (simp add: auth_inv_def)
  have s: "sample_session \<in> set (sessions sample_world)" by (simp add: sample_world_def)
  obtain tp where "fst (refresh sample_cfg (sample_req 20) ''tok'' sample_meta sample_world) = Inr tp"
    by (simp add: refresh_def a refresh_with_def b rotate_fresh [OF ok sample_fresh s])
  from refresh_only_active [OF this] show ?thesis by (auto simp: sample_cfg_def)
qed

text \<open>
  C2: a replayed token ends every session of the account. When a revoked token is presented and
  it is not the benign race (rotated at most 15 seconds ago with a live successor), the request
  fails, and every token the account held is dead: at that instant and in every state that any
  further requests lead to, at every later instant. Tokens of other accounts are untouched.
\<close>

theorem refresh_reuse_logs_out:
  assumes inv: "auth_inv c (q_now q) w"
    and any: "findAnyByRawToken c tok w = Some a" and rev: "s_revokedAt a \<noteq> None"
    and norace: "grace_successor q a w = None"
  shows "fst (refresh c q tok meta w) = Inl (Unauthorized Session_expired)
    \<and> (\<forall>tok' t' w'. holder c (q_now q) tok' w = Some (s_userId a) \<and>
         runs auth_step c (q_now q) (snd (refresh c q tok meta w)) t' w' \<longrightarrow> holder c t' tok' w' = None)
    \<and> (\<forall>tok' j. holder c (q_now q) tok' w = Some j \<and> j \<noteq> s_userId a \<longrightarrow>
         holder c (q_now q) tok' (snd (refresh c q tok meta w)) = Some j)"
proof -
  let ?i = "s_userId a"
  have ok: "sessions_ok w" using inv by (simp add: auth_inv_def)
  have a: "a \<in> set (sessions w)" "s_tokenHash a = c_hash c tok"
    using any by (auto simp: findAnyByRawToken_def dest: findFirst_SomeD)
  have "findActiveByRawToken c q tok w = None"
  proof (rule ccontr)
    assume "findActiveByRawToken c q tok w \<noteq> None"
    then obtain s where s: "findActiveByRawToken c q tok w = Some s" by blast
    note sd = findActive_SomeD [OF s]
    have "s = a" using sd a ok unfolding sessions_ok_def by (metis unique_onD)
    with sd rev show False by (simp add: session_live_def)
  qed
  then have eq: "refresh c q tok meta w = (Inl (Unauthorized Session_expired), reuse_response q a meta w)"
    using any norace rev by (simp add: refresh_def)
  have holders: "holder c t tok' (reuse_response q a meta w) = holder c t tok' (revokeAllForUser q ?i w)" for t tok'
    by (simp add: holder_def reuse_response_def)
  have "holder c t' tok' w' = None"
    if h: "holder c (q_now q) tok' w = Some ?i" and run: "runs auth_step c (q_now q) (reuse_response q a meta w) t' w'"
    for tok' t' w'
  proof (rule auth.dead_forever [OF _ run])
    show "auth_inv c (q_now q) (reuse_response q a meta w)"
      using auth_keeps_refresh [of c q w tok meta] inv by (simp add: eq auth_keeps_def)
    show "issued_token c tok' (reuse_response q a meta w)"
      using store.owner_issued [OF h] store.issued_later [OF _ session_evolves_revokeAllForUser]
      by (simp add: issued_token_def reuse_response_def)
    show "holder c (q_now q) tok' (reuse_response q a meta w) = None"
      using h ok by (simp add: holders holder_revokeAllForUser)
  qed
  then show ?thesis
    using eq holders store.others_stay [OF ok] by simp
qed

theorem refresh_reuse_logs_out_witness:
  "holder sample_cfg 20000 ''tok'' (snd (refresh sample_cfg (sample_req 20000) ''old'' sample_meta
     (sample_world\<lparr>sessions := [sample_session\<lparr>s_expiresAt := 90000\<rparr>,
        sample_session\<lparr>s_id := ''s0'', s_tokenHash := ''old'', s_revokedAt := Some 3,
          s_replacedByTokenId := Some ''s1''\<rparr>]\<rparr>))) = None"
proof -
  let ?a = "sample_session\<lparr>s_id := ''s0'', s_tokenHash := ''old'', s_revokedAt := Some 3,
      s_replacedByTokenId := Some ''s1''\<rparr>"
  let ?w = "sample_world\<lparr>sessions := [sample_session\<lparr>s_expiresAt := 90000\<rparr>, ?a]\<rparr>"
  let ?q = "sample_req 20000"
  have "trusted_ok sample_cfg ?w"
    by (simp add: trusted_ok_def countTrusted_def sample_defs)
  moreover have "int (liveCount 20000 i ?w) \<le> sessionCap sample_cfg" for i
    by (simp add: liveCount_def sessionCap_def user_live_def session_live_def sample_defs)
  ultimately have inv: "auth_inv sample_cfg (q_now ?q) ?w"
    by (simp add: auth_inv_def users_ok_def devices_ok_def sessions_ok_def tokens_ok_def
        unique_on_def sample_defs)
  have any: "findAnyByRawToken sample_cfg ''old'' ?w = Some ?a" "s_revokedAt ?a \<noteq> None"
    "grace_successor ?q ?a ?w = None"
    by (simp_all add: findAnyByRawToken_def grace_successor_def CONCURRENT_REFRESH_GRACE_SECONDS_def sample_defs)
  have h: "holder sample_cfg 20000 ''tok'' ?w = Some (s_userId ?a)"
    by (simp add: holder_def session_live_def sample_defs)
  from refresh_reuse_logs_out [OF inv any, of sample_meta] h
    runs_refl [of auth_step sample_cfg 20000 "snd (refresh sample_cfg ?q ''old'' sample_meta ?w)"]
  show ?thesis by (auto simp: sample_req_def)
qed

section \<open>Login\<close>

text \<open>The guards of a login, in one predicate.\<close>

definition credentials_ok :: "cfg \<Rightarrow> req \<Rightarrow> string \<Rightarrow> string \<Rightarrow> world \<Rightarrow> user \<Rightarrow> bool" where
  "credentials_ok c q email pw w u \<longleftrightarrow> findByEmail email w = Some u \<and> \<not> isLocked q u
     \<and> u_status u = ACTIVE \<and> c_argonVerify c (u_passwordHash u) pw"

definition login_device :: "cfg \<Rightarrow> req \<Rightarrow> user \<Rightarrow> requestMeta \<Rightarrow> world \<Rightarrow> (device \<times> bool) result \<times> world" where
  "login_device c q u meta w =
     findOrCreateDevice q (u_id u) (hashDeviceId c (rm_rawDeviceId meta))
       (describeUserAgent c (rm_userAgent meta)) (resetFailedLogins (u_id u) w)"

lemma login_credentials:
  assumes "credentials_ok c q email pw w u"
  shows "login c q email pw meta w =
    (case login_device c q u meta w of
       (Inl e, w2) \<Rightarrow> (Inl e, w2)
     | (Inr (device, isNew), w2) \<Rightarrow>
         if isNew then (let (r, w3) = new_device_challenge c q u device meta w2 in (Inr r, w3))
         else (case issueTokenPair c q (u_id u) (d_id device) meta False w2 of
                 (Inl e, w3) \<Rightarrow> (Inl e, w3) | (Inr tp, w3) \<Rightarrow> (Inr (LoggedIn tp), w3)))"
  using assms by (simp add: login_def credentials_ok_def login_device_def Let_def)

lemma login_Inr_credentials:
  assumes "fst (login c q email pw meta w) = Inr r"
  obtains u where "credentials_ok c q email pw w u"
  using assms that
  by (auto simp: login_def credentials_ok_def login_failed_def case_prod_beta Let_def split: option.splits if_splits)

lemma login_device_known:
  assumes "(u_id u, hashDeviceId c (rm_rawDeviceId meta)) \<in> (\<lambda>d. (d_userId d, d_fingerprint d)) ` set (devices w)"
  shows "\<exists>d \<in> set (devices w). \<exists>w2. login_device c q u meta w = (Inr (d\<lparr>d_lastSeenAt := q_now q\<rparr>, False), w2)
    \<and> d_userId d = u_id u \<and> d_fingerprint d = hashDeviceId c (rm_rawDeviceId meta)
    \<and> users w2 = users (resetFailedLogins (u_id u) w) \<and> sessions w2 = sessions w
    \<and> d_id ` set (devices w2) = d_id ` set (devices w)"
proof -
  let ?fp = "hashDeviceId c (rm_rawDeviceId meta)"
  have "findFirst (\<lambda>d. d_userId d = u_id u \<and> d_fingerprint d = ?fp) (devices w) \<noteq> None"
    using assms by (auto simp: findFirst_None_iff)
  then obtain d where d: "findFirst (\<lambda>d. d_userId d = u_id u \<and> d_fingerprint d = ?fp) (devices w) = Some d" by blast
  then show ?thesis
    using findFirst_SomeD [OF d]
    by (intro bexI [of _ d]) (auto simp: login_device_def findOrCreateDevice_def resetFailedLogins_def
        image_updateMany)
qed

lemma issueTokenPair_fresh:
  assumes "findById i w = Some u" "fresh_session c q w" "d \<in> d_id ` set (devices w)"
  shows "\<exists>tp. fst (issueTokenPair c q i d meta isNew w) = Inr tp \<and> tp_refreshToken tp = q_rawToken q
    \<and> tp_accessToken tp = signAccessToken c q (u_id u) (u_email u) (u_role u)"
proof -
  let ?w1 = "enforceLimit c q (u_id u) w" and ?risk = "login_risk c q u meta isNew w"
  have "fresh_session c q ?w1"
    using assms(2) by (simp add: fresh_session_def enforceLimit_active image_updateMany)
  then have "create_session c q (login_session_input c u d meta ?risk) ?w1 =
      (Inr (q_rawToken q, new_session c q (login_session_input c u d meta ?risk)),
       ?w1\<lparr>sessions := sessions ?w1 @ [new_session c q (login_session_input c u d meta ?risk)]\<rparr>)"
    using assms findById_SomeD [OF assms(1)]
    by (intro create_session_fresh) (auto simp: login_session_input_def Let_def)
  then show ?thesis using assms(1) by (simp add: issueTokenPair_def Let_def)
qed

text \<open>
  C7: a login hands out tokens directly only when every guard holds: the address belongs to an
  account that is not locked and is \<open>ACTIVE\<close>, the password matches, and the device already has a
  row for that account before the request. In particular a locked, suspended or deleted account
  never logs in, and an unknown device always gets a challenge.
\<close>

theorem login_tokens_guarded:
  assumes "fst (login c q email pw meta w) = Inr (LoggedIn tp)"
  shows "\<exists>u \<in> set (users w). u_email u = normalizeEmail email \<and> \<not> isLocked q u \<and> u_status u = ACTIVE
    \<and> c_argonVerify c (u_passwordHash u) pw
    \<and> (\<exists>d \<in> set (devices w). d_userId d = u_id u \<and> d_fingerprint d = hashDeviceId c (rm_rawDeviceId meta))"
proof -
  obtain u where u: "credentials_ok c q email pw w u" using assms by (rule login_Inr_credentials)
  let ?fp = "hashDeviceId c (rm_rawDeviceId meta)"
  have "\<exists>d \<in> set (devices w). d_userId d = u_id u \<and> d_fingerprint d = ?fp"
  proof (rule ccontr)
    assume "\<not> ?thesis"
    then have "findFirst (\<lambda>d. d_userId d = u_id u \<and> d_fingerprint d = ?fp) (devices w) = None"
      by (auto simp: findFirst_None_iff)
    then have "(\<exists>e. fst (login_device c q u meta w) = Inl e) \<or> (\<exists>d. fst (login_device c q u meta w) = Inr (d, True))"
      by (simp add: login_device_def findOrCreateDevice_def resetFailedLogins_def Let_def)
    with assms show False
      by (auto simp: login_credentials [OF u] new_device_challenge_def case_prod_beta Let_def split: prod.splits if_splits)
  qed
  with u show ?thesis
    by (auto simp: credentials_ok_def dest!: findByEmail_SomeD)
qed

lemma sample_login:
  assumes w: "users w = [sample_user]" "devices w = [sample_device]"
    and fresh: "fresh_session sample_cfg (sample_req 20) w"
  shows "\<exists>tp. fst (login sample_cfg (sample_req 20) ''ann@example.com'' ''pw'' sample_meta w) = Inr (LoggedIn tp)
    \<and> tp_accessToken tp = ''access''"
proof -
  have u: "credentials_ok sample_cfg (sample_req 20) ''ann@example.com'' ''pw'' w sample_user"
    by (simp add: w credentials_ok_def findByEmail_def isLocked_def normalizeEmail_def toLowerCase_def trim_def
        lower_char_def js_space_def sample_defs)
  let ?d = "sample_device\<lparr>d_lastSeenAt := 20\<rparr>"
  have ld: "login_device sample_cfg (sample_req 20) sample_user sample_meta w =
      (Inr (?d, False), update_devices (\<lambda>d. d_id d = ''d1'') (\<lambda>d. d\<lparr>d_lastSeenAt := 20\<rparr>)
        (resetFailedLogins ''u1'' w))" (is "_ = (_, ?w)")
    by (simp add: w login_device_def findOrCreateDevice_def hashDeviceId_def sample_meta_def resetFailedLogins_def
        update_user_def sample_defs)
  have "findById ''u1'' ?w = Some (sample_user\<lparr>u_failedLoginCount := 0, u_lockedUntil := None\<rparr>)"
    by (simp add: w findById_def resetFailedLogins_def update_user_def sample_defs)
  moreover have "fresh_session sample_cfg (sample_req 20) ?w"
    using fresh by (simp add: fresh_session_def resetFailedLogins_def)
  moreover have "''d1'' \<in> d_id ` set (devices ?w)"
    by (simp add: w resetFailedLogins_def sample_defs)
  ultimately have "\<exists>tp. fst (issueTokenPair sample_cfg (sample_req 20) ''u1'' ''d1'' sample_meta False ?w) = Inr tp
      \<and> tp_accessToken tp = ''access''"
    using issueTokenPair_fresh [of "''u1''" ?w _ sample_cfg "sample_req 20" "''d1''" sample_meta False]
    by (auto simp: signAccessToken_def sample_cfg_def)
  moreover have "u_id sample_user = ''u1''" "d_id sample_device = ''d1''" by (simp_all add: sample_defs)
  ultimately show ?thesis
    by (auto simp: login_credentials [OF u] ld case_prod_beta split: sum.splits)
qed

theorem login_tokens_guarded_witness:
  "\<exists>u \<in> set (users sample_world). u_email u = normalizeEmail ''ann@example.com'' \<and> u_status u = ACTIVE
    \<and> (\<exists>d \<in> set (devices sample_world). d_userId d = u_id u)"
proof -
  obtain tp where "fst (login sample_cfg (sample_req 20) ''ann@example.com'' ''pw'' sample_meta sample_world) = Inr (LoggedIn tp)"
    using sample_login [OF _ _ sample_fresh] by (auto simp: sample_world_def)
  from login_tokens_guarded [OF this] show ?thesis by blast
qed

text \<open>
  C39: the new-device check guards one request only. \<open>login\<close> stores the device before the challenge
  is answered, so after a login that asked for a code (or for the second factor), repeating the
  same login from the same device returns tokens without any code, whatever the account's
  two-factor setting.
\<close>

theorem second_login_skips_challenge:
  assumes inv: "auth_inv c t w"
    and first: "login c q1 email pw meta w = (Inr (RequiresVerification m challenge), w1)"
    and fresh: "fresh_session c q2 w1"
  shows "\<exists>tp. fst (login c q2 email pw meta w1) = Inr (LoggedIn tp)"
proof -
  obtain u where u: "credentials_ok c q1 email pw w u" using first by (metis fst_conv login_Inr_credentials)
  let ?fp = "hashDeviceId c (rm_rawDeviceId meta)"
  let ?u = "u\<lparr>u_failedLoginCount := 0, u_lockedUntil := None\<rparr>"
  obtain d w2 where ld: "login_device c q1 u meta w = (Inr (d, True), w2)"
    and w1: "w1 = snd (new_device_challenge c q1 u d meta w2)"
  proof (cases "login_device c q1 u meta w")
    case (Pair r w2)
    with first show thesis using that
      by (cases r) (auto simp: login_credentials [OF u] case_prod_beta Let_def split: if_splits sum.splits)
  qed
  have dev: "devices w1 = devices w @ [d]" "d_userId d = u_id u" "d_fingerprint d = ?fp"
    and rest: "users w1 = users (resetFailedLogins (u_id u) w)"
    using ld by (auto simp: w1 login_device_def findOrCreateDevice_def resetFailedLogins_def new_device_def
        new_device_challenge_def Let_def split: option.splits if_splits)
  have ok: "users_ok w" using inv by (simp add: auth_inv_def)
  have em: "findByEmail email w = Some u" using u by (simp add: credentials_ok_def)
  have "findByEmail email w1 = findByEmail email (resetFailedLogins (u_id u) w)"
    using rest by (simp add: findByEmail_def)
  also have "\<dots> = Some ?u" using em by (simp add: resetFailedLogins_def findByEmail_update_user)
  finally have u2: "credentials_ok c q2 email pw w1 ?u"
    using u by (simp add: credentials_ok_def isLocked_def)
  have "(u_id ?u, ?fp) \<in> (\<lambda>d. (d_userId d, d_fingerprint d)) ` set (devices w1)"
    using dev by auto
  from login_device_known [OF this] obtain d3 w3 where d3: "d3 \<in> set (devices w1)"
    "login_device c q2 ?u meta w1 = (Inr (d3\<lparr>d_lastSeenAt := q_now q2\<rparr>, False), w3)"
    "users w3 = users (resetFailedLogins (u_id ?u) w1)" "sessions w3 = sessions w1"
    "d_id ` set (devices w3) = d_id ` set (devices w1)" by metis
  have "findById (u_id u) w1 = findById (u_id u) (resetFailedLogins (u_id u) w)"
    using rest by (simp add: findById_def)
  then have "findById (u_id u) w1 \<noteq> None"
    using findByEmail_findById [OF ok em] by (simp add: resetFailedLogins_def findById_update_user)
  then have "findById (u_id u) (resetFailedLogins (u_id u) w1) \<noteq> None"
    by (simp add: resetFailedLogins_def findById_update_user)
  then obtain u3 where "findById (u_id u) w3 = Some u3"
    using d3(3) by (auto simp: findById_def)
  moreover have "fresh_session c q2 w3" using fresh d3(4) by (simp add: fresh_session_def)
  moreover have "d_id d3 \<in> d_id ` set (devices w3)" using d3(1,5) by simp
  ultimately obtain tp where "fst (issueTokenPair c q2 (u_id u) (d_id d3) meta False w3) = Inr tp"
    using issueTokenPair_fresh by blast
  then show ?thesis
    by (auto simp: login_credentials [OF u2] d3(2) case_prod_beta split: sum.splits)
qed


theorem second_login_skips_challenge_witness:
  "\<exists>m challenge w1 tp. login sample_cfg (sample_req 20) ''ann@example.com'' ''pw'' (sample_meta\<lparr>rm_rawDeviceId := ''thief''\<rparr>)
       (sample_world\<lparr>users := [sample_user\<lparr>u_twoFactorEnabled := True\<rparr>]\<rparr>) = (Inr (RequiresVerification m challenge), w1)
     \<and> fst (login sample_cfg (sample_req 21) ''ann@example.com'' ''pw'' (sample_meta\<lparr>rm_rawDeviceId := ''thief''\<rparr>) w1) = Inr (LoggedIn tp)"
proof -
  let ?w = "sample_world\<lparr>users := [sample_user\<lparr>u_twoFactorEnabled := True\<rparr>]\<rparr>"
  let ?m = "sample_meta\<lparr>rm_rawDeviceId := ''thief''\<rparr>"
  let ?u = "sample_user\<lparr>u_twoFactorEnabled := True\<rparr>"
  have "trusted_ok sample_cfg ?w" by (simp add: trusted_ok_def countTrusted_def sample_defs)
  moreover have "int (liveCount 20 i ?w) \<le> sessionCap sample_cfg" for i
    by (simp add: liveCount_def sessionCap_def sample_defs)
  ultimately have inv: "auth_inv sample_cfg 20 ?w"
    by (simp add: auth_inv_def users_ok_def devices_ok_def sessions_ok_def tokens_ok_def unique_on_def sample_defs)
  have u: "credentials_ok sample_cfg (sample_req 20) ''ann@example.com'' ''pw'' ?w ?u"
    by (simp add: credentials_ok_def findByEmail_def isLocked_def normalizeEmail_def toLowerCase_def trim_def
        lower_char_def js_space_def sample_defs)
  obtain d w2 where ld: "login_device sample_cfg (sample_req 20) ?u ?m ?w = (Inr (d, True), w2)"
    and w2: "sessions w2 = sessions ?w"
    by (simp add: login_device_def findOrCreateDevice_def new_device_def hashDeviceId_def resetFailedLogins_def
        update_user_def sample_meta_def sample_defs Let_def)
  obtain w1 ch where first: "login sample_cfg (sample_req 20) ''ann@example.com'' ''pw'' ?m ?w =
      (Inr (RequiresVerification TOTP ch), w1)" and ss: "sessions w1 = sessions ?w"
    using w2 by (simp add: login_credentials [OF u] ld new_device_challenge_def)
  have "fresh_session sample_cfg (sample_req 21) w1"
    using ss by (simp add: fresh_session_def sample_defs)
  with second_login_skips_challenge [OF inv first this] first show ?thesis by blast
qed

text \<open>
  Answering a challenge does not look at the account's status. A challenge issued while the
  account was active, answered with the right code after the account has been suspended or
  deleted, still yields a token pair: \<open>verifyLogin\<close> checks neither the status nor the lock.
\<close>

theorem verifyLogin_ignores_status:
  assumes jwt: "c_jwtVerify c (q_now q) tok = Some (LoginChallengePayload i d EMAIL_CODE (Some (c_hash c code)))"
    and hash: "c_hash c code \<noteq> []" and user: "findById i w = Some u" "u_status u \<noteq> ACTIVE"
    and cap: "fst (registerChallengeAttempt c q tok 600 w)"
    and fresh: "fresh_session c q w" and dev: "d \<in> d_id ` set (devices w)"
  shows "\<exists>tp. fst (verifyLogin c q tok code meta w) = Inr tp \<and> tp_refreshToken tp = q_rawToken q"
proof -
  let ?w1 = "snd (registerChallengeAttempt c q tok 600 w)"
  let ?w2 = "if u_emailVerifiedAt u = None then markEmailVerified q (u_id u) ?w1 else ?w1"
  have i: "u_id u = i" using user(1) by (auto dest: findById_SomeD)
  have eq: "verifyLogin c q tok code meta w = issueTokenPair c q i d meta True ?w2"
    using cap hash i by (simp add: verifyLogin_def jwt user(1) challenge_code_valid_def case_prod_beta
        LOGIN_CHALLENGE_EXPIRY_MINUTES_def)
  have w1: "findById i ?w1 = Some u" using user(1) by (simp add: findById_def)
  have "\<exists>u'. findById i ?w2 = Some u'"
    using w1 i by (simp add: markEmailVerified_def findById_update_user)
  moreover have "fresh_session c q ?w2" "d \<in> d_id ` set (devices ?w2)"
    using fresh dev by (simp_all add: fresh_session_def markEmailVerified_def)
  ultimately show ?thesis unfolding eq using issueTokenPair_fresh by blast
qed

theorem verifyLogin_ignores_status_witness:
  "\<exists>tp. fst (verifyLogin sample_cfg (sample_req 20) ''challenge'' ''000042'' sample_meta
      (sample_world\<lparr>users := [sample_user\<lparr>u_status := SUSPENDED\<rparr>]\<rparr>)) = Inr tp"
proof -
  let ?w = "sample_world\<lparr>users := [sample_user\<lparr>u_status := SUSPENDED\<rparr>]\<rparr>"
  have "\<exists>tp. fst (verifyLogin sample_cfg (sample_req 20) ''challenge'' ''000042'' sample_meta ?w) = Inr tp
      \<and> tp_refreshToken tp = q_rawToken (sample_req 20)"
  proof (rule verifyLogin_ignores_status)
    show "c_jwtVerify sample_cfg (q_now (sample_req 20)) ''challenge'' =
        Some (LoginChallengePayload ''u1'' ''d1'' EMAIL_CODE (Some (c_hash sample_cfg ''000042'')))"
      by (simp add: sample_defs)
    show "findById ''u1'' ?w = Some (sample_user\<lparr>u_status := SUSPENDED\<rparr>)"
      by (simp add: findById_def sample_defs)
    show "fst (registerChallengeAttempt sample_cfg (sample_req 20) ''challenge'' 600 ?w)"
      by (simp add: registerChallengeAttempt_def redis_count_def redis_incr_def redis_get_def case_prod_beta
          MAX_CHALLENGE_ATTEMPTS_def Let_def sample_defs)
  qed (simp_all add: fresh_session_def sample_defs)
  then show ?thesis by blast
qed

section \<open>Lockout\<close>

text \<open>A sequence of login attempts on one account.\<close>

fun login_attempts :: "cfg \<Rightarrow> string \<Rightarrow> (req \<times> string \<times> requestMeta) list \<Rightarrow> world \<Rightarrow> world" where
  "login_attempts c email [] w = w"
| "login_attempts c email ((q, pw, meta) # rest) w =
     login_attempts c email rest (snd (login c q email pw meta w))"

lemma login_wrong_password:
  assumes "users_ok w" "findByEmail email w = Some u" "\<not> isLocked q u" "u_status u = ACTIVE"
    "\<not> c_argonVerify c (u_passwordHash u) pw"
  shows "users_ok (snd (login c q email pw meta w))"
    and "findByEmail email (snd (login c q email pw meta w)) =
      Some (if u_failedLoginCount u + 1 \<ge> c_maxAttempts c
          then u\<lparr>u_failedLoginCount := 0,
                 u_lockedUntil := Some (q_now q + c_lockoutMinutes c * ms_per_minute)\<rparr>
          else u\<lparr>u_failedLoginCount := u_failedLoginCount u + 1\<rparr>)"
proof -
  have id: "findById (u_id u) w = Some u" using assms(1,2) by (rule findByEmail_findById)
  have eq: "users (snd (login c q email pw meta w)) = users (snd (registerFailedLogin c q (u_id u) w))"
    using assms by (simp add: login_def login_failed_def case_prod_beta Let_def)
  then show "users_ok (snd (login c q email pw meta w))"
    using assms(1) by (simp add: users_ok_def users_ok_registerFailedLogin [unfolded users_ok_def])
  show "findByEmail email (snd (login c q email pw meta w)) =
      Some (if u_failedLoginCount u + 1 \<ge> c_maxAttempts c
          then u\<lparr>u_failedLoginCount := 0,
                 u_lockedUntil := Some (q_now q + c_lockoutMinutes c * ms_per_minute)\<rparr>
          else u\<lparr>u_failedLoginCount := u_failedLoginCount u + 1\<rparr>)"
    unfolding findByEmail_users_cong [OF eq] using assms(2)
    by (simp add: registerFailedLogin_cases [OF id] findByEmail_update_user)
qed

lemma attempts_count_up:
  assumes "users_ok w" "findByEmail email w = Some u" "u_lockedUntil u = None" "u_status u = ACTIVE"
    and "\<forall>(q, pw, meta) \<in> set as. \<not> c_argonVerify c (u_passwordHash u) pw"
    and "u_failedLoginCount u + int (length as) < c_maxAttempts c"
  shows "users_ok (login_attempts c email as w) \<and> findByEmail email (login_attempts c email as w) =
      Some (u\<lparr>u_failedLoginCount := u_failedLoginCount u + int (length as)\<rparr>)"
  using assms
proof (induction as arbitrary: w u)
  case (Cons a as)
  obtain q pw meta where a: "a = (q, pw, meta)" by (cases a)
  have "\<not> isLocked q u" using Cons.prems(3) by (simp add: isLocked_def)
  note step = login_wrong_password [OF Cons.prems(1,2) this Cons.prems(4), of c pw meta]
  have "\<not> c_argonVerify c (u_passwordHash u) pw" using Cons.prems(5) by (simp add: a)
  note step = step [OF this]
  have "u_failedLoginCount u + 1 < c_maxAttempts c" using Cons.prems(6) by simp
  then have "findByEmail email (snd (login c q email pw meta w)) = Some (u\<lparr>u_failedLoginCount := u_failedLoginCount u + 1\<rparr>)"
    using step(2) by simp
  from Cons.IH [OF step(1) this] Cons.prems show ?case by (simp add: a add.commute add.left_commute)
qed simp

text \<open>
  C13: the lockout. After \<open>MAX_LOGIN_ATTEMPTS\<close> wrong passwords in a row on an account with a clean
  counter, whatever the addresses and devices they come from, the account is locked: until
  \<open>LOCKOUT_MINUTES\<close> after the last of them every login is refused and changes nothing, even with
  the right password, and one attempt fewer does not lock it.
\<close>

theorem lockout_after_max_attempts:
  assumes ok: "users_ok w" and user: "findByEmail email w = Some u" "u_lockedUntil u = None" "u_status u = ACTIVE"
      "u_failedLoginCount u = 0"
    and wrong: "\<forall>(q, pw, meta) \<in> set (as @ [(ql, pwl, ml)]). \<not> c_argonVerify c (u_passwordHash u) pw"
    and many: "int (length (as @ [(ql, pwl, ml)])) = c_maxAttempts c"
    and within: "q_now q < q_now ql + c_lockoutMinutes c * ms_per_minute"
  shows "login c q email pw meta (login_attempts c email (as @ [(ql, pwl, ml)]) w) =
      (Inl (Unauthorized Too_many_failed_attempts_try_later), login_attempts c email (as @ [(ql, pwl, ml)]) w)
    \<and> (\<exists>u'. findByEmail email (login_attempts c email as w) = Some u' \<and> \<not> isLocked q u')"
proof -
  have as: "users_ok (login_attempts c email as w)"
    "findByEmail email (login_attempts c email as w) = Some (u\<lparr>u_failedLoginCount := int (length as)\<rparr>)"
    using attempts_count_up [OF ok user(1-3), of as c] wrong many user(4) by auto
  have app: "login_attempts c email (xs @ ys) v = login_attempts c email ys (login_attempts c email xs v)" for xs ys v
    by (induction xs arbitrary: v) auto
  let ?u = "u\<lparr>u_failedLoginCount := int (length as)\<rparr>"
  have "\<not> isLocked ql ?u" "u_status ?u = ACTIVE" "\<not> c_argonVerify c (u_passwordHash ?u) pwl"
    using user wrong by (simp_all add: isLocked_def)
  from login_wrong_password(2) [OF as this, of ml] many
  have "findByEmail email (login_attempts c email (as @ [(ql, pwl, ml)]) w) =
      Some (?u\<lparr>u_failedLoginCount := 0, u_lockedUntil := Some (q_now ql + c_lockoutMinutes c * ms_per_minute)\<rparr>)"
    by (simp add: app)
  then have "login c q email pw meta (login_attempts c email (as @ [(ql, pwl, ml)]) w) =
      (Inl (Unauthorized Too_many_failed_attempts_try_later), login_attempts c email (as @ [(ql, pwl, ml)]) w)"
    using within by (simp add: login_def isLocked_def)
  then show ?thesis using as(2) user by (simp add: isLocked_def)
qed

theorem lockout_after_max_attempts_witness:
  "login sample_cfg (sample_req 100) ''ann@example.com'' ''pw'' sample_meta
      (login_attempts sample_cfg ''ann@example.com''
        (replicate 4 (sample_req 10, ''guess'', sample_meta) @ [(sample_req 20, ''guess'', sample_meta)]) sample_world) =
    (Inl (Unauthorized Too_many_failed_attempts_try_later),
     login_attempts sample_cfg ''ann@example.com''
        (replicate 4 (sample_req 10, ''guess'', sample_meta) @ [(sample_req 20, ''guess'', sample_meta)]) sample_world)"
proof -
  have ok: "users_ok sample_world" using sample_inv by (simp add: auth_inv_def)
  have em: "findByEmail ''ann@example.com'' sample_world = Some sample_user"
    by (simp add: findByEmail_def normalizeEmail_def toLowerCase_def trim_def lower_char_def js_space_def sample_defs)
  have "u_lockedUntil sample_user = None" "u_status sample_user = ACTIVE" "u_failedLoginCount sample_user = 0"
    "\<forall>(q, pw, meta) \<in> set (replicate 4 (sample_req 10, ''guess'', sample_meta) @ [(sample_req 20, ''guess'', sample_meta)]).
       \<not> c_argonVerify sample_cfg (u_passwordHash sample_user) pw"
    "int (length (replicate 4 (sample_req 10, ''guess'', sample_meta) @ [(sample_req 20, ''guess'', sample_meta)])) =
       c_maxAttempts sample_cfg"
    "q_now (sample_req 100) < q_now (sample_req 20) + c_lockoutMinutes sample_cfg * ms_per_minute"
    by (auto simp: sample_defs ms_per_minute_def)
  from lockout_after_max_attempts [OF ok em this, of "''pw''" sample_meta] show ?thesis by blast
qed

section \<open>Password reset\<close>

lemma token_owner: "tokens_ok w \<Longrightarrow> r \<in> set (verificationTokens w) \<Longrightarrow> \<exists>u. findById (vt_userId r) w = Some u"
  by (force simp: tokens_ok_def findById_def findFirst_None_iff not_None_eq [symmetric] simp del: not_None_eq)

text \<open>
  C14: a password reset link works once and ends every session. When \<open>resetPassword\<close> succeeds, the
  account has the new password hash, every refresh token it held is dead for the rest of every
  run, its access tokens are revoked in Redis for their remaining lifetime (if Redis answers),
  and the same link is refused, without effect, in every state reached afterwards.
\<close>

theorem reset_link_works_once:
  assumes inv: "auth_inv c (q_now q) w"
    and reset: "resetPassword c q tok pw w = (Inr msg, w1)"
    and run: "runs auth_step c (q_now q) w1 t' w'"
  shows "\<exists>r \<in> set (verificationTokens w). vt_tokenHash r = c_hash c tok \<and> vt_purpose r = PASSWORD_RESET
    \<and> map_option u_passwordHash (findById (vt_userId r) w1) = Some (q_passwordHash q pw)
    \<and> (\<forall>tok'. holder c (q_now q) tok' w = Some (vt_userId r) \<longrightarrow> holder c t' tok' w' = None)
    \<and> (q_redisUp q \<and> q_redisUp q' \<longrightarrow>
        isRevoked q' (vt_userId r) w1 = (q_now q' < q_now q + c_accessTokenTtlSeconds c * 1000))
    \<and> (\<exists>e. resetPassword c q' tok pw' w' = (Inl (BadRequest e), w'))"
proof (rule consume_cases [of c q tok PASSWORD_RESET w])
  fix r assume cons: "consumeVerificationToken c q tok PASSWORD_RESET w = (Inr r, mark_used q (\<lambda>t. vt_id t = vt_id r) w)"
    and r: "r \<in> set (verificationTokens w)" "vt_tokenHash r = c_hash c tok" "vt_purpose r = PASSWORD_RESET"
  let ?m = "mark_used q (\<lambda>t. vt_id t = vt_id r) w" and ?i = "vt_userId r"
  let ?wp = "updatePasswordHash ?i (q_passwordHash q pw) ?m"
  have w1: "w1 = audit_record q (entry (Some ?i) Auth_password_reset_completed)
      (revokeUser c q ?i (revokeAllForUser q ?i ?wp))"
    using reset by (simp add: resetPassword_def cons Let_def)
  have inv1: "auth_inv c (q_now q) w1"
    using auth_keeps_resetPassword [of c "q_now q" w c q tok pw] inv by (simp add: reset auth_keeps_def)
  have wi: "tokens_ok w" "sessions_ok w" using inv by (simp_all add: auth_inv_def)
  have s1: "sessions w1 = sessions (revokeAllForUser q ?i w)"
    by (simp add: w1 revokeAllForUser_def updatePasswordHash_def)
  obtain u0 where "findById ?i w = Some u0" using token_owner [OF wi(1) r(1)] by blast
  moreover have "findById ?i w1 = findById ?i (updatePasswordHash ?i (q_passwordHash q pw) w)"
    by (rule findById_users_cong) (simp add: w1 updatePasswordHash_def update_user_def)
  ultimately have "map_option u_passwordHash (findById ?i w1) = Some (q_passwordHash q pw)"
    by (simp add: updatePasswordHash_def findById_update_user)
  moreover have "holder c t' tok' w' = None" if h: "holder c (q_now q) tok' w = Some ?i" for tok'
  proof (rule auth.dead_forever [OF inv1 run])
    show "issued_token c tok' w1"
      using store.owner_issued [OF h] store.issued_later [OF _ session_evolves_revokeAllForUser [of w q ?i]]
      by (simp add: issued_token_def s1)
    show "holder c (q_now q) tok' w1 = None"
      using h holder_revokeAllForUser [OF wi(2), of c "q_now q" tok' q ?i] by (simp add: holder_def s1)
  qed
  moreover have "isRevoked q' ?i w1 = (q_now q' < q_now q + c_accessTokenTtlSeconds c * 1000)"
    if "q_redisUp q" "q_redisUp q'"
    using that isRevoked_after_revokeUser [of q q' ?i c "revokeAllForUser q ?i ?wp"]
      isRevoked_redis_cong [of w1 "revokeUser c q ?i (revokeAllForUser q ?i ?wp)" q' ?i]
    by (simp add: w1)
  moreover have "\<exists>e. resetPassword c q' tok pw' w' = (Inl (BadRequest e), w')"
  proof -
    have "use_token q r \<in> set (verificationTokens w1)"
      using r(1) by (auto simp: w1 updatePasswordHash_def set_updateMany rev_image_eqI)
    then obtain e where "consumeVerificationToken c q' tok PASSWORD_RESET w' = (Inl (BadRequest e), w')"
      using auth.used_forever [OF inv1 run, of "use_token q r" tok q' PASSWORD_RESET] r(2) by auto
    then show ?thesis by (simp add: resetPassword_def)
  qed
  ultimately show ?thesis using r by blast
qed (use reset in \<open>simp add: resetPassword_def\<close>)

definition sample_link :: verificationToken where
  "sample_link = \<lparr>vt_id = ''v1'', vt_userId = ''u1'', vt_tokenHash = ''link'', vt_purpose = PASSWORD_RESET,
     vt_expiresAt = 500, vt_usedAt = None\<rparr>"

theorem reset_link_works_once_witness:
  "\<exists>msg w1 e. resetPassword sample_cfg (sample_req 20) ''link'' ''new'' (sample_world\<lparr>verificationTokens := [sample_link]\<rparr>) = (Inr msg, w1)
     \<and> holder sample_cfg 20 ''tok'' w1 = None
     \<and> resetPassword sample_cfg (sample_req 21) ''link'' ''again'' w1 = (Inl (BadRequest e), w1)"
proof -
  let ?w = "sample_world\<lparr>verificationTokens := [sample_link]\<rparr>"
  have "trusted_ok sample_cfg ?w" by (simp add: trusted_ok_def countTrusted_def sample_defs)
  moreover have "int (liveCount 20 i ?w) \<le> sessionCap sample_cfg" for i
    by (simp add: liveCount_def sessionCap_def sample_defs)
  ultimately have inv: "auth_inv sample_cfg (q_now (sample_req 20)) ?w"
    by (simp add: auth_inv_def users_ok_def devices_ok_def sessions_ok_def tokens_ok_def unused_token_def
        unique_on_def sample_link_def sample_defs)
  obtain msg w1 where reset: "resetPassword sample_cfg (sample_req 20) ''link'' ''new'' ?w = (Inr msg, w1)"
    by (simp add: resetPassword_def consumeVerificationToken_def sample_link_def Let_def sample_defs)
  have h: "holder sample_cfg 20 ''tok'' ?w = Some ''u1''"
    by (simp add: holder_def session_live_def sample_defs)
  from reset_link_works_once [OF inv reset runs_refl, of "sample_req 21" "''again''"] h reset
  show ?thesis by (auto simp: sample_link_def sample_req_def)
qed

section \<open>Registration\<close>

text \<open>
  Registration gives exactly what was promised. When \<open>register\<close> succeeds there is one new
  account, with the normalised address, the plain \<open>USER\<close> role and no granted access unless a
  pending admin invite for that address says otherwise, and 100 Lead Finder credits; the two
  consents are stored; every existing account, session and device is unchanged; and no second
  registration with the same address (in any spelling) can succeed in that state.
\<close>

theorem register_creates_account:
  assumes reg: "register c q dto meta w = (Inr msg, w')"
  shows "(\<exists>u. users w' = users w @ [u] \<and> u_email u = normalizeEmail (rg_email dto) \<and> u_status u = ACTIVE
        \<and> u_passwordHash u = q_passwordHash q (rg_password dto) \<and> u_leadFinderCredits u = 100
        \<and> (case findFirst (\<lambda>i. ai_email i = normalizeEmail (rg_email dto) \<and> ai_status i = Invite_PENDING) (adminAccessInvites w) of
             None \<Rightarrow> u_role u = USER \<and> \<not> u_adminGrantedDirectoryAccess u \<and> \<not> u_adminGrantedLeadFinderAccess u
           | Some i \<Rightarrow> u_role u = ai_role i \<and> u_adminGrantedDirectoryAccess u = ai_grantDirectoryAccess i
               \<and> u_adminGrantedLeadFinderAccess u = ai_grantLeadFinderAccess i)
        \<and> map cr_documentType (findMany (\<lambda>r. cr_userId r = u_id u) (consentRecords w')) =
            map cr_documentType (findMany (\<lambda>r. cr_userId r = u_id u) (consentRecords w)) @ [TERMS, PRIVACY])
    \<and> sessions w' = sessions w \<and> devices w' = devices w
    \<and> (\<forall>dto' q' meta'. normalizeEmail (rg_email dto') = normalizeEmail (rg_email dto) \<longrightarrow>
        register c q' dto' meta' w' = (Inl (Conflict Account_with_this_email_already_exists), w'))"
proof -
  let ?inv = "findFirst (\<lambda>i. ai_email i = normalizeEmail (rg_email dto) \<and> ai_status i = Invite_PENDING) (adminAccessInvites w)"
  let ?u = "registered_user q dto ?inv"
  have none: "findByEmail (rg_email dto) w = None"
    using reg by (auto simp: register_def split: option.splits)
  obtain w1 where ins: "insert_user ?u w = Inr w1"
    using reg none by (auto simp: register_def Let_def split: sum.splits)
  have w1: "w1 = w\<lparr>users := users w @ [?u]\<rparr>"
    using ins by (simp add: insert_user_def split: if_splits)
  have f: "users w' = users w @ [?u]" "sessions w' = sessions w" "devices w' = devices w"
    "consentRecords w' = consentRecords w @ [consent_row q (u_id ?u) TERMS TERMS_VERSION (rm_ipAddress meta),
       consent_row q (u_id ?u) PRIVACY PRIVACY_VERSION (rm_ipAddress meta)]"
    using reg ins by (auto simp: register_def none Let_def w1 accept_admin_invite_def split: option.splits)
  have u: "u_email ?u = normalizeEmail (rg_email dto)" "u_status ?u = ACTIVE"
    "u_passwordHash ?u = q_passwordHash q (rg_password dto)" "u_leadFinderCredits ?u = 100"
    by (auto simp: registered_user_def new_user_def Let_def split: option.splits)
  have role: "case ?inv of
      None \<Rightarrow> u_role ?u = USER \<and> \<not> u_adminGrantedDirectoryAccess ?u \<and> \<not> u_adminGrantedLeadFinderAccess ?u
    | Some i \<Rightarrow> u_role ?u = ai_role i \<and> u_adminGrantedDirectoryAccess ?u = ai_grantDirectoryAccess i
        \<and> u_adminGrantedLeadFinderAccess ?u = ai_grantLeadFinderAccess i"
    by (auto simp: registered_user_def new_user_def Let_def split: option.splits)
  have dup: "findByEmail (rg_email dto') w' \<noteq> None"
    if "normalizeEmail (rg_email dto') = normalizeEmail (rg_email dto)" for dto' :: registerDto
    using that by (simp add: findByEmail_def findFirst_None_iff f u)
  have "register c q' dto' meta' w' = (Inl (Conflict Account_with_this_email_already_exists), w')"
    if "normalizeEmail (rg_email dto') = normalizeEmail (rg_email dto)" for dto' q' meta'
    using dup [OF that] by (cases "findByEmail (rg_email dto') w'") (simp_all add: register_def)
  moreover have "map cr_documentType (findMany (\<lambda>r. cr_userId r = u_id ?u) (consentRecords w')) =
      map cr_documentType (findMany (\<lambda>r. cr_userId r = u_id ?u) (consentRecords w)) @ [TERMS, PRIVACY]"
    by (simp add: f findMany_def consent_row_def)
  ultimately show ?thesis using f(1-3) u role by blast
qed

theorem register_creates_account_witness:
  "\<exists>w' u. register sample_cfg (sample_req 20) \<lparr>rg_email = ''  Bob@Example.com'', rg_fullName = ''Bob'', rg_password = ''s3cret'',
       rg_phone = None\<rparr> sample_meta sample_world = (Inr ''Account created. Check your email to verify your address.'', w')
     \<and> users w' = users sample_world @ [u] \<and> u_role u = USER \<and> u_email u = ''bob@example.com''"
proof -
  let ?dto = "\<lparr>rg_email = ''  Bob@Example.com'', rg_fullName = ''Bob'', rg_password = ''s3cret'', rg_phone = None\<rparr>"
  have n: "normalizeEmail ''  Bob@Example.com'' = ''bob@example.com''" by code_simp
  obtain w' where r: "register sample_cfg (sample_req 20) ?dto sample_meta sample_world =
      (Inr ''Account created. Check your email to verify your address.'', w')"
    by (simp add: register_def findByEmail_def n registered_user_def new_user_def insert_user_def Let_def sample_defs)
  have "adminAccessInvites sample_world = []" by (simp add: sample_defs)
  with register_creates_account [OF r] r show ?thesis by (auto simp: n)
qed

end
