(* ===== verification/Access.thy ===== *)
theory Access
  imports AuthProperties
begin

text \<open>
  Who may do what: the pure rules of \<open>subscription-access.util.ts\<close> and the four guards that run
  before a handler: \<open>jwt-auth.guard.ts\<close>, \<open>roles.guard.ts\<close>, \<open>subscription.guard.ts\<close> and
  \<open>directory-access.guard.ts\<close>. A guard returns the error it throws, or lets the request through.
\<close>

section \<open>Subscription access\<close>

text \<open>The rules read two columns, which both subscription tables have.\<close>

definition hasActiveAccess :: "time \<Rightarrow> subscriptionStatus \<Rightarrow> time option \<Rightarrow> int \<Rightarrow> bool" where
  "hasActiveAccess now status pastDueSince gracePeriodDays =
     (if status = Sub_ACTIVE \<or> status = Sub_TRIALING then True
      else if status = Sub_PAST_DUE
      then (case pastDueSince of
              None \<Rightarrow> True
            | Some t \<Rightarrow> now < t + gracePeriodDays * 24 * 60 * 60 * 1000)
      else False)"

definition daysPastDue :: "time \<Rightarrow> time option \<Rightarrow> int option" where
  "daysPastDue now pastDueSince =
     (case pastDueSince of
        None \<Rightarrow> None
      | Some t \<Rightarrow> Some (max 0 ((now - t) div (24 * 60 * 60 * 1000))))"

definition hasDirectoryAccess :: "time \<Rightarrow> subscriptionStatus \<Rightarrow> time option \<Rightarrow> int \<Rightarrow> bool" where
  "hasDirectoryAccess now status pastDueSince gracePeriodDays \<longleftrightarrow>
     hasActiveAccess now status pastDueSince gracePeriodDays \<or> status = Sub_CANCELED"

section \<open>Guards\<close>

definition extractBearerToken :: "string option \<Rightarrow> string option" where
  "extractBearerToken header =
     (case header of
        None \<Rightarrow> None
      | Some h \<Rightarrow> if take 7 h = ''Bearer '' then Some (drop 7 h) else None)"

text \<open>\<open>JwtAuthGuard\<close>: on a public route no user is attached.\<close>

definition jwt_canActivate ::
  "cfg \<Rightarrow> req \<Rightarrow> bool \<Rightarrow> string option \<Rightarrow> world \<Rightarrow> jwtPayload option result" where
  "jwt_canActivate c q isPublic header w =
     (if isPublic then Inr None
      else if \<not> truthy (extractBearerToken header) then Inl (Unauthorized Missing_access_token)
      else (case c_jwtVerify c (q_now q) (the (extractBearerToken header)) of
              None \<Rightarrow> Inl (Unauthorized Invalid_or_expired_access_token)
            | Some (LoginChallengePayload _ _ _ _) \<Rightarrow> Inl (Unauthorized Invalid_token_type)
            | Some (AccessTokenPayload sub email r imp) \<Rightarrow>
                if isRevoked q sub w then Inl (Unauthorized Access_has_been_revoked)
                else Inr (Some (AccessTokenPayload sub email r imp))))"

fun payload_role :: "jwtPayload \<Rightarrow> role option" where
  "payload_role (AccessTokenPayload _ _ r _) = Some r"
| "payload_role (LoginChallengePayload _ _ _ _) = None"

definition roles_canActivate :: "role list \<Rightarrow> jwtPayload option \<Rightarrow> unit result" where
  "roles_canActivate required user =
     (if required = [] then Inr ()
      else (case user of
              None \<Rightarrow> Inl (Unauthorized [])
            | Some p \<Rightarrow>
                if payload_role p \<notin> Some ` set required then Inl (Forbidden Insufficient_permissions)
                else Inr ()))"

definition is_staff :: "role option \<Rightarrow> bool" where
  "is_staff r \<longleftrightarrow> r = Some ADMIN \<or> r = Some SUPER_ADMIN"

definition granted_directory :: "ident \<Rightarrow> world \<Rightarrow> bool" where
  "granted_directory userId w =
     (case findById userId w of None \<Rightarrow> False | Some u \<Rightarrow> u_adminGrantedDirectoryAccess u)"

text \<open>The two subscription guards differ in the statuses they read and in the rule they apply.\<close>

definition subscription_canActivate ::
  "cfg \<Rightarrow> req \<Rightarrow> jwtPayload option \<Rightarrow> world \<Rightarrow> unit result" where
  "subscription_canActivate c q user w =
     (case user of
        None \<Rightarrow> Inl (Unauthorized [])
      | Some p \<Rightarrow>
          if is_staff (payload_role p) then Inr ()
          else if granted_directory (payload_sub p) w then Inr ()
          else (case findFirstDesc sb_createdAt
                   (\<lambda>s. sb_userId s = payload_sub p \<and> sb_status s \<in> set live_statuses) (subscriptions w) of
                  None \<Rightarrow> Inl (Forbidden Active_subscription_required)
                | Some s \<Rightarrow>
                    if \<not> hasActiveAccess (q_now q) (sb_status s) (sb_pastDueSince s) (c_gracePeriodDays c)
                    then Inl (Forbidden Active_subscription_required) else Inr ()))"

definition directory_canActivate ::
  "cfg \<Rightarrow> req \<Rightarrow> jwtPayload option \<Rightarrow> world \<Rightarrow> unit result" where
  "directory_canActivate c q user w =
     (case user of
        None \<Rightarrow> Inl (Unauthorized [])
      | Some p \<Rightarrow>
          if is_staff (payload_role p) then Inr ()
          else if granted_directory (payload_sub p) w then Inr ()
          else (case findFirstDesc sb_createdAt
                   (\<lambda>s. sb_userId s = payload_sub p \<and> sb_status s \<in> set live_statuses \<union> {Sub_CANCELED})
                   (subscriptions w) of
                  None \<Rightarrow> Inl (Forbidden Active_or_previous_subscription_required)
                | Some s \<Rightarrow>
                    if \<not> hasDirectoryAccess (q_now q) (sb_status s) (sb_pastDueSince s) (c_gracePeriodDays c)
                    then Inl (Forbidden Active_or_previous_subscription_required) else Inr ()))"

section \<open>Properties\<close>

lemma day_grace:
  assumes "0 < g"
  shows "now < t + g * 24 * 60 * 60 * 1000 \<longleftrightarrow> max 0 ((now - t) div (24 * 60 * 60 * 1000)) < (g::int)"
proof -
  have "now < t + g * 24 * 60 * 60 * 1000 \<longleftrightarrow> now - t < g * 86400000" by auto
  also have "\<dots> \<longleftrightarrow> (now - t) div 86400000 < g" by (auto simp: div_less_iff_less_mult)
  finally show ?thesis using assms by auto
qed

text \<open>
  The access decision and the number of days shown to the customer agree. A past-due
  subscription with a recorded start gives access exactly while \<open>daysPastDue\<close> is smaller than
  the grace period; active and trialing ones always do; cancelled and expired ones never do,
  and the directory is kept exactly by those or by a cancelled one.
\<close>

theorem access_matches_days_past_due:
  assumes "0 < g"
  shows "(hasActiveAccess now st since g \<longleftrightarrow>
      st \<in> {Sub_ACTIVE, Sub_TRIALING}
      \<or> (st = Sub_PAST_DUE \<and> (case daysPastDue now since of None \<Rightarrow> True | Some d \<Rightarrow> d < g)))
    \<and> (hasDirectoryAccess now st since g \<longleftrightarrow> st = Sub_CANCELED \<or> hasActiveAccess now st since g)"
  using day_grace [OF assms]
  by (cases st) (auto simp: hasActiveAccess_def hasDirectoryAccess_def daysPastDue_def split: option.splits)

theorem access_matches_days_past_due_witness:
  "hasActiveAccess 604799999 Sub_PAST_DUE (Some 0) 7 \<and> \<not> hasActiveAccess 604800000 Sub_PAST_DUE (Some 0) 7
   \<and> daysPastDue 604800000 (Some 0) = Some 7"
  using access_matches_days_past_due [of 7 604799999 Sub_PAST_DUE "Some 0"]
    access_matches_days_past_due [of 7 604800000 Sub_PAST_DUE "Some 0"]
  by (simp add: daysPastDue_def)

text \<open>
  C33: only an access token authenticates. Whenever \<open>JwtAuthGuard\<close> attaches a user to a request, the
  bearer token verifies at that instant as an access token of that user, and the user is not on
  the revocation list; a login challenge is never accepted, however it was signed.
\<close>

theorem jwt_guard_sound:
  assumes "jwt_canActivate c q isPublic header w = Inr (Some p)"
  shows "\<not> isPublic \<and> (\<exists>tok sub email r imp. header = Some (''Bearer '' @ tok) \<and> tok \<noteq> []
    \<and> c_jwtVerify c (q_now q) tok = Some p \<and> p = AccessTokenPayload sub email r imp
    \<and> \<not> isRevoked q sub w)"
proof -
  from assms have pub: "\<not> isPublic" by (auto simp: jwt_canActivate_def split: if_splits)
  from assms pub obtain tok where tok: "extractBearerToken header = Some tok" "tok \<noteq> []"
    by (auto simp: jwt_canActivate_def split: if_splits elim: truthyE)
  then obtain h where h: "header = Some h" "take 7 h = ''Bearer ''" "drop 7 h = tok"
    by (auto simp: extractBearerToken_def split: option.splits if_splits)
  then have "header = Some (''Bearer '' @ tok)" by (metis append_take_drop_id)
  moreover from assms pub tok have "\<exists>sub email r imp. c_jwtVerify c (q_now q) tok = Some p
      \<and> p = AccessTokenPayload sub email r imp \<and> \<not> isRevoked q sub w"
    by (auto simp: jwt_canActivate_def split: option.splits jwtPayload.splits if_splits)
  ultimately show ?thesis using pub tok by auto
qed

theorem jwt_guard_sound_witness:
  "jwt_canActivate sample_cfg (sample_req 0) False (Some ''Bearer access'') sample_world =
     Inr (Some (AccessTokenPayload ''u1'' ''ann@example.com'' USER None))
   \<and> \<not> isRevoked (sample_req 0) ''u1'' sample_world"
proof -
  have g: "jwt_canActivate sample_cfg (sample_req 0) False (Some ''Bearer access'') sample_world =
     Inr (Some (AccessTokenPayload ''u1'' ''ann@example.com'' USER None))"
    by (simp add: jwt_canActivate_def extractBearerToken_def isRevoked_def redis_get_def sample_defs)
  with jwt_guard_sound [OF g] show ?thesis by auto
qed

lemma redis_issueTokenPair [simp]: "redis (snd (issueTokenPair c q i d meta n w)) = redis w"
proof (cases "findById i w")
  case (Some u)
  let ?in = "login_session_input c u d meta (login_risk c q u meta n w)"
  show ?thesis
    using create_session_frame(5) [of c q ?in "enforceLimit c q (u_id u) w"]
    by (cases "create_session c q ?in (enforceLimit c q (u_id u) w)")
      (auto simp: issueTokenPair_def Some Let_def updateLastLogin_def split: sum.splits)
qed (simp add: issueTokenPair_def)

lemma redis_login [simp]: "redis (snd (login c q email pw meta w)) = redis w"
proof (cases "findByEmail email w")
  case (Some u)
  let ?fd = "findOrCreateDevice q (u_id u) (hashDeviceId c (rm_rawDeviceId meta))
      (describeUserAgent c (rm_userAgent meta)) (resetFailedLogins (u_id u) w)"
  have "redis (snd ?fd) = redis w" by (simp add: resetFailedLogins_def)
  then show ?thesis
    by (cases ?fd) (auto simp: login_def Some Let_def login_failed_def new_device_challenge_def
        case_prod_beta snd_result_map split: sum.splits)
qed (simp add: login_def)

text \<open>
  Logging out everywhere also locks the owner out. \<open>revokeUser\<close> marks the user, not the tokens:
  for the lifetime of an access token after \<open>logoutAll\<close>, every access token of that user is
  rejected, including one obtained by a fresh login with the right password after the logout.
\<close>

theorem relogin_rejected_after_logout_all:
  assumes up: "q_redisUp q1" "q_redisUp q3"
    and out: "w1 = logoutAll c q1 i w"
    and relogin: "login c q2 email pw meta w1 = (Inr (LoggedIn tp), w2)"
    and tok: "c_jwtVerify c (q_now q3) (tp_accessToken tp) = Some (AccessTokenPayload i em r imp)"
    and nonempty: "tp_accessToken tp \<noteq> []"
    and soon: "q_now q3 < q_now q1 + c_accessTokenTtlSeconds c * 1000"
  shows "jwt_canActivate c q3 False (Some (''Bearer '' @ tp_accessToken tp)) w2 =
      Inl (Unauthorized Access_has_been_revoked)"
proof -
  have "redis w2 = redis w1" using redis_login [of c q2 email pw meta w1] by (simp add: relogin)
  moreover have "redis w1 = redis (revokeUser c q1 i (revokeAllForUser q1 i w))"
    by (simp add: out logoutAll_def)
  ultimately have "isRevoked q3 i w2"
    using isRevoked_after_revokeUser [OF up, of i c "revokeAllForUser q1 i w"] soon
      isRevoked_redis_cong [of w2 "revokeUser c q1 i (revokeAllForUser q1 i w)" q3 i]
    by simp
  then show ?thesis using tok nonempty by (simp add: jwt_canActivate_def extractBearerToken_def)
qed

theorem relogin_rejected_after_logout_all_witness:
  "\<exists>tp w2. login sample_cfg (sample_req 20) ''ann@example.com'' ''pw'' sample_meta
       (logoutAll sample_cfg (sample_req 10) ''u1'' sample_world) = (Inr (LoggedIn tp), w2)
     \<and> jwt_canActivate sample_cfg (sample_req 30) False (Some (''Bearer '' @ tp_accessToken tp)) w2 =
         Inl (Unauthorized Access_has_been_revoked)"
proof -
  let ?w1 = "logoutAll sample_cfg (sample_req 10) ''u1'' sample_world"
  have "users ?w1 = [sample_user]" "devices ?w1 = [sample_device]"
    by (simp_all add: logoutAll_def sample_world_def)
  moreover have "fresh_session sample_cfg (sample_req 20) ?w1"
    using sample_fresh by (simp add: fresh_session_def logoutAll_def revokeAllForUser_def image_updateMany)
  ultimately obtain tp where tp: "fst (login sample_cfg (sample_req 20) ''ann@example.com'' ''pw'' sample_meta ?w1) = Inr (LoggedIn tp)"
    "tp_accessToken tp = ''access''" using sample_login by blast
  then obtain w2 where l: "login sample_cfg (sample_req 20) ''ann@example.com'' ''pw'' sample_meta ?w1 = (Inr (LoggedIn tp), w2)"
    by (metis prod.collapse)
  have "jwt_canActivate sample_cfg (sample_req 30) False (Some (''Bearer '' @ tp_accessToken tp)) w2 =
      Inl (Unauthorized Access_has_been_revoked)"
    by (rule relogin_rejected_after_logout_all [OF _ _ refl l]) (simp_all add: tp(2) sample_defs)
  with l show ?thesis by blast
qed

end
