(* ===== verification/Taxonomy.thy ===== *)
theory Taxonomy
  imports Prelude
begin

text \<open>
  \<open>apollo-taxonomy.ts\<close>: the reference values of the search filters, as the data the code holds.
  \<open>mapsTo\<close> of an item is absent (\<open>None\<close>) when the item inherits its section's value.
\<close>

definition VERIFIED_PERSON_FUNCTIONS :: "string list" where
  "VERIFIED_PERSON_FUNCTIONS = [''product_management'', ''data_science'', ''accounting'', ''finance'', ''human_resources'', ''information_technology'', ''legal'', ''marketing'', ''operations'', ''business_development'', ''sales'']"

definition PERSON_SENIORITIES :: "string list" where
  "PERSON_SENIORITIES = [''owner'', ''founder'', ''c_suite'', ''partner'', ''vp'', ''head'', ''director'', ''manager'', ''senior'', ''entry'', ''intern'']"

definition isVerifiedPersonFunction :: "string \<Rightarrow> bool" where
  "isVerifiedPersonFunction v \<longleftrightarrow> v \<in> set VERIFIED_PERSON_FUNCTIONS"

definition isPersonSeniority :: "string \<Rightarrow> bool" where
  "isPersonSeniority v \<longleftrightarrow> v \<in> set PERSON_SENIORITIES"

definition COMPANY_SIZE_RANGES :: "(string \<times> string) list" where
  "COMPANY_SIZE_RANGES = [
     (''1-10'', ''1,10''),
     (''11-20'', ''11,20''),
     (''21-50'', ''21,50''),
     (''51-100'', ''51,100''),
     (''101-200'', ''101,200''),
     (''201-500'', ''201,500''),
     (''501-1000'', ''501,1000''),
     (''1001-2000'', ''1001,2000''),
     (''2001-5000'', ''2001,5000''),
     (''5001-10000'', ''5001,10000''),
     (''10001-20000'', ''10001,20000''),
     (''20001-50000'', ''20001,50000''),
     (''50000+'', ''50001,100000000'')]"

definition REVENUE_BUCKETS :: "(string \<times> int) list" where
  "REVENUE_BUCKETS = [
     (''$100K'', 100000),
     (''$500K'', 500000),
     (''$1M'', 1000000),
     (''$5M'', 5000000),
     (''$10M'', 10000000),
     (''$25M'', 25000000),
     (''$50M'', 50000000),
     (''$100M'', 100000000),
     (''$500M'', 500000000),
     (''$1B'', 1000000000)]"

record departmentItem =
  di_label :: string
  di_mapsTo :: "string option"

record departmentSection =
  ds_section :: string
  ds_mapsTo :: "string option"
  ds_items :: "departmentItem list"

definition section_executive :: departmentSection where
  "section_executive = \<lparr>ds_section = ''Executive'', ds_mapsTo = None, ds_items = [
     \<lparr>di_label = ''C-Suite'', di_mapsTo = None\<rparr>,
     \<lparr>di_label = ''Executive'', di_mapsTo = None\<rparr>,
     \<lparr>di_label = ''Finance Executive'', di_mapsTo = Some ''finance''\<rparr>,
     \<lparr>di_label = ''Founder'', di_mapsTo = None\<rparr>,
     \<lparr>di_label = ''Human Resources Executive'', di_mapsTo = Some ''human_resources''\<rparr>,
     \<lparr>di_label = ''Information Technology Executive'', di_mapsTo = Some ''information_technology''\<rparr>,
     \<lparr>di_label = ''Legal Executive'', di_mapsTo = Some ''legal''\<rparr>,
     \<lparr>di_label = ''Marketing Executive'', di_mapsTo = Some ''marketing''\<rparr>,
     \<lparr>di_label = ''Medical & Health Executive'', di_mapsTo = None\<rparr>,
     \<lparr>di_label = ''Operations Executive'', di_mapsTo = Some ''operations''\<rparr>,
     \<lparr>di_label = ''Sales Leader'', di_mapsTo = Some ''sales''\<rparr>]\<rparr>"

definition section_product :: departmentSection where
  "section_product = \<lparr>ds_section = ''Product'', ds_mapsTo = Some ''product_management'', ds_items = [
     \<lparr>di_label = ''Product'', di_mapsTo = None\<rparr>,
     \<lparr>di_label = ''Product Development'', di_mapsTo = None\<rparr>,
     \<lparr>di_label = ''Product Management'', di_mapsTo = None\<rparr>]\<rparr>"

definition section_engineering_technical :: departmentSection where
  "section_engineering_technical = \<lparr>ds_section = ''Engineering & Technical'', ds_mapsTo = Some ''information_technology'', ds_items = [
     \<lparr>di_label = ''Artificial Intelligence / Machine Learning'', di_mapsTo = None\<rparr>,
     \<lparr>di_label = ''Bioengineering'', di_mapsTo = None\<rparr>,
     \<lparr>di_label = ''Biometrics'', di_mapsTo = None\<rparr>,
     \<lparr>di_label = ''Business Intelligence'', di_mapsTo = None\<rparr>,
     \<lparr>di_label = ''Chemical Engineering'', di_mapsTo = None\<rparr>,
     \<lparr>di_label = ''Cloud / Mobility'', di_mapsTo = None\<rparr>,
     \<lparr>di_label = ''Data Science'', di_mapsTo = Some ''data_science''\<rparr>,
     \<lparr>di_label = ''DevOps'', di_mapsTo = None\<rparr>,
     \<lparr>di_label = ''Digital Transformation'', di_mapsTo = None\<rparr>,
     \<lparr>di_label = ''Emerging Technology / Innovation'', di_mapsTo = None\<rparr>,
     \<lparr>di_label = ''Industrial Engineering'', di_mapsTo = None\<rparr>,
     \<lparr>di_label = ''Mechanic'', di_mapsTo = None\<rparr>,
     \<lparr>di_label = ''Mobile Development'', di_mapsTo = None\<rparr>,
     \<lparr>di_label = ''Project Management'', di_mapsTo = None\<rparr>,
     \<lparr>di_label = ''Research & Development'', di_mapsTo = None\<rparr>,
     \<lparr>di_label = ''Scrum Master / Agile Coach'', di_mapsTo = None\<rparr>,
     \<lparr>di_label = ''Software Development'', di_mapsTo = None\<rparr>,
     \<lparr>di_label = ''Support / Technical Services'', di_mapsTo = None\<rparr>,
     \<lparr>di_label = ''Technician'', di_mapsTo = None\<rparr>,
     \<lparr>di_label = ''Technology Operations'', di_mapsTo = None\<rparr>,
     \<lparr>di_label = ''Test / Quality Assurance'', di_mapsTo = None\<rparr>,
     \<lparr>di_label = ''UI / UX'', di_mapsTo = None\<rparr>,
     \<lparr>di_label = ''Web Development'', di_mapsTo = None\<rparr>]\<rparr>"

definition section_design :: departmentSection where
  "section_design = \<lparr>ds_section = ''Design'', ds_mapsTo = None, ds_items = [
     \<lparr>di_label = ''All Design'', di_mapsTo = None\<rparr>,
     \<lparr>di_label = ''Product or UI/UX Design'', di_mapsTo = None\<rparr>,
     \<lparr>di_label = ''Graphic / Visual / Brand Design'', di_mapsTo = None\<rparr>]\<rparr>"

definition section_education :: departmentSection where
  "section_education = \<lparr>ds_section = ''Education'', ds_mapsTo = None, ds_items = [
     \<lparr>di_label = ''Teacher'', di_mapsTo = None\<rparr>,
     \<lparr>di_label = ''Principal'', di_mapsTo = None\<rparr>,
     \<lparr>di_label = ''Superintendent'', di_mapsTo = None\<rparr>,
     \<lparr>di_label = ''Professor'', di_mapsTo = None\<rparr>]\<rparr>"

definition section_finance :: departmentSection where
  "section_finance = \<lparr>ds_section = ''Finance'', ds_mapsTo = Some ''finance'', ds_items = [
     \<lparr>di_label = ''Accounting'', di_mapsTo = Some ''accounting''\<rparr>,
     \<lparr>di_label = ''Finance'', di_mapsTo = None\<rparr>,
     \<lparr>di_label = ''Financial Planning & Analysis'', di_mapsTo = None\<rparr>,
     \<lparr>di_label = ''Financial Reporting'', di_mapsTo = None\<rparr>,
     \<lparr>di_label = ''Financial Strategy'', di_mapsTo = None\<rparr>,
     \<lparr>di_label = ''Financial Systems'', di_mapsTo = None\<rparr>,
     \<lparr>di_label = ''Internal Audit & Control'', di_mapsTo = None\<rparr>,
     \<lparr>di_label = ''Investor Relations'', di_mapsTo = None\<rparr>,
     \<lparr>di_label = ''Mergers & Acquisitions'', di_mapsTo = None\<rparr>,
     \<lparr>di_label = ''Real Estate Finance'', di_mapsTo = None\<rparr>,
     \<lparr>di_label = ''Financial Risk'', di_mapsTo = None\<rparr>,
     \<lparr>di_label = ''Shared Services'', di_mapsTo = None\<rparr>,
     \<lparr>di_label = ''Sourcing / Procurement'', di_mapsTo = None\<rparr>,
     \<lparr>di_label = ''Tax'', di_mapsTo = None\<rparr>,
     \<lparr>di_label = ''Treasury'', di_mapsTo = None\<rparr>]\<rparr>"

definition section_human_resources :: departmentSection where
  "section_human_resources = \<lparr>ds_section = ''Human Resources'', ds_mapsTo = Some ''human_resources'', ds_items = [
     \<lparr>di_label = ''Compensation & Benefits'', di_mapsTo = None\<rparr>,
     \<lparr>di_label = ''Culture, Diversity & Inclusion'', di_mapsTo = None\<rparr>,
     \<lparr>di_label = ''Employee & Labor Relations'', di_mapsTo = None\<rparr>,
     \<lparr>di_label = ''Health & Safety'', di_mapsTo = None\<rparr>,
     \<lparr>di_label = ''Human Resource Information System'', di_mapsTo = None\<rparr>,
     \<lparr>di_label = ''Human Resources'', di_mapsTo = None\<rparr>,
     \<lparr>di_label = ''HR Business Partner'', di_mapsTo = None\<rparr>,
     \<lparr>di_label = ''Learning & Development'', di_mapsTo = None\<rparr>,
     \<lparr>di_label = ''Organizational Development'', di_mapsTo = None\<rparr>,
     \<lparr>di_label = ''Recruiting & Talent Acquisition'', di_mapsTo = None\<rparr>,
     \<lparr>di_label = ''Talent Management'', di_mapsTo = None\<rparr>,
     \<lparr>di_label = ''Workforce Management'', di_mapsTo = None\<rparr>,
     \<lparr>di_label = ''People Operations'', di_mapsTo = None\<rparr>]\<rparr>"

definition section_information_technology :: departmentSection where
  "section_information_technology = \<lparr>ds_section = ''Information Technology'', ds_mapsTo = Some ''information_technology'', ds_items = [
     \<lparr>di_label = ''Application Development'', di_mapsTo = None\<rparr>,
     \<lparr>di_label = ''Business Service Management / ITSM'', di_mapsTo = None\<rparr>,
     \<lparr>di_label = ''Collaboration & Web App'', di_mapsTo = None\<rparr>,
     \<lparr>di_label = ''Data Center'', di_mapsTo = None\<rparr>,
     \<lparr>di_label = ''Data Warehouse'', di_mapsTo = None\<rparr>,
     \<lparr>di_label = ''Database Administration'', di_mapsTo = None\<rparr>,
     \<lparr>di_label = ''eCommerce Development'', di_mapsTo = None\<rparr>,
     \<lparr>di_label = ''Enterprise Architecture'', di_mapsTo = None\<rparr>,
     \<lparr>di_label = ''Help Desk / Desktop Services'', di_mapsTo = None\<rparr>,
     \<lparr>di_label = ''HR / Financial / ERP Systems'', di_mapsTo = None\<rparr>,
     \<lparr>di_label = ''Information Security'', di_mapsTo = None\<rparr>,
     \<lparr>di_label = ''Information Technology'', di_mapsTo = None\<rparr>,
     \<lparr>di_label = ''Infrastructure'', di_mapsTo = None\<rparr>,
     \<lparr>di_label = ''IT Asset Management'', di_mapsTo = None\<rparr>,
     \<lparr>di_label = ''IT Audit / IT Compliance'', di_mapsTo = None\<rparr>,
     \<lparr>di_label = ''IT Operations'', di_mapsTo = None\<rparr>,
     \<lparr>di_label = ''IT Procurement'', di_mapsTo = None\<rparr>,
     \<lparr>di_label = ''IT Strategy'', di_mapsTo = None\<rparr>,
     \<lparr>di_label = ''IT Training'', di_mapsTo = None\<rparr>,
     \<lparr>di_label = ''Networking'', di_mapsTo = None\<rparr>,
     \<lparr>di_label = ''Project & Program Management'', di_mapsTo = None\<rparr>,
     \<lparr>di_label = ''Quality Assurance'', di_mapsTo = None\<rparr>,
     \<lparr>di_label = ''Retail / Store Systems'', di_mapsTo = None\<rparr>,
     \<lparr>di_label = ''Servers'', di_mapsTo = None\<rparr>,
     \<lparr>di_label = ''Storage & Disaster Recovery'', di_mapsTo = None\<rparr>,
     \<lparr>di_label = ''Telecommunications'', di_mapsTo = None\<rparr>,
     \<lparr>di_label = ''Virtualization'', di_mapsTo = None\<rparr>]\<rparr>"

definition section_legal :: departmentSection where
  "section_legal = \<lparr>ds_section = ''Legal'', ds_mapsTo = Some ''legal'', ds_items = [
     \<lparr>di_label = ''Acquisitions'', di_mapsTo = None\<rparr>,
     \<lparr>di_label = ''Compliance'', di_mapsTo = None\<rparr>,
     \<lparr>di_label = ''Contracts'', di_mapsTo = None\<rparr>,
     \<lparr>di_label = ''Corporate Secretary'', di_mapsTo = None\<rparr>,
     \<lparr>di_label = ''eDiscovery'', di_mapsTo = None\<rparr>,
     \<lparr>di_label = ''Ethics'', di_mapsTo = None\<rparr>,
     \<lparr>di_label = ''Governance'', di_mapsTo = None\<rparr>,
     \<lparr>di_label = ''Governmental Affairs & Regulatory Law'', di_mapsTo = None\<rparr>,
     \<lparr>di_label = ''Intellectual Property & Patent'', di_mapsTo = None\<rparr>,
     \<lparr>di_label = ''Labor & Employment'', di_mapsTo = None\<rparr>,
     \<lparr>di_label = ''Lawyer / Attorney'', di_mapsTo = None\<rparr>,
     \<lparr>di_label = ''Legal'', di_mapsTo = None\<rparr>,
     \<lparr>di_label = ''Legal Counsel'', di_mapsTo = None\<rparr>,
     \<lparr>di_label = ''Legal Operations'', di_mapsTo = None\<rparr>,
     \<lparr>di_label = ''Litigation'', di_mapsTo = None\<rparr>,
     \<lparr>di_label = ''Privacy'', di_mapsTo = None\<rparr>]\<rparr>"

definition section_marketing :: departmentSection where
  "section_marketing = \<lparr>ds_section = ''Marketing'', ds_mapsTo = Some ''marketing'', ds_items = [
     \<lparr>di_label = ''Advertising'', di_mapsTo = None\<rparr>,
     \<lparr>di_label = ''Brand Management'', di_mapsTo = None\<rparr>,
     \<lparr>di_label = ''Content Marketing'', di_mapsTo = None\<rparr>,
     \<lparr>di_label = ''Customer Experience'', di_mapsTo = None\<rparr>,
     \<lparr>di_label = ''Customer Marketing'', di_mapsTo = None\<rparr>,
     \<lparr>di_label = ''Demand Generation'', di_mapsTo = None\<rparr>,
     \<lparr>di_label = ''Digital Marketing'', di_mapsTo = None\<rparr>,
     \<lparr>di_label = ''eCommerce Marketing'', di_mapsTo = None\<rparr>,
     \<lparr>di_label = ''Event Marketing'', di_mapsTo = None\<rparr>,
     \<lparr>di_label = ''Field Marketing'', di_mapsTo = None\<rparr>,
     \<lparr>di_label = ''Lead Generation'', di_mapsTo = None\<rparr>,
     \<lparr>di_label = ''Marketing'', di_mapsTo = None\<rparr>,
     \<lparr>di_label = ''Marketing Analytics / Insights'', di_mapsTo = None\<rparr>,
     \<lparr>di_label = ''Marketing Communications'', di_mapsTo = None\<rparr>,
     \<lparr>di_label = ''Marketing Operations'', di_mapsTo = None\<rparr>,
     \<lparr>di_label = ''Product Marketing'', di_mapsTo = None\<rparr>,
     \<lparr>di_label = ''Public Relations'', di_mapsTo = None\<rparr>,
     \<lparr>di_label = ''Search Engine Optimization / Pay Per Click'', di_mapsTo = None\<rparr>,
     \<lparr>di_label = ''Social Media Marketing'', di_mapsTo = None\<rparr>,
     \<lparr>di_label = ''Strategic Communications'', di_mapsTo = None\<rparr>,
     \<lparr>di_label = ''Technical Marketing'', di_mapsTo = None\<rparr>]\<rparr>"

definition section_medical_health :: departmentSection where
  "section_medical_health = \<lparr>ds_section = ''Medical & Health'', ds_mapsTo = None, ds_items = [
     \<lparr>di_label = ''Anesthesiology'', di_mapsTo = None\<rparr>,
     \<lparr>di_label = ''Chiropractics'', di_mapsTo = None\<rparr>,
     \<lparr>di_label = ''Clinical Systems'', di_mapsTo = None\<rparr>,
     \<lparr>di_label = ''Dentistry'', di_mapsTo = None\<rparr>,
     \<lparr>di_label = ''Dermatology'', di_mapsTo = None\<rparr>,
     \<lparr>di_label = ''Doctors / Physicians'', di_mapsTo = None\<rparr>,
     \<lparr>di_label = ''Epidemiology'', di_mapsTo = None\<rparr>,
     \<lparr>di_label = ''First Responder'', di_mapsTo = None\<rparr>,
     \<lparr>di_label = ''Infectious Disease'', di_mapsTo = None\<rparr>,
     \<lparr>di_label = ''Medical Administration'', di_mapsTo = None\<rparr>,
     \<lparr>di_label = ''Medical Education & Training'', di_mapsTo = None\<rparr>,
     \<lparr>di_label = ''Medical Research'', di_mapsTo = None\<rparr>,
     \<lparr>di_label = ''Medicine'', di_mapsTo = None\<rparr>,
     \<lparr>di_label = ''Neurology'', di_mapsTo = None\<rparr>,
     \<lparr>di_label = ''Nursing'', di_mapsTo = None\<rparr>,
     \<lparr>di_label = ''Nutrition & Dietetics'', di_mapsTo = None\<rparr>,
     \<lparr>di_label = ''Obstetrics / Gynecology'', di_mapsTo = None\<rparr>,
     \<lparr>di_label = ''Oncology'', di_mapsTo = None\<rparr>,
     \<lparr>di_label = ''Opthalmology'', di_mapsTo = None\<rparr>,
     \<lparr>di_label = ''Optometry'', di_mapsTo = None\<rparr>,
     \<lparr>di_label = ''Orthopedics'', di_mapsTo = None\<rparr>,
     \<lparr>di_label = ''Pathology'', di_mapsTo = None\<rparr>,
     \<lparr>di_label = ''Pediatrics'', di_mapsTo = None\<rparr>,
     \<lparr>di_label = ''Pharmacy'', di_mapsTo = None\<rparr>,
     \<lparr>di_label = ''Physical Therapy'', di_mapsTo = None\<rparr>,
     \<lparr>di_label = ''Psychiatry'', di_mapsTo = None\<rparr>,
     \<lparr>di_label = ''Psychology'', di_mapsTo = None\<rparr>,
     \<lparr>di_label = ''Public Health'', di_mapsTo = None\<rparr>,
     \<lparr>di_label = ''Radiology'', di_mapsTo = None\<rparr>,
     \<lparr>di_label = ''Social Work'', di_mapsTo = None\<rparr>]\<rparr>"

definition section_operations :: departmentSection where
  "section_operations = \<lparr>ds_section = ''Operations'', ds_mapsTo = Some ''operations'', ds_items = [
     \<lparr>di_label = ''Call Center'', di_mapsTo = None\<rparr>,
     \<lparr>di_label = ''Construction'', di_mapsTo = None\<rparr>,
     \<lparr>di_label = ''Corporate Strategy'', di_mapsTo = None\<rparr>,
     \<lparr>di_label = ''Customer Service / Support'', di_mapsTo = None\<rparr>,
     \<lparr>di_label = ''Enterprise Resource Planning'', di_mapsTo = None\<rparr>,
     \<lparr>di_label = ''Facilities Management'', di_mapsTo = None\<rparr>,
     \<lparr>di_label = ''Leasing'', di_mapsTo = None\<rparr>,
     \<lparr>di_label = ''Logistics'', di_mapsTo = None\<rparr>,
     \<lparr>di_label = ''Office Operations'', di_mapsTo = None\<rparr>,
     \<lparr>di_label = ''Operations'', di_mapsTo = None\<rparr>,
     \<lparr>di_label = ''Physical Security'', di_mapsTo = None\<rparr>,
     \<lparr>di_label = ''Project Development'', di_mapsTo = None\<rparr>,
     \<lparr>di_label = ''Quality Management'', di_mapsTo = None\<rparr>,
     \<lparr>di_label = ''Real Estate'', di_mapsTo = None\<rparr>,
     \<lparr>di_label = ''Safety'', di_mapsTo = None\<rparr>,
     \<lparr>di_label = ''Store Operations'', di_mapsTo = None\<rparr>,
     \<lparr>di_label = ''Supply Chain'', di_mapsTo = None\<rparr>]\<rparr>"

definition section_sales :: departmentSection where
  "section_sales = \<lparr>ds_section = ''Sales'', ds_mapsTo = Some ''sales'', ds_items = [
     \<lparr>di_label = ''Account Management'', di_mapsTo = None\<rparr>,
     \<lparr>di_label = ''Business Development'', di_mapsTo = Some ''business_development''\<rparr>,
     \<lparr>di_label = ''Channel Sales'', di_mapsTo = None\<rparr>,
     \<lparr>di_label = ''Customer Retention & Development'', di_mapsTo = None\<rparr>,
     \<lparr>di_label = ''Customer Success'', di_mapsTo = None\<rparr>,
     \<lparr>di_label = ''Field / Outside Sales'', di_mapsTo = None\<rparr>,
     \<lparr>di_label = ''Inside Sales'', di_mapsTo = None\<rparr>,
     \<lparr>di_label = ''Partnerships'', di_mapsTo = None\<rparr>,
     \<lparr>di_label = ''Revenue Operations'', di_mapsTo = None\<rparr>,
     \<lparr>di_label = ''Sales'', di_mapsTo = None\<rparr>,
     \<lparr>di_label = ''Sales Enablement'', di_mapsTo = None\<rparr>,
     \<lparr>di_label = ''Sales Engineering'', di_mapsTo = None\<rparr>,
     \<lparr>di_label = ''Sales Operations'', di_mapsTo = None\<rparr>,
     \<lparr>di_label = ''Sales Training'', di_mapsTo = None\<rparr>]\<rparr>"

definition section_consulting :: departmentSection where
  "section_consulting = \<lparr>ds_section = ''Consulting'', ds_mapsTo = None, ds_items = [
     \<lparr>di_label = ''Consultant'', di_mapsTo = None\<rparr>]\<rparr>"

definition DEPARTMENT_TAXONOMY :: "departmentSection list" where
  "DEPARTMENT_TAXONOMY = [section_executive,
     section_product,
     section_engineering_technical,
     section_design,
     section_education,
     section_finance,
     section_human_resources,
     section_information_technology,
     section_legal,
     section_marketing,
     section_medical_health,
     section_operations,
     section_sales,
     section_consulting]"

lemmas taxonomy_defs = VERIFIED_PERSON_FUNCTIONS_def DEPARTMENT_TAXONOMY_def
  section_executive_def
  section_product_def
  section_engineering_technical_def
  section_design_def
  section_education_def
  section_finance_def
  section_human_resources_def
  section_information_technology_def
  section_legal_def
  section_marketing_def
  section_medical_health_def
  section_operations_def
  section_sales_def
  section_consulting_def

end
