(* ===== verification/Apollo.thy ===== *)
theory Apollo
  imports Infra Taxonomy
begin

text \<open>
  The two upstream services of the Lead Finder: \<open>claude.service.ts\<close>, which turns a question into
  search filters, and \<open>apollo.service.ts\<close>, which searches and enriches people. The HTTP request
  and the language model are parameters; what the code sends and what it makes of an answer is
  modelled. The fields \<open>keywords\<close> and \<open>personLocations\<close> of the filters are never set by any
  caller and are left out.
\<close>

section \<open>Apollo\<close>

record apolloCandidate =
  ca_apolloPersonId :: string
  ca_name :: string
  ca_title :: "string option"
  ca_company :: "string option"

record apolloEnrichedPerson =
  en_name :: "string option"
  en_title :: "string option"
  en_company :: "string option"
  en_linkedin :: "string option"
  en_email :: "string option"

record apolloSearchPerson =
  sp_id :: string
  sp_first_name :: "string option"
  sp_last_name_obfuscated :: "string option"
  sp_title :: "string option"
  sp_organizationName :: "string option"

record apolloMatchPerson =
  mp_name :: "string option"
  mp_title :: "string option"
  mp_organizationName :: "string option"
  mp_organization_name :: "string option"
  mp_linkedin_url :: "string option"
  mp_email :: "string option"

text \<open>What \<open>fetch\<close> can come back with: a rejection, an error status, an unreadable body, a body.\<close>

datatype 'a fetchReply = FetchRejected | NotOk int | MalformedBody | Reply 'a

record apolloApi =
  ap_search :: "json \<Rightarrow> apolloSearchPerson list option fetchReply"
  ap_match :: "json \<Rightarrow> apolloMatchPerson option fetchReply"

definition json_strings :: "string list \<Rightarrow> json" where
  "json_strings xs = JArr (map JStr xs)"

definition list_field :: "string \<Rightarrow> string list option \<Rightarrow> (string \<times> json) list" where
  "list_field key v = (case v of None \<Rightarrow> [] | Some xs \<Rightarrow> if xs = [] then [] else [(key, json_strings xs)])"

definition int_field :: "string \<Rightarrow> int option \<Rightarrow> (string \<times> json) list" where
  "int_field key v = (case v of None \<Rightarrow> [] | Some n \<Rightarrow> [(key, JInt n)])"

definition search_body :: "apolloFilters \<Rightarrow> int \<Rightarrow> json" where
  "search_body f perPage = JObj
     ([(''page'', JInt 1), (''per_page'', JInt (min perPage 100))]
      @ (case af_personTitles f of None \<Rightarrow> []
         | Some ts \<Rightarrow> if ts = [] then [] else [(''person_titles'', json_strings ts), (''include_similar_titles'', JBool True)])
      @ list_field ''q_organization_keyword_tags'' (Some (af_organizationKeywordTags f))
      @ list_field ''q_not_organization_keyword_tags'' (af_excludeOrganizationKeywordTags f)
      @ list_field ''person_seniorities'' (af_personSeniorities f)
      @ list_field ''person_functions'' (af_personFunctions f)
      @ list_field ''organization_locations'' (af_organizationLocations f)
      @ list_field ''organization_num_employees_ranges'' (af_organizationNumEmployeesRanges f)
      @ (if af_revenueMin f \<noteq> None \<or> af_revenueMax f \<noteq> None
         then [(''revenue_range'', JObj (int_field ''min'' (af_revenueMin f) @ int_field ''max'' (af_revenueMax f)))]
         else []))"

text \<open>\<open>[a, b].filter(Boolean).join(' ')\<close>.\<close>

definition join_truthy :: "string option \<Rightarrow> string option \<Rightarrow> string" where
  "join_truthy a b =
     (if truthy a \<and> truthy b then the a @ '' '' @ the b
      else if truthy a then the a else if truthy b then the b else [])"

definition to_candidate :: "apolloSearchPerson \<Rightarrow> apolloCandidate" where
  "to_candidate p =
     (let n = join_truthy (sp_first_name p) (sp_last_name_obfuscated p)
      in \<lparr>ca_apolloPersonId = sp_id p, ca_name = (if n = [] then ''Unknown'' else n),
          ca_title = sp_title p, ca_company = sp_organizationName p\<rparr>)"

definition searchPeople :: "apolloApi \<Rightarrow> apolloFilters \<Rightarrow> int \<Rightarrow> apolloCandidate list result" where
  "searchPeople api f perPage =
     (case ap_search api (search_body f perPage) of
        Reply people \<Rightarrow> Inr (map to_candidate (nullish people []))
      | _ \<Rightarrow> Inl (Internal UpstreamError))"

definition match_person :: "apolloApi \<Rightarrow> json \<Rightarrow> apolloEnrichedPerson option" where
  "match_person api body =
     (case ap_match api body of
        Reply (Some p) \<Rightarrow>
          Some \<lparr>en_name = mp_name p, en_title = mp_title p,
                en_company = (case mp_organizationName p of None \<Rightarrow> mp_organization_name p | Some x \<Rightarrow> Some x),
                en_linkedin = mp_linkedin_url p,
                en_email = (if truthy (mp_email p) \<and> \<not> js_includes (the (mp_email p)) ''not_unlocked''
                            then mp_email p else None)\<rparr>
      | _ \<Rightarrow> None)"

definition enrichPerson :: "apolloApi \<Rightarrow> string \<Rightarrow> apolloEnrichedPerson option" where
  "enrichPerson api apolloPersonId = match_person api (JObj [(''id'', JStr apolloPersonId)])"

definition matchByName :: "apolloApi \<Rightarrow> string \<Rightarrow> string option \<Rightarrow> apolloEnrichedPerson option" where
  "matchByName api name organizationName = match_person api
     (JObj ((''name'', JStr name) # (case organizationName of None \<Rightarrow> [] | Some o' \<Rightarrow> [(''organization_name'', JStr o')])))"

section \<open>Claude\<close>

record parsedSearchFilters =
  pf_campaignName :: string
  pf_searchKeywords :: "string list"
  pf_targetIndustries :: "string list"
  pf_personTitles :: "string list"
  pf_personSeniorities :: "string list"
  pf_location :: string
  pf_personName :: string
  pf_personOrganization :: string

record toolInput =
  tu_campaignName :: "string option"
  tu_searchKeywords :: "string list option"
  tu_targetIndustries :: "string list option"
  tu_personTitles :: "string list option"
  tu_personSeniorities :: "string list option"
  tu_location :: "string option"
  tu_personName :: "string option"
  tu_personOrganization :: "string option"

text \<open>The model either fails, or answers with or without a tool call.\<close>

type_synonym claude = "string \<Rightarrow> toolInput option option"

fun join_comma :: "string list \<Rightarrow> string" where
  "join_comma [] = []"
| "join_comma [x] = x"
| "join_comma (x # y # xs) = x @ '', '' @ join_comma (y # xs)"

definition user_content :: "string \<Rightarrow> string list option \<Rightarrow> string" where
  "user_content query jobTitles =
     (case jobTitles of
        None \<Rightarrow> query
      | Some ts \<Rightarrow> if ts = [] then query
                   else query @ [CHR 0x0A, CHR 0x0A] @ ''Target job titles: '' @ join_comma ts)"

definition parseApolloQuery ::
  "claude \<Rightarrow> string \<Rightarrow> string list option \<Rightarrow> parsedSearchFilters result" where
  "parseApolloQuery claude query jobTitles =
     (case claude (user_content query jobTitles) of
        None \<Rightarrow> Inl (Internal UpstreamError)
      | Some None \<Rightarrow> Inr \<lparr>pf_campaignName = take 200 query, pf_searchKeywords = [], pf_targetIndustries = [],
          pf_personTitles = nullish jobTitles [], pf_personSeniorities = [], pf_location = [],
          pf_personName = [], pf_personOrganization = []\<rparr>
      | Some (Some i) \<Rightarrow> Inr
          \<lparr>pf_campaignName = (if truthy (tu_campaignName i) then the (tu_campaignName i) else take 200 query),
           pf_searchKeywords = nullish (tu_searchKeywords i) [],
           pf_targetIndustries = nullish (tu_targetIndustries i) [],
           pf_personTitles = (case tu_personTitles i of
               Some (t # ts) \<Rightarrow> t # ts | _ \<Rightarrow> nullish jobTitles []),
           pf_personSeniorities = nullish (tu_personSeniorities i) [],
           pf_location = nullish (tu_location i) [], pf_personName = nullish (tu_personName i) [],
           pf_personOrganization = nullish (tu_personOrganization i) []\<rparr>)"

section \<open>What they return\<close>

lemma truthyD: "truthy x \<Longrightarrow> x \<noteq> None \<and> the x \<noteq> []"
  by (auto elim: truthyE)

lemma searchPeople_length:
  "searchPeople api f n = Inr cs \<Longrightarrow> \<exists>ps. ap_search api (search_body f n) = Reply ps \<and> length cs = length (nullish ps [])"
  by (auto simp: searchPeople_def split: fetchReply.splits)

lemma candidate_named: "ca_name (to_candidate p) \<noteq> []"
  by (simp add: to_candidate_def Let_def)

lemma match_email_unlocked:
  "match_person api body = Some e \<Longrightarrow> en_email e = Some m \<Longrightarrow> m \<noteq> [] \<and> \<not> js_includes m ''not_unlocked''"
  by (auto simp: match_person_def split: fetchReply.splits option.splits if_splits dest: truthyD)

lemma parse_titles_kept:
  assumes "parseApolloQuery claude query (Some (t # ts)) = Inr p"
  shows "pf_personTitles p \<noteq> []"
  using assms by (auto simp: parseApolloQuery_def split: option.splits list.splits)

end
