(* ===== verification/Leads.thy ===== *)
theory Leads
  imports Access Apollo "HOL-Library.Char_ord" "HOL-Library.List_Lexorder"
begin

text \<open>
  \<open>leads.service.ts\<close>: the lead directory (list, count, export, preview, self-submission, filters),
  the credits of the Lead Finder, its free and anonymous allowances, and the life of a search job
  up to the queue. The worker that runs a job is in \<open>ApolloSearch\<close>.

  Text is ordered byte by byte; a company type in the order of its declaration, which is the order
  of a PostgreSQL enumeration, absent ones last.
\<close>

section \<open>Ordering company types\<close>

fun companyType_index :: "companyType \<Rightarrow> nat" where
  "companyType_index ADVERTISER = 0"
| "companyType_index AD_NETWORK = 1"
| "companyType_index AFFILIATE = 2"
| "companyType_index AFFILIATE_NETWORK = 3"
| "companyType_index AGENCY = 4"
| "companyType_index SOLUTION_PROVIDER = 5"

lemma companyType_index_inject: "companyType_index x = companyType_index y \<Longrightarrow> x = y"
  by (cases x; cases y) simp_all

instantiation companyType :: linorder
begin

definition less_eq_companyType :: "companyType \<Rightarrow> companyType \<Rightarrow> bool" where
  "less_eq_companyType x y \<longleftrightarrow> companyType_index x \<le> companyType_index y"

definition less_companyType :: "companyType \<Rightarrow> companyType \<Rightarrow> bool" where
  "less_companyType x y \<longleftrightarrow> companyType_index x < companyType_index y"

instance
  by standard (auto simp: less_eq_companyType_def less_companyType_def intro: companyType_index_inject)

end

section \<open>The directory\<close>

record leadView =
  lv_id :: ident
  lv_name :: string
  lv_title :: "string option"
  lv_company :: "string option"
  lv_website :: "string option"
  lv_linkedin :: "string option"
  lv_appLink :: "string option"
  lv_email :: "string option"
  lv_phone :: "string option"
  lv_companyType :: "companyType option"
  lv_likelyToAttend :: string

definition lead_view :: "lead \<Rightarrow> leadView" where
  "lead_view l = \<lparr>lv_id = le_id l, lv_name = le_name l, lv_title = le_title l, lv_company = le_company l,
     lv_website = le_website l, lv_linkedin = le_linkedin l, lv_appLink = le_appLink l, lv_email = le_email l,
     lv_phone = le_phone l, lv_companyType = le_companyType l, lv_likelyToAttend = le_likelyToAttend l\<rparr>"

text \<open>The query parameter is a company type or the sentinel for "none on file".\<close>

datatype companyTypeParam = TypeParam companyType | UNCLASSIFIED

definition resolveCompanyTypeFilter :: "companyTypeParam option \<Rightarrow> companyType option option" where
  "resolveCompanyTypeFilter p =
     (case p of None \<Rightarrow> None | Some UNCLASSIFIED \<Rightarrow> Some None | Some (TypeParam t) \<Rightarrow> Some (Some t))"

record leadFilters =
  lq_companyType :: "companyTypeParam option"
  lq_likelyToAttend :: "string option"
  lq_search :: "string option"
  lq_hasEmail :: "bool option"

definition column_contains :: "cfg \<Rightarrow> string option \<Rightarrow> string \<Rightarrow> bool" where
  "column_contains c column s = (case column of None \<Rightarrow> False | Some x \<Rightarrow> c_contains c x s)"

definition matches_search :: "cfg \<Rightarrow> string \<Rightarrow> lead \<Rightarrow> bool" where
  "matches_search c s l \<longleftrightarrow> c_contains c (le_name l) s \<or> column_contains c (le_company l) s
     \<or> column_contains c (le_title l) s \<or> column_contains c (le_email l) s
     \<or> c_contains c (le_likelyToAttend l) s"

definition buildWhere :: "cfg \<Rightarrow> leadFilters \<Rightarrow> lead \<Rightarrow> bool" where
  "buildWhere c f l \<longleftrightarrow> le_approved l
     \<and> (case resolveCompanyTypeFilter (lq_companyType f) of None \<Rightarrow> True | Some t \<Rightarrow> le_companyType l = t)
     \<and> (case lq_likelyToAttend f of None \<Rightarrow> True | Some e \<Rightarrow> le_likelyToAttend l = e)
     \<and> (lq_hasEmail f = Some True \<longrightarrow> le_email l \<noteq> None)
     \<and> (truthy (lq_search f) \<longrightarrow> matches_search c (the (lq_search f)) l)"

definition no_filters :: leadFilters where
  "no_filters = \<lparr>lq_companyType = None, lq_likelyToAttend = None, lq_search = None, lq_hasEmail = None\<rparr>"

definition matching_leads :: "cfg \<Rightarrow> leadFilters \<Rightarrow> world \<Rightarrow> lead list" where
  "matching_leads c f w = orderAsc le_name (findMany (buildWhere c f) (leads w))"

record 'a page =
  pg_data :: "'a list"
  pg_page :: nat
  pg_pageSize :: nat
  pg_total :: nat

definition list_leads :: "cfg \<Rightarrow> leadFilters \<Rightarrow> nat \<Rightarrow> nat \<Rightarrow> world \<Rightarrow> leadView page" where
  "list_leads c f pageNo pageSize w =
     \<lparr>pg_data = map lead_view (paginate pageNo pageSize (matching_leads c f w)),
      pg_page = pageNo, pg_pageSize = pageSize, pg_total = countRows (buildWhere c f) (leads w)\<rparr>"

definition count_leads :: "cfg \<Rightarrow> leadFilters \<Rightarrow> world \<Rightarrow> nat" where
  "count_leads c f w = countRows (buildWhere c f) (leads w)"

definition CSV_COLUMNS :: "(string \<times> string) list" where
  "CSV_COLUMNS = [(''name'', ''Name''), (''title'', ''Title''), (''company'', ''Company''),
     (''companyType'', ''Type of Company''), (''likelyToAttend'', ''Likely to Attend''),
     (''website'', ''Website''), (''linkedin'', ''LinkedIn''), (''email'', ''Email''), (''phone'', ''Phone'')]"

definition exportCsv ::
  "((string \<times> string) list \<Rightarrow> leadView list \<Rightarrow> string) \<Rightarrow> cfg \<Rightarrow> leadFilters \<Rightarrow> world \<Rightarrow> string" where
  "exportCsv stringify c f w = stringify CSV_COLUMNS (map lead_view (matching_leads c f w))"

record previewView =
  pv_name :: string
  pv_title :: "string option"
  pv_company :: "string option"
  pv_companyType :: "companyType option"
  pv_likelyToAttend :: string

definition preview :: "cfg \<Rightarrow> string \<Rightarrow> world \<Rightarrow> previewView list" where
  "preview c search w = map (\<lambda>l. \<lparr>pv_name = le_name l, pv_title = le_title l, pv_company = le_company l,
       pv_companyType = le_companyType l, pv_likelyToAttend = le_likelyToAttend l\<rparr>)
     (take 5 (matching_leads c (no_filters\<lparr>lq_search := Some search\<rparr>) w))"

record selfSubmitLead =
  sl_name :: string
  sl_companyType :: companyType
  sl_likelyToAttend :: string
  sl_title :: "string option"
  sl_company :: "string option"
  sl_website :: "string option"
  sl_linkedin :: "string option"
  sl_email :: "string option"
  sl_phone :: "string option"

definition submitSelf :: "req \<Rightarrow> ident \<Rightarrow> selfSubmitLead \<Rightarrow> world \<Rightarrow> (string \<times> leadView) \<times> world" where
  "submitSelf q userId dto w =
     (let l = \<lparr>le_id = q_newId q, le_name = sl_name dto, le_title = sl_title dto, le_company = sl_company dto,
            le_website = sl_website dto, le_linkedin = sl_linkedin dto, le_appLink = None,
            le_email = sl_email dto, le_phone = sl_phone dto, le_companyType = Some (sl_companyType dto),
            le_likelyToAttend = sl_likelyToAttend dto, le_approved = False,
            le_submittedByUserId = Some userId, le_createdAt = q_now q\<rparr>
      in ((''Submitted '' @ em_dash @ '' we'll review it before it goes live.'', lead_view l),
          audit_record q ((entry (Some userId) Leads_self_submitted)
            \<lparr>ae_targetType := Some ''Lead'', ae_targetId := Some (le_id l)\<rparr>)
            (w\<lparr>leads := leads w @ [l]\<rparr>)))"

text \<open>\<open>distinct\<close> with an ascending order: absent company types come last.\<close>

definition distinct_types :: "lead list \<Rightarrow> companyType option list" where
  "distinct_types ls = map Some (sort (remdups (List.map_filter le_companyType ls)))
     @ (if \<exists>l \<in> set ls. le_companyType l = None then [None] else [])"

definition getFilters :: "world \<Rightarrow> companyTypeParam list \<times> string list" where
  "getFilters w =
     (let companyTypes = distinct_types (leads w);
          realTypes = List.map_filter (\<lambda>t. t) companyTypes;
          hasUnclassified = (length realTypes < length companyTypes)
      in (map TypeParam realTypes @ (if hasUnclassified then [UNCLASSIFIED] else []),
          sort (remdups (map le_likelyToAttend (leads w)))))"

text \<open>\<open>GROUP BY\<close> a column, most frequent first, at most eight.\<close>

datatype suggestField = SuggestTitle | SuggestCompany

definition suggest :: "cfg \<Rightarrow> suggestField \<Rightarrow> string \<Rightarrow> world \<Rightarrow> string list" where
  "suggest c field s w =
     (let column = (case field of SuggestTitle \<Rightarrow> le_title | SuggestCompany \<Rightarrow> le_company);
          values = List.map_filter column (findMany (\<lambda>l. le_approved l \<and> column_contains c (column l) s) (leads w))
      in take 8 (orderDesc (\<lambda>v. int (countRows (\<lambda>x. x = v) values)) (remdups values)))"

section \<open>Allowances\<close>

definition freeTierMaxSearchesPerDay :: nat where "freeTierMaxSearchesPerDay = 4"
definition freeTierMaxResultsPerSearch :: int where "freeTierMaxResultsPerSearch = 25"
definition anonymousMaxSearchesPerDay :: int where "anonymousMaxSearchesPerDay = 3"
definition anonymousMaxResultsPerSearch :: int where "anonymousMaxResultsPerSearch = 3"

text \<open>\<open>Math.ceil\<close> of the seconds to the next local midnight.\<close>

definition secondsUntilMidnight :: "cfg \<Rightarrow> req \<Rightarrow> int" where
  "secondsUntilMidnight c q = - (- (c_nextDay c (q_now q) - q_now q) div 1000)"

definition free_searches_used :: string where
  "free_searches_used = ''You've used your 3 free searches today. Sign up to get up to 1,000 enriched leads every month, unlimited database searches, and full CSV export '' @ em_dash @ '' or come back tomorrow for 3 more free searches.''"

definition checkAnonymousSearchLimit :: "cfg \<Rightarrow> req \<Rightarrow> string \<Rightarrow> world \<Rightarrow> (int \<times> int) result \<times> world" where
  "checkAnonymousSearchLimit c q ip w =
     (if \<not> q_redisUp q then (Inl (ServiceUnavailable Free_search_demo_unavailable), w)
      else (let (count, w1) = redis_count q (AnonAiSearch ip) (secondsUntilMidnight c q) w
            in if anonymousMaxSearchesPerDay < count then (Inl (Forbidden free_searches_used), w1)
               else (Inr (count, anonymousMaxSearchesPerDay - count), w1)))"

definition getAnonymousSearchStatus :: "req \<Rightarrow> string \<Rightarrow> world \<Rightarrow> int \<times> int" where
  "getAnonymousSearchStatus q ip w =
     (if q_redisUp q
      then (anonymousMaxSearchesPerDay,
            max 0 (anonymousMaxSearchesPerDay - nullish (redis_get q (AnonAiSearch ip) w) 0))
      else (anonymousMaxSearchesPerDay, anonymousMaxSearchesPerDay))"

definition hasUnlimitedLeadFinderAccess :: "ident \<Rightarrow> world \<Rightarrow> bool" where
  "hasUnlimitedLeadFinderAccess userId w =
     (case findById userId w of
        None \<Rightarrow> False
      | Some u \<Rightarrow> u_role u = ADMIN \<or> u_role u = SUPER_ADMIN \<or> u_adminGrantedLeadFinderAccess u)"

definition hasPaidLeadFinderAccess :: "cfg \<Rightarrow> req \<Rightarrow> ident \<Rightarrow> world \<Rightarrow> bool" where
  "hasPaidLeadFinderAccess c q userId w =
     (if hasUnlimitedLeadFinderAccess userId w then True
      else if findFirst (\<lambda>g. cg_userId g = userId \<and> cg_source g = CREDIT_PACK_PURCHASE) (creditGrants w) \<noteq> None
      then True
      else (case findFirst (\<lambda>s. lf_userId s = userId \<and> lf_status s \<in> set live_statuses) (leadFinderSubscriptions w) of
              None \<Rightarrow> False
            | Some s \<Rightarrow> hasActiveAccess (q_now q) (lf_status s) (lf_pastDueSince s) (c_gracePeriodDays c)))"

record freeTierStatus =
  ft_isPaidTier :: bool
  ft_maxResultsPerSearch :: int
  ft_searchesUsedToday :: nat
  ft_maxSearchesPerDay :: nat
  ft_searchesRemainingToday :: "nat option"

definition searches_today :: "cfg \<Rightarrow> req \<Rightarrow> ident \<Rightarrow> world \<Rightarrow> nat" where
  "searches_today c q userId w =
     countRows (\<lambda>j. jb_userId j = userId \<and> c_startOfDay c (q_now q) \<le> jb_createdAt j) (leadSearchJobs w)"

definition getFreeTierStatus :: "cfg \<Rightarrow> req \<Rightarrow> ident \<Rightarrow> world \<Rightarrow> freeTierStatus" where
  "getFreeTierStatus c q userId w =
     (if hasPaidLeadFinderAccess c q userId w
      then \<lparr>ft_isPaidTier = True, ft_maxResultsPerSearch = c_maxResultsPerSearch c, ft_searchesUsedToday = 0,
            ft_maxSearchesPerDay = freeTierMaxSearchesPerDay, ft_searchesRemainingToday = None\<rparr>
      else \<lparr>ft_isPaidTier = False, ft_maxResultsPerSearch = freeTierMaxResultsPerSearch,
            ft_searchesUsedToday = searches_today c q userId w,
            ft_maxSearchesPerDay = freeTierMaxSearchesPerDay,
            ft_searchesRemainingToday = Some (freeTierMaxSearchesPerDay - searches_today c q userId w)\<rparr>)"

definition getCredits :: "cfg \<Rightarrow> req \<Rightarrow> ident \<Rightarrow> world \<Rightarrow> (int \<times> freeTierStatus) result" where
  "getCredits c q userId w =
     (case findById userId w of
        None \<Rightarrow> Inl (Internal P2025)
      | Some u \<Rightarrow> Inr (u_leadFinderCredits u, getFreeTierStatus c q userId w))"

text \<open>The guarded decrement: one conditional \<open>updateMany\<close>, and whether it matched a row.\<close>

definition tryReserveCredit :: "ident \<Rightarrow> world \<Rightarrow> bool \<times> world" where
  "tryReserveCredit userId w =
     (if hasUnlimitedLeadFinderAccess userId w then (True, w)
      else (let p = (\<lambda>u. u_id u = userId \<and> 0 < u_leadFinderCredits u)
            in (0 < countRows p (users w),
                w\<lparr>users := updateMany p (\<lambda>u. u\<lparr>u_leadFinderCredits := u_leadFinderCredits u - 1\<rparr>) (users w)\<rparr>)))"

definition refundCredit :: "ident \<Rightarrow> world \<Rightarrow> unit result \<times> world" where
  "refundCredit userId w =
     (if hasUnlimitedLeadFinderAccess userId w then (Inr (), w)
      else if findById userId w = None then (Inl (Internal P2025), w)
      else (Inr (), update_user userId (\<lambda>u. u\<lparr>u_leadFinderCredits := u_leadFinderCredits u + 1\<rparr>) w))"

section \<open>Searches\<close>

definition parseQuery :: "claude \<Rightarrow> string \<Rightarrow> string list option \<Rightarrow> parsedSearchFilters result" where
  "parseQuery claude query jobTitles =
     (case parseApolloQuery claude query jobTitles of
        Inl _ \<Rightarrow> Inl (ServiceUnavailable Ai_search_unavailable) | Inr p \<Rightarrow> Inr p)"

definition getTaxonomy ::
  "string list \<times> (string \<times> string) list \<times> (string \<times> int) list \<times> departmentSection list" where
  "getTaxonomy = (PERSON_SENIORITIES, COMPANY_SIZE_RANGES, REVENUE_BUCKETS, DEPARTMENT_TAXONOMY)"

record searchInput =
  sq_searchKeywords :: "string list option"
  sq_targetIndustries :: "string list option"
  sq_exclusions :: "string list option"
  sq_personTitles :: "string list option"
  sq_personSeniorities :: "string list option"
  sq_personFunctions :: "string list option"
  sq_location :: "string option"
  sq_companySizeRanges :: "string list option"
  sq_revenueMin :: "int option"
  sq_revenueMax :: "int option"
  sq_personName :: "string option"
  sq_personOrganization :: "string option"

definition buildApolloFilters :: "searchInput \<Rightarrow> apolloFilters" where
  "buildApolloFilters d =
     \<lparr>af_organizationKeywordTags = nullish (sq_searchKeywords d) [] @ nullish (sq_targetIndustries d) [],
      af_excludeOrganizationKeywordTags = sq_exclusions d, af_personTitles = sq_personTitles d,
      af_personSeniorities = sq_personSeniorities d, af_personFunctions = sq_personFunctions d,
      af_organizationLocations = (if truthy (sq_location d) then Some [the (sq_location d)] else None),
      af_organizationNumEmployeesRanges = sq_companySizeRanges d,
      af_revenueMin = sq_revenueMin d, af_revenueMax = sq_revenueMax d,
      af_personName = sq_personName d, af_personOrganization = sq_personOrganization d\<rparr>"

definition parsed_input :: "parsedSearchFilters \<Rightarrow> searchInput" where
  "parsed_input p =
     \<lparr>sq_searchKeywords = Some (pf_searchKeywords p), sq_targetIndustries = Some (pf_targetIndustries p),
      sq_exclusions = None, sq_personTitles = Some (pf_personTitles p),
      sq_personSeniorities = Some (pf_personSeniorities p), sq_personFunctions = None,
      sq_location = Some (pf_location p), sq_companySizeRanges = None, sq_revenueMin = None,
      sq_revenueMax = None, sq_personName = Some (pf_personName p),
      sq_personOrganization = Some (pf_personOrganization p)\<rparr>"

text \<open>\<open>xs.slice(0, n)\<close>.\<close>

definition slice0 :: "int \<Rightarrow> 'a list \<Rightarrow> 'a list" where
  "slice0 n xs = (if 0 \<le> n then take (nat n) xs else take (length xs - nat (- n)) xs)"

record anonymousResult =
  ar_name :: "string option"
  ar_title :: "string option"
  ar_company :: "string option"
  ar_email :: "string option"
  ar_linkedin :: "string option"

definition or_else :: "'a option \<Rightarrow> 'a option \<Rightarrow> 'a option" where
  "or_else a b = (case a of None \<Rightarrow> b | Some x \<Rightarrow> Some x)"

definition anonymous_results ::
  "apolloApi \<Rightarrow> apolloFilters \<Rightarrow> anonymousResult list result" where
  "anonymous_results api f =
     (if truthy (af_personName f)
      then Inr (case matchByName api (the (af_personName f)) (af_personOrganization f) of
              None \<Rightarrow> []
            | Some e \<Rightarrow> [\<lparr>ar_name = or_else (en_name e) (af_personName f), ar_title = en_title e,
                          ar_company = en_company e, ar_email = en_email e, ar_linkedin = en_linkedin e\<rparr>])
      else (case searchPeople api f anonymousMaxResultsPerSearch of
              Inl e \<Rightarrow> Inl e
            | Inr candidates \<Rightarrow> Inr (List.map_filter
                (\<lambda>ca. map_option (\<lambda>e. \<lparr>ar_name = or_else (en_name e) (Some (ca_name ca)),
                    ar_title = or_else (en_title e) (ca_title ca), ar_company = or_else (en_company e) (ca_company ca),
                    ar_email = en_email e, ar_linkedin = en_linkedin e\<rparr>)
                  (enrichPerson api (ca_apolloPersonId ca)))
                (slice0 anonymousMaxResultsPerSearch candidates))))"

definition anonymousSearch ::
  "cfg \<Rightarrow> claude \<Rightarrow> apolloApi \<Rightarrow> req \<Rightarrow> string \<Rightarrow> string \<Rightarrow> world
    \<Rightarrow> (anonymousResult list \<times> int) result \<times> world" where
  "anonymousSearch c claude api q ip query w =
     (case checkAnonymousSearchLimit c q ip w of
        (Inl e, w1) \<Rightarrow> (Inl e, w1)
      | (Inr (used, remaining), w1) \<Rightarrow>
          (case parseApolloQuery claude query None of
             Inl _ \<Rightarrow> (Inl (ServiceUnavailable Ai_search_unavailable), w1)
           | Inr parsed \<Rightarrow>
               (case anonymous_results api (buildApolloFilters (parsed_input parsed)) of
                  Inl _ \<Rightarrow> (Inl (ServiceUnavailable Ai_search_unavailable), w1)
                | Inr results \<Rightarrow> (Inr (results, remaining), w1))))"

text \<open>
  Adding to the search queue is not bounded by a timeout: with the queue down the call waits, and
  the model reports an upstream error and the state left behind meanwhile.
\<close>

definition add_search :: "req \<Rightarrow> apolloJob \<Rightarrow> world \<Rightarrow> unit result \<times> world" where
  "add_search q job w =
     (if q_queueUp q then (Inr (), w\<lparr>apolloQueue := apolloQueue w @ [job]\<rparr>)
      else (Inl (Internal UpstreamError), w))"

definition free_searches_exhausted :: "freeTierStatus \<Rightarrow> string" where
  "free_searches_exhausted ft = ''You've used all '' @ show_nat (ft_maxSearchesPerDay ft) @ '' free searches today (''
     @ show_nat (nat (ft_maxResultsPerSearch ft))
     @ '' results each). Upgrade for unlimited searches, or come back tomorrow for ''
     @ show_nat (ft_maxSearchesPerDay ft) @ '' more free searches.''"

definition aiSearch ::
  "cfg \<Rightarrow> req \<Rightarrow> ident \<Rightarrow> string \<Rightarrow> searchInput \<Rightarrow> world \<Rightarrow> ident result \<times> world" where
  "aiSearch c q userId campaignName dto w =
     (case findById userId w of
        None \<Rightarrow> (Inl (Internal P2025), w)
      | Some user \<Rightarrow>
          (let hasUnlimited = hasUnlimitedLeadFinderAccess userId w;
               freeTier = getFreeTierStatus c q userId w
           in if \<not> hasUnlimited \<and> u_leadFinderCredits user \<le> 0 then (Inl (Forbidden Out_of_credits), w)
              else if \<not> ft_isPaidTier freeTier \<and> ft_searchesRemainingToday freeTier = Some 0
              then (Inl (Forbidden (free_searches_exhausted freeTier)), w)
              else (let filters = buildApolloFilters dto;
                        job = \<lparr>jb_id = q_newId q, jb_userId = userId, jb_query = campaignName,
                               jb_jobTitles = nullish (sq_personTitles dto) [], jb_filters = Some filters,
                               jb_status = RUNNING, jb_createdAt = q_now q\<rparr>;
                        cap = (if hasUnlimited then ft_maxResultsPerSearch freeTier
                               else min (u_leadFinderCredits user) (ft_maxResultsPerSearch freeTier));
                        w1 = w\<lparr>leadSearchJobs := leadSearchJobs w @ [job]\<rparr>
                    in case add_search q \<lparr>aj_jobId = jb_id job, aj_userId = userId, aj_filters = filters,
                                          aj_cap = cap, aj_exclude = []\<rparr> w1 of
                         (Inl e, w2) \<Rightarrow> (Inl e, w2)
                       | (Inr _, w2) \<Rightarrow> (Inr (jb_id job), w2))))"

definition find_job :: "ident \<Rightarrow> world \<Rightarrow> leadSearchJob option" where
  "find_job jobId w = findFirst (\<lambda>j. jb_id j = jobId) (leadSearchJobs w)"

definition set_job_status :: "ident \<Rightarrow> jobStatus \<Rightarrow> world \<Rightarrow> world" where
  "set_job_status jobId st w =
     w\<lparr>leadSearchJobs := updateMany (\<lambda>j. jb_id j = jobId) (\<lambda>j. j\<lparr>jb_status := st\<rparr>) (leadSearchJobs w)\<rparr>"

definition job_results :: "ident \<Rightarrow> world \<Rightarrow> leadSearchResult list" where
  "job_results jobId w = orderAsc rs_createdAt (findMany (\<lambda>r. rs_jobId r = jobId) (leadSearchResults w))"

definition getMoreLeads ::
  "cfg \<Rightarrow> req \<Rightarrow> ident \<Rightarrow> ident \<Rightarrow> int option \<Rightarrow> world \<Rightarrow> unit result \<times> world" where
  "getMoreLeads c q userId jobId requestedCount w =
     (case find_job jobId w of
        None \<Rightarrow> (Inl (NotFound Search_not_found), w)
      | Some job \<Rightarrow>
          if jb_userId job \<noteq> userId then (Inl (NotFound Search_not_found), w)
          else if jb_status job = RUNNING then (Inl (Forbidden Search_still_running), w)
          else if jb_filters job = None then (Inl (Forbidden Search_predates_filters), w)
          else if \<not> hasPaidLeadFinderAccess c q userId w then (Inl (Forbidden Buy_credits_for_more_leads), w)
          else (case findById userId w of
                  None \<Rightarrow> (Inl (Internal P2025), w)
                | Some user \<Rightarrow>
                    (let hasUnlimited = hasUnlimitedLeadFinderAccess userId w;
                         requested = nullish requestedCount (c_maxResultsPerSearch c);
                         cap = (if hasUnlimited then min requested (c_maxResultsPerSearch c)
                                else min (min requested (u_leadFinderCredits user)) (c_maxResultsPerSearch c))
                     in if \<not> hasUnlimited \<and> u_leadFinderCredits user \<le> 0 then (Inl (Forbidden Out_of_credits), w)
                        else add_search q
                               \<lparr>aj_jobId = jobId, aj_userId = userId, aj_filters = the (jb_filters job), aj_cap = cap,
                                aj_exclude = map rs_apolloPersonId (findMany (\<lambda>r. rs_jobId r = jobId) (leadSearchResults w))\<rparr>
                               (set_job_status jobId RUNNING w))))"

definition getSearchJob ::
  "ident \<Rightarrow> ident \<Rightarrow> world \<Rightarrow> (leadSearchJob \<times> leadSearchResult list) result" where
  "getSearchJob userId jobId w =
     (case find_job jobId w of
        None \<Rightarrow> Inl (NotFound Search_not_found)
      | Some job \<Rightarrow>
          if jb_userId job \<noteq> userId then Inl (NotFound Search_not_found)
          else Inr (job, job_results jobId w))"

definition cancelSearchJob :: "ident \<Rightarrow> ident \<Rightarrow> world \<Rightarrow> leadSearchJob result \<times> world" where
  "cancelSearchJob userId jobId w =
     (case find_job jobId w of
        None \<Rightarrow> (Inl (NotFound Search_not_found), w)
      | Some job \<Rightarrow>
          if jb_userId job \<noteq> userId then (Inl (NotFound Search_not_found), w)
          else if jb_status job \<noteq> RUNNING then (Inr job, w)
          else (Inr (job\<lparr>jb_status := CANCELLED\<rparr>), set_job_status jobId CANCELLED w))"

definition updateResultReviewStatus ::
  "ident \<Rightarrow> ident \<Rightarrow> ident \<Rightarrow> string \<Rightarrow> world \<Rightarrow> unit result \<times> world" where
  "updateResultReviewStatus userId jobId resultId reviewStatus w =
     (case find_job jobId w of
        None \<Rightarrow> (Inl (NotFound Search_not_found), w)
      | Some job \<Rightarrow>
          if jb_userId job \<noteq> userId then (Inl (NotFound Search_not_found), w)
          else (case findFirst (\<lambda>r. rs_id r = resultId) (leadSearchResults w) of
                  None \<Rightarrow> (Inl (NotFound Lead_not_found), w)
                | Some r \<Rightarrow>
                    if rs_jobId r \<noteq> jobId then (Inl (NotFound Lead_not_found), w)
                    else (Inr (), w\<lparr>leadSearchResults := updateMany (\<lambda>x. rs_id x = resultId)
                           (\<lambda>x. x\<lparr>rs_reviewStatus := reviewStatus\<rparr>) (leadSearchResults w)\<rparr>)))"

record historyView =
  hv_id :: ident
  hv_query :: string
  hv_jobTitles :: "string list"
  hv_status :: jobStatus
  hv_resultCount :: nat
  hv_createdAt :: time

definition listSearchHistory :: "ident \<Rightarrow> world \<Rightarrow> historyView list" where
  "listSearchHistory userId w =
     map (\<lambda>j. \<lparr>hv_id = jb_id j, hv_query = jb_query j, hv_jobTitles = jb_jobTitles j, hv_status = jb_status j,
               hv_resultCount = countRows (\<lambda>r. rs_jobId r = jb_id j) (leadSearchResults w), hv_createdAt = jb_createdAt j\<rparr>)
       (take 50 (orderDesc jb_createdAt (findMany (\<lambda>j. jb_userId j = userId) (leadSearchJobs w))))"

end
