(* ===== verification/StripeCustomer.thy ===== *)
theory StripeCustomer
  imports Users Samples
begin

text \<open>
  \<open>stripe-customer.service.ts\<close>: one Stripe customer per user. The method is three actions on
  shared state: read the row, create a customer at Stripe, claim the column if it is still null
  and otherwise use the winner's. \<open>getOrCreateStripeCustomer\<close> is their composition; \<open>customer_step\<close>
  interleaves the actions of any number of concurrent requests for one user.
\<close>

section \<open>Operations\<close>

definition customer_of :: "ident \<Rightarrow> world \<Rightarrow> string option" where
  "customer_of userId w = Option.bind (findById userId w) u_stripeCustomerId"

definition create_customer ::
  "req \<Rightarrow> ident \<Rightarrow> string \<Rightarrow> string \<Rightarrow> world \<Rightarrow> string result \<times> world" where
  "create_customer q userId email name w =
     (if q_stripeUp q
      then (Inr (q_stripeId q), w\<lparr>stripeCalls := stripeCalls w @ [CustomerCreate email name userId]\<rparr>)
      else (Inl (Internal StripeError), w))"

text \<open>The conditional \<open>updateMany\<close> and the read of the winner when it matched no row.\<close>

definition claim_customer :: "ident \<Rightarrow> string \<Rightarrow> world \<Rightarrow> string \<times> world" where
  "claim_customer userId customerId w =
     (let p = (\<lambda>u. u_id u = userId \<and> u_stripeCustomerId u = None);
          n = countRows p (users w);
          w1 = w\<lparr>users := updateMany p (\<lambda>u. u\<lparr>u_stripeCustomerId := Some customerId\<rparr>) (users w)\<rparr>
      in if n = 0 \<and> truthy (customer_of userId w1) then (the (customer_of userId w1), w1)
         else (customerId, w1))"

definition getOrCreateStripeCustomer ::
  "req \<Rightarrow> ident \<Rightarrow> string \<Rightarrow> string \<Rightarrow> world \<Rightarrow> string result \<times> world" where
  "getOrCreateStripeCustomer q userId email name w =
     (if truthy (customer_of userId w) then (Inr (the (customer_of userId w)), w)
      else (case create_customer q userId email name w of
              (Inl e, w1) \<Rightarrow> (Inl e, w1)
            | (Inr customerId, w1) \<Rightarrow>
                (let (r, w2) = claim_customer userId customerId w1 in (Inr r, w2))))"

section \<open>Frames\<close>

lemma claim_customer_frame [frame_simps, simp]:
  "devices (snd (claim_customer i x w)) = devices w"
  "sessions (snd (claim_customer i x w)) = sessions w"
  "verificationTokens (snd (claim_customer i x w)) = verificationTokens w"
  "auditLogs (snd (claim_customer i x w)) = auditLogs w"
  "subscriptions (snd (claim_customer i x w)) = subscriptions w"
  "leadFinderSubscriptions (snd (claim_customer i x w)) = leadFinderSubscriptions w"
  "plans (snd (claim_customer i x w)) = plans w"
  "creditGrants (snd (claim_customer i x w)) = creditGrants w"
  "redis (snd (claim_customer i x w)) = redis w"
  by (simp_all add: claim_customer_def Let_def)

lemma getOrCreateStripeCustomer_frame [frame_simps, simp]:
  "devices (snd (getOrCreateStripeCustomer q i e n w)) = devices w"
  "sessions (snd (getOrCreateStripeCustomer q i e n w)) = sessions w"
  "verificationTokens (snd (getOrCreateStripeCustomer q i e n w)) = verificationTokens w"
  "auditLogs (snd (getOrCreateStripeCustomer q i e n w)) = auditLogs w"
  "subscriptions (snd (getOrCreateStripeCustomer q i e n w)) = subscriptions w"
  "leadFinderSubscriptions (snd (getOrCreateStripeCustomer q i e n w)) = leadFinderSubscriptions w"
  "plans (snd (getOrCreateStripeCustomer q i e n w)) = plans w"
  "creditGrants (snd (getOrCreateStripeCustomer q i e n w)) = creditGrants w"
  "redis (snd (getOrCreateStripeCustomer q i e n w)) = redis w"
  by (simp_all add: getOrCreateStripeCustomer_def create_customer_def case_prod_beta)

lemma snd_claim_customer:
  "snd (claim_customer i x w) = w\<lparr>users := updateMany (\<lambda>u. u_id u = i \<and> u_stripeCustomerId u = None)
     (\<lambda>u. u\<lparr>u_stripeCustomerId := Some x\<rparr>) (users w)\<rparr>"
  by (simp add: claim_customer_def Let_def)

lemma users_claim_customer:
  "users (snd (claim_customer i x w)) =
     updateMany (\<lambda>u. u_id u = i \<and> u_stripeCustomerId u = None) (\<lambda>u. u\<lparr>u_stripeCustomerId := Some x\<rparr>) (users w)"
  by (simp add: claim_customer_def Let_def)

lemma customer_of_claim:
  assumes "users_ok w"
  shows "customer_of i (snd (claim_customer i x w)) =
    (case findById i w of None \<Rightarrow> None | Some u \<Rightarrow> Some (nullish (u_stripeCustomerId u) x))"
proof -
  let ?p = "\<lambda>u. u_id u = i \<and> u_stripeCustomerId u = None" and ?f = "\<lambda>u. u\<lparr>u_stripeCustomerId := Some x\<rparr>"
  have "findById i (snd (claim_customer i x w)) = map_option (\<lambda>u. if ?p u then ?f u else u) (findById i w)"
    unfolding findById_def users_claim_customer by (rule findFirst_updateMany) simp
  then show ?thesis
    by (cases "findById i w") (auto simp: customer_of_def nullish_def dest: findById_SomeD split: option.splits)
qed

section \<open>Concurrent requests\<close>

text \<open>
  A request has not read the row yet, has created its own customer, or has returned one. A
  request that created a customer did so when the column was null as it read it; by the time it
  claims, another request may have won.
\<close>

datatype customerPhase = Reading | Holding string | Returned string

inductive customer_step :: "ident \<Rightarrow> world \<times> (nat \<Rightarrow> customerPhase) \<Rightarrow> world \<times> (nat \<Rightarrow> customerPhase) \<Rightarrow> bool"
  for userId where
  read_found: "ph n = Reading \<Longrightarrow> truthy (customer_of userId w) \<Longrightarrow>
    customer_step userId (w, ph) (w, ph(n := Returned (the (customer_of userId w))))"
| read_create: "ph n = Reading \<Longrightarrow> \<not> truthy (customer_of userId w) \<Longrightarrow>
    create_customer q userId email name w = (Inr x, w') \<Longrightarrow> x \<noteq> [] \<Longrightarrow>
    customer_step userId (w, ph) (w', ph(n := Holding x))"
| claim: "ph n = Holding x \<Longrightarrow> claim_customer userId x w = (r, w') \<Longrightarrow>
    customer_step userId (w, ph) (w', ph(n := Returned r))"

inductive customer_steps :: "ident \<Rightarrow> world \<times> (nat \<Rightarrow> customerPhase) \<Rightarrow> world \<times> (nat \<Rightarrow> customerPhase) \<Rightarrow> bool"
  for userId s where
  customer_refl: "customer_steps userId s s"
| customer_trans: "customer_steps userId s s1 \<Longrightarrow> customer_step userId s1 s2 \<Longrightarrow> customer_steps userId s s2"

inductive_cases customer_stepE: "customer_step userId (w, ph) s2"

definition customer_inv :: "ident \<Rightarrow> world \<times> (nat \<Rightarrow> customerPhase) \<Rightarrow> bool" where
  "customer_inv userId s \<longleftrightarrow> users_ok (fst s) \<and> findById userId (fst s) \<noteq> None
     \<and> customer_of userId (fst s) \<noteq> Some []
     \<and> (\<forall>n x. snd s n = Holding x \<longrightarrow> x \<noteq> [])
     \<and> (\<forall>n x. snd s n = Returned x \<longrightarrow> customer_of userId (fst s) = Some x)"

lemma users_ok_claim: "users_ok w \<Longrightarrow> users_ok (snd (claim_customer i x w))"
  by (simp add: users_ok_def users_claim_customer unique_on_updateMany)

lemma claim_result:
  assumes "users_ok w" "findById i w \<noteq> None" "customer_of i w \<noteq> Some []" "x \<noteq> []"
  shows "customer_of i (snd (claim_customer i x w)) = Some (fst (claim_customer i x w))
    \<and> fst (claim_customer i x w) = nullish (customer_of i w) x"
proof -
  obtain u where u: "findById i w = Some u" using assms(2) by blast
  note um = findById_SomeD [OF u]
  have own: "v = u" if "v \<in> set (users w)" "u_id v = i" for v
    using that um assms(1) unfolding users_ok_def by (metis unique_onD)
  have after: "customer_of i (snd (claim_customer i x w)) = Some (nullish (u_stripeCustomerId u) x)"
    using customer_of_claim [OF assms(1), of i x] by (simp add: u)
  have now: "customer_of i w = u_stripeCustomerId u" by (simp add: customer_of_def u)
  have "fst (claim_customer i x w) = nullish (u_stripeCustomerId u) x"
  proof (cases "u_stripeCustomerId u")
    case None
    then have "countRows (\<lambda>u. u_id u = i \<and> u_stripeCustomerId u = None) (users w) \<noteq> 0"
      using um by (auto simp: countRows_0_iff)
    then show ?thesis using None by (simp add: claim_customer_def Let_def)
  next
    case (Some y)
    then have "countRows (\<lambda>u. u_id u = i \<and> u_stripeCustomerId u = None) (users w) = 0"
      using own by (auto simp: countRows_0_iff)
    moreover have "y \<noteq> []" using assms(3) now Some by simp
    moreover have "customer_of i (w\<lparr>users := updateMany (\<lambda>u. u_id u = i \<and> u_stripeCustomerId u = None)
        (\<lambda>u. u\<lparr>u_stripeCustomerId := Some x\<rparr>) (users w)\<rparr>) = Some y"
      using after Some unfolding snd_claim_customer by simp
    ultimately show ?thesis using Some by (simp add: claim_customer_def Let_def)
  qed
  then show ?thesis using after now by simp
qed

lemma customer_inv_step:
  assumes "customer_step userId s s'" and "customer_inv userId s"
  shows "customer_inv userId s'"
  using assms
proof (induction rule: customer_step.induct)
  case (read_found ph n w)
  then show ?case by (auto simp: customer_inv_def elim!: truthyE)
next
  case (read_create ph n w q email name x w')
  have "users w' = users w" using read_create(3) by (auto simp: create_customer_def split: if_splits)
  then have "customer_of userId w' = customer_of userId w" "findById userId w' = findById userId w" "users_ok w' = users_ok w"
    by (simp_all add: customer_of_def findById_def users_ok_def)
  with read_create show ?case by (auto simp: customer_inv_def)
next
  case (claim ph n x w r w')
  then have w: "users_ok w" "findById userId w \<noteq> None" "customer_of userId w \<noteq> Some []" "x \<noteq> []"
    by (auto simp: customer_inv_def)
  have r: "customer_of userId w' = Some r" "r = nullish (customer_of userId w) x"
    using claim_result [OF w] claim(2) by simp_all
  have "users_ok w'" using users_ok_claim [OF w(1), of userId x] claim(2) by simp
  moreover have "findById userId w' \<noteq> None" using r(1) by (cases "findById userId w'") (auto simp: customer_of_def)
  moreover have "r \<noteq> []" using r(2) w(3,4) by (cases "customer_of userId w") auto
  moreover have "customer_of userId w = Some y \<Longrightarrow> r = y" for y using r(2) by simp
  ultimately show ?case using claim(3) r(1) by (auto simp: customer_inv_def)
qed

section \<open>Property\<close>

text \<open>
  C35: concurrent first checkouts agree on one Stripe customer. However the actions of any number
  of simultaneous requests for one user interleave, every request that returns gives back the
  same customer, the one stored in the user's row; customers created by the losers are never
  returned to anyone, and a stored customer is never replaced.
\<close>

theorem concurrent_customers_agree:
  assumes run: "customer_steps userId (w, \<lambda>_. Reading) (w', ph)"
    and start: "users_ok w" "findById userId w \<noteq> None" "customer_of userId w \<noteq> Some []"
  shows "(\<forall>n x. ph n = Returned x \<longrightarrow> customer_of userId w' = Some x)
    \<and> (\<forall>y. customer_of userId w = Some y \<longrightarrow> customer_of userId w' = Some y)"
proof -
  have "customer_inv userId s \<and> (\<forall>y. customer_of userId w = Some y \<longrightarrow> customer_of userId (fst s) = Some y)"
    if "customer_steps userId (w, \<lambda>_. Reading) s" for s
    using that
  proof (induction rule: customer_steps.induct)
    case customer_refl
    with start show ?case by (simp add: customer_inv_def)
  next
    case (customer_trans s1 s2)
    have "customer_inv userId s2" using customer_trans customer_inv_step by blast
    moreover have "customer_of userId (fst s2) = Some y" if "customer_of userId (fst s1) = Some y" for y
      using customer_trans(2)
    proof (cases rule: customer_step.cases)
      case (read_create ph n wa q email name x wb)
      then show ?thesis using that
        by (auto simp: create_customer_def customer_of_def findById_def split: if_splits)
    next
      case (claim ph n x wa r wb)
      then have "users_ok wa" "findById userId wa \<noteq> None" "customer_of userId wa \<noteq> Some []" "x \<noteq> []"
        using customer_trans(3) by (auto simp: customer_inv_def)
      from claim_result [OF this] that claim show ?thesis by simp
    qed (use that in simp)
    ultimately show ?case using customer_trans(3) by blast
  qed
  from this [OF run] show ?thesis by (auto simp: customer_inv_def)
qed

theorem concurrent_customers_agree_witness:
  "\<exists>w' ph. customer_steps ''u1'' (sample_world, \<lambda>_. Reading) (w', ph) \<and> ph 0 = Returned ''cus_2''
     \<and> ph 1 = Returned ''cus_2'' \<and> customer_of ''u1'' w' = Some ''cus_2''"
proof -
  let ?q1 = "(sample_req 0)\<lparr>q_stripeId := ''cus_1''\<rparr>" and ?q2 = "(sample_req 0)\<lparr>q_stripeId := ''cus_2''\<rparr>"
  let ?w1 = "snd (create_customer ?q1 ''u1'' ''e'' ''n'' sample_world)"
  let ?w2 = "snd (create_customer ?q2 ''u1'' ''e'' ''n'' ?w1)"
  let ?w3 = "snd (claim_customer ''u1'' ''cus_2'' ?w2)" and ?w4 = "snd (claim_customer ''u1'' ''cus_1''
      (snd (claim_customer ''u1'' ''cus_2'' ?w2)))"
  let ?p0 = "\<lambda>_::nat. Reading"
  let ?p1 = "?p0(0 := Holding ''cus_1'')" and ?p2 = "?p0(0 := Holding ''cus_1'', 1 := Holding ''cus_2'')"
  let ?p3 = "?p0(0 := Holding ''cus_1'', 1 := Returned ''cus_2'')"
  let ?p4 = "(?p0(0 := Holding ''cus_1'', 1 := Returned ''cus_2''))(0 := Returned ''cus_2'')"
  have none: "\<not> truthy (customer_of ''u1'' sample_world)" "\<not> truthy (customer_of ''u1'' ?w1)"
    by (simp_all add: customer_of_def findById_def create_customer_def sample_defs)
  have s1: "customer_step ''u1'' (sample_world, ?p0) (?w1, ?p1)"
    by (rule read_create [OF _ none(1), of _ _ ?q1]) (simp_all add: create_customer_def sample_req_def)
  have s2: "customer_step ''u1'' (?w1, ?p1) (?w2, ?p2)"
    by (rule read_create [OF _ none(2), of _ _ ?q2]) (simp_all add: create_customer_def sample_req_def)
  have c2: "claim_customer ''u1'' ''cus_2'' ?w2 = (''cus_2'', ?w3)"
    by (simp add: claim_customer_def create_customer_def sample_defs Let_def)
  have s3: "customer_step ''u1'' (?w2, ?p2) (?w3, ?p3)"
    using claim [of ?p2 1 "''cus_2''" "''u1''", OF _ c2] by simp
  have c1: "claim_customer ''u1'' ''cus_1'' ?w3 = (''cus_2'', ?w4)"
    by (simp add: claim_customer_def create_customer_def customer_of_def findById_def sample_defs Let_def)
  have s4: "customer_step ''u1'' (?w3, ?p3) (?w4, ?p4)"
    using claim [of ?p3 0 "''cus_1''" "''u1''", OF _ c1] by simp
  have run: "customer_steps ''u1'' (sample_world, ?p0) (?w4, ?p4)"
    by (rule customer_trans [OF customer_trans [OF customer_trans [OF customer_trans [OF customer_refl s1] s2] s3] s4])
  have "users_ok sample_world" "findById ''u1'' sample_world \<noteq> None" "customer_of ''u1'' sample_world \<noteq> Some []"
    by (simp_all add: users_ok_def unique_on_def findById_def customer_of_def sample_defs)
  from concurrent_customers_agree [OF run this] have "\<forall>n x. ?p4 n = Returned x \<longrightarrow> customer_of ''u1'' ?w4 = Some x"
    by blast
  then have "?p4 0 = Returned ''cus_2'' \<longrightarrow> customer_of ''u1'' ?w4 = Some ''cus_2''" by blast
  then have "customer_of ''u1'' ?w4 = Some ''cus_2''" by simp
  with run show ?thesis by (intro exI [of _ ?w4] exI [of _ ?p4]) simp
qed

end
