(* ===== verification/Subscriptions.thy ===== *)
theory Subscriptions
  imports Access StripeCustomer
begin

text \<open>
  \<open>subscriptions.service.ts\<close>: the Directory plan. Checkout, portal, status, cancel and resume,
  and the handlers that bring Stripe's events into the local tables.

  Stripe's objects are the records below, with the fields the code reads; \<open>subscriptions.retrieve\<close>
  is the parameter \<open>retrieve\<close> of the webhook handler. The partial unique index of the migration
  \<open>one_active_subscription_per_user\<close> is \<open>one_live\<close>: a write that would give a user two rows that
  are \<open>ACTIVE\<close>, \<open>TRIALING\<close> or \<open>PAST_DUE\<close> fails with \<open>P2002\<close>. Writes that only lower a status are
  made directly; the lemmas show that they cannot violate the index.
\<close>

section \<open>Stripe objects\<close>

datatype stripeStatus =
  St_trialing | St_active | St_past_due | St_unpaid | St_paused | St_canceled
  | St_incomplete | St_incomplete_expired

record stripeMetadata =
  md_userId :: "string option"
  md_planId :: "string option"
  md_tierId :: "string option"
  md_kind :: "string option"
  md_credits :: "string option"

record stripeSubscription =
  ss_id :: string
  ss_customer :: string
  ss_status :: stripeStatus
  ss_metadata :: stripeMetadata
  ss_currentPeriodStart :: int
  ss_currentPeriodEnd :: int
  ss_cancelAtPeriodEnd :: bool
  ss_trialEnd :: "int option"

record checkoutSession =
  co_id :: string
  co_mode :: string
  co_subscription :: "string option"
  co_metadata :: stripeMetadata
  co_amountTotal :: "int option"

record stripeInvoice =
  si_id :: string
  si_subscription :: "string option"
  si_metadata :: stripeMetadata
  si_amountPaid :: int
  si_amountDue :: int
  si_currency :: string
  si_invoicePdf :: "string option"

datatype stripeEvent =
    CheckoutSessionCompleted checkoutSession
  | SubscriptionCreated stripeSubscription
  | SubscriptionUpdated stripeSubscription
  | SubscriptionResumed stripeSubscription
  | SubscriptionDeleted stripeSubscription
  | InvoicePaid stripeInvoice
  | InvoicePaymentFailed stripeInvoice
  | OtherStripeEvent string

definition lead_finder_kind :: string where "lead_finder_kind = ''lead_finder_tier''"

section \<open>Plans and checkout\<close>

definition listPlans :: "world \<Rightarrow> plan list" where
  "listPlans w = orderAsc pl_amountCents (findMany pl_isActive (plans w))"

definition listCreditPacks :: "world \<Rightarrow> creditPack list" where
  "listCreditPacks w = orderAsc cp_credits (findMany cp_isActive (creditPacks w))"

definition stripe_checkout ::
  "req \<Rightarrow> string \<Rightarrow> (string \<times> string) list \<Rightarrow> world \<Rightarrow> string option result \<times> world" where
  "stripe_checkout q price metadata w =
     (if q_stripeUp q
      then (Inr (q_checkoutUrl q), w\<lparr>stripeCalls := stripeCalls w @ [CheckoutCreate price metadata]\<rparr>)
      else (Inl (Internal StripeError), w))"

definition createCreditsCheckoutSession ::
  "req \<Rightarrow> ident \<Rightarrow> string \<Rightarrow> nat \<Rightarrow> world \<Rightarrow> string result \<times> world" where
  "createCreditsCheckoutSession q userId packSlug quantity w =
     (case findById userId w of
        None \<Rightarrow> (Inl (NotFound Account_not_found), w)
      | Some user \<Rightarrow>
          (case findFirst (\<lambda>p. cp_slug p = packSlug) (creditPacks w) of
             None \<Rightarrow> (Inl (NotFound Credit_pack_not_found), w)
           | Some pack \<Rightarrow>
               if \<not> cp_isActive pack then (Inl (NotFound Credit_pack_not_found), w)
               else (case getOrCreateStripeCustomer q (u_id user) (u_email user) (u_fullName user) w of
                       (Inl e, w1) \<Rightarrow> (Inl e, w1)
                     | (Inr customerId, w1) \<Rightarrow>
                         (case stripe_checkout q (cp_stripePriceId pack)
                                 [(''userId'', u_id user), (''packId'', cp_id pack),
                                  (''credits'', show_nat (nat (cp_credits pack) * quantity))] w1 of
                            (Inl e, w2) \<Rightarrow> (Inl e, w2)
                          | (Inr url, w2) \<Rightarrow>
                              if \<not> truthy url then (Inl (BadRequest No_checkout_url), w2)
                              else (Inr (the url), audit_record q
                                ((entry (Some userId) Billing_credits_checkout_started)\<lparr>ae_metadata :=
                                  Some (JObj [(''packId'', JStr (cp_id pack)), (''packSlug'', JStr (cp_slug pack)),
                                              (''quantity'', JInt (int quantity))])\<rparr>) w2)))))"

text \<open>The row the code means by "the current subscription".\<close>

definition live_subscription :: "ident \<Rightarrow> subscription \<Rightarrow> bool" where
  "live_subscription userId s \<longleftrightarrow> sb_userId s = userId \<and> sb_status s \<in> set live_statuses"

definition current_subscription :: "ident \<Rightarrow> world \<Rightarrow> subscription option" where
  "current_subscription userId w =
     findFirstDesc sb_createdAt (live_subscription userId) (subscriptions w)"

definition update_subscription :: "ident \<Rightarrow> (subscription \<Rightarrow> subscription) \<Rightarrow> world \<Rightarrow> world" where
  "update_subscription i f w = w\<lparr>subscriptions := updateMany (\<lambda>s. sb_id s = i) f (subscriptions w)\<rparr>"

text \<open>Cancelling the live row whose grace period is over, before a new checkout.\<close>

definition drop_expired ::
  "req \<Rightarrow> subscription option \<Rightarrow> world \<Rightarrow> unit result \<times> world" where
  "drop_expired q existing w =
     (case existing of
        None \<Rightarrow> (Inr (), w)
      | Some s \<Rightarrow>
          (case stripe_cancel q (sb_stripeSubscriptionId s) w of
             (Inl e, w1) \<Rightarrow> (Inl e, w1)
           | (Inr _, w1) \<Rightarrow> (Inr (), update_subscription (sb_id s) cancel_subscription_row w1)))"

definition createCheckoutSession ::
  "cfg \<Rightarrow> req \<Rightarrow> ident \<Rightarrow> string \<Rightarrow> world \<Rightarrow> string result \<times> world" where
  "createCheckoutSession c q userId planSlug w =
     (case findById userId w of
        None \<Rightarrow> (Inl (NotFound Account_not_found), w)
      | Some user \<Rightarrow>
          (case findFirst (\<lambda>p. pl_slug p = planSlug) (plans w) of
             None \<Rightarrow> (Inl (NotFound Plan_not_found), w)
           | Some plan \<Rightarrow>
               if \<not> pl_isActive plan then (Inl (NotFound Plan_not_found), w)
               else (let existing = current_subscription userId w in
                 if \<exists>s. existing = Some s
                      \<and> hasActiveAccess (q_now q) (sb_status s) (sb_pastDueSince s) (c_gracePeriodDays c)
                 then (Inl (BadRequest Already_have_subscription), w)
                 else (case drop_expired q existing w of
                    (Inl e, w1) \<Rightarrow> (Inl e, w1)
                  | (Inr _, w1) \<Rightarrow>
                      (case getOrCreateStripeCustomer q (u_id user) (u_email user) (u_fullName user) w1 of
                         (Inl e, w2) \<Rightarrow> (Inl e, w2)
                       | (Inr customerId, w2) \<Rightarrow>
                           (case stripe_checkout q (pl_stripePriceId plan)
                                   [(''userId'', u_id user), (''planId'', pl_id plan)] w2 of
                              (Inl e, w3) \<Rightarrow> (Inl e, w3)
                            | (Inr url, w3) \<Rightarrow>
                                if \<not> truthy url then (Inl (BadRequest No_checkout_url), w3)
                                else (Inr (the url), audit_record q
                                  ((entry (Some userId) Billing_checkout_started)\<lparr>ae_metadata :=
                                    Some (JObj [(''planId'', JStr (pl_id plan)),
                                                (''planSlug'', JStr (pl_slug plan))])\<rparr>) w3)))))))"

definition createPortalSession :: "req \<Rightarrow> ident \<Rightarrow> world \<Rightarrow> string result \<times> world" where
  "createPortalSession q userId w =
     (if \<not> truthy (customer_of userId w) then (Inl (BadRequest No_billing_account), w)
      else if \<not> q_stripeUp q then (Inl (Internal StripeError), w)
      else (Inr (nullish (q_checkoutUrl q) []),
            w\<lparr>stripeCalls := stripeCalls w @ [PortalCreate (the (customer_of userId w))]\<rparr>))"

section \<open>Status and cancellation\<close>

record subscriptionStatusView =
  bs_status :: "subscriptionStatus option"
  bs_plan :: "string option"
  bs_currentPeriodEnd :: "time option"
  bs_cancelAtPeriodEnd :: bool
  bs_hasDirectoryAccess :: bool
  bs_daysPastDue :: "int option"

definition getStatus :: "cfg \<Rightarrow> req \<Rightarrow> ident \<Rightarrow> world \<Rightarrow> subscriptionStatusView" where
  "getStatus c q userId w =
     (let isAdmin = is_staff (map_option u_role (findById userId w));
          isComped = granted_directory userId w
      in case findFirstDesc sb_createdAt (\<lambda>s. sb_userId s = userId) (subscriptions w) of
           None \<Rightarrow> \<lparr>bs_status = None, bs_plan = None, bs_currentPeriodEnd = None,
             bs_cancelAtPeriodEnd = False, bs_hasDirectoryAccess = isAdmin \<or> isComped, bs_daysPastDue = None\<rparr>
         | Some s \<Rightarrow>
             \<lparr>bs_status = Some (sb_status s),
              bs_plan = map_option pl_name (findFirst (\<lambda>p. pl_id p = sb_planId s) (plans w)),
              bs_currentPeriodEnd = Some (sb_currentPeriodEnd s),
              bs_cancelAtPeriodEnd = sb_cancelAtPeriodEnd s,
              bs_hasDirectoryAccess = isAdmin \<or> isComped
                \<or> hasDirectoryAccess (q_now q) (sb_status s) (sb_pastDueSince s) (c_gracePeriodDays c),
              bs_daysPastDue = daysPastDue (q_now q) (sb_pastDueSince s)\<rparr>)"

definition stripe_set_cancel :: "req \<Rightarrow> string \<Rightarrow> bool \<Rightarrow> world \<Rightarrow> unit result \<times> world" where
  "stripe_set_cancel q stripeSubscriptionId b w =
     (if q_stripeUp q
      then (Inr (), w\<lparr>stripeCalls := stripeCalls w @ [SubscriptionSetCancelAtPeriodEnd stripeSubscriptionId b]\<rparr>)
      else (Inl (Internal StripeError), w))"

definition email_of :: "ident \<Rightarrow> world \<Rightarrow> string" where
  "email_of userId w = (case findById userId w of None \<Rightarrow> [] | Some u \<Rightarrow> u_email u)"

definition plan_name :: "ident \<Rightarrow> world \<Rightarrow> string" where
  "plan_name planId w = (case findFirst (\<lambda>p. pl_id p = planId) (plans w) of None \<Rightarrow> [] | Some p \<Rightarrow> pl_name p)"

definition cancel :: "req \<Rightarrow> ident \<Rightarrow> world \<Rightarrow> string result \<times> world" where
  "cancel q userId w =
     (case current_subscription userId w of
        None \<Rightarrow> (Inl (NotFound No_active_subscription), w)
      | Some s \<Rightarrow>
          (case stripe_set_cancel q (sb_stripeSubscriptionId s) True w of
             (Inl e, w1) \<Rightarrow> (Inl e, w1)
           | (Inr _, w1) \<Rightarrow>
               (let w2 = update_subscription (sb_id s) (\<lambda>x. x\<lparr>sb_cancelAtPeriodEnd := True\<rparr>) w1;
                    w3 = audit_record q ((entry (Some userId) Billing_subscription_cancel_requested)
                           \<lparr>ae_targetId := Some (sb_id s)\<rparr>) w2;
                    w4 = enqueue q (CancellationScheduledEmail (email_of (sb_userId s) w)
                           (plan_name (sb_planId s) w) (sb_currentPeriodEnd s)) w3
                in (Inr ''Your subscription will remain active until the end of the current billing period.'', w4))))"

definition resume :: "req \<Rightarrow> ident \<Rightarrow> world \<Rightarrow> string result \<times> world" where
  "resume q userId w =
     (case findFirstDesc sb_createdAt (\<lambda>s. live_subscription userId s \<and> sb_cancelAtPeriodEnd s) (subscriptions w) of
        None \<Rightarrow> (Inl (NotFound No_pending_cancellation), w)
      | Some s \<Rightarrow>
          (case stripe_set_cancel q (sb_stripeSubscriptionId s) False w of
             (Inl e, w1) \<Rightarrow> (Inl e, w1)
           | (Inr _, w1) \<Rightarrow>
               (let w2 = update_subscription (sb_id s) (\<lambda>x. x\<lparr>sb_cancelAtPeriodEnd := False\<rparr>) w1;
                    w3 = audit_record q ((entry (Some userId) Billing_subscription_resumed)
                           \<lparr>ae_targetId := Some (sb_id s)\<rparr>) w2
                in (Inr ''Your subscription will continue renewing as normal.'', w3))))"

section \<open>Stripe to local sync\<close>

definition mapStripeStatus :: "stripeStatus \<Rightarrow> subscriptionStatus" where
  "mapStripeStatus s = (case s of
       St_trialing \<Rightarrow> Sub_TRIALING
     | St_active \<Rightarrow> Sub_ACTIVE
     | St_past_due \<Rightarrow> Sub_PAST_DUE | St_unpaid \<Rightarrow> Sub_PAST_DUE | St_paused \<Rightarrow> Sub_PAST_DUE
     | St_canceled \<Rightarrow> Sub_CANCELED
     | St_incomplete \<Rightarrow> Sub_EXPIRED | St_incomplete_expired \<Rightarrow> Sub_EXPIRED)"

definition stripe_time :: "int option \<Rightarrow> time option" where
  "stripe_time t = (case t of None \<Rightarrow> None | Some x \<Rightarrow> if x = 0 then None else Some (x * 1000))"

definition mapStripeSubToUpdate ::
  "req \<Rightarrow> stripeSubscription \<Rightarrow> time option \<Rightarrow> subscription \<Rightarrow> subscription" where
  "mapStripeSubToUpdate q stripeSub currentPastDueSince s =
     (let status = mapStripeStatus (ss_status stripeSub) in
      s\<lparr>sb_status := status,
        sb_currentPeriodStart := ss_currentPeriodStart stripeSub * 1000,
        sb_currentPeriodEnd := ss_currentPeriodEnd stripeSub * 1000,
        sb_cancelAtPeriodEnd := ss_cancelAtPeriodEnd stripeSub,
        sb_trialEndsAt := stripe_time (ss_trialEnd stripeSub),
        sb_pastDueSince := (if status = Sub_PAST_DUE then Some (nullish currentPastDueSince (q_now q)) else None)\<rparr>)"

definition new_subscription :: "req \<Rightarrow> stripeSubscription \<Rightarrow> ident \<Rightarrow> ident \<Rightarrow> subscription" where
  "new_subscription q stripeSub userId planId =
     (let status = mapStripeStatus (ss_status stripeSub) in
      \<lparr>sb_id = q_newId q, sb_userId = userId, sb_planId = planId,
       sb_stripeCustomerId = ss_customer stripeSub, sb_stripeSubscriptionId = ss_id stripeSub,
       sb_status = status, sb_currentPeriodStart = ss_currentPeriodStart stripeSub * 1000,
       sb_currentPeriodEnd = ss_currentPeriodEnd stripeSub * 1000,
       sb_cancelAtPeriodEnd = ss_cancelAtPeriodEnd stripeSub,
       sb_trialEndsAt = stripe_time (ss_trialEnd stripeSub),
       sb_pastDueSince = (if status = Sub_PAST_DUE then Some (q_now q) else None),
       sb_renewalReminderSentForPeriodEnd = None, sb_createdAt = q_now q\<rparr>)"

text \<open>The partial unique index: the owners of the live rows are pairwise different.\<close>

definition one_live :: "('r \<Rightarrow> ident) \<Rightarrow> ('r \<Rightarrow> subscriptionStatus) \<Rightarrow> 'r list \<Rightarrow> bool" where
  "one_live owner status rows \<longleftrightarrow>
     unique_on owner (filter (\<lambda>r. status r \<in> set live_statuses) rows)"

definition write_subscriptions :: "subscription list \<Rightarrow> world \<Rightarrow> world result" where
  "write_subscriptions rows w =
     (if one_live sb_userId sb_status rows then Inr (w\<lparr>subscriptions := rows\<rparr>) else Inl (Internal P2002))"

definition find_by_stripe_id :: "string \<Rightarrow> world \<Rightarrow> subscription option" where
  "find_by_stripe_id x w = findFirst (\<lambda>s. sb_stripeSubscriptionId s = x) (subscriptions w)"

definition upsert_subscription ::
  "req \<Rightarrow> stripeSubscription \<Rightarrow> ident \<Rightarrow> ident \<Rightarrow> world \<Rightarrow> world result" where
  "upsert_subscription q stripeSub userId planId w =
     (case find_by_stripe_id (ss_id stripeSub) w of
        Some e \<Rightarrow> write_subscriptions
          (updateMany (\<lambda>s. sb_id s = sb_id e) (mapStripeSubToUpdate q stripeSub (sb_pastDueSince e)) (subscriptions w)) w
      | None \<Rightarrow>
          (let s = new_subscription q stripeSub userId planId in
           if sb_id s \<in> sb_id ` set (subscriptions w) then Inl (Internal P2002)
           else (case write_subscriptions (subscriptions w @ [s]) w of
                   Inl e \<Rightarrow> Inl e
                 | Inr w1 \<Rightarrow>
                     if userId \<notin> u_id ` set (users w) \<or> planId \<notin> pl_id ` set (plans w)
                     then Inl (Internal P2003) else Inr w1)))"

definition show_status :: "subscriptionStatus \<Rightarrow> string" where
  "show_status s = (case s of Sub_TRIALING \<Rightarrow> ''TRIALING'' | Sub_ACTIVE \<Rightarrow> ''ACTIVE''
     | Sub_PAST_DUE \<Rightarrow> ''PAST_DUE'' | Sub_CANCELED \<Rightarrow> ''CANCELED'' | Sub_EXPIRED \<Rightarrow> ''EXPIRED'')"

definition syncSubscriptionFromStripe ::
  "req \<Rightarrow> stripeSubscription \<Rightarrow> world \<Rightarrow> unit result \<times> world" where
  "syncSubscriptionFromStripe q stripeSub w =
     (if md_kind (ss_metadata stripeSub) = Some lead_finder_kind then (Inr (), w)
      else (let userId = md_userId (ss_metadata stripeSub);
                planId = md_planId (ss_metadata stripeSub)
            in if \<not> truthy userId \<or> \<not> truthy planId
               then (case find_by_stripe_id (ss_id stripeSub) w of
                       None \<Rightarrow> (Inr (), w)
                     | Some e \<Rightarrow>
                         (case write_subscriptions (updateMany (\<lambda>s. sb_id s = sb_id e)
                                 (mapStripeSubToUpdate q stripeSub (sb_pastDueSince e)) (subscriptions w)) w of
                            Inl err \<Rightarrow> (Inl err, w) | Inr w1 \<Rightarrow> (Inr (), w1)))
               else (case upsert_subscription q stripeSub (the userId) (the planId) w of
                       Inl err \<Rightarrow>
                         if err = Internal P2002
                         then (case stripe_cancel q (ss_id stripeSub) w of
                                 (Inl e, w1) \<Rightarrow> (Inl e, w1)
                               | (Inr _, w1) \<Rightarrow>
                                   (Inr (), audit_record q ((entry userId Billing_duplicate_subscription_prevented)
                                      \<lparr>ae_targetId := Some (ss_id stripeSub)\<rparr>) w1))
                         else (Inl err, w)
                     | Inr w1 \<Rightarrow>
                         (Inr (), audit_record q ((entry userId Billing_subscription_synced)
                            \<lparr>ae_targetId := Some (ss_id stripeSub),
                             ae_metadata := Some (JObj [(''status'',
                               JStr (show_status (mapStripeStatus (ss_status stripeSub))))])\<rparr>) w1))))"

definition sendSubscriptionConfirmedEmail :: "req \<Rightarrow> stripeSubscription \<Rightarrow> world \<Rightarrow> world" where
  "sendSubscriptionConfirmedEmail q stripeSub w =
     (let userId = md_userId (ss_metadata stripeSub); planId = md_planId (ss_metadata stripeSub)
      in if md_kind (ss_metadata stripeSub) = Some lead_finder_kind \<or> \<not> truthy userId \<or> \<not> truthy planId then w
         else (case (findById (the userId) w, findFirst (\<lambda>p. pl_id p = the planId) (plans w)) of
                 (Some user, Some plan) \<Rightarrow>
                   enqueue q (SubscriptionConfirmedEmail (u_email user) (pl_name plan) (pl_amountCents plan)
                     (ss_currentPeriodEnd stripeSub * 1000)) w
               | _ \<Rightarrow> w))"

text \<open>\<open>parseInt(s, 10)\<close>: leading white space, an optional sign, the longest run of digits.\<close>

definition is_digit :: "char \<Rightarrow> bool" where
  "is_digit ch \<longleftrightarrow> ch \<in> set ''0123456789''"

definition parseInt :: "string \<Rightarrow> int option" where
  "parseInt s =
     (let s1 = dropWhile js_space s;
          neg = (s1 \<noteq> [] \<and> hd s1 = CHR ''-'');
          s2 = (if s1 \<noteq> [] \<and> (hd s1 = CHR ''-'' \<or> hd s1 = CHR ''+'') then tl s1 else s1);
          ds = takeWhile is_digit s2
      in if ds = [] then None
         else Some (if neg then - int (decimal 0 ds) else int (decimal 0 ds)))"

text \<open>
  A credit grant is three awaited writes outside any transaction: the balance, the grant row, the
  audit row. \<open>q_dbFails q = Some k\<close> is a database that fails at the write \<open>k\<close> of the request's grant
  (from 0), which leaves the writes before it done. The balance is an \<open>Int\<close> column.
\<close>

definition INT4_MAX :: int where "INT4_MAX = 2147483647"

definition grant_credits ::
  "req \<Rightarrow> ident \<Rightarrow> int \<Rightarrow> creditGrantSource \<Rightarrow> int option \<Rightarrow> string \<Rightarrow> auditEntry \<Rightarrow> world \<Rightarrow> unit result \<times> world" where
  "grant_credits q userId credits source amountPaid reference audit w =
     (case findById userId w of
        None \<Rightarrow> (Inl (Internal P2025), w)
      | Some u \<Rightarrow>
          if q_dbFails q = Some 0 \<or> INT4_MAX < u_leadFinderCredits u + credits then (Inl (Internal DatabaseError), w)
          else (let w1 = update_user userId (\<lambda>u. u\<lparr>u_leadFinderCredits := u_leadFinderCredits u + credits\<rparr>) w
                in if q_dbFails q = Some 1 then (Inl (Internal DatabaseError), w1)
                   else (let w2 = w1\<lparr>creditGrants := creditGrants w1 @
                              [\<lparr>cg_userId = userId, cg_credits = credits, cg_source = source,
                                cg_amountPaidCents = amountPaid, cg_stripeReference = Some reference,
                                cg_createdAt = q_now q\<rparr>]\<rparr>
                         in if q_dbFails q = Some 2 then (Inl (Internal DatabaseError), w2)
                            else (Inr (), audit_record q audit w2))))"

definition handleCreditsCheckoutCompleted ::
  "req \<Rightarrow> checkoutSession \<Rightarrow> world \<Rightarrow> unit result \<times> world" where
  "handleCreditsCheckoutCompleted q session w =
     (let userId = md_userId (co_metadata session);
          credits = (if truthy (md_credits (co_metadata session))
                     then parseInt (the (md_credits (co_metadata session))) else None)
      in if \<not> truthy userId \<or> credits = None \<or> the credits \<le> 0 then (Inr (), w)
         else grant_credits q (the userId) (the credits) CREDIT_PACK_PURCHASE
                (co_amountTotal session) (co_id session)
                ((entry userId Billing_credits_purchased)\<lparr>ae_metadata :=
                    Some (JObj [(''credits'', JInt (the credits)), (''sessionId'', JStr (co_id session))])\<rparr>) w)"

definition markPastDue :: "cfg \<Rightarrow> req \<Rightarrow> string \<Rightarrow> world \<Rightarrow> unit result \<times> world" where
  "markPastDue c q stripeSubscriptionId w =
     (case find_by_stripe_id stripeSubscriptionId w of
        None \<Rightarrow> (Inr (), w)
      | Some e \<Rightarrow>
          (case write_subscriptions (updateMany (\<lambda>s. sb_id s = sb_id e)
                  (\<lambda>s. s\<lparr>sb_status := Sub_PAST_DUE,
                         sb_pastDueSince := Some (nullish (sb_pastDueSince e) (q_now q))\<rparr>) (subscriptions w)) w of
             Inl err \<Rightarrow> (Inl err, w)
           | Inr w1 \<Rightarrow>
               (Inr (), if sb_pastDueSince e = None
                  then enqueue q (PaymentFailedEmail (email_of (sb_userId e) w) (plan_name (sb_planId e) w)
                         (c_gracePeriodDays c)) w1
                  else w1)))"

definition syncInvoiceFromStripe ::
  "req \<Rightarrow> stripeInvoice \<Rightarrow> invoiceStatus \<Rightarrow> world \<Rightarrow> world" where
  "syncInvoiceFromStripe q sinv status w =
     (if \<not> truthy (si_subscription sinv) then w
      else (case find_by_stripe_id (the (si_subscription sinv)) w of
              None \<Rightarrow> w
            | Some localSub \<Rightarrow>
                (let amount = (if si_amountPaid sinv \<noteq> 0 then si_amountPaid sinv else si_amountDue sinv);
                     paidAt = (if status = Inv_PAID then Some (q_now q) else None)
                 in if \<exists>i \<in> set (invoices w). in_stripeInvoiceId i = si_id sinv
                    then w\<lparr>invoices := updateMany (\<lambda>i. in_stripeInvoiceId i = si_id sinv)
                           (\<lambda>i. i\<lparr>in_status := status, in_amountCents := amount,
                                  in_pdfUrl := si_invoicePdf sinv, in_paidAt := paidAt\<rparr>) (invoices w)\<rparr>
                    else w\<lparr>invoices := invoices w @
                           [\<lparr>in_subscriptionId = sb_id localSub, in_stripeInvoiceId = si_id sinv,
                             in_amountCents = amount, in_currency = si_currency sinv, in_status = status,
                             in_pdfUrl = si_invoicePdf sinv, in_paidAt = paidAt\<rparr>]\<rparr>)))"

definition cancel_by_stripe_id :: "string \<Rightarrow> world \<Rightarrow> world" where
  "cancel_by_stripe_id x w =
     w\<lparr>subscriptions := updateMany (\<lambda>s. sb_stripeSubscriptionId s = x)
         (\<lambda>s. s\<lparr>sb_status := Sub_CANCELED\<rparr>) (subscriptions w)\<rparr>"

definition handleWebhookEvent ::
  "cfg \<Rightarrow> req \<Rightarrow> (string \<Rightarrow> stripeSubscription) \<Rightarrow> stripeEvent \<Rightarrow> world \<Rightarrow> unit result \<times> world" where
  "handleWebhookEvent c q retrieve event w =
     (case event of
        CheckoutSessionCompleted session \<Rightarrow>
          if co_mode session = ''payment'' then handleCreditsCheckoutCompleted q session w
          else if co_mode session \<noteq> ''subscription'' \<or> \<not> truthy (co_subscription session) then (Inr (), w)
          else if \<not> q_stripeUp q then (Inl (Internal StripeError), w)
          else (let stripeSub = retrieve (the (co_subscription session));
                    w0 = w\<lparr>stripeCalls := stripeCalls w @ [SubscriptionRetrieve (the (co_subscription session))]\<rparr>
                in case syncSubscriptionFromStripe q stripeSub w0 of
                     (Inl e, w1) \<Rightarrow> (Inl e, w1)
                   | (Inr _, w1) \<Rightarrow> (Inr (), sendSubscriptionConfirmedEmail q stripeSub w1))
      | SubscriptionCreated stripeSub \<Rightarrow> syncSubscriptionFromStripe q stripeSub w
      | SubscriptionUpdated stripeSub \<Rightarrow> syncSubscriptionFromStripe q stripeSub w
      | SubscriptionResumed stripeSub \<Rightarrow> syncSubscriptionFromStripe q stripeSub w
      | SubscriptionDeleted stripeSub \<Rightarrow> (Inr (), cancel_by_stripe_id (ss_id stripeSub) w)
      | InvoicePaid sinv \<Rightarrow> (Inr (), syncInvoiceFromStripe q sinv Inv_PAID w)
      | InvoicePaymentFailed sinv \<Rightarrow>
          (let w1 = syncInvoiceFromStripe q sinv Inv_OPEN w
           in if truthy (si_subscription sinv) then markPastDue c q (the (si_subscription sinv)) w1
              else (Inr (), w1))
      | OtherStripeEvent _ \<Rightarrow> (Inr (), w))"

end
