(* ===== verification/SubscriptionProperties.thy ===== *)
theory SubscriptionProperties
  imports Subscriptions
begin

text \<open>
  What the Directory billing guarantees: at most one live subscription per user whatever events
  arrive, duplicates cancelled at Stripe, a grace period that repeated failures do not extend,
  credits granted as stamped at checkout; and the places where the code falls short of it.

  The locale \<open>subscription_store\<close> is the interface of a table with the partial unique index, which
  both subscription tables provide.
\<close>

section \<open>Tables with one live row per user\<close>

lemma live_owners_updateMany:
  assumes "\<And>r. owner (f r) = owner r" and "\<And>r. p r \<Longrightarrow> status (f r) \<in> L \<Longrightarrow> status r \<in> L"
  shows "owner ` set (filter (\<lambda>r. status r \<in> L) (updateMany p f rows)) \<subseteq>
    owner ` set (filter (\<lambda>r. status r \<in> L) rows)"
  using assms by (induction rows) auto

lemma one_live_updateMany:
  assumes "\<And>r. owner (f r) = owner r" and "\<And>r. p r \<Longrightarrow> status (f r) \<in> set live_statuses \<Longrightarrow> status r \<in> set live_statuses"
    and "one_live owner status rows"
  shows "one_live owner status (updateMany p f rows)"
  using assms(3)
proof (induction rows)
  case (Cons r rows)
  have sub: "owner ` set (filter (\<lambda>r. status r \<in> set live_statuses) (updateMany p f rows)) \<subseteq>
      owner ` set (filter (\<lambda>r. status r \<in> set live_statuses) rows)"
    using assms(1,2) by (rule live_owners_updateMany)
  have "one_live owner status (updateMany p f rows)"
    using Cons by (simp add: one_live_def unique_on_def split: if_splits)
  moreover have "owner r \<notin> owner ` set (filter (\<lambda>r. status r \<in> set live_statuses) (updateMany p f rows))"
    if "status r \<in> set live_statuses"
    using that Cons.prems sub by (auto simp: one_live_def unique_on_def)
  ultimately show ?case
    using assms(1,2) [of r] by (auto simp: one_live_def unique_on_def)
qed (simp add: one_live_def unique_on_def)

lemma one_liveD:
  assumes "one_live owner status rows" "r \<in> set rows" "r' \<in> set rows"
    "status r \<in> set live_statuses" "status r' \<in> set live_statuses" "owner r = owner r'"
  shows "r = r'"
  using assms unique_onD [of owner "filter (\<lambda>r. status r \<in> set live_statuses) rows" r r']
  by (simp add: one_live_def)

locale subscription_store =
  fixes rows :: "world \<Rightarrow> 'r list"
    and owner :: "'r \<Rightarrow> ident"
    and status :: "'r \<Rightarrow> subscriptionStatus"
    and "write" :: "'r list \<Rightarrow> world \<Rightarrow> world result"
  assumes write_accepts: "one_live owner status rs \<Longrightarrow> \<exists>w'. write rs w = Inr w' \<and> rows w' = rs"
    and write_rejects: "\<not> one_live owner status rs \<Longrightarrow> write rs w = Inl (Internal P2002)"
begin

definition live_row :: "ident \<Rightarrow> 'r \<Rightarrow> bool" where
  "live_row i r \<longleftrightarrow> owner r = i \<and> status r \<in> set live_statuses"

lemma write_Inr: "write rs w = Inr w' \<Longrightarrow> rows w' = rs \<and> one_live owner status rs"
  using write_accepts [of rs w] write_rejects [of rs w] by (cases "one_live owner status rs") auto

text \<open>With one live row per user the order of a query for it does not matter.\<close>

lemma current_unambiguous:
  assumes "one_live owner status (rows w)"
  shows "findFirstDesc key (live_row i) (rows w) = findFirst (live_row i) (rows w)"
proof (cases "findFirst (live_row i) (rows w)")
  case None
  then have "findFirstDesc key (live_row i) (rows w) = None"
    by (simp add: findFirst_None_iff findFirstDesc_None_iff)
  with None show ?thesis by simp
next
  case (Some r)
  note r = findFirst_SomeD [OF Some]
  then have "findFirstDesc key (live_row i) (rows w) \<noteq> None" by (auto simp: findFirstDesc_None_iff)
  then obtain r' where r': "findFirstDesc key (live_row i) (rows w) = Some r'" by blast
  have "r' = r" using findFirstDesc_SomeD [OF r'] r assms
    unfolding live_row_def by (metis one_liveD)
  with r' Some show ?thesis by simp
qed

text \<open>A second live row of a user is refused by the database.\<close>

lemma duplicate_refused:
  assumes "r \<in> set (rows w)" "live_row i r" "live_row i n"
  shows "write (rows w @ [n]) v = Inl (Internal P2002)"
proof (rule write_rejects)
  show "\<not> one_live owner status (rows w @ [n])"
    using assms by (auto simp: one_live_def unique_on_def live_row_def)
qed

end

lemma write_subscriptions_Inr:
  "write_subscriptions rows w = Inr w' \<Longrightarrow> w' = w\<lparr>subscriptions := rows\<rparr> \<and> one_live sb_userId sb_status rows"
  by (auto simp: write_subscriptions_def split: if_splits)

interpretation directory: subscription_store subscriptions sb_userId sb_status write_subscriptions
  by unfold_locales (auto simp: write_subscriptions_def)

section \<open>The invariant\<close>

definition subs_ok :: "world \<Rightarrow> bool" where
  "subs_ok w \<longleftrightarrow> unique_on sb_id (subscriptions w) \<and> unique_on sb_stripeSubscriptionId (subscriptions w)
     \<and> one_live sb_userId sb_status (subscriptions w)"

lemma subs_ok_cong: "subscriptions w' = subscriptions w \<Longrightarrow> subs_ok w' = subs_ok w"
  by (simp add: subs_ok_def)

lemma subs_ok_updateMany:
  assumes "subs_ok w" "subscriptions w' = updateMany p f (subscriptions w)"
    and "\<And>s. sb_id (f s) = sb_id s" "\<And>s. sb_stripeSubscriptionId (f s) = sb_stripeSubscriptionId s"
    and "one_live sb_userId sb_status (updateMany p f (subscriptions w))"
  shows "subs_ok w'"
  using assms by (simp add: subs_ok_def unique_on_updateMany)

lemma subs_ok_lower:
  assumes "subs_ok w" "subscriptions w' = updateMany p f (subscriptions w)"
    and "\<And>s. sb_id (f s) = sb_id s" "\<And>s. sb_stripeSubscriptionId (f s) = sb_stripeSubscriptionId s"
    and "\<And>s. sb_userId (f s) = sb_userId s" "\<And>s. p s \<Longrightarrow> sb_status (f s) \<in> set live_statuses \<Longrightarrow> sb_status s \<in> set live_statuses"
  shows "subs_ok w'"
  using assms(1-4)
  by (rule subs_ok_updateMany) (use assms in \<open>auto intro!: one_live_updateMany simp: subs_ok_def\<close>)

lemma mapStripeSubToUpdate_simps [simp]:
  "sb_id (mapStripeSubToUpdate q x p s) = sb_id s"
  "sb_userId (mapStripeSubToUpdate q x p s) = sb_userId s"
  "sb_stripeSubscriptionId (mapStripeSubToUpdate q x p s) = sb_stripeSubscriptionId s"
  "sb_status (mapStripeSubToUpdate q x p s) = mapStripeStatus (ss_status x)"
  "sb_pastDueSince (mapStripeSubToUpdate q x p s) =
     (if mapStripeStatus (ss_status x) = Sub_PAST_DUE then Some (nullish p (q_now q)) else None)"
  by (simp_all add: mapStripeSubToUpdate_def Let_def)

lemma cancel_subscription_row_simps [simp]:
  "sb_id (cancel_subscription_row s) = sb_id s"
  "sb_userId (cancel_subscription_row s) = sb_userId s"
  "sb_stripeSubscriptionId (cancel_subscription_row s) = sb_stripeSubscriptionId s"
  "sb_status (cancel_subscription_row s) = Sub_CANCELED"
  by (simp_all add: cancel_subscription_row_def)

lemma new_subscription_simps [simp]:
  "sb_id (new_subscription q x u p) = q_newId q"
  "sb_userId (new_subscription q x u p) = u"
  "sb_stripeSubscriptionId (new_subscription q x u p) = ss_id x"
  "sb_status (new_subscription q x u p) = mapStripeStatus (ss_status x)"
  by (simp_all add: new_subscription_def Let_def)

lemma upsert_Inr:
  assumes "upsert_subscription q x u p w = Inr w'"
  shows "\<exists>rows. w' = w\<lparr>subscriptions := rows\<rparr>"
  using assms
  by (auto simp: upsert_subscription_def Let_def split: option.splits sum.splits if_splits
      dest!: write_subscriptions_Inr)

lemma subs_ok_upsert:
  assumes "subs_ok w" "upsert_subscription q x u p w = Inr w'"
  shows "subs_ok w'"
proof (cases "find_by_stripe_id (ss_id x) w")
  case None
  with assms(2) have "sb_id (new_subscription q x u p) \<notin> sb_id ` set (subscriptions w)"
    and wr: "write_subscriptions (subscriptions w @ [new_subscription q x u p]) w = Inr w'"
    by (auto simp: upsert_subscription_def Let_def split: if_splits sum.splits)
  moreover have "ss_id x \<notin> sb_stripeSubscriptionId ` set (subscriptions w)"
    using None by (auto simp: find_by_stripe_id_def findFirst_None_iff)
  ultimately show ?thesis
    using assms(1) write_subscriptions_Inr [OF wr] by (auto simp: subs_ok_def unique_on_snoc)
next
  case (Some e)
  then have wr: "write_subscriptions (updateMany (\<lambda>s. sb_id s = sb_id e)
      (mapStripeSubToUpdate q x (sb_pastDueSince e)) (subscriptions w)) w = Inr w'"
    using assms(2) by (simp add: upsert_subscription_def)
  note wd = write_subscriptions_Inr [OF wr]
  show ?thesis
    by (rule subs_ok_updateMany [OF assms(1), where p = "\<lambda>s. sb_id s = sb_id e"
          and f = "mapStripeSubToUpdate q x (sb_pastDueSince e)"]) (use wd in auto)
qed

lemma subscriptions_stripe_cancel [simp]: "subscriptions (snd (stripe_cancel q x w)) = subscriptions w"
  by (simp add: stripe_cancel_def)

lemma subs_ok_sync:
  assumes "subs_ok w"
  shows "subs_ok (snd (syncSubscriptionFromStripe q x w))"
proof -
  have fallback: "subs_ok w1" if "find_by_stripe_id (ss_id x) w = Some e"
    "write_subscriptions (updateMany (\<lambda>s. sb_id s = sb_id e)
        (mapStripeSubToUpdate q x (sb_pastDueSince e)) (subscriptions w)) w = Inr w1" for e w1
    by (rule subs_ok_updateMany [OF assms, where p = "\<lambda>s. sb_id s = sb_id e"
          and f = "mapStripeSubToUpdate q x (sb_pastDueSince e)"])
      (use write_subscriptions_Inr [OF that(2)] in auto)
  have canc: "subs_ok (snd (stripe_cancel q y w))" for y
    using assms by (simp add: subs_ok_def)
  have canc': "stripe_cancel q y w = (r, w1) \<Longrightarrow> subs_ok w1" for y r w1
    using canc [of y] by simp
  show ?thesis
    using assms fallback subs_ok_upsert [OF assms] canc'
    by (auto simp: syncSubscriptionFromStripe_def Let_def subs_ok_cong [of "audit_record a b c" c for a b c]
        split: option.splits sum.splits prod.splits)
qed

lemma subscriptions_sendConfirmed [simp]:
  "subscriptions (sendSubscriptionConfirmedEmail q x w) = subscriptions w"
  by (auto simp: sendSubscriptionConfirmedEmail_def Let_def split: option.splits)

lemma subscriptions_syncInvoice [simp]: "subscriptions (syncInvoiceFromStripe q i st w) = subscriptions w"
  by (auto simp: syncInvoiceFromStripe_def Let_def split: option.splits)

lemma subscriptions_creditsCompleted [simp]:
  "subscriptions (snd (handleCreditsCheckoutCompleted q s w)) = subscriptions w"
  by (auto simp: handleCreditsCheckoutCompleted_def Let_def grant_credits_def split: option.splits)

lemma subs_ok_markPastDue: "subs_ok w \<Longrightarrow> subs_ok (snd (markPastDue c q x w))"
  unfolding markPastDue_def
  by (auto split: option.splits sum.splits dest!: write_subscriptions_Inr
      intro: subs_ok_updateMany simp: subs_ok_cong [of "enqueue a b c" c for a b c])

lemma subs_ok_handleWebhookEvent:
  assumes "subs_ok w"
  shows "subs_ok (snd (handleWebhookEvent c q retrieve ev w))"
proof (cases ev)
  case (CheckoutSessionCompleted s)
  let ?w0 = "w\<lparr>stripeCalls := stripeCalls w @ [SubscriptionRetrieve (the (co_subscription s))]\<rparr>"
  let ?x = "retrieve (the (co_subscription s))"
  have "subs_ok (snd (syncSubscriptionFromStripe q ?x ?w0))"
    using assms by (intro subs_ok_sync) (simp add: subs_ok_def)
  then show ?thesis
    using assms by (cases "syncSubscriptionFromStripe q ?x ?w0")
      (auto simp: handleWebhookEvent_def CheckoutSessionCompleted Let_def subs_ok_def split: sum.splits)
next
  case (SubscriptionDeleted x)
  have "subs_ok (cancel_by_stripe_id (ss_id x) w)"
    by (rule subs_ok_lower [OF assms, where p = "\<lambda>s. sb_stripeSubscriptionId s = ss_id x"
          and f = "\<lambda>s. s\<lparr>sb_status := Sub_CANCELED\<rparr>"]) (auto simp: cancel_by_stripe_id_def live_statuses_def)
  then show ?thesis by (simp add: handleWebhookEvent_def SubscriptionDeleted)
next
  case (InvoicePaid i)
  with assms show ?thesis by (simp add: handleWebhookEvent_def subs_ok_def)
next
  case (InvoicePaymentFailed i)
  have "subs_ok (syncInvoiceFromStripe q i Inv_OPEN w)" using assms by (simp add: subs_ok_def)
  then show ?thesis
    by (auto simp: handleWebhookEvent_def InvoicePaymentFailed Let_def intro: subs_ok_markPastDue)
qed (use assms in \<open>auto simp: handleWebhookEvent_def intro: subs_ok_sync\<close>)

section \<open>The account contract\<close>

text \<open>A write that leaves the account tables alone and only appends to the audit log.\<close>

definition same_accounts :: "world \<Rightarrow> world \<Rightarrow> bool" where
  "same_accounts w w' \<longleftrightarrow> users w' = users w \<and> devices w' = devices w \<and> sessions w' = sessions w
     \<and> verificationTokens w' = verificationTokens w \<and> extends_audit w w'"

lemma same_accounts_refl [simp]: "same_accounts w w"
  by (simp add: same_accounts_def)

lemma same_accounts_trans: "same_accounts w1 w2 \<Longrightarrow> same_accounts w2 w3 \<Longrightarrow> same_accounts w1 w3"
  by (auto simp: same_accounts_def intro: extends_audit_trans)

lemma same_accounts_keeps: "same_accounts w w' \<Longrightarrow> auth_keeps c t w w'"
  by (simp add: same_accounts_def auth_keeps_frame)

lemma same_accounts_after [simp]:
  "same_accounts w w' \<Longrightarrow> same_accounts w (audit_record q e w')"
  "same_accounts w w' \<Longrightarrow> same_accounts w (enqueue q j w')"
  "same_accounts w w' \<Longrightarrow> same_accounts w (w'\<lparr>stripeCalls := x\<rparr>)"
  "same_accounts w w' \<Longrightarrow> same_accounts w (w'\<lparr>subscriptions := rows\<rparr>)"
  "same_accounts w w' \<Longrightarrow> same_accounts w (w'\<lparr>invoices := ivs\<rparr>)"
  "same_accounts w w' \<Longrightarrow> same_accounts w (update_subscription i f w')"
  by (auto simp: same_accounts_def extends_audit_def update_subscription_def audit_record_def)

lemma same_accounts_stripe:
  "same_accounts w (snd (stripe_cancel q x w))"
  "same_accounts w (snd (stripe_set_cancel q x b w))"
  "same_accounts w (snd (stripe_checkout q p m w))"
  by (simp_all add: stripe_cancel_def stripe_set_cancel_def stripe_checkout_def)

lemma same_accounts_sync: "same_accounts w (snd (syncSubscriptionFromStripe q x w))"
proof -
  have u: "same_accounts w w1" if "upsert_subscription q x u p w = Inr w1" for u p w1
    using upsert_Inr [OF that] by auto
  have c: "same_accounts w w1" if "stripe_cancel q y w = (r, w1)" for y r w1
    using same_accounts_stripe(1) [of w q y] that by simp
  show ?thesis
    using u c by (auto simp: syncSubscriptionFromStripe_def Let_def
        split: option.splits sum.splits prod.splits dest!: write_subscriptions_Inr)
qed

lemma same_accounts_sendConfirmed: "same_accounts w (sendSubscriptionConfirmedEmail q x w)"
  by (auto simp: sendSubscriptionConfirmedEmail_def Let_def split: option.splits)

lemma same_accounts_syncInvoice: "same_accounts w (syncInvoiceFromStripe q i st w)"
  by (auto simp: syncInvoiceFromStripe_def Let_def split: option.splits)

lemma same_accounts_markPastDue: "same_accounts w (snd (markPastDue c q x w))"
  by (auto simp: markPastDue_def split: option.splits sum.splits dest!: write_subscriptions_Inr)

lemma auth_keeps_grant_credits: "auth_keeps c t w (snd (grant_credits q i n src a r e w))"
proof -
  let ?w1 = "update_user i (\<lambda>u. u\<lparr>u_leadFinderCredits := u_leadFinderCredits u + n\<rparr>) w"
  have w1: "auth_keeps c t w ?w1" by (simp add: auth_keeps_update_user)
  have g: "auth_keeps c t ?w1 (?w1\<lparr>creditGrants := x\<rparr>)" for x
    by (rule auth_keeps_frame) (auto intro: extends_audit_eq)
  have w2: "auth_keeps c t w (?w1\<lparr>creditGrants := x\<rparr>)" for x
    by (rule auth_keeps_trans [OF w1 g])
  have w3: "auth_keeps c t w (audit_record q e (?w1\<lparr>creditGrants := x\<rparr>))" for x
    by (rule auth_keeps_after(1) [OF w2])
  show ?thesis
    by (simp add: grant_credits_def Let_def w1 w2 w3 split: option.splits)
qed

lemma auth_keeps_creditsCompleted: "auth_keeps c t w (snd (handleCreditsCheckoutCompleted q s w))"
  by (simp add: handleCreditsCheckoutCompleted_def Let_def auth_keeps_grant_credits)

lemma auth_keeps_claim: "auth_keeps c t w (snd (claim_customer i x w))"
  by (rule auth_keeps_users)
    (auto simp: users_claim_customer image_updateMany users_ok_claim intro: extends_audit_eq)

lemma auth_keeps_getOrCreate: "auth_keeps c t w (snd (getOrCreateStripeCustomer q i e n w))"
proof -
  have "same_accounts w (snd (create_customer q i e n w))" by (simp add: create_customer_def)
  then have "auth_keeps c t w (snd (create_customer q i e n w))" by (rule same_accounts_keeps)
  moreover have "auth_keeps c t w w1 \<Longrightarrow> auth_keeps c t w (snd (claim_customer i x w1))" for w1 x
    using auth_keeps_claim auth_keeps_trans by blast
  ultimately show ?thesis
    by (cases "create_customer q i e n w")
      (auto simp: getOrCreateStripeCustomer_def case_prod_beta split: sum.splits)
qed

lemma auth_keeps_handleWebhookEvent: "auth_keeps c t w (snd (handleWebhookEvent c' q retrieve ev w))"
proof (cases ev)
  case (CheckoutSessionCompleted s)
  let ?w0 = "w\<lparr>stripeCalls := stripeCalls w @ [SubscriptionRetrieve (the (co_subscription s))]\<rparr>"
  let ?x = "retrieve (the (co_subscription s))"
  have "same_accounts w (snd (syncSubscriptionFromStripe q ?x ?w0))"
    by (rule same_accounts_trans [OF _ same_accounts_sync]) simp
  then have "auth_keeps c t w (snd (syncSubscriptionFromStripe q ?x ?w0))"
    "auth_keeps c t w (sendSubscriptionConfirmedEmail q ?x (snd (syncSubscriptionFromStripe q ?x ?w0)))"
    using same_accounts_trans [OF _ same_accounts_sendConfirmed] same_accounts_keeps by blast+
  then show ?thesis
    using auth_keeps_creditsCompleted
    by (cases "syncSubscriptionFromStripe q ?x ?w0")
      (auto simp: handleWebhookEvent_def CheckoutSessionCompleted Let_def split: sum.splits)
next
  case (SubscriptionDeleted x)
  have "same_accounts w (cancel_by_stripe_id (ss_id x) w)"
    by (simp add: cancel_by_stripe_id_def)
  then show ?thesis by (simp add: handleWebhookEvent_def SubscriptionDeleted same_accounts_keeps)
next
  case (InvoicePaymentFailed i)
  have "same_accounts w (snd (markPastDue c' q x (syncInvoiceFromStripe q i Inv_OPEN w)))" for x
    using same_accounts_syncInvoice same_accounts_markPastDue by (rule same_accounts_trans)
  then show ?thesis
    by (auto simp: handleWebhookEvent_def InvoicePaymentFailed Let_def same_accounts_keeps same_accounts_syncInvoice)
qed (auto simp: handleWebhookEvent_def same_accounts_keeps same_accounts_sync same_accounts_syncInvoice)

section \<open>Checkout\<close>

lemma drop_expired_effect:
  "same_accounts w (snd (drop_expired q e w)) \<and> users (snd (drop_expired q e w)) = users w
   \<and> (subs_ok w \<longrightarrow> subs_ok (snd (drop_expired q e w)))"
proof (cases e)
  case (Some s)
  have "subs_ok w \<Longrightarrow> subs_ok (update_subscription (sb_id s) cancel_subscription_row (w\<lparr>stripeCalls := x\<rparr>))" for x
    by (erule subs_ok_lower [where p = "\<lambda>x. sb_id x = sb_id s" and f = cancel_subscription_row])
      (auto simp: update_subscription_def live_statuses_def)
  with Some show ?thesis
    by (auto simp: drop_expired_def stripe_cancel_def subs_ok_def update_subscription_def same_accounts_def
        extends_audit_def)
qed (simp add: drop_expired_def)

lemma subscriptions_stripe_checkout [simp]:
  "subscriptions (snd (stripe_checkout q p m w)) = subscriptions w"
  by (simp add: stripe_checkout_def)

lemma result_chain:
  assumes "P (snd x)" and "\<And>v w. fst x = Inr v \<Longrightarrow> P w \<Longrightarrow> w = snd x \<Longrightarrow> P (snd (g v w))"
  shows "P (snd (case x of (Inl e, w) \<Rightarrow> (Inl e, w) | (Inr v, w) \<Rightarrow> g v w))"
  using assms by (cases x; cases "fst x") auto

lemma checkout_keeps:
  "auth_keeps c t w (snd (createCheckoutSession c' q i slug w))
   \<and> (subs_ok w \<longrightarrow> subs_ok (snd (createCheckoutSession c' q i slug w)))"
proof -
  define P where "P w' \<longleftrightarrow> auth_keeps c t w w' \<and> (subs_ok w \<longrightarrow> subs_ok w')" for w'
  have P0: "P w" by (simp add: P_def)
  have d: "P (snd (drop_expired q e w))" for e
    using drop_expired_effect [of w q e] same_accounts_keeps unfolding P_def by blast
  have g: "P (snd (getOrCreateStripeCustomer q a b n w1))" if "P w1" for a b n w1
    using that auth_keeps_trans [OF _ auth_keeps_getOrCreate] unfolding P_def
    by (simp add: subs_ok_cong [of "snd (getOrCreateStripeCustomer q a b n w1)" w1])
  have k: "P (snd (stripe_checkout q p m w1))" if "P w1" for p m w1
    using that auth_keeps_trans [OF _ same_accounts_keeps [OF same_accounts_stripe(3)]] unfolding P_def
    by (simp add: subs_ok_cong [of "snd (stripe_checkout q p m w1)" w1])
  have a: "P (audit_record q e w1)" if "P w1" for e w1
    using that unfolding P_def by (auto simp: subs_ok_cong [of "audit_record q e w1" w1] intro: auth_keeps_after)
  have "P (snd (createCheckoutSession c' q i slug w))"
    unfolding createCheckoutSession_def
    by (auto simp: Let_def P0 split: option.splits intro!: result_chain [where P = P] d g k a)
  then show ?thesis by (simp add: P_def)
qed

lemma credits_checkout_keeps:
  "auth_keeps c t w (snd (createCreditsCheckoutSession q i slug n w))
   \<and> subscriptions (snd (createCreditsCheckoutSession q i slug n w)) = subscriptions w"
proof -
  define P where "P w' \<longleftrightarrow> auth_keeps c t w w' \<and> subscriptions w' = subscriptions w" for w'
  have P0: "P w" by (simp add: P_def)
  have g: "P (snd (getOrCreateStripeCustomer q a b n w))" for a b n
    by (simp add: P_def auth_keeps_getOrCreate)
  have k: "P (snd (stripe_checkout q p m w1))" if "P w1" for p m w1
    using that auth_keeps_trans [OF _ same_accounts_keeps [OF same_accounts_stripe(3)]] by (simp add: P_def)
  have a: "P (audit_record q e w1)" if "P w1" for e w1
    using that by (auto simp: P_def intro: auth_keeps_after)
  have "P (snd (createCreditsCheckoutSession q i slug n w))"
    unfolding createCreditsCheckoutSession_def
    by (auto simp: P0 split: option.splits intro!: result_chain [where P = P] g k a)
  then show ?thesis by (simp add: P_def)
qed

lemma cancel_resume_keeps:
  "same_accounts w (snd (cancel q i w)) \<and> (subs_ok w \<longrightarrow> subs_ok (snd (cancel q i w)))"
  "same_accounts w (snd (resume q i w)) \<and> (subs_ok w \<longrightarrow> subs_ok (snd (resume q i w)))"
proof -
  have u: "subs_ok w \<Longrightarrow> subs_ok (w\<lparr>stripeCalls := y, subscriptions := updateMany (\<lambda>s. sb_id s = x)
      (\<lambda>s. s\<lparr>sb_cancelAtPeriodEnd := b\<rparr>) (subscriptions w)\<rparr>)" for x y b
    by (erule subs_ok_lower [where p = "\<lambda>s. sb_id s = x" and f = "\<lambda>s. s\<lparr>sb_cancelAtPeriodEnd := b\<rparr>"]) auto
  then have u': "subs_ok w \<Longrightarrow> subscriptions w' = updateMany (\<lambda>s. sb_id s = x)
      (\<lambda>s. s\<lparr>sb_cancelAtPeriodEnd := b\<rparr>) (subscriptions w) \<Longrightarrow> subs_ok w'" for x b w'
    by (simp add: subs_ok_def)
  show "same_accounts w (snd (cancel q i w)) \<and> (subs_ok w \<longrightarrow> subs_ok (snd (cancel q i w)))"
    by (auto simp: cancel_def stripe_set_cancel_def Let_def split: option.splits
        intro: u' simp: update_subscription_def)
  show "same_accounts w (snd (resume q i w)) \<and> (subs_ok w \<longrightarrow> subs_ok (snd (resume q i w)))"
    by (auto simp: resume_def stripe_set_cancel_def Let_def split: option.splits
        intro: u' simp: update_subscription_def)
qed

lemma portal_keeps: "same_accounts w (snd (createPortalSession q i w))"
  "subscriptions (snd (createPortalSession q i w)) = subscriptions w"
  by (simp_all add: createPortalSession_def)

text \<open>One request to, or one event for, the Directory billing.\<close>

inductive directory_step :: "cfg \<Rightarrow> req \<Rightarrow> world \<Rightarrow> world \<Rightarrow> bool" for c q w where
  step_creditsCheckout: "directory_step c q w (snd (createCreditsCheckoutSession q i slug n w))"
| step_checkout: "directory_step c q w (snd (createCheckoutSession c q i slug w))"
| step_portal: "directory_step c q w (snd (createPortalSession q i w))"
| step_cancel: "directory_step c q w (snd (cancel q i w))"
| step_resume: "directory_step c q w (snd (resume q i w))"
| step_event: "directory_step c q w (snd (handleWebhookEvent c q retrieve ev w))"

lemma directory_step_keeps:
  "directory_step c q w w' \<Longrightarrow> auth_keeps c (q_now q) w w' \<and> (subs_ok w \<longrightarrow> subs_ok w')"
proof (induction rule: directory_step.induct)
  case (step_creditsCheckout i slug n)
  show ?case using credits_checkout_keeps [of c "q_now q" w q i slug n]
      subs_ok_cong [of "snd (createCreditsCheckoutSession q i slug n w)" w] by simp
next
  case (step_checkout i slug)
  show ?case by (rule checkout_keeps)
next
  case (step_portal i)
  show ?case using portal_keeps(1) [of w q i] portal_keeps(2) [of q i w] subs_ok_cong [of "snd (createPortalSession q i w)" w]
    by (simp add: same_accounts_keeps)
next
  case (step_cancel i)
  show ?case using cancel_resume_keeps(1) [of w q i] by (simp add: same_accounts_keeps)
next
  case (step_resume i)
  show ?case using cancel_resume_keeps(2) [of w q i] by (simp add: same_accounts_keeps)
next
  case (step_event retrieve ev)
  show ?case by (simp add: auth_keeps_handleWebhookEvent subs_ok_handleWebhookEvent)
qed

interpretation directory_service: account_service directory_step
  by unfold_locales (simp add: directory_step_keeps)

section \<open>Properties\<close>

text \<open>
  C3: a user never has two live Directory subscriptions. Whatever checkouts, cancellations and
  Stripe events are processed, in any order and any number of times, at most one row per user is
  active, trialing or past due in every state reached; so "the current subscription" that
  \<open>cancel\<close>, \<open>resume\<close> and the guards look for is the same row however they order the query.
\<close>

theorem one_live_subscription_per_user:
  assumes "subs_ok w" and "runs directory_step c t w t' w'"
  shows "subs_ok w'
    \<and> (\<forall>s \<in> set (subscriptions w'). \<forall>s' \<in> set (subscriptions w'). sb_userId s = sb_userId s'
        \<and> sb_status s \<in> set live_statuses \<and> sb_status s' \<in> set live_statuses \<longrightarrow> s = s')
    \<and> (\<forall>i. current_subscription i w' = findFirst (live_subscription i) (subscriptions w'))"
proof -
  from assms(2,1) have ok: "subs_ok w'"
    by (induction rule: runs.induct) (use directory_step_keeps in blast)+
  then have one: "one_live sb_userId sb_status (subscriptions w')" by (simp add: subs_ok_def)
  have "live_subscription i = directory.live_row i" for i
    by (rule ext) (simp add: live_subscription_def directory.live_row_def)
  then have "current_subscription i w' = findFirst (live_subscription i) (subscriptions w')" for i
    using directory.current_unambiguous [OF one, of sb_createdAt i] by (simp add: current_subscription_def)
  then show ?thesis using ok one_liveD [OF one] by blast
qed

definition sample_subscription :: subscription where
  "sample_subscription = \<lparr>sb_id = ''sub1'', sb_userId = ''u1'', sb_planId = ''p1'',
     sb_stripeCustomerId = ''cus_1'', sb_stripeSubscriptionId = ''st_1'', sb_status = Sub_ACTIVE,
     sb_currentPeriodStart = 0, sb_currentPeriodEnd = 1000000, sb_cancelAtPeriodEnd = False,
     sb_trialEndsAt = None, sb_pastDueSince = None, sb_renewalReminderSentForPeriodEnd = None,
     sb_createdAt = 0\<rparr>"

definition sample_metadata :: stripeMetadata where
  "sample_metadata = \<lparr>md_userId = Some ''u1'', md_planId = Some ''p1'', md_tierId = None,
     md_kind = None, md_credits = None\<rparr>"

definition sample_plan :: plan where
  "sample_plan = \<lparr>pl_id = ''p1'', pl_name = ''Directory'', pl_slug = ''directory'',
     pl_stripePriceId = ''price_1'', pl_interval = SIX_MONTHS, pl_amountCents = 5000, pl_currency = ''usd'', pl_isActive = True\<rparr>"

definition sample_stripe_sub :: stripeSubscription where
  "sample_stripe_sub = \<lparr>ss_id = ''st_2'', ss_customer = ''cus_1'', ss_status = St_active,
     ss_metadata = sample_metadata, ss_currentPeriodStart = 10, ss_currentPeriodEnd = 20,
     ss_cancelAtPeriodEnd = False, ss_trialEnd = None\<rparr>"

definition billing_world :: world where
  "billing_world = sample_world\<lparr>plans := [sample_plan], subscriptions := [sample_subscription]\<rparr>"

lemmas billing_sample_defs = sample_subscription_def sample_metadata_def sample_plan_def
  sample_stripe_sub_def billing_world_def

lemma billing_subs_ok: "subs_ok billing_world"
  by (simp add: subs_ok_def one_live_def unique_on_def billing_sample_defs)

theorem one_live_subscription_per_user_witness:
  "subs_ok (snd (handleWebhookEvent sample_cfg (sample_req 5) (\<lambda>_. sample_stripe_sub)
       (SubscriptionCreated sample_stripe_sub) billing_world))"
proof -
  have "runs directory_step sample_cfg 0 billing_world (q_now (sample_req 5))
      (snd (handleWebhookEvent sample_cfg (sample_req 5) (\<lambda>_. sample_stripe_sub) (SubscriptionCreated sample_stripe_sub) billing_world))"
    by (rule runs_step [of directory_step sample_cfg 0 billing_world 0 billing_world "sample_req 5"])
      (simp_all add: runs_refl step_event sample_req_def)
  from one_live_subscription_per_user [OF billing_subs_ok this] show ?thesis by blast
qed

text \<open>
  A duplicate subscription is cancelled, not stored. When an event announces a live subscription
  for a user who already has another live one, the local table is unchanged, the new
  subscription is cancelled at Stripe and the incident is in the audit log; the customer is
  never left paying for two. Yet if the event is the completed checkout itself, the customer is
  still sent the confirmation of the subscription that was just cancelled.
\<close>

theorem duplicate_subscription_cancelled:
  assumes old: "s \<in> set (subscriptions w)" "sb_userId s = u" "sb_status s \<in> set live_statuses"
      "sb_stripeSubscriptionId s \<noteq> ss_id x"
    and new: "find_by_stripe_id (ss_id x) w = None" "mapStripeStatus (ss_status x) \<in> set live_statuses"
      "md_kind (ss_metadata x) = None" "md_userId (ss_metadata x) = Some u" "md_planId (ss_metadata x) = Some p"
      "u \<noteq> []" "p \<noteq> []"
    and up: "q_stripeUp q" "q_queueUp q"
    and user: "findById u w = Some usr" "findFirst (\<lambda>y. pl_id y = p) (plans w) = Some pl"
  shows "fst (syncSubscriptionFromStripe q x w) = Inr ()
    \<and> subscriptions (snd (syncSubscriptionFromStripe q x w)) = subscriptions w
    \<and> stripeCalls (snd (syncSubscriptionFromStripe q x w)) = stripeCalls w @ [SubscriptionCancel (ss_id x)]
    \<and> (\<exists>a. auditLogs (snd (syncSubscriptionFromStripe q x w)) = auditLogs w @ [a]
        \<and> al_action a = Billing_duplicate_subscription_prevented \<and> al_targetId a = Some (ss_id x))
    \<and> emailQueue (sendSubscriptionConfirmedEmail q x (snd (syncSubscriptionFromStripe q x w))) =
        emailQueue w @ [SubscriptionConfirmedEmail (u_email usr) (pl_name pl) (pl_amountCents pl) (ss_currentPeriodEnd x * 1000)]"
proof -
  have "write_subscriptions (subscriptions w @ [new_subscription q x u p]) w = Inl (Internal P2002)"
    by (rule directory.duplicate_refused [OF old(1), of u]) (use old new in \<open>simp_all add: directory.live_row_def\<close>)
  then have "upsert_subscription q x u p w = Inl (Internal P2002)"
    using new(1) by (simp add: upsert_subscription_def Let_def)
  then have eq: "syncSubscriptionFromStripe q x w = (Inr (), audit_record q
      ((entry (Some u) Billing_duplicate_subscription_prevented)\<lparr>ae_targetId := Some (ss_id x)\<rparr>)
      (w\<lparr>stripeCalls := stripeCalls w @ [SubscriptionCancel (ss_id x)]\<rparr>))"
    using new up by (simp add: syncSubscriptionFromStripe_def stripe_cancel_def)
  have "findById u (audit_record q e (w\<lparr>stripeCalls := y\<rparr>)) = Some usr" for e y
    using user(1) by (simp add: findById_def)
  then show ?thesis
    using new user(2) up by (simp add: eq sendSubscriptionConfirmedEmail_def entry_def enqueue_def)
      (simp add: audit_record_def)
qed

theorem duplicate_subscription_cancelled_witness:
  "subscriptions (snd (syncSubscriptionFromStripe (sample_req 5) sample_stripe_sub billing_world)) = [sample_subscription]
   \<and> stripeCalls (snd (syncSubscriptionFromStripe (sample_req 5) sample_stripe_sub billing_world)) = [SubscriptionCancel ''st_2'']"
proof -
  have "sample_subscription \<in> set (subscriptions billing_world)" by (simp add: billing_world_def)
  moreover have "findById ''u1'' billing_world = Some sample_user"
    "findFirst (\<lambda>y. pl_id y = ''p1'') (plans billing_world) = Some sample_plan"
    by (simp_all add: findById_def billing_sample_defs sample_defs)
  ultimately show ?thesis
    using duplicate_subscription_cancelled [of sample_subscription billing_world "''u1''" sample_stripe_sub "''p1''"
        "sample_req 5" sample_user sample_plan]
    by (simp add: find_by_stripe_id_def live_statuses_def mapStripeStatus_def billing_sample_defs sample_defs)
qed

fun process_events ::
  "cfg \<Rightarrow> (string \<Rightarrow> stripeSubscription) \<Rightarrow> (req \<times> stripeEvent) list \<Rightarrow> world \<Rightarrow> world" where
  "process_events c retrieve [] w = w"
| "process_events c retrieve ((q, ev) # evs) w =
     process_events c retrieve evs (snd (handleWebhookEvent c q retrieve ev w))"

text \<open>The events that report that a subscription is still failing to bill.\<close>

definition reports_failure :: "string \<Rightarrow> stripeEvent \<Rightarrow> bool" where
  "reports_failure x ev = (case ev of
       InvoicePaymentFailed i \<Rightarrow> si_subscription i = Some x
     | SubscriptionUpdated s \<Rightarrow> ss_id s = x \<and> mapStripeStatus (ss_status s) = Sub_PAST_DUE
         \<and> md_kind (ss_metadata s) \<noteq> Some lead_finder_kind
     | _ \<Rightarrow> False)"

lemma past_due_row_write:
  assumes ok: "subs_ok w" and e: "find_by_stripe_id x w = Some e" "sb_status e = Sub_PAST_DUE"
    and f: "\<And>s. sb_id (f s) = sb_id s" "\<And>s. sb_userId (f s) = sb_userId s"
      "\<And>s. sb_stripeSubscriptionId (f s) = sb_stripeSubscriptionId s"
  shows "\<exists>w1. write_subscriptions (updateMany (\<lambda>s. sb_id s = sb_id e) f (subscriptions w)) w = Inr w1
    \<and> w1 = w\<lparr>subscriptions := updateMany (\<lambda>s. sb_id s = sb_id e) f (subscriptions w)\<rparr>
    \<and> find_by_stripe_id x w1 = Some (f e)"
proof -
  have eset: "e \<in> set (subscriptions w)" using e(1) by (auto simp: find_by_stripe_id_def dest: findFirst_SomeD)
  have "one_live sb_userId sb_status (updateMany (\<lambda>s. sb_id s = sb_id e \<and> s \<in> set (subscriptions w)) f (subscriptions w))"
  proof (rule one_live_updateMany)
    fix r assume "sb_id r = sb_id e \<and> r \<in> set (subscriptions w)"
    then have "r = e" using ok eset unfolding subs_ok_def by (metis unique_onD)
    then show "sb_status r \<in> set live_statuses" using e(2) by (simp add: live_statuses_def)
  qed (use f ok in \<open>auto simp: subs_ok_def\<close>)
  moreover have "updateMany (\<lambda>s. sb_id s = sb_id e \<and> s \<in> set (subscriptions w)) f (subscriptions w) =
      updateMany (\<lambda>s. sb_id s = sb_id e) f (subscriptions w)"
    by (auto simp: updateMany_def)
  ultimately have one: "one_live sb_userId sb_status (updateMany (\<lambda>s. sb_id s = sb_id e) f (subscriptions w))" by simp
  have "findFirst (\<lambda>s. sb_stripeSubscriptionId s = x) (updateMany (\<lambda>s. sb_id s = sb_id e) f (subscriptions w)) =
      map_option (\<lambda>s. if sb_id s = sb_id e then f s else s) (findFirst (\<lambda>s. sb_stripeSubscriptionId s = x) (subscriptions w))"
    using f by (intro findFirst_updateMany) simp
  then show ?thesis using one e(1) by (simp add: write_subscriptions_def find_by_stripe_id_def)
qed

lemma failure_event_keeps_clock:
  assumes ok: "subs_ok w" and e: "find_by_stripe_id x w = Some e" "sb_status e = Sub_PAST_DUE" "sb_pastDueSince e = Some t0"
    and ev: "reports_failure x ev" "x \<noteq> []"
  shows "\<exists>e'. find_by_stripe_id x (snd (handleWebhookEvent c q retrieve ev w)) = Some e'
    \<and> sb_status e' = Sub_PAST_DUE \<and> sb_pastDueSince e' = Some t0"
proof (cases ev)
  case (SubscriptionUpdated y)
  with ev have y: "ss_id y = x" "mapStripeStatus (ss_status y) = Sub_PAST_DUE"
    "md_kind (ss_metadata y) \<noteq> Some lead_finder_kind" by (simp_all add: reports_failure_def)
  let ?f = "mapStripeSubToUpdate q y (sb_pastDueSince e)"
  obtain w1 where w1: "write_subscriptions (updateMany (\<lambda>s. sb_id s = sb_id e) ?f (subscriptions w)) w = Inr w1"
    "find_by_stripe_id x w1 = Some (?f e)"
    using past_due_row_write [OF ok e(1,2), of ?f] by auto
  then have "upsert_subscription q y u p w = Inr w1" for u p
    using e(1) y(1) by (simp add: upsert_subscription_def)
  moreover have "find_by_stripe_id x (audit_record q a w1) = Some (?f e)" for a
    using w1(2) by (simp add: find_by_stripe_id_def)
  ultimately show ?thesis
    using w1 y e by (simp add: handleWebhookEvent_def SubscriptionUpdated syncSubscriptionFromStripe_def Let_def)
next
  case (InvoicePaymentFailed i)
  with ev have i: "si_subscription i = Some x" by (simp add: reports_failure_def)
  let ?w0 = "syncInvoiceFromStripe q i Inv_OPEN w"
  let ?f = "\<lambda>s. s\<lparr>sb_status := Sub_PAST_DUE, sb_pastDueSince := Some (nullish (sb_pastDueSince e) (q_now q))\<rparr>"
  have "subs_ok ?w0" "find_by_stripe_id x ?w0 = Some e"
    using ok e(1) by (simp_all add: subs_ok_def find_by_stripe_id_def)
  from past_due_row_write [OF this e(2), of ?f] obtain w1 where w1:
    "write_subscriptions (updateMany (\<lambda>s. sb_id s = sb_id e) ?f (subscriptions ?w0)) ?w0 = Inr w1"
    "find_by_stripe_id x w1 = Some (?f e)" by auto
  then show ?thesis
    using e i ev(2) \<open>find_by_stripe_id x ?w0 = Some e\<close>
    by (simp add: handleWebhookEvent_def InvoicePaymentFailed Let_def markPastDue_def)
qed (use ev in \<open>auto simp: reports_failure_def\<close>)

text \<open>
  The grace period runs from the first failure. However many failed charges and past-due
  updates Stripe reports for a subscription, in any order, its \<open>pastDueSince\<close> stays the instant of
  the first one, so access ends exactly \<open>PAYMENT_GRACE_PERIOD_DAYS\<close> after it.
\<close>

theorem grace_clock_not_reset:
  assumes "subs_ok w" and "find_by_stripe_id x w = Some e" "sb_status e = Sub_PAST_DUE" "sb_pastDueSince e = Some t0"
    and "x \<noteq> []" and "\<forall>(q, ev) \<in> set evs. reports_failure x ev"
  shows "\<exists>e'. find_by_stripe_id x (process_events c retrieve evs w) = Some e' \<and> sb_pastDueSince e' = Some t0
    \<and> (\<forall>now. hasActiveAccess now (sb_status e') (sb_pastDueSince e') (c_gracePeriodDays c) \<longleftrightarrow>
          now < t0 + c_gracePeriodDays c * ms_per_day)"
  using assms
proof (induction evs arbitrary: w e)
  case Nil
  then show ?case by (simp add: hasActiveAccess_def ms_per_day_def mult.commute)
next
  case (Cons a evs)
  obtain q ev where a: "a = (q, ev)" by (cases a)
  from Cons.prems have "reports_failure x ev" by (simp add: a)
  then obtain e' where "find_by_stripe_id x (snd (handleWebhookEvent c q retrieve ev w)) = Some e'"
    "sb_status e' = Sub_PAST_DUE" "sb_pastDueSince e' = Some t0"
    using failure_event_keeps_clock [OF Cons.prems(1-4)] Cons.prems(5) by blast
  moreover have "subs_ok (snd (handleWebhookEvent c q retrieve ev w))"
    using Cons.prems(1) by (rule subs_ok_handleWebhookEvent)
  ultimately show ?case using Cons.IH Cons.prems(5,6) by (simp add: a)
qed

theorem grace_clock_not_reset_witness:
  "\<exists>e'. find_by_stripe_id ''st_1'' (process_events sample_cfg (\<lambda>_. sample_stripe_sub)
       [(sample_req 500, SubscriptionUpdated (sample_stripe_sub\<lparr>ss_id := ''st_1'', ss_status := St_past_due\<rparr>)),
        (sample_req 900, SubscriptionUpdated (sample_stripe_sub\<lparr>ss_id := ''st_1'', ss_status := St_unpaid\<rparr>))]
       (billing_world\<lparr>subscriptions := [sample_subscription\<lparr>sb_status := Sub_PAST_DUE, sb_pastDueSince := Some 100\<rparr>]\<rparr>)) = Some e'
     \<and> sb_pastDueSince e' = Some 100"
proof -
  let ?e = "sample_subscription\<lparr>sb_status := Sub_PAST_DUE, sb_pastDueSince := Some 100\<rparr>"
  let ?w = "billing_world\<lparr>subscriptions := [?e]\<rparr>"
  let ?evs = "[(sample_req 500, SubscriptionUpdated (sample_stripe_sub\<lparr>ss_id := ''st_1'', ss_status := St_past_due\<rparr>)),
        (sample_req 900, SubscriptionUpdated (sample_stripe_sub\<lparr>ss_id := ''st_1'', ss_status := St_unpaid\<rparr>))]"
  have "subs_ok ?w" by (simp add: subs_ok_def one_live_def unique_on_def billing_sample_defs)
  moreover have "find_by_stripe_id ''st_1'' ?w = Some ?e" by (simp add: find_by_stripe_id_def billing_sample_defs)
  moreover have "\<forall>(q, ev) \<in> set ?evs. reports_failure ''st_1'' ev"
    by (simp add: reports_failure_def mapStripeStatus_def billing_sample_defs)
  ultimately show ?thesis
    using grace_clock_not_reset [of ?w "''st_1''" ?e 100 ?evs sample_cfg "\<lambda>_. sample_stripe_sub"] by fastforce
qed

text \<open>A checkout of a customer whose live subscription gives no access any more cancels that row and writes no other.\<close>

lemma checkout_cancels_lapsed:
  assumes user: "findById i w = Some u" and plan: "findFirst (\<lambda>x. pl_slug x = slug) (plans w) = Some pl" "pl_isActive pl"
    and up: "q_stripeUp q" and cur: "current_subscription i w = Some s"
    and noacc: "\<not> hasActiveAccess (q_now q) (sb_status s) (sb_pastDueSince s) (c_gracePeriodDays c)"
  shows "subscriptions (snd (createCheckoutSession c q i slug w)) =
    updateMany (\<lambda>x. sb_id x = sb_id s) cancel_subscription_row (subscriptions w)"
proof -
  let ?w1 = "update_subscription (sb_id s) cancel_subscription_row
      (w\<lparr>stripeCalls := stripeCalls w @ [SubscriptionCancel (sb_stripeSubscriptionId s)]\<rparr>)"
  define Q where "Q w' \<longleftrightarrow> subscriptions w' = subscriptions ?w1" for w' :: world
  have "Q (snd (getOrCreateStripeCustomer q a b n w1))" if "Q w1" for a b n w1
    using that by (simp add: Q_def)
  moreover have "Q (snd (stripe_checkout q pr m w1))" if "Q w1" for pr m w1
    using that by (simp add: Q_def)
  moreover have "Q (audit_record q e w1)" if "Q w1" for e w1
    using that by (simp add: Q_def)
  moreover have "Q ?w1" by (simp add: Q_def)
  ultimately have "Q (snd (createCheckoutSession c q i slug w))"
    unfolding createCheckoutSession_def
    by (auto simp: user plan cur noacc drop_expired_def stripe_cancel_def up Let_def intro!: result_chain [where P = Q])
  then show ?thesis by (simp add: Q_def update_subscription_def)
qed

text \<open>The guard's answer to an ordinary user with one subscription row, whatever the other users have.\<close>

lemma directory_of_single_row:
  assumes "findById i w = Some u" "\<not> u_adminGrantedDirectoryAccess u" "payload_sub p = i" "payload_role p = Some USER"
    and "s \<in> set (subscriptions w)" "\<And>x. x \<in> set (subscriptions w) \<Longrightarrow> sb_userId x = i \<Longrightarrow> x = s" "sb_userId s = i"
    and "sb_status s \<in> set live_statuses \<union> {Sub_CANCELED}"
  shows "directory_canActivate c q (Some p) w =
    (if sb_status s = Sub_CANCELED \<or> hasActiveAccess (q_now q) (sb_status s) (sb_pastDueSince s) (c_gracePeriodDays c)
     then Inr () else Inl (Forbidden Active_or_previous_subscription_required))"
proof -
  have "findFirstDesc sb_createdAt (\<lambda>x. sb_userId x = i \<and> sb_status x \<in> set live_statuses \<union> {Sub_CANCELED})
      (subscriptions w) = Some s"
    using assms(5-8) by (intro findFirstDesc_only) blast+
  then show ?thesis unfolding directory_canActivate_def
    by (simp add: assms(1-4) is_staff_def granted_directory_def hasDirectoryAccess_def)
qed

text \<open>
  C40: a lapsed customer regains the directory by opening a checkout. When the grace period of a
  past-due subscription is over, the directory guard refuses the user; calling
  \<open>createCheckoutSession\<close> marks that row \<open>CANCELED\<close>, which the guard reads as having left by
  choice, and the guard then lets the user in for good, whether or not the checkout is ever paid.
\<close>

theorem lapsed_customer_regains_directory:
  assumes user: "findById i w = Some u" "\<not> u_adminGrantedDirectoryAccess u" "payload_sub p = i" "payload_role p = Some USER"
    and only: "s \<in> set (subscriptions w)" "\<forall>x \<in> set (subscriptions w). sb_userId x = i \<longrightarrow> x = s" "sb_userId s = i"
    and lapsed: "sb_status s = Sub_PAST_DUE" "sb_pastDueSince s = Some t0" "t0 + c_gracePeriodDays c * ms_per_day \<le> q_now q"
    and plan: "findFirst (\<lambda>x. pl_slug x = slug) (plans w) = Some pl" "pl_isActive pl"
    and up: "q_stripeUp q"
  shows "directory_canActivate c q (Some p) w = Inl (Forbidden Active_or_previous_subscription_required)
    \<and> directory_canActivate c q' (Some p) (snd (createCheckoutSession c q i slug w)) = Inr ()"
proof -
  have noacc: "\<not> hasActiveAccess (q_now q) (sb_status s) (sb_pastDueSince s) (c_gracePeriodDays c)"
    using lapsed by (simp add: hasActiveAccess_def ms_per_day_def)
  have before: "directory_canActivate c q (Some p) w = Inl (Forbidden Active_or_previous_subscription_required)"
    using directory_of_single_row [OF user only(1) _ only(3), of c q] only(2) noacc lapsed
    by (simp add: live_statuses_def)
  have live: "live_subscription i s" using only(3) lapsed(1) by (simp add: live_subscription_def live_statuses_def)
  have "x = s" if "x \<in> set (subscriptions w)" "live_subscription i x" for x
    using that only(2) unfolding live_subscription_def by blast
  with only(1) live have "current_subscription i w = Some s"
    unfolding current_subscription_def by (rule findFirstDesc_only)
  note subs = checkout_cancels_lapsed [OF user(1) plan up this noacc]
  let ?w' = "snd (createCheckoutSession c q i slug w)"
  have mem: "cancel_subscription_row s \<in> set (subscriptions ?w')"
    using only(1) by (auto simp: subs set_updateMany image_iff intro!: bexI [where x = s])
  have all: "x = cancel_subscription_row s" if "x \<in> set (subscriptions ?w')" "sb_userId x = i" for x
    using that only(2) by (auto simp: subs set_updateMany split: if_splits)
  have "findFirstDesc sb_createdAt
      (\<lambda>x. sb_userId x = i \<and> sb_status x \<in> set live_statuses \<union> {Sub_CANCELED}) (subscriptions ?w')
      = Some (cancel_subscription_row s)"
    by (rule findFirstDesc_only [OF mem]) (simp_all add: only(3) all)
  then have "directory_canActivate c q' (Some p) ?w' = Inr ()"
    unfolding directory_canActivate_def by (simp add: user hasDirectoryAccess_def)
  with before show ?thesis by blast
qed

theorem lapsed_customer_regains_directory_witness:
  "\<exists>w q p. directory_canActivate sample_cfg q (Some p) w = Inl (Forbidden Active_or_previous_subscription_required)
     \<and> directory_canActivate sample_cfg q (Some p) (snd (createCheckoutSession sample_cfg q ''u1'' ''directory'' w)) = Inr ()"
proof -
  let ?s = "sample_subscription\<lparr>sb_status := Sub_PAST_DUE, sb_pastDueSince := Some 0\<rparr>"
  let ?w = "billing_world\<lparr>subscriptions := [?s]\<rparr>"
  let ?q = "sample_req 700000000"
  let ?p = "AccessTokenPayload ''u1'' ''ann@example.com'' USER None"
  have "findById ''u1'' ?w = Some sample_user"
    "findFirst (\<lambda>x. pl_slug x = ''directory'') (plans ?w) = Some sample_plan"
    by (simp_all add: findById_def billing_sample_defs sample_defs)
  then have "directory_canActivate sample_cfg ?q (Some ?p) ?w = Inl (Forbidden Active_or_previous_subscription_required)
     \<and> directory_canActivate sample_cfg ?q (Some ?p) (snd (createCheckoutSession sample_cfg ?q ''u1'' ''directory'' ?w)) = Inr ()"
    using lapsed_customer_regains_directory [of "''u1''" ?w sample_user ?p ?s 0 sample_cfg ?q "''directory''" sample_plan ?q]
    by (simp add: billing_sample_defs sample_defs ms_per_day_def)
  then show ?thesis by blast
qed

lemma findFirstDesc_refine:
  assumes "findFirstDesc key p rows = Some r" "p' r" "\<And>x. p' x \<Longrightarrow> p x"
  shows "findFirstDesc key p' rows = Some r"
proof -
  let ?sort = "sort_key (\<lambda>r. - key r)"
  from assms(1) obtain rs where rs: "?sort (filter p rows) = r # rs"
    by (auto simp: findFirstDesc_def orderDesc_def findMany_def split: list.splits)
  have "filter p' rows = filter p' (filter p rows)"
    using assms(3) by (auto intro: filter_cong)
  then have "?sort (filter p' rows) = filter p' (?sort (filter p rows))"
    by (simp only: filter_sort)
  also have "\<dots> = r # filter p' rs" using assms(2) by (simp add: rs)
  finally show ?thesis by (simp add: findFirstDesc_def orderDesc_def findMany_def)
qed

text \<open>
  What the billing page says and what the directory guard does. \<open>getStatus\<close> judges by the newest
  subscription of any status, the guard by the newest one that is not expired. They agree
  whenever the newest subscription is not \<open>EXPIRED\<close>; when it is (an abandoned first payment), the page
  denies access while the guard grants it on an older cancelled or paid subscription.
\<close>

theorem status_page_and_guard:
  assumes user: "findById i w = Some u" "u_role u = USER" "\<not> u_adminGrantedDirectoryAccess u"
    and p: "payload_sub p = i" "payload_role p = Some USER"
    and newest: "findFirstDesc sb_createdAt (\<lambda>s. sb_userId s = i) (subscriptions w) = Some s"
  shows "(sb_status s \<noteq> Sub_EXPIRED \<longrightarrow>
      (bs_hasDirectoryAccess (getStatus c q i w) \<longleftrightarrow> directory_canActivate c q (Some p) w = Inr ()))
    \<and> (sb_status s = Sub_EXPIRED \<longrightarrow> \<not> bs_hasDirectoryAccess (getStatus c q i w)
      \<and> (directory_canActivate c q (Some p) w = Inr () \<longleftrightarrow>
          (\<exists>s'. findFirstDesc sb_createdAt (\<lambda>s. sb_userId s = i \<and> sb_status s \<noteq> Sub_EXPIRED) (subscriptions w) = Some s'
             \<and> hasDirectoryAccess (q_now q) (sb_status s') (sb_pastDueSince s') (c_gracePeriodDays c))))"
proof -
  define P where "P x \<longleftrightarrow> sb_userId x = i \<and> sb_status x \<noteq> Sub_EXPIRED" for x :: subscription
  have "(\<lambda>x. sb_userId x = i \<and> sb_status x \<in> set live_statuses \<union> {Sub_CANCELED}) = P"
  proof (rule ext)
    fix x :: subscription
    show "(sb_userId x = i \<and> sb_status x \<in> set live_statuses \<union> {Sub_CANCELED}) = P x"
      by (cases "sb_status x") (simp_all add: P_def live_statuses_def)
  qed
  then have guard: "directory_canActivate c q (Some p) w = Inr () \<longleftrightarrow>
      (\<exists>s'. findFirstDesc sb_createdAt P (subscriptions w) = Some s'
        \<and> hasDirectoryAccess (q_now q) (sb_status s') (sb_pastDueSince s') (c_gracePeriodDays c))"
    by (simp add: directory_canActivate_def p user is_staff_def granted_directory_def split: option.splits)
  have page: "bs_hasDirectoryAccess (getStatus c q i w) \<longleftrightarrow>
      hasDirectoryAccess (q_now q) (sb_status s) (sb_pastDueSince s) (c_gracePeriodDays c)"
    by (simp add: getStatus_def newest user is_staff_def granted_directory_def)
  have "findFirstDesc sb_createdAt P (subscriptions w) = Some s" if "sb_status s \<noteq> Sub_EXPIRED"
    using newest by (rule findFirstDesc_refine) (use that findFirstDesc_SomeD [OF newest] in \<open>auto simp: P_def\<close>)
  moreover have "\<not> bs_hasDirectoryAccess (getStatus c q i w)" if "sb_status s = Sub_EXPIRED"
    by (simp add: page that hasDirectoryAccess_def hasActiveAccess_def)
  ultimately show ?thesis using guard page unfolding P_def [abs_def] by auto
qed

theorem status_page_and_guard_witness:
  "\<exists>w q p. \<not> bs_hasDirectoryAccess (getStatus sample_cfg q ''u1'' w) \<and> directory_canActivate sample_cfg q (Some p) w = Inr ()"
proof -
  let ?old = "sample_subscription\<lparr>sb_status := Sub_CANCELED\<rparr>"
  let ?new = "sample_subscription\<lparr>sb_id := ''sub2'', sb_status := Sub_EXPIRED, sb_createdAt := 9\<rparr>"
  let ?w = "billing_world\<lparr>subscriptions := [?old, ?new]\<rparr>"
  let ?p = "AccessTokenPayload ''u1'' ''ann@example.com'' USER None"
  have u: "findById ''u1'' ?w = Some sample_user" by (simp add: findById_def billing_sample_defs sample_defs)
  have n: "findFirstDesc sb_createdAt (\<lambda>s. sb_userId s = ''u1'') (subscriptions ?w) = Some ?new"
    "findFirstDesc sb_createdAt (\<lambda>s. sb_userId s = ''u1'' \<and> sb_status s \<noteq> Sub_EXPIRED) (subscriptions ?w) = Some ?old"
    by (simp_all add: findFirstDesc_def orderDesc_def findMany_def billing_sample_defs)
  have "\<not> bs_hasDirectoryAccess (getStatus sample_cfg (sample_req 10) ''u1'' ?w)
      \<and> directory_canActivate sample_cfg (sample_req 10) (Some ?p) ?w = Inr ()"
    using status_page_and_guard [OF u _ _ _ _ n(1), of ?p sample_cfg "sample_req 10"] n(2)
    by (simp add: hasDirectoryAccess_def sample_user_def)
  then show ?thesis by blast
qed

end
