(* ===== verification/LeadFinderBilling.thy ===== *)
theory LeadFinderBilling
  imports SubscriptionProperties
begin

text \<open>
  \<open>lead-finder-billing.service.ts\<close>: the monthly Lead Finder tiers. Names that the Directory
  service has too carry the prefix \<open>lf_\<close>. The table is a second \<open>subscription_store\<close>; its handler
  of Stripe events and the Directory's write disjoint tables.
\<close>

section \<open>Tiers, status and checkout\<close>

definition listTiers :: "world \<Rightarrow> leadFinderTier list" where
  "listTiers w = orderAsc ti_amountCents (findMany ti_isActive (leadFinderTiers w))"

definition lf_live :: "ident \<Rightarrow> leadFinderSubscription \<Rightarrow> bool" where
  "lf_live userId s \<longleftrightarrow> lf_userId s = userId \<and> lf_status s \<in> set live_statuses"

definition find_tier :: "ident \<Rightarrow> world \<Rightarrow> leadFinderTier option" where
  "find_tier tierId w = findFirst (\<lambda>t. ti_id t = tierId) (leadFinderTiers w)"

record leadFinderStatus =
  ls_tierSlug :: string
  ls_status :: "subscriptionStatus option"
  ls_currentPeriodEnd :: "time option"
  ls_cancelAtPeriodEnd :: bool
  ls_daysPastDue :: "int option"

definition lf_getStatus :: "req \<Rightarrow> ident \<Rightarrow> world \<Rightarrow> leadFinderStatus" where
  "lf_getStatus q userId w =
     (case findFirstDesc lf_createdAt (lf_live userId) (leadFinderSubscriptions w) of
        None \<Rightarrow> \<lparr>ls_tierSlug = ''free'', ls_status = None, ls_currentPeriodEnd = None,
                 ls_cancelAtPeriodEnd = False, ls_daysPastDue = None\<rparr>
      | Some s \<Rightarrow>
          \<lparr>ls_tierSlug = (case find_tier (lf_tierId s) w of None \<Rightarrow> [] | Some t \<Rightarrow> ti_slug t),
           ls_status = Some (lf_status s), ls_currentPeriodEnd = Some (lf_currentPeriodEnd s),
           ls_cancelAtPeriodEnd = lf_cancelAtPeriodEnd s,
           ls_daysPastDue = daysPastDue (q_now q) (lf_pastDueSince s)\<rparr>)"

definition lf_createCheckoutSession ::
  "req \<Rightarrow> ident \<Rightarrow> string \<Rightarrow> world \<Rightarrow> string result \<times> world" where
  "lf_createCheckoutSession q userId tierSlug w =
     (case findById userId w of
        None \<Rightarrow> (Inl (NotFound Account_not_found), w)
      | Some user \<Rightarrow>
          (case findFirst (\<lambda>t. ti_slug t = tierSlug) (leadFinderTiers w) of
             None \<Rightarrow> (Inl (BadRequest Plan_not_available_for_checkout), w)
           | Some tier \<Rightarrow>
               if \<not> ti_isActive tier \<or> \<not> ti_recurring tier \<or> \<not> truthy (ti_stripePriceId tier)
               then (Inl (BadRequest Plan_not_available_for_checkout), w)
               else if findFirst (lf_live userId) (leadFinderSubscriptions w) \<noteq> None
               then (Inl (BadRequest Already_have_lead_finder_plan), w)
               else (case getOrCreateStripeCustomer q (u_id user) (u_email user) (u_fullName user) w of
                       (Inl e, w1) \<Rightarrow> (Inl e, w1)
                     | (Inr customerId, w1) \<Rightarrow>
                         (case stripe_checkout q (the (ti_stripePriceId tier))
                                 [(''userId'', u_id user), (''tierId'', ti_id tier),
                                  (''kind'', lead_finder_kind)] w1 of
                            (Inl e, w2) \<Rightarrow> (Inl e, w2)
                          | (Inr url, w2) \<Rightarrow>
                              if \<not> truthy url then (Inl (BadRequest No_checkout_url), w2)
                              else (Inr (the url), audit_record q
                                ((entry (Some userId) Billing_lead_finder_checkout_started)\<lparr>ae_metadata :=
                                  Some (JObj [(''tierId'', JStr (ti_id tier)),
                                              (''tierSlug'', JStr (ti_slug tier))])\<rparr>) w2)))))"

definition update_lf :: "ident \<Rightarrow> (leadFinderSubscription \<Rightarrow> leadFinderSubscription) \<Rightarrow> world \<Rightarrow> world" where
  "update_lf i f w = w\<lparr>leadFinderSubscriptions :=
     updateMany (\<lambda>s. lf_id s = i) f (leadFinderSubscriptions w)\<rparr>"

definition lf_cancel :: "req \<Rightarrow> ident \<Rightarrow> world \<Rightarrow> string result \<times> world" where
  "lf_cancel q userId w =
     (case findFirstDesc lf_createdAt (lf_live userId) (leadFinderSubscriptions w) of
        None \<Rightarrow> (Inl (NotFound No_active_lead_finder_plan), w)
      | Some s \<Rightarrow>
          (case stripe_set_cancel q (lf_stripeSubscriptionId s) True w of
             (Inl e, w1) \<Rightarrow> (Inl e, w1)
           | (Inr _, w1) \<Rightarrow>
               (Inr ''Your Lead Finder plan stays active until the end of the current billing period. Credits already granted never expire.'',
                audit_record q ((entry (Some userId) Billing_lead_finder_cancel_requested)\<lparr>ae_targetId := Some (lf_id s)\<rparr>)
                  (update_lf (lf_id s) (\<lambda>x. x\<lparr>lf_cancelAtPeriodEnd := True\<rparr>) w1))))"

section \<open>Stripe to local sync\<close>

definition lf_mapStripeStatus :: "stripeStatus \<Rightarrow> subscriptionStatus" where
  "lf_mapStripeStatus s = (case s of
       St_trialing \<Rightarrow> Sub_TRIALING
     | St_active \<Rightarrow> Sub_ACTIVE
     | St_past_due \<Rightarrow> Sub_PAST_DUE | St_unpaid \<Rightarrow> Sub_PAST_DUE | St_paused \<Rightarrow> Sub_PAST_DUE
     | St_canceled \<Rightarrow> Sub_CANCELED
     | St_incomplete \<Rightarrow> Sub_EXPIRED | St_incomplete_expired \<Rightarrow> Sub_EXPIRED)"

definition lf_find_by_stripe_id :: "string \<Rightarrow> world \<Rightarrow> leadFinderSubscription option" where
  "lf_find_by_stripe_id x w = findFirst (\<lambda>s. lf_stripeSubscriptionId s = x) (leadFinderSubscriptions w)"

definition write_lead_finder :: "leadFinderSubscription list \<Rightarrow> world \<Rightarrow> world result" where
  "write_lead_finder rows w =
     (if one_live lf_userId lf_status rows then Inr (w\<lparr>leadFinderSubscriptions := rows\<rparr>) else Inl (Internal P2002))"

definition lf_update_row ::
  "stripeSubscription \<Rightarrow> time option \<Rightarrow> leadFinderSubscription \<Rightarrow> leadFinderSubscription" where
  "lf_update_row stripeSub pastDueSince s =
     s\<lparr>lf_status := lf_mapStripeStatus (ss_status stripeSub),
       lf_currentPeriodStart := ss_currentPeriodStart stripeSub * 1000,
       lf_currentPeriodEnd := ss_currentPeriodEnd stripeSub * 1000,
       lf_cancelAtPeriodEnd := ss_cancelAtPeriodEnd stripeSub,
       lf_pastDueSince := pastDueSince\<rparr>"

definition lf_new_row ::
  "req \<Rightarrow> stripeSubscription \<Rightarrow> ident \<Rightarrow> ident \<Rightarrow> time option \<Rightarrow> leadFinderSubscription" where
  "lf_new_row q stripeSub userId tierId pastDueSince =
     \<lparr>lf_id = q_newId q, lf_userId = userId, lf_tierId = tierId,
      lf_stripeCustomerId = ss_customer stripeSub, lf_stripeSubscriptionId = ss_id stripeSub,
      lf_status = lf_mapStripeStatus (ss_status stripeSub),
      lf_currentPeriodStart = ss_currentPeriodStart stripeSub * 1000,
      lf_currentPeriodEnd = ss_currentPeriodEnd stripeSub * 1000,
      lf_cancelAtPeriodEnd = ss_cancelAtPeriodEnd stripeSub, lf_pastDueSince = pastDueSince,
      lf_renewalReminderSentForPeriodEnd = None, lf_createdAt = q_now q\<rparr>"

definition lf_upsert ::
  "req \<Rightarrow> stripeSubscription \<Rightarrow> ident \<Rightarrow> ident \<Rightarrow> time option \<Rightarrow> world \<Rightarrow> world result" where
  "lf_upsert q stripeSub userId tierId pastDueSince w =
     (case lf_find_by_stripe_id (ss_id stripeSub) w of
        Some e \<Rightarrow> write_lead_finder
          (updateMany (\<lambda>s. lf_id s = lf_id e) (lf_update_row stripeSub pastDueSince) (leadFinderSubscriptions w)) w
      | None \<Rightarrow>
          (let s = lf_new_row q stripeSub userId tierId pastDueSince in
           if lf_id s \<in> lf_id ` set (leadFinderSubscriptions w) then Inl (Internal P2002)
           else (case write_lead_finder (leadFinderSubscriptions w @ [s]) w of
                   Inl e \<Rightarrow> Inl e
                 | Inr w1 \<Rightarrow>
                     if userId \<notin> u_id ` set (users w) \<or> find_tier tierId w = None
                     then Inl (Internal P2003) else Inr w1)))"

definition syncFromStripe :: "cfg \<Rightarrow> req \<Rightarrow> stripeSubscription \<Rightarrow> world \<Rightarrow> unit result \<times> world" where
  "syncFromStripe c q stripeSub w =
     (let userId = md_userId (ss_metadata stripeSub); tierId = md_tierId (ss_metadata stripeSub)
      in if \<not> truthy userId \<or> \<not> truthy tierId then (Inr (), w)
         else (let existing = Option.bind (lf_find_by_stripe_id (ss_id stripeSub) w) lf_pastDueSince;
                   status = lf_mapStripeStatus (ss_status stripeSub);
                   isFirstFailure = (status = Sub_PAST_DUE \<and> existing = None);
                   pastDueSince = (if status = Sub_PAST_DUE then Some (nullish existing (q_now q)) else None)
               in case lf_upsert q stripeSub (the userId) (the tierId) pastDueSince w of
                    Inl err \<Rightarrow>
                      if err = Internal P2002
                      then (case stripe_cancel q (ss_id stripeSub) w of
                              (Inl e, w1) \<Rightarrow> (Inl e, w1)
                            | (Inr _, w1) \<Rightarrow>
                                (Inr (), audit_record q ((entry userId Billing_duplicate_lead_finder_subscription_prevented)
                                   \<lparr>ae_targetId := Some (ss_id stripeSub)\<rparr>) w1))
                      else (Inl err, w)
                  | Inr w1 \<Rightarrow>
                      (Inr (), if isFirstFailure
                         then (case (findById (the userId) w1, find_tier (the tierId) w1) of
                                 (Some user, Some tier) \<Rightarrow>
                                   enqueue q (PaymentFailedEmail (u_email user) (''Lead Finder '' @ ti_name tier)
                                     (c_gracePeriodDays c)) w1
                               | _ \<Rightarrow> w1)
                         else w1)))"

definition lf_sendSubscriptionConfirmedEmail :: "req \<Rightarrow> stripeSubscription \<Rightarrow> world \<Rightarrow> world" where
  "lf_sendSubscriptionConfirmedEmail q stripeSub w =
     (let userId = md_userId (ss_metadata stripeSub); tierId = md_tierId (ss_metadata stripeSub)
      in if \<not> truthy userId \<or> \<not> truthy tierId then w
         else (case (findById (the userId) w, find_tier (the tierId) w) of
                 (Some user, Some tier) \<Rightarrow>
                   enqueue q (SubscriptionConfirmedEmail (u_email user) (''AI Lead Finder '' @ em_dash @ '' '' @ ti_name tier)
                     (ti_amountCents tier) (ss_currentPeriodEnd stripeSub * 1000)) w
               | _ \<Rightarrow> w))"

definition grantMonthlyCredits :: "req \<Rightarrow> stripeInvoice \<Rightarrow> world \<Rightarrow> unit result \<times> world" where
  "grantMonthlyCredits q sinv w =
     (if md_kind (si_metadata sinv) \<noteq> Some lead_finder_kind then (Inr (), w)
      else (let userId = md_userId (si_metadata sinv); tierId = md_tierId (si_metadata sinv)
            in if \<not> truthy userId \<or> \<not> truthy tierId then (Inr (), w)
               else (case find_tier (the tierId) w of
                       None \<Rightarrow> (Inr (), w)
                     | Some tier \<Rightarrow>
                         grant_credits q (the userId) (ti_credits tier) LEAD_FINDER_TIER_GRANT
                           (Some (si_amountPaid sinv)) (si_id sinv)
                           ((entry userId Billing_lead_finder_credits_granted)\<lparr>ae_metadata :=
                                Some (JObj [(''tierSlug'', JStr (ti_slug tier)), (''credits'', JInt (ti_credits tier)),
                                            (''invoiceId'', JStr (si_id sinv))])\<rparr>) w)))"

definition lf_cancel_by_stripe_id :: "string \<Rightarrow> world \<Rightarrow> world" where
  "lf_cancel_by_stripe_id x w = w\<lparr>leadFinderSubscriptions :=
     updateMany (\<lambda>s. lf_stripeSubscriptionId s = x) (\<lambda>s. s\<lparr>lf_status := Sub_CANCELED\<rparr>) (leadFinderSubscriptions w)\<rparr>"

definition lf_handleWebhookEvent ::
  "cfg \<Rightarrow> req \<Rightarrow> (string \<Rightarrow> stripeSubscription) \<Rightarrow> stripeEvent \<Rightarrow> world \<Rightarrow> unit result \<times> world" where
  "lf_handleWebhookEvent c q retrieve event w =
     (case event of
        CheckoutSessionCompleted session \<Rightarrow>
          if co_mode session \<noteq> ''subscription'' \<or> \<not> truthy (co_subscription session) then (Inr (), w)
          else if md_kind (co_metadata session) \<noteq> Some lead_finder_kind then (Inr (), w)
          else if \<not> q_stripeUp q then (Inl (Internal StripeError), w)
          else (let stripeSub = retrieve (the (co_subscription session));
                    w0 = w\<lparr>stripeCalls := stripeCalls w @ [SubscriptionRetrieve (the (co_subscription session))]\<rparr>
                in case syncFromStripe c q stripeSub w0 of
                     (Inl e, w1) \<Rightarrow> (Inl e, w1)
                   | (Inr _, w1) \<Rightarrow> (Inr (), lf_sendSubscriptionConfirmedEmail q stripeSub w1))
      | SubscriptionCreated stripeSub \<Rightarrow>
          if md_kind (ss_metadata stripeSub) \<noteq> Some lead_finder_kind then (Inr (), w) else syncFromStripe c q stripeSub w
      | SubscriptionUpdated stripeSub \<Rightarrow>
          if md_kind (ss_metadata stripeSub) \<noteq> Some lead_finder_kind then (Inr (), w) else syncFromStripe c q stripeSub w
      | SubscriptionResumed stripeSub \<Rightarrow>
          if md_kind (ss_metadata stripeSub) \<noteq> Some lead_finder_kind then (Inr (), w) else syncFromStripe c q stripeSub w
      | SubscriptionDeleted stripeSub \<Rightarrow> (Inr (), lf_cancel_by_stripe_id (ss_id stripeSub) w)
      | InvoicePaid sinv \<Rightarrow> grantMonthlyCredits q sinv w
      | InvoicePaymentFailed _ \<Rightarrow> (Inr (), w)
      | OtherStripeEvent _ \<Rightarrow> (Inr (), w))"

section \<open>The table\<close>

interpretation lead_finder: subscription_store leadFinderSubscriptions lf_userId lf_status write_lead_finder
  by unfold_locales (auto simp: write_lead_finder_def)

lemma write_lead_finder_Inr:
  "write_lead_finder rows w = Inr w' \<Longrightarrow> w' = w\<lparr>leadFinderSubscriptions := rows\<rparr> \<and> one_live lf_userId lf_status rows"
  by (auto simp: write_lead_finder_def split: if_splits)

definition lf_ok :: "world \<Rightarrow> bool" where
  "lf_ok w \<longleftrightarrow> unique_on lf_id (leadFinderSubscriptions w)
     \<and> unique_on lf_stripeSubscriptionId (leadFinderSubscriptions w)
     \<and> one_live lf_userId lf_status (leadFinderSubscriptions w)"

lemma lf_ok_cong: "leadFinderSubscriptions w' = leadFinderSubscriptions w \<Longrightarrow> lf_ok w' = lf_ok w"
  by (simp add: lf_ok_def)

lemma lf_ok_updateMany:
  assumes "lf_ok w" "leadFinderSubscriptions w' = updateMany p f (leadFinderSubscriptions w)"
    and "\<And>s. lf_id (f s) = lf_id s" "\<And>s. lf_stripeSubscriptionId (f s) = lf_stripeSubscriptionId s"
    and "one_live lf_userId lf_status (updateMany p f (leadFinderSubscriptions w))"
  shows "lf_ok w'"
  using assms by (simp add: lf_ok_def unique_on_updateMany)

lemma lf_ok_lower:
  assumes "lf_ok w" "leadFinderSubscriptions w' = updateMany p f (leadFinderSubscriptions w)"
    and "\<And>s. lf_id (f s) = lf_id s" "\<And>s. lf_stripeSubscriptionId (f s) = lf_stripeSubscriptionId s"
    and "\<And>s. lf_userId (f s) = lf_userId s" "\<And>s. p s \<Longrightarrow> lf_status (f s) \<in> set live_statuses \<Longrightarrow> lf_status s \<in> set live_statuses"
  shows "lf_ok w'"
  using assms(1-4)
  by (rule lf_ok_updateMany) (use assms in \<open>auto intro!: one_live_updateMany simp: lf_ok_def\<close>)

lemma lf_rows_simps [simp]:
  "lf_id (lf_update_row x p s) = lf_id s"
  "lf_userId (lf_update_row x p s) = lf_userId s"
  "lf_stripeSubscriptionId (lf_update_row x p s) = lf_stripeSubscriptionId s"
  "lf_status (lf_update_row x p s) = lf_mapStripeStatus (ss_status x)"
  "lf_pastDueSince (lf_update_row x p s) = p"
  "lf_id (lf_new_row q x u t p) = q_newId q"
  "lf_userId (lf_new_row q x u t p) = u"
  "lf_stripeSubscriptionId (lf_new_row q x u t p) = ss_id x"
  "lf_status (lf_new_row q x u t p) = lf_mapStripeStatus (ss_status x)"
  by (simp_all add: lf_update_row_def lf_new_row_def)

lemma lf_upsert_Inr:
  "lf_upsert q x u t p w = Inr w' \<Longrightarrow> \<exists>rows. w' = w\<lparr>leadFinderSubscriptions := rows\<rparr>"
  by (auto simp: lf_upsert_def Let_def split: option.splits sum.splits if_splits
      dest!: write_lead_finder_Inr)

lemma lf_ok_upsert:
  assumes "lf_ok w" "lf_upsert q x u t p w = Inr w'"
  shows "lf_ok w'"
proof (cases "lf_find_by_stripe_id (ss_id x) w")
  case None
  with assms(2) have "lf_id (lf_new_row q x u t p) \<notin> lf_id ` set (leadFinderSubscriptions w)"
    and wr: "write_lead_finder (leadFinderSubscriptions w @ [lf_new_row q x u t p]) w = Inr w'"
    by (auto simp: lf_upsert_def Let_def split: if_splits sum.splits)
  moreover have "ss_id x \<notin> lf_stripeSubscriptionId ` set (leadFinderSubscriptions w)"
    using None by (auto simp: lf_find_by_stripe_id_def findFirst_None_iff)
  ultimately show ?thesis
    using assms(1) write_lead_finder_Inr [OF wr] by (auto simp: lf_ok_def unique_on_snoc)
next
  case (Some e)
  then have wr: "write_lead_finder (updateMany (\<lambda>s. lf_id s = lf_id e)
      (lf_update_row x p) (leadFinderSubscriptions w)) w = Inr w'"
    using assms(2) by (simp add: lf_upsert_def)
  show ?thesis
    by (rule lf_ok_updateMany [OF assms(1), where p = "\<lambda>s. lf_id s = lf_id e" and f = "lf_update_row x p"])
      (use write_lead_finder_Inr [OF wr] in auto)
qed

end
