(* ===== verification/StripeWebhooks.thy ===== *)
theory StripeWebhooks
  imports LeadFinderBilling
begin

text \<open>
  The path of a Stripe event: \<open>webhooks.controller.ts\<close> verifies and queues it,
  \<open>stripe-webhook.processor.ts\<close> hands it to both billing services, the queue retries a failed job.
  Both services write disjoint tables. A credit grant is three writes, so an attempt that fails
  between them has moved the balance already, and the retry moves it again.
\<close>

section \<open>Controller and processor\<close>

record webhookEvent =
  we_id :: string
  we_type :: string
  we_object :: stripeEvent

definition handleStripeWebhook ::
  "(string \<Rightarrow> string \<Rightarrow> webhookEvent option) \<Rightarrow> req \<Rightarrow> string \<Rightarrow> string option
    \<Rightarrow> webhookEvent list \<Rightarrow> unit result \<times> webhookEvent list" where
  "handleStripeWebhook constructEvent q rawBody signature queue =
     (if \<not> truthy signature then (Inl (BadRequest Missing_signature), queue)
      else (case constructEvent rawBody (the signature) of
              None \<Rightarrow> (Inl (BadRequest Signature_verification_failed), queue)
            | Some event \<Rightarrow>
                if \<not> q_queueUp q then (Inl (ServiceUnavailable Could_not_queue_event), queue)
                else (Inr (), queue @ [event])))"

definition process_webhook ::
  "cfg \<Rightarrow> req \<Rightarrow> (string \<Rightarrow> stripeSubscription) \<Rightarrow> stripeEvent \<Rightarrow> world \<Rightarrow> unit result \<times> world" where
  "process_webhook c q retrieve ev w =
     (case handleWebhookEvent c q retrieve ev w of
        (Inl e, w1) \<Rightarrow> (Inl e, w1)
      | (Inr _, w1) \<Rightarrow> lf_handleWebhookEvent c q retrieve ev w1)"

definition onFailed :: "req \<Rightarrow> webhookEvent \<Rightarrow> nat \<Rightarrow> nat \<Rightarrow> string \<Rightarrow> world \<Rightarrow> world" where
  "onFailed q job jobAttempts attemptsMade message w =
     (if jobAttempts \<le> attemptsMade
      then audit_record q ((entry None Billing_webhook_processing_failed)
             \<lparr>ae_targetType := Some ''StripeEvent'', ae_targetId := Some (we_id job),
              ae_metadata := Some (JObj [(''eventType'', JStr (we_type job)), (''error'', JStr message)])\<rparr>) w
      else w)"

text \<open>The attempts the queue makes at one job: \<open>attempts: 3\<close> of \<open>queue.module.ts\<close>.\<close>

definition JOB_ATTEMPTS :: nat where "JOB_ATTEMPTS = 3"

fun run_job ::
  "cfg \<Rightarrow> (string \<Rightarrow> stripeSubscription) \<Rightarrow> (http_error \<Rightarrow> string) \<Rightarrow> webhookEvent \<Rightarrow> nat \<Rightarrow> req list
    \<Rightarrow> world \<Rightarrow> world" where
  "run_job c retrieve message job made [] w = w"
| "run_job c retrieve message job made (q # qs) w =
     (if JOB_ATTEMPTS \<le> made then w
      else (case process_webhook c q retrieve (we_object job) w of
              (Inr _, w1) \<Rightarrow> w1
            | (Inl e, w1) \<Rightarrow>
                run_job c retrieve message job (made + 1) qs
                  (onFailed q job JOB_ATTEMPTS (made + 1) (message e) w1)))"

section \<open>Disjoint tables\<close>

lemma directory_frame_stripe [simp]:
  "leadFinderSubscriptions (snd (stripe_cancel q x w)) = leadFinderSubscriptions w"
  "creditGrants (snd (stripe_cancel q x w)) = creditGrants w"
  "users (snd (stripe_cancel q x w)) = users w"
  "invoices (snd (stripe_cancel q x w)) = invoices w"
  by (simp_all add: stripe_cancel_def)

lemma sync_tables:
  "leadFinderSubscriptions (snd (syncSubscriptionFromStripe q x w)) = leadFinderSubscriptions w
   \<and> creditGrants (snd (syncSubscriptionFromStripe q x w)) = creditGrants w
   \<and> users (snd (syncSubscriptionFromStripe q x w)) = users w"
proof -
  have c: "leadFinderSubscriptions w1 = leadFinderSubscriptions w \<and> creditGrants w1 = creditGrants w \<and> users w1 = users w"
    if "stripe_cancel q y w = (r, w1)" for y r w1
    using directory_frame_stripe [of q y w] that by simp
  have u: "leadFinderSubscriptions w1 = leadFinderSubscriptions w \<and> creditGrants w1 = creditGrants w \<and> users w1 = users w"
    if "upsert_subscription q x u p w = Inr w1" for u p w1
    using upsert_Inr [OF that] by auto
  show ?thesis using c u
    by (auto simp: syncSubscriptionFromStripe_def Let_def split: option.splits sum.splits prod.splits
        dest!: write_subscriptions_Inr)
qed

lemma lf_sync_tables:
  "subscriptions (snd (syncFromStripe c q x w)) = subscriptions w
   \<and> invoices (snd (syncFromStripe c q x w)) = invoices w
   \<and> creditGrants (snd (syncFromStripe c q x w)) = creditGrants w
   \<and> users (snd (syncFromStripe c q x w)) = users w"
proof -
  have c: "subscriptions w1 = subscriptions w \<and> invoices w1 = invoices w \<and> creditGrants w1 = creditGrants w \<and> users w1 = users w"
    if "stripe_cancel q y w = (r, w1)" for y r w1
    using directory_frame_stripe [of q y w] subscriptions_stripe_cancel [of q y w] that by simp
  have u: "subscriptions w1 = subscriptions w \<and> invoices w1 = invoices w \<and> creditGrants w1 = creditGrants w \<and> users w1 = users w"
    if "lf_upsert q x u p pd w = Inr w1" for u p pd w1
    using lf_upsert_Inr [OF that] by auto
  show ?thesis using c u
    by (auto simp: syncFromStripe_def Let_def split: option.splits sum.splits prod.splits)
qed

lemma confirmed_tables [simp]:
  "leadFinderSubscriptions (sendSubscriptionConfirmedEmail q x w) = leadFinderSubscriptions w"
  "creditGrants (sendSubscriptionConfirmedEmail q x w) = creditGrants w"
  "users (sendSubscriptionConfirmedEmail q x w) = users w"
  by (auto simp: sendSubscriptionConfirmedEmail_def Let_def split: option.splits)

lemma lf_confirmed_tables [simp]:
  "subscriptions (lf_sendSubscriptionConfirmedEmail q x w) = subscriptions w"
  "invoices (lf_sendSubscriptionConfirmedEmail q x w) = invoices w"
  "leadFinderSubscriptions (lf_sendSubscriptionConfirmedEmail q x w) = leadFinderSubscriptions w"
  "creditGrants (lf_sendSubscriptionConfirmedEmail q x w) = creditGrants w"
  "users (lf_sendSubscriptionConfirmedEmail q x w) = users w"
  by (auto simp: lf_sendSubscriptionConfirmedEmail_def Let_def split: option.splits)

lemma grant_credits_tables [simp]:
  "leadFinderSubscriptions (snd (grant_credits q i n src a r e w)) = leadFinderSubscriptions w"
  "subscriptions (snd (grant_credits q i n src a r e w)) = subscriptions w"
  "invoices (snd (grant_credits q i n src a r e w)) = invoices w"
  by (simp_all add: grant_credits_def Let_def split: option.splits)

lemma markPastDue_tables:
  "leadFinderSubscriptions (snd (markPastDue c q x w)) = leadFinderSubscriptions w
   \<and> creditGrants (snd (markPastDue c q x w)) = creditGrants w \<and> users (snd (markPastDue c q x w)) = users w"
  by (auto simp: markPastDue_def split: option.splits sum.splits dest!: write_subscriptions_Inr)

lemma syncInvoice_tables [simp]:
  "leadFinderSubscriptions (syncInvoiceFromStripe q i st w) = leadFinderSubscriptions w"
  "creditGrants (syncInvoiceFromStripe q i st w) = creditGrants w"
  "users (syncInvoiceFromStripe q i st w) = users w"
  by (auto simp: syncInvoiceFromStripe_def Let_def split: option.splits)

lemma creditsCompleted_tables:
  "leadFinderSubscriptions (snd (handleCreditsCheckoutCompleted q s w)) = leadFinderSubscriptions w"
  by (auto simp: handleCreditsCheckoutCompleted_def Let_def)

lemma grantMonthly_tables:
  "subscriptions (snd (grantMonthlyCredits q i w)) = subscriptions w
   \<and> leadFinderSubscriptions (snd (grantMonthlyCredits q i w)) = leadFinderSubscriptions w
   \<and> invoices (snd (grantMonthlyCredits q i w)) = invoices w"
  by (auto simp: grantMonthlyCredits_def Let_def split: option.splits)

lemma directory_event_frame:
  "leadFinderSubscriptions (snd (handleWebhookEvent c q retrieve ev w)) = leadFinderSubscriptions w"
proof (cases ev)
  case (CheckoutSessionCompleted s)
  let ?w0 = "w\<lparr>stripeCalls := stripeCalls w @ [SubscriptionRetrieve (the (co_subscription s))]\<rparr>"
  let ?x = "retrieve (the (co_subscription s))"
  show ?thesis
    using sync_tables [of q ?x ?w0] creditsCompleted_tables [of q s w]
    by (cases "syncSubscriptionFromStripe q ?x ?w0")
      (auto simp: handleWebhookEvent_def CheckoutSessionCompleted Let_def split: sum.splits)
qed (auto simp: handleWebhookEvent_def sync_tables Let_def markPastDue_tables cancel_by_stripe_id_def)

lemma lead_finder_event_frame:
  "subscriptions (snd (lf_handleWebhookEvent c q retrieve ev w)) = subscriptions w
   \<and> invoices (snd (lf_handleWebhookEvent c q retrieve ev w)) = invoices w"
proof (cases ev)
  case (CheckoutSessionCompleted s)
  let ?w0 = "w\<lparr>stripeCalls := stripeCalls w @ [SubscriptionRetrieve (the (co_subscription s))]\<rparr>"
  let ?x = "retrieve (the (co_subscription s))"
  show ?thesis
    using lf_sync_tables [of c q ?x ?w0]
    by (cases "syncFromStripe c q ?x ?w0")
      (auto simp: lf_handleWebhookEvent_def CheckoutSessionCompleted Let_def split: sum.splits)
qed (auto simp: lf_handleWebhookEvent_def lf_sync_tables grantMonthly_tables lf_cancel_by_stripe_id_def)

section \<open>Credits and grant rows\<close>

definition balance :: "ident \<Rightarrow> world \<Rightarrow> int" where
  "balance i w = (case findById i w of None \<Rightarrow> 0 | Some u \<Rightarrow> u_leadFinderCredits u)"

text \<open>
  What an event asks for, read off the payload alone: the account, the credits, and what the grant
  row says of the money.
\<close>

datatype grantOrder = GrantOrder (go_user: ident) (go_credits: int) (go_source: creditGrantSource)
  (go_paid: "int option") (go_reference: string)

definition grant_of :: "stripeEvent \<Rightarrow> world \<Rightarrow> grantOrder option" where
  "grant_of ev w =
     (case ev of
        CheckoutSessionCompleted s \<Rightarrow>
          (case (md_userId (co_metadata s), Option.bind (md_credits (co_metadata s)) parseInt) of
             (Some i, Some n) \<Rightarrow>
               if co_mode s = ''payment'' \<and> i \<noteq> [] \<and> 0 < n
               then Some (GrantOrder i n CREDIT_PACK_PURCHASE (co_amountTotal s) (co_id s)) else None
           | _ \<Rightarrow> None)
      | InvoicePaid x \<Rightarrow>
          (case (md_userId (si_metadata x), md_tierId (si_metadata x)) of
             (Some i, Some k) \<Rightarrow>
               if md_kind (si_metadata x) = Some lead_finder_kind \<and> i \<noteq> [] \<and> k \<noteq> []
               then map_option (\<lambda>tier. GrantOrder i (ti_credits tier) LEAD_FINDER_TIER_GRANT
                      (Some (si_amountPaid x)) (si_id x)) (find_tier k w)
               else None
           | _ \<Rightarrow> None)
      | _ \<Rightarrow> None)"

definition grant_row :: "grantOrder \<Rightarrow> req \<Rightarrow> creditGrant" where
  "grant_row g q = \<lparr>cg_userId = go_user g, cg_credits = go_credits g, cg_source = go_source g,
     cg_amountPaidCents = go_paid g, cg_stripeReference = Some (go_reference g), cg_createdAt = q_now q\<rparr>"

text \<open>Whether an attempt gets past the write \<open>k\<close> of its grant, and whether it fails at all.\<close>

definition passes :: "nat \<Rightarrow> req \<Rightarrow> bool" where
  "passes k q \<longleftrightarrow> (case q_dbFails q of None \<Rightarrow> True | Some m \<Rightarrow> k < m)"

definition grant_fails :: "req \<Rightarrow> bool" where
  "grant_fails q \<longleftrightarrow> \<not> passes 2 q"

text \<open>The attempts the queue makes: up to the first that does not fail, and at most three.\<close>

fun attempts_made :: "nat \<Rightarrow> req list \<Rightarrow> req list" where
  "attempts_made left [] = []"
| "attempts_made left (q # qs) =
     (if left = 0 then [] else q # (if grant_fails q then attempts_made (left - 1) qs else []))"

definition is_payment :: "stripeEvent \<Rightarrow> bool" where
  "is_payment ev = (case ev of CheckoutSessionCompleted s \<Rightarrow> co_mode s = ''payment'' | _ \<Rightarrow> False)"

lemma directory_event_no_grant:
  assumes "\<not> is_payment ev"
  shows "users (snd (handleWebhookEvent c q retrieve ev w)) = users w
    \<and> creditGrants (snd (handleWebhookEvent c q retrieve ev w)) = creditGrants w"
proof (cases ev)
  case (CheckoutSessionCompleted s)
  let ?w0 = "w\<lparr>stripeCalls := stripeCalls w @ [SubscriptionRetrieve (the (co_subscription s))]\<rparr>"
  let ?x = "retrieve (the (co_subscription s))"
  show ?thesis
    using sync_tables [of q ?x ?w0] assms
    by (cases "syncSubscriptionFromStripe q ?x ?w0")
      (auto simp: handleWebhookEvent_def CheckoutSessionCompleted Let_def is_payment_def split: sum.splits)
qed (auto simp: handleWebhookEvent_def sync_tables Let_def markPastDue_tables cancel_by_stripe_id_def)

lemma lf_event_payment: "is_payment ev \<Longrightarrow> lf_handleWebhookEvent c q retrieve ev w = (Inr (), w)"
  by (cases ev) (auto simp: is_payment_def lf_handleWebhookEvent_def)

lemma creditsCompleted_order:
  "co_mode s = ''payment'' \<Longrightarrow> handleCreditsCheckoutCompleted q s w =
     (case grant_of (CheckoutSessionCompleted s) w of
        None \<Rightarrow> (Inr (), w)
      | Some g \<Rightarrow> grant_credits q (go_user g) (go_credits g) (go_source g) (go_paid g) (go_reference g)
          ((entry (Some (go_user g)) Billing_credits_purchased)\<lparr>ae_metadata :=
             Some (JObj [(''credits'', JInt (go_credits g)), (''sessionId'', JStr (go_reference g))])\<rparr>) w)"
  by (cases "md_userId (co_metadata s)"; cases "md_credits (co_metadata s)"; cases "the (md_credits (co_metadata s))")
    (auto simp: handleCreditsCheckoutCompleted_def grant_of_def Let_def truthy_def parseInt_def split: option.splits)

lemma grantMonthly_order:
  "\<exists>e. grantMonthlyCredits q x w =
     (case grant_of (InvoicePaid x) w of
        None \<Rightarrow> (Inr (), w)
      | Some g \<Rightarrow> grant_credits q (go_user g) (go_credits g) (go_source g) (go_paid g) (go_reference g) e w)"
  by (auto simp: grantMonthlyCredits_def grant_of_def Let_def truthy_def split: option.splits)

lemma invoice_paid_tiers:
  "\<exists>w1. handleWebhookEvent c q retrieve (InvoicePaid x) w = (Inr (), w1) \<and> users w1 = users w
     \<and> creditGrants w1 = creditGrants w \<and> leadFinderTiers w1 = leadFinderTiers w"
  by (auto simp: handleWebhookEvent_def syncInvoiceFromStripe_def Let_def split: option.splits)

lemma grant_of_cong: "leadFinderTiers w' = leadFinderTiers w \<Longrightarrow> grant_of ev w' = grant_of ev w"
  by (cases ev) (auto simp: grant_of_def find_tier_def split: option.splits)

lemma grant_of_other: "(\<And>x. ev \<noteq> InvoicePaid x) \<Longrightarrow> grant_of ev w' = grant_of ev w"
  by (cases ev) (auto simp: grant_of_def)

lemma grant_credits_tiers [simp]:
  "leadFinderTiers (snd (grant_credits q i n src a r e w)) = leadFinderTiers w"
  by (simp add: grant_credits_def Let_def split: option.splits)

text \<open>An event with an order is one grant on a state with the same accounts, grants and tiers.\<close>

lemma process_order:
  assumes "grant_of ev w = Some g"
  shows "\<exists>e w0. process_webhook c q retrieve ev w =
      grant_credits q (go_user g) (go_credits g) (go_source g) (go_paid g) (go_reference g) e w0
    \<and> users w0 = users w \<and> creditGrants w0 = creditGrants w \<and> leadFinderTiers w0 = leadFinderTiers w"
proof (cases ev)
  case (CheckoutSessionCompleted s)
  with assms have pay: "co_mode s = ''payment''" by (auto simp: grant_of_def split: option.splits if_splits)
  then have l: "lf_handleWebhookEvent c q retrieve ev w' = (Inr (), w')" for w'
    by (intro lf_event_payment) (simp add: is_payment_def CheckoutSessionCompleted)
  obtain e where "handleWebhookEvent c q retrieve ev w =
      grant_credits q (go_user g) (go_credits g) (go_source g) (go_paid g) (go_reference g) e w"
    using creditsCompleted_order [OF pay, of q w] assms
    by (simp add: handleWebhookEvent_def CheckoutSessionCompleted pay)
  moreover have "(case r of (Inl er, w1) \<Rightarrow> (Inl er, w1) | (Inr _, w1) \<Rightarrow> (Inr (), w1)) = r"
    for r :: "unit result \<times> world" by (cases r) (simp split: sum.splits)
  ultimately have "process_webhook c q retrieve ev w =
      grant_credits q (go_user g) (go_credits g) (go_source g) (go_paid g) (go_reference g) e w"
    by (simp only: process_webhook_def l)
  then show ?thesis by blast
next
  case (InvoicePaid x)
  from invoice_paid_tiers [of c q retrieve x w] obtain w1 where
    w1: "handleWebhookEvent c q retrieve ev w = (Inr (), w1)" "users w1 = users w"
      "creditGrants w1 = creditGrants w" "leadFinderTiers w1 = leadFinderTiers w"
    using InvoicePaid by auto
  from grantMonthly_order [of q x w1] show ?thesis
    using assms w1 grant_of_cong [OF w1(4), of ev]
    by (auto simp: process_webhook_def lf_handleWebhookEvent_def InvoicePaid)
qed (use assms in \<open>simp_all add: grant_of_def\<close>)

lemma grant_credits_effect:
  assumes "findById i w = Some u" and "u_leadFinderCredits u + n \<le> INT4_MAX"
  shows "findById j (snd (grant_credits q i n src a r e w)) =
      (if j = i \<and> passes 0 q then Some (u\<lparr>u_leadFinderCredits := u_leadFinderCredits u + n\<rparr>) else findById j w)
    \<and> creditGrants (snd (grant_credits q i n src a r e w)) = creditGrants w @
        (if passes 1 q then [grant_row (GrantOrder i n src a r) q] else [])
    \<and> (fst (grant_credits q i n src a r e w) = Inr () \<longleftrightarrow> \<not> grant_fails q)"
proof -
  let ?w1 = "update_user i (\<lambda>u. u\<lparr>u_leadFinderCredits := u_leadFinderCredits u + n\<rparr>) w"
  have k: "findById k ?w1 = (if k = i then Some (u\<lparr>u_leadFinderCredits := u_leadFinderCredits u + n\<rparr>) else findById k w)" for k
    using assms(1) by (simp add: findById_update_user)
  have f: "findById k (?w1\<lparr>creditGrants := gs\<rparr>) = findById k ?w1"
    "findById k (audit_record q e (?w1\<lparr>creditGrants := gs\<rparr>)) = findById k ?w1" for k gs
    by (simp_all add: findById_def)
  have m: "m = Suc 0 \<or> m = 2 \<or> 2 < m" if "0 < m" for m :: nat
    using that by linarith
  show ?thesis
    using assms by (cases "q_dbFails q") (auto simp: grant_credits_def grant_row_def passes_def grant_fails_def f k dest!: m)
qed

section \<open>The Lead Finder billing as a service\<close>

lemma lf_ok_sync:
  assumes "lf_ok w"
  shows "lf_ok (snd (syncFromStripe c q x w))"
proof -
  have canc: "lf_ok w1" if "stripe_cancel q y w = (r, w1)" for y r w1
    using assms lf_ok_cong [of w1 w] directory_frame_stripe(1) [of q y w] that by simp
  show ?thesis
    using assms lf_ok_upsert [OF assms] canc
    by (auto simp: syncFromStripe_def Let_def lf_ok_cong [of "audit_record a b d" d for a b d]
        lf_ok_cong [of "enqueue a b d" d for a b d] split: option.splits sum.splits prod.splits)
qed

lemma lf_ok_event:
  assumes "lf_ok w"
  shows "lf_ok (snd (lf_handleWebhookEvent c q retrieve ev w))"
proof (cases ev)
  case (CheckoutSessionCompleted s)
  let ?w0 = "w\<lparr>stripeCalls := stripeCalls w @ [SubscriptionRetrieve (the (co_subscription s))]\<rparr>"
  let ?x = "retrieve (the (co_subscription s))"
  have "lf_ok (snd (syncFromStripe c q ?x ?w0))"
    using assms by (intro lf_ok_sync) (simp add: lf_ok_def)
  then show ?thesis
    using assms by (cases "syncFromStripe c q ?x ?w0")
      (auto simp: lf_handleWebhookEvent_def CheckoutSessionCompleted Let_def
        lf_ok_cong [of "lf_sendSubscriptionConfirmedEmail a b d" d for a b d] split: sum.splits)
next
  case (SubscriptionDeleted x)
  have "lf_ok (lf_cancel_by_stripe_id (ss_id x) w)"
    by (rule lf_ok_lower [OF assms, where p = "\<lambda>s. lf_stripeSubscriptionId s = ss_id x"
          and f = "\<lambda>s. s\<lparr>lf_status := Sub_CANCELED\<rparr>"]) (auto simp: lf_cancel_by_stripe_id_def live_statuses_def)
  then show ?thesis by (simp add: lf_handleWebhookEvent_def SubscriptionDeleted)
next
  case (InvoicePaid i)
  with assms grantMonthly_tables [of q i w] show ?thesis
    by (simp add: lf_handleWebhookEvent_def lf_ok_def)
qed (use assms in \<open>auto simp: lf_handleWebhookEvent_def intro: lf_ok_sync\<close>)

lemma same_accounts_lf_rows [simp]:
  "same_accounts w w' \<Longrightarrow> same_accounts w (w'\<lparr>leadFinderSubscriptions := rows\<rparr>)"
  by (simp add: same_accounts_def extends_audit_def)

lemma same_accounts_lf_sync: "same_accounts w (snd (syncFromStripe c q x w))"
proof -
  have u: "same_accounts w w1" if "lf_upsert q x u t p w = Inr w1" for u t p w1
    using lf_upsert_Inr [OF that] by auto
  have k: "same_accounts w w1" if "stripe_cancel q y w = (r, w1)" for y r w1
    using same_accounts_stripe(1) [of w q y] that by simp
  show ?thesis
    using u k by (auto simp: syncFromStripe_def Let_def split: option.splits sum.splits prod.splits)
qed

lemma same_accounts_lf_confirmed:
  "same_accounts w w' \<Longrightarrow> same_accounts w (lf_sendSubscriptionConfirmedEmail q x w')"
  by (auto simp: lf_sendSubscriptionConfirmedEmail_def Let_def split: option.splits)

lemma auth_keeps_monthly: "auth_keeps c t w (snd (grantMonthlyCredits q i w))"
  by (simp add: grantMonthlyCredits_def Let_def auth_keeps_grant_credits split: option.splits)

lemma auth_keeps_lf_event: "auth_keeps c t w (snd (lf_handleWebhookEvent c' q retrieve ev w))"
proof (cases ev)
  case (CheckoutSessionCompleted s)
  let ?w0 = "w\<lparr>stripeCalls := stripeCalls w @ [SubscriptionRetrieve (the (co_subscription s))]\<rparr>"
  let ?x = "retrieve (the (co_subscription s))"
  have "same_accounts w (snd (syncFromStripe c' q ?x ?w0))"
    by (rule same_accounts_trans [OF _ same_accounts_lf_sync]) simp
  then have "auth_keeps c t w (snd (syncFromStripe c' q ?x ?w0))"
    "auth_keeps c t w (lf_sendSubscriptionConfirmedEmail q ?x (snd (syncFromStripe c' q ?x ?w0)))"
    by (simp_all add: same_accounts_keeps same_accounts_lf_confirmed)
  then show ?thesis
    by (cases "syncFromStripe c' q ?x ?w0")
      (auto simp: lf_handleWebhookEvent_def CheckoutSessionCompleted Let_def split: sum.splits)
next
  case (SubscriptionDeleted x)
  then show ?thesis
    by (simp add: lf_handleWebhookEvent_def same_accounts_keeps lf_cancel_by_stripe_id_def)
qed (auto simp: lf_handleWebhookEvent_def same_accounts_keeps same_accounts_lf_sync auth_keeps_monthly)

lemma lf_checkout_keeps:
  "auth_keeps c t w (snd (lf_createCheckoutSession q i slug w))
   \<and> leadFinderSubscriptions (snd (lf_createCheckoutSession q i slug w)) = leadFinderSubscriptions w"
proof -
  define P where "P w' \<longleftrightarrow> auth_keeps c t w w' \<and> leadFinderSubscriptions w' = leadFinderSubscriptions w" for w'
  have P0: "P w" by (simp add: P_def)
  have g: "P (snd (getOrCreateStripeCustomer q a b n w))" for a b n
    by (simp add: P_def auth_keeps_getOrCreate)
  have k: "P (snd (stripe_checkout q p m w1))" if "P w1" for p m w1
    using that auth_keeps_trans [OF _ same_accounts_keeps [OF same_accounts_stripe(3)]]
    by (simp add: P_def stripe_checkout_def)
  have a: "P (audit_record q e w1)" if "P w1" for e w1
    using that by (auto simp: P_def intro: auth_keeps_after)
  have "P (snd (lf_createCheckoutSession q i slug w))"
    unfolding lf_createCheckoutSession_def
    by (auto simp: P0 split: option.splits intro!: result_chain [where P = P] g k a)
  then show ?thesis by (simp add: P_def)
qed

lemma lf_cancel_keeps:
  "same_accounts w (snd (lf_cancel q i w)) \<and> (lf_ok w \<longrightarrow> lf_ok (snd (lf_cancel q i w)))"
proof -
  have u: "lf_ok w \<Longrightarrow> leadFinderSubscriptions w' = updateMany (\<lambda>s. lf_id s = x)
      (\<lambda>s. s\<lparr>lf_cancelAtPeriodEnd := True\<rparr>) (leadFinderSubscriptions w) \<Longrightarrow> lf_ok w'" for x w'
    by (erule lf_ok_lower [where p = "\<lambda>s. lf_id s = x" and f = "\<lambda>s. s\<lparr>lf_cancelAtPeriodEnd := True\<rparr>"]) auto
  show ?thesis
    by (auto simp: lf_cancel_def stripe_set_cancel_def update_lf_def split: option.splits intro: u)
qed

inductive lead_finder_step :: "cfg \<Rightarrow> req \<Rightarrow> world \<Rightarrow> world \<Rightarrow> bool" for c q w where
  lf_step_checkout: "lead_finder_step c q w (snd (lf_createCheckoutSession q i slug w))"
| lf_step_cancel: "lead_finder_step c q w (snd (lf_cancel q i w))"
| lf_step_event: "lead_finder_step c q w (snd (lf_handleWebhookEvent c q retrieve ev w))"

lemma lead_finder_step_keeps:
  "lead_finder_step c q w w' \<Longrightarrow> auth_keeps c (q_now q) w w' \<and> (lf_ok w \<longrightarrow> lf_ok w')"
proof (induction rule: lead_finder_step.induct)
  case (lf_step_checkout i slug)
  show ?case using lf_checkout_keeps [of c "q_now q" w q i slug]
      lf_ok_cong [of "snd (lf_createCheckoutSession q i slug w)" w] by simp
next
  case (lf_step_cancel i)
  show ?case using lf_cancel_keeps [of w q i] by (simp add: same_accounts_keeps)
next
  case (lf_step_event retrieve ev)
  show ?case by (simp add: auth_keeps_lf_event lf_ok_event)
qed

interpretation lead_finder_service: account_service lead_finder_step
  by unfold_locales (simp add: lead_finder_step_keeps)

text \<open>One processed webhook event keeps both subscription tables and the account tables in order.\<close>

lemma process_webhook_keeps:
  "auth_keeps c t w (snd (process_webhook c' q retrieve ev w))
   \<and> (subs_ok w \<longrightarrow> subs_ok (snd (process_webhook c' q retrieve ev w)))
   \<and> (lf_ok w \<longrightarrow> lf_ok (snd (process_webhook c' q retrieve ev w)))"
proof -
  obtain r w1 where d: "handleWebhookEvent c' q retrieve ev w = (r, w1)" by fastforce
  have w1: "auth_keeps c t w w1" "subs_ok w \<Longrightarrow> subs_ok w1" "lf_ok w \<Longrightarrow> lf_ok w1"
    using auth_keeps_handleWebhookEvent [of c t w c' q retrieve ev] subs_ok_handleWebhookEvent [of w c' q retrieve ev]
      lf_ok_cong [OF directory_event_frame [of c' q retrieve ev w]] d by simp_all
  let ?w2 = "snd (lf_handleWebhookEvent c' q retrieve ev w1)"
  have "auth_keeps c t w ?w2" "subs_ok w \<Longrightarrow> subs_ok ?w2" "lf_ok w \<Longrightarrow> lf_ok ?w2"
    using w1 auth_keeps_trans [OF w1(1) auth_keeps_lf_event] lf_ok_event
      subs_ok_cong [OF lead_finder_event_frame [THEN conjunct1], of c' q retrieve ev w1] by auto
  with w1 show ?thesis by (auto simp: process_webhook_def d split: sum.splits)
qed

section \<open>Properties\<close>

text \<open>
  Each Stripe event belongs to one product. The Directory handler never writes the Lead Finder
  subscriptions, the Lead Finder handler never writes the Directory subscriptions or invoices;
  a subscription event is a no-op for the service its metadata does not name, and a
  credit-pack payment is a no-op for the Lead Finder handler. So the state after both handlers
  does not depend on what the other product holds.
\<close>

theorem event_routing:
  "leadFinderSubscriptions (snd (handleWebhookEvent c q retrieve ev w)) = leadFinderSubscriptions w
   \<and> subscriptions (snd (lf_handleWebhookEvent c q retrieve ev w)) = subscriptions w
   \<and> invoices (snd (lf_handleWebhookEvent c q retrieve ev w)) = invoices w
   \<and> (\<forall>x. md_kind (ss_metadata x) = Some lead_finder_kind \<longrightarrow>
        handleWebhookEvent c q retrieve (SubscriptionUpdated x) w = (Inr (), w))
   \<and> (\<forall>x. md_kind (ss_metadata x) \<noteq> Some lead_finder_kind \<longrightarrow>
        lf_handleWebhookEvent c q retrieve (SubscriptionUpdated x) w = (Inr (), w))
   \<and> (is_payment ev \<longrightarrow> lf_handleWebhookEvent c q retrieve ev w = (Inr (), w))"
  using directory_event_frame lead_finder_event_frame
  by (simp add: lf_event_payment handleWebhookEvent_def [of c q retrieve "SubscriptionUpdated x" for x]
      lf_handleWebhookEvent_def [of c q retrieve "SubscriptionUpdated x" for x] syncSubscriptionFromStripe_def)

definition sample_tier :: leadFinderTier where
  "sample_tier = \<lparr>ti_id = ''t1'', ti_name = ''Growth'', ti_slug = ''growth'', ti_credits = 500,
     ti_stripePriceId = Some ''price_t1'', ti_amountCents = 4900, ti_currency = ''usd'', ti_recurring = True, ti_isActive = True\<rparr>"

definition sample_lf_metadata :: stripeMetadata where
  "sample_lf_metadata = \<lparr>md_userId = Some ''u1'', md_planId = None, md_tierId = Some ''t1'',
     md_kind = Some lead_finder_kind, md_credits = None\<rparr>"

definition sample_lf_sub :: stripeSubscription where
  "sample_lf_sub = sample_stripe_sub\<lparr>ss_id := ''st_lf'', ss_metadata := sample_lf_metadata\<rparr>"

definition sample_session_paid :: checkoutSession where
  "sample_session_paid = \<lparr>co_id = ''cs_1'', co_mode = ''payment'', co_subscription = None,
     co_metadata = \<lparr>md_userId = Some ''u1'', md_planId = None, md_tierId = None, md_kind = None,
       md_credits = Some ''100''\<rparr>, co_amountTotal = Some 1000\<rparr>"

lemmas webhook_sample_defs = sample_tier_def sample_lf_metadata_def sample_lf_sub_def sample_session_paid_def

theorem event_routing_witness:
  "handleWebhookEvent sample_cfg (sample_req 5) (\<lambda>_. sample_lf_sub) (SubscriptionUpdated sample_lf_sub) billing_world
     = (Inr (), billing_world)
   \<and> lf_handleWebhookEvent sample_cfg (sample_req 5) (\<lambda>_. sample_lf_sub) (SubscriptionUpdated sample_stripe_sub) billing_world
     = (Inr (), billing_world)
   \<and> lf_handleWebhookEvent sample_cfg (sample_req 5) (\<lambda>_. sample_lf_sub) (CheckoutSessionCompleted sample_session_paid) billing_world
     = (Inr (), billing_world)"
  using event_routing [of sample_cfg "sample_req 5" "\<lambda>_. sample_lf_sub" "CheckoutSessionCompleted sample_session_paid" billing_world]
  by (simp add: webhook_sample_defs sample_stripe_sub_def sample_metadata_def lead_finder_kind_def is_payment_def)

text \<open>
  A user never has two live Lead Finder plans: whatever checkouts, cancellations and Stripe events
  are processed, in every state reached at most one row per user is active, trialing or past due.
\<close>

theorem one_live_lead_finder_plan:
  assumes "lf_ok w" and "runs lead_finder_step c t w t' w'"
  shows "lf_ok w' \<and> (\<forall>s \<in> set (leadFinderSubscriptions w'). \<forall>s' \<in> set (leadFinderSubscriptions w').
    lf_userId s = lf_userId s' \<and> lf_status s \<in> set live_statuses \<and> lf_status s' \<in> set live_statuses \<longrightarrow> s = s')"
proof -
  from assms(2,1) have ok: "lf_ok w'"
    by (induction rule: runs.induct) (use lead_finder_step_keeps in blast)+
  then have "one_live lf_userId lf_status (leadFinderSubscriptions w')" by (simp add: lf_ok_def)
  from one_liveD [OF this] ok show ?thesis by blast
qed

theorem one_live_lead_finder_plan_witness:
  "lf_ok (snd (lf_handleWebhookEvent sample_cfg (sample_req 5) (\<lambda>_. sample_lf_sub)
       (SubscriptionCreated sample_lf_sub) (billing_world\<lparr>leadFinderTiers := [sample_tier]\<rparr>)))"
proof -
  let ?w = "billing_world\<lparr>leadFinderTiers := [sample_tier]\<rparr>"
  have ok: "lf_ok ?w" by (simp add: lf_ok_def one_live_def unique_on_def billing_sample_defs sample_defs)
  have "runs lead_finder_step sample_cfg 0 ?w (q_now (sample_req 5))
      (snd (lf_handleWebhookEvent sample_cfg (sample_req 5) (\<lambda>_. sample_lf_sub) (SubscriptionCreated sample_lf_sub) ?w))"
    by (rule runs_step [of lead_finder_step sample_cfg 0 ?w 0 ?w "sample_req 5"])
      (simp_all add: runs_refl lf_step_event sample_req_def)
  from one_live_lead_finder_plan [OF ok this] show ?thesis by blast
qed

lemma quiet_event:
  assumes "\<not> (\<exists>x. ev = InvoicePaid x)" and "grant_of ev w = None"
  shows "users (snd (process_webhook c q retrieve ev w)) = users w
    \<and> creditGrants (snd (process_webhook c q retrieve ev w)) = creditGrants w"
proof (cases "is_payment ev")
  case True
  then obtain s where s: "ev = CheckoutSessionCompleted s" "co_mode s = ''payment''"
    by (cases ev) (auto simp: is_payment_def)
  show ?thesis
    using assms(2) creditsCompleted_order [OF s(2), of q w] lf_event_payment [OF True]
    by (simp add: process_webhook_def handleWebhookEvent_def s)
next
  case False
  obtain r w1 where d: "handleWebhookEvent c q retrieve ev w = (r, w1)" by fastforce
  then have w1: "users w1 = users w" "creditGrants w1 = creditGrants w"
    using directory_event_no_grant [OF False, of c q retrieve w] by simp_all
  have "users (snd (lf_handleWebhookEvent c q retrieve ev w1)) = users w1
      \<and> creditGrants (snd (lf_handleWebhookEvent c q retrieve ev w1)) = creditGrants w1"
  proof (cases ev)
    case (CheckoutSessionCompleted s)
    let ?w0 = "w1\<lparr>stripeCalls := stripeCalls w1 @ [SubscriptionRetrieve (the (co_subscription s))]\<rparr>"
    let ?x = "retrieve (the (co_subscription s))"
    show ?thesis
      using lf_sync_tables [of c q ?x ?w0]
      by (cases "syncFromStripe c q ?x ?w0")
        (auto simp: lf_handleWebhookEvent_def CheckoutSessionCompleted Let_def split: sum.splits)
  qed (use assms(1) in \<open>auto simp: lf_handleWebhookEvent_def lf_sync_tables lf_cancel_by_stripe_id_def\<close>)
  with w1 show ?thesis by (auto simp: process_webhook_def d split: sum.splits)
qed

lemma idle_event:
  assumes "case_option True (\<lambda>g. findById (go_user g) w = None) (grant_of ev w)"
  shows "users (snd (process_webhook c q retrieve ev w)) = users w
    \<and> creditGrants (snd (process_webhook c q retrieve ev w)) = creditGrants w
    \<and> grant_of ev (snd (process_webhook c q retrieve ev w)) = grant_of ev w"
proof (cases "grant_of ev w")
  case (Some g)
  from process_order [OF this, of c q retrieve] obtain e w0 where
    p: "process_webhook c q retrieve ev w =
        grant_credits q (go_user g) (go_credits g) (go_source g) (go_paid g) (go_reference g) e w0"
      "users w0 = users w" "creditGrants w0 = creditGrants w" "leadFinderTiers w0 = leadFinderTiers w" by blast
  have "findById (go_user g) w0 = None" using assms Some findById_users_cong [OF p(2)] by simp
  then show ?thesis using p grant_of_cong [OF p(4)] by (simp add: grant_credits_def)
next
  case None
  show ?thesis
  proof (cases "\<exists>x. ev = InvoicePaid x")
    case True
    then obtain x where x: "ev = InvoicePaid x" ..
    from invoice_paid_tiers [of c q retrieve x w] obtain w1 where
      w1: "handleWebhookEvent c q retrieve ev w = (Inr (), w1)" "users w1 = users w"
        "creditGrants w1 = creditGrants w" "leadFinderTiers w1 = leadFinderTiers w" unfolding x by blast
    from grantMonthly_order [of q x w1] show ?thesis
      using None w1 grant_of_cong [OF w1(4), of ev] by (auto simp: process_webhook_def lf_handleWebhookEvent_def x)
  next
    case False
    then show ?thesis using quiet_event [OF _ None] grant_of_other by blast
  qed
qed

lemma onFailed_tables [simp]:
  "users (onFailed q job n m t w) = users w" "creditGrants (onFailed q job n m t w) = creditGrants w"
  "leadFinderTiers (onFailed q job n m t w) = leadFinderTiers w"
  by (simp_all add: onFailed_def)

lemma run_job_idle:
  assumes "case_option True (\<lambda>g. findById (go_user g) w = None) (grant_of (we_object job) w)"
  shows "users (run_job c retrieve message job made qs w) = users w
    \<and> creditGrants (run_job c retrieve message job made qs w) = creditGrants w"
  using assms
proof (induction qs arbitrary: made w)
  case (Cons q qs)
  obtain r w1 where p: "process_webhook c q retrieve (we_object job) w = (r, w1)" by fastforce
  with idle_event [OF Cons.prems, of c q retrieve] have
    w1: "users w1 = users w" "creditGrants w1 = creditGrants w" "grant_of (we_object job) w1 = grant_of (we_object job) w"
    by simp_all
  let ?w2 = "onFailed q job JOB_ATTEMPTS (made + 1) m w1"
  have "grant_of (we_object job) (onFailed q job JOB_ATTEMPTS (made + 1) m w1) = grant_of (we_object job) w" for m
    using grant_of_cong [OF onFailed_tables(3)] w1(3) by simp
  then have "case_option True (\<lambda>g. findById (go_user g) (onFailed q job JOB_ATTEMPTS (made + 1) m w1) = None)
      (grant_of (we_object job) (onFailed q job JOB_ATTEMPTS (made + 1) m w1))" for m
    using Cons.prems findById_users_cong [OF onFailed_tables(1)] findById_users_cong [OF w1(1)]
    by (simp split: option.splits)
  from Cons.IH [OF this] show ?case using p w1 by (simp split: sum.splits)
qed simp

lemma attempts_le: "length (attempts_made left qs) \<le> left \<and> length (attempts_made left qs) \<le> length qs"
  by (induction left qs rule: attempts_made.induct) auto

lemma passes_mono: "passes k q \<Longrightarrow> m \<le> k \<Longrightarrow> passes m q"
  by (auto simp: passes_def split: option.splits)

text \<open>One attempt at an event with an order.\<close>

lemma attempt_order:
  assumes "grant_of ev w = Some g" and "findById (go_user g) w = Some u"
    and "u_leadFinderCredits u + go_credits g \<le> INT4_MAX" and "process_webhook c q retrieve ev w = (r, w1)"
  shows "findById j w1 = (if j = go_user g \<and> passes 0 q
      then Some (u\<lparr>u_leadFinderCredits := u_leadFinderCredits u + go_credits g\<rparr>) else findById j w)"
    and "creditGrants w1 = creditGrants w @ (if passes 1 q then [grant_row g q] else [])"
    and "r = Inr () \<longleftrightarrow> \<not> grant_fails q" and "leadFinderTiers w1 = leadFinderTiers w"
proof -
  from process_order [OF assms(1), of c q retrieve] obtain e w0 where
    p: "(r, w1) = grant_credits q (go_user g) (go_credits g) (go_source g) (go_paid g) (go_reference g) e w0"
      "users w0 = users w" "creditGrants w0 = creditGrants w" "leadFinderTiers w0 = leadFinderTiers w"
    using assms(4) by metis
  have u0: "findById (go_user g) w0 = Some u" using assms(2) findById_users_cong [OF p(2)] by simp
  note eff = grant_credits_effect [OF u0 assms(3), where q = q and src = "go_source g" and a = "go_paid g"
      and r = "go_reference g" and e = e, folded p(1), simplified fst_conv snd_conv]
  show "findById j w1 = (if j = go_user g \<and> passes 0 q
      then Some (u\<lparr>u_leadFinderCredits := u_leadFinderCredits u + go_credits g\<rparr>) else findById j w)"
    "creditGrants w1 = creditGrants w @ (if passes 1 q then [grant_row g q] else [])"
    "r = Inr () \<longleftrightarrow> \<not> grant_fails q"
    using eff [of j] p(3) findById_users_cong [OF p(2)] by simp_all
  show "leadFinderTiers w1 = leadFinderTiers w"
    using p(1,4) grant_credits_tiers by (metis snd_conv)
qed

lemma run_job_orders:
  assumes "grant_of (we_object job) w = Some g" and "findById (go_user g) w = Some u" and "0 \<le> go_credits g"
    and "u_leadFinderCredits u + int left * go_credits g \<le> INT4_MAX" and "JOB_ATTEMPTS = left + made"
  shows "findById j (run_job c retrieve message job made qs w) =
      (if j = go_user g then Some (u\<lparr>u_leadFinderCredits := u_leadFinderCredits u
          + int (length (filter (passes 0) (attempts_made left qs))) * go_credits g\<rparr>)
       else findById j w)
    \<and> creditGrants (run_job c retrieve message job made qs w) =
        creditGrants w @ map (grant_row g) (filter (passes 1) (attempts_made left qs))"
  using assms
proof (induction qs arbitrary: left made w u)
  case (Cons q qs)
  note job = Cons.prems
  obtain r w1 where w1: "process_webhook c q retrieve (we_object job) w = (r, w1)" by fastforce
  show ?case
  proof (cases left)
    case 0
    with job show ?thesis by simp
  next
    case (Suc left')
    let ?n = "go_credits g"
    have rest: "u_leadFinderCredits u + ?n + int left' * ?n \<le> INT4_MAX"
      using job(4) by (simp add: Suc algebra_simps)
    moreover have "0 \<le> int left' * ?n" using job(3) by simp
    ultimately have bound: "u_leadFinderCredits u + ?n \<le> INT4_MAX" by linarith
    note att = attempt_order [OF job(1,2) bound w1]
    show ?thesis
    proof (cases "grant_fails q")
      case False
      then show ?thesis
        using att(1-3) job(2,5) passes_mono [of 2 q 0] passes_mono [of 2 q 1]
        by (auto simp: w1 Suc grant_fails_def split: sum.splits)
    next
      case True
      then obtain er where er: "r = Inl er" using att(3) by (cases r) auto
      let ?w2 = "onFailed q job JOB_ATTEMPTS (made + 1) (message er) w1"
      let ?u = "if passes 0 q then u\<lparr>u_leadFinderCredits := u_leadFinderCredits u + ?n\<rparr> else u"
      have f2: "findById k (onFailed q job x y t w1) = findById k w1" for k x y t by (rule findById_users_cong) simp
      have "grant_of (we_object job) ?w2 = Some g"
        using grant_of_cong [of ?w2 w "we_object job"] job(1) by (simp add: att(4))
      moreover have "findById (go_user g) ?w2 = Some ?u" using job(2) by (simp add: f2 att(1))
      moreover have "u_leadFinderCredits ?u + int left' * ?n \<le> INT4_MAX" using rest job(3) by simp
      ultimately show ?thesis
        using Cons.IH [of ?w2 ?u left' "made + 1"] True job(3,5) by (auto simp: w1 er f2 att(1,2) Suc algebra_simps)
    qed
  qed
qed simp

text \<open>The part of a list of attempts that moved the balance, and the part that wrote a row.\<close>

lemma clean_attempts:
  assumes "\<forall>q \<in> set (attempts_made left qs). q_dbFails q \<noteq> Some 1 \<and> q_dbFails q \<noteq> Some 2"
  shows "length (filter (passes 0) (attempts_made left qs)) \<le> 1
    \<and> filter (passes 1) (attempts_made left qs) = filter (passes 0) (attempts_made left qs)"
  using assms
proof (induction left qs rule: attempts_made.induct)
  case (2 left q qs)
  have m: "m = Suc 0 \<or> m = 2 \<or> 2 < m" if "0 < m" for m :: nat using that by linarith
  have "passes 0 q \<longleftrightarrow> passes 1 q \<and> \<not> grant_fails q" if "left \<noteq> 0"
    using 2(2) that by (cases "q_dbFails q") (auto simp: passes_def grant_fails_def dest!: m)
  moreover have "passes 1 q \<longleftrightarrow> passes 0 q" if "left \<noteq> 0"
    using 2(2) that by (cases "q_dbFails q") (auto simp: passes_def dest!: m)
  ultimately show ?case using 2 by auto
qed simp

text \<open>
  C22: what one queued webhook job grants, attempt by attempt. A grant is three writes (the balance,
  the grant row, the audit row) outside any transaction, and the database may fail at any of them in
  any attempt. The queue stops at the first attempt that does not fail, and after three. Every
  attempt that passes the first write raises the balance of the account its event names by the
  credits its event names, every attempt that passes the second appends one row with the source, the
  money and the reference of the event, and no other account and no older row changes. So the job
  grants exactly once when no attempt fails between its writes, and twice or three times when the
  row or the audit entry is what fails (the witness: 100 credits bought, 200 received, one row). An
  event that orders nothing, or names no account, changes no account and no grant row.
\<close>

theorem webhook_job_grants:
  assumes fits: "\<forall>g u. grant_of (we_object job) w = Some g \<and> findById (go_user g) w = Some u
      \<longrightarrow> 0 \<le> go_credits g \<and> u_leadFinderCredits u + 3 * go_credits g \<le> 2147483647"
  shows "let tried = attempts_made 3 qs; w' = run_job c retrieve message job 0 qs w in
    (case grant_of (we_object job) w of
       None \<Rightarrow> users w' = users w \<and> creditGrants w' = creditGrants w
     | Some g \<Rightarrow>
         (case findById (go_user g) w of
            None \<Rightarrow> users w' = users w \<and> creditGrants w' = creditGrants w
          | Some u \<Rightarrow>
              findById (go_user g) w' = Some (u\<lparr>u_leadFinderCredits :=
                u_leadFinderCredits u + int (length (filter (passes 0) tried)) * go_credits g\<rparr>)
              \<and> (\<forall>j. j \<noteq> go_user g \<longrightarrow> findById j w' = findById j w)
              \<and> creditGrants w' = creditGrants w @ map (grant_row g) (filter (passes 1) tried)
              \<and> length tried \<le> 3
              \<and> ((\<forall>q \<in> set tried. q_dbFails q \<noteq> Some 1 \<and> q_dbFails q \<noteq> Some 2) \<longrightarrow>
                   length (filter (passes 0) tried) \<le> 1 \<and> filter (passes 1) tried = filter (passes 0) tried)))"
proof (cases "\<exists>g u. grant_of (we_object job) w = Some g \<and> findById (go_user g) w = Some u")
  case True
  then obtain g u where g: "grant_of (we_object job) w = Some g" "findById (go_user g) w = Some u" by blast
  with fits have "0 \<le> go_credits g" "u_leadFinderCredits u + int 3 * go_credits g \<le> INT4_MAX"
    by (simp_all add: INT4_MAX_def)
  from run_job_orders [OF g this, of 0] show ?thesis
    using g attempts_le [of 3 qs] clean_attempts [of 3 qs] by (simp add: JOB_ATTEMPTS_def Let_def)
next
  case False
  then show ?thesis
    using run_job_idle [of w job c retrieve message 0 qs] by (auto simp: Let_def split: option.splits)
qed

text \<open>100 credits bought; the grant row of the first attempt fails: 200 received, one row.\<close>

definition sample_job :: webhookEvent where
  "sample_job = \<lparr>we_id = ''evt_1'', we_type = ''checkout.session.completed'',
     we_object = CheckoutSessionCompleted sample_session_paid\<rparr>"

theorem webhook_job_grants_witness:
  "let w' = run_job sample_cfg (\<lambda>_. sample_lf_sub) (\<lambda>_. ''down'') sample_job 0
        [(sample_req 1)\<lparr>q_dbFails := Some 1\<rparr>, sample_req 2, sample_req 3] sample_world
    in map_option u_leadFinderCredits (findById ''u1'' sample_world) = Some 100
      \<and> map_option u_leadFinderCredits (findById ''u1'' w') = Some 300
      \<and> map (\<lambda>r. (cg_credits r, cg_createdAt r)) (creditGrants w') = [(100, 2)]"
proof -
  let ?qs = "[(sample_req 1)\<lparr>q_dbFails := Some 1\<rparr>, sample_req 2, sample_req 3]"
  have hundred: "parseInt ''100'' = Some 100" by code_simp
  have g: "grant_of (we_object sample_job) sample_world = Some (GrantOrder ''u1'' 100 CREDIT_PACK_PURCHASE (Some 1000) ''cs_1'')"
    by (simp add: grant_of_def sample_job_def sample_session_paid_def hundred)
  have u: "findById ''u1'' sample_world = Some sample_user" "u_leadFinderCredits sample_user = 100"
    by (simp_all add: findById_def sample_defs)
  have no: "creditGrants sample_world = []" by (simp add: sample_world_def empty_world_def)
  have t: "attempts_made 3 ?qs = [(sample_req 1)\<lparr>q_dbFails := Some 1\<rparr>, sample_req 2]"
    by (simp add: grant_fails_def passes_def sample_req_def)
  have p: "filter (passes 0) (attempts_made 3 ?qs) = [(sample_req 1)\<lparr>q_dbFails := Some 1\<rparr>, sample_req 2]"
    "filter (passes 1) (attempts_made 3 ?qs) = [sample_req 2]"
    unfolding t by (simp_all add: passes_def sample_req_def)
  let ?w = "run_job sample_cfg (\<lambda>_. sample_lf_sub) (\<lambda>_. ''down'') sample_job 0 ?qs sample_world"
  have "\<forall>g u. grant_of (we_object sample_job) sample_world = Some g \<and> findById (go_user g) sample_world = Some u
      \<longrightarrow> 0 \<le> go_credits g \<and> u_leadFinderCredits u + 3 * go_credits g \<le> 2147483647"
    using u by (simp add: g)
  from webhook_job_grants [OF this, of ?qs sample_cfg "\<lambda>_. sample_lf_sub" "\<lambda>_. ''down''"]
  have "findById ''u1'' ?w = Some (sample_user\<lparr>u_leadFinderCredits := 300\<rparr>)"
    "creditGrants ?w = [grant_row (GrantOrder ''u1'' 100 CREDIT_PACK_PURCHASE (Some 1000) ''cs_1'') (sample_req 2)]"
    unfolding g Let_def option.case grantOrder.sel u(1) no p by (simp_all add: u(2) del: run_job.simps attempts_made.simps)
  then show ?thesis
    using u by (simp add: grant_row_def sample_req_def del: run_job.simps)
qed

lemma digit_chars:
  "digit_char 0 = CHR ''0''" "digit_char 1 = CHR ''1''" "digit_char 2 = CHR ''2''" "digit_char 3 = CHR ''3''"
  "digit_char 4 = CHR ''4''" "digit_char 5 = CHR ''5''" "digit_char 6 = CHR ''6''" "digit_char 7 = CHR ''7''"
  "digit_char 8 = CHR ''8''" "digit_char 9 = CHR ''9''"
  by (simp_all add: digit_char_def char_of_def bit_0)

lemma is_digit_char: "d < 10 \<Longrightarrow> is_digit (digit_char d) \<and> \<not> js_space (digit_char d)
    \<and> digit_char d \<noteq> CHR ''-'' \<and> digit_char d \<noteq> CHR ''+''"
proof -
  assume "d < 10"
  then have "d \<in> {0, 1, 2, 3, 4, 5, 6, 7, 8, 9}" by auto
  then show ?thesis
    by (auto simp: is_digit_def js_space_def digit_chars digit_chars(2) [unfolded One_nat_def])
qed

lemma show_nat_not_Nil [simp]: "show_nat n \<noteq> []"
  by (subst show_nat.simps) simp

lemma parseInt_show_nat: "parseInt (show_nat n) = Some (int n)"
proof -
  have d: "is_digit x \<and> \<not> js_space x \<and> x \<noteq> CHR ''-'' \<and> x \<noteq> CHR ''+''" if "x \<in> set (show_nat n)" for x
  proof -
    from that set_show_nat [of n] obtain k where k: "k < 10" "x = digit_char k"
      by blast
    from is_digit_char [OF k(1)] show ?thesis by (simp add: k(2))
  qed
  have h: "\<not> js_space (hd (show_nat n))" "hd (show_nat n) \<noteq> CHR ''-''" "hd (show_nat n) \<noteq> CHR ''+''"
    using d [OF hd_in_set [OF show_nat_not_Nil]] by simp_all
  then have dw: "dropWhile js_space (show_nat n) = show_nat n"
    by (cases "show_nat n") auto
  have tw: "takeWhile is_digit (show_nat n) = show_nat n"
    using d by (simp add: takeWhile_eq_all_conv)
  show ?thesis
    using h by (simp add: parseInt_def Let_def decimal_show_nat dw tw)
qed

fun deliver ::
  "cfg \<Rightarrow> (string \<Rightarrow> stripeSubscription) \<Rightarrow> stripeEvent \<Rightarrow> req list \<Rightarrow> world \<Rightarrow> world" where
  "deliver c retrieve ev [] w = w"
| "deliver c retrieve ev (q # qs) w = deliver c retrieve ev qs (snd (process_webhook c q retrieve ev w))"

lemma deliver_payment:
  assumes "co_mode s = ''payment''" "md_userId (co_metadata s) = Some i" "i \<noteq> []"
    and "md_credits (co_metadata s) = Some (show_nat n)" "0 < n" and "\<forall>q \<in> set qs. q_dbFails q = None"
    and "u_leadFinderCredits u + int (length qs) * int n \<le> INT4_MAX" and "findById i w = Some u"
  shows "findById i (deliver c retrieve (CheckoutSessionCompleted s) qs w)
      = Some (u\<lparr>u_leadFinderCredits := u_leadFinderCredits u + int (length qs) * int n\<rparr>)
    \<and> (\<forall>j. j \<noteq> i \<longrightarrow> findById j (deliver c retrieve (CheckoutSessionCompleted s) qs w) = findById j w)
    \<and> creditGrants (deliver c retrieve (CheckoutSessionCompleted s) qs w) = creditGrants w @
        map (\<lambda>q. \<lparr>cg_userId = i, cg_credits = int n, cg_source = CREDIT_PACK_PURCHASE,
          cg_amountPaidCents = co_amountTotal s, cg_stripeReference = Some (co_id s), cg_createdAt = q_now q\<rparr>) qs"
  using assms(6-8)
proof (induction qs arbitrary: w u)
  case (Cons q qs)
  let ?ev = "CheckoutSessionCompleted s"
  let ?g = "GrantOrder i (int n) CREDIT_PACK_PURCHASE (co_amountTotal s) (co_id s)"
  let ?u = "u\<lparr>u_leadFinderCredits := u_leadFinderCredits u + int n\<rparr>"
  obtain r w1 where p: "process_webhook c q retrieve ?ev w = (r, w1)" by fastforce
  have g: "grant_of ?ev w = Some ?g"
    using assms(1-5) by (simp add: grant_of_def parseInt_show_nat)
  have f: "passes k q" for k using Cons.prems(1) by (simp add: passes_def)
  have b: "u_leadFinderCredits u + go_credits ?g \<le> INT4_MAX"
  proof -
    have "0 \<le> int (length qs) * int n" by simp
    moreover have "u_leadFinderCredits u + int n + int (length qs) * int n \<le> INT4_MAX"
      using Cons.prems(2) by (simp add: algebra_simps)
    ultimately show ?thesis by (simp only: grantOrder.sel)
  qed
  note att = attempt_order [OF g _ b p, unfolded grantOrder.sel, OF Cons.prems(3)]
  have w1: "findById i w1 = Some ?u" by (simp add: att(1) f)
  have b1: "u_leadFinderCredits ?u + int (length qs) * int n \<le> INT4_MAX"
    using Cons.prems(2) by (simp add: algebra_simps)
  from Cons.IH [OF _ b1 w1] show ?case
    using Cons.prems(1) by (simp add: p att(1,2) f grant_row_def algebra_simps)
qed simp

text \<open>
  The credits that are bought are the credits that are granted. A checkout stamps the pack size
  times the quantity, as decimal text, into the metadata of the payment; when the payment
  with that metadata completes, \<open>parseInt\<close> reads the same number, the buyer's balance rises by it,
  one grant row per delivery records it and no other account changes (as long as the database does
  not fail and the balance stays within its column). The event id is not
  remembered: Stripe's contract is at-least-once, and every redelivery grants the credits again.
\<close>

theorem purchased_credits_granted:
  assumes bought: "createCreditsCheckoutSession q0 i slug n w0 = (Inr url, w1)"
    and pack: "findFirst (\<lambda>p. cp_slug p = slug) (creditPacks w0) = Some pack" "0 < nat (cp_credits pack) * n"
    and paid: "last (stripeCalls w1) = CheckoutCreate price md" "co_mode s = ''payment''"
      "md_userId (co_metadata s) = map_of md ''userId''" "md_credits (co_metadata s) = map_of md ''credits''"
    and user: "i \<noteq> []" "findById i w = Some u"
    and up: "\<forall>q \<in> set qs. q_dbFails q = None"
      "u_leadFinderCredits u + int (length qs) * int (nat (cp_credits pack) * n) \<le> INT4_MAX"
  shows "findById i (deliver c retrieve (CheckoutSessionCompleted s) qs w)
      = Some (u\<lparr>u_leadFinderCredits := u_leadFinderCredits u + int (length qs) * int (nat (cp_credits pack) * n)\<rparr>)
    \<and> (\<forall>j. j \<noteq> i \<longrightarrow> findById j (deliver c retrieve (CheckoutSessionCompleted s) qs w) = findById j w)
    \<and> creditGrants (deliver c retrieve (CheckoutSessionCompleted s) qs w) = creditGrants w @
        map (\<lambda>q. \<lparr>cg_userId = i, cg_credits = int (nat (cp_credits pack) * n), cg_source = CREDIT_PACK_PURCHASE,
          cg_amountPaidCents = co_amountTotal s, cg_stripeReference = Some (co_id s), cg_createdAt = q_now q\<rparr>) qs"
proof -
  from bought obtain usr where usr: "findById i w0 = Some usr"
    by (auto simp: createCreditsCheckoutSession_def split: option.splits)
  then have id: "u_id usr = i" by (auto dest: findById_SomeD)
  from bought pack(1) usr obtain w2 cust where
    "w1 = audit_record q0 ((entry (Some i) Billing_credits_checkout_started)\<lparr>ae_metadata :=
        Some (JObj [(''packId'', JStr (cp_id pack)), (''packSlug'', JStr (cp_slug pack)), (''quantity'', JInt (int n))])\<rparr>)
      (w2\<lparr>stripeCalls := stripeCalls w2 @ [CheckoutCreate (cp_stripePriceId pack)
         [(''userId'', i), (''packId'', cp_id pack), (''credits'', show_nat (nat (cp_credits pack) * n))]]\<rparr>)"
    by (auto simp: createCreditsCheckoutSession_def id stripe_checkout_def split: if_splits sum.splits prod.splits)
  then have "md = [(''userId'', i), (''packId'', cp_id pack), (''credits'', show_nat (nat (cp_credits pack) * n))]"
    using paid(1) by simp
  then show ?thesis
    using paid pack(2) user up by (intro deliver_payment) simp_all
qed

definition sample_pack :: creditPack where
  "sample_pack = \<lparr>cp_id = ''k1'', cp_name = ''50 credits'', cp_slug = ''pack'', cp_credits = 50,
     cp_stripePriceId = ''price_k1'', cp_amountCents = 500, cp_currency = ''usd'', cp_isActive = True\<rparr>"

theorem purchased_credits_granted_witness:
  "\<exists>w. map cg_credits (creditGrants (deliver sample_cfg (\<lambda>_. sample_lf_sub) (CheckoutSessionCompleted sample_session_paid)
       [sample_req 1, sample_req 2] w)) = [100, 100]
     \<and> map_option u_leadFinderCredits (findById ''u1'' (deliver sample_cfg (\<lambda>_. sample_lf_sub)
         (CheckoutSessionCompleted sample_session_paid) [sample_req 1, sample_req 2] w)) = Some 300"
proof -
  let ?u = "sample_user\<lparr>u_stripeCustomerId := Some ''cus_1''\<rparr>"
  let ?w = "sample_world\<lparr>users := [?u], creditPacks := [sample_pack]\<rparr>"
  let ?r = "createCreditsCheckoutSession (sample_req 0) ''u1'' ''pack'' 2 ?w"
  have u: "findById ''u1'' ?w = Some ?u" and p: "findFirst (\<lambda>p. cp_slug p = ''pack'') (creditPacks ?w) = Some sample_pack"
    by (simp_all add: findById_def sample_pack_def sample_defs)
  have hundred: "show_nat (nat 50 * 2) = ''100''" by (simp add: show_nat.simps digit_chars digit_chars(2) [unfolded One_nat_def])
  have id: "u_id sample_user = ''u1''" by (simp add: sample_user_def)
  have cust: "customer_of ''u1'' ?w = Some ''cus_1''" using u by (simp add: customer_of_def)
  have pk: "cp_slug sample_pack = ''pack''" "cp_isActive sample_pack" "cp_stripePriceId sample_pack = ''price_k1''" "cp_id sample_pack = ''k1''"
    "cp_credits sample_pack = 50" by (simp_all add: sample_pack_def)
  have r: "fst ?r = Inr ''https://checkout''" "last (stripeCalls (snd ?r)) = CheckoutCreate ''price_k1''
      [(''userId'', ''u1''), (''packId'', ''k1''), (''credits'', ''100'')]"
    using hundred id cust by (simp_all add: createCreditsCheckoutSession_def u p getOrCreateStripeCustomer_def
        stripe_checkout_def pk sample_req_def)
  then have "?r = (Inr ''https://checkout'', snd ?r)" by (metis prod.collapse)
  from purchased_credits_granted [OF this p _ r(2), where s = sample_session_paid and w = ?w and u = ?u
      and c = sample_cfg and retrieve = "\<lambda>_. sample_lf_sub" and qs = "[sample_req 1, sample_req 2]"]
  have g: "findById ''u1'' (deliver sample_cfg (\<lambda>_. sample_lf_sub) (CheckoutSessionCompleted sample_session_paid)
        [sample_req 1, sample_req 2] ?w) = Some (?u\<lparr>u_leadFinderCredits := u_leadFinderCredits ?u + 2 * 100\<rparr>)"
    "map cg_credits (creditGrants (deliver sample_cfg (\<lambda>_. sample_lf_sub) (CheckoutSessionCompleted sample_session_paid)
        [sample_req 1, sample_req 2] ?w)) = [100, 100]"
    using u by (simp_all add: sample_pack_def sample_session_paid_def sample_world_def empty_world_def
      sample_req_def sample_user_def INT4_MAX_def)
  then show ?thesis by (intro exI [of _ ?w]) (simp add: sample_user_def)
qed

end
