(* ===== verification/ApolloSearch.thy ===== *)
theory ApolloSearch
  imports Leads StripeWebhooks
begin

text \<open>
  \<open>apollo-search.processor.ts\<close>: the worker that runs a queued Lead Finder search. It shares the
  database with every other request, so the run takes an environment \<open>env\<close>: \<open>env (2 k)\<close> is what
  happens in the database before the \<open>k\<close>-th candidate is looked at, \<open>env (2 k + 1)\<close> what happens
  while that candidate is being enriched. Ids drawn in one run are numbered.
\<close>

section \<open>The worker\<close>

definition nth_id :: "req \<Rightarrow> nat \<Rightarrow> ident" where
  "nth_id q k = q_newId q @ ''-'' @ show_nat k"

definition pending_result :: "req \<Rightarrow> ident \<Rightarrow> nat \<Rightarrow> apolloCandidate \<Rightarrow> leadSearchResult" where
  "pending_result q jobId k ca =
     \<lparr>rs_id = nth_id q k, rs_jobId = jobId, rs_apolloPersonId = ca_apolloPersonId ca, rs_name = Some (ca_name ca),
      rs_title = ca_title ca, rs_company = ca_company ca, rs_linkedin = None, rs_email = None,
      rs_status = Res_pending, rs_reviewStatus = ''new'', rs_createdAt = q_now q\<rparr>"

definition update_result ::
  "ident \<Rightarrow> (leadSearchResult \<Rightarrow> leadSearchResult) \<Rightarrow> world \<Rightarrow> world" where
  "update_result i f w = w\<lparr>leadSearchResults := updateMany (\<lambda>r. rs_id r = i) f (leadSearchResults w)\<rparr>"

definition skip_pending :: "ident \<Rightarrow> world \<Rightarrow> world" where
  "skip_pending jobId w = w\<lparr>leadSearchResults :=
     updateMany (\<lambda>r. rs_jobId r = jobId \<and> rs_status r = Res_pending) (\<lambda>r. r\<lparr>rs_status := Res_skipped\<rparr>)
       (leadSearchResults w)\<rparr>"

definition enriched_row :: "apolloEnrichedPerson \<Rightarrow> leadSearchResult \<Rightarrow> leadSearchResult \<Rightarrow> leadSearchResult" where
  "enriched_row e original r = r\<lparr>rs_name := or_else (en_name e) (rs_name original),
     rs_title := or_else (en_title e) (rs_title original), rs_company := or_else (en_company e) (rs_company original),
     rs_linkedin := en_linkedin e, rs_email := en_email e, rs_status := Res_enriched\<rparr>"

text \<open>How the loop over the candidates ends: cancelled, done, or with an exception.\<close>

datatype loopEnd = LoopCancelled | LoopDone nat | LoopFailed

fun enrich_loop ::
  "apolloApi \<Rightarrow> (nat \<Rightarrow> world \<Rightarrow> world) \<Rightarrow> ident \<Rightarrow> ident \<Rightarrow> nat \<Rightarrow> leadSearchResult list \<Rightarrow> nat \<Rightarrow> world
    \<Rightarrow> loopEnd \<times> world" where
  "enrich_loop api env jobId userId k [] enrichedCount w = (LoopDone enrichedCount, w)"
| "enrich_loop api env jobId userId k (r # rs) enrichedCount w =
     (let w0 = env (2 * k) w
      in if map_option jb_status (find_job jobId w0) = Some CANCELLED then (LoopCancelled, skip_pending jobId w0)
         else (case tryReserveCredit userId w0 of
                 (False, w1) \<Rightarrow> (LoopDone enrichedCount, skip_pending jobId w1)
               | (True, w1) \<Rightarrow>
                   (let w2 = env (2 * k + 1) w1
                    in case enrichPerson api (rs_apolloPersonId r) of
                         Some e \<Rightarrow> enrich_loop api env jobId userId (k + 1) rs (enrichedCount + 1)
                                     (update_result (rs_id r) (enriched_row e r) w2)
                       | None \<Rightarrow>
                           (case refundCredit userId w2 of
                              (Inl _, w3) \<Rightarrow> (LoopFailed, w3)
                            | (Inr _, w3) \<Rightarrow> enrich_loop api env jobId userId (k + 1) rs enrichedCount
                                (update_result (rs_id r) (\<lambda>x. x\<lparr>rs_status := Res_failed\<rparr>) w3)))))"

definition opt_json :: "string \<Rightarrow> string option \<Rightarrow> (string \<times> json) list" where
  "opt_json key v = (case v of None \<Rightarrow> [] | Some s \<Rightarrow> [(key, JStr s)])"

definition opt_strings :: "string \<Rightarrow> string list option \<Rightarrow> (string \<times> json) list" where
  "opt_strings key v = (case v of None \<Rightarrow> [] | Some xs \<Rightarrow> [(key, json_strings xs)])"

text \<open>The filters as they are stored in JSON: absent fields are omitted.\<close>

definition filters_json :: "apolloFilters \<Rightarrow> json" where
  "filters_json f = JObj
     ([(''organizationKeywordTags'', json_strings (af_organizationKeywordTags f))]
      @ opt_strings ''excludeOrganizationKeywordTags'' (af_excludeOrganizationKeywordTags f)
      @ opt_strings ''personTitles'' (af_personTitles f) @ opt_strings ''personSeniorities'' (af_personSeniorities f)
      @ opt_strings ''personFunctions'' (af_personFunctions f)
      @ opt_strings ''organizationLocations'' (af_organizationLocations f)
      @ opt_strings ''organizationNumEmployeesRanges'' (af_organizationNumEmployeesRanges f)
      @ int_field ''revenueMin'' (af_revenueMin f) @ int_field ''revenueMax'' (af_revenueMax f)
      @ opt_json ''personName'' (af_personName f) @ opt_json ''personOrganization'' (af_personOrganization f))"

definition processDirectMatch ::
  "apolloApi \<Rightarrow> (nat \<Rightarrow> world \<Rightarrow> world) \<Rightarrow> req \<Rightarrow> ident \<Rightarrow> ident \<Rightarrow> apolloFilters \<Rightarrow> world \<Rightarrow> unit result \<times> world" where
  "processDirectMatch api env q jobId userId f w =
     (case tryReserveCredit userId (env 0 w) of
        (False, w1) \<Rightarrow> (Inr (), set_job_status jobId COMPLETED w1)
      | (True, w1) \<Rightarrow>
          (let w2 = env 1 w1;
               matched = matchByName api (the (af_personName f)) (af_personOrganization f)
           in case (if matched = None then refundCredit userId w2 else (Inr (), w2)) of
                (Inl e, w3) \<Rightarrow> (Inl e, w3)
              | (Inr _, w3) \<Rightarrow>
                  (let r = \<lparr>rs_id = q_newId q, rs_jobId = jobId,
                            rs_apolloPersonId = ''name:'' @ the (af_personName f),
                            rs_name = or_else (Option.bind matched en_name) (af_personName f),
                            rs_title = Option.bind matched en_title,
                            rs_company = or_else (Option.bind matched en_company) (af_personOrganization f),
                            rs_linkedin = Option.bind matched en_linkedin, rs_email = Option.bind matched en_email,
                            rs_status = (if matched = None then Res_failed else Res_enriched),
                            rs_reviewStatus = ''new'', rs_createdAt = q_now q\<rparr>;
                       w4 = set_job_status jobId COMPLETED (w3\<lparr>leadSearchResults := leadSearchResults w3 @ [r]\<rparr>)
                   in (Inr (), audit_record q ((entry (Some userId) Leads_ai_search)\<lparr>ae_metadata := Some (JObj
                         [(''jobId'', JStr jobId), (''filters'', filters_json f), (''directMatch'', JBool True),
                          (''resultId'', JStr (rs_id r)), (''enrichedCount'', JInt (if matched = None then 0 else 1))])\<rparr>) w4))))"

definition processSearch ::
  "apolloApi \<Rightarrow> (nat \<Rightarrow> world \<Rightarrow> world) \<Rightarrow> req \<Rightarrow> apolloJob \<Rightarrow> world \<Rightarrow> unit result \<times> world" where
  "processSearch api env q job w =
     (let jobId = aj_jobId job; userId = aj_userId job; f = aj_filters job;
          excludeSet = remdups (aj_exclude job);
          perPage = min (aj_cap job + int (length excludeSet)) 100
      in case searchPeople api f perPage of
           Inl e \<Rightarrow> (Inl e, w)
         | Inr found \<Rightarrow>
             (let candidates = slice0 (aj_cap job) (filter (\<lambda>ca. ca_apolloPersonId ca \<notin> set excludeSet) found)
              in if candidates = [] then (Inr (), set_job_status jobId COMPLETED w)
                 else (let pending = map (\<lambda>(k, ca). pending_result q jobId k ca) (enumerate 0 candidates);
                           w1 = w\<lparr>leadSearchResults := leadSearchResults w @ pending\<rparr>
                       in case enrich_loop api env jobId userId 0 pending 0 w1 of
                            (LoopCancelled, w2) \<Rightarrow> (Inr (), w2)
                          | (LoopFailed, w2) \<Rightarrow> (Inl (Internal P2025), w2)
                          | (LoopDone n, w2) \<Rightarrow>
                              (Inr (), audit_record q ((entry (Some userId) Leads_ai_search)\<lparr>ae_metadata := Some (JObj
                                 [(''jobId'', JStr jobId), (''filters'', filters_json f),
                                  (''candidateCount'', JInt (int (length candidates))),
                                  (''enrichedCount'', JInt (int n)), (''more'', JBool (excludeSet \<noteq> []))])\<rparr>)
                                 (set_job_status jobId COMPLETED w2)))))"

definition process_search_job ::
  "apolloApi \<Rightarrow> (nat \<Rightarrow> world \<Rightarrow> world) \<Rightarrow> req \<Rightarrow> apolloJob \<Rightarrow> world \<Rightarrow> world" where
  "process_search_job api env q job w =
     (case (if truthy (af_personName (aj_filters job))
            then processDirectMatch api env q (aj_jobId job) (aj_userId job) (aj_filters job) w
            else processSearch api env q job w) of
        (Inl _, w1) \<Rightarrow> set_job_status (aj_jobId job) FAILED w1
      | (Inr _, w1) \<Rightarrow> w1)"

section \<open>Credits\<close>

text \<open>No account owes credits.\<close>

definition credits_ok :: "world \<Rightarrow> bool" where
  "credits_ok w \<longleftrightarrow> (\<forall>u \<in> set (users w). 0 \<le> u_leadFinderCredits u)"

lemma credits_ok_users: "users w' = users w \<Longrightarrow> credits_ok w' = credits_ok w"
  by (simp add: credits_ok_def)

lemma credits_ok_frame [simp]:
  "credits_ok (w\<lparr>leadSearchResults := rows\<rparr>) = credits_ok w"
  "credits_ok (w\<lparr>leadSearchJobs := jobs\<rparr>) = credits_ok w"
  "credits_ok (audit_record q e w) = credits_ok w"
  "credits_ok (set_job_status i st w) = credits_ok w"
  by (simp_all add: credits_ok_def set_job_status_def)

lemma credits_ok_reserve: "credits_ok w \<Longrightarrow> credits_ok (snd (tryReserveCredit i w))"
  by (auto simp: credits_ok_def tryReserveCredit_def Let_def set_updateMany)

lemma credits_ok_refund: "credits_ok w \<Longrightarrow> credits_ok (snd (refundCredit i w))"
  by (auto simp: credits_ok_def refundCredit_def update_user_def set_updateMany)

lemma frame_results [simp]:
  "users (update_result i f w) = users w"
  "users (skip_pending j w) = users w"
  "users (set_job_status j s w) = users w"
  "leadSearchJobs (update_result i f w) = leadSearchJobs w"
  "leadSearchJobs (skip_pending j w) = leadSearchJobs w"
  "leadSearchResults (set_job_status j s w) = leadSearchResults w"
  by (simp_all add: update_result_def skip_pending_def set_job_status_def)

lemma reserve_frame [simp]:
  "leadSearchJobs (snd (tryReserveCredit i w)) = leadSearchJobs w"
  "leadSearchResults (snd (tryReserveCredit i w)) = leadSearchResults w"
  "creditGrants (snd (tryReserveCredit i w)) = creditGrants w"
  "leadSearchJobs (snd (refundCredit i w)) = leadSearchJobs w"
  "leadSearchResults (snd (refundCredit i w)) = leadSearchResults w"
  "creditGrants (snd (refundCredit i w)) = creditGrants w"
  by (simp_all add: tryReserveCredit_def refundCredit_def Let_def)

text \<open>What every step of a run keeps, and the environment too, holds after the run.\<close>

lemma enrich_loop_keeps:
  assumes env: "\<And>k w. I w \<Longrightarrow> I (env k w)"
    and reserve: "\<And>w. I w \<Longrightarrow> I (snd (tryReserveCredit userId w))"
    and refund: "\<And>w. I w \<Longrightarrow> I (snd (refundCredit userId w))"
    and row: "\<And>i f w. I w \<Longrightarrow> I (update_result i f w)"
    and skip: "\<And>w. I w \<Longrightarrow> I (skip_pending jobId w)"
    and start: "I w"
  shows "I (snd (enrich_loop api env jobId userId k rs n w))"
  using start
proof (induction rs arbitrary: k n w)
  case (Cons r rs)
  let ?w0 = "env (2 * k) w"
  obtain b w1 where res: "tryReserveCredit userId ?w0 = (b, w1)" by fastforce
  have ok0: "I ?w0" using Cons.prems by (rule env)
  then have ok1: "I w1" using reserve [OF ok0] res by simp
  let ?w2 = "env (Suc (2 * k)) w1"
  have ok2: "I ?w2" using ok1 by (rule env)
  obtain rr w3 where ref: "refundCredit userId ?w2 = (rr, w3)" by fastforce
  have ok3: "I w3" using refund [OF ok2] ref by simp
  show ?case
    using Cons.IH ok0 ok1 ok2 ok3 skip row
    by (auto simp: Let_def res ref split: bool.splits option.splits sum.splits)
qed simp

lemma process_search_job_keeps:
  assumes "\<And>k w. I w \<Longrightarrow> I (env k w)"
    and "\<And>w. I w \<Longrightarrow> I (snd (tryReserveCredit (aj_userId job) w))"
    and "\<And>w. I w \<Longrightarrow> I (snd (refundCredit (aj_userId job) w))"
    and rows: "\<And>rows w. I w \<Longrightarrow> I (w\<lparr>leadSearchResults := rows\<rparr>)"
    and status: "\<And>i st w. I w \<Longrightarrow> I (set_job_status i st w)"
    and log: "\<And>e w. I w \<Longrightarrow> I (audit_record q e w)"
    and start: "I w"
  shows "I (process_search_job api env q job w)"
proof -
  have run: "I (snd (enrich_loop api env (aj_jobId job) (aj_userId job) k rs n v))" if "I v" for k rs n v
    using assms(1-3) _ _ that
    by (rule enrich_loop_keeps) (auto simp: update_result_def skip_pending_def rows)
  have run': "I v'" if "enrich_loop api env (aj_jobId job) (aj_userId job) k rs n v = (e, v')" "I v" for k rs n v e v'
    using run [OF that(2), of k rs n] that(1) by simp
  have search: "I (snd (processSearch api env q job w))"
    using start rows log status run'
    by (auto simp: processSearch_def Let_def split: sum.splits loopEnd.splits prod.splits)
  have res: "I v'" if "tryReserveCredit (aj_userId job) v = (b, v')" "I v" for v b v'
    using assms(2) [OF that(2)] that(1) by simp
  have ref: "I v'" if "refundCredit (aj_userId job) v = (b, v')" "I v" for v b v'
    using assms(3) [OF that(2)] that(1) by simp
  have "I (snd (processDirectMatch api env q (aj_jobId job) (aj_userId job) (aj_filters job) w))"
    using start rows log status res ref assms(1)
    by (auto simp: processDirectMatch_def Let_def split: sum.splits prod.splits bool.splits)
  with search show ?thesis
    using status by (auto simp: process_search_job_def split: sum.splits prod.splits)
qed

lemma credits_ok_process:
  assumes "\<And>k w. credits_ok w \<Longrightarrow> credits_ok (env k w)" and "credits_ok w"
  shows "credits_ok (process_search_job api env q job w)"
  by (rule process_search_job_keeps [where I = credits_ok])
    (use assms in \<open>simp_all add: credits_ok_reserve credits_ok_refund\<close>)

section \<open>An undisturbed run\<close>

text \<open>
  Exact accounting needs an environment that leaves the owner and the results of the run alone; it may
  still cancel the job, and do anything to everyone else.
\<close>

definition quiet :: "ident \<Rightarrow> (nat \<Rightarrow> world \<Rightarrow> world) \<Rightarrow> bool" where
  "quiet i env \<longleftrightarrow> (\<forall>k w. findById i (env k w) = findById i w \<and> (users_ok w \<longrightarrow> users_ok (env k w))
     \<and> leadSearchResults (env k w) = leadSearchResults w)"

definition unlimited_user :: "user \<Rightarrow> bool" where
  "unlimited_user u \<longleftrightarrow> u_role u = ADMIN \<or> u_role u = SUPER_ADMIN \<or> u_adminGrantedLeadFinderAccess u"

definition result_rows :: "ident \<Rightarrow> resultStatus \<Rightarrow> world \<Rightarrow> nat" where
  "result_rows jobId st w = countRows (\<lambda>r. rs_jobId r = jobId \<and> rs_status r = st) (leadSearchResults w)"

lemma unlimited_findById:
  "findById i w = Some u \<Longrightarrow> hasUnlimitedLeadFinderAccess i w = unlimited_user u"
  by (simp add: hasUnlimitedLeadFinderAccess_def unlimited_user_def)

lemma countRows_pos: "0 < countRows p rows \<longleftrightarrow> (\<exists>x \<in> set rows. p x)"
  by (auto simp: countRows_def filter_empty_conv)

lemma countRows_eq_0: "countRows p rows = 0 \<longleftrightarrow> (\<forall>x \<in> set rows. \<not> p x)"
  by (auto simp: countRows_def filter_empty_conv)

lemma findById_reserve:
  assumes "users_ok w" "findById i w = Some u" "\<not> unlimited_user u"
  shows "fst (tryReserveCredit i w) \<longleftrightarrow> 0 < u_leadFinderCredits u"
    and "findById i (snd (tryReserveCredit i w)) =
      Some (if 0 < u_leadFinderCredits u then u\<lparr>u_leadFinderCredits := u_leadFinderCredits u - 1\<rparr> else u)"
    and "users_ok (snd (tryReserveCredit i w))"
proof -
  let ?p = "\<lambda>x. u_id x = i \<and> 0 < u_leadFinderCredits x"
  let ?f = "\<lambda>x. x\<lparr>u_leadFinderCredits := u_leadFinderCredits x - 1\<rparr>"
  have u: "u \<in> set (users w)" "u_id u = i" using findById_SomeD [OF assms(2)] by auto
  have un: "x = u" if "x \<in> set (users w)" "u_id x = i" for x
    using that u assms(1) unfolding users_ok_def by (metis unique_onD)
  have lim: "\<not> hasUnlimitedLeadFinderAccess i w" using assms unlimited_findById by simp
  show "fst (tryReserveCredit i w) \<longleftrightarrow> 0 < u_leadFinderCredits u"
  proof -
    have "(\<exists>x \<in> set (users w). ?p x) \<longleftrightarrow> 0 < u_leadFinderCredits u" using u un by blast
    then show ?thesis by (simp add: tryReserveCredit_def lim Let_def countRows_pos)
  qed
  have "findById i (snd (tryReserveCredit i w)) = map_option (\<lambda>x. if ?p x then ?f x else x) (findById i w)"
    by (simp add: tryReserveCredit_def lim Let_def findById_def findFirst_updateMany)
  then show "findById i (snd (tryReserveCredit i w)) =
      Some (if 0 < u_leadFinderCredits u then ?f u else u)"
    using assms(2) u(2) by simp
  show "users_ok (snd (tryReserveCredit i w))"
    using assms(1) by (simp add: tryReserveCredit_def lim Let_def users_ok_def unique_on_updateMany)
qed

lemma findById_refund:
  assumes "users_ok w" "findById i w = Some u" "\<not> unlimited_user u"
  shows "fst (refundCredit i w) = Inr ()"
    and "findById i (snd (refundCredit i w)) = Some (u\<lparr>u_leadFinderCredits := u_leadFinderCredits u + 1\<rparr>)"
    and "users_ok (snd (refundCredit i w))"
  using assms unlimited_findById [OF assms(2)]
  by (simp_all add: refundCredit_def findById_update_user users_ok_update_user)

text \<open>The rows still waiting are exactly the pending ones of the job.\<close>

definition waiting :: "ident \<Rightarrow> leadSearchResult list \<Rightarrow> world \<Rightarrow> bool" where
  "waiting jobId rs w \<longleftrightarrow> unique_on rs_id (leadSearchResults w) \<and> distinct (map rs_id rs)
     \<and> set rs = {r \<in> set (leadSearchResults w). rs_jobId r = jobId \<and> rs_status r = Res_pending}"

lemma countRows_update_result:
  assumes "unique_on key rows" "r \<in> set rows"
  shows "countRows P (updateMany (\<lambda>x. key x = key r) f rows) + (if P r then 1 else 0) =
    countRows P rows + (if P (f r) then 1 else 0)"
  using assms
proof (induction rows)
  case (Cons x rows)
  show ?case
  proof (cases "x = r")
    case True
    with Cons.prems have "updateMany (\<lambda>x. key x = key r) f rows = rows"
      by (intro updateMany_noop) (auto simp: unique_on_def image_iff)
    with True show ?thesis by (simp add: countRows_def)
  next
    case False
    with Cons.prems have "key x \<noteq> key r" by (auto simp: unique_on_def image_iff)
    with False Cons show ?thesis by (auto simp: countRows_def unique_on_def)
  qed
qed simp

lemma waiting_update:
  assumes w: "waiting jobId (r # rs) w" and f: "\<And>x. rs_id (f x) = rs_id x" "rs_status (f r) \<noteq> Res_pending"
    "rs_jobId (f r) = jobId"
  shows "waiting jobId rs (update_result (rs_id r) f w)"
    and "result_rows jobId st (update_result (rs_id r) f w) + (if st = Res_pending then 1 else 0) =
      result_rows jobId st w + (if rs_status (f r) = st then 1 else 0)"
proof -
  let ?R = "leadSearchResults w"
  have un: "unique_on rs_id ?R" and r: "r \<in> set ?R" "rs_jobId r = jobId" "rs_status r = Res_pending"
    using w by (auto simp: waiting_def)
  have only: "x = r" if "x \<in> set ?R" "rs_id x = rs_id r" for x
    using that un r(1) by (metis unique_onD)
  have rest: "set rs = {x \<in> set ?R. rs_jobId x = jobId \<and> rs_status x = Res_pending \<and> x \<noteq> r}"
    using w by (auto simp: waiting_def)
  have "set (updateMany (\<lambda>x. rs_id x = rs_id r) f ?R) = insert (f r) (set ?R - {r})"
  proof -
    let ?g = "\<lambda>x. if rs_id x = rs_id r then f x else x"
    have "?g ` (set ?R - {r}) = (\<lambda>x. x) ` (set ?R - {r})"
      using only by (intro image_cong) auto
    then have "?g ` insert r (set ?R - {r}) = insert (f r) (set ?R - {r})" by (simp only: image_insert) simp
    then show ?thesis using r(1) by (simp add: set_updateMany insert_absorb)
  qed
  then have "set rs = {x \<in> set (updateMany (\<lambda>x. rs_id x = rs_id r) f ?R). rs_jobId x = jobId \<and> rs_status x = Res_pending}"
    using rest f by auto
  then show "waiting jobId rs (update_result (rs_id r) f w)"
    using w un f(1) by (simp add: waiting_def update_result_def unique_on_updateMany)
  have "countRows P (updateMany (\<lambda>x. rs_id x = rs_id r) f ?R) + (if P r then 1 else 0) =
      countRows P ?R + (if P (f r) then 1 else 0)" for P
    using un r(1) by (rule countRows_update_result)
  from this [of "\<lambda>x. rs_jobId x = jobId \<and> rs_status x = st"]
  show "result_rows jobId st (update_result (rs_id r) f w) + (if st = Res_pending then 1 else 0) =
      result_rows jobId st w + (if rs_status (f r) = st then 1 else 0)"
    using r f by (auto simp: result_rows_def update_result_def split: if_splits)
qed

lemma countRows_updateMany_same:
  assumes "\<And>x. p x \<Longrightarrow> P (f x) = P x"
  shows "countRows P (updateMany p f rows) = countRows P rows"
  using assms by (induction rows) (simp_all add: countRows_def)

lemma ball_updateMany:
  "(\<forall>x \<in> set (updateMany p f rows). Q x) \<longleftrightarrow> (\<forall>x \<in> set rows. Q (if p x then f x else x))"
  by (induction rows) simp_all

lemma skip_pending_rows:
  "result_rows jobId Res_pending (skip_pending jobId w) = 0"
  "result_rows jobId Res_enriched (skip_pending jobId w) = result_rows jobId Res_enriched w"
proof -
  show "result_rows jobId Res_pending (skip_pending jobId w) = 0"
    unfolding result_rows_def countRows_eq_0 by (simp add: skip_pending_def ball_updateMany)
  show "result_rows jobId Res_enriched (skip_pending jobId w) = result_rows jobId Res_enriched w"
    unfolding result_rows_def skip_pending_def by (simp, rule countRows_updateMany_same) simp
qed

lemma waiting_Nil: "waiting jobId [] w \<Longrightarrow> result_rows jobId Res_pending w = 0"
  unfolding result_rows_def countRows_eq_0 by (auto simp: waiting_def)

lemma waiting_cong: "leadSearchResults w' = leadSearchResults w \<Longrightarrow> waiting jobId rs w' = waiting jobId rs w"
  by (simp add: waiting_def)

lemma result_rows_cong: "leadSearchResults w' = leadSearchResults w \<Longrightarrow> result_rows jobId st w' = result_rows jobId st w"
  by (simp add: result_rows_def)

text \<open>
  How the enrichment loop has to end for a metered user \<open>u\<close> with at most \<open>l\<close> rows to go: cancelled or done, with
  one credit gone for each of the \<open>m\<close> rows newly enriched, never more than the balance, and no row left pending.
\<close>

definition settles :: "string \<Rightarrow> string \<Rightarrow> user \<Rightarrow> nat \<Rightarrow> nat \<Rightarrow> world \<Rightarrow> loopEnd \<times> world \<Rightarrow> bool" where
  "settles jobId i u n l w out \<longleftrightarrow> (\<exists>m. (fst out = LoopCancelled \<or> fst out = LoopDone (n + m))
     \<and> findById i (snd out) = Some (u\<lparr>u_leadFinderCredits := u_leadFinderCredits u - int m\<rparr>)
     \<and> int m \<le> u_leadFinderCredits u \<and> m \<le> l
     \<and> result_rows jobId Res_enriched (snd out) = result_rows jobId Res_enriched w + m
     \<and> result_rows jobId Res_pending (snd out) = 0)"

lemma settles_skip:
  assumes "findById i v = Some u" "leadSearchResults v = leadSearchResults w" "0 \<le> u_leadFinderCredits u"
    "e = LoopCancelled \<or> e = LoopDone n"
  shows "settles jobId i u n l w (e, skip_pending jobId v)"
  unfolding settles_def using assms skip_pending_rows [of jobId v] result_rows_cong [OF assms(2)]
  by (intro exI [of _ 0]) (auto simp: findById_def)

lemma settles_enriched:
  assumes "settles jobId i (u\<lparr>u_leadFinderCredits := u_leadFinderCredits u - 1\<rparr>) (n + 1) l w3 out"
    "result_rows jobId Res_enriched w3 = result_rows jobId Res_enriched w + 1"
  shows "settles jobId i u n (Suc l) w out"
proof -
  from assms(1) obtain m where "fst out = LoopCancelled \<or> fst out = LoopDone (n + Suc m)"
    "findById i (snd out) = Some (u\<lparr>u_leadFinderCredits := u_leadFinderCredits u - int (Suc m)\<rparr>)"
    "int (Suc m) \<le> u_leadFinderCredits u" "Suc m \<le> Suc l"
    "result_rows jobId Res_enriched (snd out) = result_rows jobId Res_enriched w3 + m"
    "result_rows jobId Res_pending (snd out) = 0"
    by (auto simp: settles_def algebra_simps)
  with assms(2) show ?thesis unfolding settles_def by (intro exI [of _ "Suc m"]) simp
qed

lemma settles_failed:
  assumes "settles jobId i u n l w4 out" "result_rows jobId Res_enriched w4 = result_rows jobId Res_enriched w"
  shows "settles jobId i u n (Suc l) w out"
  using assms unfolding settles_def by (metis le_SucI)

lemma enriched_person_row:
  fixes e
  assumes wt: "waiting jobId (r # rs) w"
  defines "w3 \<equiv> update_result (rs_id r) (enriched_row e r) w"
  shows "waiting jobId rs w3" "result_rows jobId Res_enriched w3 = result_rows jobId Res_enriched w + 1"
    "users_ok w \<Longrightarrow> users_ok w3" "findById i w3 = findById i w"
  using waiting_update(1) [OF wt, where f = "enriched_row e r"] wt
    waiting_update(2) [OF wt, where f = "enriched_row e r" and st = Res_enriched]
  by (auto simp: w3_def enriched_row_def users_ok_def findById_def waiting_def)

lemma failed_person_row:
  assumes wt: "waiting jobId (r # rs) w"
  defines "w4 \<equiv> update_result (rs_id r) (\<lambda>x. x\<lparr>rs_status := Res_failed\<rparr>) w"
  shows "waiting jobId rs w4" "result_rows jobId Res_enriched w4 = result_rows jobId Res_enriched w"
    "users_ok w \<Longrightarrow> users_ok w4" "findById i w4 = findById i w"
  using waiting_update(1) [OF wt, where f = "\<lambda>x. x\<lparr>rs_status := Res_failed\<rparr>"] wt
    waiting_update(2) [OF wt, where f = "\<lambda>x. x\<lparr>rs_status := Res_failed\<rparr>" and st = Res_enriched]
  by (auto simp: w4_def users_ok_def findById_def waiting_def)

lemma quiet_loop_settles:
  assumes q: "quiet i env" and "users_ok w" "findById i w = Some u" "\<not> unlimited_user u" "0 \<le> u_leadFinderCredits u"
    and "waiting jobId rs w"
  shows "settles jobId i u n (length rs) w (enrich_loop api env jobId i k rs n w)"
  using assms(2-6)
proof (induction rs arbitrary: k n w u)
  case Nil
  then show ?case by (auto simp: settles_def waiting_Nil intro!: exI [of _ 0])
next
  case (Cons r rs)
  let ?w0 = "env (2 * k) w"
  have w0: "users_ok ?w0" "findById i ?w0 = Some u" "leadSearchResults ?w0 = leadSearchResults w"
    using q Cons.prems by (auto simp: quiet_def)
  obtain b w1 where bw: "tryReserveCredit i ?w0 = (b, w1)" by fastforce
  note res = findById_reserve [OF w0(1,2) Cons.prems(3), unfolded bw fst_conv snd_conv]
  have w1: "leadSearchResults w1 = leadSearchResults w"
    using reserve_frame(2) [of i ?w0] by (simp add: bw w0)
  consider (cancelled) "map_option jb_status (find_job jobId ?w0) = Some CANCELLED"
    | (broke) "map_option jb_status (find_job jobId ?w0) \<noteq> Some CANCELLED" "\<not> 0 < u_leadFinderCredits u"
    | (paid) "map_option jb_status (find_job jobId ?w0) \<noteq> Some CANCELLED" "0 < u_leadFinderCredits u"
    by blast
  then show ?case
  proof cases
    case cancelled
    then show ?thesis using w0 Cons.prems(4) by (simp add: settles_skip)
  next
    case broke
    then show ?thesis using res(1,2) w1 Cons.prems(4) by (auto simp: Let_def bw settles_skip)
  next
    case paid
    then have r1: "tryReserveCredit i ?w0 = (True, w1)" using res(1) bw by simp
    let ?w2 = "env (Suc (2 * k)) w1" and ?u1 = "u\<lparr>u_leadFinderCredits := u_leadFinderCredits u - 1\<rparr>"
    have w2: "users_ok ?w2" "findById i ?w2 = Some ?u1" "leadSearchResults ?w2 = leadSearchResults w"
      using q res(2,3) paid w1 by (auto simp: quiet_def)
    have lim: "\<not> unlimited_user ?u1" using Cons.prems(3) by (simp add: unlimited_user_def)
    have wt: "waiting jobId (r # rs) ?w2" using Cons.prems(5) waiting_cong [OF w2(3)] by blast
    show ?thesis
    proof (cases "enrichPerson api (rs_apolloPersonId r)")
      case (Some e)
      note row = enriched_person_row [OF wt, where e = e]
      have "settles jobId i u n (Suc (length rs)) w (enrich_loop api env jobId i (k + 1) rs (n + 1)
          (update_result (rs_id r) (enriched_row e r) ?w2))"
        using row w2 lim paid(2) result_rows_cong [OF w2(3)]
        by (intro settles_enriched [OF Cons.IH]) simp_all
      then show ?thesis using paid(1) r1 Some by (auto simp: Let_def)
    next
      case None
      obtain rr w3 where rw: "refundCredit i ?w2 = (rr, w3)" by fastforce
      note ref = findById_refund [OF w2(1,2) lim, unfolded rw fst_conv snd_conv]
      have w3: "leadSearchResults w3 = leadSearchResults ?w2"
        using reserve_frame(5) [of i ?w2] by (simp add: rw)
      have wt3: "waiting jobId (r # rs) w3" using wt waiting_cong [OF w3] by simp
      note row = failed_person_row [OF wt3]
      have "settles jobId i u n (Suc (length rs)) w (enrich_loop api env jobId i (k + 1) rs n
          (update_result (rs_id r) (\<lambda>x. x\<lparr>rs_status := Res_failed\<rparr>) w3))"
        using row ref(2,3) Cons.prems(3,4) result_rows_cong [OF w2(3)] result_rows_cong [OF w3]
        by (intro settles_failed [OF Cons.IH]) simp_all
      then show ?thesis using paid(1) r1 None rw ref(1) by (auto simp: Let_def)
    qed
  qed
qed

lemma quiet_loop:
  assumes "quiet i env" "users_ok w" "findById i w = Some u" "\<not> unlimited_user u" "0 \<le> u_leadFinderCredits u"
    "waiting jobId rs w"
  shows "\<exists>m e w'. enrich_loop api env jobId i k rs n w = (e, w') \<and> (e = LoopCancelled \<or> e = LoopDone (n + m))
    \<and> findById i w' = Some (u\<lparr>u_leadFinderCredits := u_leadFinderCredits u - int m\<rparr>) \<and> int m \<le> u_leadFinderCredits u
    \<and> m \<le> length rs \<and> result_rows jobId Res_enriched w' = result_rows jobId Res_enriched w + m
    \<and> result_rows jobId Res_pending w' = 0"
  using quiet_loop_settles [OF assms, of n api k] unfolding settles_def by (metis prod.collapse)

section \<open>Properties\<close>

text \<open>The three ways a criteria search goes, in terms of what Apollo returned.\<close>

definition search_candidates :: "apolloApi \<Rightarrow> apolloJob \<Rightarrow> apolloCandidate list result" where
  "search_candidates api job =
     (case searchPeople api (aj_filters job) (min (aj_cap job + int (length (remdups (aj_exclude job)))) 100) of
        Inl e \<Rightarrow> Inl e
      | Inr found \<Rightarrow> Inr (slice0 (aj_cap job)
          (filter (\<lambda>ca. ca_apolloPersonId ca \<notin> set (remdups (aj_exclude job))) found)))"

definition pending_rows :: "req \<Rightarrow> apolloJob \<Rightarrow> apolloCandidate list \<Rightarrow> leadSearchResult list" where
  "pending_rows q job cs = map (\<lambda>(k, ca). pending_result q (aj_jobId job) k ca) (enumerate 0 cs)"

lemma process_search_failed:
  assumes "search_candidates api job = Inl e" "\<not> truthy (af_personName (aj_filters job))"
  shows "process_search_job api env q job w = set_job_status (aj_jobId job) FAILED w"
  using assms unfolding process_search_job_def processSearch_def search_candidates_def Let_def
  by (simp split: sum.splits)

lemma process_search_empty:
  assumes "search_candidates api job = Inr []" "\<not> truthy (af_personName (aj_filters job))"
  shows "process_search_job api env q job w = set_job_status (aj_jobId job) COMPLETED w"
  using assms(1) unfolding process_search_job_def processSearch_def search_candidates_def Let_def
  by (cases "searchPeople api (aj_filters job) (min (aj_cap job + int (length (remdups (aj_exclude job)))) 100)")
    (simp_all only: assms(2) sum.case sum.inject prod.case if_True if_False refl sum.distinct)

lemma process_search_loop:
  assumes "search_candidates api job = Inr cs" "cs \<noteq> []" "\<not> truthy (af_personName (aj_filters job))"
    and "enrich_loop api env (aj_jobId job) (aj_userId job) 0 (pending_rows q job cs) 0
        (w\<lparr>leadSearchResults := leadSearchResults w @ pending_rows q job cs\<rparr>) = (e, w')"
  shows "e = LoopCancelled \<and> process_search_job api env q job w = w'
    \<or> e = LoopFailed \<and> process_search_job api env q job w = set_job_status (aj_jobId job) FAILED w'
    \<or> (\<exists>n a. e = LoopDone n \<and> process_search_job api env q job w =
          audit_record q a (set_job_status (aj_jobId job) COMPLETED w'))"
proof -
  obtain found where f: "searchPeople api (aj_filters job) (min (aj_cap job + int (length (remdups (aj_exclude job)))) 100) = Inr found"
    "cs = slice0 (aj_cap job) (filter (\<lambda>ca. ca_apolloPersonId ca \<notin> set (remdups (aj_exclude job))) found)"
    using assms(1) by (auto simp: search_candidates_def split: sum.splits)
  have run: "enrich_loop api env (aj_jobId job) (aj_userId job) 0
      (map (\<lambda>(k, ca). pending_result q (aj_jobId job) k ca) (enumerate 0 cs)) 0
      (w\<lparr>leadSearchResults := leadSearchResults w @ map (\<lambda>(k, ca). pending_result q (aj_jobId job) k ca) (enumerate 0 cs)\<rparr>) = (e, w')"
    using assms(4) by (simp only: pending_rows_def)
  show ?thesis
    unfolding process_search_job_def processSearch_def Let_def
    by (cases e) (simp_all only: f(1) f(2) [symmetric] run assms(2,3) sum.case prod.case loopEnd.case if_False,
        simp_all, (rule exI, rule refl)+)
qed

lemma waiting_pending_rows:
  assumes ids: "unique_on rs_id (leadSearchResults w)" "\<forall>k. nth_id q k \<notin> rs_id ` set (leadSearchResults w)"
    and fresh: "result_rows (aj_jobId job) Res_pending w = 0"
  shows "waiting (aj_jobId job) (pending_rows q job cs) (w\<lparr>leadSearchResults := leadSearchResults w @ pending_rows q job cs\<rparr>)"
    and "result_rows (aj_jobId job) Res_enriched (w\<lparr>leadSearchResults := leadSearchResults w @ pending_rows q job cs\<rparr>) =
      result_rows (aj_jobId job) Res_enriched w"
proof -
  let ?p = "pending_rows q job cs"
  have inj: "nth_id q k = nth_id q k' \<longleftrightarrow> k = k'" for k k'
    unfolding nth_id_def by simp (metis decimal_show_nat)
  have pid: "map rs_id ?p = map (nth_id q) [0..<length cs]"
    by (rule nth_equalityI) (simp_all add: pending_rows_def pending_result_def nth_enumerate_eq)
  have d: "distinct (map rs_id ?p)" unfolding pid by (simp add: distinct_map inj_on_def inj)
  have x: "rs_id ` set (leadSearchResults w) \<inter> set (map rs_id ?p) = {}"
  proof -
    have "x \<notin> range (nth_id q)" if "x \<in> rs_id ` set (leadSearchResults w)" for x
      using that ids(2) by (metis rangeE)
    then show ?thesis unfolding pid by auto
  qed
  have p: "rs_jobId r = aj_jobId job \<and> rs_status r = Res_pending" if "r \<in> set ?p" for r
    using that by (auto simp: pending_rows_def pending_result_def simp del: in_set_enumerate_eq)
  have "\<forall>r \<in> set (leadSearchResults w). \<not> (rs_jobId r = aj_jobId job \<and> rs_status r = Res_pending)"
    using fresh by (simp add: result_rows_def countRows_eq_0)
  with p have "set ?p = {r \<in> set (leadSearchResults w @ ?p). rs_jobId r = aj_jobId job \<and> rs_status r = Res_pending}"
    by auto
  then show "waiting (aj_jobId job) ?p (w\<lparr>leadSearchResults := leadSearchResults w @ ?p\<rparr>)"
    using ids(1) d x by (simp add: waiting_def unique_on_def)
  have "filter (\<lambda>r. rs_jobId r = aj_jobId job \<and> rs_status r = Res_enriched) ?p = []"
    using p by (auto simp: filter_empty_conv)
  then show "result_rows (aj_jobId job) Res_enriched (w\<lparr>leadSearchResults := leadSearchResults w @ ?p\<rparr>) =
      result_rows (aj_jobId job) Res_enriched w" by (simp add: result_rows_def countRows_def)
qed

lemma length_candidates:
  "search_candidates api job = Inr cs \<Longrightarrow> 0 \<le> aj_cap job \<Longrightarrow> int (length (pending_rows q job cs)) \<le> aj_cap job"
  by (auto simp: search_candidates_def slice0_def pending_rows_def split: sum.splits)

text \<open>
  C6: a search costs what it finds. In a run that nothing else disturbs (cancelling it is allowed),
  the owner's balance falls by exactly the number of results that were enriched, which is at most
  the cap of the job and at most the balance; no result is left pending, and nobody is charged
  for a person Apollo could not reveal.
\<close>

theorem search_charges_enriched_only:
  assumes q: "quiet (aj_userId job) env" and w: "users_ok w" "findById (aj_userId job) w = Some u"
    and u: "\<not> unlimited_user u" "0 \<le> u_leadFinderCredits u"
    and ids: "unique_on rs_id (leadSearchResults w)" "\<forall>k. nth_id rq k \<notin> rs_id ` set (leadSearchResults w)"
    and fresh: "result_rows (aj_jobId job) Res_pending w = 0"
    and criteria: "\<not> truthy (af_personName (aj_filters job))" "0 \<le> aj_cap job"
  shows "\<exists>m. map_option u_leadFinderCredits (findById (aj_userId job) (process_search_job api env rq job w))
        = Some (u_leadFinderCredits u - int m)
    \<and> int m \<le> u_leadFinderCredits u \<and> int m \<le> aj_cap job
    \<and> result_rows (aj_jobId job) Res_enriched (process_search_job api env rq job w)
        = result_rows (aj_jobId job) Res_enriched w + m
    \<and> result_rows (aj_jobId job) Res_pending (process_search_job api env rq job w) = 0"
proof -
  let ?j = "aj_jobId job" and ?i = "aj_userId job"
  have frame: "findById ?i (set_job_status ?j st v) = findById ?i v" "findById ?i (audit_record rq e v) = findById ?i v"
    "result_rows ?j s (set_job_status ?j st v) = result_rows ?j s v" "result_rows ?j s (audit_record rq e v) = result_rows ?j s v"
    for st v e s by (simp_all add: findById_def result_rows_def)
  have idle: ?thesis if "process_search_job api env rq job w = set_job_status ?j st w" for st
    unfolding that using w u fresh criteria frame by (intro exI [of _ 0]) simp
  show ?thesis
  proof (cases "search_candidates api job")
    case (Inl e)
    from process_search_failed [OF this criteria(1)] show ?thesis by (rule idle)
  next
    case (Inr cs)
    show ?thesis
    proof (cases "cs = []")
      case True
      with Inr process_search_empty [OF _ criteria(1)] show ?thesis by (intro idle) simp
    next
      case False
      let ?w1 = "w\<lparr>leadSearchResults := leadSearchResults w @ pending_rows rq job cs\<rparr>"
      note wt = waiting_pending_rows [OF ids fresh, of cs]
      have w1: "users_ok ?w1" "findById ?i ?w1 = Some u" using w by (simp_all add: users_ok_def findById_def)
      from quiet_loop [OF q w1 u wt(1), of api 0 0] obtain m e w' where
        run: "enrich_loop api env ?j ?i 0 (pending_rows rq job cs) 0 ?w1 = (e, w')" "e = LoopCancelled \<or> e = LoopDone m"
        and res: "findById ?i w' = Some (u\<lparr>u_leadFinderCredits := u_leadFinderCredits u - int m\<rparr>)"
          "int m \<le> u_leadFinderCredits u" "m \<le> length (pending_rows rq job cs)"
          "result_rows ?j Res_enriched w' = result_rows ?j Res_enriched ?w1 + m" "result_rows ?j Res_pending w' = 0"
        by auto
      have "int m \<le> aj_cap job"
        using res(3) length_candidates [OF Inr criteria(2), of rq] by linarith
      then show ?thesis
        using process_search_loop [OF Inr False criteria(1) run(1)] run(2) res wt(2) frame
        by (intro exI [of _ m]) auto
    qed
  qed
qed

definition sample_filters :: apolloFilters where
  "sample_filters = \<lparr>af_organizationKeywordTags = [''saas''], af_excludeOrganizationKeywordTags = None,
     af_personTitles = None, af_personSeniorities = None, af_personFunctions = None,
     af_organizationLocations = None, af_organizationNumEmployeesRanges = None, af_revenueMin = None,
     af_revenueMax = None, af_personName = None, af_personOrganization = None\<rparr>"

definition sample_job :: apolloJob where
  "sample_job = \<lparr>aj_jobId = ''j1'', aj_userId = ''u1'', aj_filters = sample_filters, aj_cap = 2, aj_exclude = []\<rparr>"

definition sample_person :: "string \<Rightarrow> apolloSearchPerson" where
  "sample_person i = \<lparr>sp_id = i, sp_first_name = Some ''Bo'', sp_last_name_obfuscated = None,
     sp_title = None, sp_organizationName = None\<rparr>"

definition sample_api :: apolloApi where
  "sample_api = \<lparr>ap_search = (\<lambda>_. Reply (Some [sample_person ''p1'', sample_person ''p2''])),
     ap_match = (\<lambda>b. if b = JObj [(''id'', JStr ''p1'')]
        then Reply (Some \<lparr>mp_name = Some ''Bo'', mp_title = None, mp_organizationName = None,
          mp_organization_name = None, mp_linkedin_url = None, mp_email = Some ''bo@example.com''\<rparr>)
        else Reply None)\<rparr>"

definition search_world :: world where
  "search_world = sample_world\<lparr>leadSearchJobs := [\<lparr>jb_id = ''j1'', jb_userId = ''u1'', jb_query = ''saas'',
     jb_jobTitles = [], jb_filters = Some sample_filters, jb_status = RUNNING, jb_createdAt = 0\<rparr>]\<rparr>"

lemmas search_sample_defs = sample_filters_def sample_job_def search_world_def

lemma quiet_id: "quiet i (\<lambda>_ w. w)"
  by (simp add: quiet_def)

theorem search_charges_enriched_only_witness:
  "\<exists>m. map_option u_leadFinderCredits (findById ''u1'' (process_search_job sample_api (\<lambda>_ w. w) (sample_req 5) sample_job search_world))
      = Some (100 - int m) \<and> int m \<le> 2
    \<and> result_rows ''j1'' Res_enriched (process_search_job sample_api (\<lambda>_ w. w) (sample_req 5) sample_job search_world) = m"
proof -
  have "users_ok search_world" "findById ''u1'' search_world = Some sample_user"
    by (simp_all add: users_ok_def unique_on_def findById_def search_sample_defs sample_defs)
  moreover have "\<not> unlimited_user sample_user" "u_leadFinderCredits sample_user = 100"
    by (simp_all add: unlimited_user_def sample_user_def)
  moreover have "leadSearchResults search_world = []" by (simp add: search_world_def sample_world_def empty_world_def)
  ultimately show ?thesis
    using search_charges_enriched_only [of sample_job "\<lambda>_ w. w" search_world sample_user "sample_req 5" sample_api]
    by (simp add: quiet_id sample_job_def sample_filters_def unique_on_def result_rows_def countRows_def)
qed

lemma find_job_set_status:
  "find_job i (set_job_status i st w) = map_option (\<lambda>j. j\<lparr>jb_status := st\<rparr>) (find_job i w)"
proof -
  have "find_job i (set_job_status i st w) =
      map_option (\<lambda>j. if jb_id j = i then j\<lparr>jb_status := st\<rparr> else j) (find_job i w)"
    by (simp add: find_job_def set_job_status_def findFirst_updateMany)
  then show ?thesis by (cases "find_job i w") (auto simp: find_job_def dest: findFirst_SomeD)
qed

lemma find_job_frame [simp]:
  "find_job i (audit_record q e w) = find_job i w"
  "find_job i (w\<lparr>leadSearchResults := rows\<rparr>) = find_job i w"
  "find_job i (skip_pending j w) = find_job i w"
  "find_job i (snd (tryReserveCredit u w)) = find_job i w"
  "find_job i (snd (refundCredit u w)) = find_job i w"
  "find_job i (w\<lparr>users := us\<rparr>) = find_job i w"
  by (simp_all add: find_job_def skip_pending_def)

lemma find_job_status_None: "find_job i (set_job_status j st w) = None \<longleftrightarrow> find_job i w = None"
proof -
  have "find_job i (set_job_status j st w) =
      map_option (\<lambda>x. if jb_id x = j then x\<lparr>jb_status := st\<rparr> else x) (find_job i w)"
    by (simp add: find_job_def set_job_status_def findFirst_updateMany)
  then show ?thesis by simp
qed

lemma loop_cancelled_status:
  assumes "enrich_loop api env jobId i k rs n w = (LoopCancelled, w')"
  shows "map_option jb_status (find_job jobId w') = Some CANCELLED"
  using assms
proof (induction rs arbitrary: k n w)
  case (Cons r rs)
  let ?w0 = "env (2 * k) w"
  obtain b w1 where res: "tryReserveCredit i ?w0 = (b, w1)" by fastforce
  obtain rr w3 where ref: "refundCredit i (env (Suc (2 * k)) w1) = (rr, w3)" by fastforce
  show ?case
    using Cons by (auto simp: Let_def res ref split: if_splits bool.splits option.splits sum.splits)
qed simp

text \<open>
  C15: every search ends. Whatever Apollo answers and whatever other requests do to the database in the
  meantime, when the worker is through with a job its status is \<open>COMPLETED\<close>, \<open>FAILED\<close> or
  \<open>CANCELLED\<close>: it never stays \<open>RUNNING\<close>, so the page that polls it stops and
  "get more leads" is possible again.
\<close>

theorem search_job_ends:
  assumes "find_job (aj_jobId job) (process_search_job api env q job w) = Some j"
  shows "jb_status j \<in> {COMPLETED, FAILED, CANCELLED}"
proof -
  let ?i = "aj_jobId job"
  have st: "jb_status j \<in> {COMPLETED, FAILED, CANCELLED}"
    if "find_job ?i (set_job_status ?i st v) = Some j" "st \<in> {COMPLETED, FAILED}" for st v
    using that by (auto simp: find_job_set_status)
  show ?thesis
  proof (cases "truthy (af_personName (aj_filters job))")
    case True
    obtain r w1 where d: "processDirectMatch api env q ?i (aj_userId job) (aj_filters job) w = (r, w1)" by fastforce
    show ?thesis
    proof (cases r)
      case (Inl e)
      with assms True d st show ?thesis by (simp add: process_search_job_def)
    next
      case (Inr x)
      then have "\<exists>v. find_job ?i w1 = find_job ?i (set_job_status ?i COMPLETED v)"
        using d by (auto simp: processDirectMatch_def Let_def split: prod.splits bool.splits sum.splits)
      with assms True d Inr st show ?thesis by (auto simp: process_search_job_def)
    qed
  next
    case False
    show ?thesis
    proof (cases "search_candidates api job")
      case (Inl e)
      from process_search_failed [OF this False] assms st show ?thesis by simp
    next
      case (Inr cs)
      show ?thesis
      proof (cases "cs = []")
        case True
        with Inr process_search_empty [of api job, OF _ False] assms st show ?thesis by simp
      next
        case ne: False
        obtain e w' where run: "enrich_loop api env ?i (aj_userId job) 0 (pending_rows q job cs) 0
            (w\<lparr>leadSearchResults := leadSearchResults w @ pending_rows q job cs\<rparr>) = (e, w')" by fastforce
        from process_search_loop [OF Inr ne False run] show ?thesis
        proof (elim disjE conjE exE)
          assume "e = LoopCancelled" "process_search_job api env q job w = w'"
          with loop_cancelled_status [of api env ?i] run assms show ?thesis by force
        qed (use assms st in auto)
      qed
    qed
  qed
qed

theorem search_job_ends_witness:
  "\<exists>j. find_job ''j1'' (process_search_job sample_api (\<lambda>_ w. w\<lparr>users := []\<rparr>) (sample_req 5) sample_job search_world) = Some j
     \<and> jb_status j \<in> {COMPLETED, FAILED, CANCELLED}"
proof -
  let ?w = "process_search_job sample_api (\<lambda>_ w. w\<lparr>users := []\<rparr>) (sample_req 5) sample_job search_world"
  have "find_job ''j1'' search_world \<noteq> None" by (simp add: search_world_def find_job_def)
  then have "find_job ''j1'' ?w \<noteq> None"
    by (intro process_search_job_keeps [where I = "\<lambda>w. find_job ''j1'' w \<noteq> None"])
      (simp_all add: find_job_status_None)
  then obtain j where "find_job ''j1'' ?w = Some j" by blast
  with search_job_ends [of sample_job sample_api "\<lambda>_ w. w\<lparr>users := []\<rparr>" "sample_req 5" search_world j] show ?thesis
    by (simp add: sample_job_def)
qed

text \<open>
  C12: no account ever owes credits. If no balance is negative when a job starts, none is
  negative when it ends, although other jobs and requests use the same balances between any
  two steps of the worker (as long as those keep balances from going negative themselves, as
  the worker does): every spending is one guarded decrement.
\<close>

theorem credits_never_negative:
  assumes "\<forall>k w. credits_ok w \<longrightarrow> credits_ok (env k w)" and "credits_ok w"
  shows "credits_ok (process_search_job api env q job w)
    \<and> (\<forall>i. 0 \<le> balance i (process_search_job api env q job w))"
proof -
  have ok: "credits_ok (process_search_job api env q job w)"
    using assms by (intro credits_ok_process) auto
  then have "0 \<le> balance i (process_search_job api env q job w)" for i
    by (auto simp: balance_def credits_ok_def split: option.splits dest: findById_SomeD)
  with ok show ?thesis by blast
qed

theorem credits_never_negative_witness:
  "credits_ok (process_search_job sample_api (\<lambda>_ w. snd (tryReserveCredit ''u1'' w)) (sample_req 5) sample_job search_world)"
proof -
  have "credits_ok search_world" by (simp add: credits_ok_def search_sample_defs sample_defs)
  with credits_never_negative [of "\<lambda>_ w. snd (tryReserveCredit ''u1'' w)" search_world sample_api "sample_req 5" sample_job]
  show ?thesis by (simp add: credits_ok_reserve)
qed

text \<open>
  A cancellation that arrives while a person is being looked up is lost. The owner cancels a running
  search while Apollo is answering and is told the job is \<open>CANCELLED\<close>; the worker then
  finishes, adds the result and overwrites the status with \<open>COMPLETED\<close>.
\<close>

theorem late_cancel_overwritten:
  assumes job: "find_job (aj_jobId job) w = Some j" "jb_userId j = aj_userId job" "jb_status j = RUNNING"
    and direct: "truthy (af_personName (aj_filters job))"
    and w: "users_ok w" "findById (aj_userId job) w = Some u" "\<not> unlimited_user u" "0 < u_leadFinderCredits u"
    and env: "env = (\<lambda>k v. if k = 1 then snd (cancelSearchJob (aj_userId job) (aj_jobId job) v) else v)"
  shows "fst (cancelSearchJob (aj_userId job) (aj_jobId job) (snd (tryReserveCredit (aj_userId job) w)))
      = Inr (j\<lparr>jb_status := CANCELLED\<rparr>)
    \<and> map_option jb_status (find_job (aj_jobId job) (process_search_job api env q job w)) = Some COMPLETED"
proof -
  let ?i = "aj_userId job" and ?j = "aj_jobId job"
  obtain b w1 where res: "tryReserveCredit ?i w = (b, w1)" by fastforce
  note r = findById_reserve [OF w(1-3), unfolded res fst_conv snd_conv]
  have j1: "find_job ?j w1 = Some j" using find_job_frame(4) [of ?j ?i w] by (simp add: res job(1))
  then have c: "cancelSearchJob ?i ?j w1 = (Inr (j\<lparr>jb_status := CANCELLED\<rparr>), set_job_status ?j CANCELLED w1)"
    by (simp add: cancelSearchJob_def job)
  let ?w2 = "set_job_status ?j CANCELLED w1" and ?u1 = "u\<lparr>u_leadFinderCredits := u_leadFinderCredits u - 1\<rparr>"
  have w2: "users_ok ?w2" "findById ?i ?w2 = Some ?u1" "find_job ?j ?w2 \<noteq> None"
    using r w(4) j1 by (simp_all add: users_ok_def findById_def find_job_status_None)
  have lim: "\<not> unlimited_user ?u1" using w(3) by (simp add: unlimited_user_def)
  obtain rr w3 where ref: "refundCredit ?i ?w2 = (rr, w3)" by fastforce
  have rr: "rr = Inr ()" using findById_refund(1) [OF w2(1,2) lim] ref by simp
  have w3: "find_job ?j w3 \<noteq> None" using find_job_frame(5) [of ?j ?i ?w2] w2(3) by (simp add: ref)
  have b: "b" using r(1) w(4) by simp
  have fin: "map_option jb_status (find_job ?j (set_job_status ?j COMPLETED (v\<lparr>leadSearchResults := rows\<rparr>))) = Some COMPLETED"
    if "find_job ?j v \<noteq> None" for v rows
    using that by (auto simp: find_job_set_status)
  have e: "env 0 w = w" "env 1 w1 = ?w2" "env (Suc 0) w1 = ?w2" by (simp_all add: env c)
  have "map_option jb_status (find_job ?j (process_search_job api env q job w)) = Some COMPLETED"
  proof (cases "matchByName api (the (af_personName (aj_filters job))) (af_personOrganization (aj_filters job)) = None")
    case True
    then show ?thesis
      using direct b rr fin [OF w3] by (simp add: process_search_job_def processDirectMatch_def Let_def e res ref)
  next
    case False
    then obtain p where "matchByName api (the (af_personName (aj_filters job))) (af_personOrganization (aj_filters job)) = Some p"
      by blast
    then show ?thesis
      using direct b fin [OF w2(3)] by (simp add: process_search_job_def processDirectMatch_def Let_def e res)
  qed
  then show ?thesis by (simp add: res c)
qed

theorem late_cancel_overwritten_witness:
  "\<exists>job env. map_option jb_status (find_job ''j1'' (process_search_job sample_api env (sample_req 5) job search_world)) = Some COMPLETED
     \<and> fst (cancelSearchJob ''u1'' ''j1'' (snd (tryReserveCredit ''u1'' search_world)))
       = Inr (hd (leadSearchJobs search_world)\<lparr>jb_status := CANCELLED\<rparr>)"
proof -
  let ?job = "sample_job\<lparr>aj_filters := sample_filters\<lparr>af_personName := Some ''Bo''\<rparr>\<rparr>"
  let ?env = "\<lambda>k v. if k = 1 then snd (cancelSearchJob ''u1'' ''j1'' v) else v"
  have j: "find_job ''j1'' search_world = Some (hd (leadSearchJobs search_world))"
    "jb_userId (hd (leadSearchJobs search_world)) = ''u1''" "jb_status (hd (leadSearchJobs search_world)) = RUNNING"
    by (simp_all add: search_world_def find_job_def)
  have w: "users_ok search_world" "findById ''u1'' search_world = Some sample_user" "\<not> unlimited_user sample_user"
    "0 < u_leadFinderCredits sample_user"
    by (simp_all add: users_ok_def unique_on_def findById_def unlimited_user_def search_sample_defs sample_defs)
  have job: "aj_userId ?job = ''u1''" "aj_jobId ?job = ''j1''" "truthy (af_personName (aj_filters ?job))"
    by (simp_all add: sample_job_def)
  have "fst (cancelSearchJob ''u1'' ''j1'' (snd (tryReserveCredit ''u1'' search_world)))
      = Inr (hd (leadSearchJobs search_world)\<lparr>jb_status := CANCELLED\<rparr>)
    \<and> map_option jb_status (find_job ''j1'' (process_search_job sample_api ?env (sample_req 5) ?job search_world)) = Some COMPLETED"
    using late_cancel_overwritten [of ?job search_world _ sample_user ?env sample_api "sample_req 5", unfolded job(1,2), OF j job(3) w refl] .
  then show ?thesis by blast
qed

end
