(* ===== verification/Renewal.thy ===== *)
theory Renewal
  imports SubscriptionProperties LeadFinderBilling
begin

text \<open>
  \<open>renewal-reminder.service.ts\<close> and its processor: the daily scan that mails a reminder six to
  eight days before a subscription renews, once per period. The two loops of the source, over
  directory and over Lead Finder subscriptions, are one function taking the columns of a table;
  the rows of a run are read before its loop. A row whose user or plan is missing cannot exist
  (foreign keys); the model passes over it.
\<close>

section \<open>The scan\<close>

definition REMINDER_WINDOW_START_DAYS :: int where "REMINDER_WINDOW_START_DAYS = 6"
definition REMINDER_WINDOW_END_DAYS :: int where "REMINDER_WINDOW_END_DAYS = 8"

definition in_window :: "req \<Rightarrow> time \<Rightarrow> bool" where
  "in_window q t \<longleftrightarrow> q_now q + REMINDER_WINDOW_START_DAYS * 24 * 60 * 60 * 1000 \<le> t
     \<and> t \<le> q_now q + REMINDER_WINDOW_END_DAYS * 24 * 60 * 60 * 1000"

definition sb_due :: "req \<Rightarrow> subscription \<Rightarrow> bool" where
  "sb_due q s \<longleftrightarrow> sb_status s \<in> {Sub_ACTIVE, Sub_TRIALING} \<and> \<not> sb_cancelAtPeriodEnd s
     \<and> in_window q (sb_currentPeriodEnd s)"

definition lf_due :: "req \<Rightarrow> leadFinderSubscription \<Rightarrow> bool" where
  "lf_due q s \<longleftrightarrow> lf_status s \<in> {Sub_ACTIVE, Sub_TRIALING} \<and> \<not> lf_cancelAtPeriodEnd s
     \<and> in_window q (lf_currentPeriodEnd s)"

definition sb_reminder :: "world \<Rightarrow> subscription \<Rightarrow> emailJob option" where
  "sb_reminder w s = (case (findById (sb_userId s) w, findFirst (\<lambda>p. pl_id p = sb_planId s) (plans w)) of
     (Some u, Some p) \<Rightarrow> Some (RenewalReminderEmail (u_email u) (pl_name p) (sb_currentPeriodEnd s) (pl_amountCents p))
   | _ \<Rightarrow> None)"

definition lf_reminder :: "world \<Rightarrow> leadFinderSubscription \<Rightarrow> emailJob option" where
  "lf_reminder w s = (case (findById (lf_userId s) w, findFirst (\<lambda>t. ti_id t = lf_tierId s) (leadFinderTiers w)) of
     (Some u, Some t) \<Rightarrow> Some (RenewalReminderEmail (u_email u) (''Lead Finder '' @ ti_name t)
                           (lf_currentPeriodEnd s) (ti_amountCents t))
   | _ \<Rightarrow> None)"

definition sb_mark :: "subscription \<Rightarrow> world \<Rightarrow> world" where
  "sb_mark s w = w\<lparr>subscriptions := updateMany (\<lambda>x. sb_id x = sb_id s)
     (\<lambda>x. x\<lparr>sb_renewalReminderSentForPeriodEnd := Some (sb_currentPeriodEnd s)\<rparr>) (subscriptions w)\<rparr>"

definition lf_mark :: "leadFinderSubscription \<Rightarrow> world \<Rightarrow> world" where
  "lf_mark s w = w\<lparr>leadFinderSubscriptions := updateMany (\<lambda>x. lf_id x = lf_id s)
     (\<lambda>x. x\<lparr>lf_renewalReminderSentForPeriodEnd := Some (lf_currentPeriodEnd s)\<rparr>) (leadFinderSubscriptions w)\<rparr>"

definition sb_reminded :: "subscription \<Rightarrow> bool" where
  "sb_reminded s \<longleftrightarrow> sb_renewalReminderSentForPeriodEnd s = Some (sb_currentPeriodEnd s)"

definition lf_reminded :: "leadFinderSubscription \<Rightarrow> bool" where
  "lf_reminded s \<longleftrightarrow> lf_renewalReminderSentForPeriodEnd s = Some (lf_currentPeriodEnd s)"

text \<open>One loop: a row already reminded for this period is passed over, the others are mailed and marked.\<close>

fun remind_rows ::
  "('r \<Rightarrow> bool) \<Rightarrow> ('r \<Rightarrow> emailJob option) \<Rightarrow> ('r \<Rightarrow> world \<Rightarrow> world) \<Rightarrow> req \<Rightarrow> 'r list \<Rightarrow> nat \<Rightarrow> world \<Rightarrow> nat \<times> world" where
  "remind_rows reminded job mark q [] sent w = (sent, w)"
| "remind_rows reminded job mark q (r # rs) sent w =
     (if reminded r then remind_rows reminded job mark q rs sent w
      else (case job r of
              None \<Rightarrow> remind_rows reminded job mark q rs sent w
            | Some j \<Rightarrow> remind_rows reminded job mark q rs (sent + 1) (mark r (enqueue q j w))))"

definition sendDueReminders :: "req \<Rightarrow> world \<Rightarrow> nat \<times> world" where
  "sendDueReminders q w =
     (let (sent, w1) = remind_rows sb_reminded (sb_reminder w) sb_mark q (findMany (sb_due q) (subscriptions w)) 0 w
      in remind_rows lf_reminded (lf_reminder w1) lf_mark q (findMany (lf_due q) (leadFinderSubscriptions w1)) sent w1)"

definition process_renewal_job :: "req \<Rightarrow> string \<Rightarrow> world \<Rightarrow> world" where
  "process_renewal_job q jobName w = (if jobName = ''scan'' then snd (sendDueReminders q w) else w)"

section \<open>One reminder per period\<close>

text \<open>The contract of a table of subscriptions the scan works on.\<close>

locale reminder_table =
  fixes rows :: "world \<Rightarrow> 'r list" and key :: "'r \<Rightarrow> ident" and reminded :: "'r \<Rightarrow> bool"
    and mark :: "'r \<Rightarrow> world \<Rightarrow> world" and stamp :: "'r \<Rightarrow> 'r \<Rightarrow> 'r"
  assumes rows_mark: "rows (mark r w) = updateMany (\<lambda>x. key x = key r) (stamp r) (rows w)"
    and rows_enqueue: "rows (enqueue q j w) = rows w"
    and mails_mark: "emailQueue (mark r w) = emailQueue w"
    and key_stamp: "key (stamp r x) = key x"
    and stamp_reminds: "reminded (stamp r r)"
begin

text \<open>A loop mails exactly the rows not reminded yet, in order, and counts them.\<close>

lemma remind_count:
  assumes "\<forall>r \<in> set rs. job r \<noteq> None"
  shows "fst (remind_rows reminded job mark q rs sent w) = sent + countRows (\<lambda>r. \<not> reminded r) rs"
  using assms by (induction rs arbitrary: sent w) auto

lemma remind_mails:
  assumes "\<forall>r \<in> set rs. job r \<noteq> None"
  shows "emailQueue (snd (remind_rows reminded job mark q rs sent w)) = emailQueue w @
    (if q_queueUp q then map (\<lambda>r. the (job r)) (filter (\<lambda>r. \<not> reminded r) rs) else [])"
  using assms by (induction rs arbitrary: sent w) (auto simp: mails_mark enqueue_def)

text \<open>And it stamps exactly those rows.\<close>

lemma remind_rows_stamp:
  assumes "\<forall>r \<in> set rs. job r \<noteq> None"
  shows "rows (snd (remind_rows reminded job mark q rs sent w)) =
    stamp_all key stamp (filter (\<lambda>r. \<not> reminded r) rs) (rows w)"
  using assms by (induction rs arbitrary: sent w) (auto simp: rows_mark rows_enqueue)

lemma remind_rows_table:
  assumes "\<forall>r \<in> set rs. job r \<noteq> None"
    and "unique_on key (rows w)" and "set rs \<subseteq> set (rows w)" and "unique_on key rs"
  shows "rows (snd (remind_rows reminded job mark q rs sent w)) =
    map (\<lambda>x. if x \<in> set rs \<and> \<not> reminded x then stamp x x else x) (rows w)"
  unfolding remind_rows_stamp [OF assms(1)]
  using assms(2-4) by (subst stamp_all_batch) (auto simp: key_stamp unique_on_def distinct_map)

end

interpretation directory_reminders: reminder_table subscriptions sb_id sb_reminded sb_mark
  "\<lambda>s x. x\<lparr>sb_renewalReminderSentForPeriodEnd := Some (sb_currentPeriodEnd s)\<rparr>"
  by unfold_locales (simp_all add: sb_mark_def sb_reminded_def)

interpretation lead_finder_reminders: reminder_table leadFinderSubscriptions lf_id lf_reminded lf_mark
  "\<lambda>s x. x\<lparr>lf_renewalReminderSentForPeriodEnd := Some (lf_currentPeriodEnd s)\<rparr>"
  by unfold_locales (simp_all add: lf_mark_def lf_reminded_def)

lemma remind_frame:
  assumes "\<And>r w. f (mark r w) = f w" and "\<And>j w. f (enqueue q j w) = f w"
  shows "f (snd (remind_rows reminded job mark q rs sent w)) = f w"
  using assms by (induction rs arbitrary: sent w) (auto split: option.splits)

lemma remind_none: "\<forall>r \<in> set rs. reminded r \<Longrightarrow> remind_rows reminded job mark q rs sent w = (sent, w)"
  by (induction rs) auto

lemma remind_sent: "snd (remind_rows reminded job mark q rs sent w) = snd (remind_rows reminded job mark q rs sent' w)"
proof (induction rs arbitrary: sent sent' w)
  case (Cons r rs)
  show ?case
    by (cases "reminded r"; cases "job r"; simp only: remind_rows.simps if_True if_False option.case; rule Cons.IH)
qed simp

text \<open>A row that was stamped is not due again, the others are due as before.\<close>

lemma filter_stamped:
  assumes "\<And>x. due (st x) = due x" and "\<And>x. reminded (st x)"
  shows "filter (\<lambda>x. due x \<and> \<not> reminded x) (map (\<lambda>x. if x \<in> D \<and> \<not> reminded x then st x else x) xs)
    = filter (\<lambda>x. x \<notin> D) (filter (\<lambda>x. due x \<and> \<not> reminded x) xs)"
  using assms by (induction xs) auto


section \<open>What is owed\<close>

text \<open>
  Who has to be reminded at a time, in terms of the columns: active or in trial, going on after the
  period, the period ending in six to eight days (in milliseconds), and the last reminder was not for the
  end of this period. What the mail says comes from the rows of user and plan.
\<close>

definition owed_directory :: "time \<Rightarrow> world \<Rightarrow> subscription list" where
  "owed_directory now w = filter (\<lambda>s. (sb_status s = Sub_ACTIVE \<or> sb_status s = Sub_TRIALING) \<and> \<not> sb_cancelAtPeriodEnd s
     \<and> now + 518400000 \<le> sb_currentPeriodEnd s \<and> sb_currentPeriodEnd s \<le> now + 691200000
     \<and> sb_renewalReminderSentForPeriodEnd s \<noteq> Some (sb_currentPeriodEnd s)) (subscriptions w)"

definition owed_lead_finder :: "time \<Rightarrow> world \<Rightarrow> leadFinderSubscription list" where
  "owed_lead_finder now w = filter (\<lambda>s. (lf_status s = Sub_ACTIVE \<or> lf_status s = Sub_TRIALING) \<and> \<not> lf_cancelAtPeriodEnd s
     \<and> now + 518400000 \<le> lf_currentPeriodEnd s \<and> lf_currentPeriodEnd s \<le> now + 691200000
     \<and> lf_renewalReminderSentForPeriodEnd s \<noteq> Some (lf_currentPeriodEnd s)) (leadFinderSubscriptions w)"

definition directory_mail :: "world \<Rightarrow> subscription \<Rightarrow> emailJob" where
  "directory_mail w s = (let p = the (findFirst (\<lambda>p. pl_id p = sb_planId s) (plans w))
     in RenewalReminderEmail (u_email (the (findById (sb_userId s) w))) (pl_name p) (sb_currentPeriodEnd s) (pl_amountCents p))"

definition lead_finder_mail :: "world \<Rightarrow> leadFinderSubscription \<Rightarrow> emailJob" where
  "lead_finder_mail w s = (let t = the (findFirst (\<lambda>t. ti_id t = lf_tierId s) (leadFinderTiers w))
     in RenewalReminderEmail (u_email (the (findById (lf_userId s) w))) (''Lead Finder '' @ ti_name t)
          (lf_currentPeriodEnd s) (ti_amountCents t))"

text \<open>The foreign keys of both tables: every row has its user and its plan.\<close>

definition reminders_known :: "world \<Rightarrow> bool" where
  "reminders_known w \<longleftrightarrow> (\<forall>s \<in> set (subscriptions w). sb_reminder w s \<noteq> None)
     \<and> (\<forall>s \<in> set (leadFinderSubscriptions w). lf_reminder w s \<noteq> None)"

lemma reminder_mails:
  "sb_reminder w s \<noteq> None \<Longrightarrow> the (sb_reminder w s) = directory_mail w s"
  "lf_reminder w t \<noteq> None \<Longrightarrow> the (lf_reminder w t) = lead_finder_mail w t"
  by (auto simp: sb_reminder_def lf_reminder_def directory_mail_def lead_finder_mail_def split: option.splits)

lemma window_days:
  "in_window q t \<longleftrightarrow> q_now q + 518400000 \<le> t \<and> t \<le> q_now q + 691200000"
  by (simp add: in_window_def REMINDER_WINDOW_START_DAYS_def REMINDER_WINDOW_END_DAYS_def)

lemma owed_rows:
  "owed_directory (q_now q) w = filter (\<lambda>s. sb_due q s \<and> \<not> sb_reminded s) (subscriptions w)"
  "owed_lead_finder (q_now q) w = filter (\<lambda>s. lf_due q s \<and> \<not> lf_reminded s) (leadFinderSubscriptions w)"
  unfolding owed_directory_def owed_lead_finder_def
  by (rule filter_cong [OF refl], auto simp: sb_due_def sb_reminded_def lf_due_def lf_reminded_def window_days)+

section \<open>A scan that stops early\<close>

text \<open>
  The state a scan leaves that was stopped (a worker that is killed, a query that fails) after
  \<open>m\<close> rows of the first loop and \<open>n\<close> of the second; a scan that runs to its end is the one with all rows.
\<close>

definition stopped_scan :: "nat \<Rightarrow> nat \<Rightarrow> req \<Rightarrow> world \<Rightarrow> world" where
  "stopped_scan m n q w =
     (let w1 = snd (remind_rows sb_reminded (sb_reminder w) sb_mark q (take m (findMany (sb_due q) (subscriptions w))) 0 w)
      in snd (remind_rows lf_reminded (lf_reminder w1) lf_mark q (take n (findMany (lf_due q) (leadFinderSubscriptions w1))) 0 w1))"

lemma full_scan:
  "snd (sendDueReminders q w) = stopped_scan (length (findMany (sb_due q) (subscriptions w)))
     (length (findMany (lf_due q) (leadFinderSubscriptions w))) q w"
proof -
  let ?w1 = "snd (remind_rows sb_reminded (sb_reminder w) sb_mark q (findMany (sb_due q) (subscriptions w)) 0 w)"
  have "leadFinderSubscriptions ?w1 = leadFinderSubscriptions w" by (rule remind_frame) (simp_all add: sb_mark_def)
  then show ?thesis
    unfolding sendDueReminders_def stopped_scan_def split_beta Let_def by simp (rule remind_sent)
qed

lemma mail_columns:
  assumes "users w = users w'" "plans w = plans w'" "leadFinderTiers w = leadFinderTiers w'"
  shows "sb_reminder w = sb_reminder w'" "lf_reminder w = lf_reminder w'"
    "directory_mail w = directory_mail w'" "lead_finder_mail w = lead_finder_mail w'"
  using assms by (simp_all add: fun_eq_iff sb_reminder_def lf_reminder_def directory_mail_def lead_finder_mail_def findById_def)

text \<open>The two tables after a stopped scan, and the mail it sent.\<close>

definition handled_directory :: "nat \<Rightarrow> req \<Rightarrow> world \<Rightarrow> subscription list" where
  "handled_directory m q w = take m (findMany (sb_due q) (subscriptions w))"

definition handled_lead_finder :: "nat \<Rightarrow> req \<Rightarrow> world \<Rightarrow> leadFinderSubscription list" where
  "handled_lead_finder n q w = take n (findMany (lf_due q) (leadFinderSubscriptions w))"

lemma handled_known:
  assumes "reminders_known w"
  shows "\<forall>s \<in> set (handled_directory m q w). sb_reminder w s \<noteq> None"
    and "\<forall>s \<in> set (handled_lead_finder n q w). lf_reminder w s \<noteq> None"
  using assms by (auto simp: reminders_known_def handled_directory_def handled_lead_finder_def findMany_def dest!: in_set_takeD)

lemma unique_on_take: "unique_on k xs \<Longrightarrow> unique_on k (take m xs)"
  by (simp add: unique_on_def take_map [symmetric])

lemma handled_unique:
  "unique_on sb_id (subscriptions w) \<Longrightarrow> unique_on sb_id (handled_directory m q w)"
  "unique_on lf_id (leadFinderSubscriptions w) \<Longrightarrow> unique_on lf_id (handled_lead_finder n q w)"
  by (simp_all add: handled_directory_def handled_lead_finder_def findMany_def unique_on_filter unique_on_take)

lemma handled_subset:
  "set (handled_directory m q w) \<subseteq> set (subscriptions w)"
  "set (handled_lead_finder n q w) \<subseteq> set (leadFinderSubscriptions w)"
  by (auto simp: handled_directory_def handled_lead_finder_def findMany_def dest!: in_set_takeD)

definition first_loop :: "nat \<Rightarrow> req \<Rightarrow> world \<Rightarrow> world" where
  "first_loop m q w = snd (remind_rows sb_reminded (sb_reminder w) sb_mark q (handled_directory m q w) 0 w)"

lemma first_loop_frame:
  "users (first_loop m q w) = users w" "plans (first_loop m q w) = plans w"
  "leadFinderTiers (first_loop m q w) = leadFinderTiers w"
  "leadFinderSubscriptions (first_loop m q w) = leadFinderSubscriptions w"
  unfolding first_loop_def by (rule remind_frame; simp add: sb_mark_def)+

lemma stopped_scan_loops:
  "stopped_scan m n q w =
     snd (remind_rows lf_reminded (lf_reminder w) lf_mark q (handled_lead_finder n q w) 0 (first_loop m q w))"
  using mail_columns(2) [of "first_loop m q w" w]
  by (simp add: stopped_scan_def first_loop_frame handled_directory_def [symmetric] first_loop_def [symmetric]
      handled_lead_finder_def Let_def)

lemma stopped_scan_frame:
  "users (stopped_scan m n q w) = users w" "plans (stopped_scan m n q w) = plans w"
  "leadFinderTiers (stopped_scan m n q w) = leadFinderTiers w"
  "subscriptions (stopped_scan m n q w) = subscriptions (first_loop m q w)"
proof -
  have f: "g (stopped_scan m n q w) = g (first_loop m q w)"
    if "\<And>r x. g (lf_mark r x) = g x" "\<And>j x. g (enqueue q j x) = g x" for g :: "world \<Rightarrow> 'b"
    unfolding stopped_scan_loops using that by (rule remind_frame)
  show "users (stopped_scan m n q w) = users w" "plans (stopped_scan m n q w) = plans w"
    "leadFinderTiers (stopped_scan m n q w) = leadFinderTiers w"
    "subscriptions (stopped_scan m n q w) = subscriptions (first_loop m q w)"
    by (subst f; simp add: lf_mark_def first_loop_frame)+
qed

lemma stopped_scan_mails:
  assumes "reminders_known w"
  shows "emailQueue (stopped_scan m n q w) = emailQueue w @
    (if q_queueUp q then map (directory_mail w) (filter (\<lambda>s. \<not> sb_reminded s) (handled_directory m q w))
       @ map (lead_finder_mail w) (filter (\<lambda>s. \<not> lf_reminded s) (handled_lead_finder n q w)) else [])"
  unfolding stopped_scan_loops lead_finder_reminders.remind_mails [OF handled_known(2) [OF assms]] first_loop_def
    directory_reminders.remind_mails [OF handled_known(1) [OF assms]]
  using handled_known [OF assms] reminder_mails by (auto simp: map_eq_conv)

lemma stopped_scan_tables:
  assumes "reminders_known w" "unique_on sb_id (subscriptions w)" "unique_on lf_id (leadFinderSubscriptions w)"
  shows "subscriptions (stopped_scan m n q w) =
      map (\<lambda>x. if x \<in> set (handled_directory m q w) \<and> \<not> sb_reminded x
        then x\<lparr>sb_renewalReminderSentForPeriodEnd := Some (sb_currentPeriodEnd x)\<rparr> else x) (subscriptions w)"
    and "leadFinderSubscriptions (stopped_scan m n q w) =
      map (\<lambda>x. if x \<in> set (handled_lead_finder n q w) \<and> \<not> lf_reminded x
        then x\<lparr>lf_renewalReminderSentForPeriodEnd := Some (lf_currentPeriodEnd x)\<rparr> else x) (leadFinderSubscriptions w)"
proof -
  show "subscriptions (stopped_scan m n q w) =
      map (\<lambda>x. if x \<in> set (handled_directory m q w) \<and> \<not> sb_reminded x
        then x\<lparr>sb_renewalReminderSentForPeriodEnd := Some (sb_currentPeriodEnd x)\<rparr> else x) (subscriptions w)"
    unfolding stopped_scan_frame first_loop_def
    by (rule directory_reminders.remind_rows_table [OF handled_known(1) [OF assms(1)] assms(2) handled_subset(1)
        handled_unique(1) [OF assms(2)]])
  show "leadFinderSubscriptions (stopped_scan m n q w) =
      map (\<lambda>x. if x \<in> set (handled_lead_finder n q w) \<and> \<not> lf_reminded x
        then x\<lparr>lf_renewalReminderSentForPeriodEnd := Some (lf_currentPeriodEnd x)\<rparr> else x) (leadFinderSubscriptions w)"
    unfolding stopped_scan_loops
    using lead_finder_reminders.remind_rows_table [OF handled_known(2) [OF assms(1)], of "first_loop m q w" n q q 0]
      assms(3) handled_subset(2) handled_unique(2) [OF assms(3)] by (simp add: first_loop_frame)
qed


lemma handled_all:
  "length (findMany (sb_due q) (subscriptions w)) \<le> m \<Longrightarrow>
     filter (\<lambda>s. \<not> sb_reminded s) (handled_directory m q w) = owed_directory (q_now q) w"
  "length (findMany (lf_due q) (leadFinderSubscriptions w)) \<le> n \<Longrightarrow>
     filter (\<lambda>s. \<not> lf_reminded s) (handled_lead_finder n q w) = owed_lead_finder (q_now q) w"
  by (simp_all add: handled_directory_def handled_lead_finder_def owed_rows findMany_def conj_commute)

text \<open>What a later scan still owes after a stopped one.\<close>

lemma owed_after:
  fixes q' :: req
  assumes "reminders_known w" "unique_on sb_id (subscriptions w)" "unique_on lf_id (leadFinderSubscriptions w)"
  shows "owed_directory (q_now q') (stopped_scan m n q w) =
      filter (\<lambda>s. s \<notin> set (filter (\<lambda>s. \<not> sb_reminded s) (handled_directory m q w))) (owed_directory (q_now q') w)"
    and "owed_lead_finder (q_now q') (stopped_scan m n q w) =
      filter (\<lambda>s. s \<notin> set (filter (\<lambda>s. \<not> lf_reminded s) (handled_lead_finder n q w))) (owed_lead_finder (q_now q') w)"
proof -
  show "owed_directory (q_now q') (stopped_scan m n q w) =
      filter (\<lambda>s. s \<notin> set (filter (\<lambda>s. \<not> sb_reminded s) (handled_directory m q w))) (owed_directory (q_now q') w)"
    unfolding owed_rows stopped_scan_tables [OF assms]
    by (subst filter_stamped) (auto simp: sb_due_def sb_reminded_def intro!: filter_cong)
  show "owed_lead_finder (q_now q') (stopped_scan m n q w) =
      filter (\<lambda>s. s \<notin> set (filter (\<lambda>s. \<not> lf_reminded s) (handled_lead_finder n q w))) (owed_lead_finder (q_now q') w)"
    unfolding owed_rows stopped_scan_tables [OF assms]
    by (subst filter_stamped) (auto simp: lf_due_def lf_reminded_def intro!: filter_cong)
qed


lemma scan_mails:
  assumes "reminders_known w"
  shows "emailQueue (snd (sendDueReminders q w)) = emailQueue w @
    (if q_queueUp q then map (directory_mail w) (owed_directory (q_now q) w)
       @ map (lead_finder_mail w) (owed_lead_finder (q_now q) w) else [])"
  unfolding full_scan stopped_scan_mails [OF assms] by (simp add: handled_all)

lemma scan_count:
  assumes "reminders_known w"
  shows "fst (sendDueReminders q w) = length (owed_directory (q_now q) w) + length (owed_lead_finder (q_now q) w)"
proof -
  let ?r = "remind_rows sb_reminded (sb_reminder w) sb_mark q (findMany (sb_due q) (subscriptions w)) 0 w"
  have w1: "first_loop (length (findMany (sb_due q) (subscriptions w))) q w = snd ?r"
    by (simp add: first_loop_def handled_directory_def)
  note fr = first_loop_frame [of "length (findMany (sb_due q) (subscriptions w))" q w, unfolded w1]
  have due: "countRows (\<lambda>s. \<not> sb_reminded s) (findMany (sb_due q) (subscriptions w)) = length (owed_directory (q_now q) w)"
    "countRows (\<lambda>s. \<not> lf_reminded s) (findMany (lf_due q) (leadFinderSubscriptions w)) = length (owed_lead_finder (q_now q) w)"
    by (simp_all add: owed_rows countRows_def findMany_def conj_commute)
  have known: "\<forall>s \<in> set (findMany (sb_due q) (subscriptions w)). sb_reminder w s \<noteq> None"
    "\<forall>s \<in> set (findMany (lf_due q) (leadFinderSubscriptions w)). lf_reminder w s \<noteq> None"
    using assms by (auto simp: reminders_known_def findMany_def)
  show ?thesis
    by (simp add: sendDueReminders_def split_beta fr mail_columns(2) [OF fr(1-3)] due
        directory_reminders.remind_count [OF known(1)] lead_finder_reminders.remind_count [OF known(2)])
qed



definition due_subscription :: subscription where
  "due_subscription = \<lparr>sb_id = ''b1'', sb_userId = ''u1'', sb_planId = ''p1'', sb_stripeCustomerId = ''cus'',
     sb_stripeSubscriptionId = ''sub_1'', sb_status = Sub_ACTIVE, sb_currentPeriodStart = 0,
     sb_currentPeriodEnd = 604800000, sb_cancelAtPeriodEnd = False, sb_trialEndsAt = None, sb_pastDueSince = None,
     sb_renewalReminderSentForPeriodEnd = Some 0, sb_createdAt = 0\<rparr>"

definition renewal_world :: world where
  "renewal_world = sample_world\<lparr>subscriptions := [due_subscription],
     plans := [\<lparr>pl_id = ''p1'', pl_name = ''Full Access'', pl_slug = ''full'', pl_stripePriceId = ''price'',
                pl_interval = SIX_MONTHS, pl_amountCents = 5000, pl_currency = ''usd'', pl_isActive = True\<rparr>]\<rparr>"

lemmas renewal_sample_defs = renewal_world_def due_subscription_def reminders_known_def sb_reminder_def
  findById_def sample_defs unique_on_def

lemma renewal_sample:
  "reminders_known renewal_world" "q_queueUp (sample_req 0)"
  "unique_on sb_id (subscriptions renewal_world)" "unique_on lf_id (leadFinderSubscriptions renewal_world)"
  by (simp_all add: renewal_sample_defs)

lemma renewal_owed:
  "owed_directory 0 renewal_world = [due_subscription]" "owed_directory 3600000 renewal_world = [due_subscription]"
  "owed_lead_finder t renewal_world = []" "emailQueue renewal_world = []"
  "directory_mail renewal_world due_subscription = RenewalReminderEmail ''ann@example.com'' ''Full Access'' 604800000 5000"
  by (simp_all add: owed_directory_def owed_lead_finder_def directory_mail_def renewal_sample_defs)


text \<open>
  A reminder is lost when the mail queue does not answer: \<open>EmailService\<close> swallows the failure,
  so the scan's own error handling never runs, the subscription is counted and marked as reminded although
  nothing was queued, and no later scan mails it for this period, however often it runs with the queue back.
\<close>

theorem reminder_lost_when_queue_down:
  assumes "reminders_known w" and "\<not> q_queueUp q"
    and "unique_on sb_id (subscriptions w)" and "unique_on lf_id (leadFinderSubscriptions w)"
  shows "fst (sendDueReminders q w) = length (owed_directory (q_now q) w) + length (owed_lead_finder (q_now q) w)
    \<and> emailQueue (snd (sendDueReminders q w)) = emailQueue w
    \<and> (\<forall>q' :: req. \<forall>s \<in> set (owed_directory (q_now q) w). s \<notin> set (owed_directory (q_now q') (snd (sendDueReminders q w))))"
  unfolding full_scan [of q w] owed_after [OF assms(1,3,4)]
  unfolding full_scan [of q w, symmetric] handled_all [OF order_refl]
  using scan_count [OF assms(1), of q] scan_mails [OF assms(1), of q] assms(2) by simp

theorem reminder_lost_when_queue_down_witness:
  "fst (sendDueReminders ((sample_req 0)\<lparr>q_queueUp := False\<rparr>) renewal_world) = 1
   \<and> emailQueue (snd (sendDueReminders ((sample_req 0)\<lparr>q_queueUp := False\<rparr>) renewal_world)) = []"
proof -
  have q: "\<not> q_queueUp ((sample_req 0)\<lparr>q_queueUp := False\<rparr>)" "q_now ((sample_req 0)\<lparr>q_queueUp := False\<rparr>) = 0"
    by (simp_all add: sample_req_def)
  show ?thesis
    using reminder_lost_when_queue_down [OF renewal_sample(1) q(1) renewal_sample(3,4)]
    by (simp only: q renewal_owed list.size) simp
qed

end
