(* ===== verification/Campaign.thy ===== *)
theory Campaign
  imports Complex_Main ApolloSearch
begin

text \<open>
  The cold-outreach campaign: \<open>prospect-campaign.service.ts\<close> (upload, daily drip, statistics,
  settings, template), the bulk producer of \<open>email.service.ts\<close>, the Resend webhook
  (\<open>resend-webhook.controller.ts\<close>, \<open>resend-webhook.util.ts\<close>) and unsubscribing
  (\<open>unsubscribe.controller.ts\<close>, \<open>unsubscribe-token.util.ts\<close>).

  \<open>isEmail\<close> of class-validator, the HMAC and the reading of a JSON body or of a number are
  parameters. The bulk queue is the list of the recipients of the jobs put on it. The batches of
  500 of one bulk send are accepted or lost one by one: \<open>up k\<close> says what happens to the \<open>k\<close>-th.
\<close>

section \<open>Batches\<close>

definition BULK_CHUNK_SIZE :: nat where "BULK_CHUNK_SIZE = 500"
definition UPLOAD_CHUNK_SIZE :: nat where "UPLOAD_CHUNK_SIZE = 1000"

definition enqueueBulk :: "(nat \<Rightarrow> bool) \<Rightarrow> string list \<Rightarrow> world \<Rightarrow> world" where
  "enqueueBulk up jobs w =
     w\<lparr>bulkEmailQueue := bulkEmailQueue w
       @ concat (map snd (filter (\<lambda>(k, chunk). up k) (enumerate 0 (chunks BULK_CHUNK_SIZE jobs))))\<rparr>"

definition sendProspectInvite :: "(nat \<Rightarrow> bool) \<Rightarrow> string \<Rightarrow> world \<Rightarrow> world" where
  "sendProspectInvite up to' w = enqueueBulk up [to'] w"

definition sendProspectInviteBulk :: "(nat \<Rightarrow> bool) \<Rightarrow> string list \<Rightarrow> world \<Rightarrow> world" where
  "sendProspectInviteBulk up emails w = enqueueBulk up emails w"

section \<open>Settings and template\<close>

definition default_settings :: campaignSettings where
  "default_settings = \<lparr>cs_dailyCap = 25, cs_paused = False, cs_emailSubject = None, cs_emailHeading = None,
     cs_emailBody = None, cs_emailCtaLabel = None, cs_emailFootnote = None, cs_emailMailingAddress = None\<rparr>"

text \<open>An upsert of the single row: the defaults of the schema when it is created.\<close>

definition upsert_settings :: "(campaignSettings \<Rightarrow> campaignSettings) \<Rightarrow> world \<Rightarrow> campaignSettings \<times> world" where
  "upsert_settings f w = (let s = f (nullish (campaign w) default_settings) in (s, w\<lparr>campaign := Some s\<rparr>))"

definition getOrCreateSettings :: "world \<Rightarrow> campaignSettings \<times> world" where
  "getOrCreateSettings w = upsert_settings (\<lambda>s. s) w"

definition updateSettings ::
  "req \<Rightarrow> ident \<Rightarrow> nat option \<Rightarrow> bool option \<Rightarrow> world \<Rightarrow> (nat \<times> bool) \<times> world" where
  "updateSettings q adminUserId dailyCap paused w =
     (let (updated, w1) = upsert_settings
            (\<lambda>s. s\<lparr>cs_dailyCap := nullish dailyCap (cs_dailyCap s), cs_paused := nullish paused (cs_paused s)\<rparr>) w
      in ((cs_dailyCap updated, cs_paused updated),
          audit_record q ((entry (Some adminUserId) Admin_prospect_campaign_settings_updated)\<lparr>ae_metadata := Some (JObj
            [(''dailyCap'', JInt (int (cs_dailyCap updated))), (''paused'', JBool (cs_paused updated))])\<rparr>) w1))"

record emailTemplate =
  tm_subject :: string
  tm_heading :: string
  tm_body :: string
  tm_ctaLabel :: string
  tm_footnote :: string
  tm_mailingAddress :: string

text \<open>The default copy.\<close>

definition DEFAULT_SUBJECT :: string where
  "DEFAULT_SUBJECT = ''You've been invited to check out conference.contact''"

definition DEFAULT_HEADING :: string where
  "DEFAULT_HEADING = ''Thought this might be useful''"

definition DEFAULT_BODY :: string where
  "DEFAULT_BODY = ''A hand-verified directory of B2B conference contacts, with an AI tool that finds and enriches new leads live ''
     @ em_dash @ '' take a look and see what'' @ right_quote @ ''s inside.''"

definition DEFAULT_CTA_LABEL :: string where
  "DEFAULT_CTA_LABEL = ''Take a look '' @ right_arrow"

definition DEFAULT_FOOTNOTE :: string where
  "DEFAULT_FOOTNOTE = ''No obligation '' @ em_dash @ '' you can create a free account just to browse.''"

definition effective_template :: "string \<Rightarrow> campaignSettings \<Rightarrow> emailTemplate" where
  "effective_template defaultMailingAddress s =
     \<lparr>tm_subject = nullish (cs_emailSubject s) DEFAULT_SUBJECT,
      tm_heading = nullish (cs_emailHeading s) DEFAULT_HEADING,
      tm_body = nullish (cs_emailBody s) DEFAULT_BODY,
      tm_ctaLabel = nullish (cs_emailCtaLabel s) DEFAULT_CTA_LABEL,
      tm_footnote = nullish (cs_emailFootnote s) DEFAULT_FOOTNOTE,
      tm_mailingAddress = nullish (cs_emailMailingAddress s) defaultMailingAddress\<rparr>"

definition getEmailTemplate :: "string \<Rightarrow> world \<Rightarrow> emailTemplate \<times> world" where
  "getEmailTemplate defaultMailingAddress w =
     (let (s, w1) = getOrCreateSettings w in (effective_template defaultMailingAddress s, w1))"

record templateUpdate =
  ut_subject :: "string option"
  ut_heading :: "string option"
  ut_body :: "string option"
  ut_ctaLabel :: "string option"
  ut_footnote :: "string option"
  ut_mailingAddress :: "string option"

text \<open>A field that is absent is kept, an empty one is cleared to the default.\<close>

definition override :: "string option \<Rightarrow> string option \<Rightarrow> string option" where
  "override field current =
     (case field of None \<Rightarrow> current | Some s \<Rightarrow> if s = [] then None else Some s)"

definition address_too_short :: "string option \<Rightarrow> bool" where
  "address_too_short a = (case a of None \<Rightarrow> False | Some s \<Rightarrow> s \<noteq> [] \<and> length (trim s) < 10)"

definition updateEmailTemplate ::
  "string \<Rightarrow> req \<Rightarrow> ident \<Rightarrow> templateUpdate \<Rightarrow> world \<Rightarrow> emailTemplate result \<times> world" where
  "updateEmailTemplate defaultMailingAddress q adminUserId dto w =
     (if address_too_short (ut_mailingAddress dto) then (Inl (BadRequest Mailing_address_too_short), w)
      else (let (_, w1) = upsert_settings (\<lambda>s. s\<lparr>
                  cs_emailSubject := override (ut_subject dto) (cs_emailSubject s),
                  cs_emailHeading := override (ut_heading dto) (cs_emailHeading s),
                  cs_emailBody := override (ut_body dto) (cs_emailBody s),
                  cs_emailCtaLabel := override (ut_ctaLabel dto) (cs_emailCtaLabel s),
                  cs_emailFootnote := override (ut_footnote dto) (cs_emailFootnote s),
                  cs_emailMailingAddress := override (ut_mailingAddress dto) (cs_emailMailingAddress s)\<rparr>) w;
                (t, w2) = getEmailTemplate defaultMailingAddress
                  (audit_record q (entry (Some adminUserId) Admin_prospect_campaign_template_updated) w1)
            in (Inr t, w2)))"

definition sendTestEmail :: "(nat \<Rightarrow> bool) \<Rightarrow> string \<Rightarrow> world \<Rightarrow> world" where
  "sendTestEmail up email w = sendProspectInvite up email w"

section \<open>Upload\<close>

record uploadReport =
  up_queued :: nat
  up_alreadyQueued :: nat
  up_alreadyHasAccount :: nat
  up_unsubscribed :: nat
  up_invalid :: nat
  up_total :: nat

definition report_json :: "uploadReport \<Rightarrow> json" where
  "report_json r = JObj [(''total'', JInt (int (up_total r))), (''queued'', JInt (int (up_queued r))),
     (''alreadyQueued'', JInt (int (up_alreadyQueued r))), (''alreadyHasAccount'', JInt (int (up_alreadyHasAccount r))),
     (''unsubscribed'', JInt (int (up_unsubscribed r))), (''invalid'', JInt (int (up_invalid r)))]"

text \<open>\<open>where: { email: { in: chunk } }\<close>, chunk by chunk, collected in a \<open>Set\<close>.\<close>

definition collect_emails :: "('r \<Rightarrow> string) \<Rightarrow> string list list \<Rightarrow> 'r list \<Rightarrow> string list" where
  "collect_emails email chs rows =
     js_set (concat (map (\<lambda>chunk. map email (findMany (\<lambda>r. email r \<in> set chunk) rows)) chs))"

definition queue_row :: "req \<Rightarrow> ident \<Rightarrow> nat \<Rightarrow> string \<Rightarrow> prospectInvite" where
  "queue_row q uploadedBy k email =
     \<lparr>pi_id = nth_id q k, pi_email = email, pi_status = Pro_PENDING, pi_uploadedByUserId = Some uploadedBy,
      pi_createdAt = q_now q, pi_sentAt = None\<rparr>"

text \<open>\<open>createMany\<close> with \<open>skipDuplicates\<close>: a row whose unique email is taken is left out.\<close>

fun createMany_prospects :: "prospectInvite list \<Rightarrow> prospectInvite list \<Rightarrow> prospectInvite list" where
  "createMany_prospects [] rows = rows"
| "createMany_prospects (r # rs) rows =
     createMany_prospects rs (if \<exists>x \<in> set rows. pi_email x = pi_email r then rows else rows @ [r])"

definition enqueueUploadedEmails ::
  "(string \<Rightarrow> bool) \<Rightarrow> req \<Rightarrow> ident \<Rightarrow> string list \<Rightarrow> world \<Rightarrow> uploadReport \<times> world" where
  "enqueueUploadedEmails isEmail q uploadedByUserId rawEmails w =
     (let normalized = map (\<lambda>raw. toLowerCase (trim raw)) rawEmails;
          candidates = js_set (filter isEmail normalized);
          invalid = length (filter (\<lambda>e. \<not> isEmail e) normalized);
          chs = chunks UPLOAD_CHUNK_SIZE candidates;
          existingUsers = collect_emails u_email chs (users w);
          suppressed = collect_emails (\<lambda>s. s) chs (emailSuppressions w);
          alreadyQueued = collect_emails pi_email chs (prospectInviteQueue w);
          toQueue = filter (\<lambda>e. e \<notin> set existingUsers \<and> e \<notin> set suppressed \<and> e \<notin> set alreadyQueued) candidates;
          w1 = (if toQueue = [] then w
                else w\<lparr>prospectInviteQueue := createMany_prospects
                       (map (\<lambda>(k, e). queue_row q uploadedByUserId k e) (enumerate 0 toQueue)) (prospectInviteQueue w)\<rparr>);
          r = \<lparr>up_queued = length toQueue, up_alreadyQueued = length alreadyQueued,
               up_alreadyHasAccount = length existingUsers, up_unsubscribed = length suppressed,
               up_invalid = invalid, up_total = length rawEmails\<rparr>
      in (r, audit_record q ((entry (Some uploadedByUserId) Admin_prospect_campaign_uploaded)
               \<lparr>ae_metadata := Some (report_json r)\<rparr>) w1))"

section \<open>Statistics\<close>

record campaignStats =
  st_pending :: nat
  st_sent :: nat
  st_skippedExistingUser :: nat
  st_skippedUnsubscribed :: nat
  st_bounced :: nat
  st_complained :: nat
  st_total :: nat
  st_bounceComplaintRate :: rat
  st_dailyCap :: nat
  st_paused :: bool

definition by_status :: "world \<Rightarrow> prospectStatus \<Rightarrow> nat" where
  "by_status w st = countRows (\<lambda>r. pi_status r = st) (prospectInviteQueue w)"

definition all_statuses :: "prospectStatus list" where
  "all_statuses = [Pro_PENDING, Pro_SENT, Pro_SKIPPED_EXISTING_USER, Pro_SKIPPED_UNSUBSCRIBED, Pro_BOUNCED, Pro_COMPLAINED]"

definition getStats :: "world \<Rightarrow> campaignStats \<times> world" where
  "getStats w =
     (let (settings, w1) = getOrCreateSettings w;
          sent = by_status w Pro_SENT; bounced = by_status w Pro_BOUNCED; complained = by_status w Pro_COMPLAINED;
          attempted = sent + bounced + complained
      in (\<lparr>st_pending = by_status w Pro_PENDING, st_sent = sent,
           st_skippedExistingUser = by_status w Pro_SKIPPED_EXISTING_USER,
           st_skippedUnsubscribed = by_status w Pro_SKIPPED_UNSUBSCRIBED,
           st_bounced = bounced, st_complained = complained,
           st_total = sum_list (map (by_status w) all_statuses),
           st_bounceComplaintRate = (if 0 < attempted then of_nat (bounced + complained) / of_nat attempted else 0),
           st_dailyCap = cs_dailyCap settings, st_paused = cs_paused settings\<rparr>, w1))"

section \<open>The daily drip\<close>

record dripReport =
  dr_sent :: nat
  dr_skippedExisting :: nat
  dr_skippedUnsubscribed :: nat
  dr_batchSize :: nat

definition no_drip :: dripReport where
  "no_drip = \<lparr>dr_sent = 0, dr_skippedExisting = 0, dr_skippedUnsubscribed = 0, dr_batchSize = 0\<rparr>"

definition set_prospect :: "ident \<Rightarrow> prospectStatus \<Rightarrow> world \<Rightarrow> world" where
  "set_prospect i st w = w\<lparr>prospectInviteQueue :=
     updateMany (\<lambda>r. pi_id r = i) (\<lambda>r. r\<lparr>pi_status := st\<rparr>) (prospectInviteQueue w)\<rparr>"

text \<open>The loop over the batch: rows that must not be mailed are marked, the others collected.\<close>

fun sort_batch ::
  "string set \<Rightarrow> string set \<Rightarrow> prospectInvite list \<Rightarrow> string list \<Rightarrow> nat \<Rightarrow> nat \<Rightarrow> world
    \<Rightarrow> (string list \<times> nat \<times> nat) \<times> world" where
  "sort_batch existing suppressed [] toSend skE skU w = ((toSend, skE, skU), w)"
| "sort_batch existing suppressed (r # rs) toSend skE skU w =
     (if pi_email r \<in> existing
      then sort_batch existing suppressed rs toSend (skE + 1) skU (set_prospect (pi_id r) Pro_SKIPPED_EXISTING_USER w)
      else if pi_email r \<in> suppressed
      then sort_batch existing suppressed rs toSend skE (skU + 1) (set_prospect (pi_id r) Pro_SKIPPED_UNSUBSCRIBED w)
      else sort_batch existing suppressed rs (toSend @ [pi_email r]) skE skU w)"

definition pending_batch :: "nat \<Rightarrow> world \<Rightarrow> prospectInvite list" where
  "pending_batch cap w =
     take cap (orderAsc pi_createdAt (findMany (\<lambda>r. pi_status r = Pro_PENDING) (prospectInviteQueue w)))"

definition mark_sent :: "req \<Rightarrow> string list \<Rightarrow> world \<Rightarrow> world" where
  "mark_sent q emails w = w\<lparr>prospectInviteQueue := updateMany (\<lambda>r. pi_email r \<in> set emails)
     (\<lambda>r. r\<lparr>pi_status := Pro_SENT, pi_sentAt := Some (q_now q)\<rparr>) (prospectInviteQueue w)\<rparr>"

definition runDailyDrip :: "(nat \<Rightarrow> bool) \<Rightarrow> req \<Rightarrow> world \<Rightarrow> dripReport \<times> world" where
  "runDailyDrip up q w =
     (let (settings, w0) = getOrCreateSettings w
      in if cs_paused settings then (no_drip, w0)
         else (let candidates = pending_batch (cs_dailyCap settings) w0
               in if candidates = [] then (no_drip, w0)
                  else (let emails = map pi_email candidates;
                            existing = set (filter (\<lambda>e. e \<in> set emails) (map u_email (users w0)));
                            suppressed = set (filter (\<lambda>e. e \<in> set emails) (emailSuppressions w0));
                            ((toSend, skE, skU), w1) = sort_batch existing suppressed candidates [] 0 0 w0;
                            w2 = (if toSend = [] then w1 else mark_sent q toSend (sendProspectInviteBulk up toSend w1));
                            r = \<lparr>dr_sent = length toSend, dr_skippedExisting = skE, dr_skippedUnsubscribed = skU,
                                 dr_batchSize = length candidates\<rparr>
                        in (r, audit_record q ((entry None Admin_prospect_campaign_daily_drip)\<lparr>ae_metadata := Some (JObj
                              [(''batchSize'', JInt (int (dr_batchSize r))), (''sent'', JInt (int (dr_sent r))),
                               (''skippedExisting'', JInt (int skE)), (''skippedUnsubscribed'', JInt (int skU))])\<rparr>) w2))))"

section \<open>Bounces, complaints, opting out\<close>

text \<open>An upsert with an empty update: the address is there afterwards, once.\<close>

definition suppress :: "string \<Rightarrow> world \<Rightarrow> world" where
  "suppress email w = (if email \<in> set (emailSuppressions w) then w
     else w\<lparr>emailSuppressions := emailSuppressions w @ [email]\<rparr>)"

definition suppressAndUpdateStatus :: "string \<Rightarrow> prospectStatus \<Rightarrow> world \<Rightarrow> world" where
  "suppressAndUpdateStatus rawEmail st w =
     (let email = toLowerCase (trim rawEmail); w1 = suppress email w
      in w1\<lparr>prospectInviteQueue := updateMany (\<lambda>r. pi_email r = email \<and> pi_status r = Pro_SENT)
             (\<lambda>r. r\<lparr>pi_status := st\<rparr>) (prospectInviteQueue w1)\<rparr>)"

definition markBounced :: "string \<Rightarrow> world \<Rightarrow> world" where
  "markBounced email w = suppressAndUpdateStatus email Pro_BOUNCED w"

definition markComplained :: "string \<Rightarrow> world \<Rightarrow> world" where
  "markComplained email w = suppressAndUpdateStatus email Pro_COMPLAINED w"

definition TOLERANCE_SECONDS :: int where "TOLERANCE_SECONDS = 5 * 60"

definition strip_whsec :: "string \<Rightarrow> string" where
  "strip_whsec s = (if take 6 s = ''whsec_'' then drop 6 s else s)"

record svixHeaders =
  sx_id :: "string option"
  sx_timestamp :: "string option"
  sx_signature :: "string option"

text \<open>
  \<open>number\<close> reads a decimal number of whole seconds (\<open>None\<close> when it is not finite);
  \<open>hmac key\<close> is the base64 HMAC-SHA256 under a key given in base64.
\<close>

definition verifyResendWebhookSignature ::
  "(string \<Rightarrow> int option) \<Rightarrow> (string \<Rightarrow> string \<Rightarrow> string) \<Rightarrow> req \<Rightarrow> string \<Rightarrow> svixHeaders \<Rightarrow> string \<Rightarrow> bool" where
  "verifyResendWebhookSignature number hmac q rawBody h secret =
     (if \<not> truthy (sx_id h) \<or> \<not> truthy (sx_timestamp h) \<or> \<not> truthy (sx_signature h) then False
      else (case number (the (sx_timestamp h)) of
              None \<Rightarrow> False
            | Some ts \<Rightarrow>
                if \<bar>q_now q - ts * 1000\<bar> > TOLERANCE_SECONDS * 1000 then False
                else (let expected = hmac (strip_whsec secret)
                            (the (sx_id h) @ ''.'' @ the (sx_timestamp h) @ ''.'' @ rawBody)
                      in \<exists>e \<in> set (js_split (CHR '' '') (the (sx_signature h))).
                           (case js_split (CHR '','') e of
                              v # sig # rest \<Rightarrow> sig \<noteq> [] \<and> sig = expected
                            | _ \<Rightarrow> False))))"

record resendEvent =
  rw_type :: string
  rw_recipient :: "string option"

definition handleResendWebhook ::
  "(string \<Rightarrow> int option) \<Rightarrow> (string \<Rightarrow> string \<Rightarrow> string) \<Rightarrow> (string \<Rightarrow> resendEvent option) \<Rightarrow> string option
    \<Rightarrow> req \<Rightarrow> string \<Rightarrow> svixHeaders \<Rightarrow> world \<Rightarrow> unit result \<times> world" where
  "handleResendWebhook number hmac parseJson webhookSecret q rawBody h w =
     (if \<not> truthy webhookSecret then (Inl (ServiceUnavailable Webhook_not_configured), w)
      else if \<not> verifyResendWebhookSignature number hmac q rawBody h (the webhookSecret)
      then (Inl (BadRequest Signature_verification_failed), w)
      else (case parseJson rawBody of
              None \<Rightarrow> (Inl (BadRequest Invalid_json_payload), w)
            | Some event \<Rightarrow>
                if truthy (rw_recipient event) \<and> rw_type event = ''email.bounced''
                then (Inr (), markBounced (the (rw_recipient event)) w)
                else if truthy (rw_recipient event) \<and> rw_type event = ''email.complained''
                then (Inr (), markComplained (the (rw_recipient event)) w)
                else (Inr (), w)))"

definition signUnsubscribeToken :: "(string \<Rightarrow> string \<Rightarrow> string) \<Rightarrow> string \<Rightarrow> string \<Rightarrow> string" where
  "signUnsubscribeToken hmac email secret = hmac secret (toLowerCase (trim email))"

definition verifyUnsubscribeToken :: "(string \<Rightarrow> string \<Rightarrow> string) \<Rightarrow> string \<Rightarrow> string \<Rightarrow> string \<Rightarrow> bool" where
  "verifyUnsubscribeToken hmac email token secret =
     (let expected = signUnsubscribeToken hmac email secret
      in length expected = length token \<and> expected = token)"

definition unsubscribe ::
  "(string \<Rightarrow> string \<Rightarrow> string) \<Rightarrow> string \<Rightarrow> string \<Rightarrow> string \<Rightarrow> world \<Rightarrow> string result \<times> world" where
  "unsubscribe hmac secret rawEmail token w =
     (let email = toLowerCase (trim rawEmail)
      in if \<not> verifyUnsubscribeToken hmac email token secret
         then (Inl (BadRequest Invalid_unsubscribe_link), w)
         else (Inr (email @ '' has been unsubscribed.''), suppress email w))"

end
