(* ===== verification/Invites.thy ===== *)
theory Invites
  imports Users
begin

text \<open>
  Two small public services: \<open>invites.service.ts\<close> (a user invites a colleague to open an account
  of their own) and \<open>contact.service.ts\<close> (the contact form).
\<close>

section \<open>Invitations\<close>

definition createInvite :: "req \<Rightarrow> ident \<Rightarrow> string \<Rightarrow> world \<Rightarrow> string result \<times> world" where
  "createInvite q inviterId rawEmail w =
     (let email = normalizeEmail rawEmail
      in case findById inviterId w of
           None \<Rightarrow> (Inl (NotFound Inviter_not_found), w)
         | Some inviter \<Rightarrow>
             if email = u_email inviter then (Inl (BadRequest Cannot_invite_yourself), w)
             else if findByEmail email w \<noteq> None then (Inl (BadRequest Person_already_has_account), w)
             else (let w1 = (if findFirst (\<lambda>i. iv_inviterId i = inviterId \<and> iv_email i = email) (invites w) = None
                             then w\<lparr>invites := invites w @ [\<lparr>iv_id = q_newId q, iv_inviterId = inviterId,
                                    iv_email = email, iv_status = Invite_PENDING, iv_createdAt = q_now q,
                                    iv_acceptedAt = None\<rparr>]\<rparr>
                             else w)
                   in (Inr ''Invitation sent.'', enqueue q (InviteEmail email (u_fullName inviter)) w1)))"

record inviteView =
  vi_id :: ident
  vi_email :: string
  vi_status :: inviteStatus
  vi_createdAt :: time
  vi_acceptedAt :: "time option"

definition listInvites :: "ident \<Rightarrow> world \<Rightarrow> inviteView list" where
  "listInvites inviterId w =
     map (\<lambda>i. \<lparr>vi_id = iv_id i, vi_email = iv_email i, vi_status = iv_status i,
               vi_createdAt = iv_createdAt i, vi_acceptedAt = iv_acceptedAt i\<rparr>)
       (orderDesc iv_createdAt (findMany (\<lambda>i. iv_inviterId i = inviterId) (invites w)))"

section \<open>Contact form\<close>

record contactDto =
  ct_name :: string
  ct_email :: string
  ct_reason :: contactReason
  ct_message :: string

definition submit :: "req \<Rightarrow> contactDto \<Rightarrow> world \<Rightarrow> string \<times> world" where
  "submit q dto w =
     (''Thanks '' @ em_dash @ '' we'll get back to you soon.'',
      enqueue q (ContactFormEmail (ct_name dto) (ct_email dto) (ct_reason dto) (ct_message dto))
        (w\<lparr>contactMessages := contactMessages w @ [\<lparr>cm_id = q_newId q, cm_name = ct_name dto,
             cm_email = ct_email dto, cm_reason = ct_reason dto, cm_message = ct_message dto,
             cm_resolved = False, cm_createdAt = q_now q\<rparr>]\<rparr>))"

section \<open>One invitation per colleague\<close>

text \<open>An inviter has at most one row for an address.\<close>

definition invites_ok :: "world \<Rightarrow> bool" where
  "invites_ok w \<longleftrightarrow> unique_on (\<lambda>i. (iv_inviterId i, iv_email i)) (invites w)"

lemma invites_ok_createInvite: "invites_ok w \<Longrightarrow> invites_ok (snd (createInvite q i e w))"
  by (auto simp: createInvite_def invites_ok_def Let_def unique_on_snoc findFirst_None_iff
      split: option.splits)

text \<open>And an invitation changes nothing but the invitations and the mail queue.\<close>

lemma createInvite_frame:
  "users (snd (createInvite q i e w)) = users w"
  "sessions (snd (createInvite q i e w)) = sessions w"
  "auditLogs (snd (createInvite q i e w)) = auditLogs w"
  "adminAccessInvites (snd (createInvite q i e w)) = adminAccessInvites w"
  by (auto simp: createInvite_def Let_def split: option.splits)

end
