(* ===== verification/Admin.thy ===== *)
theory Admin
  imports Campaign Invites
begin

text \<open>
  The operations of \<open>admin.service.ts\<close> that change state: accounts (suspend, reactivate, reset,
  delete, force logout, impersonate, invite, grants), prospects, leads and contact messages. Its
  read-only lists and reports are in \<open>AdminReports\<close>. The routes are behind \<open>RolesGuard\<close> for
  \<open>ADMIN\<close> and \<open>SUPER_ADMIN\<close> (\<open>Access\<close>). \<open>inviteProspect\<close> takes what becomes of its one batch of
  bulk mail, as in \<open>Campaign\<close>.
\<close>

section \<open>Accounts\<close>

fun status_name :: "accountStatus \<Rightarrow> string" where
  "status_name ACTIVE = ''ACTIVE''"
| "status_name SUSPENDED = ''SUSPENDED''"
| "status_name DELETED = ''DELETED''"

definition wrong_status :: "string \<Rightarrow> accountStatus \<Rightarrow> http_error" where
  "wrong_status verb st = BadRequest (''Cannot '' @ verb @ '' an account with status '' @ status_name st)"

text \<open>An audit entry about one row.\<close>

definition about :: "ident \<Rightarrow> string \<Rightarrow> string \<Rightarrow> ident \<Rightarrow> auditEntry" where
  "about adminUserId action targetType targetId =
     (entry (Some adminUserId) action)\<lparr>ae_targetType := Some targetType, ae_targetId := Some targetId\<rparr>"

definition suspendUser ::
  "cfg \<Rightarrow> req \<Rightarrow> ident \<Rightarrow> ident \<Rightarrow> string option \<Rightarrow> world \<Rightarrow> string result \<times> world" where
  "suspendUser c q adminUserId targetUserId reason w =
     (if adminUserId = targetUserId then (Inl (Forbidden Cannot_suspend_self), w)
      else (case findById targetUserId w of
              None \<Rightarrow> (Inl (NotFound User_not_found), w)
            | Some target \<Rightarrow>
                if u_status target \<noteq> ACTIVE then (Inl (wrong_status ''suspend'' (u_status target)), w)
                else (let w1 = update_user targetUserId (\<lambda>u. u\<lparr>u_status := SUSPENDED\<rparr>) w;
                          w2 = revokeUser c q targetUserId (revokeAllForUser q targetUserId w1)
                      in (Inr ''User suspended'',
                          audit_record q ((about adminUserId Admin_user_suspended ''User'' targetUserId)
                            \<lparr>ae_metadata := (if truthy reason then Some (JObj [(''reason'', JStr (the reason))]) else None)\<rparr>) w2))))"

definition reactivateUser :: "req \<Rightarrow> ident \<Rightarrow> ident \<Rightarrow> world \<Rightarrow> string result \<times> world" where
  "reactivateUser q adminUserId targetUserId w =
     (case findById targetUserId w of
        None \<Rightarrow> (Inl (NotFound User_not_found), w)
      | Some target \<Rightarrow>
          if u_status target \<noteq> SUSPENDED then (Inl (wrong_status ''reactivate'' (u_status target)), w)
          else (Inr ''User reactivated'',
                audit_record q (about adminUserId Admin_user_reactivated ''User'' targetUserId)
                  (update_user targetUserId (\<lambda>u. u\<lparr>u_status := ACTIVE\<rparr>) w)))"

definition sendPasswordReset :: "cfg \<Rightarrow> req \<Rightarrow> ident \<Rightarrow> ident \<Rightarrow> world \<Rightarrow> string result \<times> world" where
  "sendPasswordReset c q adminUserId targetUserId w =
     (case findById targetUserId w of
        None \<Rightarrow> (Inl (NotFound User_not_found), w)
      | Some target \<Rightarrow>
          (case forgotPassword c q (u_email target) w of
             (Inl e, w1) \<Rightarrow> (Inl e, w1)
           | (Inr _, w1) \<Rightarrow>
               (Inr (''Password reset link sent to '' @ u_email target @ ''.''),
                audit_record q (about adminUserId Admin_password_reset_sent ''User'' targetUserId) w1)))"

text \<open>The unique column \<open>email\<close> refuses the freed address when another row already has it.\<close>

definition deleteUser :: "cfg \<Rightarrow> req \<Rightarrow> ident \<Rightarrow> ident \<Rightarrow> world \<Rightarrow> string result \<times> world" where
  "deleteUser c q adminUserId targetUserId w =
     (if adminUserId = targetUserId then (Inl (Forbidden Cannot_delete_self), w)
      else (case findById targetUserId w of
              None \<Rightarrow> (Inl (NotFound User_not_found), w)
            | Some target \<Rightarrow>
                if u_status target = DELETED then (Inl (BadRequest Already_deleted), w)
                else if \<exists>x \<in> set (users w). u_email x = deleted_email targetUserId \<and> u_id x \<noteq> targetUserId
                then (Inl (Internal P2002), w)
                else (let w1 = update_user targetUserId (\<lambda>u. u\<lparr>u_status := DELETED, u_deletedAt := Some (q_now q),
                              u_email := deleted_email targetUserId\<rparr>) w;
                          w2 = revokeUser c q targetUserId (revokeAllForUser q targetUserId w1)
                      in (Inr ''User account deleted'',
                          audit_record q (about adminUserId Admin_user_deleted ''User'' targetUserId) w2))))"

definition forceLogout :: "cfg \<Rightarrow> req \<Rightarrow> ident \<Rightarrow> ident \<Rightarrow> world \<Rightarrow> string result \<times> world" where
  "forceLogout c q adminUserId targetUserId w =
     (case findById targetUserId w of
        None \<Rightarrow> (Inl (NotFound User_not_found), w)
      | Some _ \<Rightarrow>
          (Inr ''All sessions revoked for this user'',
           audit_record q (about adminUserId Admin_user_force_logout ''User'' targetUserId)
             (revokeUser c q targetUserId (revokeAllForUser q targetUserId w))))"

definition impersonateUser ::
  "cfg \<Rightarrow> req \<Rightarrow> ident \<Rightarrow> ident \<Rightarrow> world \<Rightarrow> (string \<times> string) result \<times> world" where
  "impersonateUser c q adminUserId targetUserId w =
     (if adminUserId = targetUserId then (Inl (Forbidden Cannot_impersonate_self), w)
      else (case findById targetUserId w of
              None \<Rightarrow> (Inl (NotFound User_not_found), w)
            | Some target \<Rightarrow>
                if u_role target = ADMIN \<or> u_role target = SUPER_ADMIN
                then (Inl (Forbidden Cannot_impersonate_admin), w)
                else if u_status target \<noteq> ACTIVE then (Inl (wrong_status ''impersonate'' (u_status target)), w)
                else (Inr (signImpersonationToken c q (u_id target) (u_email target) (u_role target) adminUserId,
                           u_email target),
                      audit_record q (about adminUserId Admin_user_impersonated ''User'' targetUserId) w)))"

record inviteUserDto =
  iu_email :: string
  iu_role :: "role option"
  iu_grantDirectoryAccess :: "bool option"
  iu_grantLeadFinderAccess :: "bool option"

fun role_name :: "role \<Rightarrow> string" where
  "role_name USER = ''USER''"
| "role_name PREMIUM = ''PREMIUM''"
| "role_name ADMIN = ''ADMIN''"
| "role_name SUPER_ADMIN = ''SUPER_ADMIN''"

definition write_access_invite :: "req \<Rightarrow> ident \<Rightarrow> string \<Rightarrow> inviteUserDto \<Rightarrow> world \<Rightarrow> world" where
  "write_access_invite q adminUserId email dto w =
     (let fill = (\<lambda>i. i\<lparr>ai_invitedByUserId := adminUserId, ai_role := nullish (iu_role dto) USER,
                 ai_grantDirectoryAccess := nullish (iu_grantDirectoryAccess dto) True,
                 ai_grantLeadFinderAccess := nullish (iu_grantLeadFinderAccess dto) False\<rparr>)
      in case findFirst (\<lambda>i. ai_email i = email \<and> ai_status i = Invite_PENDING) (adminAccessInvites w) of
           Some pending \<Rightarrow> w\<lparr>adminAccessInvites := updateMany (\<lambda>i. ai_id i = ai_id pending) fill (adminAccessInvites w)\<rparr>
         | None \<Rightarrow> w\<lparr>adminAccessInvites := adminAccessInvites w @
             [fill \<lparr>ai_id = q_newId q, ai_invitedByUserId = adminUserId, ai_email = email, ai_role = USER,
                    ai_grantDirectoryAccess = True, ai_grantLeadFinderAccess = False,
                    ai_status = Invite_PENDING, ai_acceptedAt = None\<rparr>]\<rparr>)"

definition inviteUser :: "req \<Rightarrow> ident \<Rightarrow> inviteUserDto \<Rightarrow> world \<Rightarrow> string result \<times> world" where
  "inviteUser q adminUserId dto w =
     (let email = toLowerCase (trim (iu_email dto));
          directory = nullish (iu_grantDirectoryAccess dto) True;
          leadFinder = nullish (iu_grantLeadFinderAccess dto) False
      in if findFirst (\<lambda>u. u_email u = email) (users w) \<noteq> None
         then (Inl (BadRequest Email_has_account_grant_instead), w)
         else (Inr (''Invite sent to '' @ email @ ''.''),
               audit_record q ((entry (Some adminUserId) Admin_user_invited)\<lparr>ae_metadata := Some (JObj
                   [(''email'', JStr email), (''role'', JStr (role_name (nullish (iu_role dto) USER))),
                    (''grantDirectoryAccess'', JBool directory), (''grantLeadFinderAccess'', JBool leadFinder)])\<rparr>)
                 (enqueue q (AdminAccessInviteEmail email directory leadFinder)
                   (write_access_invite q adminUserId email dto w))))"

definition setDirectoryAccess :: "req \<Rightarrow> ident \<Rightarrow> ident \<Rightarrow> bool \<Rightarrow> world \<Rightarrow> string result \<times> world" where
  "setDirectoryAccess q adminUserId targetUserId grant w =
     (case findById targetUserId w of
        None \<Rightarrow> (Inl (NotFound User_not_found), w)
      | Some target \<Rightarrow>
          (Inr ((if grant then ''Directory access granted to '' else ''Directory access revoked for '')
                @ u_email target @ ''.''),
           audit_record q (about adminUserId
               (if grant then Admin_directory_access_granted else Admin_directory_access_revoked) ''User'' targetUserId)
             (update_user targetUserId (\<lambda>u. u\<lparr>u_adminGrantedDirectoryAccess := grant\<rparr>) w)))"

definition setLeadFinderAccess :: "req \<Rightarrow> ident \<Rightarrow> ident \<Rightarrow> bool \<Rightarrow> world \<Rightarrow> string result \<times> world" where
  "setLeadFinderAccess q adminUserId targetUserId grant w =
     (case findById targetUserId w of
        None \<Rightarrow> (Inl (NotFound User_not_found), w)
      | Some target \<Rightarrow>
          (Inr ((if grant then ''Unlimited Lead Finder access granted to '' else ''Unlimited Lead Finder access revoked for '')
                @ u_email target @ ''.''),
           audit_record q (about adminUserId
               (if grant then Admin_lead_finder_access_granted else Admin_lead_finder_access_revoked) ''User'' targetUserId)
             (update_user targetUserId (\<lambda>u. u\<lparr>u_adminGrantedLeadFinderAccess := grant\<rparr>) w)))"

section \<open>Prospects\<close>

datatype pitchTemplate = INTRO | VALUE | URGENCY

fun template_name :: "pitchTemplate \<Rightarrow> string" where
  "template_name INTRO = ''INTRO''"
| "template_name VALUE = ''VALUE''"
| "template_name URGENCY = ''URGENCY''"

definition pitchProspect :: "req \<Rightarrow> ident \<Rightarrow> ident \<Rightarrow> pitchTemplate \<Rightarrow> world \<Rightarrow> string result \<times> world" where
  "pitchProspect q adminUserId targetUserId template w =
     (case findById targetUserId w of
        None \<Rightarrow> (Inl (NotFound User_not_found), w)
      | Some target \<Rightarrow>
          (Inr (template_name template @ '' pitch sent to '' @ u_email target @ ''.''),
           audit_record q ((about adminUserId Admin_prospect_pitched ''User'' targetUserId)
               \<lparr>ae_metadata := Some (JObj [(''template'', JStr (template_name template))])\<rparr>)
             (enqueue q (ProspectPitchEmail (toLowerCase (template_name template)) (u_email target) (u_fullName target)) w)))"

definition inviteProspect ::
  "(nat \<Rightarrow> bool) \<Rightarrow> req \<Rightarrow> ident \<Rightarrow> string \<Rightarrow> world \<Rightarrow> string result \<times> world" where
  "inviteProspect up q adminUserId rawEmail w =
     (let email = toLowerCase (trim rawEmail)
      in if findFirst (\<lambda>u. u_email u = email) (users w) \<noteq> None
         then (Inl (BadRequest Email_has_account_pitch_instead), w)
         else if email \<in> set (emailSuppressions w) then (Inl (BadRequest Email_unsubscribed), w)
         else (Inr (''Invite sent to '' @ email @ ''.''),
               audit_record q ((entry (Some adminUserId) Admin_prospect_invited)
                   \<lparr>ae_metadata := Some (JObj [(''email'', JStr email)])\<rparr>)
                 (sendProspectInvite up email w)))"

section \<open>Leads\<close>

record leadDto =
  ld_name :: "string option"
  ld_companyType :: "companyType option"
  ld_likelyToAttend :: "string option"
  ld_title :: "string option"
  ld_company :: "string option"
  ld_website :: "string option"
  ld_linkedin :: "string option"
  ld_appLink :: "string option"
  ld_email :: "string option"
  ld_phone :: "string option"

text \<open>Writing the fields that are present; a new row keeps the defaults of the schema elsewhere.\<close>

definition write_lead :: "leadDto \<Rightarrow> lead \<Rightarrow> lead" where
  "write_lead d l = l\<lparr>le_name := nullish (ld_name d) (le_name l), le_title := or_else (ld_title d) (le_title l),
     le_company := or_else (ld_company d) (le_company l), le_website := or_else (ld_website d) (le_website l),
     le_linkedin := or_else (ld_linkedin d) (le_linkedin l), le_appLink := or_else (ld_appLink d) (le_appLink l),
     le_email := or_else (ld_email d) (le_email l), le_phone := or_else (ld_phone d) (le_phone l),
     le_companyType := or_else (ld_companyType d) (le_companyType l),
     le_likelyToAttend := nullish (ld_likelyToAttend d) (le_likelyToAttend l)\<rparr>"

definition blank_lead :: "req \<Rightarrow> lead" where
  "blank_lead q = \<lparr>le_id = q_newId q, le_name = [], le_title = None, le_company = None, le_website = None,
     le_linkedin = None, le_appLink = None, le_email = None, le_phone = None, le_companyType = None,
     le_likelyToAttend = [], le_approved = True, le_submittedByUserId = None, le_createdAt = q_now q\<rparr>"

definition find_lead :: "ident \<Rightarrow> world \<Rightarrow> lead option" where
  "find_lead i w = findFirst (\<lambda>l. le_id l = i) (leads w)"

definition update_lead :: "ident \<Rightarrow> (lead \<Rightarrow> lead) \<Rightarrow> world \<Rightarrow> world" where
  "update_lead i f w = w\<lparr>leads := updateMany (\<lambda>l. le_id l = i) f (leads w)\<rparr>"

definition createLead :: "req \<Rightarrow> ident \<Rightarrow> leadDto \<Rightarrow> world \<Rightarrow> lead \<times> world" where
  "createLead q adminUserId dto w =
     (let l = write_lead dto (blank_lead q)
      in (l, audit_record q (about adminUserId Admin_lead_created ''Lead'' (le_id l))
               (w\<lparr>leads := leads w @ [l]\<rparr>)))"

definition approveLead :: "req \<Rightarrow> ident \<Rightarrow> ident \<Rightarrow> world \<Rightarrow> lead result \<times> world" where
  "approveLead q adminUserId leadId w =
     (case find_lead leadId w of
        None \<Rightarrow> (Inl (NotFound Lead_not_found), w)
      | Some l \<Rightarrow>
          if le_approved l then (Inl (BadRequest Lead_already_approved), w)
          else (Inr (l\<lparr>le_approved := True\<rparr>),
                audit_record q (about adminUserId Admin_lead_approved ''Lead'' leadId)
                  (update_lead leadId (\<lambda>l. l\<lparr>le_approved := True\<rparr>) w)))"

definition updateLead :: "req \<Rightarrow> ident \<Rightarrow> ident \<Rightarrow> leadDto \<Rightarrow> world \<Rightarrow> lead result \<times> world" where
  "updateLead q adminUserId leadId dto w =
     (case find_lead leadId w of
        None \<Rightarrow> (Inl (NotFound Lead_not_found), w)
      | Some l \<Rightarrow>
          (Inr (write_lead dto l),
           audit_record q (about adminUserId Admin_lead_updated ''Lead'' leadId)
             (update_lead leadId (write_lead dto) w)))"

definition deleteLead :: "req \<Rightarrow> ident \<Rightarrow> ident \<Rightarrow> world \<Rightarrow> unit result \<times> world" where
  "deleteLead q adminUserId leadId w =
     (case find_lead leadId w of
        None \<Rightarrow> (Inl (NotFound Lead_not_found), w)
      | Some l \<Rightarrow>
          (Inr (), audit_record q (about adminUserId Admin_lead_deleted ''Lead'' leadId)
             (w\<lparr>leads := deleteMany (\<lambda>l. le_id l = leadId) (leads w)\<rparr>)))"

section \<open>Contact messages\<close>

definition find_message :: "ident \<Rightarrow> world \<Rightarrow> contactMessage option" where
  "find_message i w = findFirst (\<lambda>m. cm_id m = i) (contactMessages w)"

definition resolveContactMessage :: "req \<Rightarrow> ident \<Rightarrow> ident \<Rightarrow> world \<Rightarrow> string result \<times> world" where
  "resolveContactMessage q adminUserId i w =
     (case find_message i w of
        None \<Rightarrow> (Inl (NotFound Contact_message_not_found), w)
      | Some m \<Rightarrow>
          if cm_resolved m then (Inl (BadRequest Message_already_resolved), w)
          else (Inr ''Marked as resolved'',
                audit_record q (about adminUserId Admin_contact_message_resolved ''ContactMessage'' i)
                  (w\<lparr>contactMessages := updateMany (\<lambda>m. cm_id m = i) (\<lambda>m. m\<lparr>cm_resolved := True\<rparr>) (contactMessages w)\<rparr>)))"

definition deleteContactMessage :: "req \<Rightarrow> ident \<Rightarrow> ident \<Rightarrow> world \<Rightarrow> string result \<times> world" where
  "deleteContactMessage q adminUserId i w =
     (case find_message i w of
        None \<Rightarrow> (Inl (NotFound Contact_message_not_found), w)
      | Some _ \<Rightarrow>
          (Inr ''Message deleted'',
           audit_record q (about adminUserId Admin_contact_message_deleted ''ContactMessage'' i)
             (w\<lparr>contactMessages := deleteMany (\<lambda>m. cm_id m = i) (contactMessages w)\<rparr>)))"

definition replyToContactMessage :: "req \<Rightarrow> ident \<Rightarrow> ident \<Rightarrow> string \<Rightarrow> world \<Rightarrow> string result \<times> world" where
  "replyToContactMessage q adminUserId i reply w =
     (case find_message i w of
        None \<Rightarrow> (Inl (NotFound Contact_message_not_found), w)
      | Some m \<Rightarrow>
          (Inr (''Reply sent to '' @ cm_email m @ ''.''),
           audit_record q (about adminUserId Admin_contact_message_replied ''ContactMessage'' i)
             (enqueue q (ContactReplyEmail (cm_email m) (cm_name m) (cm_message m) reply) w)))"

end
