(* ===== verification/CampaignProperties.thy ===== *)
theory CampaignProperties
  imports Admin Samples
begin

text \<open>
  What the campaign guarantees: the drip stays within its cap and drains the queue, nobody is
  mailed twice or after opting out, uploads are idempotent, the statistics add up, and what is
  lost when the bulk queue does not answer.
\<close>

section \<open>The bulk queue\<close>

lemma enqueueBulk_frame [simp]:
  "users (enqueueBulk up jobs w) = users w"
  "emailSuppressions (enqueueBulk up jobs w) = emailSuppressions w"
  "prospectInviteQueue (enqueueBulk up jobs w) = prospectInviteQueue w"
  "campaign (enqueueBulk up jobs w) = campaign w"
  "emailQueue (enqueueBulk up jobs w) = emailQueue w"
  "auditLogs (enqueueBulk up jobs w) = auditLogs w"
  by (simp_all add: enqueueBulk_def)

lemma filter_snd_enumerate:
  "length (filter P (concat (map snd (filter (\<lambda>(k, ch). up k) (enumerate n chs)))))
     \<le> length (filter P (concat chs))"
  by (induction chs arbitrary: n) (auto simp: trans_le_add2)

text \<open>What a bulk send puts on the queue: at most what it was given, address by address.\<close>

definition accepted :: "(nat \<Rightarrow> bool) \<Rightarrow> string list \<Rightarrow> string list" where
  "accepted up jobs = concat (map snd (filter (\<lambda>(k, chunk). up k) (enumerate 0 (chunks BULK_CHUNK_SIZE jobs))))"

lemma enqueueBulk_accepted: "bulkEmailQueue (enqueueBulk up jobs w) = bulkEmailQueue w @ accepted up jobs"
  by (simp add: enqueueBulk_def accepted_def)

lemma accepted_le: "length (filter P (accepted up jobs)) \<le> length (filter P jobs)"
  using filter_snd_enumerate [of P up 0 "chunks BULK_CHUNK_SIZE jobs"]
  by (simp add: concat_chunks BULK_CHUNK_SIZE_def accepted_def)

lemma set_accepted: "set (accepted up jobs) \<subseteq> set jobs"
  using accepted_le [of "\<lambda>x. x \<notin> set jobs" up jobs] by (auto simp: filter_empty_conv)

lemma length_accepted: "length (accepted up jobs) \<le> length jobs"
  using accepted_le [of "\<lambda>_. True" up jobs] by simp

lemma count_accepted: "count_list (accepted up jobs) e \<le> count_list jobs e"
  using accepted_le [of "(=) e" up jobs] by (simp add: count_list_eq_length_filter)

lemma accepted_all: "(\<And>k. up k) \<Longrightarrow> accepted up jobs = jobs"
  by (simp add: accepted_def case_prod_beta concat_chunks BULK_CHUNK_SIZE_def)

lemma accepted_none: "(\<And>k. \<not> up k) \<Longrightarrow> accepted up jobs = []"
  by (simp add: accepted_def case_prod_beta)

section \<open>One drip\<close>

lemma getOrCreate_eq:
  "getOrCreateSettings w = (nullish (campaign w) default_settings, w\<lparr>campaign := Some (nullish (campaign w) default_settings)\<rparr>)"
  by (simp add: getOrCreateSettings_def upsert_settings_def Let_def)

lemma sort_batch_lists:
  "fst (sort_batch ex su rs toSend skE skU w) =
    (toSend @ map pi_email (filter (\<lambda>r. pi_email r \<notin> ex \<and> pi_email r \<notin> su) rs),
     skE + countRows (\<lambda>r. pi_email r \<in> ex) rs,
     skU + countRows (\<lambda>r. pi_email r \<notin> ex \<and> pi_email r \<in> su) rs)"
  by (induction rs arbitrary: toSend skE skU w) auto

lemma sort_batch_frame:
  assumes "\<And>i st w. f (set_prospect i st w) = f w"
  shows "f (snd (sort_batch ex su rs toSend skE skU w)) = f w"
  using assms by (induction rs arbitrary: toSend skE skU w) auto

text \<open>The rows after a batch has been sorted: the addresses stay, a status may become a skip.\<close>

definition skip_status :: "string set \<Rightarrow> prospectInvite \<Rightarrow> prospectStatus" where
  "skip_status ex r = (if pi_email r \<in> ex then Pro_SKIPPED_EXISTING_USER else Pro_SKIPPED_UNSUBSCRIBED)"

lemma sort_batch_stamp:
  "prospectInviteQueue (snd (sort_batch ex su rs toSend skE skU w)) =
    stamp_all pi_id (\<lambda>r x. x\<lparr>pi_status := skip_status ex r\<rparr>) (filter (\<lambda>r. pi_email r \<in> ex \<union> su) rs)
      (prospectInviteQueue w)"
  by (induction rs arbitrary: toSend skE skU w) (auto simp: set_prospect_def skip_status_def)

lemma sort_batch_rows:
  assumes "unique_on pi_id (prospectInviteQueue w)" "set rs \<subseteq> set (prospectInviteQueue w)" "distinct rs"
  shows "prospectInviteQueue (snd (sort_batch ex su rs toSend skE skU w)) =
    map (\<lambda>r. if r \<in> set rs \<and> pi_email r \<in> ex \<union> su then r\<lparr>pi_status := skip_status ex r\<rparr> else r)
      (prospectInviteQueue w)"
  unfolding sort_batch_stamp using assms by (subst stamp_all_batch) auto

text \<open>Whatever the ids: no address changes.\<close>

lemma stamp_all_image:
  assumes "\<And>r x. f (g r x) = f x"
  shows "map f (stamp_all key g rs rows) = map f rows"
  using assms by (induction rs arbitrary: rows) (auto simp: updateMany_def)

text \<open>The pieces of a run that is not paused and finds rows.\<close>

definition drip_cap :: "world \<Rightarrow> nat" where
  "drip_cap w = cs_dailyCap (nullish (campaign w) default_settings)"

definition drip_paused :: "world \<Rightarrow> bool" where
  "drip_paused w = cs_paused (nullish (campaign w) default_settings)"

definition has_account :: "world \<Rightarrow> string \<Rightarrow> bool" where
  "has_account w e \<longleftrightarrow> e \<in> u_email ` set (users w)"

definition opted_out :: "world \<Rightarrow> string \<Rightarrow> bool" where
  "opted_out w e \<longleftrightarrow> e \<in> set (emailSuppressions w)"

definition drip_batch :: "world \<Rightarrow> prospectInvite list" where
  "drip_batch w = (if drip_paused w then [] else pending_batch (drip_cap w) w)"

definition drip_sends :: "world \<Rightarrow> string list" where
  "drip_sends w = map pi_email (filter (\<lambda>r. \<not> has_account w (pi_email r) \<and> \<not> opted_out w (pi_email r)) (drip_batch w))"

lemma pending_batch_campaign [simp]: "pending_batch n (w\<lparr>campaign := x\<rparr>) = pending_batch n w"
  by (simp add: pending_batch_def)

lemma runDailyDrip_idle:
  "drip_batch w = [] \<Longrightarrow> runDailyDrip up q w = (no_drip, w\<lparr>campaign := Some (nullish (campaign w) default_settings)\<rparr>)"
  by (simp add: runDailyDrip_def getOrCreate_eq drip_batch_def drip_paused_def drip_cap_def Let_def split: if_splits)

lemma sort_batch_cong:
  assumes "\<forall>r \<in> set rs. pi_email r \<in> ex \<longleftrightarrow> pi_email r \<in> ex'" and "\<forall>r \<in> set rs. pi_email r \<in> su \<longleftrightarrow> pi_email r \<in> su'"
  shows "sort_batch ex su rs toSend skE skU w = sort_batch ex' su' rs toSend skE skU w"
  using assms by (induction rs arbitrary: toSend skE skU w) auto

definition drip_sorted :: "world \<Rightarrow> world" where
  "drip_sorted w = snd (sort_batch (u_email ` set (users w)) (set (emailSuppressions w)) (drip_batch w) [] 0 0
     (w\<lparr>campaign := Some (nullish (campaign w) default_settings)\<rparr>))"

lemma drip_sorted_frame:
  "bulkEmailQueue (drip_sorted w) = bulkEmailQueue w"
  "users (drip_sorted w) = users w"
  "emailSuppressions (drip_sorted w) = emailSuppressions w"
  "auditLogs (drip_sorted w) = auditLogs w"
  "campaign (drip_sorted w) = Some (nullish (campaign w) default_settings)"
  using sort_batch_frame [where f = bulkEmailQueue] sort_batch_frame [where f = users]
    sort_batch_frame [where f = emailSuppressions] sort_batch_frame [where f = auditLogs]
    sort_batch_frame [where f = campaign]
  by (simp_all add: drip_sorted_def set_prospect_def)

text \<open>A run in closed form.\<close>

lemma runDailyDrip_batch:
  assumes "drip_batch w \<noteq> []"
  shows "fst (runDailyDrip up q w) =
      \<lparr>dr_sent = length (drip_sends w), dr_skippedExisting = countRows (\<lambda>r. has_account w (pi_email r)) (drip_batch w),
       dr_skippedUnsubscribed = countRows (\<lambda>r. \<not> has_account w (pi_email r) \<and> opted_out w (pi_email r)) (drip_batch w),
       dr_batchSize = length (drip_batch w)\<rparr>"
    and "bulkEmailQueue (snd (runDailyDrip up q w)) = bulkEmailQueue w @ accepted up (drip_sends w)"
    and "prospectInviteQueue (snd (runDailyDrip up q w)) =
      prospectInviteQueue (mark_sent q (drip_sends w) (drip_sorted w))"
    and "users (snd (runDailyDrip up q w)) = users w"
    and "emailSuppressions (snd (runDailyDrip up q w)) = emailSuppressions w"
    and "campaign (snd (runDailyDrip up q w)) = Some (nullish (campaign w) default_settings)"
proof -
  let ?s = "nullish (campaign w) default_settings" let ?w = "w\<lparr>campaign := Some ?s\<rparr>" let ?b = "drip_batch w"
  have b: "\<not> cs_paused ?s" "pending_batch (cs_dailyCap ?s) w = ?b"
    using assms by (auto simp: drip_batch_def drip_paused_def drip_cap_def split: if_splits)
  let ?sort = "sort_batch (u_email ` set (users w)) (set (emailSuppressions w)) ?b [] 0 0 ?w"
  have lists: "fst ?sort = (drip_sends w, countRows (\<lambda>r. has_account w (pi_email r)) ?b,
      countRows (\<lambda>r. \<not> has_account w (pi_email r) \<and> opted_out w (pi_email r)) ?b)"
    by (simp add: sort_batch_lists drip_sends_def has_account_def opted_out_def)
  have world: "snd ?sort = drip_sorted w" by (simp add: drip_sorted_def)
  have cong: "sort_batch (set (filter (\<lambda>e. e \<in> set (map pi_email ?b)) (map u_email (users w))))
      (set (filter (\<lambda>e. e \<in> set (map pi_email ?b)) (emailSuppressions w))) ?b [] 0 0 ?w = ?sort"
    by (rule sort_batch_cong) auto
  have sort: "?sort = ((drip_sends w, countRows (\<lambda>r. has_account w (pi_email r)) ?b,
      countRows (\<lambda>r. \<not> has_account w (pi_email r) \<and> opted_out w (pi_email r)) ?b), drip_sorted w)"
    using lists world by (metis prod.collapse)
  have none: "mark_sent q [] x = x" for x by (simp add: mark_sent_def updateMany_def)
  define logged where "logged = (\<lambda>x. audit_record q ((entry None Admin_prospect_campaign_daily_drip)\<lparr>ae_metadata := Some (JObj
      [(''batchSize'', JInt (int (length ?b))), (''sent'', JInt (int (length (drip_sends w)))),
       (''skippedExisting'', JInt (int (countRows (\<lambda>r. has_account w (pi_email r)) ?b))),
       (''skippedUnsubscribed'', JInt (int (countRows (\<lambda>r. \<not> has_account w (pi_email r) \<and> opted_out w (pi_email r)) ?b)))])\<rparr>) x)"
  have run: "runDailyDrip up q w =
      (\<lparr>dr_sent = length (drip_sends w), dr_skippedExisting = countRows (\<lambda>r. has_account w (pi_email r)) ?b,
        dr_skippedUnsubscribed = countRows (\<lambda>r. \<not> has_account w (pi_email r) \<and> opted_out w (pi_email r)) ?b,
        dr_batchSize = length ?b\<rparr>,
       logged (if drip_sends w = [] then drip_sorted w
               else mark_sent q (drip_sends w) (sendProspectInviteBulk up (drip_sends w) (drip_sorted w))))"
    using b assms cong sort
    by (simp add: runDailyDrip_def getOrCreate_eq Let_def logged_def)
  show "fst (runDailyDrip up q w) =
      \<lparr>dr_sent = length (drip_sends w), dr_skippedExisting = countRows (\<lambda>r. has_account w (pi_email r)) ?b,
       dr_skippedUnsubscribed = countRows (\<lambda>r. \<not> has_account w (pi_email r) \<and> opted_out w (pi_email r)) ?b,
       dr_batchSize = length ?b\<rparr>"
    unfolding run by simp
  show "bulkEmailQueue (snd (runDailyDrip up q w)) = bulkEmailQueue w @ accepted up (drip_sends w)"
    and "prospectInviteQueue (snd (runDailyDrip up q w)) = prospectInviteQueue (mark_sent q (drip_sends w) (drip_sorted w))"
    and "users (snd (runDailyDrip up q w)) = users w"
    and "emailSuppressions (snd (runDailyDrip up q w)) = emailSuppressions w"
    and "campaign (snd (runDailyDrip up q w)) = Some ?s"
    unfolding run using set_accepted [of up "[]"]
    by (auto simp: logged_def mark_sent_def sendProspectInviteBulk_def enqueueBulk_accepted drip_sorted_frame updateMany_def)
qed

section \<open>Draining the queue\<close>

text \<open>The unique columns of the prospect queue.\<close>

definition prospects_ok :: "world \<Rightarrow> bool" where
  "prospects_ok w \<longleftrightarrow> unique_on pi_id (prospectInviteQueue w) \<and> unique_on pi_email (prospectInviteQueue w)"

abbreviation pending_row :: "prospectInvite \<Rightarrow> bool" where
  "pending_row r \<equiv> pi_status r = Pro_PENDING"

lemma pending_batch_rows:
  "set (pending_batch n w) \<subseteq> {r \<in> set (prospectInviteQueue w). pending_row r}"
  "length (pending_batch n w) = min n (by_status w Pro_PENDING)"
  by (auto simp: pending_batch_def orderAsc_def findMany_def by_status_def countRows_def dest: in_set_takeD)

lemma distinct_pending_batch: "prospects_ok w \<Longrightarrow> distinct (pending_batch n w)"
  by (auto simp: pending_batch_def orderAsc_def findMany_def prospects_ok_def unique_on_def distinct_map
      intro!: distinct_take)

lemma drip_batch_rows:
  "set (drip_batch w) \<subseteq> {r \<in> set (prospectInviteQueue w). pending_row r}"
  "length (drip_batch w) = (if drip_paused w then 0 else min (drip_cap w) (by_status w Pro_PENDING))"
  "prospects_ok w \<Longrightarrow> distinct (drip_batch w)"
  using pending_batch_rows distinct_pending_batch by (auto simp: drip_batch_def)

lemma count_outside:
  assumes "distinct rows" "distinct b" "set b \<subseteq> {r \<in> set rows. p r}"
  shows "countRows (\<lambda>r. p r \<and> r \<notin> set b) rows = countRows p rows - length b"
proof -
  have "length b = card (set b)" using assms(2) by (simp add: distinct_card)
  moreover have "countRows p rows = card {r \<in> set rows. p r}"
    using assms(1) by (simp add: countRows_def distinct_card [symmetric] Collect_conj_eq inf_commute)
  moreover have "countRows (\<lambda>r. p r \<and> r \<notin> set b) rows = card ({r \<in> set rows. p r} - set b)"
    using assms(1) by (simp add: countRows_def distinct_card [symmetric] set_diff_eq Collect_conj_eq inf_commute conj_ac)
  ultimately show ?thesis using assms(3) by (simp add: card_Diff_subset)
qed

lemma drip_sends_iff:
  "e \<in> set (drip_sends w) \<longleftrightarrow> (\<exists>r \<in> set (drip_batch w). pi_email r = e) \<and> \<not> has_account w e \<and> \<not> opted_out w e"
  by (auto simp: drip_sends_def)

lemma drip_pending:
  assumes ok: "prospects_ok w" and b: "drip_batch w \<noteq> []"
  shows "by_status (snd (runDailyDrip up q w)) Pro_PENDING = by_status w Pro_PENDING - length (drip_batch w)"
proof -
  let ?rows = "prospectInviteQueue w" let ?b = "drip_batch w"
  have uid: "unique_on pi_id ?rows" and uem: "unique_on pi_email ?rows" using ok by (auto simp: prospects_ok_def)
  have sub: "set ?b \<subseteq> set ?rows" using drip_batch_rows(1) by blast
  define skip where "skip = (\<lambda>r. if r \<in> set ?b \<and> (has_account w (pi_email r) \<or> opted_out w (pi_email r))
    then r\<lparr>pi_status := skip_status (u_email ` set (users w)) r\<rparr> else r)"
  define sent :: "prospectInvite \<Rightarrow> prospectInvite" where "sent = (\<lambda>r. if pi_email r \<in> set (drip_sends w)
    then r\<lparr>pi_status := Pro_SENT, pi_sentAt := Some (q_now q)\<rparr> else r)"
  have sorted: "prospectInviteQueue (drip_sorted w) = map skip ?rows"
    unfolding drip_sorted_def skip_def
    using sort_batch_rows [of "w\<lparr>campaign := Some (nullish (campaign w) default_settings)\<rparr>" ?b
        "u_email ` set (users w)" "set (emailSuppressions w)"] uid sub drip_batch_rows(3) [OF ok]
    by (simp add: has_account_def opted_out_def)
  have rows: "prospectInviteQueue (snd (runDailyDrip up q w)) = map (\<lambda>r. sent (skip r)) ?rows"
    unfolding runDailyDrip_batch(3) [OF b] by (simp add: mark_sent_def updateMany_def sorted sent_def comp_def)
  have "pending_row (sent (skip r)) \<longleftrightarrow> pending_row r \<and> r \<notin> set ?b" if r: "r \<in> set ?rows" for r
  proof -
    have "x = r" if "x \<in> set ?b" "pi_email x = pi_email r" for x
      using unique_onD [OF uem _ r] that sub by blast
    then have out: "pi_email r \<notin> set (drip_sends w)" if "r \<notin> set ?b" using that by (auto simp: drip_sends_iff)
    have "pi_email (skip r) = pi_email r" by (simp add: skip_def)
    then show ?thesis
      using out drip_sends_iff [of "pi_email r" w]
      by (auto simp: sent_def skip_def skip_status_def)
  qed
  then have "by_status (snd (runDailyDrip up q w)) Pro_PENDING = countRows (\<lambda>r. pending_row r \<and> r \<notin> set ?b) ?rows"
    unfolding by_status_def rows countRows_def by (simp add: filter_map comp_def cong: filter_cong)
  also have "\<dots> = countRows pending_row ?rows - length ?b"
    using count_outside drip_batch_rows(1,3) ok uid by (fastforce simp: unique_on_def distinct_map)
  finally show ?thesis by (simp add: by_status_def)
qed

text \<open>
  C36: A run of the drip mails at most the daily cap, nobody who has an account or has opted out by
  then, and only addresses waiting in the queue; a paused campaign mails nobody. Its report adds up
  to the batch, and exactly the batch stops waiting, so a backlog of \<open>n\<close> rows is gone after
  \<open>n / cap\<close> runs.
\<close>

theorem drip_respects_cap_and_optouts:
  assumes "prospects_ok w"
  shows "(\<exists>new. bulkEmailQueue (snd (runDailyDrip up q w)) = bulkEmailQueue w @ new
        \<and> length new \<le> (if drip_paused w then 0 else drip_cap w)
        \<and> (\<forall>e \<in> set new. \<not> has_account w e \<and> \<not> opted_out w e
             \<and> (\<exists>r \<in> set (prospectInviteQueue w). pi_email r = e \<and> pi_status r = Pro_PENDING)))
    \<and> dr_sent (fst (runDailyDrip up q w)) + dr_skippedExisting (fst (runDailyDrip up q w))
        + dr_skippedUnsubscribed (fst (runDailyDrip up q w)) = dr_batchSize (fst (runDailyDrip up q w))
    \<and> dr_batchSize (fst (runDailyDrip up q w)) = (if drip_paused w then 0 else min (drip_cap w) (by_status w Pro_PENDING))
    \<and> by_status (snd (runDailyDrip up q w)) Pro_PENDING = by_status w Pro_PENDING - (if drip_paused w then 0 else drip_cap w)"
proof (cases "drip_batch w = []")
  case True
  then have "length (drip_batch w) = 0" by simp
  then show ?thesis
    unfolding runDailyDrip_idle [OF True] drip_batch_rows(2) by (auto simp: no_drip_def by_status_def split: if_splits)
next
  case False
  note run = runDailyDrip_batch [OF False, of up q]
  let ?b = "drip_batch w"
  have "drip_paused w = False" using False by (auto simp: drip_batch_def)
  have parts: "length (drip_sends w) + countRows (\<lambda>r. has_account w (pi_email r)) xs
      + countRows (\<lambda>r. \<not> has_account w (pi_email r) \<and> opted_out w (pi_email r)) xs = length xs"
    if "xs = ?b" for xs
    unfolding drip_sends_def that [symmetric] length_map countRows_def by (induction xs) auto
  have "length (accepted up (drip_sends w)) \<le> length (drip_sends w)" by (rule length_accepted)
  also have "\<dots> \<le> length ?b" by (simp add: drip_sends_def)
  also have "\<dots> \<le> drip_cap w" using drip_batch_rows(2) [of w] by simp
  finally have len: "length (accepted up (drip_sends w)) \<le> drip_cap w" .
  have ok: "\<forall>e \<in> set (accepted up (drip_sends w)). \<not> has_account w e \<and> \<not> opted_out w e
      \<and> (\<exists>r \<in> set (prospectInviteQueue w). pi_email r = e \<and> pi_status r = Pro_PENDING)"
    using set_accepted [of up "drip_sends w"] drip_batch_rows(1) [of w] by (fastforce simp: drip_sends_iff)
  show ?thesis
    unfolding run(1,2) drip_pending [OF assms False]
    using len ok parts [OF refl] drip_batch_rows(2) [of w] \<open>drip_paused w = False\<close> by auto
qed

definition prospect :: "ident \<Rightarrow> string \<Rightarrow> time \<Rightarrow> prospectInvite" where
  "prospect i e t = \<lparr>pi_id = i, pi_email = e, pi_status = Pro_PENDING, pi_uploadedByUserId = None, pi_createdAt = t,
     pi_sentAt = None\<rparr>"

definition campaign_world :: world where
  "campaign_world = sample_world\<lparr>prospectInviteQueue :=
     [prospect ''p1'' ''ann@example.com'' 1, prospect ''p2'' ''bob@example.com'' 2, prospect ''p3'' ''eve@example.com'' 3],
     emailSuppressions := [''eve@example.com'']\<rparr>"

lemmas campaign_sample_defs = campaign_world_def prospect_def sample_defs prospects_ok_def unique_on_def

lemma campaign_sample: "prospects_ok campaign_world"
  by (simp add: campaign_sample_defs)

theorem drip_respects_cap_and_optouts_witness:
  "by_status (snd (runDailyDrip (\<lambda>_. True) (sample_req 5) campaign_world)) Pro_PENDING = 0"
  using drip_respects_cap_and_optouts [OF campaign_sample, of "\<lambda>_. True" "sample_req 5"]
  by (simp add: by_status_def drip_paused_def drip_cap_def campaign_sample_defs default_settings_def)

section \<open>Nobody is mailed twice\<close>

text \<open>
  What happens to the campaign: any of its operations, or a request of another component, which
  leaves the queue, the opt-outs and the bulk mail alone. Test sends and single invitations of an
  administrator are deliberate extra mail and are not part of it.
\<close>

inductive campaign_step :: "world \<Rightarrow> world \<Rightarrow> bool" where
  step_upload: "campaign_step w (snd (enqueueUploadedEmails isEmail q a raw w))"
| step_drip: "campaign_step w (snd (runDailyDrip up q w))"
| step_stats: "campaign_step w (snd (getStats w))"
| step_settings: "campaign_step w (snd (updateSettings q a cap paused w))"
| step_template: "campaign_step w (snd (updateEmailTemplate addr q a dto w))"
| step_get_template: "campaign_step w (snd (getEmailTemplate addr w))"
| step_resend: "campaign_step w (snd (handleResendWebhook number hmac parse secret q body h w))"
| step_unsubscribe: "campaign_step w (snd (unsubscribe hmac key e tok w))"
| step_elsewhere: "prospectInviteQueue w' = prospectInviteQueue w \<Longrightarrow> emailSuppressions w' = emailSuppressions w
    \<Longrightarrow> bulkEmailQueue w' = bulkEmailQueue w \<Longrightarrow> campaign_step w w'"

text \<open>How many more times the campaign may mail an address: once, unless it was handled or opted out.\<close>

definition handled :: "string \<Rightarrow> prospectInvite list \<Rightarrow> bool" where
  "handled e rows \<longleftrightarrow> (\<exists>r \<in> set rows. pi_email r = e \<and> pi_status r \<noteq> Pro_PENDING)"

definition may_mail :: "string \<Rightarrow> world \<Rightarrow> nat" where
  "may_mail e w = (if opted_out w e \<or> handled e (prospectInviteQueue w) then 0 else 1)"

text \<open>What every step keeps: the budget of mail for an address, opt-outs, unique addresses.\<close>

definition campaign_keeps :: "string \<Rightarrow> world \<Rightarrow> world \<Rightarrow> bool" where
  "campaign_keeps e w w' \<longleftrightarrow>
     (unique_on pi_email (prospectInviteQueue w) \<longrightarrow> unique_on pi_email (prospectInviteQueue w')
        \<and> count_list (bulkEmailQueue w') e + may_mail e w' \<le> count_list (bulkEmailQueue w) e + may_mail e w)
     \<and> set (emailSuppressions w) \<subseteq> set (emailSuppressions w')
     \<and> (handled e (prospectInviteQueue w) \<longrightarrow> handled e (prospectInviteQueue w'))
     \<and> pi_email ` set (prospectInviteQueue w) \<subseteq> pi_email ` set (prospectInviteQueue w')"

lemma campaign_keeps_refl: "campaign_keeps e w w"
  by (simp add: campaign_keeps_def)

lemma campaign_keepsD:
  assumes "campaign_keeps e w w'"
  shows "unique_on pi_email (prospectInviteQueue w) \<Longrightarrow> unique_on pi_email (prospectInviteQueue w')"
    and "unique_on pi_email (prospectInviteQueue w) \<Longrightarrow>
      count_list (bulkEmailQueue w') e + may_mail e w' \<le> count_list (bulkEmailQueue w) e + may_mail e w"
    and "set (emailSuppressions w) \<subseteq> set (emailSuppressions w')"
    and "handled e (prospectInviteQueue w) \<Longrightarrow> handled e (prospectInviteQueue w')"
    and "pi_email ` set (prospectInviteQueue w) \<subseteq> pi_email ` set (prospectInviteQueue w')"
  using assms by (simp_all add: campaign_keeps_def)

lemma campaign_keeps_trans:
  assumes "campaign_keeps e w1 w2" and "campaign_keeps e w2 w3"
  shows "campaign_keeps e w1 w3"
proof -
  note d1 = campaign_keepsD [OF assms(1)] and d2 = campaign_keepsD [OF assms(2)]
  have "count_list (bulkEmailQueue w3) e + may_mail e w3 \<le> count_list (bulkEmailQueue w1) e + may_mail e w1"
    if "unique_on pi_email (prospectInviteQueue w1)"
    using d1(2) [OF that] d2(2) [OF d1(1) [OF that]] by (rule order_trans [rotated])
  moreover have "set (emailSuppressions w1) \<subseteq> set (emailSuppressions w3)" using d1(3) d2(3) by (rule subset_trans)
  moreover have "pi_email ` set (prospectInviteQueue w1) \<subseteq> pi_email ` set (prospectInviteQueue w3)"
    using d1(5) d2(5) by (rule subset_trans)
  ultimately show ?thesis
    unfolding campaign_keeps_def using d1(1,4) d2(1,4) by simp
qed

text \<open>A step that mails nobody: enough that the queue keeps its addresses and nothing becomes pending.\<close>

lemma campaign_keepsI:
  assumes "bulkEmailQueue w' = bulkEmailQueue w" "set (emailSuppressions w) \<subseteq> set (emailSuppressions w')"
    and "handled e (prospectInviteQueue w) \<Longrightarrow> handled e (prospectInviteQueue w')"
    and "unique_on pi_email (prospectInviteQueue w) \<Longrightarrow> unique_on pi_email (prospectInviteQueue w')"
    and "pi_email ` set (prospectInviteQueue w) \<subseteq> pi_email ` set (prospectInviteQueue w')"
  shows "campaign_keeps e w w'"
  using assms by (auto simp: campaign_keeps_def may_mail_def opted_out_def)

lemma campaign_keeps_same:
  assumes "prospectInviteQueue w' = prospectInviteQueue w" "emailSuppressions w' = emailSuppressions w"
    "bulkEmailQueue w' = bulkEmailQueue w"
  shows "campaign_keeps e w w'"
  by (rule campaign_keepsI) (simp_all add: assms)

lemma handled_updateMany:
  assumes "\<And>r. pi_email (f r) = pi_email r" "\<And>r. pi_status r \<noteq> Pro_PENDING \<Longrightarrow> pi_status (f r) \<noteq> Pro_PENDING"
  shows "handled e rows \<Longrightarrow> handled e (updateMany p f rows)"
  unfolding handled_def set_updateMany bex_simps
  using assms by (elim bexE conjE, intro bexI) auto

lemma campaign_keeps_suppress: "campaign_keeps e w (suppress a w)"
  by (rule campaign_keepsI) (auto simp: suppress_def)

lemma campaign_keeps_bounce:
  assumes "st \<noteq> Pro_PENDING"
  shows "campaign_keeps e w (suppressAndUpdateStatus raw st w)"
proof -
  define a where "a = toLowerCase (trim raw)"
  have "campaign_keeps e (suppress a w) (suppressAndUpdateStatus raw st w)"
    using assms
    by (intro campaign_keepsI)
      (auto simp: suppressAndUpdateStatus_def Let_def a_def unique_on_updateMany image_updateMany
        intro: handled_updateMany)
  with campaign_keeps_suppress show ?thesis by (rule campaign_keeps_trans)
qed

lemma campaign_keeps_resend: "campaign_keeps e w (snd (handleResendWebhook number hmac parse secret q body h w))"
  by (auto simp: handleResendWebhook_def markBounced_def markComplained_def campaign_keeps_refl
      intro: campaign_keeps_bounce split: option.splits)

lemma campaign_keeps_unsubscribe: "campaign_keeps e w (snd (unsubscribe hmac key a tok w))"
  by (simp add: unsubscribe_def Let_def campaign_keeps_refl campaign_keeps_suppress)

lemma campaign_keeps_settings:
  "campaign_keeps e w (snd (getStats w))"
  "campaign_keeps e w (snd (getEmailTemplate addr w))"
  "campaign_keeps e w (snd (updateSettings q a cap paused w))"
  "campaign_keeps e w (snd (updateEmailTemplate addr q a dto w))"
  by (rule campaign_keeps_same; simp add: getStats_def getEmailTemplate_def updateSettings_def
      updateEmailTemplate_def getOrCreateSettings_def upsert_settings_def Let_def split_beta)+

subsection \<open>Uploads\<close>

lemma createMany_rows:
  "\<exists>new. createMany_prospects rs rows = rows @ new \<and> set new \<subseteq> set rs"
proof (induction rs arbitrary: rows)
  case Nil
  then show ?case by simp
next
  case (Cons r rs)
  from Cons.IH [of rows] Cons.IH [of "rows @ [r]"] show ?case by auto
qed

lemma createMany_unique:
  "unique_on pi_email rows \<Longrightarrow> unique_on pi_email (createMany_prospects rs rows)"
proof (induction rs arbitrary: rows)
  case Nil
  then show ?case by simp
next
  case (Cons r rs)
  have "unique_on pi_email (rows @ [r])" if "\<not> (\<exists>x \<in> set rows. pi_email x = pi_email r)"
    using that Cons.prems by (force simp: unique_on_snoc)
  then show ?case using Cons by simp
qed

lemma createMany_emails:
  "pi_email ` set (createMany_prospects rs rows) = pi_email ` set rows \<union> pi_email ` set rs"
proof (induction rs arbitrary: rows)
  case Nil
  then show ?case by simp
next
  case (Cons r rs)
  then show ?case by (auto simp: image_iff) (metis)+
qed

definition upload_targets :: "(string \<Rightarrow> bool) \<Rightarrow> string list \<Rightarrow> world \<Rightarrow> string list" where
  "upload_targets isEmail raw w = filter
     (\<lambda>e. \<not> has_account w e \<and> \<not> opted_out w e \<and> e \<notin> pi_email ` set (prospectInviteQueue w))
     (js_set (filter isEmail (map (\<lambda>r. toLowerCase (trim r)) raw)))"

lemma set_collect_emails:
  "0 < n \<Longrightarrow> set (collect_emails email (chunks n cs) rows) = set cs \<inter> email ` set rows"
proof -
  assume "0 < n"
  then have "(\<Union>ch \<in> set (chunks n cs). set ch) = set cs"
    using concat_chunks [of n cs] by (metis set_concat)
  then show ?thesis by (auto simp: collect_emails_def findMany_def)
qed

lemma upload_result:
  "up_queued (fst (enqueueUploadedEmails isEmail q a raw w)) = length (upload_targets isEmail raw w)"
  "prospectInviteQueue (snd (enqueueUploadedEmails isEmail q a raw w)) = createMany_prospects
     (map (\<lambda>(k, e). queue_row q a k e) (enumerate 0 (upload_targets isEmail raw w))) (prospectInviteQueue w)"
  "users (snd (enqueueUploadedEmails isEmail q a raw w)) = users w"
  "emailSuppressions (snd (enqueueUploadedEmails isEmail q a raw w)) = emailSuppressions w"
  "bulkEmailQueue (snd (enqueueUploadedEmails isEmail q a raw w)) = bulkEmailQueue w"
proof -
  let ?c = "js_set (filter isEmail (map (\<lambda>r. toLowerCase (trim r)) raw))"
  have "0 < UPLOAD_CHUNK_SIZE" by (simp add: UPLOAD_CHUNK_SIZE_def)
  note sets = set_collect_emails [OF this]
  have t: "upload_targets isEmail raw w = filter (\<lambda>e.
      e \<notin> set (collect_emails u_email (chunks UPLOAD_CHUNK_SIZE ?c) (users w))
      \<and> e \<notin> set (collect_emails (\<lambda>s. s) (chunks UPLOAD_CHUNK_SIZE ?c) (emailSuppressions w))
      \<and> e \<notin> set (collect_emails pi_email (chunks UPLOAD_CHUNK_SIZE ?c) (prospectInviteQueue w))) ?c"
    unfolding upload_targets_def sets by (rule filter_cong) (auto simp: has_account_def opted_out_def)
  show "up_queued (fst (enqueueUploadedEmails isEmail q a raw w)) = length (upload_targets isEmail raw w)"
    "prospectInviteQueue (snd (enqueueUploadedEmails isEmail q a raw w)) = createMany_prospects
       (map (\<lambda>(k, e). queue_row q a k e) (enumerate 0 (upload_targets isEmail raw w))) (prospectInviteQueue w)"
    "users (snd (enqueueUploadedEmails isEmail q a raw w)) = users w"
    "emailSuppressions (snd (enqueueUploadedEmails isEmail q a raw w)) = emailSuppressions w"
    "bulkEmailQueue (snd (enqueueUploadedEmails isEmail q a raw w)) = bulkEmailQueue w"
    by (simp_all add: enqueueUploadedEmails_def Let_def t [symmetric])
qed

lemma campaign_keeps_upload: "campaign_keeps e w (snd (enqueueUploadedEmails isEmail q a raw w))"
proof (rule campaign_keepsI)
  let ?rs = "map (\<lambda>(k, e). queue_row q a k e) (enumerate 0 (upload_targets isEmail raw w))"
  show "handled e (prospectInviteQueue (snd (enqueueUploadedEmails isEmail q a raw w)))"
    if "handled e (prospectInviteQueue w)"
    using that createMany_rows [of ?rs "prospectInviteQueue w"] by (auto simp: upload_result handled_def)
qed (simp_all add: upload_result createMany_unique createMany_emails)

subsection \<open>Drips\<close>

lemma handled_stamp_all:
  assumes "\<And>r x. pi_email (g r x) = pi_email x" "\<And>r x. pi_status (g r x) \<noteq> Pro_PENDING"
  shows "handled e rows \<Longrightarrow> handled e (stamp_all key g rs rows)"
proof (induction rs arbitrary: rows)
  case Nil
  then show ?case by simp
next
  case (Cons r rs)
  have "handled e (updateMany (\<lambda>x. key x = key r) (g r) rows)"
    by (rule handled_updateMany [OF _ _ Cons.prems]) (use assms in auto)
  then show ?case using Cons.IH by simp
qed

lemma drip_sorted_rows:
  "map pi_email (prospectInviteQueue (drip_sorted w)) = map pi_email (prospectInviteQueue w)"
  "handled e (prospectInviteQueue w) \<Longrightarrow> handled e (prospectInviteQueue (drip_sorted w))"
proof -
  show "map pi_email (prospectInviteQueue (drip_sorted w)) = map pi_email (prospectInviteQueue w)"
    unfolding drip_sorted_def sort_batch_stamp by (simp add: stamp_all_image)
  show "handled e (prospectInviteQueue w) \<Longrightarrow> handled e (prospectInviteQueue (drip_sorted w))"
    unfolding drip_sorted_def sort_batch_stamp
    by (rule handled_stamp_all) (simp_all add: skip_status_def)
qed

lemma mark_sent_rows:
  "map pi_email (prospectInviteQueue (mark_sent q es w)) = map pi_email (prospectInviteQueue w)"
  "handled e (prospectInviteQueue w) \<Longrightarrow> handled e (prospectInviteQueue (mark_sent q es w))"
  "e \<in> set es \<Longrightarrow> e \<in> pi_email ` set (prospectInviteQueue w) \<Longrightarrow> handled e (prospectInviteQueue (mark_sent q es w))"
proof -
  show "map pi_email (prospectInviteQueue (mark_sent q es w)) = map pi_email (prospectInviteQueue w)"
    by (simp add: mark_sent_def map_updateMany)
  show "handled e (prospectInviteQueue w) \<Longrightarrow> handled e (prospectInviteQueue (mark_sent q es w))"
    by (simp add: mark_sent_def handled_updateMany)
  assume "e \<in> set es" and "e \<in> pi_email ` set (prospectInviteQueue w)"
  then obtain r where r: "r \<in> set (prospectInviteQueue w)" "pi_email r = e" "pi_email r \<in> set es" by auto
  show "handled e (prospectInviteQueue (mark_sent q es w))"
    unfolding handled_def mark_sent_def
    using r by (intro bexI [where x = "r\<lparr>pi_status := Pro_SENT, pi_sentAt := Some (q_now q)\<rparr>"])
      (auto simp: set_updateMany image_iff)
qed

lemma distinct_imp_count_list_le: "distinct xs \<Longrightarrow> count_list xs x \<le> 1"
  by (induction xs) (auto simp: count_list_0_iff)

lemma sends_budget:
  assumes "unique_on pi_email (prospectInviteQueue w)" and "e \<in> set (drip_sends w)"
  shows "count_list (drip_sends w) e \<le> 1" and "may_mail e w = 1"
proof -
  have sub: "set (drip_batch w) \<subseteq> {r \<in> set (prospectInviteQueue w). pending_row r}" by (rule drip_batch_rows)
  have "distinct (drip_batch w)"
    using assms(1) by (auto simp: drip_batch_def pending_batch_def orderAsc_def findMany_def unique_on_def distinct_map)
  moreover have "inj_on pi_email (set (drip_batch w))"
    using assms(1) sub by (auto simp: unique_on_def distinct_map inj_on_def)
  ultimately have "distinct (drip_sends w)"
    by (auto simp: drip_sends_def distinct_map inj_on_def)
  then show "count_list (drip_sends w) e \<le> 1" by (rule distinct_imp_count_list_le)
  obtain r where r: "r \<in> set (drip_batch w)" "pi_email r = e" and no: "\<not> opted_out w e"
    using assms(2) by (auto simp: drip_sends_iff)
  have "pending_row x" if "x \<in> set (prospectInviteQueue w)" "pi_email x = e" for x
    using unique_onD [OF assms(1) that(1), of r] that r sub by auto
  then show "may_mail e w = 1" using no by (auto simp: may_mail_def handled_def)
qed

lemma campaign_keeps_drip: "campaign_keeps e w (snd (runDailyDrip up q w))"
proof (cases "drip_batch w = []")
  case True
  show ?thesis unfolding runDailyDrip_idle [OF True] by (rule campaign_keeps_same) simp_all
next
  case False
  let ?w = "snd (runDailyDrip up q w)"
  note run = runDailyDrip_batch [OF False, of up q]
  have emails: "map pi_email (prospectInviteQueue ?w) = map pi_email (prospectInviteQueue w)"
    unfolding run(3) mark_sent_rows(1) drip_sorted_rows(1) ..
  then have image: "pi_email ` set (prospectInviteQueue ?w) = pi_email ` set (prospectInviteQueue w)"
    by (metis list.set_map)
  have handled: "handled e (prospectInviteQueue w) \<Longrightarrow> handled e (prospectInviteQueue ?w)"
    unfolding run(3) by (intro mark_sent_rows(2) drip_sorted_rows(2))
  have mono: "may_mail e ?w \<le> may_mail e w"
    using handled by (auto simp: may_mail_def opted_out_def run(5))
  have "count_list (bulkEmailQueue ?w) e + may_mail e ?w \<le> count_list (bulkEmailQueue w) e + may_mail e w"
    if u: "unique_on pi_email (prospectInviteQueue w)"
  proof (cases "e \<in> set (drip_sends w)")
    case False
    then have "count_list (accepted up (drip_sends w)) e = 0"
      using set_accepted [of up "drip_sends w"] by (auto simp: count_list_0_iff)
    with mono show ?thesis unfolding run(2) by simp
  next
    case True
    have "e \<in> pi_email ` set (prospectInviteQueue w)"
      using True drip_batch_rows(1) [of w] by (auto simp: drip_sends_iff)
    then have "e \<in> pi_email ` set (prospectInviteQueue (drip_sorted w))"
      using drip_sorted_rows(1) [of w] by (metis list.set_map)
    then have "handled e (prospectInviteQueue ?w)" unfolding run(3) by (rule mark_sent_rows(3) [OF True])
    then have "may_mail e ?w = 0" by (simp add: may_mail_def)
    with sends_budget [OF u True] count_accepted [of up "drip_sends w" e] show ?thesis unfolding run(2) by simp
  qed
  then show ?thesis
    unfolding campaign_keeps_def using handled image emails run(5) by (simp add: unique_on_def)
qed

lemma campaign_step_keeps: "campaign_step w w' \<Longrightarrow> campaign_keeps e w w'"
  by (induction rule: campaign_step.induct)
    (rule campaign_keeps_upload campaign_keeps_drip campaign_keeps_settings campaign_keeps_resend
      campaign_keeps_unsubscribe campaign_keeps_same; assumption)+

lemma campaign_run_keeps: "campaign_step\<^sup>*\<^sup>* w w' \<Longrightarrow> campaign_keeps e w w'"
proof (induction rule: rtranclp_induct)
  case base
  show ?case by (rule campaign_keeps_refl)
next
  case (step y z)
  from step.IH campaign_step_keeps [OF step.hyps(2)] show ?case by (rule campaign_keeps_trans)
qed

text \<open>
  C11: Over any run of the campaign (uploads, drips, bounces, complaints, opt-outs, settings, and
  requests elsewhere in between) an address is put on the bulk queue at most once, and not at all
  once it has opted out, bounced, or been mailed or skipped before.
\<close>

theorem prospects_mailed_once:
  assumes "unique_on pi_email (prospectInviteQueue w)" and "campaign_step\<^sup>*\<^sup>* w w'"
  shows "count_list (bulkEmailQueue w') e \<le> count_list (bulkEmailQueue w) e + 1
    \<and> (opted_out w e \<or> handled e (prospectInviteQueue w)
        \<longrightarrow> count_list (bulkEmailQueue w') e \<le> count_list (bulkEmailQueue w) e)
    \<and> unique_on pi_email (prospectInviteQueue w')"
proof -
  note k = campaign_keepsD [OF campaign_run_keeps [OF assms(2)]]
  have "may_mail e w \<le> 1" by (simp add: may_mail_def)
  moreover have "opted_out w e \<or> handled e (prospectInviteQueue w) \<Longrightarrow> may_mail e w = 0" by (simp add: may_mail_def)
  ultimately show ?thesis using k(2) [OF assms(1), of e] k(1) [OF assms(1)] by auto
qed

theorem prospects_mailed_once_witness:
  "count_list (bulkEmailQueue (snd (runDailyDrip (\<lambda>_. True) (sample_req 5) campaign_world))) ''eve@example.com'' = 0"
proof -
  have u: "unique_on pi_email (prospectInviteQueue campaign_world)" by (simp add: campaign_sample_defs)
  have "opted_out campaign_world ''eve@example.com''" "bulkEmailQueue campaign_world = []"
    by (simp_all add: opted_out_def campaign_sample_defs)
  then show ?thesis
    using prospects_mailed_once [OF u r_into_rtranclp [where r = campaign_step, OF step_drip], of "\<lambda>_. True" "sample_req 5" "''eve@example.com''"]
    by simp
qed

text \<open>
  When the bulk queue does not answer, a drip loses its batch for good: nothing is queued, yet
  the rows are marked as sent and the report counts them, and no later run of the campaign ever
  mails those addresses.
\<close>

theorem drip_loses_failed_batch:
  assumes "unique_on pi_email (prospectInviteQueue w)" and "\<And>k. \<not> up k" and "e \<in> set (drip_sends w)"
    and "campaign_step\<^sup>*\<^sup>* (snd (runDailyDrip up q w)) w'"
  shows "dr_sent (fst (runDailyDrip up q w)) = length (drip_sends w)
    \<and> bulkEmailQueue (snd (runDailyDrip up q w)) = bulkEmailQueue w
    \<and> handled e (prospectInviteQueue (snd (runDailyDrip up q w)))
    \<and> count_list (bulkEmailQueue w') e \<le> count_list (bulkEmailQueue w) e"
proof -
  have b: "drip_batch w \<noteq> []" using assms(3) by (auto simp: drip_sends_def)
  let ?w = "snd (runDailyDrip up q w)"
  note run = runDailyDrip_batch [OF b, of up q]
  have "e \<in> pi_email ` set (prospectInviteQueue w)"
    using assms(3) drip_batch_rows(1) [of w] by (auto simp: drip_sends_iff)
  then have "e \<in> pi_email ` set (prospectInviteQueue (drip_sorted w))"
    using drip_sorted_rows(1) [of w] by (metis list.set_map)
  then have h: "handled e (prospectInviteQueue ?w)" unfolding run(3) by (rule mark_sent_rows(3) [OF assms(3)])
  have q: "bulkEmailQueue ?w = bulkEmailQueue w" unfolding run(2) by (simp add: accepted_none assms(2))
  have "unique_on pi_email (prospectInviteQueue ?w)"
    using campaign_keepsD(1) [OF campaign_keeps_drip assms(1)] .
  from campaign_keepsD(2) [OF campaign_run_keeps [OF assms(4)] this, of e] h
  have "count_list (bulkEmailQueue w') e \<le> count_list (bulkEmailQueue w) e"
    by (simp add: may_mail_def q)
  with h q run(1) show ?thesis by simp
qed

theorem drip_loses_failed_batch_witness:
  "handled ''bob@example.com'' (prospectInviteQueue (snd (runDailyDrip (\<lambda>_. False) (sample_req 5) campaign_world)))
   \<and> bulkEmailQueue (snd (runDailyDrip (\<lambda>_. False) (sample_req 5) campaign_world)) = []"
proof -
  have u: "unique_on pi_email (prospectInviteQueue campaign_world)" by (simp add: campaign_sample_defs)
  have e: "''bob@example.com'' \<in> set (drip_sends campaign_world)"
    by (simp add: drip_sends_iff drip_batch_def pending_batch_def orderAsc_def findMany_def drip_paused_def
        drip_cap_def default_settings_def has_account_def opted_out_def campaign_sample_defs)
  show ?thesis
    using drip_loses_failed_batch [OF u _ e rtranclp.rtrancl_refl, of "\<lambda>_. False" "sample_req 5"]
    by (simp add: campaign_sample_defs)
qed

text \<open>
  C29: The link in a prospect mail opts its recipient out, however the address is spelled in the
  request; from then on no run of the campaign mails the address and an administrator cannot
  invite it again. A token that is not the signature of the address changes nothing.
\<close>

theorem unsubscribe_is_final:
  assumes "normalizeEmail typed = normalizeEmail mailed" and "unique_on pi_email (prospectInviteQueue w)"
    and "campaign_step\<^sup>*\<^sup>* (snd (unsubscribe hmac secret typed (signUnsubscribeToken hmac mailed secret) w)) w'"
    and "\<not> has_account w' (normalizeEmail mailed)"
  shows "count_list (bulkEmailQueue w') (normalizeEmail mailed) \<le> count_list (bulkEmailQueue w) (normalizeEmail mailed)
    \<and> inviteProspect up q admin typed w' = (Inl (BadRequest Email_unsubscribed), w')
    \<and> (\<forall>token. token \<noteq> signUnsubscribeToken hmac mailed secret
         \<longrightarrow> unsubscribe hmac secret typed token w = (Inl (BadRequest Invalid_unsubscribe_link), w))"
proof -
  let ?e = "normalizeEmail mailed"
  have norm: "toLowerCase (trim typed) = ?e" "toLowerCase (trim mailed) = ?e" "toLowerCase (trim ?e) = ?e"
    using assms(1) by (simp_all add: normalizeEmail_def trim_toLowerCase)
  have w1: "snd (unsubscribe hmac secret typed (signUnsubscribeToken hmac mailed secret) w) = suppress ?e w"
    by (simp add: unsubscribe_def Let_def verifyUnsubscribeToken_def signUnsubscribeToken_def norm)
  have u: "unique_on pi_email (prospectInviteQueue (suppress ?e w))" and s: "opted_out (suppress ?e w) ?e"
    and q: "bulkEmailQueue (suppress ?e w) = bulkEmailQueue w"
    using assms(2) by (auto simp: suppress_def opted_out_def)
  note k = campaign_keepsD [OF campaign_run_keeps [OF assms(3) [unfolded w1]]]
  have "count_list (bulkEmailQueue w') ?e \<le> count_list (bulkEmailQueue w) ?e"
    using k(2) [OF u, of ?e] s by (simp add: may_mail_def q)
  moreover have "?e \<in> set (emailSuppressions w')" using k(3) s by (auto simp: opted_out_def)
  moreover have "findFirst (\<lambda>u. u_email u = ?e) (users w') = None"
    using assms(4) unfolding has_account_def findFirst_None_iff by (metis imageI)
  ultimately show ?thesis
    by (auto simp: inviteProspect_def Let_def norm unsubscribe_def verifyUnsubscribeToken_def signUnsubscribeToken_def)
qed

theorem unsubscribe_is_final_witness:
  "inviteProspect (\<lambda>_. True) (sample_req 1) ''a1'' ''Bob@Example.com'' (suppress ''bob@example.com'' campaign_world)
     = (Inl (BadRequest Email_unsubscribed), suppress ''bob@example.com'' campaign_world)"
proof -
  let ?hmac = "\<lambda>k s. k @ s"
  have n: "normalizeEmail ''Bob@Example.com'' = ''bob@example.com''" "normalizeEmail ''bob@example.com'' = ''bob@example.com''"
    by code_simp+
  have u: "unique_on pi_email (prospectInviteQueue campaign_world)" by (simp add: campaign_sample_defs)
  have w: "snd (unsubscribe ?hmac ''k'' ''Bob@Example.com'' (signUnsubscribeToken ?hmac ''bob@example.com'' ''k'') campaign_world)
      = suppress ''bob@example.com'' campaign_world"
    using n by (simp add: unsubscribe_def Let_def verifyUnsubscribeToken_def signUnsubscribeToken_def normalizeEmail_def)
  show ?thesis
    using unsubscribe_is_final [of "''Bob@Example.com''" "''bob@example.com''" campaign_world ?hmac "''k''"
        "suppress ''bob@example.com'' campaign_world" "\<lambda>_. True" "sample_req 1" "''a1''"] u
    by (simp add: n w) (simp add: has_account_def suppress_def campaign_sample_defs)
qed

section \<open>Uploads, statistics, webhook\<close>

lemma enumerate_rows_emails: "pi_email ` set (map (\<lambda>(k, e). queue_row q a k e) (enumerate n es)) = set es"
  by (induction es arbitrary: n) (auto simp: queue_row_def)

text \<open>
  Uploading the same list again queues nothing and leaves the queue as it is, whoever does it and
  whenever: every valid address of the list is then known.
\<close>

lemma upload_idempotent:
  assumes w1_def: "w1 = snd (enqueueUploadedEmails isEmail q a raw w)"
  shows "up_queued (fst (enqueueUploadedEmails isEmail q' a' raw w1)) = 0"
    and "prospectInviteQueue (snd (enqueueUploadedEmails isEmail q' a' raw w1)) = prospectInviteQueue w1"
proof -
  have emails: "pi_email ` set (prospectInviteQueue w1) =
      pi_email ` set (prospectInviteQueue w) \<union> set (upload_targets isEmail raw w)"
    unfolding w1_def upload_result(2) createMany_emails enumerate_rows_emails ..
  have same: "has_account w1 = has_account w" "opted_out w1 = opted_out w"
    by (simp_all add: fun_eq_iff w1_def has_account_def opted_out_def upload_result)
  have "upload_targets isEmail raw w1 = []"
    unfolding upload_targets_def [of _ _ w1] filter_empty_conv same emails
    by (auto simp: upload_targets_def)
  then show "up_queued (fst (enqueueUploadedEmails isEmail q' a' raw w1)) = 0"
    and "prospectInviteQueue (snd (enqueueUploadedEmails isEmail q' a' raw w1)) = prospectInviteQueue w1"
    by (simp_all add: upload_result)
qed

text \<open>The six counters of the dashboard add up to the queue, and the rate is a fraction.\<close>

lemma stats_partition:
  "st_total (fst (getStats w)) = length (prospectInviteQueue w)"
  "0 \<le> st_bounceComplaintRate (fst (getStats w)) \<and> st_bounceComplaintRate (fst (getStats w)) \<le> 1"
proof -
  have "sum_list (map (\<lambda>st. countRows (\<lambda>r. pi_status r = st) rows) all_statuses) = length rows" for rows
  proof (induction rows)
    case Nil
    then show ?case by (simp add: all_statuses_def)
  next
    case (Cons r rows)
    then show ?case by (cases "pi_status r") (simp_all add: all_statuses_def)
  qed
  then show "st_total (fst (getStats w)) = length (prospectInviteQueue w)"
    by (simp add: getStats_def getOrCreate_eq Let_def by_status_def [abs_def])
  show "0 \<le> st_bounceComplaintRate (fst (getStats w)) \<and> st_bounceComplaintRate (fst (getStats w)) \<le> 1"
    by (auto simp: getStats_def getOrCreate_eq Let_def divide_le_eq_1)
qed

text \<open>
  A webhook call changes something only when it is signed: one of the signatures it carries is the
  HMAC of its id, timestamp and body, and the timestamp is at most five minutes off. It then
  opts exactly the named recipient out.
\<close>

lemma resend_webhook_authentic:
  assumes "snd (handleResendWebhook number hmac parse secret q body h w) \<noteq> w"
  obtains s i t sigs ts e where "secret = Some s" "sx_id h = Some i" "sx_timestamp h = Some t" "sx_signature h = Some sigs"
    "number t = Some ts" "\<bar>q_now q - ts * 1000\<bar> \<le> 300000"
    "\<exists>entry \<in> set (js_split (CHR '' '') sigs). \<exists>v rest. js_split (CHR '','') entry
       = v # hmac (strip_whsec s) (i @ CHR ''.'' # t @ CHR ''.'' # body) # rest"
    "parse body = Some e" "rw_type e \<in> {''email.bounced'', ''email.complained''}"
proof -
  have v: "truthy secret" "verifyResendWebhookSignature number hmac q body h (the secret)"
    using assms by (auto simp: handleResendWebhook_def split: if_splits)
  then obtain s where s: "secret = Some s" by (auto elim: truthyE)
  obtain i t sigs where h: "sx_id h = Some i" "sx_timestamp h = Some t" "sx_signature h = Some sigs"
    using v(2) by (auto simp: verifyResendWebhookSignature_def split: if_splits elim!: truthyE)
  obtain ts where ts: "number t = Some ts" "\<bar>q_now q - ts * 1000\<bar> \<le> 300000"
    using v(2) h by (auto simp: verifyResendWebhookSignature_def TOLERANCE_SECONDS_def split: if_splits option.splits)
  let ?mac = "hmac (strip_whsec s) (i @ CHR ''.'' # t @ CHR ''.'' # body)"
  obtain entry where entry: "entry \<in> set (js_split (CHR '' '') sigs)"
    "case js_split (CHR '','') entry of v # sig # rest \<Rightarrow> sig \<noteq> [] \<and> sig = ?mac | _ \<Rightarrow> False"
    using v(2) h s ts(1) by (auto simp: verifyResendWebhookSignature_def Let_def split: if_splits)
  have "\<exists>v rest. js_split (CHR '','') entry = v # ?mac # rest"
    using entry(2) by (cases "js_split (CHR '','') entry" rule: remdups_adj.cases) auto
  with entry(1) have sig: "\<exists>entry \<in> set (js_split (CHR '' '') sigs). \<exists>v rest. js_split (CHR '','') entry = v # ?mac # rest"
    by blast
  obtain e where "parse body = Some e" "rw_type e \<in> {''email.bounced'', ''email.complained''}"
    using assms by (auto simp: handleResendWebhook_def split: if_splits option.splits)
  with s h ts sig show thesis by (rule that)
qed

end
