(* ===== verification/AdminReports.thy ===== *)
theory AdminReports
  imports Admin Samples
begin

text \<open>
  The read-only half of \<open>admin.service.ts\<close>: users with their billing summary, sessions, prospects,
  subscriptions of both products, monthly revenue, the audit log, flagged sessions, leads and
  contact messages. Every list is a page of the matching rows with their total.
\<close>

section \<open>Pages\<close>

text \<open>\<open>findMany\<close> with \<open>skip\<close> and \<open>take\<close> beside \<open>count\<close>, the shape all lists share.\<close>

definition page_of :: "('r \<Rightarrow> 'v) \<Rightarrow> nat \<Rightarrow> nat \<Rightarrow> 'r list \<Rightarrow> 'v page" where
  "page_of view pageNo pageSize rows =
     \<lparr>pg_data = map view (paginate pageNo pageSize rows), pg_page = pageNo, pg_pageSize = pageSize,
      pg_total = length rows\<rparr>"

definition matches :: "'a option \<Rightarrow> 'a \<Rightarrow> bool" where
  "matches filterValue x = (case filterValue of None \<Rightarrow> True | Some v \<Rightarrow> x = v)"

section \<open>Users\<close>

record userView =
  uv_id :: ident
  uv_email :: string
  uv_fullName :: string
  uv_phone :: "string option"
  uv_role :: role
  uv_status :: accountStatus
  uv_stripeCustomerId :: "string option"
  uv_emailVerifiedAt :: "time option"
  uv_twoFactorEnabled :: bool
  uv_lastLoginAt :: "time option"
  uv_createdAt :: time
  uv_leadFinderCredits :: int
  uv_adminGrantedDirectoryAccess :: bool
  uv_adminGrantedLeadFinderAccess :: bool

definition user_view :: "user \<Rightarrow> userView" where
  "user_view u = \<lparr>uv_id = u_id u, uv_email = u_email u, uv_fullName = u_fullName u, uv_phone = u_phone u,
     uv_role = u_role u, uv_status = u_status u, uv_stripeCustomerId = u_stripeCustomerId u,
     uv_emailVerifiedAt = u_emailVerifiedAt u, uv_twoFactorEnabled = u_twoFactorEnabled u,
     uv_lastLoginAt = u_lastLoginAt u, uv_createdAt = u_createdAt u, uv_leadFinderCredits = u_leadFinderCredits u,
     uv_adminGrantedDirectoryAccess = u_adminGrantedDirectoryAccess u,
     uv_adminGrantedLeadFinderAccess = u_adminGrantedLeadFinderAccess u\<rparr>"

record usersQuery =
  uq_status :: "accountStatus option"
  uq_role :: "role option"
  uq_search :: "string option"

definition search_user :: "cfg \<Rightarrow> string option \<Rightarrow> user \<Rightarrow> bool" where
  "search_user c search u \<longleftrightarrow> (truthy search \<longrightarrow>
     c_contains c (u_email u) (the search) \<or> c_contains c (u_fullName u) (the search))"

definition users_where :: "cfg \<Rightarrow> usersQuery \<Rightarrow> user \<Rightarrow> bool" where
  "users_where c query u \<longleftrightarrow>
     (case uq_status query of None \<Rightarrow> u_status u \<noteq> DELETED | Some st \<Rightarrow> u_status u = st)
     \<and> matches (uq_role query) (u_role u) \<and> search_user c (uq_search query) u"

record billedUser =
  bu_user :: userView
  bu_creditsPurchased :: int
  bu_lifetimePaidCents :: int

definition paid_invoices :: "world \<Rightarrow> subscription \<Rightarrow> invoice list" where
  "paid_invoices w s = findMany (\<lambda>i. in_subscriptionId i = sb_id s \<and> in_status i = Inv_PAID) (invoices w)"

definition user_subscriptions :: "ident \<Rightarrow> world \<Rightarrow> subscription list" where
  "user_subscriptions userId w = findMany (\<lambda>s. sb_userId s = userId) (subscriptions w)"

text \<open>The sums of the credit ledger and of the paid invoices; SQL sums skip absent amounts.\<close>

definition attachBillingSummary :: "world \<Rightarrow> userView \<Rightarrow> billedUser" where
  "attachBillingSummary w u =
     (let grants = findMany (\<lambda>g. cg_userId g = uv_id u) (creditGrants w);
          creditPaid = sum_list (map (\<lambda>g. nullish (cg_amountPaidCents g) 0) grants);
          directoryPaid = sum_list (map (\<lambda>s. sum_list (map in_amountCents (paid_invoices w s)))
                            (user_subscriptions (uv_id u) w))
      in \<lparr>bu_user = u, bu_creditsPurchased = sum_list (map cg_credits grants),
          bu_lifetimePaidCents = creditPaid + directoryPaid\<rparr>)"

definition listUsers :: "cfg \<Rightarrow> usersQuery \<Rightarrow> nat \<Rightarrow> nat \<Rightarrow> world \<Rightarrow> billedUser page" where
  "listUsers c query pageNo pageSize w =
     page_of (\<lambda>u. attachBillingSummary w (user_view u)) pageNo pageSize
       (orderDesc u_createdAt (findMany (users_where c query) (users w)))"

record subscriptionSummary =
  ss_sumStatus :: subscriptionStatus
  ss_sumPeriodEnd :: time
  ss_sumCancelAtPeriodEnd :: bool
  ss_sumPlanName :: "string option"

record userDetail =
  ud_user :: userView
  ud_deviceCount :: nat
  ud_activeSessionCount :: nat
  ud_subscription :: "subscriptionSummary option"

definition plan_of :: "world \<Rightarrow> subscription \<Rightarrow> plan option" where
  "plan_of w s = findFirst (\<lambda>p. pl_id p = sb_planId s) (plans w)"

definition getUser :: "req \<Rightarrow> ident \<Rightarrow> world \<Rightarrow> userDetail result" where
  "getUser q i w =
     (case findById i w of
        None \<Rightarrow> Inl (NotFound User_not_found)
      | Some u \<Rightarrow> Inr
          \<lparr>ud_user = user_view u,
           ud_deviceCount = countRows (\<lambda>d. d_userId d = i) (devices w),
           ud_activeSessionCount = countRows (\<lambda>s. s_userId s = i \<and> s_revokedAt s = None \<and> q_now q < s_expiresAt s) (sessions w),
           ud_subscription = map_option (\<lambda>s. \<lparr>ss_sumStatus = sb_status s, ss_sumPeriodEnd = sb_currentPeriodEnd s,
               ss_sumCancelAtPeriodEnd = sb_cancelAtPeriodEnd s, ss_sumPlanName = map_option pl_name (plan_of w s)\<rparr>)
             (findFirstDesc sb_createdAt (\<lambda>s. sb_userId s = i) (subscriptions w))\<rparr>)"

record securityView =
  sy_id :: ident
  sy_ipAddress :: "string option"
  sy_country :: "string option"
  sy_city :: "string option"
  sy_timezone :: "string option"
  sy_riskScore :: int
  sy_riskSignals :: "json option"
  sy_createdAt :: time
  sy_lastActivityAt :: time
  sy_revokedAt :: "time option"
  sy_device :: "(ident \<times> string option \<times> string option \<times> string option \<times> bool) option"

definition security_view :: "world \<Rightarrow> session \<Rightarrow> securityView" where
  "security_view w s = \<lparr>sy_id = s_id s, sy_ipAddress = s_ipAddress s, sy_country = s_country s, sy_city = s_city s,
     sy_timezone = s_timezone s, sy_riskScore = s_riskScore s, sy_riskSignals = s_riskSignals s,
     sy_createdAt = s_createdAt s, sy_lastActivityAt = s_lastActivityAt s, sy_revokedAt = s_revokedAt s,
     sy_device = (case s_deviceId s of None \<Rightarrow> None
        | Some i \<Rightarrow> map_option (\<lambda>d. (d_id d, d_browserName d, d_os d, d_deviceType d, d_isTrusted d)) (find_device i w))\<rparr>"

definition getUserSessions :: "ident \<Rightarrow> world \<Rightarrow> securityView list result" where
  "getUserSessions userId w =
     (case findById userId w of
        None \<Rightarrow> Inl (NotFound User_not_found)
      | Some _ \<Rightarrow> Inr (map (security_view w) (orderDesc s_createdAt (findMany (\<lambda>s. s_userId s = userId) (sessions w)))))"

definition owner_view :: "world \<Rightarrow> ident \<Rightarrow> (ident \<times> string \<times> string) option" where
  "owner_view w i = map_option (\<lambda>u. (u_id u, u_email u, u_fullName u)) (findById i w)"

definition listFlaggedSessions ::
  "int \<Rightarrow> nat \<Rightarrow> nat \<Rightarrow> world \<Rightarrow> (securityView \<times> (ident \<times> string \<times> string) option) page" where
  "listFlaggedSessions minScore pageNo pageSize w =
     page_of (\<lambda>s. (security_view w s, owner_view w (s_userId s))) pageNo pageSize
       (orderDesc s_riskScore (orderDesc s_createdAt (findMany (\<lambda>s. minScore \<le> s_riskScore s) (sessions w))))"

section \<open>Prospects\<close>

record prospectView =
  po_id :: ident
  po_email :: string
  po_fullName :: string
  po_createdAt :: time
  po_lastLoginAt :: "time option"
  po_daysSinceSignup :: int
  po_canceled :: bool
  po_overdue :: bool
  po_paid :: bool

definition prospects_where :: "cfg \<Rightarrow> string option \<Rightarrow> world \<Rightarrow> user \<Rightarrow> bool" where
  "prospects_where c search w u \<longleftrightarrow> u_status u = ACTIVE \<and> u_role u \<in> {USER, PREMIUM}
     \<and> \<not> u_adminGrantedDirectoryAccess u
     \<and> \<not> (\<exists>s \<in> set (user_subscriptions (u_id u) w). sb_status s \<in> {Sub_ACTIVE, Sub_TRIALING})
     \<and> search_user c search u"

definition prospect_view :: "req \<Rightarrow> world \<Rightarrow> user \<Rightarrow> prospectView" where
  "prospect_view q w u =
     (let subs = orderDesc sb_createdAt (user_subscriptions (u_id u) w);
          mostRecent = (case subs of [] \<Rightarrow> None | s # _ \<Rightarrow> Some (sb_status s))
      in \<lparr>po_id = u_id u, po_email = u_email u, po_fullName = u_fullName u, po_createdAt = u_createdAt u,
          po_lastLoginAt = u_lastLoginAt u,
          po_daysSinceSignup = (q_now q - u_createdAt u) div (24 * 60 * 60 * 1000),
          po_canceled = (mostRecent = Some Sub_CANCELED), po_overdue = (mostRecent = Some Sub_PAST_DUE),
          po_paid = (\<exists>s \<in> set subs. paid_invoices w s \<noteq> [])\<rparr>)"

definition listProspects :: "cfg \<Rightarrow> req \<Rightarrow> string option \<Rightarrow> nat \<Rightarrow> nat \<Rightarrow> world \<Rightarrow> prospectView page" where
  "listProspects c q search pageNo pageSize w =
     page_of (prospect_view q w) pageNo pageSize (orderAsc u_createdAt (findMany (prospects_where c search w) (users w)))"

section \<open>Subscriptions\<close>

record billingView =
  bv_id :: ident
  bv_status :: subscriptionStatus
  bv_currentPeriodStart :: time
  bv_currentPeriodEnd :: time
  bv_cancelAtPeriodEnd :: bool
  bv_pastDueSince :: "time option"
  bv_createdAt :: time
  bv_user :: "(ident \<times> string \<times> string) option"
  bv_plan :: "(string \<times> int \<times> string) option"
  bv_daysPastDue :: "int option"
  bv_hasAccess :: bool

definition subscription_view :: "cfg \<Rightarrow> req \<Rightarrow> world \<Rightarrow> subscription \<Rightarrow> billingView \<times> time option" where
  "subscription_view c q w s =
     (\<lparr>bv_id = sb_id s, bv_status = sb_status s, bv_currentPeriodStart = sb_currentPeriodStart s,
       bv_currentPeriodEnd = sb_currentPeriodEnd s, bv_cancelAtPeriodEnd = sb_cancelAtPeriodEnd s,
       bv_pastDueSince = sb_pastDueSince s, bv_createdAt = sb_createdAt s, bv_user = owner_view w (sb_userId s),
       bv_plan = map_option (\<lambda>p. (pl_name p, pl_amountCents p, pl_currency p)) (plan_of w s),
       bv_daysPastDue = daysPastDue (q_now q) (sb_pastDueSince s),
       bv_hasAccess = hasActiveAccess (q_now q) (sb_status s) (sb_pastDueSince s) (c_gracePeriodDays c)\<rparr>,
      sb_trialEndsAt s)"

definition listSubscriptions ::
  "cfg \<Rightarrow> req \<Rightarrow> subscriptionStatus option \<Rightarrow> nat \<Rightarrow> nat \<Rightarrow> world \<Rightarrow> (billingView \<times> time option) page" where
  "listSubscriptions c q st pageNo pageSize w =
     page_of (subscription_view c q w) pageNo pageSize
       (orderDesc sb_createdAt (findMany (\<lambda>s. matches st (sb_status s)) (subscriptions w)))"

definition lead_finder_view :: "cfg \<Rightarrow> req \<Rightarrow> world \<Rightarrow> leadFinderSubscription \<Rightarrow> billingView" where
  "lead_finder_view c q w s =
     \<lparr>bv_id = lf_id s, bv_status = lf_status s, bv_currentPeriodStart = lf_currentPeriodStart s,
      bv_currentPeriodEnd = lf_currentPeriodEnd s, bv_cancelAtPeriodEnd = lf_cancelAtPeriodEnd s,
      bv_pastDueSince = lf_pastDueSince s, bv_createdAt = lf_createdAt s, bv_user = owner_view w (lf_userId s),
      bv_plan = map_option (\<lambda>t. (ti_name t, ti_amountCents t, ti_currency t))
        (findFirst (\<lambda>t. ti_id t = lf_tierId s) (leadFinderTiers w)),
      bv_daysPastDue = daysPastDue (q_now q) (lf_pastDueSince s),
      bv_hasAccess = hasActiveAccess (q_now q) (lf_status s) (lf_pastDueSince s) (c_gracePeriodDays c)\<rparr>"

definition listLeadFinderSubscriptions ::
  "cfg \<Rightarrow> req \<Rightarrow> subscriptionStatus option \<Rightarrow> nat \<Rightarrow> nat \<Rightarrow> world \<Rightarrow> billingView page" where
  "listLeadFinderSubscriptions c q st pageNo pageSize w =
     page_of (lead_finder_view c q w) pageNo pageSize
       (orderDesc lf_createdAt (findMany (\<lambda>s. matches st (lf_status s)) (leadFinderSubscriptions w)))"

section \<open>Revenue\<close>

text \<open>\<open>toISOString().slice(0, 7)\<close>: the UTC month of an instant, by the civil-calendar algorithm.\<close>

definition civil_month :: "time \<Rightarrow> int \<times> int" where
  "civil_month t =
     (let z = t div ms_per_day + 719468; era = z div 146097; doe = z mod 146097;
          yoe = (doe - doe div 1460 + doe div 36524 - doe div 146096) div 365;
          doy = doe - (365 * yoe + yoe div 4 - yoe div 100);
          mp = (5 * doy + 2) div 153;
          m = (if mp < 10 then mp + 3 else mp - 9)
      in (yoe + era * 400 + (if m \<le> 2 then 1 else 0), m))"

definition pad_left :: "nat \<Rightarrow> string \<Rightarrow> string" where
  "pad_left n s = replicate (n - length s) (CHR ''0'') @ s"

definition iso_month :: "time \<Rightarrow> string" where
  "iso_month t = (let (y, m) = civil_month t in pad_left 4 (show_nat (nat y)) @ ''-'' @ pad_left 2 (show_nat (nat m)))"

record monthRow =
  mr_directoryCents :: int
  mr_leadFinderCents :: int
  mr_currency :: string
  mr_invoiceCount :: nat
  mr_creditGrantCount :: nat

definition empty_month :: monthRow where
  "empty_month = \<lparr>mr_directoryCents = 0, mr_leadFinderCents = 0, mr_currency = ''usd'', mr_invoiceCount = 0,
     mr_creditGrantCount = 0\<rparr>"

text \<open>The \<open>Map\<close> of months: \<open>monthRow\<close> creates the entry on first use, the loops change it in place.\<close>

fun in_month :: "string \<Rightarrow> (monthRow \<Rightarrow> monthRow) \<Rightarrow> (string \<times> monthRow) list \<Rightarrow> (string \<times> monthRow) list" where
  "in_month m f [] = [(m, f empty_month)]"
| "in_month m f ((k, r) # rows) = (if k = m then (k, f r) # rows else (k, r) # in_month m f rows)"

fun add_invoices :: "invoice list \<Rightarrow> (string \<times> monthRow) list \<Rightarrow> (string \<times> monthRow) list" where
  "add_invoices [] rows = rows"
| "add_invoices (i # is) rows = add_invoices is (in_month (iso_month (the (in_paidAt i)))
     (\<lambda>r. r\<lparr>mr_directoryCents := mr_directoryCents r + in_amountCents i, mr_currency := in_currency i,
            mr_invoiceCount := mr_invoiceCount r + 1\<rparr>) rows)"

fun add_grants :: "creditGrant list \<Rightarrow> (string \<times> monthRow) list \<Rightarrow> (string \<times> monthRow) list" where
  "add_grants [] rows = rows"
| "add_grants (g # gs) rows = add_grants gs (in_month (iso_month (cg_createdAt g))
     (\<lambda>r. r\<lparr>mr_leadFinderCents := mr_leadFinderCents r + the (cg_amountPaidCents g),
            mr_creditGrantCount := mr_creditGrantCount r + 1\<rparr>) rows)"

record revenueView =
  rv_month :: string
  rv_totalCents :: int
  rv_directoryCents :: int
  rv_leadFinderCents :: int
  rv_currency :: string
  rv_invoiceCount :: nat
  rv_creditGrantCount :: nat

definition revenue_view :: "string \<times> monthRow \<Rightarrow> revenueView" where
  "revenue_view e = (case e of (m, r) \<Rightarrow>
     \<lparr>rv_month = m, rv_totalCents = mr_directoryCents r + mr_leadFinderCents r,
      rv_directoryCents = mr_directoryCents r, rv_leadFinderCents = mr_leadFinderCents r,
      rv_currency = mr_currency r, rv_invoiceCount = mr_invoiceCount r, rv_creditGrantCount = mr_creditGrantCount r\<rparr>)"

definition getMonthlyRevenue :: "world \<Rightarrow> revenueView list" where
  "getMonthlyRevenue w =
     (let paidInvoices = findMany (\<lambda>i. in_status i = Inv_PAID \<and> in_paidAt i \<noteq> None) (invoices w);
          paidCreditGrants = findMany (\<lambda>g. cg_amountPaidCents g \<noteq> None) (creditGrants w)
      in rev (sort_key rv_month (map revenue_view (add_grants paidCreditGrants (add_invoices paidInvoices [])))))"

section \<open>Audit log\<close>

record auditQuery =
  aq_action :: "string option"
  aq_actorUserId :: "ident option"
  aq_targetId :: "ident option"

definition audit_where :: "auditQuery \<Rightarrow> auditLog \<Rightarrow> bool" where
  "audit_where query a \<longleftrightarrow> (truthy (aq_action query) \<longrightarrow> js_includes (al_action a) (the (aq_action query)))
     \<and> (aq_actorUserId query = None \<or> al_actorUserId a = aq_actorUserId query)
     \<and> (aq_targetId query = None \<or> al_targetId a = aq_targetId query)"

definition listAuditLogs :: "auditQuery \<Rightarrow> nat \<Rightarrow> nat \<Rightarrow> world \<Rightarrow> auditLog page" where
  "listAuditLogs query pageNo pageSize w =
     page_of (\<lambda>a. a) pageNo pageSize (orderDesc al_createdAt (findMany (audit_where query) (auditLogs w)))"

section \<open>Leads and contact messages\<close>

text \<open>The dates of the query are instants; the last day counts as a whole UTC day.\<close>

record leadsQuery =
  la_companyType :: "companyTypeParam option"
  la_likelyToAttend :: "string option"
  la_search :: "string option"
  la_hasEmail :: "bool option"
  la_approved :: "bool option"
  la_fromDate :: "time option"
  la_toDate :: "time option"

definition admin_search :: "cfg \<Rightarrow> string \<Rightarrow> lead \<Rightarrow> bool" where
  "admin_search c s l \<longleftrightarrow> c_contains c (le_name l) s \<or> column_contains c (le_company l) s
     \<or> column_contains c (le_title l) s \<or> column_contains c (le_email l) s"

definition leads_where :: "cfg \<Rightarrow> leadsQuery \<Rightarrow> lead \<Rightarrow> bool" where
  "leads_where c query l \<longleftrightarrow>
     matches (resolveCompanyTypeFilter (la_companyType query)) (le_companyType l)
     \<and> matches (la_likelyToAttend query) (le_likelyToAttend l)
     \<and> matches (la_approved query) (le_approved l)
     \<and> (la_hasEmail query = Some True \<longrightarrow> le_email l \<noteq> None)
     \<and> (case la_fromDate query of None \<Rightarrow> True | Some t \<Rightarrow> t \<le> le_createdAt l)
     \<and> (case la_toDate query of None \<Rightarrow> True | Some t \<Rightarrow> le_createdAt l < t + ms_per_day)
     \<and> (truthy (la_search query) \<longrightarrow> admin_search c (the (la_search query)) l)"

definition listLeads :: "cfg \<Rightarrow> leadsQuery \<Rightarrow> nat \<Rightarrow> nat \<Rightarrow> world \<Rightarrow> (lead \<times> (ident \<times> string \<times> string) option) page" where
  "listLeads c query pageNo pageSize w =
     page_of (\<lambda>l. (l, Option.bind (le_submittedByUserId l) (owner_view w))) pageNo pageSize
       (orderAsc le_name (findMany (leads_where c query) (leads w)))"

definition getLeadFilters :: "world \<Rightarrow> companyTypeParam list \<times> string list" where
  "getLeadFilters w =
     (let companyTypes = distinct_types (leads w);
          realTypes = List.map_filter (\<lambda>t. t) companyTypes;
          hasUnclassified = (length realTypes < length companyTypes)
      in (map TypeParam realTypes @ (if hasUnclassified then [UNCLASSIFIED] else []),
          sort (remdups (map le_likelyToAttend (leads w)))))"

definition listContactMessages ::
  "bool option \<Rightarrow> contactReason option \<Rightarrow> nat \<Rightarrow> nat \<Rightarrow> world \<Rightarrow> contactMessage page" where
  "listContactMessages resolved reason pageNo pageSize w =
     page_of (\<lambda>m. m) pageNo pageSize (orderDesc cm_createdAt
       (findMany (\<lambda>m. matches resolved (cm_resolved m) \<and> matches reason (cm_reason m)) (contactMessages w)))"

end
