(* ===== verification/AdminReportProperties.thy ===== *)
theory AdminReportProperties
  imports Complex_Main AdminReports
begin

text \<open>
  The revenue report of the administrators: the loops over paid invoices and paid credit grants, which
  update a map of months in place, compute the same table as a declarative reference definition
  \<open>month_report\<close>, and the table accounts for every cent.
\<close>

section \<open>The map of months\<close>

definition month_at :: "(string \<times> monthRow) list \<Rightarrow> string \<Rightarrow> monthRow" where
  "month_at rows m = (case map_of rows m of None \<Rightarrow> empty_month | Some r \<Rightarrow> r)"

lemma keys_in_month: "set (map fst (in_month m f rows)) = insert m (set (map fst rows))"
  by (induction rows rule: in_month.induct) auto

lemma distinct_in_month: "distinct (map fst rows) \<Longrightarrow> distinct (map fst (in_month m f rows))"
proof (induction rows)
  case (Cons e rows)
  then show ?case using keys_in_month [of m f rows] by (cases e) (simp del: set_map; blast)
qed simp

lemma month_at_in_month:
  "month_at (in_month m f rows) k = (if k = m then f (month_at rows k) else month_at rows k)"
  by (induction m f rows rule: in_month.induct) (auto simp: month_at_def)

lemma add_invoices_keys:
  "distinct (map fst rows) \<Longrightarrow> distinct (map fst (add_invoices is rows))
    \<and> set (map fst (add_invoices is rows)) = set (map fst rows) \<union> (\<lambda>i. iso_month (the (in_paidAt i))) ` set is"
  by (induction "is" arbitrary: rows) (simp_all add: distinct_in_month keys_in_month del: set_map)

lemma add_grants_keys:
  "distinct (map fst rows) \<Longrightarrow> distinct (map fst (add_grants gs rows))
    \<and> set (map fst (add_grants gs rows)) = set (map fst rows) \<union> (\<lambda>g. iso_month (cg_createdAt g)) ` set gs"
  by (induction gs arbitrary: rows) (simp_all add: distinct_in_month keys_in_month del: set_map)

section \<open>The reference definition\<close>

definition paid :: "world \<Rightarrow> invoice list" where
  "paid w = filter (\<lambda>i. in_status i = Inv_PAID \<and> in_paidAt i \<noteq> None) (invoices w)"

definition bought :: "world \<Rightarrow> creditGrant list" where
  "bought w = filter (\<lambda>g. cg_amountPaidCents g \<noteq> None) (creditGrants w)"

definition paid_in :: "string \<Rightarrow> invoice list \<Rightarrow> invoice list" where
  "paid_in m is = filter (\<lambda>i. iso_month (the (in_paidAt i)) = m) is"

definition bought_in :: "string \<Rightarrow> creditGrant list \<Rightarrow> creditGrant list" where
  "bought_in m gs = filter (\<lambda>g. iso_month (cg_createdAt g) = m) gs"

text \<open>One month: the sums and counts of what was paid in it, in the currency of its last invoice.\<close>

definition month_report :: "world \<Rightarrow> string \<Rightarrow> revenueView" where
  "month_report w m =
     (let dir = sum_list (map in_amountCents (paid_in m (paid w)));
          lf = sum_list (map (\<lambda>g. the (cg_amountPaidCents g)) (bought_in m (bought w)))
      in \<lparr>rv_month = m, rv_totalCents = dir + lf, rv_directoryCents = dir, rv_leadFinderCents = lf,
          rv_currency = last (''usd'' # map in_currency (paid_in m (paid w))),
          rv_invoiceCount = length (paid_in m (paid w)), rv_creditGrantCount = length (bought_in m (bought w))\<rparr>)"

definition revenue_months :: "world \<Rightarrow> string set" where
  "revenue_months w = (\<lambda>i. iso_month (the (in_paidAt i))) ` set (paid w) \<union> (\<lambda>g. iso_month (cg_createdAt g)) ` set (bought w)"

lemma month_at_add_invoices:
  "month_at (add_invoices is rows) m =
     (let r = month_at rows m in
      \<lparr>mr_directoryCents = mr_directoryCents r + sum_list (map in_amountCents (paid_in m is)),
       mr_leadFinderCents = mr_leadFinderCents r,
       mr_currency = last (mr_currency r # map in_currency (paid_in m is)),
       mr_invoiceCount = mr_invoiceCount r + length (paid_in m is),
       mr_creditGrantCount = mr_creditGrantCount r\<rparr>)"
  by (induction "is" arbitrary: rows) (simp_all add: Let_def paid_in_def month_at_in_month)

lemma month_at_add_grants:
  "month_at (add_grants gs rows) m =
     (let r = month_at rows m in
      r\<lparr>mr_leadFinderCents := mr_leadFinderCents r + sum_list (map (\<lambda>g. the (cg_amountPaidCents g)) (bought_in m gs)),
        mr_creditGrantCount := mr_creditGrantCount r + length (bought_in m gs)\<rparr>)"
  by (induction gs arbitrary: rows) (simp_all add: Let_def bought_in_def month_at_in_month)

section \<open>Sorting\<close>

lemma insort_key_map_image: "insort_key f (g x) (map g xs) = map g (insort_key (\<lambda>x. f (g x)) x xs)"
  by (induction xs) auto

lemma sort_key_map_image: "sort_key f (map g xs) = map g (sort_key (\<lambda>x. f (g x)) xs)"
  by (induction xs) (simp_all add: insort_key_map_image)

lemma rows_from_keys:
  assumes "distinct (map fst rows)"
  shows "rows = map (\<lambda>m. (m, month_at rows m)) (map fst rows)"
proof -
  have "(fst e, month_at rows (fst e)) = e" if "e \<in> set rows" for e
    using assms that by (cases e) (auto simp: month_at_def)
  then have "map (\<lambda>e. (fst e, month_at rows (fst e))) rows = rows" by (rule map_idI)
  then show ?thesis by (simp add: comp_def)
qed

lemma sum_by_group:
  fixes f :: "'a \<Rightarrow> int"
  assumes "finite M" "key ` set xs \<subseteq> M"
  shows "(\<Sum>m\<in>M. sum_list (map f (filter (\<lambda>x. key x = m) xs))) = sum_list (map f xs)"
  using assms(2)
proof (induction xs)
  case (Cons x xs)
  have "(\<Sum>m\<in>M. sum_list (map f (filter (\<lambda>x. key x = m) (x # xs))))
      = (\<Sum>m\<in>M. (if key x = m then f x else 0) + sum_list (map f (filter (\<lambda>x. key x = m) xs)))"
    by (intro sum.cong) auto
  also have "\<dots> = f x + sum_list (map f xs)"
    using Cons assms(1) by (simp add: sum.distrib)
  finally show ?case by simp
qed simp


section \<open>The report\<close>

definition revenue_rows :: "world \<Rightarrow> (string \<times> monthRow) list" where
  "revenue_rows w = add_grants (bought w) (add_invoices (paid w) [])"

lemma revenue_rows_keys:
  "distinct (map fst (revenue_rows w))" "set (map fst (revenue_rows w)) = revenue_months w"
  using add_invoices_keys [of "[]" "paid w"] add_grants_keys [of "add_invoices (paid w) []" "bought w"]
  by (simp_all add: revenue_rows_def revenue_months_def del: set_map)

lemma month_at_empty [simp]: "month_at [] m = empty_month"
  by (simp add: month_at_def)

lemma revenue_view_row: "revenue_view (m, month_at (revenue_rows w) m) = month_report w m"
  by (simp add: revenue_view_def month_report_def revenue_rows_def month_at_add_invoices month_at_add_grants
      empty_month_def Let_def)

lemma revenue_by_month:
  "getMonthlyRevenue w = map (month_report w) (rev (sorted_list_of_set (revenue_months w)))"
proof -
  let ?rows = "revenue_rows w" and ?keys = "map fst (revenue_rows w)"
  have "map revenue_view ?rows = map (month_report w) ?keys"
    using arg_cong [OF rows_from_keys [OF revenue_rows_keys(1) [of w]], of "map revenue_view"]
    by (simp add: comp_def revenue_view_row)
  moreover have "getMonthlyRevenue w = rev (sort_key rv_month (map revenue_view ?rows))"
    by (simp add: getMonthlyRevenue_def Let_def paid_def bought_def revenue_rows_def findMany_def)
  ultimately have "getMonthlyRevenue w = rev (sort_key rv_month (map (month_report w) ?keys))"
    by metis
  also have "\<dots> = rev (map (month_report w) (sort ?keys))"
    by (simp add: sort_key_map_image month_report_def Let_def)
  also have "sort ?keys = sorted_list_of_set (revenue_months w)"
    using revenue_rows_keys [of w] by (metis sorted_list_of_set_sort_remdups distinct_remdups_id)
  finally show ?thesis by (simp add: rev_map)
qed

lemma finite_revenue_months [simp]: "finite (revenue_months w)"
  by (simp add: revenue_months_def)

text \<open>
  C27: The revenue report. The loops over paid invoices and paid credit grants compute exactly the reference
  table: one row for each month with a payment and no other, latest month first, each row with the sums
  and the counts of the payments of that month. Nothing is lost and nothing counted twice: the totals of
  the rows add up to all paid invoices plus all paid credit grants.
\<close>

theorem monthly_revenue_complete:
  "getMonthlyRevenue w = map (month_report w) (rev (sorted_list_of_set (revenue_months w)))
   \<and> sum_list (map rv_totalCents (getMonthlyRevenue w))
      = sum_list (map in_amountCents (paid w)) + sum_list (map (\<lambda>g. the (cg_amountPaidCents g)) (bought w))"
proof -
  let ?M = "revenue_months w"
  have "sum_list (map rv_totalCents (getMonthlyRevenue w)) = (\<Sum>m\<in>?M. rv_totalCents (month_report w m))"
    by (simp add: revenue_by_month comp_def rev_map sum_list_rev sum_list_distinct_conv_sum_set)
  also have "\<dots> = (\<Sum>m\<in>?M. sum_list (map in_amountCents (paid_in m (paid w))))
      + (\<Sum>m\<in>?M. sum_list (map (\<lambda>g. the (cg_amountPaidCents g)) (bought_in m (bought w))))"
    by (simp add: month_report_def Let_def sum.distrib)
  also have "\<dots> = sum_list (map in_amountCents (paid w)) + sum_list (map (\<lambda>g. the (cg_amountPaidCents g)) (bought w))"
    unfolding paid_in_def bought_in_def
    by (intro arg_cong2 [where f = "(+)"] sum_by_group) (auto simp: revenue_months_def)
  finally show ?thesis using revenue_by_month by blast
qed

end
