(* ===== verification/AdminProperties.thy ===== *)
theory AdminProperties
  imports Complex_Main AdminReports
begin

text \<open>
  What the administrators' operations guarantee about accounts. Each of them meets the contract of
  the account tables (\<open>auth_keeps\<close>), so that what \<open>account_service\<close> derives holds along runs that mix
  them with the requests of the customers.
\<close>

section \<open>Steps\<close>

inductive admin_step :: "cfg \<Rightarrow> req \<Rightarrow> world \<Rightarrow> world \<Rightarrow> bool" for c q w where
  step_suspendUser: "admin_step c q w (snd (suspendUser c q a i reason w))"
| step_reactivateUser: "admin_step c q w (snd (reactivateUser q a i w))"
| step_sendPasswordReset: "admin_step c q w (snd (sendPasswordReset c q a i w))"
| step_deleteUser: "admin_step c q w (snd (deleteUser c q a i w))"
| step_forceLogout: "admin_step c q w (snd (forceLogout c q a i w))"
| step_impersonateUser: "admin_step c q w (snd (impersonateUser c q a i w))"
| step_inviteUser: "admin_step c q w (snd (inviteUser q a dto w))"
| step_setDirectoryAccess: "admin_step c q w (snd (setDirectoryAccess q a i g w))"
| step_setLeadFinderAccess: "admin_step c q w (snd (setLeadFinderAccess q a i g w))"
| step_pitchProspect: "admin_step c q w (snd (pitchProspect q a i tmpl w))"
| step_inviteProspect: "admin_step c q w (snd (inviteProspect up q a email w))"
| step_createLead: "admin_step c q w (snd (createLead q a ldto w))"
| step_approveLead: "admin_step c q w (snd (approveLead q a i w))"
| step_updateLead: "admin_step c q w (snd (updateLead q a i ldto w))"
| step_deleteLead: "admin_step c q w (snd (deleteLead q a i w))"
| step_resolveContactMessage: "admin_step c q w (snd (resolveContactMessage q a i w))"
| step_deleteContactMessage: "admin_step c q w (snd (deleteContactMessage q a i w))"
| step_replyToContactMessage: "admin_step c q w (snd (replyToContactMessage q a i reply w))"

section \<open>The contract\<close>

lemma auth_keeps_erase_by_admin:
  assumes "\<not> (\<exists>x \<in> set (users w). u_email x = deleted_email i \<and> u_id x \<noteq> i)"
  shows "auth_keeps c t w (update_user i (\<lambda>u. u\<lparr>u_status := st, u_deletedAt := d, u_email := deleted_email i\<rparr>) w)"
proof (rule auth_keeps_users)
  let ?f = "\<lambda>u::user. u\<lparr>u_status := st, u_deletedAt := d, u_email := deleted_email i\<rparr>"
  show "u_id ` set (users w) \<subseteq> u_id ` set (users (update_user i ?f w))"
    by (simp add: u_ids_update_user)
  show "users_ok (update_user i ?f w)" if "users_ok w"
    using that assms by (intro users_ok_erase) auto
qed (simp_all add: extends_audit_eq)

lemma auth_keeps_account_admin:
  "auth_keeps c t w (snd (suspendUser c' q a i reason w))"
  "auth_keeps c t w (snd (reactivateUser q a i w))"
  "auth_keeps c t w (snd (deleteUser c' q a i w))"
  "auth_keeps c t w (snd (forceLogout c' q a i w))"
  "auth_keeps c t w (snd (impersonateUser c' q a i w))"
  "auth_keeps c t w (snd (setDirectoryAccess q a i g w))"
  "auth_keeps c t w (snd (setLeadFinderAccess q a i g w))"
  by (auto simp: suspendUser_def reactivateUser_def deleteUser_def forceLogout_def impersonateUser_def
      setDirectoryAccess_def setLeadFinderAccess_def Let_def
      intro!: auth_keeps_after auth_keeps_update_user auth_keeps_erase_by_admin split: option.splits)

lemma auth_keeps_sendPasswordReset: "auth_keeps c t w (snd (sendPasswordReset c' q a i w))"
proof (cases "findById i w")
  case (Some u)
  show ?thesis
    using auth_keeps_forgotPassword [of c t w c' q "u_email u"]
    by (cases "forgotPassword c' q (u_email u) w")
      (auto simp: sendPasswordReset_def Some intro: auth_keeps_after split: sum.splits)
qed (simp add: sendPasswordReset_def)

lemma auth_keeps_invites_admin:
  "auth_keeps c t w (snd (inviteUser q a dto w))"
  "auth_keeps c t w (snd (pitchProspect q a i tmpl w))"
  "auth_keeps c t w (snd (inviteProspect up q a email w))"
proof -
  have "auth_keeps c t w (write_access_invite q a e dto w)" for e
    by (rule auth_keeps_frame)
      (auto simp: write_access_invite_def Let_def intro: extends_audit_eq split: option.splits)
  then show "auth_keeps c t w (snd (inviteUser q a dto w))"
    by (auto simp: inviteUser_def Let_def intro: auth_keeps_after)
  show "auth_keeps c t w (snd (pitchProspect q a i tmpl w))"
    by (auto simp: pitchProspect_def intro!: auth_keeps_after split: option.splits)
  have "auth_keeps c t w (sendProspectInvite up e w)" for e
    by (rule auth_keeps_frame) (auto simp: sendProspectInvite_def enqueueBulk_def intro: extends_audit_eq)
  then show "auth_keeps c t w (snd (inviteProspect up q a email w))"
    by (auto simp: inviteProspect_def Let_def intro: auth_keeps_after)
qed

lemma auth_keeps_leads_admin:
  "auth_keeps c t w (snd (createLead q a ldto w))"
  "auth_keeps c t w (snd (approveLead q a i w))"
  "auth_keeps c t w (snd (updateLead q a i ldto w))"
  "auth_keeps c t w (snd (deleteLead q a i w))"
  "auth_keeps c t w (snd (resolveContactMessage q a i w))"
  "auth_keeps c t w (snd (deleteContactMessage q a i w))"
  "auth_keeps c t w (snd (replyToContactMessage q a i reply w))"
  by (rule auth_keeps_frame; auto simp: createLead_def approveLead_def updateLead_def deleteLead_def
      resolveContactMessage_def deleteContactMessage_def replyToContactMessage_def update_lead_def Let_def
      extends_audit_def audit_record_def split: option.splits)+

lemma admin_step_keeps: "admin_step c q w w' \<Longrightarrow> auth_keeps c (q_now q) w w'"
  by (induction rule: admin_step.induct)
    (rule auth_keeps_account_admin auth_keeps_sendPasswordReset auth_keeps_invites_admin auth_keeps_leads_admin)+

text \<open>Requests of customers and of administrators, interleaved.\<close>

inductive account_step :: "cfg \<Rightarrow> req \<Rightarrow> world \<Rightarrow> world \<Rightarrow> bool" for c q w w' where
  by_customer: "auth_step c q w w' \<Longrightarrow> account_step c q w w'"
| by_admin: "admin_step c q w w' \<Longrightarrow> account_step c q w w'"

interpretation account: account_service account_step
  by unfold_locales (metis account_step.cases auth_step_keeps admin_step_keeps)

end
