(* ===== verification/LeadsProperties.thy ===== *)
theory LeadsProperties
  imports Complex_Main ApolloSearch Admin Samples
begin

text \<open>
  The directory and the Lead Finder as their users see them: what a submission becomes, whose searches are
  whose, and the daily allowances. The allowance of anonymous visitors is the second interpretation of the
  contract \<open>attempt_limit\<close>, after the cap on login challenges.
\<close>

section \<open>The directory\<close>

lemma matching_leads_append:
  "\<not> buildWhere c f l \<Longrightarrow> leads w' = leads w @ [l] \<Longrightarrow> matching_leads c f w' = matching_leads c f w"
  by (simp add: matching_leads_def findMany_def)

lemma suggest_append:
  "\<not> le_approved l \<Longrightarrow> leads w' = leads w @ [l] \<Longrightarrow> suggest c field s w' = suggest c field s w"
  by (simp add: suggest_def findMany_def Let_def)

lemma leads_submitSelf:
  "\<exists>l. leads (snd (submitSelf q i dto w)) = leads w @ [l] \<and> \<not> le_approved l \<and> le_id l = q_newId q
     \<and> le_likelyToAttend l = sl_likelyToAttend dto \<and> le_name l = sl_name dto"
  by (simp add: submitSelf_def Let_def)

text \<open>
  C28: a submission stays hidden until an administrator approves it. It appears in no page of the directory, no
  count, export, preview or suggestion; approving it publishes it: it then matches the empty filter. Only the list
  of filter values shows something before: the event the submitter typed is offered to every customer at once.
\<close>

theorem submission_hidden_until_approved:
  assumes fresh: "q_newId q \<notin> le_id ` set (leads w)"
  shows "list_leads c f p n (snd (submitSelf q i dto w)) = list_leads c f p n w
    \<and> count_leads c f (snd (submitSelf q i dto w)) = count_leads c f w
    \<and> exportCsv csv c f (snd (submitSelf q i dto w)) = exportCsv csv c f w
    \<and> preview c s (snd (submitSelf q i dto w)) = preview c s w
    \<and> suggest c field s (snd (submitSelf q i dto w)) = suggest c field s w
    \<and> sl_likelyToAttend dto \<in> set (snd (getFilters (snd (submitSelf q i dto w))))
    \<and> count_leads c no_filters (snd (approveLead q2 a (q_newId q) (snd (submitSelf q i dto w))))
        = count_leads c no_filters w + 1"
proof -
  let ?w = "snd (submitSelf q i dto w)"
  from leads_submitSelf [of q i dto w] obtain l where l: "leads ?w = leads w @ [l]" "\<not> le_approved l"
    "le_id l = q_newId q" "le_likelyToAttend l = sl_likelyToAttend dto" by blast
  have no: "\<not> buildWhere c f l" for f using l(2) by (simp add: buildWhere_def)
  note match = matching_leads_append [OF no l(1)]
  have rows: "countRows (buildWhere c f) (leads ?w) = countRows (buildWhere c f) (leads w)" for f
    using no by (simp add: l(1))
  have old: "updateMany (\<lambda>x. le_id x = q_newId q) (\<lambda>x. x\<lparr>le_approved := True\<rparr>) (leads w) = leads w"
    using fresh by (intro updateMany_noop) (metis imageI)
  have "findFirst (\<lambda>x. le_id x = q_newId q) (leads w) = None"
    using fresh unfolding findFirst_None_iff by (metis imageI)
  then have find: "find_lead (q_newId q) ?w = Some l"
    using l(3) by (simp add: find_lead_def l(1) findFirst_append)
  then have "leads (snd (approveLead q2 a (q_newId q) ?w)) = leads w @ [l\<lparr>le_approved := True\<rparr>]"
    using l old by (simp add: approveLead_def update_lead_def)
  then have "count_leads c no_filters (snd (approveLead q2 a (q_newId q) ?w)) = count_leads c no_filters w + 1"
    by (simp add: count_leads_def no_filters_def buildWhere_def resolveCompanyTypeFilter_def)
  moreover have "sl_likelyToAttend dto \<in> set (snd (getFilters ?w))"
    by (simp add: getFilters_def Let_def l(1,4))
  ultimately show ?thesis
    using suggest_append [OF l(2,1)]
    by (simp add: list_leads_def count_leads_def exportCsv_def preview_def match rows)
qed

definition sample_submission :: selfSubmitLead where
  "sample_submission = \<lparr>sl_name = ''Bob'', sl_companyType = AGENCY, sl_likelyToAttend = ''Secret Summit'',
     sl_title = None, sl_company = None, sl_website = None, sl_linkedin = None, sl_email = None, sl_phone = None\<rparr>"

theorem submission_hidden_until_approved_witness:
  "count_leads sample_cfg no_filters (snd (submitSelf (sample_req 20) ''u1'' sample_submission sample_world)) = 0
   \<and> ''Secret Summit'' \<in> set (snd (getFilters (snd (submitSelf (sample_req 20) ''u1'' sample_submission sample_world))))"
proof -
  have "q_newId (sample_req 20) \<notin> le_id ` set (leads sample_world)" by (simp add: sample_world_def empty_world_def)
  moreover have "count_leads sample_cfg no_filters sample_world = 0"
    by (simp add: count_leads_def sample_world_def empty_world_def)
  ultimately show ?thesis
    using submission_hidden_until_approved [of "sample_req 20" sample_world sample_cfg no_filters 1 1 "''u1''" sample_submission]
    by (simp add: sample_submission_def)
qed

section \<open>Searches\<close>

text \<open>
  A search belongs to the account that started it. To every other account it does not exist: reading, extending,
  cancelling and reviewing it all answer "not found" and change nothing, and it is not in their history.
\<close>

theorem search_belongs_to_owner:
  assumes job: "find_job jobId w = Some job" and other: "jb_userId job \<noteq> i"
  shows "getSearchJob i jobId w = Inl (NotFound Search_not_found)
    \<and> getMoreLeads c q i jobId n w = (Inl (NotFound Search_not_found), w)
    \<and> cancelSearchJob i jobId w = (Inl (NotFound Search_not_found), w)
    \<and> updateResultReviewStatus i jobId resultId st w = (Inl (NotFound Search_not_found), w)
    \<and> (unique_on jb_id (leadSearchJobs w) \<longrightarrow> jobId \<notin> hv_id ` set (listSearchHistory i w))"
proof -
  have "jobId \<notin> hv_id ` set (listSearchHistory i w)" if u: "unique_on jb_id (leadSearchJobs w)"
  proof
    assume "jobId \<in> hv_id ` set (listSearchHistory i w)"
    then obtain j where j: "j \<in> set (leadSearchJobs w)" "jb_id j = jobId" "jb_userId j = i"
      by (auto simp: listSearchHistory_def findMany_def dest!: in_set_takeD)
    have "job \<in> set (leadSearchJobs w)" "jb_id job = jobId"
      using job by (auto simp: find_job_def dest: findFirst_SomeD)
    with j u have "j = job" by (auto elim: unique_onD)
    with j other show False by simp
  qed
  with assms show ?thesis
    by (simp add: getSearchJob_def getMoreLeads_def cancelSearchJob_def updateResultReviewStatus_def)
qed

theorem search_belongs_to_owner_witness:
  "getSearchJob ''u2'' ''j1'' (sample_world\<lparr>leadSearchJobs := [\<lparr>jb_id = ''j1'', jb_userId = ''u1'', jb_query = [],
     jb_jobTitles = [], jb_filters = None, jb_status = RUNNING, jb_createdAt = 0\<rparr>]\<rparr>) = Inl (NotFound Search_not_found)"
proof -
  let ?j = "\<lparr>jb_id = ''j1'', jb_userId = ''u1'', jb_query = [], jb_jobTitles = [], jb_filters = None,
      jb_status = RUNNING, jb_createdAt = 0\<rparr>"
  have "find_job ''j1'' (sample_world\<lparr>leadSearchJobs := [?j]\<rparr>) = Some ?j" "jb_userId ?j \<noteq> ''u2''"
    by (simp_all add: find_job_def)
  from search_belongs_to_owner [OF this] show ?thesis by simp
qed

section \<open>Anonymous searches\<close>

definition anonymous_used :: "string \<Rightarrow> world \<Rightarrow> int" where
  "anonymous_used ip w = (case redis w (AnonAiSearch ip) of None \<Rightarrow> 0 | Some e \<Rightarrow> re_value e)"

definition anonymous_window :: "string \<Rightarrow> world \<Rightarrow> time \<Rightarrow> bool" where
  "anonymous_window ip w t = (case redis w (AnonAiSearch ip) of
     None \<Rightarrow> False
   | Some e \<Rightarrow> 0 < re_value e \<and> (case re_expiresAt e of None \<Rightarrow> False | Some x \<Rightarrow> t < x))"

text \<open>A search from an address; without Redis the check fails and nothing is counted.\<close>

definition anonymous_attempt :: "cfg \<Rightarrow> string \<Rightarrow> req \<Rightarrow> world \<Rightarrow> bool \<times> world" where
  "anonymous_attempt c ip q w =
     (let (r, w1) = checkAnonymousSearchLimit c (q\<lparr>q_redisUp := True\<rparr>) ip w in (\<not> (\<exists>e. r = Inl e), w1))"

lemma anonymous_attempt_count:
  "anonymous_attempt c ip q w =
    (fst (redis_count (q\<lparr>q_redisUp := True\<rparr>) (AnonAiSearch ip) (secondsUntilMidnight c (q\<lparr>q_redisUp := True\<rparr>)) w) \<le> 3,
     snd (redis_count (q\<lparr>q_redisUp := True\<rparr>) (AnonAiSearch ip) (secondsUntilMidnight c (q\<lparr>q_redisUp := True\<rparr>)) w))"
  by (auto simp: anonymous_attempt_def checkAnonymousSearchLimit_def anonymousMaxSearchesPerDay_def Let_def split_beta)

interpretation anonymous: attempt_limit "anonymous_attempt c" anonymous_used anonymous_window anonymousMaxSearchesPerDay
proof unfold_locales
  fix k :: string and w :: world and q :: req and t :: time
  assume "anonymous_window k w (q_now q)"
  then obtain e x where e: "redis w (AnonAiSearch k) = Some e" "0 < re_value e" "re_expiresAt e = Some x" "q_now q < x"
    by (auto simp: anonymous_window_def split: option.splits)
  let ?q = "q\<lparr>q_redisUp := True\<rparr>" let ?ttl = "secondsUntilMidnight c ?q"
  have r: "redis w (AnonAiSearch k) = Some \<lparr>re_value = re_value e, re_expiresAt = Some x\<rparr>" using e by (cases e) simp
  have live: "redis (snd (redis_count ?q (AnonAiSearch k) ?ttl w)) (AnonAiSearch k)
      = Some \<lparr>re_value = re_value e + 1, re_expiresAt = Some x\<rparr>"
    using r e(2,4) by (intro redis_get_count_live) auto
  have n: "fst (redis_count ?q (AnonAiSearch k) ?ttl w) = re_value e + 1"
    using r e(4) by (simp add: redis_count_value redis_get_def)
  show "anonymous_used k (snd (anonymous_attempt c k q w)) = anonymous_used k w + 1"
    by (simp add: anonymous_used_def anonymous_attempt_count live r)
  show "fst (anonymous_attempt c k q w) = (anonymous_used k w < anonymousMaxSearchesPerDay)"
    by (auto simp: anonymous_used_def anonymous_attempt_count n r anonymousMaxSearchesPerDay_def)
  show "anonymous_window k (snd (anonymous_attempt c k q w)) t = anonymous_window k w t"
    using e by (simp add: anonymous_window_def anonymous_attempt_count live r)
qed

text \<open>The first search of a day opens the window, up to the next midnight.\<close>

lemma anonymous_first:
  assumes "redis_get q (AnonAiSearch ip) w = None"
  shows "fst (anonymous_attempt c ip q w)"
    and "anonymous_used ip (snd (anonymous_attempt c ip q w)) = 1"
    and "anonymous_window ip (snd (anonymous_attempt c ip q w)) t \<longleftrightarrow>
      t < q_now q + secondsUntilMidnight c (q\<lparr>q_redisUp := True\<rparr>) * 1000"
  using assms
  by (simp_all add: anonymous_attempt_count redis_count_def redis_incr_def redis_expire_def anonymous_used_def
      anonymous_window_def)

text \<open>
  Three free searches a day for an address. After its first search of a day, whatever searches come from the same
  address until the next midnight, exactly the first three are let through, however many there are; while Redis is
  down none is.
\<close>

theorem three_anonymous_searches:
  assumes fresh: "redis_get q (AnonAiSearch ip) w = None"
    and today: "\<forall>r \<in> set qs. q_now r < c_nextDay c (q_now q)"
  shows "(\<forall>k < length (q # qs). attempts (anonymous_attempt c ip) (q # qs) w ! k \<longleftrightarrow> k < 3)
    \<and> (\<forall>claude api q' query w'. \<not> q_redisUp q' \<longrightarrow>
         anonymousSearch c claude api q' ip query w' = (Inl (ServiceUnavailable Free_search_demo_unavailable), w'))"
proof (intro conjI allI impI)
  fix k assume k: "k < length (q # qs)"
  let ?w = "snd (anonymous_attempt c ip q w)"
  note first = anonymous_first [OF fresh]
  have "c_nextDay c (q_now q) \<le> q_now q + secondsUntilMidnight c (q\<lparr>q_redisUp := True\<rparr>) * 1000"
    by (simp add: secondsUntilMidnight_def)
  then have win: "\<forall>r \<in> set qs. anonymous_window ip ?w (q_now r)"
    using today by (auto simp: first)
  show "attempts (anonymous_attempt c ip) (q # qs) w ! k \<longleftrightarrow> k < 3"
    using anonymous.attempts_prefix [OF win, of "k - 1"] first k
    by (cases k) (auto simp: anonymousMaxSearchesPerDay_def)
qed (simp add: anonymousSearch_def checkAnonymousSearchLimit_def)

theorem three_anonymous_searches_witness:
  "attempts (anonymous_attempt sample_cfg ''10.0.0.1'') (replicate 5 (sample_req 0)) empty_world ! 2
   \<and> \<not> attempts (anonymous_attempt sample_cfg ''10.0.0.1'') (replicate 5 (sample_req 0)) empty_world ! 3"
proof -
  have fresh: "redis_get (sample_req 0) (AnonAiSearch ''10.0.0.1'') empty_world = None"
    by (simp add: redis_get_def empty_world_def)
  have "\<forall>r \<in> set (replicate 4 (sample_req 0)). q_now r < c_nextDay sample_cfg (q_now (sample_req 0))"
    by (simp add: sample_req_def sample_cfg_def)
  from three_anonymous_searches [OF fresh this, THEN conjunct1]
  have "\<forall>k < 5. attempts (anonymous_attempt sample_cfg ''10.0.0.1'') (sample_req 0 # replicate 4 (sample_req 0)) empty_world ! k
      \<longleftrightarrow> k < 3" by simp
  moreover have "replicate 5 (sample_req 0) = sample_req 0 # replicate 4 (sample_req 0)" by (simp add: numeral_eq_Suc)
  ultimately show ?thesis by (simp del: attempts.simps)
qed

end
