(* ===== verification/Email.thy ===== *)
theory Email
  imports Complex_Main Campaign
begin

text \<open>
  The workers behind the two mail queues: \<open>email.processor.ts\<close> and \<open>bulk-email.processor.ts\<close> with the templates
  of \<open>email-template.util.ts\<close>. Strings are UTF-8 byte strings; \<open>toLocaleDateString\<close>, the HMAC and the call to
  Resend (\<open>Some\<close> message when it fails) are parameters.
\<close>

section \<open>Templates\<close>

definition newline :: string where "newline = [CHR 0x0A]"

definition replace_char :: "char \<Rightarrow> string \<Rightarrow> string \<Rightarrow> string" where
  "replace_char c r s = concat (map (\<lambda>x. if x = c then r else [x]) s)"

definition escapeHtml :: "string \<Rightarrow> string" where
  "escapeHtml s = replace_char CHR 0x27 ''&#39;'' (replace_char CHR 0x22 ''&quot;''
     (replace_char CHR ''>'' ''&gt;'' (replace_char CHR ''<'' ''&lt;'' (replace_char CHR ''&'' ''&amp;'' s))))"

definition control_char :: "char \<Rightarrow> bool" where
  "control_char c \<longleftrightarrow> (of_char c :: nat) < 32 \<or> (of_char c :: nat) = 127"

definition sanitizeForSubject :: "string \<Rightarrow> string" where
  "sanitizeForSubject s = trim (map (\<lambda>c. if control_char c then CHR '' '' else c) s)"

definition LOGO_ICON_URL :: "string" where
  "LOGO_ICON_URL =
     ''https://www.conference.contact/icons/icon-64.png''"

definition renderEmail :: "string \<Rightarrow> string option \<Rightarrow> string" where
  "renderEmail body complianceFooter =
     ''<div style=\"background-color:#eeeef0;padding:40px 20px;font-family:-apple-system,BlinkMacSystemFont,'Segoe UI',Roboto,Helvetica,Arial,sans-serif;\">'' @
     newline @ ''    <div style=\"max-width:480px;margin:0 auto;\">'' @ newline @
     ''      <table role=\"presentation\" style=\"margin:0 auto 28px;\" cellpadding=\"0\" cellspacing=\"0\">'' @
     newline @ ''        <tr>'' @ newline @
     ''          <td style=\"width:28px;height:28px;vertical-align:middle;\">'' @ newline @
     ''            <img src=\"'' @ LOGO_ICON_URL @
     ''\" width=\"28\" height=\"28\" alt=\"conference.contact\" style=\"display:block;border-radius:7px;\" />'' @
     newline @ ''          </td>'' @ newline @
     ''          <td style=\"padding-left:9px;font-size:17px;font-weight:800;color:#12152b;\">conference<span style=\"color:#a9c022;\">.</span>contact</td>'' @
     newline @ ''        </tr>'' @ newline @ ''      </table>'' @ newline @
     ''      <div style=\"background-color:#ffffff;border:1px solid #e2e2e7;border-radius:16px;padding:40px 32px;text-align:center;\">'' @
     newline @ ''        '' @ body @ newline @ ''      </div>'' @ newline @
     ''      <p style=\"text-align:center;margin-top:24px;font-size:12px;color:#9395a6;\">conference.contact '' @
     em_dash @ '' the verified conference contact directory</p>'' @ newline @ ''      '' @
     nullish complianceFooter [] @ newline @ ''    </div>'' @ newline @ ''  </div>''"

definition heading :: "string \<Rightarrow> string" where
  "heading t =
     ''<h1 style=\"margin:0;font-size:21px;font-weight:800;color:#12152b;line-height:1.35;\">'' @ t @
     ''</h1>''"

definition paragraph_html :: "string \<Rightarrow> string" where
  "paragraph_html t =
     ''<p style=\"margin:16px 0 0;font-size:15px;color:#5b5f73;line-height:1.6;\">'' @ t @ ''</p>''"

definition footnote :: "string \<Rightarrow> string" where
  "footnote t =
     ''<p style=\"margin:22px 0 0;font-size:13px;color:#9395a6;\">'' @ t @ ''</p>''"

definition ctaButton :: "string \<Rightarrow> string \<Rightarrow> string" where
  "ctaButton href label =
     ''<a href=\"'' @ href @
     ''\" style=\"display:inline-block;margin-top:28px;background-color:#c6e02e;color:#0b1454;font-weight:700;font-size:15px;text-decoration:none;padding:14px 34px;border-radius:999px;\">'' @
     label @ ''</a>''"

section \<open>URI components\<close>

text \<open>\<open>encodeURIComponent\<close> on the bytes of a string, as \<open>email.processor.ts\<close> puts them into links.\<close>

definition char_within :: "char \<Rightarrow> char \<Rightarrow> char \<Rightarrow> bool" where
  "char_within a z c \<longleftrightarrow> (of_char a :: nat) \<le> of_char c \<and> (of_char c :: nat) \<le> of_char z"

definition unreserved :: "char \<Rightarrow> bool" where
  "unreserved c \<longleftrightarrow> char_within CHR ''A'' CHR ''Z'' c \<or> char_within CHR ''a'' CHR ''z'' c
     \<or> char_within CHR ''0'' CHR ''9'' c \<or> c \<in> set (''-_.!~*()'' @ [CHR 0x27])"

definition hex_digits :: string where "hex_digits = ''0123456789ABCDEF''"

definition percent :: "char \<Rightarrow> string" where
  "percent c = [CHR ''%'', hex_digits ! (of_char c div 16), hex_digits ! (of_char c mod 16)]"

definition encodeURIComponent :: "string \<Rightarrow> string" where
  "encodeURIComponent s = concat (map (\<lambda>c. if unreserved c then [c] else percent c) s)"

section \<open>Outgoing mail\<close>

record emailCfg =
  ec_from :: string
  ec_frontendUrl :: string
  ec_supportEmail :: string
  ec_dateLabel :: "time \<Rightarrow> string"
  ec_unsubscribeSecret :: string
  ec_hmac :: "string \<Rightarrow> string \<Rightarrow> string"
  ec_defaultMailingAddress :: string

record outgoing =
  og_from :: string
  og_to :: string
  og_subject :: string
  og_html :: string
  og_replyTo :: "string option"
  og_headers :: "(string \<times> string) list"

definition mail :: "emailCfg \<Rightarrow> string \<Rightarrow> string \<Rightarrow> string \<Rightarrow> string option \<Rightarrow> outgoing" where
  "mail e to subject body replyTo =
     \<lparr>og_from = ec_from e, og_to = to, og_subject = subject, og_html = renderEmail body None,
      og_replyTo = (if truthy replyTo then replyTo else None), og_headers = []\<rparr>"

definition first_name :: "string \<Rightarrow> string" where
  "first_name fullName =
     escapeHtml (let w = takeWhile (\<lambda>c. \<not> js_space c) (trim fullName) in if w = [] then ''there'' else w)"

fun reason_label :: "contactReason \<Rightarrow> string" where
  "reason_label BILLING = ''Billing question''"
| "reason_label ACCOUNT_ISSUE = ''Account issue''"
| "reason_label REMOVE_RECORD = ''Remove my directory record''"
| "reason_label OTHER = ''Other''"

text \<open>The sign and digits of an integer; \<open>cents\<close> is an amount with two decimals, dropped when both are zero.\<close>

definition show_int :: "int \<Rightarrow> string" where
  "show_int i = (if i < 0 then ''-'' else []) @ show_nat (nat \<bar>i\<bar>)"

definition amount_label :: "int \<Rightarrow> string" where
  "amount_label cents =
     ''$'' @ (if cents < 0 then ''-'' else []) @ show_nat (nat \<bar>cents\<bar> div 100)
     @ (let f = nat \<bar>cents\<bar> mod 100 in if f = 0 then [] else ''.'' @ padStart 2 (digit_char 0) (show_nat f))"

fun join_and :: "string list \<Rightarrow> string" where
  "join_and [] = []"
| "join_and [x] = x"
| "join_and (x # xs) = x @ '' and '' @ join_and xs"

definition perks_text :: "bool \<Rightarrow> bool \<Rightarrow> string" where
  "perks_text directory leadFinder =
     (let perks = (if directory then [''full access to the Lead Directory''] else [])
              @ (if leadFinder then [''unlimited AI Lead Finder searches''] else [])
      in if perks \<noteq> [] then ''You've been given '' @ join_and perks @ '' '' @ em_dash
           @ '' no subscription needed. Create your account to get started.''
         else ''An account has been set up for you. Create your account to get started.'')"

definition pitch_features :: "string list" where
  "pitch_features = [''Unlimited directory searches'',
     ''Full contact details '' @ em_dash @ '' email, phone, LinkedIn'',
     ''CSV export'',
     ''AI Lead Finder credits included'']"

definition feature_item :: "string \<Rightarrow> string" where
  "feature_item item =
     ''<li style=\"margin-top:10px;padding-left:24px;position:relative;font-size:14px;color:#5b5f73;line-height:1.5;\">'' @
     newline @
     ''                          <span style=\"position:absolute;left:0;color:#0b1454;font-weight:700;\">'' @
     check_mark @ ''</span>'' @ escapeHtml item @ newline @ ''                        </li>''"

definition pitch_intro :: "emailCfg \<Rightarrow> string \<Rightarrow> string \<Rightarrow> outgoing" where
  "pitch_intro e to fullName = mail e to (''Still there? Your conference.contact directory is ready'')
     (heading (first_name fullName @ '', here's what's waiting for you'') @
     paragraph_html (''You created a conference.contact account but haven't unlocked the full Lead Directory yet '' @
     em_dash @
     '' a hand-verified list of who actually shows up to the B2B conference circuit, with real emails, phone numbers, and LinkedIn profiles.'') @
     ctaButton (ec_frontendUrl e @ ''/account/billing'') (''Unlock full access '' @ right_arrow) @
     footnote (''$50 every 6 months, rate locked in for as long as you stay subscribed. Cancel anytime.''))
     (Some (ec_supportEmail e))"

definition pitch_value :: "emailCfg \<Rightarrow> string \<Rightarrow> string \<Rightarrow> outgoing" where
  "pitch_value e to fullName = mail e to (''What you get with full Directory access'')
     (heading (first_name fullName @ '', here's exactly what unlocks'') @
     ''<ul style=\"margin:20px 0 0;padding:0;list-style:none;text-align:left;\">'' @ newline @
     ''                 '' @ concat (map feature_item pitch_features) @ newline @
     ''               </ul>'' @ ctaButton (ec_frontendUrl e @ ''/account/billing'') (''See full access '' @
     right_arrow) @ footnote (''$50 every 6 months. No sales calls, no tiers to compare.''))
     (Some (ec_supportEmail e))"

definition pitch_urgency :: "emailCfg \<Rightarrow> string \<Rightarrow> string \<Rightarrow> outgoing" where
  "pitch_urgency e to fullName = mail e to (''Lock in your rate before it changes'')
     (heading (first_name fullName @ '', your price locks in the moment you subscribe'') @
     paragraph_html (''conference.contact is still $50 every 6 months today. If we ever raise the price, everyone already subscribed keeps the rate they signed up at '' @
     em_dash @ '' so there's no upside to waiting, only downside if pricing changes later.'') @
     ctaButton (ec_frontendUrl e @ ''/account/billing'') (''Lock in $50/6mo '' @ right_arrow) @
     footnote (''No long-term contract '' @ em_dash @ '' cancel anytime.''))
     (Some (ec_supportEmail e))"

definition subscription_confirmed :: "emailCfg \<Rightarrow> string \<Rightarrow> string \<Rightarrow> int \<Rightarrow> time \<Rightarrow> outgoing" where
  "subscription_confirmed e to productLabel amountCents renewsAt = mail e to (''You're subscribed '' @ em_dash @ '' '' @ productLabel @ '' confirmed'')
     (heading (''You're all set'') @ paragraph_html (''Your payment went through and your '' @
     escapeHtml productLabel @ '' plan is active. You were charged '' @ amount_label amountCents @ '' '' @
     em_dash @ '' it renews on <strong>'' @ ec_dateLabel e renewsAt @ ''</strong>.'') @
     ctaButton (ec_frontendUrl e @ ''/account/billing'') (''Manage your plan '' @ right_arrow) @
     footnote (''Questions about your subscription? Just reply to this email.''))
     (Some (ec_supportEmail e))"

definition renewal_reminder :: "emailCfg \<Rightarrow> string \<Rightarrow> string \<Rightarrow> time \<Rightarrow> int \<Rightarrow> outgoing" where
  "renewal_reminder e to productLabel renewalDate amountCents = mail e to (''Your '' @ productLabel @ '' renews in 7 days '' @ em_dash @ '' conference.contact'')
     (heading (''Your subscription renews soon'') @ paragraph_html (''Your '' @ escapeHtml productLabel @
     '' plan renews on <strong>'' @ ec_dateLabel e renewalDate @ ''</strong> '' @ em_dash @
     '' you'll be charged '' @ amount_label amountCents @ ''.'') @
     footnote (''No action needed to continue. Want to stop future billing instead? You can cancel anytime from your account '' @
     em_dash @ '' access stays active through the end of the period you've already paid for.''))
     None"

definition payment_failed :: "emailCfg \<Rightarrow> string \<Rightarrow> string \<Rightarrow> int \<Rightarrow> outgoing" where
  "payment_failed e to productLabel gracePeriodDays = mail e to (''Payment failed on your '' @ productLabel @ '' plan '' @ em_dash @ '' conference.contact'')
     (heading (''We couldn'' @ right_quote @ ''t process your payment'') @
     paragraph_html (''Your card was declined for your '' @ escapeHtml productLabel @
     '' plan. You have <strong>'' @ show_int gracePeriodDays @
     '' days</strong> to update your payment method before access pauses.'') @
     ctaButton (ec_frontendUrl e @ ''/account/billing'') (''Update payment method '' @ right_arrow) @
     footnote (''We'll retry the charge automatically in the meantime '' @ em_dash @
     '' if it goes through, there's nothing else to do.''))
     None"

definition cancellation_scheduled :: "emailCfg \<Rightarrow> string \<Rightarrow> string \<Rightarrow> time \<Rightarrow> outgoing" where
  "cancellation_scheduled e to productLabel accessUntil = mail e to (''Your '' @ productLabel @ '' plan is set to cancel '' @ em_dash @ '' conference.contact'')
     (heading (''Your cancellation is scheduled'') @
     paragraph_html (''We've turned off future billing for your '' @ escapeHtml productLabel @
     '' plan. Your access stays active through <strong>'' @ ec_dateLabel e accessUntil @ ''</strong> '' @
     em_dash @ '' you won't be charged again after that.'') @ ctaButton (ec_frontendUrl e @
     ''/account/billing'') (''Manage your plan '' @ right_arrow) @
     footnote (''Changed your mind? You can resume anytime before that date and keep your access uninterrupted.''))
     (Some (ec_supportEmail e))"

primrec render :: "emailCfg \<Rightarrow> emailJob \<Rightarrow> outgoing option" where
  "render e (WelcomeEmail to fullName) = Some (mail e to (''Welcome to conference.contact'')
     (heading (''Welcome, '' @ first_name fullName) @
     paragraph_html (''Your account is ready. You've got 100 free credits to try AI Lead Finder right away '' @
     em_dash @ '' no subscription needed to start.'') @ ctaButton (ec_frontendUrl e @
     ''/account'') (''Go to your account '' @ right_arrow) @
     footnote (''Questions about getting started? Just reply to this email.''))
     (Some (ec_supportEmail e)))"
| "render e (VerificationEmail to token) = Some (mail e to (''Verify your email '' @ em_dash @ '' conference.contact'')
     (heading (''Verify your email'') @
     paragraph_html (''Confirm your email to finish setting up your conference.contact account.'') @
     ctaButton (ec_frontendUrl e @ ''/verify-email?token='' @
     encodeURIComponent token) (''Verify email '' @ right_arrow) @
     footnote (''This link expires in 24 hours. If you didn't create an account, you can ignore this email.''))
     None)"
| "render e (PasswordResetEmail to token) = Some (mail e to (''Reset your password '' @ em_dash @ '' conference.contact'')
     (heading (''Reset your password'') @
     paragraph_html (''We received a request to reset your conference.contact password.'') @
     ctaButton (ec_frontendUrl e @ ''/reset-password?token='' @
     encodeURIComponent token) (''Reset password '' @ right_arrow) @
     footnote (''This link expires in 1 hour. If you didn't request this, you can ignore this email '' @
     em_dash @ '' your password won't change.''))
     None)"
| "render e (DeviceCodeEmail to code) = Some (mail e to (''Confirm it's you '' @ em_dash @ '' conference.contact'')
     (heading (''Confirm it's you'') @
     paragraph_html (''We noticed a login from a device we don't recognize.'') @
     ''<p style=\"margin:24px 0 0;font-size:32px;font-weight:800;letter-spacing:6px;color:#0b1454;\">'' @
     code @ ''</p>'' @
     footnote (''Enter this code to finish signing in. It expires in 10 minutes. If this wasn't you, change your password immediately.''))
     None)"
| "render e (ContactFormEmail name fromEmail reason message) = Some (mail e (ec_supportEmail e) (''Contact form ('' @ reason_label reason @ ''): '' @ sanitizeForSubject name)
     (heading (''New contact form message'') @
     ''<div style=\"margin-top:20px;text-align:left;font-size:14px;color:#5b5f73;line-height:1.6;\">'' @
     newline @ ''                 <p style=\"margin:0;\"><strong>From:</strong> '' @ escapeHtml name @
     '' ('' @ escapeHtml fromEmail @ '')</p>'' @ newline @
     ''                 <p style=\"margin:8px 0 0;\"><strong>Reason:</strong> '' @
     escapeHtml (reason_label reason) @ ''</p>'' @ newline @
     ''                 <p style=\"margin:16px 0 0;white-space:pre-wrap;\">'' @ escapeHtml message @
     ''</p>'' @ newline @ ''               </div>'')
     (Some fromEmail))"
| "render e (ContactReplyEmail to name originalMessage replyMessage) = Some (mail e to (''Re: your message to conference.contact'')
     (heading (''Hi '' @ first_name name @ '','') @
     ''<div style=\"margin-top:16px;text-align:left;font-size:15px;color:#5b5f73;line-height:1.6;white-space:pre-wrap;\">'' @
     escapeHtml replyMessage @ ''</div>'' @
     ''<div style=\"margin-top:28px;padding-top:20px;border-top:1px solid #e2e2e7;text-align:left;\">'' @
     newline @
     ''                 <p style=\"margin:0;font-size:12px;font-weight:700;color:#9395a6;text-transform:uppercase;letter-spacing:0.03em;\">Your original message</p>'' @
     newline @
     ''                 <p style=\"margin:8px 0 0;font-size:13px;color:#9395a6;line-height:1.6;white-space:pre-wrap;\">'' @
     escapeHtml originalMessage @ ''</p>'' @ newline @ ''               </div>'' @
     footnote (''Questions? Just reply to this email.''))
     (Some (ec_supportEmail e)))"
| "render e (SubscriptionConfirmedEmail to productLabel amountCents renewsAt) = Some (subscription_confirmed e to productLabel amountCents renewsAt)"
| "render e (AdminAccessInviteEmail to directory leadFinder) = Some (mail e to (''You've been invited to conference.contact'')
     (heading (''You've been invited to conference.contact'') @
     paragraph_html (perks_text directory leadFinder) @ ctaButton (ec_frontendUrl e @ ''/signup?email='' @
     encodeURIComponent to) (''Create your account '' @ right_arrow) @
     footnote (''Questions? Just reply to this email.''))
     (Some (ec_supportEmail e)))"
| "render e (InviteEmail to inviterName) = Some (mail e to (escapeHtml inviterName @ '' invited you to conference.contact'')
     (heading (escapeHtml inviterName @ '' invited you to conference.contact'') @
     paragraph_html (''A hand-verified directory of B2B conference contacts, with an AI tool that finds and enriches new leads live.'') @
     ctaButton (ec_frontendUrl e @ ''/signup?email='' @ encodeURIComponent to) (''Create your account '' @
     right_arrow) @
     footnote (''Full Access is $50 every 6 months, rate locked in, whenever you're ready to subscribe.''))
     None)"
| "render e (RenewalReminderEmail to productLabel renewalDate amountCents) = Some (renewal_reminder e to productLabel renewalDate amountCents)"
| "render e (PaymentFailedEmail to productLabel gracePeriodDays) = Some (payment_failed e to productLabel gracePeriodDays)"
| "render e (CancellationScheduledEmail to productLabel accessUntil) = Some (cancellation_scheduled e to productLabel accessUntil)"
| "render e (ProspectPitchEmail template to fullName) =
     (if template = ''intro'' then Some (pitch_intro e to fullName)
      else if template = ''value'' then Some (pitch_value e to fullName)
      else if template = ''urgency'' then Some (pitch_urgency e to fullName)
      else None)"

definition compliance_footer :: "string \<Rightarrow> string \<Rightarrow> string" where
  "compliance_footer unsubscribeLink mailingAddress =
     ''<p style=\"text-align:center;margin-top:12px;font-size:12px;color:#9395a6;\">'' @ newline @
     ''               <a href=\"'' @ unsubscribeLink @
     ''\" style=\"color:#9395a6;text-decoration:underline;\">Unsubscribe</a> from emails like this.'' @
     newline @ ''             </p>'' @ newline @
     ''             <p style=\"text-align:center;margin-top:8px;font-size:11px;color:#b3b5c2;\">'' @
     escapeHtml mailingAddress @ ''</p>''"

section \<open>The workers\<close>

text \<open>
  A failed send is an error with this message, which makes BullMQ retry the job; a job of an unknown name is logged
  and dropped.
\<close>

definition send_mail :: "(outgoing \<Rightarrow> string option) \<Rightarrow> outgoing \<Rightarrow> string + outgoing" where
  "send_mail resend m = (case resend m of None \<Rightarrow> Inr m
     | Some msg \<Rightarrow> Inl (''Resend error sending '' @ [CHR 0x22] @ og_subject m @ [CHR 0x22] @ '' to '' @ og_to m @ '': '' @ msg))"

definition process_email :: "emailCfg \<Rightarrow> (outgoing \<Rightarrow> string option) \<Rightarrow> emailJob \<Rightarrow> string + outgoing option" where
  "process_email e resend job = (case render e job of None \<Rightarrow> Inr None
     | Some m \<Rightarrow> map_sum id Some (send_mail resend m))"

definition unsubscribe_link :: "emailCfg \<Rightarrow> string \<Rightarrow> string" where
  "unsubscribe_link e to =
     ec_frontendUrl e @ ''/unsubscribe?email='' @ encodeURIComponent to @ ''&token=''
     @ encodeURIComponent (signUnsubscribeToken (ec_hmac e) to (ec_unsubscribeSecret e))"

definition cold_invite :: "emailCfg \<Rightarrow> campaignSettings option \<Rightarrow> string \<Rightarrow> outgoing" where
  "cold_invite e settings to =
     (let field = (\<lambda>f d. nullish (Option.bind settings f) d);
          link = ec_frontendUrl e @ ''/invited?email='' @ encodeURIComponent to;
          stop = unsubscribe_link e to
      in \<lparr>og_from = ec_from e, og_to = to,
          og_subject = sanitizeForSubject (field cs_emailSubject DEFAULT_SUBJECT),
          og_html = renderEmail
            (heading (escapeHtml (field cs_emailHeading DEFAULT_HEADING))
             @ paragraph_html (escapeHtml (field cs_emailBody DEFAULT_BODY))
             @ ctaButton link (escapeHtml (field cs_emailCtaLabel DEFAULT_CTA_LABEL))
             @ footnote (escapeHtml (field cs_emailFootnote DEFAULT_FOOTNOTE)))
            (Some (compliance_footer stop (field cs_emailMailingAddress (ec_defaultMailingAddress e)))),
          og_replyTo = Some (ec_supportEmail e),
          og_headers = [(''List-Unsubscribe'', ''<'' @ stop @ ''>''),
                        (''List-Unsubscribe-Post'', ''List-Unsubscribe=One-Click'')]\<rparr>)"

definition process_bulk :: "emailCfg \<Rightarrow> (outgoing \<Rightarrow> string option) \<Rightarrow> string \<Rightarrow> world \<Rightarrow> string + outgoing" where
  "process_bulk e resend to w = send_mail resend (cold_invite e (campaign w) to)"

end
