(* ===== verification/EmailProperties.thy ===== *)
theory EmailProperties
  imports Complex_Main "HOL-Library.Sublist" Email CampaignProperties
begin

text \<open>
  What the mails of \<open>email.processor.ts\<close> and \<open>bulk-email.processor.ts\<close> guarantee: user text cannot change the tags
  of a mail, links carry their parameters unharmed, and a cold mail can always be answered by opting out.
\<close>

section \<open>Escaping\<close>

definition markup :: "char \<Rightarrow> bool" where
  "markup c \<longleftrightarrow> c \<in> {CHR ''<'', CHR ''>'', CHR 0x22}"

definition entity :: "char \<Rightarrow> string" where
  "entity c = (if c = CHR ''&'' then ''&amp;'' else if c = CHR ''<'' then ''&lt;'' else if c = CHR ''>'' then ''&gt;''
     else if c = CHR 0x22 then ''&quot;'' else if c = CHR 0x27 then ''&#39;'' else [c])"

lemma escapeHtml_entities: "escapeHtml s = concat (map entity s)"
  by (induction s) (auto simp: escapeHtml_def replace_char_def entity_def)

lemma entity_prefix_free: "entity c @ xs = entity d @ ys \<Longrightarrow> c = d \<and> xs = ys"
  by (auto simp: entity_def split: if_splits)

lemma entity_nonempty: "entity c \<noteq> []"
  by (simp add: entity_def)

lemma escapeHtml_inj: "escapeHtml s = escapeHtml t \<Longrightarrow> s = t"
  unfolding escapeHtml_entities
proof (induction s arbitrary: t)
  case Nil
  then show ?case using entity_nonempty by (cases t) auto
next
  case (Cons c s)
  obtain d t' where t: "t = d # t'" using Cons.prems entity_nonempty [of c] by (cases t) simp_all
  with Cons.prems have "entity c @ concat (map entity s) = entity d @ concat (map entity t')" by simp
  from entity_prefix_free [OF this] Cons.IH show ?case by (simp add: t)
qed

lemma markup_entity: "filter markup (entity c) = []"
  by (simp add: entity_def markup_def)

lemma markup_escapeHtml: "filter markup (escapeHtml s) = []"
  by (induction s) (simp_all add: escapeHtml_entities markup_entity)

section \<open>URI components\<close>

definition hex_value :: "char \<Rightarrow> nat" where
  "hex_value c = length (takeWhile (\<lambda>d. d \<noteq> c) hex_digits)"

fun percent_decode :: "string \<Rightarrow> string" where
  "percent_decode [] = []"
| "percent_decode (c # xs) = (if c = CHR ''%''
     then (case xs of a # b # rest \<Rightarrow> char_of (16 * hex_value a + hex_value b) # percent_decode rest | _ \<Rightarrow> [])
     else c # percent_decode xs)"

lemma hex_value_digit: "n < 16 \<Longrightarrow> hex_value (hex_digits ! n) = n"
proof -
  have "\<forall>n \<in> set [0..<16]. hex_value (hex_digits ! n) = n" by code_simp
  then show "n < 16 \<Longrightarrow> hex_value (hex_digits ! n) = n" by simp
qed

lemma hex_digit_set: "n < 16 \<Longrightarrow> hex_digits ! n \<in> set hex_digits"
  by (rule nth_mem) (simp add: hex_digits_def)

lemma of_char_16: "(of_char (c :: char) :: nat) div 16 < 16"
  by (rule less_mult_imp_div_less) simp

lemma percent_roundtrip: "percent_decode (percent c @ xs) = c # percent_decode xs"
  by (simp add: percent_def hex_value_digit of_char_16)

lemma percent_plain: "unreserved c \<Longrightarrow> c \<noteq> CHR ''%''"
  by (auto simp: unreserved_def char_within_def)

lemma percent_decode_encode: "percent_decode (encodeURIComponent s) = s"
  by (induction s) (simp_all add: encodeURIComponent_def percent_roundtrip percent_plain)

lemma encoded_chars: "c \<in> set (encodeURIComponent s) \<Longrightarrow> unreserved c \<or> c = CHR ''%'' \<or> c \<in> set hex_digits"
  by (auto simp: encodeURIComponent_def percent_def hex_digit_set of_char_16 split: if_splits)


text \<open>What a page reads from the query of a link: the pairs, percent-decoded.\<close>

definition link_params :: "string \<Rightarrow> (string \<times> string) list" where
  "link_params link = map (\<lambda>p. (takeWhile (\<lambda>c. c \<noteq> CHR ''='') p, percent_decode (tl (dropWhile (\<lambda>c. c \<noteq> CHR ''='') p))))
     (js_split CHR ''&'' (tl (dropWhile (\<lambda>c. c \<noteq> CHR ''?'') link)))"

lemma encoded_no_separator: "CHR ''&'' \<notin> set (encodeURIComponent s)" "CHR ''='' \<notin> set (encodeURIComponent s)"
  by (auto dest!: encoded_chars simp: unreserved_def char_within_def hex_digits_def)

lemma markup_encode: "filter markup (encodeURIComponent s) = []"
  unfolding filter_empty_conv
  by (auto dest!: encoded_chars simp: markup_def unreserved_def char_within_def hex_digits_def)

lemma dropWhile_to: "c \<notin> set xs \<Longrightarrow> dropWhile (\<lambda>x. x \<noteq> c) (xs @ c # ys) = c # ys"
  by (induction xs) auto

lemma js_split_pair: "c \<notin> set a \<Longrightarrow> c \<notin> set b \<Longrightarrow> js_split c (a @ c # b) = [a, b]"
  by (simp add: js_split_append js_split_plain)

lemma link_params_unsubscribe:
  assumes "CHR ''?'' \<notin> set (ec_frontendUrl e)"
  shows "link_params (unsubscribe_link e to)
    = [(''email'', to), (''token'', signUnsubscribeToken (ec_hmac e) to (ec_unsubscribeSecret e))]"
proof -
  let ?t = "encodeURIComponent (signUnsubscribeToken (ec_hmac e) to (ec_unsubscribeSecret e))"
  let ?q = "''email='' @ encodeURIComponent to"
  have path: "CHR ''?'' \<notin> set (ec_frontendUrl e @ ''/unsubscribe'')" using assms by simp
  have "unsubscribe_link e to = (ec_frontendUrl e @ ''/unsubscribe'') @ CHR ''?'' # (?q @ CHR ''&'' # ''token='' @ ?t)"
    by (simp add: unsubscribe_link_def)
  then have query: "tl (dropWhile (\<lambda>c. c \<noteq> CHR ''?'') (unsubscribe_link e to)) = ?q @ CHR ''&'' # ''token='' @ ?t"
    by (simp only: dropWhile_to [OF path] list.sel)
  have "CHR ''&'' \<notin> set ?q" "CHR ''&'' \<notin> set (''token='' @ ?t)" by (simp_all add: encoded_no_separator)
  then have "js_split CHR ''&'' (?q @ CHR ''&'' # ''token='' @ ?t) = [?q, ''token='' @ ?t]"
    by (rule js_split_pair)
  with query show ?thesis by (simp add: link_params_def percent_decode_encode)
qed


section \<open>Properties\<close>

text \<open>
  Escaping is one pass over the text, whatever the order of the five replacements, loses nothing, and
  leaves no tag bracket and no double quote.
\<close>

theorem escape_is_one_pass:
  "escapeHtml s = concat (map entity s) \<and> inj escapeHtml \<and> filter markup (escapeHtml s) = []"
  by (simp add: escapeHtml_entities [symmetric] markup_escapeHtml injI escapeHtml_inj)

text \<open>The same job with every text a user chose emptied.\<close>

primrec blank :: "emailJob \<Rightarrow> emailJob" where
  "blank (WelcomeEmail to n) = WelcomeEmail [] []"
| "blank (VerificationEmail to t) = VerificationEmail [] []"
| "blank (PasswordResetEmail to t) = PasswordResetEmail [] []"
| "blank (DeviceCodeEmail to c) = DeviceCodeEmail [] []"
| "blank (ContactFormEmail n f r m) = ContactFormEmail [] [] r []"
| "blank (ContactReplyEmail to n q r) = ContactReplyEmail [] [] [] []"
| "blank (SubscriptionConfirmedEmail to p a t) = SubscriptionConfirmedEmail [] [] a t"
| "blank (AdminAccessInviteEmail to d l) = AdminAccessInviteEmail [] d l"
| "blank (ProspectPitchEmail k to n) = ProspectPitchEmail k [] []"
| "blank (InviteEmail to n) = InviteEmail [] []"
| "blank (RenewalReminderEmail to p t a) = RenewalReminderEmail [] [] t a"
| "blank (PaymentFailedEmail to p g) = PaymentFailedEmail [] [] g"
| "blank (CancellationScheduledEmail to p t) = CancellationScheduledEmail [] [] t"

fun device_code_ok :: "emailJob \<Rightarrow> bool" where
  "device_code_ok (DeviceCodeEmail to c) = list_all (\<lambda>x. char_within CHR ''0'' CHR ''9'' x) c"
| "device_code_ok _ = True"

lemma markup_first_name: "filter markup (first_name n) = []"
  by (simp add: first_name_def markup_escapeHtml)

lemma markup_digits: "list_all (\<lambda>x. char_within CHR ''0'' CHR ''9'' x) c \<Longrightarrow> filter markup c = []"
  by (auto simp: filter_empty_conv list_all_iff markup_def char_within_def)

definition same_markup :: "string \<Rightarrow> string \<Rightarrow> bool" where
  "same_markup s t \<longleftrightarrow> filter markup s = filter markup t"

named_theorems same_markup \<open>the templates keep the markup of their arguments\<close>

lemma same_markup_refl [same_markup]: "same_markup s s"
  by (simp add: same_markup_def)

lemma same_markup_append [same_markup]: "same_markup a a' \<Longrightarrow> same_markup b b' \<Longrightarrow> same_markup (a @ b) (a' @ b')"
  by (simp add: same_markup_def)

lemma same_markup_text [same_markup]:
  "same_markup (escapeHtml s) (escapeHtml t)" "same_markup (encodeURIComponent s) (encodeURIComponent t)"
  "same_markup (first_name s) (first_name t)"
  by (simp_all add: same_markup_def markup_escapeHtml markup_encode markup_first_name)

lemma same_markup_template [same_markup]:
  "same_markup a b \<Longrightarrow> same_markup (heading a) (heading b)"
  "same_markup a b \<Longrightarrow> same_markup (paragraph_html a) (paragraph_html b)"
  "same_markup a b \<Longrightarrow> same_markup (footnote a) (footnote b)"
  "same_markup a b \<Longrightarrow> same_markup c d \<Longrightarrow> same_markup (ctaButton a c) (ctaButton b d)"
  unfolding heading_def paragraph_html_def footnote_def ctaButton_def
  by (intro same_markup_append same_markup_refl; assumption)+

lemma same_markup_mail [same_markup]:
  "same_markup a b \<Longrightarrow> same_markup (og_html (mail e to s a r)) (og_html (mail e to' s' b r'))"
  unfolding mail_def renderEmail_def outgoing.simps
  by (intro same_markup_append same_markup_refl)

lemma same_markup_pitch [same_markup]:
  "same_markup (og_html (pitch_intro e to n)) (og_html (pitch_intro e to' n'))"
  "same_markup (og_html (pitch_value e to n)) (og_html (pitch_value e to' n'))"
  "same_markup (og_html (pitch_urgency e to n)) (og_html (pitch_urgency e to' n'))"
  unfolding pitch_intro_def pitch_value_def pitch_urgency_def by (intro same_markup)+

lemma same_markup_billing [same_markup]:
  "same_markup (og_html (subscription_confirmed e to p a t)) (og_html (subscription_confirmed e to' p' a t))"
  "same_markup (og_html (renewal_reminder e to p t a)) (og_html (renewal_reminder e to' p' t a))"
  "same_markup (og_html (payment_failed e to p g)) (og_html (payment_failed e to' p' g))"
  "same_markup (og_html (cancellation_scheduled e to p t)) (og_html (cancellation_scheduled e to' p' t))"
  unfolding subscription_confirmed_def renewal_reminder_def payment_failed_def cancellation_scheduled_def
  by (intro same_markup)+

lemma render_blank:
  assumes "device_code_ok job"
  shows "rel_option (\<lambda>m m0. same_markup (og_html m) (og_html m0)) (render e job) (render e (blank job))"
proof (cases job)
  case (DeviceCodeEmail to c)
  with assms have "same_markup c []" by (simp add: same_markup_def markup_digits)
  then show ?thesis unfolding DeviceCodeEmail blank.simps render.simps option.rel_inject
    by (intro same_markup) assumption?
next
  case (ProspectPitchEmail k to n)
  then show ?thesis by (simp add: same_markup_pitch)
qed (simp_all only: blank.simps render.simps option.rel_inject, (intro same_markup)+)

text \<open>
  C32: nobody can inject markup into a mail. Take any job the services put on the mail queue, with any names,
  messages, labels, addresses and tokens (a device code consists of digits): the brackets and quotes of the rendered
  page are, one by one, those of the page with all these texts empty, so no tag or attribute is added, closed or opened.
\<close>

theorem no_markup_injection:
  assumes "render e job = Some m" and "device_code_ok job"
  shows "\<exists>m0. render e (blank job) = Some m0 \<and> filter markup (og_html m) = filter markup (og_html m0)"
  using render_blank [OF assms(2), of e] assms(1)
  by (cases "render e (blank job)") (simp_all add: same_markup_def)


definition sample_mail :: emailCfg where
  "sample_mail = \<lparr>ec_from = ''hello@x.com'', ec_frontendUrl = ''https://x.com'', ec_supportEmail = ''help@x.com'',
     ec_dateLabel = (\<lambda>_. ''today''), ec_unsubscribeSecret = ''k'', ec_hmac = (\<lambda>k s. k @ s),
     ec_defaultMailingAddress = ''1 Street''\<rparr>"

theorem no_markup_injection_witness:
  "\<exists>m m0. render sample_mail (DeviceCodeEmail ''a@x.com'' ''123456'') = Some m
     \<and> render sample_mail (DeviceCodeEmail [] []) = Some m0 \<and> filter markup (og_html m) = filter markup (og_html m0)"
proof -
  obtain m where m: "render sample_mail (DeviceCodeEmail ''a@x.com'' ''123456'') = Some m" by simp
  have "device_code_ok (DeviceCodeEmail ''a@x.com'' ''123456'')" by (simp add: char_within_def)
  from no_markup_injection [OF m this] m show ?thesis by (simp only: blank.simps) blast
qed

lemma sublist_after: "sublist p s \<Longrightarrow> sublist p (x @ s)"
  unfolding sublist_def by (metis append_assoc)

lemma sublist_before: "sublist p s \<Longrightarrow> sublist p (s @ x)"
  unfolding sublist_def by (metis append_assoc)

lemma sublist_renderEmail: "sublist p foot \<Longrightarrow> sublist p (renderEmail body (Some foot))"
proof -
  assume "sublist p foot"
  then have here: "sublist p (foot @ rest)" for rest by (rule sublist_before)
  show "sublist p (renderEmail body (Some foot))"
    unfolding renderEmail_def nullish_simps by (intro here sublist_after)
qed

lemma sublist_footer: "sublist (''<a href=\"'' @ link @ ''\"'') (compliance_footer link addr)"
proof -
  have here: "sublist (''<a href=\"'' @ link @ ''\"'') (''               <a href=\"'' @ link @
     ''\" style=\"color:#9395a6;text-decoration:underline;\">Unsubscribe</a> from emails like this.'' @ rest)" for rest
    unfolding sublist_def
    by (intro exI [of _ "''               ''"] exI [of _ "'' style=\"color:#9395a6;text-decoration:underline;\">Unsubscribe</a> from emails like this.'' @ rest"]) simp
  show ?thesis unfolding compliance_footer_def by (intro here [unfolded append_assoc] sublist_after)
qed

lemma clean_subject: "filter control_char (sanitizeForSubject s) = []"
proof -
  have "set (trim xs) \<subseteq> set xs" for xs
    using set_dropWhileD [of _ js_space "rev (dropWhile js_space xs)"] set_dropWhileD [of _ js_space xs]
    by (auto simp: trim_def)
  moreover have "\<not> control_char (CHR '' '')" by (simp add: control_char_def)
  ultimately show ?thesis by (fastforce simp: sanitizeForSubject_def filter_empty_conv)
qed

text \<open>
  C30: every cold mail can be answered by opting out. The mail the bulk worker sends names the same link in the
  \<open>List-Unsubscribe\<close> header and in a link of its body; the address and the token a page reads from that link are the
  ones the worker wrote, whatever characters they have; and presenting them suppresses the address, in
  whatever state the database then is. The subject has no control character, whatever template was saved.
\<close>

theorem cold_mail_opts_out:
  assumes sent: "process_bulk e resend to w = Inr m" and url: "CHR ''?'' \<notin> set (ec_frontendUrl e)"
  shows "\<exists>link token. link_params link = [(''email'', to), (''token'', token)]
    \<and> (''List-Unsubscribe'', ''<'' @ link @ ''>'') \<in> set (og_headers m)
    \<and> sublist (''<a href=\"'' @ link @ ''\"'') (og_html m)
    \<and> (\<forall>w'. unsubscribe (ec_hmac e) (ec_unsubscribeSecret e) to token w'
          = (Inr (toLowerCase (trim to) @ '' has been unsubscribed.''), suppress (toLowerCase (trim to)) w'))
    \<and> filter control_char (og_subject m) = []"
proof -
  let ?link = "unsubscribe_link e to" and ?token = "signUnsubscribeToken (ec_hmac e) to (ec_unsubscribeSecret e)"
  have m: "m = cold_invite e (campaign w) to" using sent by (simp add: process_bulk_def send_mail_def split: option.splits)
  have headers: "(''List-Unsubscribe'', ''<'' @ ?link @ ''>'') \<in> set (og_headers m)"
    by (simp add: m cold_invite_def Let_def)
  have "sublist (''<a href=\"'' @ ?link @ ''\"'') (og_html m)"
    unfolding m cold_invite_def Let_def outgoing.simps by (intro sublist_renderEmail sublist_footer)
  moreover have "unsubscribe (ec_hmac e) (ec_unsubscribeSecret e) to ?token w'
      = (Inr (toLowerCase (trim to) @ '' has been unsubscribed.''), suppress (toLowerCase (trim to)) w')" for w'
    by (simp add: unsubscribe_def verifyUnsubscribeToken_def signUnsubscribeToken_def Let_def trim_toLowerCase)
  moreover have "filter control_char (og_subject m) = []" by (simp add: m cold_invite_def Let_def clean_subject)
  ultimately show ?thesis using headers link_params_unsubscribe [OF url] by blast
qed


theorem cold_mail_opts_out_witness:
  "filter control_char (og_subject (cold_invite sample_mail None ''bob@x.com'')) = []
   \<and> (\<exists>link token. link_params link = [(''email'', ''bob@x.com''), (''token'', token)]
        \<and> (''List-Unsubscribe'', ''<'' @ link @ ''>'') \<in> set (og_headers (cold_invite sample_mail None ''bob@x.com'')))"
proof -
  have sent: "process_bulk sample_mail (\<lambda>_. None) ''bob@x.com'' campaign_world = Inr (cold_invite sample_mail None ''bob@x.com'')"
    by (simp add: process_bulk_def send_mail_def campaign_sample_defs)
  have url: "CHR ''?'' \<notin> set (ec_frontendUrl sample_mail)" by (simp add: sample_mail_def)
  show ?thesis using cold_mail_opts_out [OF sent url] by blast
qed

text \<open>
  A subject takes user text in two ways. The sender's name in the subject of a contact mail is cleared of
  control characters. The inviter's name in the subject of an invitation is escaped as if the subject were HTML:
  O'Brien's colleague reads \<open>O&#39;Brien invited you\<close>, and every control character of the name, line breaks included,
  stays in the header.
\<close>

theorem invite_subject_not_sanitized:
  "map_option (\<lambda>m. filter control_char (og_subject m)) (render e (ContactFormEmail name from' reason message)) = Some []
   \<and> map_option og_subject (render e (InviteEmail to name)) = Some (concat (map entity name) @ '' invited you to conference.contact'')
   \<and> map_option (\<lambda>m. filter control_char (og_subject m)) (render e (InviteEmail to name)) = Some (filter control_char name)
   \<and> map_option og_subject (render e (InviteEmail to (''O'' @ [CHR 0x27] @ ''Brien'')))
       = Some ''O&#39;Brien invited you to conference.contact''"
proof -
  have "filter control_char (entity c) = filter control_char [c]" for c
    by (simp add: entity_def control_char_def)
  then have kept: "filter control_char (escapeHtml s) = filter control_char s" for s
    by (induction s) (simp_all add: escapeHtml_entities)
  have literals: "filter control_char ''Contact form ('' = []" "filter control_char ''): '' = []"
    "filter control_char '' invited you to conference.contact'' = []"
    "escapeHtml (''O'' @ [CHR 0x27] @ ''Brien'') = ''O&#39;Brien''" by code_simp+
  have "filter control_char (reason_label reason) = []" by (cases reason) (simp_all only: reason_label.simps, code_simp+)
  then show ?thesis
    unfolding render.simps option.map mail_def outgoing.simps filter_append clean_subject kept literals
      escapeHtml_entities [symmetric] by simp
qed

end
