(* ===== verification/System.thy ===== *)
theory System
  imports Complex_Main AdminProperties Renewal AdminReportProperties CampaignProperties
begin

text \<open>
  The whole backend as one step relation: the requests of customers and administrators, the billing
  webhooks, the campaign, the scheduled jobs and the search worker. Every step keeps
  \<open>system_inv\<close>: the account tables in order, at most one live subscription of each kind per account,
  unique prospects and invitations.
\<close>

section \<open>The business tables\<close>

text \<open>The tables of subscriptions and prospects, which most operations never write.\<close>

definition shop :: "world \<Rightarrow> subscription list \<times> leadFinderSubscription list \<times> prospectInvite list" where
  "shop w = (subscriptions w, leadFinderSubscriptions w, prospectInviteQueue w)"

lemma shop_writes [simp]:
  "shop (audit_record q e w) = shop w"
  "shop (enqueue q j w) = shop w"
  "shop (revokeUser c q i w) = shop w"
  "shop (update_user i f w) = shop w"
  "shop (w\<lparr>verificationTokens := vts\<rparr>) = shop w"
  "shop (w\<lparr>stripeCalls := calls\<rparr>) = shop w"
  "shop (w\<lparr>leads := ls\<rparr>) = shop w"
  "shop (w\<lparr>leadSearchJobs := jobs\<rparr>) = shop w"
  "shop (w\<lparr>leadSearchResults := rows\<rparr>) = shop w"
  "shop (w\<lparr>apolloQueue := ajs\<rparr>) = shop w"
  "shop (w\<lparr>contactMessages := ms\<rparr>) = shop w"
  "shop (w\<lparr>consentRecords := crs\<rparr>) = shop w"
  "shop (w\<lparr>adminAccessInvites := ais\<rparr>) = shop w"
  "shop (w\<lparr>invites := ivs\<rparr>) = shop w"
  "shop (w\<lparr>users := us\<rparr>) = shop w"
  "shop (w\<lparr>campaign := cs\<rparr>) = shop w"
  "shop (w\<lparr>redis := r\<rparr>) = shop w"
  "shop (w\<lparr>bulkEmailQueue := b\<rparr>) = shop w"
  "shop (w\<lparr>emailSuppressions := es\<rparr>) = shop w"
  "shop (w\<lparr>sessions := ss\<rparr>) = shop w"
  "shop (w\<lparr>devices := ds\<rparr>) = shop w"
  by (simp_all add: shop_def revokeUser_def redis_setEx_def update_user_def audit_record_def enqueue_def)

lemma shop_sessions [simp]:
  "shop (update_sessions p f w) = shop w"
  "shop (update_devices dp df w) = shop w"
  "shop (revokeAllForUser q i w) = shop w"
  "shop (revoke q i w) = shop w"
  "shop (enforceLimit c q i w) = shop w"
  "shop (snd (create_session c q ci w)) = shop w"
  "shop (snd (findOrCreateDevice q k fp dd w)) = shop w"
  "shop (snd (registerChallengeAttempt c q tok ttl w)) = shop w"
  "shop (snd (registerFailedLogin c q i w)) = shop w"
proof -
  show a: "shop (update_sessions p f w) = shop w" "shop (update_devices dp df w) = shop w" for p f dp df w
    by (simp_all add: update_sessions_def update_devices_def)
  show "shop (revokeAllForUser q i w) = shop w" "shop (revoke q i w) = shop w" "shop (enforceLimit c q i w) = shop w"
    by (simp_all add: revokeAllForUser_def revoke_def enforceLimit_active a)
  show "shop (snd (create_session c q ci w)) = shop w"
    by (simp add: create_session_def Let_def)
  show "shop (snd (findOrCreateDevice q k fp dd w)) = shop w"
    by (simp add: findOrCreateDevice_def Let_def a split: option.splits)
  show "shop (snd (registerChallengeAttempt c q tok ttl w)) = shop w"
    by (simp add: registerChallengeAttempt_def redis_count_def redis_incr_def redis_expire_def Let_def split: option.splits)
  show "shop (snd (registerFailedLogin c q i w)) = shop w"
    by (simp add: registerFailedLogin_def Let_def split: option.splits)
qed

lemma shop_pair: "shop (snd (f w)) = shop w \<Longrightarrow> f w = (r, w1) \<Longrightarrow> shop w1 = shop w"
  by simp

lemma shop_rotate [simp]: "shop (snd (rotate_session c q s ip w)) = shop w"
  using shop_sessions(6) [of c q "rotation_input s ip" w]
  by (cases "create_session c q (rotation_input s ip) w") (auto simp: rotate_session_def split: sum.splits)

lemma shop_issue [simp]: "shop (snd (issueTokenPair c q i d meta n w)) = shop w"
proof (cases "findById i w")
  case (Some u)
  let ?in = "login_session_input c u d meta (login_risk c q u meta n w)"
  show ?thesis
    using shop_sessions(6) [of c q ?in "enforceLimit c q (u_id u) w"]
    by (cases "create_session c q ?in (enforceLimit c q (u_id u) w)")
      (auto simp: issueTokenPair_def Some Let_def updateLastLogin_def split: sum.splits)
qed (simp add: issueTokenPair_def)

lemma shop_tokens [simp]:
  "shop (snd (issueVerificationToken c q i e p w)) = shop w"
  "shop (snd (consumeVerificationToken c q tok p w)) = shop w"
  by (auto simp: issueVerificationToken_def consumeVerificationToken_def Let_def split: option.splits)

lemma shop_login [simp]: "shop (snd (login c q email pw meta w)) = shop w"
proof (cases "findByEmail email w")
  case (Some u)
  let ?fd = "findOrCreateDevice q (u_id u) (hashDeviceId c (rm_rawDeviceId meta))
      (describeUserAgent c (rm_userAgent meta)) (resetFailedLogins (u_id u) w)"
  have "shop (snd ?fd) = shop w" by (simp add: resetFailedLogins_def)
  then show ?thesis
    by (cases ?fd) (auto simp: login_def Some Let_def login_failed_def new_device_challenge_def
        case_prod_beta snd_result_map split: sum.splits)
qed (simp add: login_def)

lemma shop_verifyLogin [simp]: "shop (snd (verifyLogin c q tok code meta w)) = shop w"
  using shop_sessions(8) [of c q tok "LOGIN_CHALLENGE_EXPIRY_MINUTES * 60" w]
  by (cases "registerChallengeAttempt c q tok (LOGIN_CHALLENGE_EXPIRY_MINUTES * 60) w")
    (auto simp: verifyLogin_def markEmailVerified_def split: option.splits jwtPayload.splits sum.splits bool.splits)

lemma shop_refresh_with [simp]: "shop (snd (refresh_with c q s meta w)) = shop w"
  using shop_rotate [of c q s "rm_ipAddress meta" w]
  by (cases "rotate_session c q s (rm_ipAddress meta) w")
    (auto simp: refresh_with_def split: option.splits sum.splits)

lemma shop_refresh [simp]: "shop (snd (refresh c q tok meta w)) = shop w"
  by (auto simp: refresh_def reuse_response_def split: option.splits)

lemma shop_auth_handlers [simp]:
  "shop (snd (register c q rdto meta w)) = shop w"
  "shop (snd (verifyEmail c q tok w)) = shop w"
  "shop (logout c q tok w) = shop w"
  "shop (logoutAll c q i w) = shop w"
  "shop (snd (forgotPassword c q email w)) = shop w"
  "shop (snd (resetPassword c q tok pw w)) = shop w"
  "shop (snd (start2fa c q i w)) = shop w"
  "shop (snd (confirm2fa c q i code w)) = shop w"
  "shop (snd (disable2fa c q i pw w)) = shop w"
  "shop (snd (exportData q i w)) = shop w"
proof -
  have ins: "shop w1 = shop w" if "insert_user u w = Inr w1" for u w1
    using that by (auto simp: insert_user_def split: if_splits)
  have "shop (accept_admin_invite q ai v) = shop v" for ai v
    by (simp add: accept_admin_invite_def split: option.splits)
  then show "shop (snd (register c q rdto meta w)) = shop w"
    by (auto simp: register_def Let_def ins split: option.splits sum.splits)
  show "shop (snd (verifyEmail c q tok w)) = shop w"
    using shop_tokens(2) [of c q tok EMAIL_VERIFICATION w]
    by (cases "consumeVerificationToken c q tok EMAIL_VERIFICATION w")
      (auto simp: verifyEmail_def markEmailVerified_def split: sum.splits)
  show "shop (snd (resetPassword c q tok pw w)) = shop w"
    using shop_tokens(2) [of c q tok PASSWORD_RESET w]
    by (cases "consumeVerificationToken c q tok PASSWORD_RESET w")
      (auto simp: resetPassword_def updatePasswordHash_def Let_def split: sum.splits)
  show "shop (snd (forgotPassword c q email w)) = shop w"
  proof (cases "findByEmail email w")
    case (Some u)
    then show ?thesis
      using shop_tokens(1) [of c q "u_id u" "u_email u" PASSWORD_RESET w]
      by (cases "issueVerificationToken c q (u_id u) (u_email u) PASSWORD_RESET w")
        (auto simp: forgotPassword_def split: sum.splits)
  qed (simp add: forgotPassword_def)
qed (auto simp: logout_def logoutAll_def start2fa_def confirm2fa_def disable2fa_def exportData_def
    user_update_defs Let_def split: option.splits)

lemma shop_devices [simp]:
  "shop (snd (trustDevice c q i d w)) = shop w"
  "shop (snd (removeDevice q i d w)) = shop w"
proof -
  have "shop (snd (trust c q i d w)) = shop w"
    by (rule trust_cases [of c q i d w]) auto
  then show "shop (snd (trustDevice c q i d w)) = shop w"
    by (cases "trust c q i d w") (auto simp: trustDevice_def split: sum.splits)
  have "shop (snd (remove_device q i d w)) = shop w"
    by (auto simp: remove_device_def Let_def split: option.splits)
  then show "shop (snd (removeDevice q i d w)) = shop w"
    by (cases "remove_device q i d w") (auto simp: removeDevice_def split: sum.splits)
qed

text \<open>Erasing an account only ever ends a subscription of its own.\<close>

lemma deleteAccount_shop:
  "leadFinderSubscriptions (snd (deleteAccount c q i pw w)) = leadFinderSubscriptions w"
  "prospectInviteQueue (snd (deleteAccount c q i pw w)) = prospectInviteQueue w"
  "\<exists>p. subscriptions (snd (deleteAccount c q i pw w)) = updateMany p cancel_subscription_row (subscriptions w)"
proof -
  have none: "\<exists>p. rows = updateMany p cancel_subscription_row rows" for rows
    by (rule exI [of _ "\<lambda>_. False"]) (simp add: updateMany_noop)
  show "leadFinderSubscriptions (snd (deleteAccount c q i pw w)) = leadFinderSubscriptions w"
    "prospectInviteQueue (snd (deleteAccount c q i pw w)) = prospectInviteQueue w"
    "\<exists>p. subscriptions (snd (deleteAccount c q i pw w)) = updateMany p cancel_subscription_row (subscriptions w)"
    using none by (auto simp: deleteAccount_def Let_def stripe_cancel_def erase_account_def
        revokeUser_def redis_setEx_def revokeAllForUser_def update_sessions_def update_user_def audit_record_def
        split: option.splits)
qed

section \<open>What the billing services leave alone\<close>

text \<open>
  A part \<open>g\<close> of the state that no write of the shared tables changes; one more law for the tables of
  the product, and no operation of that product changes \<open>g\<close>.
\<close>

locale billing_part =
  fixes g :: "world \<Rightarrow> 'a"
  assumes g_audit: "g (audit_record q e w) = g w" and g_mail: "g (enqueue q j w) = g w"
    and g_stripe: "g (w\<lparr>stripeCalls := calls\<rparr>) = g w" and g_users: "g (w\<lparr>users := us\<rparr>) = g w"
    and g_grants: "g (w\<lparr>creditGrants := gs\<rparr>) = g w"
begin

lemmas part = g_audit g_mail g_stripe g_users g_grants

lemma part_update_user: "g (update_user i f w) = g w"
  by (simp add: update_user_def part)

lemma part_grant: "g (snd (grant_credits q i n src a r e w)) = g w"
  by (simp add: grant_credits_def Let_def part part_update_user split: option.splits)

lemma part_stripe:
  "g (snd (stripe_cancel q x w)) = g w" "g (snd (stripe_set_cancel q x b w)) = g w"
  "g (snd (stripe_checkout q p m w)) = g w"
  by (simp_all add: stripe_cancel_def stripe_set_cancel_def stripe_checkout_def part)

lemma part_customer: "g (snd (getOrCreateStripeCustomer q i e n w)) = g w"
  by (simp add: getOrCreateStripeCustomer_def create_customer_def case_prod_beta snd_claim_customer part)

lemma part_confirmed:
  "g (sendSubscriptionConfirmedEmail q x w) = g w" "g (lf_sendSubscriptionConfirmedEmail q x w) = g w"
  by (auto simp: sendSubscriptionConfirmedEmail_def lf_sendSubscriptionConfirmedEmail_def Let_def part split: option.splits)

lemma part_credits:
  "g (snd (handleCreditsCheckoutCompleted q s w)) = g w" "g (snd (grantMonthlyCredits q si w)) = g w"
  by (auto simp: handleCreditsCheckoutCompleted_def grantMonthlyCredits_def Let_def part part_grant split: option.splits)

lemma part_credits_checkout: "g (snd (createCreditsCheckoutSession q i slug n w)) = g w"
  unfolding createCreditsCheckoutSession_def
  by (auto simp: part part_stripe part_customer split: option.splits
      intro!: result_chain [where P = "\<lambda>w'. g w' = g w"])

lemma part_portal: "g (snd (createPortalSession q i w)) = g w"
  by (simp add: createPortalSession_def part)

lemma part_lf_checkout: "g (snd (lf_createCheckoutSession q i slug w)) = g w"
  unfolding lf_createCheckoutSession_def
  by (auto simp: part part_stripe part_customer split: option.splits
      intro!: result_chain [where P = "\<lambda>w'. g w' = g w"])

lemma part_failed: "g (onFailed q ev n m msg w) = g w"
  by (simp add: onFailed_def part)

end

locale directory_part = billing_part +
  assumes g_subs: "g (w\<lparr>subscriptions := ss\<rparr>) = g w" and g_invoices: "g (w\<lparr>invoices := is\<rparr>) = g w"
begin

lemma part_sync: "g (snd (syncSubscriptionFromStripe q x w)) = g w"
proof -
  have u: "g w1 = g w" if "upsert_subscription q x u p w = Inr w1" for u p w1
    using upsert_Inr [OF that] by (auto simp: g_subs)
  have c: "g w1 = g w" if "stripe_cancel q y w = (r, w1)" for y r w1
    using part_stripe(1) [of q y w] that by simp
  show ?thesis
    using u c by (auto simp: syncSubscriptionFromStripe_def Let_def part g_subs
        split: option.splits sum.splits prod.splits dest!: write_subscriptions_Inr)
qed

lemma part_event: "g (snd (handleWebhookEvent c q retrieve ev w)) = g w"
proof (cases ev)
  case (CheckoutSessionCompleted s)
  let ?w0 = "w\<lparr>stripeCalls := stripeCalls w @ [SubscriptionRetrieve (the (co_subscription s))]\<rparr>"
  let ?x = "retrieve (the (co_subscription s))"
  show ?thesis
    using part_sync [of q ?x ?w0]
    by (cases "syncSubscriptionFromStripe q ?x ?w0")
      (auto simp: handleWebhookEvent_def CheckoutSessionCompleted Let_def part part_credits part_confirmed split: sum.splits)
next
  case (InvoicePaymentFailed si)
  have i: "g (syncInvoiceFromStripe q v st w1) = g w1" for v st w1
    by (auto simp: syncInvoiceFromStripe_def Let_def g_invoices split: option.splits)
  have "g (snd (markPastDue c q x w1)) = g w1" for x w1
    by (auto simp: markPastDue_def part g_subs split: option.splits sum.splits dest!: write_subscriptions_Inr)
  then show ?thesis by (simp add: handleWebhookEvent_def InvoicePaymentFailed Let_def i)
next
  case (InvoicePaid si)
  have "g (syncInvoiceFromStripe q v st w1) = g w1" for v st w1
    by (auto simp: syncInvoiceFromStripe_def Let_def g_invoices split: option.splits)
  then show ?thesis by (simp add: handleWebhookEvent_def InvoicePaid)
qed (simp_all add: handleWebhookEvent_def part_sync cancel_by_stripe_id_def g_subs)

lemma part_checkout: "g (snd (createCheckoutSession c q i slug w)) = g w"
proof -
  have "g (snd (drop_expired q e w)) = g w" for e
    using part_stripe(1) [of q _ w] by (auto simp: drop_expired_def update_subscription_def g_subs stripe_cancel_def part split: option.splits)
  then show ?thesis
    unfolding createCheckoutSession_def
    by (auto simp: Let_def part part_stripe part_customer split: option.splits
        intro!: result_chain [where P = "\<lambda>w'. g w' = g w"])
qed

lemma part_cancel: "g (snd (cancel q i w)) = g w" "g (snd (resume q i w)) = g w"
  by (auto simp: cancel_def resume_def stripe_set_cancel_def update_subscription_def Let_def part g_subs split: option.splits)

lemma part_step: "directory_step c q w w' \<Longrightarrow> g w' = g w"
  by (induction rule: directory_step.induct)
    (simp_all add: part_credits_checkout part_checkout part_portal part_cancel part_event)

end

locale lead_finder_part = billing_part +
  assumes g_lf: "g (w\<lparr>leadFinderSubscriptions := ls\<rparr>) = g w"
begin

lemma part_lf_sync: "g (snd (syncFromStripe c q x w)) = g w"
proof -
  have c: "g w1 = g w" if "stripe_cancel q y w = (r, w1)" for y r w1
    using part_stripe(1) [of q y w] that by simp
  have u: "g w1 = g w" if "lf_upsert q x u p pd w = Inr w1" for u p pd w1
    using lf_upsert_Inr [OF that] by (auto simp: g_lf)
  show ?thesis using c u
    by (auto simp: syncFromStripe_def Let_def part split: option.splits sum.splits prod.splits)
qed

lemma part_lf_event: "g (snd (lf_handleWebhookEvent c q retrieve ev w)) = g w"
proof (cases ev)
  case (CheckoutSessionCompleted s)
  let ?w0 = "w\<lparr>stripeCalls := stripeCalls w @ [SubscriptionRetrieve (the (co_subscription s))]\<rparr>"
  let ?x = "retrieve (the (co_subscription s))"
  show ?thesis
    using part_lf_sync [of c q ?x ?w0]
    by (cases "syncFromStripe c q ?x ?w0")
      (auto simp: lf_handleWebhookEvent_def CheckoutSessionCompleted Let_def part part_confirmed split: sum.splits)
qed (simp_all add: lf_handleWebhookEvent_def part_lf_sync part_credits lf_cancel_by_stripe_id_def g_lf)

lemma part_lf_step: "lead_finder_step c q w w' \<Longrightarrow> g w' = g w"
proof (induction rule: lead_finder_step.induct)
  case (lf_step_cancel i)
  show ?case by (auto simp: lf_cancel_def stripe_set_cancel_def update_lf_def part g_lf split: option.splits)
qed (simp_all add: part_lf_checkout part_lf_event)

end

interpretation outside_directory: directory_part "\<lambda>w. (leadFinderSubscriptions w, prospectInviteQueue w)"
  by unfold_locales (simp_all add: audit_record_def enqueue_def)

interpretation outside_lead_finder: lead_finder_part "\<lambda>w. (subscriptions w, prospectInviteQueue w)"
  by unfold_locales (simp_all add: audit_record_def enqueue_def)

section \<open>The contract of a step of the system\<close>

definition system_inv :: "cfg \<Rightarrow> time \<Rightarrow> world \<Rightarrow> bool" where
  "system_inv c t w \<longleftrightarrow> auth_inv c t w \<and> subs_ok w \<and> lf_ok w \<and> unique_on pi_email (prospectInviteQueue w)"

definition system_keeps :: "cfg \<Rightarrow> time \<Rightarrow> world \<Rightarrow> world \<Rightarrow> bool" where
  "system_keeps c t w w' \<longleftrightarrow> auth_keeps c t w w' \<and> (subs_ok w \<longrightarrow> subs_ok w') \<and> (lf_ok w \<longrightarrow> lf_ok w')
     \<and> (unique_on pi_email (prospectInviteQueue w) \<longrightarrow> unique_on pi_email (prospectInviteQueue w'))"

lemma system_keeps_trans: "system_keeps c t w1 w2 \<Longrightarrow> system_keeps c t w2 w3 \<Longrightarrow> system_keeps c t w1 w3"
  unfolding system_keeps_def by (meson auth_keeps_trans)

lemma system_keeps_refl [simp]: "system_keeps c t w w"
  by (simp add: system_keeps_def)

lemma system_keeps_inv: "system_keeps c t w w' \<Longrightarrow> system_inv c t w \<Longrightarrow> system_inv c t w'"
  by (simp add: system_keeps_def system_inv_def auth_keeps_def)

lemma system_keeps_shop:
  assumes "auth_keeps c t w w'" "shop w' = shop w"
  shows "system_keeps c t w w'"
proof -
  have eq: "subscriptions w' = subscriptions w" "leadFinderSubscriptions w' = leadFinderSubscriptions w"
    "prospectInviteQueue w' = prospectInviteQueue w" using assms(2) by (simp_all add: shop_def)
  show ?thesis
    using assms(1) by (simp add: system_keeps_def eq(3) subs_ok_cong [OF eq(1)] lf_ok_cong [OF eq(2)])
qed

lemma system_keeps_auth: "auth_step c q w w' \<Longrightarrow> system_keeps c (q_now q) w w'"
proof -
  assume step: "auth_step c q w w'"
  show ?thesis
  proof (cases "shop w' = shop w")
    case True
    with auth_step_keeps [OF step] show ?thesis by (rule system_keeps_shop)
  next
  case False
  with step obtain i pw where w': "w' = snd (deleteAccount c q i pw w)"
    by (auto elim: auth_step.cases)
  from deleteAccount_shop(3) [of c q i pw w] obtain p
    where "subscriptions w' = updateMany p cancel_subscription_row (subscriptions w)" by (auto simp: w')
  then have "subs_ok w \<Longrightarrow> subs_ok w'"
    by (elim subs_ok_lower [where p = p and f = cancel_subscription_row]) (auto simp: live_statuses_def)
  then show ?thesis
    using auth_step_keeps [OF step] lf_ok_cong [of w' w] deleteAccount_shop(1,2) [of c q i pw w]
    by (simp add: system_keeps_def w')
  qed
qed

lemma shop_admin: "admin_step c q w w' \<Longrightarrow> shop w' = shop w"
proof (induction rule: admin_step.induct)
  case (step_sendPasswordReset a i)
  show ?case
  proof (cases "findById i w")
    case (Some u)
    show ?thesis
      using shop_auth_handlers(5) [of c q "u_email u" w]
      by (cases "forgotPassword c q (u_email u) w") (auto simp: sendPasswordReset_def Some split: sum.splits)
  qed (simp add: sendPasswordReset_def)
qed (auto simp: suspendUser_def reactivateUser_def deleteUser_def forceLogout_def impersonateUser_def
    inviteUser_def write_access_invite_def setDirectoryAccess_def setLeadFinderAccess_def pitchProspect_def
    inviteProspect_def sendProspectInvite_def enqueueBulk_def createLead_def approveLead_def updateLead_def deleteLead_def
    update_lead_def resolveContactMessage_def deleteContactMessage_def replyToContactMessage_def Let_def
    split: option.splits)

lemma system_keeps_admin: "admin_step c q w w' \<Longrightarrow> system_keeps c (q_now q) w w'"
  by (intro system_keeps_shop admin_step_keeps shop_admin)

lemma system_keeps_directory: "directory_step c q w w' \<Longrightarrow> system_keeps c (q_now q) w w'"
  using outside_directory.part_step [of c q w w'] directory_step_keeps [of c q w w'] lf_ok_cong [of w' w]
  by (simp add: system_keeps_def)

lemma system_keeps_lead_finder: "lead_finder_step c q w w' \<Longrightarrow> system_keeps c (q_now q) w w'"
  using outside_lead_finder.part_lf_step [of c q w w'] lead_finder_step_keeps [of c q w w'] subs_ok_cong [of w' w]
  by (simp add: system_keeps_def)

lemma system_keeps_webhook:
  "system_keeps c (q_now q) w (snd (process_webhook c q retrieve ev w))"
  "system_keeps c (q_now q) w (onFailed q wev n m msg w)"
proof -
  show "system_keeps c (q_now q) w (onFailed q wev n m msg w)"
    by (rule system_keeps_shop) (simp_all add: onFailed_def)
  obtain r w1 where d: "handleWebhookEvent c q retrieve ev w = (r, w1)" by fastforce
  have 1: "system_keeps c (q_now q) w w1"
    using system_keeps_directory [OF step_event [of c q w retrieve ev]] by (simp add: d)
  have "system_keeps c (q_now q) w (snd (lf_handleWebhookEvent c q retrieve ev w1))"
    using 1 system_keeps_lead_finder [OF lf_step_event] by (rule system_keeps_trans)
  with 1 show "system_keeps c (q_now q) w (snd (process_webhook c q retrieve ev w))"
    by (auto simp: process_webhook_def d split: sum.splits)
qed

section \<open>The other services\<close>

text \<open>Profile, invitations, contact form, leads and searches.\<close>

inductive customer_request :: "cfg \<Rightarrow> req \<Rightarrow> world \<Rightarrow> world \<Rightarrow> bool" for c q w where
  step_profile: "customer_request c q w (snd (patchProfile i name phone w))"
| step_invite: "customer_request c q w (snd (createInvite q i email w))"
| step_contact: "customer_request c q w (snd (submit q cdto w))"
| step_submitSelf: "customer_request c q w (snd (submitSelf q i sdto w))"
| step_anonymousSearch: "customer_request c q w (snd (anonymousSearch c claude api q ip query w))"
| step_aiSearch: "customer_request c q w (snd (aiSearch c q i name sinput w))"
| step_getMoreLeads: "customer_request c q w (snd (getMoreLeads c q i jobId n w))"
| step_cancelSearch: "customer_request c q w (snd (cancelSearchJob i jobId w))"
| step_review: "customer_request c q w (snd (updateResultReviewStatus i jobId resultId st w))"

lemma same_accounts_tables [simp]:
  "same_accounts w (w\<lparr>leads := ls\<rparr>)" "same_accounts w (w\<lparr>leadSearchJobs := jobs\<rparr>)"
  "same_accounts w (w\<lparr>leadSearchResults := rows\<rparr>)" "same_accounts w (w\<lparr>apolloQueue := ajs\<rparr>)"
  "same_accounts w (w\<lparr>invites := ivs\<rparr>)" "same_accounts w (w\<lparr>contactMessages := ms\<rparr>)"
  "same_accounts w (w\<lparr>redis := r\<rparr>)" "same_accounts w (w\<lparr>campaign := s\<rparr>)"
  "same_accounts w (w\<lparr>prospectInviteQueue := ps\<rparr>)" "same_accounts w (w\<lparr>emailSuppressions := es\<rparr>)"
  "same_accounts w (w\<lparr>bulkEmailQueue := b\<rparr>)"
  by (simp_all add: same_accounts_def extends_audit_def)

lemma customer_request_same: "customer_request c q w w' \<Longrightarrow> auth_keeps c t w w' \<and> shop w' = shop w"
proof (induction rule: customer_request.induct)
  case (step_profile i name phone)
  show ?case
    by (auto simp: patchProfile_def updateProfile_def Let_def intro!: auth_keeps_update_user split: option.splits)
next
  case (step_invite i email)
  show ?case by (auto simp: createInvite_def Let_def intro!: same_accounts_keeps split: option.splits)
next
  case (step_contact cdto)
  show ?case by (auto simp: submit_def intro!: same_accounts_keeps)
next
  case (step_submitSelf i sdto)
  show ?case by (auto simp: submitSelf_def Let_def intro!: same_accounts_keeps)
next
  case (step_anonymousSearch claude api ip query)
  have "same_accounts w (snd (checkAnonymousSearchLimit c q ip w)) \<and> shop (snd (checkAnonymousSearchLimit c q ip w)) = shop w"
    by (auto simp: checkAnonymousSearchLimit_def redis_count_def redis_incr_def redis_expire_def Let_def
        split: option.splits)
  then show ?case
    by (cases "checkAnonymousSearchLimit c q ip w")
      (auto simp: anonymousSearch_def intro!: same_accounts_keeps split: sum.splits)
next
  case (step_aiSearch i name sinput)
  show ?case
    by (auto simp: aiSearch_def add_search_def Let_def same_accounts_def extends_audit_def intro!: same_accounts_keeps
        split: option.splits)
next
  case (step_getMoreLeads i jobId n)
  show ?case
    by (auto simp: getMoreLeads_def add_search_def set_job_status_def Let_def same_accounts_def extends_audit_def
        intro!: same_accounts_keeps split: option.splits)
next
  case (step_cancelSearch i jobId)
  show ?case
    by (auto simp: cancelSearchJob_def set_job_status_def intro!: same_accounts_keeps split: option.splits)
next
  case (step_review i jobId resultId st)
  show ?case
    by (auto simp: updateResultReviewStatus_def intro!: same_accounts_keeps split: option.splits)
qed

lemma system_keeps_customer: "customer_request c q w w' \<Longrightarrow> system_keeps c t w w'"
  using customer_request_same by (blast intro: system_keeps_shop)

text \<open>The campaign and the scheduled jobs.\<close>

inductive background_step :: "cfg \<Rightarrow> req \<Rightarrow> world \<Rightarrow> world \<Rightarrow> bool" for c q w where
  step_bulk_upload: "background_step c q w (snd (enqueueUploadedEmails isEmail q a raw w))"
| step_daily_drip: "background_step c q w (snd (runDailyDrip up q w))"
| step_campaign_stats: "background_step c q w (snd (getStats w))"
| step_campaign_settings: "background_step c q w (snd (updateSettings q a cap paused w))"
| step_campaign_template: "background_step c q w (snd (updateEmailTemplate addr q a dto w))"
| step_read_template: "background_step c q w (snd (getEmailTemplate addr w))"
| step_test_email: "background_step c q w (sendTestEmail up email w)"
| step_resend_webhook: "background_step c q w (snd (handleResendWebhook number hmac parse secret q body h w))"
| step_opt_out: "background_step c q w (snd (unsubscribe hmac key email tok w))"
| step_renewal_scan: "background_step c q w (process_renewal_job q jobName w)"

lemma remind_rows_keep:
  assumes "\<And>r w. P w \<Longrightarrow> P (mark r w)" and "\<And>j w. P w \<Longrightarrow> P (enqueue q j w)" and "P w"
  shows "P (snd (remind_rows reminded job mark q rs sent w))"
  using assms by (induction rs arbitrary: sent w) (auto split: option.splits)

lemma renewal_keeps:
  assumes sb: "\<And>r w. P w \<Longrightarrow> P (sb_mark r w)" and lf: "\<And>r w. P w \<Longrightarrow> P (lf_mark r w)"
    and mail: "\<And>j w. P w \<Longrightarrow> P (enqueue q j w)" and start: "P w"
  shows "P (process_renewal_job q jobName w)"
proof -
  have "P (snd (sendDueReminders q w))"
    unfolding sendDueReminders_def using sb lf mail start
    by (simp add: split_beta remind_rows_keep)
  with start show ?thesis by (simp add: process_renewal_job_def)
qed

lemma system_keeps_renewal: "system_keeps c t w (process_renewal_job q jobName w)"
proof (rule renewal_keeps)
  show "system_keeps c t w (sb_mark r v)" if k: "system_keeps c t w v" for r v
  proof -
    have "subs_ok v \<Longrightarrow> subs_ok (sb_mark r v)"
      by (erule subs_ok_lower [where p = "\<lambda>x. sb_id x = sb_id r"
            and f = "\<lambda>x. x\<lparr>sb_renewalReminderSentForPeriodEnd := Some (sb_currentPeriodEnd r)\<rparr>"])
        (auto simp: sb_mark_def)
    moreover have "auth_keeps c t v (sb_mark r v)" "lf_ok (sb_mark r v) = lf_ok v"
      by (rule auth_keeps_frame) (simp_all add: sb_mark_def lf_ok_def extends_audit_def)
    ultimately have "system_keeps c t v (sb_mark r v)" by (simp add: system_keeps_def sb_mark_def)
    with k show ?thesis by (rule system_keeps_trans)
  qed
  show "system_keeps c t w (lf_mark r v)" if k: "system_keeps c t w v" for r v
  proof -
    have "lf_ok v \<Longrightarrow> lf_ok (lf_mark r v)"
      by (erule lf_ok_lower [where p = "\<lambda>x. lf_id x = lf_id r"
            and f = "\<lambda>x. x\<lparr>lf_renewalReminderSentForPeriodEnd := Some (lf_currentPeriodEnd r)\<rparr>"])
        (auto simp: lf_mark_def)
    moreover have "auth_keeps c t v (lf_mark r v)" "subs_ok (lf_mark r v) = subs_ok v"
      by (rule auth_keeps_frame) (simp_all add: lf_mark_def subs_ok_def extends_audit_def)
    ultimately have "system_keeps c t v (lf_mark r v)" by (simp add: system_keeps_def lf_mark_def)
    with k show ?thesis by (rule system_keeps_trans)
  qed
  show "system_keeps c t w (enqueue q j v)" if "system_keeps c t w v" for j v
    using that system_keeps_shop [of c t v "enqueue q j v"] by (auto intro: system_keeps_trans)
qed simp

lemma sort_batch_keeps:
  assumes "\<And>i st w. P w \<Longrightarrow> P (set_prospect i st w)" and "P w"
  shows "P (snd (sort_batch ex su rs toSend skE skU w))"
  using assms by (induction rs arbitrary: toSend skE skU w) auto

lemma drip_keeps:
  assumes "\<And>i st w. P w \<Longrightarrow> P (set_prospect i st w)" "\<And>es w. P w \<Longrightarrow> P (mark_sent q es w)"
    "\<And>es w. P w \<Longrightarrow> P (sendProspectInviteBulk up es w)" "\<And>e w. P w \<Longrightarrow> P (audit_record q e w)"
    "\<And>s w. P w \<Longrightarrow> P (w\<lparr>campaign := s\<rparr>)" "P w"
  shows "P (snd (runDailyDrip up q w))"
proof -
  have "P v1" if "sort_batch ex su rs a b d v = (x, v1)" "P v" for ex su rs a b d v x v1
    using sort_batch_keeps [where P = P, OF assms(1) that(2), of ex su rs a b d] that(1) by simp
  then show ?thesis
    using assms(2-6) by (auto simp: runDailyDrip_def getOrCreate_eq Let_def split: prod.splits)
qed

text \<open>What a campaign step leaves alone.\<close>

definition off_campaign :: "world \<Rightarrow> world \<Rightarrow> bool" where
  "off_campaign w w' \<longleftrightarrow> same_accounts w w' \<and> subscriptions w' = subscriptions w
     \<and> leadFinderSubscriptions w' = leadFinderSubscriptions w"

lemma off_campaign_steps [simp]:
  "off_campaign w w"
  "off_campaign w w' \<Longrightarrow> off_campaign w (audit_record q e w')"
  "off_campaign w w' \<Longrightarrow> off_campaign w (w'\<lparr>campaign := s\<rparr>)"
  "off_campaign w w' \<Longrightarrow> off_campaign w (w'\<lparr>prospectInviteQueue := ps\<rparr>)"
  "off_campaign w w' \<Longrightarrow> off_campaign w (w'\<lparr>emailSuppressions := es\<rparr>)"
  "off_campaign w w' \<Longrightarrow> off_campaign w (w'\<lparr>bulkEmailQueue := b\<rparr>)"
  by (auto simp: off_campaign_def same_accounts_def extends_audit_def audit_record_def)

lemma off_campaign_step:
  assumes "background_step c q w w'" and "\<And>jobName. w' \<noteq> process_renewal_job q jobName w"
  shows "off_campaign w w'"
  using assms
proof (induction rule: background_step.induct)
  case (step_daily_drip up)
  show ?case
    by (rule drip_keeps) (simp_all add: set_prospect_def mark_sent_def sendProspectInviteBulk_def enqueueBulk_def)
qed (auto simp: enqueueUploadedEmails_def getStats_def updateSettings_def updateEmailTemplate_def getEmailTemplate_def
    getOrCreateSettings_def upsert_settings_def sendTestEmail_def sendProspectInvite_def enqueueBulk_def
    handleResendWebhook_def markBounced_def markComplained_def suppressAndUpdateStatus_def suppress_def unsubscribe_def
    Let_def split: option.splits)

lemma unique_campaign_step:
  assumes "background_step c q w w'" and "\<And>jobName. w' \<noteq> process_renewal_job q jobName w"
    and "unique_on pi_email (prospectInviteQueue w)"
  shows "unique_on pi_email (prospectInviteQueue w')"
  using assms
proof (induction rule: background_step.induct)
  case (step_test_email up email)
  then show ?case by (simp add: sendTestEmail_def sendProspectInvite_def enqueueBulk_def)
qed (auto intro: campaign_step.intros campaign_keepsD(1) [OF campaign_step_keeps])

lemma system_keeps_background: "background_step c q w w' \<Longrightarrow> system_keeps c (q_now q) w w'"
proof -
  assume step: "background_step c q w w'"
  show ?thesis
  proof (cases "\<exists>jobName. w' = process_renewal_job q jobName w")
    case True
    then show ?thesis using system_keeps_renewal by blast
  next
    case False
    with step have off: "off_campaign w w'" by (auto intro: off_campaign_step)
    then have "subs_ok w' = subs_ok w" "lf_ok w' = lf_ok w" "auth_keeps c (q_now q) w w'"
      using subs_ok_cong [of w' w] lf_ok_cong [of w' w] same_accounts_keeps by (auto simp: off_campaign_def)
    with False step show ?thesis by (auto simp: system_keeps_def dest: unique_campaign_step)
  qed
qed

section \<open>The system\<close>

text \<open>One request, webhook or scheduled job.\<close>

inductive request_step :: "cfg \<Rightarrow> req \<Rightarrow> world \<Rightarrow> world \<Rightarrow> bool" for c q w w' where
  by_auth: "auth_step c q w w' \<Longrightarrow> request_step c q w w'"
| by_admin: "admin_step c q w w' \<Longrightarrow> request_step c q w w'"
| by_directory: "directory_step c q w w' \<Longrightarrow> request_step c q w w'"
| by_lead_finder: "lead_finder_step c q w w' \<Longrightarrow> request_step c q w w'"
| by_webhook: "w' = snd (process_webhook c q retrieve ev w) \<Longrightarrow> request_step c q w w'"
| by_failed_webhook: "w' = onFailed q wev n m msg w \<Longrightarrow> request_step c q w w'"
| by_customer: "customer_request c q w w' \<Longrightarrow> request_step c q w w'"
| by_background: "background_step c q w w' \<Longrightarrow> request_step c q w w'"

lemma request_step_keeps: "request_step c q w w' \<Longrightarrow> system_keeps c (q_now q) w w'"
  by (induction rule: request_step.induct)
    (simp_all add: system_keeps_auth system_keeps_admin system_keeps_directory system_keeps_lead_finder
      system_keeps_webhook system_keeps_customer system_keeps_background)

text \<open>What is served while the search worker waits for Apollo, at the instant of its job.\<close>

definition served :: "cfg \<Rightarrow> time \<Rightarrow> world \<Rightarrow> world \<Rightarrow> bool" where
  "served c t = (\<lambda>w w'. \<exists>q. q_now q = t \<and> request_step c q w w')\<^sup>*\<^sup>*"

lemma served_keeps: "served c t w w' \<Longrightarrow> system_keeps c t w w'"
  unfolding served_def
proof (induction rule: rtranclp_induct)
  case (step v w')
  then obtain q where "q_now q = t" "request_step c q v w'" by blast
  with request_step_keeps [of c q v w'] step.IH show ?case by (auto intro: system_keeps_trans)
qed simp

inductive system_step :: "cfg \<Rightarrow> req \<Rightarrow> world \<Rightarrow> world \<Rightarrow> bool" for c q w w' where
  a_request: "request_step c q w w' \<Longrightarrow> system_step c q w w'"
| a_search_job: "(\<And>k v. served c (q_now q) v (env k v)) \<Longrightarrow> w' = process_search_job api env q job w
    \<Longrightarrow> system_step c q w w'"

lemma system_keeps_credit:
  "system_keeps c t w (snd (tryReserveCredit i w))" "system_keeps c t w (snd (refundCredit i w))"
proof -
  have "auth_keeps c t w (snd (tryReserveCredit i w))"
  proof (rule auth_keeps_users)
    show "users_ok (snd (tryReserveCredit i w))" if "users_ok w"
      using that by (auto simp: tryReserveCredit_def Let_def users_ok_def unique_on_updateMany)
  qed (auto simp: tryReserveCredit_def Let_def image_updateMany extends_audit_def)
  then show "system_keeps c t w (snd (tryReserveCredit i w))"
    by (rule system_keeps_shop) (simp add: tryReserveCredit_def Let_def)
  show "system_keeps c t w (snd (refundCredit i w))"
    by (rule system_keeps_shop) (auto simp: refundCredit_def intro: auth_keeps_update_user)
qed

lemma system_step_keeps: "system_step c q w w' \<Longrightarrow> system_keeps c (q_now q) w w'"
proof (induction rule: system_step.induct)
  case a_request
  then show ?case by (rule request_step_keeps)
next
  case (a_search_job env api job)
  show ?case
    unfolding a_search_job(2)
  proof (rule process_search_job_keeps [where I = "system_keeps c (q_now q) w"])
    fix k v assume k: "system_keeps c (q_now q) w v"
    show "system_keeps c (q_now q) w (env k v)"
      using k served_keeps [OF a_search_job(1)] by (rule system_keeps_trans)
    show "system_keeps c (q_now q) w (snd (tryReserveCredit (aj_userId job) v))"
      "system_keeps c (q_now q) w (snd (refundCredit (aj_userId job) v))"
      using k system_keeps_credit by (blast intro: system_keeps_trans)+
    have "system_keeps c (q_now q) v v'" if "same_accounts v v'" "shop v' = shop v" for v'
      using that by (intro system_keeps_shop same_accounts_keeps)
    then have later: "system_keeps c (q_now q) w v'" if "same_accounts v v'" "shop v' = shop v" for v'
      using k that by (blast intro: system_keeps_trans)
    show "system_keeps c (q_now q) w (v\<lparr>leadSearchResults := rows\<rparr>)" for rows by (rule later) simp_all
    show "system_keeps c (q_now q) w (set_job_status i st v)" for i st by (rule later) (simp_all add: set_job_status_def)
    show "system_keeps c (q_now q) w (audit_record q e v)" for e by (rule later) simp_all
  qed simp
qed

interpretation backend: account_service system_step
  by unfold_locales (use system_step_keeps in \<open>auto simp: system_keeps_def\<close>)

text \<open>The invariant along every run of the system.\<close>

lemma system_runs_inv: "runs system_step c t w t' w' \<Longrightarrow> system_inv c t w \<Longrightarrow> system_inv c t' w'"
proof (induction rule: runs.induct)
  case (runs_step t1 w1 q w2)
  then have "system_inv c (q_now q) w1" by (auto simp: system_inv_def intro: auth_inv_later)
  with system_step_keeps [OF runs_step(3)] show ?case by (rule system_keeps_inv)
qed

end
