(* ===== verification/Http.thy ===== *)
theory Http
  imports Complex_Main Access
begin

text \<open>
  The HTTP layer every controller shares: the middleware of \<open>main.ts\<close>, routes with the access their decorators
  declare, the guards in front of a handler (\<open>app.module.ts\<close>, \<open>auth.module.ts\<close>), cookies, and the exception filter
  (\<open>all-exceptions.filter.ts\<close>).

  A path is the list of its segments after the global prefix \<open>api/v1\<close>. As Express does by default, fixed segments
  are compared without regard to case and the first registered route that matches serves the request. Whether
  \<open>ThrottlerGuard\<close> has seen too many requests of the client is a parameter of the request, \<open>limited\<close>.
\<close>

section \<open>Requests and routes\<close>

datatype httpMethod = GET | POST | PATCH | DELETE

record httpRequest =
  hr_method :: httpMethod
  hr_path :: "string list"
  hr_url :: string
  hr_authorization :: "string option"
  hr_requestId :: "string option"
  hr_ip :: "string option"
  hr_userAgent :: "string option"
  hr_cookies :: "(string \<times> string) list"

datatype segment = Lit string | Param string

datatype access = PublicRoute | SignedIn | NeedsRole "role list" | NeedsDirectory

record route =
  rt_handler :: string
  rt_method :: httpMethod
  rt_path :: "segment list"
  rt_access :: access
  rt_limit :: nat

fun segment_matches :: "segment \<Rightarrow> string \<Rightarrow> bool" where
  "segment_matches (Lit s) x = (toLowerCase s = toLowerCase x)"
| "segment_matches (Param _) x = (x \<noteq> [])"

definition route_matches :: "route \<Rightarrow> httpMethod \<Rightarrow> string list \<Rightarrow> bool" where
  "route_matches r m path \<longleftrightarrow> rt_method r = m \<and> list_all2 segment_matches (rt_path r) path"

definition find_route :: "route list \<Rightarrow> httpMethod \<Rightarrow> string list \<Rightarrow> route option" where
  "find_route rs m path = List.find (\<lambda>r. route_matches r m path) rs"

text \<open>The defaults of \<open>ThrottlerModule\<close>: a window of a minute and 100 requests for a route without \<open>@Throttle\<close>.\<close>

definition default_limit :: nat where "default_limit = 100"

definition throttle_ttl :: int where "throttle_ttl = 60000"

definition endpoint :: "string \<Rightarrow> httpMethod \<Rightarrow> segment list \<Rightarrow> access \<Rightarrow> route" where
  "endpoint name m path a = \<lparr>rt_handler = name, rt_method = m, rt_path = path, rt_access = a, rt_limit = default_limit\<rparr>"

definition throttle :: "nat \<Rightarrow> route \<Rightarrow> route" where
  "throttle n r = r\<lparr>rt_limit := n\<rparr>"

definition access_of :: "route list \<Rightarrow> string \<Rightarrow> access" where
  "access_of rs name = (case List.find (\<lambda>r. rt_handler r = name) rs of Some r \<Rightarrow> rt_access r | None \<Rightarrow> NeedsRole [])"

lemma access_of_uniform:
  "list_all (\<lambda>r. rt_access r = a) rs \<Longrightarrow> name \<in> set (map rt_handler rs) \<Longrightarrow> access_of rs name = a"
  by (induction rs) (auto simp: access_of_def)

lemmas route_defs = access_of_def endpoint_def throttle_def default_limit_def

section \<open>Guards\<close>

datatype httpFailure = Unavailable | RouteNotFound | TooManyRequests | Failure http_error

definition authorize :: "cfg \<Rightarrow> req \<Rightarrow> bool \<Rightarrow> access \<Rightarrow> httpRequest \<Rightarrow> world \<Rightarrow> httpFailure + jwtPayload option" where
  "authorize c q limited a hr w =
     (if limited then Inl TooManyRequests
      else (case jwt_canActivate c q (a = PublicRoute) (hr_authorization hr) w of
              Inl e \<Rightarrow> Inl (Failure e)
            | Inr user \<Rightarrow>
                (case (case a of NeedsRole required \<Rightarrow> roles_canActivate required user
                       | NeedsDirectory \<Rightarrow> directory_canActivate c q user w
                       | _ \<Rightarrow> Inr ()) of
                   Inl e \<Rightarrow> Inl (Failure e)
                 | Inr _ \<Rightarrow> Inr user)))"

text \<open>
  A request that passes the guards reaches the validation pipe (\<open>call\<close> is its outcome) and then the handler. Every
  error becomes a failure; the state it leaves is the one the handler had reached.
\<close>

definition serve ::
  "cfg \<Rightarrow> req \<Rightarrow> bool \<Rightarrow> access \<Rightarrow> httpRequest \<Rightarrow> 'call result \<Rightarrow>
   (jwtPayload option \<Rightarrow> 'call \<Rightarrow> world \<Rightarrow> 'a result \<times> world) \<Rightarrow> world \<Rightarrow> (httpFailure + 'a) \<times> world" where
  "serve c q limited a hr call handle w =
     (case authorize c q limited a hr w of
        Inl f \<Rightarrow> (Inl f, w)
      | Inr user \<Rightarrow>
          (case call of
             Inl e \<Rightarrow> (Inl (Failure e), w)
           | Inr x \<Rightarrow> (case handle user x w of (r, w') \<Rightarrow> (map_sum Failure id r, w'))))"

text \<open>The user a handler reads with \<open>@CurrentUser\<close>: the subject of the verified token.\<close>

definition subject :: "jwtPayload option \<Rightarrow> ident" where
  "subject user = (case user of None \<Rightarrow> [] | Some p \<Rightarrow> payload_sub p)"

lemma subject_simps [simp]: "subject None = []" "subject (Some p) = payload_sub p"
  by (simp_all add: subject_def)

text \<open>\<open>main.ts\<close>: the middleware that pauses the site comes before everything else.\<close>

definition site_paused :: bool where "site_paused = True"

definition middleware :: "bool \<Rightarrow> (world \<Rightarrow> (httpFailure + 'a) \<times> world) \<Rightarrow> world \<Rightarrow> (httpFailure + 'a) \<times> world" where
  "middleware paused next w = (if paused then (Inl Unavailable, w) else next w)"

section \<open>Cookies\<close>

record cookieOptions =
  co_httpOnly :: bool
  co_secure :: bool
  co_sameSite :: string
  co_maxAge :: "int option"
  co_expires :: "time option"
  co_path :: string

datatype cookieOp = SetCookie string string cookieOptions | ClearCookie string string

definition getCookie :: "httpRequest \<Rightarrow> string \<Rightarrow> string option" where
  "getCookie hr name = map_of (hr_cookies hr) name"

section \<open>The exception filter\<close>

text \<open>
  An \<open>HttpException\<close> carries a status, its class name, a message and a response, which is a text or an object with
  an optional message and error. Every other error is \<open>None\<close> here: nothing of it reaches the answer.
\<close>

datatype messageText = Text string | Texts "string list"

datatype exceptionResponse = PlainResponse string | ObjectResponse "messageText option" "string option"

record httpException =
  he_status :: nat
  he_name :: string
  he_message :: string
  he_response :: exceptionResponse

record errorResponseBody =
  eb_statusCode :: nat
  eb_error :: string
  eb_message :: messageText
  eb_path :: string
  eb_timestamp :: time
  eb_requestId :: string

datatype filterLog = UnhandledException string httpMethod string | ServerError string httpMethod string nat messageText

definition resolveBody :: "httpException option \<Rightarrow> string \<times> messageText" where
  "resolveBody exc =
     (case exc of
        Some e \<Rightarrow> (case he_response e of
            PlainResponse res \<Rightarrow> (he_name e, Text res)
          | ObjectResponse message error \<Rightarrow> (nullish error (he_name e), nullish message (Text (he_message e))))
      | None \<Rightarrow> (''Internal Server Error'', Text ''Something went wrong. Please try again later.''))"

definition catch_exception ::
  "httpException option \<Rightarrow> httpRequest \<Rightarrow> time \<Rightarrow> string \<Rightarrow> errorResponseBody \<times> (string \<times> string) list \<times> filterLog list" where
  "catch_exception exc hr now randomUUID =
     (let requestId = (if truthy (hr_requestId hr) then the (hr_requestId hr) else randomUUID);
          status = (case exc of Some e \<Rightarrow> he_status e | None \<Rightarrow> 500);
          (error, message) = resolveBody exc;
          body = \<lparr>eb_statusCode = status, eb_error = error, eb_message = message, eb_path = hr_url hr,
                  eb_timestamp = now, eb_requestId = requestId\<rparr>
      in (body, [(''x-request-id'', requestId)],
          if exc = None then [UnhandledException requestId (hr_method hr) (eb_path body)]
          else if 500 \<le> status then [ServerError requestId (hr_method hr) (eb_path body) status message]
          else []))"

section \<open>Lemmas\<close>

lemma find_route_SomeD: "find_route rs m path = Some r \<Longrightarrow> r \<in> set rs \<and> route_matches r m path"
  by (induction rs) (auto simp: find_route_def split: if_splits)

lemma route_matches_method: "route_matches r m path \<Longrightarrow> rt_method r = m"
  by (simp add: route_matches_def)

text \<open>Two routes that can serve the same request: same method, and no position with two different fixed segments.\<close>

fun segments_overlap :: "segment \<Rightarrow> segment \<Rightarrow> bool" where
  "segments_overlap (Lit s) (Lit t) = (toLowerCase s = toLowerCase t)"
| "segments_overlap (Lit s) (Param _) = (s \<noteq> [])"
| "segments_overlap (Param _) (Lit t) = (t \<noteq> [])"
| "segments_overlap (Param _) (Param _) = True"

definition routes_overlap :: "route \<Rightarrow> route \<Rightarrow> bool" where
  "routes_overlap r s \<longleftrightarrow> rt_method r = rt_method s \<and> list_all2 segments_overlap (rt_path r) (rt_path s)"

lemma segments_overlapI: "segment_matches s x \<Longrightarrow> segment_matches t x \<Longrightarrow> segments_overlap s t"
  by (cases s; cases t) (auto simp: toLowerCase_def)

lemma routes_overlapI: "route_matches r m path \<Longrightarrow> route_matches s m path \<Longrightarrow> routes_overlap r s"
proof -
  have "list_all2 segment_matches p path \<Longrightarrow> list_all2 segment_matches p' path \<Longrightarrow> list_all2 segments_overlap p p'" for p p'
    unfolding list_all2_conv_all_nth using segments_overlapI by metis
  then show "route_matches r m path \<Longrightarrow> route_matches s m path \<Longrightarrow> routes_overlap r s"
    by (auto simp: route_matches_def routes_overlap_def)
qed

text \<open>A request the guards refuse changes nothing; one they let through carries the user its token names.\<close>

lemma serve_refused: "authorize c q limited a hr w = Inl f \<Longrightarrow> serve c q limited a hr call handle w = (Inl f, w)"
  by (simp add: serve_def)

lemma serve_step:
  "snd (serve c q limited a hr call handle w) = w
   \<or> (\<exists>user x. authorize c q limited a hr w = Inr user \<and> call = Inr x
        \<and> serve c q limited a hr call handle w = map_prod (map_sum Failure id) id (handle user x w))"
  by (auto simp: serve_def split: sum.splits prod.splits)

lemma jwt_canActivate_user:
  assumes "jwt_canActivate c q False header w = Inr user"
  shows "\<exists>sub email r imp. user = Some (AccessTokenPayload sub email r imp)"
proof (cases "c_jwtVerify c (q_now q) (the (extractBearerToken header))")
  case (Some p)
  obtain sub email r imp where p: "p = AccessTokenPayload sub email r imp"
    using assms Some by (cases p) (simp_all add: jwt_canActivate_def split: if_splits)
  then have "user = Some p" using assms Some by (simp add: jwt_canActivate_def split: if_splits)
  with p show ?thesis by simp
qed (use assms in \<open>simp add: jwt_canActivate_def split: if_splits\<close>)

lemma authorize_jwt:
  assumes "authorize c q limited a hr w = Inr user"
  shows "jwt_canActivate c q (a = PublicRoute) (hr_authorization hr) w = Inr user"
  using assms by (auto simp: authorize_def split: if_splits sum.splits)

lemma authorize_user:
  assumes "authorize c q limited a hr w = Inr user" and "a \<noteq> PublicRoute"
  shows "\<exists>sub email r imp. user = Some (AccessTokenPayload sub email r imp)"
  using authorize_jwt [OF assms(1)] assms(2) by (simp add: jwt_canActivate_user)

lemma authorize_role:
  assumes "authorize c q limited (NeedsRole rs) hr w = Inr user" and "rs \<noteq> []"
  shows "\<exists>sub email r imp. user = Some (AccessTokenPayload sub email r imp) \<and> r \<in> set rs"
proof -
  from authorize_user [OF assms(1)] obtain sub email r imp where u: "user = Some (AccessTokenPayload sub email r imp)" by auto
  with assms have "roles_canActivate rs user = Inr ()"
    by (auto simp: authorize_def split: if_splits sum.splits)
  with u assms(2) show ?thesis by (auto simp: roles_canActivate_def split: if_splits)
qed

lemma guard_errors:
  "jwt_canActivate c q p h w = Inl x \<Longrightarrow> \<exists>e. x = Unauthorized e"
  "roles_canActivate rs u = Inl x \<Longrightarrow> \<exists>e. x = Unauthorized e \<or> x = Forbidden e"
  "directory_canActivate c q u w = Inl x \<Longrightarrow> \<exists>e. x = Unauthorized e \<or> x = Forbidden e"
  by (auto simp: jwt_canActivate_def roles_canActivate_def directory_canActivate_def
      split: if_splits option.splits jwtPayload.splits)

lemma authorize_Inl:
  assumes "authorize c q False a hr w = Inl f"
  shows "\<exists>e. f = Failure (Unauthorized e) \<or> f = Failure (Forbidden e)"
  using assms by (cases a) (auto simp: authorize_def split: sum.splits dest!: guard_errors)

end
