(* ===== verification/AuthController.thy ===== *)
theory AuthController
  imports Complex_Main Http AuthProperties
begin

text \<open>
  \<open>auth.controller.ts\<close>: the routes of the authentication service and the cookies they keep in the browser. A call is
  a request after validation; \<open>production\<close> stands for \<open>NODE_ENV\<close> and \<open>fresh\<close> for the opaque token a new device
  cookie gets.
\<close>

section \<open>Calls and replies\<close>

datatype authCall =
    Register registerDto
  | VerifyEmail string
  | Login string string
  | VerifyLogin string string
  | Refresh
  | Logout
  | LogoutAll
  | ForgotPassword string
  | ResetPassword string string
  | Start2fa
  | Confirm2fa string
  | Disable2fa string
  | ListDevices
  | TrustDevice ident
  | RemoveDevice ident
  | ListSessions
  | ExportData
  | DeleteAccount string

datatype authReply =
    MessageReply string
  | AccessTokenReply "string option"
  | LoginReply string
  | ChallengeReply challengeMethod string
  | TwoFactorReply twoFactorSetup
  | DevicesReply "deviceListView list"
  | DeviceReply deviceListView
  | SessionsReply "sessionView list"
  | ExportReply dataExport
  | EmptyReply

section \<open>Cookies\<close>

definition REFRESH_COOKIE :: string where "REFRESH_COOKIE = ''cc_rt''"
definition REFRESH_COOKIE_PATH :: string where "REFRESH_COOKIE_PATH = ''/api/v1/auth''"
definition DEVICE_ID_MAX_AGE_MS :: int where "DEVICE_ID_MAX_AGE_MS = 365 * 24 * 60 * 60 * 1000"
definition DEVICE_ID_COOKIE :: string where "DEVICE_ID_COOKIE = ''ccdid''"

definition getOrCreateDeviceId :: "bool \<Rightarrow> string \<Rightarrow> httpRequest \<Rightarrow> string \<times> cookieOp list" where
  "getOrCreateDeviceId production fresh hr =
     (let existing = getCookie hr DEVICE_ID_COOKIE in
      if truthy existing then (the existing, [])
      else (fresh, [SetCookie DEVICE_ID_COOKIE fresh
              \<lparr>co_httpOnly = True, co_secure = production, co_sameSite = ''lax'', co_maxAge = Some DEVICE_ID_MAX_AGE_MS,
               co_expires = None, co_path = ''/''\<rparr>]))"

definition buildMeta :: "bool \<Rightarrow> string \<Rightarrow> httpRequest \<Rightarrow> requestMeta \<times> cookieOp list" where
  "buildMeta production fresh hr =
     (let (rawDeviceId, ops) = getOrCreateDeviceId production fresh hr
      in (\<lparr>rm_ipAddress = hr_ip hr, rm_userAgent = hr_userAgent hr, rm_rawDeviceId = rawDeviceId\<rparr>, ops))"

definition setRefreshCookie :: "bool \<Rightarrow> tokenPair \<Rightarrow> cookieOp" where
  "setRefreshCookie production tp = SetCookie REFRESH_COOKIE (tp_refreshToken tp)
     \<lparr>co_httpOnly = True, co_secure = production, co_sameSite = ''strict'', co_maxAge = None,
      co_expires = Some (tp_refreshTokenExpiresAt tp), co_path = REFRESH_COOKIE_PATH\<rparr>"

definition clearRefreshCookie :: cookieOp where
  "clearRefreshCookie = ClearCookie REFRESH_COOKIE REFRESH_COOKIE_PATH"

section \<open>Handlers\<close>

type_synonym authAnswer = "(authReply result \<times> cookieOp list) \<times> world"

definition http_register :: "cfg \<Rightarrow> req \<Rightarrow> bool \<Rightarrow> string \<Rightarrow> httpRequest \<Rightarrow> registerDto \<Rightarrow> world \<Rightarrow> authAnswer" where
  "http_register c q production fresh hr dto w =
     (let (meta, ops) = buildMeta production fresh hr; (r, w') = register c q dto meta w
      in ((map_sum id MessageReply r, ops), w'))"

definition http_login :: "cfg \<Rightarrow> req \<Rightarrow> bool \<Rightarrow> string \<Rightarrow> httpRequest \<Rightarrow> string \<Rightarrow> string \<Rightarrow> world \<Rightarrow> authAnswer" where
  "http_login c q production fresh hr email password w =
     (let (meta, ops) = buildMeta production fresh hr
      in case login c q email password meta w of
           (Inl e, w') \<Rightarrow> ((Inl e, ops), w')
         | (Inr (LoggedIn tp), w') \<Rightarrow> ((Inr (LoginReply (tp_accessToken tp)), ops @ [setRefreshCookie production tp]), w')
         | (Inr (RequiresVerification m challenge), w') \<Rightarrow> ((Inr (ChallengeReply m challenge), ops), w'))"

definition http_verifyLogin :: "cfg \<Rightarrow> req \<Rightarrow> bool \<Rightarrow> string \<Rightarrow> httpRequest \<Rightarrow> string \<Rightarrow> string \<Rightarrow> world \<Rightarrow> authAnswer" where
  "http_verifyLogin c q production fresh hr challengeToken code w =
     (let (meta, ops) = buildMeta production fresh hr
      in case verifyLogin c q challengeToken code meta w of
           (Inl e, w') \<Rightarrow> ((Inl e, ops), w')
         | (Inr tp, w') \<Rightarrow> ((Inr (AccessTokenReply (Some (tp_accessToken tp))), ops @ [setRefreshCookie production tp]), w'))"

definition http_refresh :: "cfg \<Rightarrow> req \<Rightarrow> bool \<Rightarrow> string \<Rightarrow> httpRequest \<Rightarrow> world \<Rightarrow> authAnswer" where
  "http_refresh c q production fresh hr w =
     (let rawRefreshToken = getCookie hr REFRESH_COOKIE in
      if \<not> truthy rawRefreshToken then ((Inr (AccessTokenReply None), [clearRefreshCookie]), w)
      else (let (meta, ops) = buildMeta production fresh hr
            in case refresh c q (the rawRefreshToken) meta w of
                 (Inl e, w') \<Rightarrow> ((Inl e, ops @ [clearRefreshCookie]), w')
               | (Inr tp, w') \<Rightarrow>
                   ((Inr (AccessTokenReply (Some (tp_accessToken tp))), ops @ [setRefreshCookie production tp]), w')))"

definition http_logout :: "cfg \<Rightarrow> req \<Rightarrow> httpRequest \<Rightarrow> world \<Rightarrow> authAnswer" where
  "http_logout c q hr w =
     (let rawRefreshToken = getCookie hr REFRESH_COOKIE
      in ((Inr (MessageReply ''Logged out''), [clearRefreshCookie]),
          if truthy rawRefreshToken then logout c q (the rawRefreshToken) w else w))"

definition http_logoutAll :: "cfg \<Rightarrow> req \<Rightarrow> ident \<Rightarrow> world \<Rightarrow> authAnswer" where
  "http_logoutAll c q sub w =
     ((Inr (MessageReply ''Logged out on all devices''), [clearRefreshCookie]), logoutAll c q sub w)"

definition http_deleteAccount :: "cfg \<Rightarrow> req \<Rightarrow> ident \<Rightarrow> string \<Rightarrow> world \<Rightarrow> authAnswer" where
  "http_deleteAccount c q sub password w =
     (case deleteAccount c q sub password w of
        (Inl e, w') \<Rightarrow> ((Inl e, []), w')
      | (Inr m, w') \<Rightarrow> ((Inr (MessageReply m), [clearRefreshCookie]), w'))"

text \<open>The handlers that only pass the call on; \<open>reply\<close> names the shape of the answer.\<close>

definition pass :: "('a \<Rightarrow> authReply) \<Rightarrow> 'a result \<times> world \<Rightarrow> authAnswer" where
  "pass reply p = ((map_sum id reply (fst p), []), snd p)"

primrec auth_handle ::
  "cfg \<Rightarrow> req \<Rightarrow> bool \<Rightarrow> string \<Rightarrow> httpRequest \<Rightarrow> ident \<Rightarrow> world \<Rightarrow> authCall \<Rightarrow> authAnswer" where
  "auth_handle c q production fresh hr sub w (Register dto) = http_register c q production fresh hr dto w"
| "auth_handle c q production fresh hr sub w (VerifyEmail token) = pass MessageReply (verifyEmail c q token w)"
| "auth_handle c q production fresh hr sub w (Login email password) = http_login c q production fresh hr email password w"
| "auth_handle c q production fresh hr sub w (VerifyLogin challengeToken code) =
     http_verifyLogin c q production fresh hr challengeToken code w"
| "auth_handle c q production fresh hr sub w Refresh = http_refresh c q production fresh hr w"
| "auth_handle c q production fresh hr sub w Logout = http_logout c q hr w"
| "auth_handle c q production fresh hr sub w LogoutAll = http_logoutAll c q sub w"
| "auth_handle c q production fresh hr sub w (ForgotPassword email) = pass MessageReply (forgotPassword c q email w)"
| "auth_handle c q production fresh hr sub w (ResetPassword token newPassword) =
     pass MessageReply (resetPassword c q token newPassword w)"
| "auth_handle c q production fresh hr sub w Start2fa = pass TwoFactorReply (start2fa c q sub w)"
| "auth_handle c q production fresh hr sub w (Confirm2fa code) = pass MessageReply (confirm2fa c q sub code w)"
| "auth_handle c q production fresh hr sub w (Disable2fa password) = pass MessageReply (disable2fa c q sub password w)"
| "auth_handle c q production fresh hr sub w ListDevices = pass DevicesReply (Inr (listForUser sub w), w)"
| "auth_handle c q production fresh hr sub w (TrustDevice deviceId) = pass DeviceReply (trustDevice c q sub deviceId w)"
| "auth_handle c q production fresh hr sub w (RemoveDevice deviceId) = pass (\<lambda>_. EmptyReply) (removeDevice q sub deviceId w)"
| "auth_handle c q production fresh hr sub w ListSessions = pass SessionsReply (Inr (listActiveForUser sub w), w)"
| "auth_handle c q production fresh hr sub w ExportData = pass ExportReply (exportData q sub w)"
| "auth_handle c q production fresh hr sub w (DeleteAccount password) = http_deleteAccount c q sub password w"

section \<open>Routes\<close>

definition auth_routes :: "route list" where
  "auth_routes =
    [throttle 5 (endpoint ''register'' POST [Lit ''auth'', Lit ''register''] PublicRoute),
     endpoint ''verifyEmail'' POST [Lit ''auth'', Lit ''verify-email''] PublicRoute,
     throttle 10 (endpoint ''login'' POST [Lit ''auth'', Lit ''login''] PublicRoute),
     throttle 5 (endpoint ''verifyLogin'' POST [Lit ''auth'', Lit ''login'', Lit ''verify''] PublicRoute),
     endpoint ''refresh'' POST [Lit ''auth'', Lit ''refresh''] PublicRoute,
     endpoint ''logout'' POST [Lit ''auth'', Lit ''logout''] PublicRoute,
     endpoint ''logoutAll'' POST [Lit ''auth'', Lit ''logout-all''] SignedIn,
     throttle 5 (endpoint ''forgotPassword'' POST [Lit ''auth'', Lit ''forgot-password''] PublicRoute),
     throttle 5 (endpoint ''resetPassword'' POST [Lit ''auth'', Lit ''reset-password''] PublicRoute),
     endpoint ''start2fa'' POST [Lit ''auth'', Lit ''2fa'', Lit ''enable''] SignedIn,
     endpoint ''confirm2fa'' POST [Lit ''auth'', Lit ''2fa'', Lit ''confirm''] SignedIn,
     endpoint ''disable2fa'' POST [Lit ''auth'', Lit ''2fa'', Lit ''disable''] SignedIn,
     endpoint ''listDevices'' GET [Lit ''auth'', Lit ''devices''] SignedIn,
     endpoint ''trustDevice'' POST [Lit ''auth'', Lit ''devices'', Param ''id'', Lit ''trust''] SignedIn,
     endpoint ''removeDevice'' DELETE [Lit ''auth'', Lit ''devices'', Param ''id''] SignedIn,
     endpoint ''listSessions'' GET [Lit ''auth'', Lit ''sessions''] SignedIn,
     endpoint ''exportData'' GET [Lit ''auth'', Lit ''data-export''] SignedIn,
     throttle 3 (endpoint ''deleteAccount'' DELETE [Lit ''auth'', Lit ''account''] SignedIn)]"

primrec auth_name :: "authCall \<Rightarrow> string" where
  "auth_name (Register dto) = ''register''"
| "auth_name (VerifyEmail token) = ''verifyEmail''"
| "auth_name (Login email password) = ''login''"
| "auth_name (VerifyLogin challengeToken code) = ''verifyLogin''"
| "auth_name Refresh = ''refresh''"
| "auth_name Logout = ''logout''"
| "auth_name LogoutAll = ''logoutAll''"
| "auth_name (ForgotPassword email) = ''forgotPassword''"
| "auth_name (ResetPassword token newPassword) = ''resetPassword''"
| "auth_name Start2fa = ''start2fa''"
| "auth_name (Confirm2fa code) = ''confirm2fa''"
| "auth_name (Disable2fa password) = ''disable2fa''"
| "auth_name ListDevices = ''listDevices''"
| "auth_name (TrustDevice deviceId) = ''trustDevice''"
| "auth_name (RemoveDevice deviceId) = ''removeDevice''"
| "auth_name ListSessions = ''listSessions''"
| "auth_name ExportData = ''exportData''"
| "auth_name (DeleteAccount password) = ''deleteAccount''"

definition auth_access :: "authCall \<Rightarrow> access" where
  "auth_access call = access_of auth_routes (auth_name call)"

definition serve_auth ::
  "cfg \<Rightarrow> req \<Rightarrow> bool \<Rightarrow> bool \<Rightarrow> string \<Rightarrow> httpRequest \<Rightarrow> access \<Rightarrow> authCall result \<Rightarrow> world
   \<Rightarrow> ((httpFailure + authReply) \<times> cookieOp list) \<times> world" where
  "serve_auth c q limited production fresh hr a call w =
     (case authorize c q limited a hr w of
        Inl f \<Rightarrow> ((Inl f, []), w)
      | Inr user \<Rightarrow>
          (case call of
             Inl e \<Rightarrow> ((Inl (Failure e), []), w)
           | Inr x \<Rightarrow>
               (case auth_handle c q production fresh hr (subject user) w x of
                  ((r, ops), w') \<Rightarrow> ((map_sum Failure id r, ops), w'))))"


lemma auth_access_simps [simp]:
  "auth_access (Register dto) = PublicRoute" "auth_access (VerifyEmail token) = PublicRoute"
  "auth_access (Login email password) = PublicRoute" "auth_access (VerifyLogin token code) = PublicRoute"
  "auth_access Refresh = PublicRoute" "auth_access Logout = PublicRoute" "auth_access LogoutAll = SignedIn"
  "auth_access (ForgotPassword email) = PublicRoute" "auth_access (ResetPassword token password) = PublicRoute"
  "auth_access Start2fa = SignedIn" "auth_access (Confirm2fa code) = SignedIn" "auth_access (Disable2fa password) = SignedIn"
  "auth_access ListDevices = SignedIn" "auth_access (TrustDevice deviceId) = SignedIn"
  "auth_access (RemoveDevice deviceId) = SignedIn" "auth_access ListSessions = SignedIn"
  "auth_access ExportData = SignedIn" "auth_access (DeleteAccount password) = SignedIn"
  by (simp_all add: auth_access_def auth_routes_def route_defs)

section \<open>The browser\<close>

text \<open>What a browser keeps of the answers: the cookies by name (each name is used with one path only).\<close>

primrec apply_cookie :: "cookieOp \<Rightarrow> (string \<times> string) list \<Rightarrow> (string \<times> string) list" where
  "apply_cookie (SetCookie n v opts) jar = (n, v) # filter (\<lambda>(m, _). m \<noteq> n) jar"
| "apply_cookie (ClearCookie n path) jar = filter (\<lambda>(m, _). m \<noteq> n) jar"

definition browser_after :: "cookieOp list \<Rightarrow> (string \<times> string) list \<Rightarrow> (string \<times> string) list" where
  "browser_after ops jar = fold apply_cookie ops jar"

lemma map_of_filter_neq: "map_of (filter (\<lambda>(m, _). m \<noteq> n) jar) k = (if k = n then None else map_of jar k)"
  by (induction jar) auto

lemma map_of_apply_cookie [simp]:
  "map_of (apply_cookie (SetCookie n v opts) jar) k = (if k = n then Some v else map_of jar k)"
  "map_of (apply_cookie (ClearCookie n path) jar) k = (if k = n then None else map_of jar k)"
  by (simp_all add: map_of_filter_neq)

lemma browser_refresh_cookie:
  "map_of (browser_after (ops @ [setRefreshCookie production tp]) jar) REFRESH_COOKIE = Some (tp_refreshToken tp)"
  "map_of (browser_after (ops @ [clearRefreshCookie]) jar) REFRESH_COOKIE = None"
  "map_of (browser_after [clearRefreshCookie] jar) REFRESH_COOKIE = None"
  by (simp_all add: browser_after_def setRefreshCookie_def clearRefreshCookie_def del: apply_cookie.simps)

lemma buildMeta_keeps_refresh_cookie:
  "buildMeta production fresh hr = (meta, ops) \<Longrightarrow> map_of (browser_after ops jar) REFRESH_COOKIE = map_of jar REFRESH_COOKIE"
  by (auto simp: buildMeta_def getOrCreateDeviceId_def Let_def browser_after_def REFRESH_COOKIE_def DEVICE_ID_COOKIE_def
      map_of_filter_neq split: if_splits)

section \<open>Tokens that are handed out log in\<close>

lemma create_session_InrD:
  assumes "create_session c q i w = (Inr x, w')"
  shows "fresh_session c q w \<and> x = (q_rawToken q, new_session c q i) \<and> w' = w\<lparr>sessions := sessions w @ [new_session c q i]\<rparr>"
  using assms by (auto simp: create_session_def fresh_session_def Let_def split: if_splits)

lemma holder_created:
  assumes "create_session c q i w = (Inr x, w')" and "0 < c_refreshExpiryDays c" and "sessions w'' = sessions w'"
  shows "fst x = q_rawToken q \<and> holder c (q_now q) (q_rawToken q) w'' = Some (ci_userId i)"
proof -
  note d = create_session_InrD [OF assms(1)]
  have "findFirst (\<lambda>s. s_tokenHash s = c_hash c (q_rawToken q) \<and> session_live (q_now q) s) (sessions w) = None"
    using d unfolding fresh_session_def findFirst_None_iff by (metis imageI)
  then show ?thesis
    using d assms(2,3) by (simp add: holder_def findFirst_append session_live_def ms_per_day_def)
qed

lemma issued_token_logs_in:
  assumes "issueTokenPair c q i d meta new w = (Inr tp, w')" and "0 < c_refreshExpiryDays c"
  shows "holder c (q_now q) (tp_refreshToken tp) w' = Some i"
proof -
  from assms(1) obtain u where u: "findById i w = Some u" by (auto simp: issueTokenPair_def split: option.splits)
  let ?in = "login_session_input c u d meta (login_risk c q u meta new w)"
  from assms(1) u obtain x w2 where c: "create_session c q ?in (enforceLimit c q (u_id u) w) = (Inr x, w2)"
    by (auto simp: issueTokenPair_def Let_def split: prod.splits sum.splits)
  with assms(1) u have w': "sessions w' = sessions w2" "tp_refreshToken tp = fst x"
    by (auto simp: issueTokenPair_def Let_def updateLastLogin_def split: prod.splits if_splits)
  have "ci_userId ?in = i" using findById_SomeD [OF u] by (auto simp: login_session_input_def Let_def split: prod.splits)
  with holder_created [OF c assms(2) w'(1)] w'(2) show ?thesis by simp
qed

lemma challenge_not_logged_in: "fst (new_device_challenge c q u d meta w) \<noteq> LoggedIn tp"
  by (simp add: new_device_challenge_def Let_def case_prod_beta)

lemma logged_in_token_logs_in:
  assumes l: "login c q email pw meta w = (Inr (LoggedIn tp), w')" and days: "0 < c_refreshExpiryDays c"
  shows "\<exists>u. findByEmail email w = Some u \<and> holder c (q_now q) (tp_refreshToken tp) w' = Some (u_id u)"
proof -
  have "fst (login c q email pw meta w) = Inr (LoggedIn tp)" using l by simp
  then obtain u where u: "credentials_ok c q email pw w u" by (rule login_Inr_credentials)
  from l login_credentials [OF u, of meta] challenge_not_logged_in
  obtain d w2 where "issueTokenPair c q (u_id u) d meta False w2 = (Inr tp, w')"
    by (auto simp: case_prod_beta Let_def prod_eq_iff split: prod.splits sum.splits if_splits)
  from issued_token_logs_in [OF this days] u show ?thesis by (auto simp: credentials_ok_def)
qed

lemma refreshed_token_logs_in:
  assumes ok: "sessions_ok w" and days: "0 < c_refreshExpiryDays c" and r: "refresh c q tok meta w = (Inr tp, w')"
  shows "\<exists>i. holder c (q_now q) (tp_refreshToken tp) w' = Some i"
proof -
  from r obtain s where s: "s \<in> set (sessions w)" "refresh_with c q s meta w = (Inr tp, w')"
    by (auto simp: refresh_def grace_successor_def findActiveByRawToken_def findSessionById_def
        split: option.splits if_splits dest!: findFirst_SomeD)
  from s(2) obtain x where x: "rotate_session c q s (rm_ipAddress meta) w = (Inr x, w')" "tp_refreshToken tp = fst x"
    by (auto simp: refresh_with_def split: option.splits if_splits prod.splits sum.splits)
  then obtain y v where y: "create_session c q (rotation_input s (rm_ipAddress meta)) w = (Inr y, v)" "fst x = fst y"
    by (auto simp: rotate_session_def split: prod.splits sum.splits)
  note d = create_session_InrD [OF y(1)]
  have "holder c (q_now q) (q_rawToken q) (snd (rotate_session c q s (rm_ipAddress meta) w)) = Some (s_userId s)"
    using d by (simp add: holder_rotated [OF ok _ s(1) days])
  with x y d show ?thesis by auto
qed


lemma logout_kills_token:
  assumes ok: "sessions_ok w"
  shows "holder c (q_now q) tok (logout c q tok w) = None"
proof (cases "findActiveByRawToken c q tok w")
  case None
  then show ?thesis by (simp add: logout_def holder_def findActiveByRawToken_def)
next
  case (Some s)
  then have s: "s \<in> set (sessions w)" "s_tokenHash s = c_hash c tok"
    by (auto simp: findActiveByRawToken_def dest: findFirst_SomeD)
  have one: "s_id x = s_id s" if "x \<in> set (sessions w)" "s_tokenHash x = c_hash c tok" for x
    using that s ok unfolding sessions_ok_def by (metis unique_onD)
  have "\<not> (s_tokenHash x = c_hash c tok \<and> session_live (q_now q) x)"
    if "x \<in> set (updateMany (\<lambda>x. s_id x = s_id s) (revoke_row q) (sessions w))" for x
    using that one by (elim in_updateManyE) (auto simp: session_live_def)
  then show ?thesis
    using Some by (simp add: logout_def holder_def revoke_def update_sessions_def findFirst_None_iff)
qed

text \<open>The refresh cookie the browser holds before a request and after its answer.\<close>

definition cookie_before :: "httpRequest \<Rightarrow> string option" where
  "cookie_before hr = map_of (hr_cookies hr) REFRESH_COOKIE"

definition cookie_after :: "cookieOp list \<Rightarrow> httpRequest \<Rightarrow> string option" where
  "cookie_after ops hr = map_of (browser_after ops (hr_cookies hr)) REFRESH_COOKIE"

lemma cookie_after_simps [simp]:
  "cookie_after [] hr = cookie_before hr"
  "cookie_after [clearRefreshCookie] hr = None"
  "cookie_after (ops @ [clearRefreshCookie]) hr = None"
  "cookie_after (ops @ [setRefreshCookie production tp]) hr = Some (tp_refreshToken tp)"
  using browser_refresh_cookie by (simp_all add: cookie_after_def cookie_before_def browser_after_def)

lemma cookie_after_meta: "buildMeta production fresh hr = (meta, ops) \<Longrightarrow> cookie_after ops hr = cookie_before hr"
  by (simp add: cookie_after_def cookie_before_def buildMeta_keeps_refresh_cookie)

lemma refresh_cookie:
  assumes "sessions_ok w" "0 < c_refreshExpiryDays c" "http_refresh c q production fresh hr w = ((r, ops), w')"
  shows "case cookie_after ops hr of
      Some tok \<Rightarrow> (\<exists>a i. r = Inr (AccessTokenReply (Some a)) \<and> holder c (q_now q) tok w' = Some i)
    | None \<Rightarrow> (\<forall>a. r \<noteq> Inr (AccessTokenReply (Some a)))"
proof -
  obtain meta mops where m: "buildMeta production fresh hr = (meta, mops)" by (cases "buildMeta production fresh hr")
  show ?thesis
    using assms(3) refreshed_token_logs_in [OF assms(1,2), of q _ meta]
    by (auto simp: http_refresh_def m Let_def split: if_splits sum.splits prod.splits)
qed

lemma login_cookie:
  assumes "0 < c_refreshExpiryDays c" "http_login c q production fresh hr email pw w = ((r, ops), w')"
  shows "case r of
      Inr (LoginReply a) \<Rightarrow> (\<exists>tok u. cookie_after ops hr = Some tok \<and> findByEmail email w = Some u
        \<and> holder c (q_now q) tok w' = Some (u_id u))
    | _ \<Rightarrow> cookie_after ops hr = cookie_before hr"
proof -
  obtain meta mops where m: "buildMeta production fresh hr = (meta, mops)" by (cases "buildMeta production fresh hr")
  obtain x w1 where l: "login c q email pw meta w = (x, w1)" by (cases "login c q email pw meta w")
  note kept = cookie_after_meta [OF m]
  show ?thesis
  proof (cases x)
    case (Inl e)
    with assms(2) m l kept show ?thesis by (auto simp: http_login_def)
  next
    case (Inr y)
    then show ?thesis
      using assms(2) m l kept logged_in_token_logs_in [OF _ assms(1), of q email pw meta w _ w1]
      by (cases y) (auto simp: http_login_def)
  qed
qed

lemma verified_token_logs_in:
  assumes "verifyLogin c q challenge code meta w = (Inr tp, w')" "0 < c_refreshExpiryDays c"
  shows "\<exists>i d how h. c_jwtVerify c (q_now q) challenge = Some (LoginChallengePayload i d how h)
    \<and> holder c (q_now q) (tp_refreshToken tp) w' = Some i"
proof -
  from assms(1) obtain i d how h u w2 where
    p: "c_jwtVerify c (q_now q) challenge = Some (LoginChallengePayload i d how h)" "findById i w = Some u"
      "issueTokenPair c q (u_id u) d meta True w2 = (Inr tp, w')"
    by (auto simp: verifyLogin_def Let_def split: option.splits jwtPayload.splits prod.splits if_splits sum.splits bool.splits)
  from issued_token_logs_in [OF p(3) assms(2)] findById_SomeD [OF p(2)] p(1) show ?thesis by auto
qed

lemma verify_cookie:
  assumes "0 < c_refreshExpiryDays c" "http_verifyLogin c q production fresh hr challenge code w = ((r, ops), w')"
  shows "case r of
      Inr a \<Rightarrow> (\<exists>tok i d how h. cookie_after ops hr = Some tok
        \<and> c_jwtVerify c (q_now q) challenge = Some (LoginChallengePayload i d how h) \<and> holder c (q_now q) tok w' = Some i)
    | Inl e \<Rightarrow> cookie_after ops hr = cookie_before hr"
proof -
  obtain meta mops where m: "buildMeta production fresh hr = (meta, mops)" by (cases "buildMeta production fresh hr")
  obtain x w1 where v: "verifyLogin c q challenge code meta w = (x, w1)" by (cases "verifyLogin c q challenge code meta w")
  then show ?thesis
    using assms(2) m cookie_after_meta [OF m] verified_token_logs_in [OF _ assms(1), of q challenge code meta w _ w1]
    by (cases x) (auto simp: http_verifyLogin_def)
qed

lemma revoked_nobody:
  assumes "sessions w' = sessions (revokeAllForUser q i w)"
  shows "holder c t tok w' \<noteq> Some i"
proof -
  have dead: "\<not> session_live t s" if "s \<in> set (sessions (revokeAllForUser q i w))" "s_userId s = i" for s
    using that unfolding revokeAllForUser_def update_sessions_frame(3)
    by (elim in_updateManyE) (auto simp: session_live_def)
  show ?thesis
  proof
    assume "holder c t tok w' = Some i"
    then obtain s where "s \<in> set (sessions w')" "s_userId s = i" "session_live t s"
      by (auto simp: holder_def dest!: findFirst_SomeD)
    with dead show False unfolding assms by blast
  qed
qed

lemma others_keep_tokens:
  assumes "sessions_ok w" "sessions w' = sessions (revokeAllForUser q i w)" "j \<noteq> i"
  shows "holder c t tok w' = Some j \<longleftrightarrow> holder c t tok w = Some j"
proof -
  have "holder c t tok w' = holder c t tok (revokeAllForUser q i w)" unfolding holder_def assms(2) ..
  then show ?thesis using holder_revokeAllForUser [OF assms(1), of c t tok q i] assms(3) by auto
qed

lemma logoutAll_sessions: "sessions (logoutAll c q i w) = sessions (revokeAllForUser q i w)"
  by (simp add: logoutAll_def)

lemma deleteAccount_sessions:
  "sessions (snd (deleteAccount c q i pw w)) =
     (case fst (deleteAccount c q i pw w) of Inl e \<Rightarrow> sessions w | Inr m \<Rightarrow> sessions (revokeAllForUser q i w))"
  by (auto simp: deleteAccount_def Let_def stripe_cancel_def erase_account_def revokeAllForUser_def
      update_sessions_def split: option.splits)

lemma delete_cookie:
  assumes "http_deleteAccount c q sub pw w = ((r, ops), w')"
  shows "(case r of
      Inr a \<Rightarrow> cookie_after ops hr = None \<and> sessions w' = sessions (revokeAllForUser q sub w)
    | Inl e \<Rightarrow> cookie_after ops hr = cookie_before hr \<and> sessions w' = sessions w)"
  using assms deleteAccount_sessions [of c q sub pw w]
  by (auto simp: http_deleteAccount_def split: sum.splits prod.splits)

text \<open>
  C10: What every answer of the authentication controller does to the refresh cookie of the browser. A refresh leaves
  a token that logs an account in, or, whatever went wrong, no token at all. A login that answers with an access
  token leaves a token of the account with that address, and a completed challenge one of the account the challenge
  names; a login or a challenge that fails leaves the cookie as it was. A logout takes the cookie and the token it held
  dies. Logging out everywhere and deleting the account take the cookie, and no token at all logs that account in any
  more, at any time, while the tokens of the other accounts are what they were; a refused deletion changes neither
  cookie nor session. All other answers leave the cookie alone, those that end sessions on the server (a reset of the
  password) included: there the browser is left with a dead cookie, which the next refresh takes.
\<close>

theorem browser_follows_session:
  assumes "sessions_ok w" "0 < c_refreshExpiryDays c"
    and "auth_handle c q production fresh hr sub w call = ((r, ops), w')"
  shows "case call of
      Refresh \<Rightarrow> (case cookie_after ops hr of
          Some tok \<Rightarrow> (\<exists>a i. r = Inr (AccessTokenReply (Some a)) \<and> holder c (q_now q) tok w' = Some i)
        | None \<Rightarrow> (\<forall>a. r \<noteq> Inr (AccessTokenReply (Some a))))
    | Login email pw \<Rightarrow> (case r of
          Inr (LoginReply a) \<Rightarrow> (\<exists>tok u. cookie_after ops hr = Some tok \<and> findByEmail email w = Some u
            \<and> holder c (q_now q) tok w' = Some (u_id u))
        | _ \<Rightarrow> cookie_after ops hr = cookie_before hr)
    | VerifyLogin challenge code \<Rightarrow> (case r of
          Inr a \<Rightarrow> (\<exists>tok i d how h. cookie_after ops hr = Some tok
            \<and> c_jwtVerify c (q_now q) challenge = Some (LoginChallengePayload i d how h) \<and> holder c (q_now q) tok w' = Some i)
        | Inl e \<Rightarrow> cookie_after ops hr = cookie_before hr)
    | Logout \<Rightarrow> cookie_after ops hr = None
        \<and> (\<forall>tok. cookie_before hr = Some tok \<and> tok \<noteq> [] \<longrightarrow> holder c (q_now q) tok w' = None)
    | LogoutAll \<Rightarrow> cookie_after ops hr = None \<and> (\<forall>t tok. holder c t tok w' \<noteq> Some sub)
        \<and> (\<forall>t tok j. j \<noteq> sub \<longrightarrow> (holder c t tok w' = Some j \<longleftrightarrow> holder c t tok w = Some j))
    | DeleteAccount pw \<Rightarrow> (case r of
          Inr a \<Rightarrow> cookie_after ops hr = None \<and> (\<forall>t tok. holder c t tok w' \<noteq> Some sub)
            \<and> (\<forall>t tok j. j \<noteq> sub \<longrightarrow> (holder c t tok w' = Some j \<longleftrightarrow> holder c t tok w = Some j))
        | Inl e \<Rightarrow> cookie_after ops hr = cookie_before hr \<and> sessions w' = sessions w)
    | _ \<Rightarrow> cookie_after ops hr = cookie_before hr"
proof (cases call)
  case (Register dto)
  obtain meta mops where m: "buildMeta production fresh hr = (meta, mops)" by (cases "buildMeta production fresh hr")
  with assms(3) cookie_after_meta [OF m] show ?thesis
    by (auto simp: Register http_register_def split: prod.splits)
next
  case (Login email pw)
  with login_cookie [OF assms(2), of q production fresh hr email pw w r ops w'] assms(3) show ?thesis by simp
next
  case (VerifyLogin challenge code)
  with verify_cookie [OF assms(2), of q production fresh hr challenge code w r ops w'] assms(3) show ?thesis by simp
next
  case Refresh
  with refresh_cookie [OF assms(1,2), of q production fresh hr r ops w'] assms(3) show ?thesis by simp
next
  case Logout
  with assms(3) logout_kills_token [OF assms(1)] show ?thesis
    by (auto simp: http_logout_def Let_def getCookie_def cookie_before_def)
next
  case LogoutAll
  with assms(3) revoked_nobody [OF logoutAll_sessions] others_keep_tokens [OF assms(1) logoutAll_sessions] show ?thesis
    by (auto simp: http_logoutAll_def)
next
  case (DeleteAccount pw)
  with delete_cookie [of c q sub pw w r ops w' hr] assms(3) show ?thesis
    using revoked_nobody [of w' q sub w] others_keep_tokens [OF assms(1), of w' q sub] by (auto split: sum.splits)
qed (use assms(3) in \<open>auto simp: pass_def\<close>)

definition sample_browser :: httpRequest where
  "sample_browser = \<lparr>hr_method = POST, hr_path = [''auth'', ''logout''], hr_url = ''/api/v1/auth/logout'',
     hr_authorization = None, hr_requestId = None, hr_ip = Some ''1.2.3.4'', hr_userAgent = None,
     hr_cookies = [(''ccdid'', ''dev''), (''cc_rt'', ''tok'')]\<rparr>"

theorem browser_follows_session_witness:
  "holder sample_cfg 20 ''tok'' sample_world = Some ''u1''
   \<and> holder sample_cfg 20 ''tok'' (snd (http_logout sample_cfg (sample_req 20) sample_browser sample_world)) = None
   \<and> holder sample_cfg 99 ''tok'' (snd (http_logoutAll sample_cfg (sample_req 20) ''u1'' sample_world)) \<noteq> Some ''u1''"
proof -
  let ?q = "sample_req 20"
  let ?run = "auth_handle sample_cfg ?q False ''d'' sample_browser ''u1'' sample_world"
  have ok: "sessions_ok sample_world" and days: "0 < c_refreshExpiryDays sample_cfg"
    by (simp_all add: sessions_ok_def unique_on_def sample_defs)
  obtain r1 ops1 w1 where 1: "?run Logout = ((r1, ops1), w1)" by (metis surj_pair)
  obtain r2 ops2 w2 where 2: "?run LogoutAll = ((r2, ops2), w2)" by (metis surj_pair)
  have tok: "cookie_before sample_browser = Some ''tok''"
    by (simp add: cookie_before_def sample_browser_def REFRESH_COOKIE_def)
  have "holder sample_cfg 20 ''tok'' sample_world = Some ''u1''"
    by (simp add: holder_def session_live_def sample_defs)
  moreover have "holder sample_cfg 20 ''tok'' (snd (http_logout sample_cfg ?q sample_browser sample_world)) = None"
    using browser_follows_session [OF ok days 1] 1 tok by (simp add: sample_req_def)
  moreover have "holder sample_cfg 99 ''tok'' (snd (http_logoutAll sample_cfg ?q ''u1'' sample_world)) \<noteq> Some ''u1''"
    using browser_follows_session [OF ok days 2] 2 by simp
  ultimately show ?thesis by blast
qed

end
