(* ===== verification/AdminController.thy ===== *)
theory AdminController
  imports Complex_Main Http AdminReports
begin

text \<open>
  \<open>admin.controller.ts\<close>: every route of the administrators with the method of \<open>AdminService\<close> or
  \<open>ProspectCampaignService\<close> it calls. The whole controller stands behind \<open>RolesGuard\<close> with \<open>ADMIN\<close> and
  \<open>SUPER_ADMIN\<close>. What the campaign takes from outside (\<open>isEmail\<close>, the bulk queue, the configured mailing
  address) is in \<open>adminEnv\<close>.
\<close>

record adminEnv =
  ae_isEmail :: "string \<Rightarrow> bool"
  ae_queue :: "nat \<Rightarrow> bool"
  ae_mailingAddress :: string

section \<open>Calls\<close>

datatype adminCall =
    ListUsers usersQuery nat nat
  | GetUser ident
  | GetUserSessions ident
  | SuspendUser ident "string option"
  | ReactivateUser ident
  | SendPasswordReset ident
  | DeleteUser ident
  | ForceLogout ident
  | ImpersonateUser ident
  | InviteUser inviteUserDto
  | SetDirectoryAccess ident bool
  | SetLeadFinderAccess ident bool
  | ListProspects "string option" nat nat
  | PitchProspect ident pitchTemplate
  | InviteProspect string
  | QueueProspectsBulk "string list"
  | GetCampaignStats
  | UpdateCampaignSettings "nat option" "bool option"
  | SendCampaignTestEmail string
  | GetCampaignEmailTemplate
  | UpdateCampaignEmailTemplate templateUpdate
  | SendCampaignNow
  | ListSubscriptions "subscriptionStatus option" nat nat
  | ListLeadFinderSubscriptions "subscriptionStatus option" nat nat
  | GetMonthlyRevenue
  | ListAuditLogs auditQuery nat nat
  | ListFlaggedSessions int nat nat
  | ListLeads leadsQuery nat nat
  | GetLeadFilters
  | CreateLead leadDto
  | UpdateLead ident leadDto
  | ApproveLead ident
  | DeleteLead ident
  | ListContactMessages "bool option" "contactReason option" nat nat
  | ResolveContactMessage ident
  | DeleteContactMessage ident
  | ReplyToContactMessage ident string

datatype adminReply =
    UsersReply "billedUser page"
  | UserReply userDetail
  | UserSessionsReply "securityView list"
  | AdminMessage string
  | TokenReply "string \<times> string"
  | ProspectsReply "prospectView page"
  | UploadReply uploadReport
  | StatsReply campaignStats
  | SettingsReply "nat \<times> bool"
  | TemplateReply emailTemplate
  | DripReply dripReport
  | SubscriptionsReply "(billingView \<times> time option) page"
  | LeadFinderReply "billingView page"
  | RevenueReply "revenueView list"
  | AuditReply "auditLog page"
  | FlaggedReply "(securityView \<times> (ident \<times> string \<times> string) option) page"
  | LeadsReply "(lead \<times> (ident \<times> string \<times> string) option) page"
  | FiltersReply "companyTypeParam list \<times> string list"
  | LeadReply lead
  | AdminEmpty
  | MessagesReply "contactMessage page"

section \<open>Handlers\<close>

definition answer :: "('a \<Rightarrow> 'r) \<Rightarrow> 'a result \<times> world \<Rightarrow> 'r result \<times> world" where
  "answer reply p = map_prod (map_sum id reply) id p"

lemma snd_answer [simp]: "snd (answer reply p) = snd p"
  by (simp add: answer_def)

primrec admin_handle ::
  "adminEnv \<Rightarrow> cfg \<Rightarrow> req \<Rightarrow> ident \<Rightarrow> world \<Rightarrow> adminCall \<Rightarrow> adminReply result \<times> world" where
  "admin_handle env c q admin w (ListUsers query pageNo pageSize) = answer UsersReply (Inr (listUsers c query pageNo pageSize w), w)"
| "admin_handle env c q admin w (GetUser i) = answer UserReply ((getUser q i w), w)"
| "admin_handle env c q admin w (GetUserSessions i) = answer UserSessionsReply ((getUserSessions i w), w)"
| "admin_handle env c q admin w (SuspendUser i reason) = answer AdminMessage (suspendUser c q admin i reason w)"
| "admin_handle env c q admin w (ReactivateUser i) = answer AdminMessage (reactivateUser q admin i w)"
| "admin_handle env c q admin w (SendPasswordReset i) = answer AdminMessage (sendPasswordReset c q admin i w)"
| "admin_handle env c q admin w (DeleteUser i) = answer AdminMessage (deleteUser c q admin i w)"
| "admin_handle env c q admin w (ForceLogout i) = answer AdminMessage (forceLogout c q admin i w)"
| "admin_handle env c q admin w (ImpersonateUser i) = answer TokenReply (impersonateUser c q admin i w)"
| "admin_handle env c q admin w (InviteUser dto) = answer AdminMessage (inviteUser q admin dto w)"
| "admin_handle env c q admin w (SetDirectoryAccess i grant) = answer AdminMessage (setDirectoryAccess q admin i grant w)"
| "admin_handle env c q admin w (SetLeadFinderAccess i grant) = answer AdminMessage (setLeadFinderAccess q admin i grant w)"
| "admin_handle env c q admin w (ListProspects s pageNo pageSize) = answer ProspectsReply (Inr (listProspects c q s pageNo pageSize w), w)"
| "admin_handle env c q admin w (PitchProspect i template) = answer AdminMessage (pitchProspect q admin i template w)"
| "admin_handle env c q admin w (InviteProspect email) = answer AdminMessage (inviteProspect (ae_queue env) q admin email w)"
| "admin_handle env c q admin w (QueueProspectsBulk emails) = answer UploadReply (map_prod Inr id (enqueueUploadedEmails (ae_isEmail env) q admin emails w))"
| "admin_handle env c q admin w GetCampaignStats = answer StatsReply (map_prod Inr id (getStats w))"
| "admin_handle env c q admin w (UpdateCampaignSettings cap paused) = answer SettingsReply (map_prod Inr id (updateSettings q admin cap paused w))"
| "admin_handle env c q admin w (SendCampaignTestEmail email) = answer AdminMessage (Inr (''Test email sent to '' @ email @ ''.''), sendTestEmail (ae_queue env) email w)"
| "admin_handle env c q admin w GetCampaignEmailTemplate = answer TemplateReply (map_prod Inr id (getEmailTemplate (ae_mailingAddress env) w))"
| "admin_handle env c q admin w (UpdateCampaignEmailTemplate dto) = answer TemplateReply (updateEmailTemplate (ae_mailingAddress env) q admin dto w)"
| "admin_handle env c q admin w SendCampaignNow = answer DripReply (map_prod Inr id (runDailyDrip (ae_queue env) q w))"
| "admin_handle env c q admin w (ListSubscriptions st pageNo pageSize) = answer SubscriptionsReply (Inr (listSubscriptions c q st pageNo pageSize w), w)"
| "admin_handle env c q admin w (ListLeadFinderSubscriptions st pageNo pageSize) = answer LeadFinderReply (Inr (listLeadFinderSubscriptions c q st pageNo pageSize w), w)"
| "admin_handle env c q admin w GetMonthlyRevenue = answer RevenueReply (Inr (getMonthlyRevenue w), w)"
| "admin_handle env c q admin w (ListAuditLogs query pageNo pageSize) = answer AuditReply (Inr (listAuditLogs query pageNo pageSize w), w)"
| "admin_handle env c q admin w (ListFlaggedSessions minScore pageNo pageSize) = answer FlaggedReply (Inr (listFlaggedSessions minScore pageNo pageSize w), w)"
| "admin_handle env c q admin w (ListLeads query pageNo pageSize) = answer LeadsReply (Inr (listLeads c query pageNo pageSize w), w)"
| "admin_handle env c q admin w GetLeadFilters = answer FiltersReply (Inr (getLeadFilters w), w)"
| "admin_handle env c q admin w (CreateLead dto) = answer LeadReply (map_prod Inr id (createLead q admin dto w))"
| "admin_handle env c q admin w (UpdateLead i dto) = answer LeadReply (updateLead q admin i dto w)"
| "admin_handle env c q admin w (ApproveLead i) = answer LeadReply (approveLead q admin i w)"
| "admin_handle env c q admin w (DeleteLead i) = answer (\<lambda>_. AdminEmpty) (deleteLead q admin i w)"
| "admin_handle env c q admin w (ListContactMessages resolved reason pageNo pageSize) = answer MessagesReply (Inr (listContactMessages resolved reason pageNo pageSize w), w)"
| "admin_handle env c q admin w (ResolveContactMessage i) = answer AdminMessage (resolveContactMessage q admin i w)"
| "admin_handle env c q admin w (DeleteContactMessage i) = answer AdminMessage (deleteContactMessage q admin i w)"
| "admin_handle env c q admin w (ReplyToContactMessage i message) = answer AdminMessage (replyToContactMessage q admin i message w)"

section \<open>Routes\<close>

definition admin_only :: access where "admin_only = NeedsRole [ADMIN, SUPER_ADMIN]"

definition admin_user_routes :: "route list" where
  "admin_user_routes =
    [endpoint ''listUsers'' GET [Lit ''admin'', Lit ''users''] admin_only,
     endpoint ''getUser'' GET [Lit ''admin'', Lit ''users'', Param ''id''] admin_only,
     endpoint ''getUserSessions'' GET [Lit ''admin'', Lit ''users'', Param ''id'', Lit ''sessions''] admin_only,
     endpoint ''suspendUser'' POST [Lit ''admin'', Lit ''users'', Param ''id'', Lit ''suspend''] admin_only,
     endpoint ''reactivateUser'' POST [Lit ''admin'', Lit ''users'', Param ''id'', Lit ''reactivate''] admin_only,
     endpoint ''sendPasswordReset'' POST [Lit ''admin'', Lit ''users'', Param ''id'', Lit ''send-password-reset''] admin_only,
     endpoint ''deleteUser'' DELETE [Lit ''admin'', Lit ''users'', Param ''id''] admin_only,
     endpoint ''forceLogout'' POST [Lit ''admin'', Lit ''users'', Param ''id'', Lit ''force-logout''] admin_only,
     endpoint ''impersonateUser'' POST [Lit ''admin'', Lit ''users'', Param ''id'', Lit ''impersonate''] admin_only,
     endpoint ''inviteUser'' POST [Lit ''admin'', Lit ''users'', Lit ''invite''] admin_only,
     endpoint ''setDirectoryAccess'' PATCH [Lit ''admin'', Lit ''users'', Param ''id'', Lit ''directory-access''] admin_only,
     endpoint ''setLeadFinderAccess'' PATCH [Lit ''admin'', Lit ''users'', Param ''id'', Lit ''lead-finder-access''] admin_only]"

definition admin_prospect_routes :: "route list" where
  "admin_prospect_routes =
    [endpoint ''listProspects'' GET [Lit ''admin'', Lit ''prospects''] admin_only,
     endpoint ''pitchProspect'' POST [Lit ''admin'', Lit ''prospects'', Param ''id'', Lit ''pitch''] admin_only,
     endpoint ''inviteProspect'' POST [Lit ''admin'', Lit ''prospects'', Lit ''invite''] admin_only,
     endpoint ''queueProspectsBulk'' POST [Lit ''admin'', Lit ''prospects'', Lit ''invite-bulk''] admin_only,
     endpoint ''getCampaignStats'' GET [Lit ''admin'', Lit ''prospects'', Lit ''campaign'', Lit ''stats''] admin_only,
     endpoint ''updateCampaignSettings'' PATCH [Lit ''admin'', Lit ''prospects'', Lit ''campaign'', Lit ''settings''] admin_only,
     endpoint ''sendCampaignTestEmail'' POST [Lit ''admin'', Lit ''prospects'', Lit ''campaign'', Lit ''test-send''] admin_only,
     endpoint ''getCampaignEmailTemplate'' GET [Lit ''admin'', Lit ''prospects'', Lit ''campaign'', Lit ''template''] admin_only,
     endpoint ''updateCampaignEmailTemplate'' PATCH [Lit ''admin'', Lit ''prospects'', Lit ''campaign'', Lit ''template''] admin_only,
     endpoint ''sendCampaignNow'' POST [Lit ''admin'', Lit ''prospects'', Lit ''campaign'', Lit ''send-now''] admin_only]"

definition admin_report_routes :: "route list" where
  "admin_report_routes =
    [endpoint ''listSubscriptions'' GET [Lit ''admin'', Lit ''subscriptions''] admin_only,
     endpoint ''listLeadFinderSubscriptions'' GET [Lit ''admin'', Lit ''lead-finder-subscriptions''] admin_only,
     endpoint ''getMonthlyRevenue'' GET [Lit ''admin'', Lit ''billing'', Lit ''monthly''] admin_only,
     endpoint ''listAuditLogs'' GET [Lit ''admin'', Lit ''audit-logs''] admin_only,
     endpoint ''listFlaggedSessions'' GET [Lit ''admin'', Lit ''security'', Lit ''sessions''] admin_only]"

definition admin_lead_routes :: "route list" where
  "admin_lead_routes =
    [endpoint ''listLeads'' GET [Lit ''admin'', Lit ''leads''] admin_only,
     endpoint ''getLeadFilters'' GET [Lit ''admin'', Lit ''leads'', Lit ''filters''] admin_only,
     endpoint ''createLead'' POST [Lit ''admin'', Lit ''leads''] admin_only,
     endpoint ''updateLead'' PATCH [Lit ''admin'', Lit ''leads'', Param ''id''] admin_only,
     endpoint ''approveLead'' POST [Lit ''admin'', Lit ''leads'', Param ''id'', Lit ''approve''] admin_only,
     endpoint ''deleteLead'' DELETE [Lit ''admin'', Lit ''leads'', Param ''id''] admin_only]"

definition admin_message_routes :: "route list" where
  "admin_message_routes =
    [endpoint ''listContactMessages'' GET [Lit ''admin'', Lit ''contact-messages''] admin_only,
     endpoint ''resolveContactMessage'' POST [Lit ''admin'', Lit ''contact-messages'', Param ''id'', Lit ''resolve''] admin_only,
     endpoint ''deleteContactMessage'' DELETE [Lit ''admin'', Lit ''contact-messages'', Param ''id''] admin_only,
     endpoint ''replyToContactMessage'' POST [Lit ''admin'', Lit ''contact-messages'', Param ''id'', Lit ''reply''] admin_only]"

definition admin_routes :: "route list" where
  "admin_routes = admin_user_routes @ admin_prospect_routes @ admin_report_routes @ admin_lead_routes @ admin_message_routes"

lemmas admin_routes_defs = admin_routes_def admin_user_routes_def admin_prospect_routes_def admin_report_routes_def admin_lead_routes_def admin_message_routes_def

primrec admin_name :: "adminCall \<Rightarrow> string" where
  "admin_name (ListUsers query pageNo pageSize) = ''listUsers''"
| "admin_name (GetUser i) = ''getUser''"
| "admin_name (GetUserSessions i) = ''getUserSessions''"
| "admin_name (SuspendUser i reason) = ''suspendUser''"
| "admin_name (ReactivateUser i) = ''reactivateUser''"
| "admin_name (SendPasswordReset i) = ''sendPasswordReset''"
| "admin_name (DeleteUser i) = ''deleteUser''"
| "admin_name (ForceLogout i) = ''forceLogout''"
| "admin_name (ImpersonateUser i) = ''impersonateUser''"
| "admin_name (InviteUser dto) = ''inviteUser''"
| "admin_name (SetDirectoryAccess i grant) = ''setDirectoryAccess''"
| "admin_name (SetLeadFinderAccess i grant) = ''setLeadFinderAccess''"
| "admin_name (ListProspects s pageNo pageSize) = ''listProspects''"
| "admin_name (PitchProspect i template) = ''pitchProspect''"
| "admin_name (InviteProspect email) = ''inviteProspect''"
| "admin_name (QueueProspectsBulk emails) = ''queueProspectsBulk''"
| "admin_name GetCampaignStats = ''getCampaignStats''"
| "admin_name (UpdateCampaignSettings cap paused) = ''updateCampaignSettings''"
| "admin_name (SendCampaignTestEmail email) = ''sendCampaignTestEmail''"
| "admin_name GetCampaignEmailTemplate = ''getCampaignEmailTemplate''"
| "admin_name (UpdateCampaignEmailTemplate dto) = ''updateCampaignEmailTemplate''"
| "admin_name SendCampaignNow = ''sendCampaignNow''"
| "admin_name (ListSubscriptions st pageNo pageSize) = ''listSubscriptions''"
| "admin_name (ListLeadFinderSubscriptions st pageNo pageSize) = ''listLeadFinderSubscriptions''"
| "admin_name GetMonthlyRevenue = ''getMonthlyRevenue''"
| "admin_name (ListAuditLogs query pageNo pageSize) = ''listAuditLogs''"
| "admin_name (ListFlaggedSessions minScore pageNo pageSize) = ''listFlaggedSessions''"
| "admin_name (ListLeads query pageNo pageSize) = ''listLeads''"
| "admin_name GetLeadFilters = ''getLeadFilters''"
| "admin_name (CreateLead dto) = ''createLead''"
| "admin_name (UpdateLead i dto) = ''updateLead''"
| "admin_name (ApproveLead i) = ''approveLead''"
| "admin_name (DeleteLead i) = ''deleteLead''"
| "admin_name (ListContactMessages resolved reason pageNo pageSize) = ''listContactMessages''"
| "admin_name (ResolveContactMessage i) = ''resolveContactMessage''"
| "admin_name (DeleteContactMessage i) = ''deleteContactMessage''"
| "admin_name (ReplyToContactMessage i message) = ''replyToContactMessage''"

definition admin_access :: "adminCall \<Rightarrow> access" where
  "admin_access call = access_of admin_routes (admin_name call)"

definition serve_admin ::
  "adminEnv \<Rightarrow> cfg \<Rightarrow> req \<Rightarrow> bool \<Rightarrow> httpRequest \<Rightarrow> adminCall \<Rightarrow> world \<Rightarrow> (httpFailure + adminReply) \<times> world" where
  "serve_admin env c q limited hr call w =
     serve c q limited (admin_access call) hr (Inr call)
       (\<lambda>user x w. admin_handle env c q (subject user) w x) w"

section \<open>Who gets in\<close>

definition admin_names :: "string list" where
  "admin_names = [''listUsers'', ''getUser'', ''getUserSessions'', ''suspendUser'', ''reactivateUser'',
     ''sendPasswordReset'', ''deleteUser'', ''forceLogout'', ''impersonateUser'', ''inviteUser'',
     ''setDirectoryAccess'', ''setLeadFinderAccess'', ''listProspects'', ''pitchProspect'', ''inviteProspect'',
     ''queueProspectsBulk'', ''getCampaignStats'', ''updateCampaignSettings'', ''sendCampaignTestEmail'', ''getCampaignEmailTemplate'',
     ''updateCampaignEmailTemplate'', ''sendCampaignNow'', ''listSubscriptions'', ''listLeadFinderSubscriptions'', ''getMonthlyRevenue'',
     ''listAuditLogs'', ''listFlaggedSessions'', ''listLeads'', ''getLeadFilters'', ''createLead'',
     ''updateLead'', ''approveLead'', ''deleteLead'', ''listContactMessages'', ''resolveContactMessage'',
     ''deleteContactMessage'', ''replyToContactMessage'']"

lemma admin_access_only: "admin_access call = admin_only"
  unfolding admin_access_def
proof (rule access_of_uniform)
  show "list_all (\<lambda>r. rt_access r = admin_only) admin_routes" by (simp add: admin_routes_defs endpoint_def)
  have "map rt_handler admin_routes = admin_names" by (simp add: admin_routes_defs endpoint_def admin_names_def)
  moreover have "admin_name call \<in> set admin_names" by (cases call) (simp_all add: admin_names_def)
  ultimately show "admin_name call \<in> set (map rt_handler admin_routes)" by simp
qed

text \<open>
  C9: Only administrators administrate. Whatever the route of the controller and whatever the request, a state
  change or an answer needs an access token that verifies, is not revoked and names the role \<open>ADMIN\<close> or
  \<open>SUPER_ADMIN\<close>, and what then happens is done in the name of the account the token was issued to; every other
  request is answered with 401, 403 or 429 and changes nothing.
\<close>

theorem admin_routes_guarded:
  "(\<exists>f. serve_admin env c q limited hr call w = (Inl f, w)
      \<and> (f = TooManyRequests \<or> (\<exists>e. f = Failure (Unauthorized e) \<or> f = Failure (Forbidden e))))
   \<or> (\<exists>sub email r imp. jwt_canActivate c q False (hr_authorization hr) w = Inr (Some (AccessTokenPayload sub email r imp))
        \<and> (r = ADMIN \<or> r = SUPER_ADMIN) \<and> \<not> isRevoked q sub w
        \<and> serve_admin env c q limited hr call w = map_prod (map_sum Failure id) id (admin_handle env c q sub w call))"
proof (cases "authorize c q limited admin_only hr w")
  case (Inl f)
  have "f = TooManyRequests \<or> (\<exists>e. f = Failure (Unauthorized e) \<or> f = Failure (Forbidden e))"
    using Inl authorize_Inl [of c q admin_only hr w f] by (cases limited) (auto simp: authorize_def)
  with Inl show ?thesis by (auto simp: serve_admin_def admin_access_only serve_refused)
next
  case (Inr user)
  from authorize_role [OF this [unfolded admin_only_def]] obtain sub email r imp
    where u: "user = Some (AccessTokenPayload sub email r imp)" "r \<in> set [ADMIN, SUPER_ADMIN]" by auto
  have jwt: "jwt_canActivate c q False (hr_authorization hr) w = Inr (Some (AccessTokenPayload sub email r imp))"
    using authorize_jwt [OF Inr] u by (simp add: admin_only_def)
  moreover have "\<not> isRevoked q sub w"
    using jwt by (auto simp: jwt_canActivate_def split: if_splits option.splits jwtPayload.splits)
  ultimately show ?thesis
    using u Inr by (auto simp: serve_admin_def admin_access_only serve_def split: prod.splits)
qed

end
