(* ===== verification/ClientControllers.thy ===== *)
theory ClientControllers
  imports Complex_Main AdminController LeadFinderBilling Invites
begin

text \<open>
  The controllers of visitors and customers: \<open>leads.controller.ts\<close>, \<open>public-leads.controller.ts\<close>,
  \<open>subscriptions.controller.ts\<close>, \<open>lead-finder-billing.controller.ts\<close>, \<open>users.controller.ts\<close>,
  \<open>invites.controller.ts\<close>, \<open>contact.controller.ts\<close>, \<open>unsubscribe.controller.ts\<close>,
  \<open>resend-webhook.controller.ts\<close> and \<open>app.controller.ts\<close>. A call is a request after validation; \<open>sub\<close> is the account
  of the verified token. The Stripe webhook, which only queues the event, is in \<open>StripeWebhooks\<close>.
\<close>

record clientEnv =
  ce_claude :: claude
  ce_apollo :: apolloApi
  ce_csv :: "(string \<times> string) list \<Rightarrow> leadView list \<Rightarrow> string"
  ce_hmac :: "string \<Rightarrow> string \<Rightarrow> string"
  ce_unsubscribeSecret :: string
  ce_number :: "string \<Rightarrow> int option"
  ce_hmac64 :: "string \<Rightarrow> string \<Rightarrow> string"
  ce_parseEvent :: "string \<Rightarrow> resendEvent option"
  ce_webhookSecret :: "string option"

section \<open>Leads and the Lead Finder\<close>

datatype leadsCall =
    ListDirectory leadFilters nat nat
  | DirectoryFilters
  | ExportDirectory leadFilters
  | GetCredits
  | ParseQuery string "string list option"
  | GetTaxonomy
  | Suggest suggestField string
  | AiSearch string searchInput
  | GetHistory
  | GetSearchJob ident
  | CancelSearchJob ident
  | GetMoreLeads ident "int option"
  | UpdateReviewStatus ident ident string
  | PreviewLeads string
  | SubmitSelf selfSubmitLead
  | GetEventOptions
  | GetAnonymousStatus
  | AnonymousAiSearch string

datatype leadsReply =
    DirectoryReply "leadView page"
  | DirectoryFiltersReply "companyTypeParam list \<times> string list"
  | CsvReply string
  | CreditsReply "int \<times> freeTierStatus"
  | ParsedReply parsedSearchFilters
  | TaxonomyReply "string list \<times> (string \<times> string) list \<times> (string \<times> int) list \<times> departmentSection list"
  | SuggestReply "string list"
  | JobIdReply ident
  | HistoryReply "historyView list"
  | JobReply "leadSearchJob \<times> leadSearchResult list"
  | CancelledReply leadSearchJob
  | LeadsEmpty
  | PreviewReply "previewView list"
  | SubmittedReply "string \<times> leadView"
  | EventsReply "string list"
  | AnonymousStatusReply "int \<times> int"
  | AnonymousReply "anonymousResult list \<times> int"

primrec leads_handle ::
  "clientEnv \<Rightarrow> cfg \<Rightarrow> req \<Rightarrow> httpRequest \<Rightarrow> ident \<Rightarrow> world \<Rightarrow> leadsCall \<Rightarrow> leadsReply result \<times> world" where
  "leads_handle env c q hr sub w (ListDirectory f pageNo pageSize) = answer DirectoryReply (Inr (list_leads c f pageNo pageSize w), w)"
| "leads_handle env c q hr sub w DirectoryFilters = answer DirectoryFiltersReply (Inr (getFilters w), w)"
| "leads_handle env c q hr sub w (ExportDirectory f) = answer CsvReply (Inr (exportCsv (ce_csv env) c f w), w)"
| "leads_handle env c q hr sub w GetCredits = answer CreditsReply ((getCredits c q sub w), w)"
| "leads_handle env c q hr sub w (ParseQuery query jobTitles) = answer ParsedReply ((parseQuery (ce_claude env) query jobTitles), w)"
| "leads_handle env c q hr sub w GetTaxonomy = answer TaxonomyReply (Inr getTaxonomy, w)"
| "leads_handle env c q hr sub w (Suggest field s) = answer SuggestReply (Inr (suggest c field s w), w)"
| "leads_handle env c q hr sub w (AiSearch campaignName dto) = answer JobIdReply (aiSearch c q sub campaignName dto w)"
| "leads_handle env c q hr sub w GetHistory = answer HistoryReply (Inr (listSearchHistory sub w), w)"
| "leads_handle env c q hr sub w (GetSearchJob jobId) = answer JobReply ((getSearchJob sub jobId w), w)"
| "leads_handle env c q hr sub w (CancelSearchJob jobId) = answer CancelledReply (cancelSearchJob sub jobId w)"
| "leads_handle env c q hr sub w (GetMoreLeads jobId n) = answer (\<lambda>_. LeadsEmpty) (getMoreLeads c q sub jobId n w)"
| "leads_handle env c q hr sub w (UpdateReviewStatus jobId resultId st) = answer (\<lambda>_. LeadsEmpty) (updateResultReviewStatus sub jobId resultId st w)"
| "leads_handle env c q hr sub w (PreviewLeads s) = answer PreviewReply (Inr (preview c s w), w)"
| "leads_handle env c q hr sub w (SubmitSelf sdto) = answer SubmittedReply (map_prod Inr id (submitSelf q sub sdto w))"
| "leads_handle env c q hr sub w GetEventOptions = answer EventsReply (Inr (snd (getFilters w)), w)"
| "leads_handle env c q hr sub w GetAnonymousStatus = answer AnonymousStatusReply (Inr (getAnonymousSearchStatus q (nullish (hr_ip hr) ''unknown'') w), w)"
| "leads_handle env c q hr sub w (AnonymousAiSearch query) = answer AnonymousReply (anonymousSearch c (ce_claude env) (ce_apollo env) q (nullish (hr_ip hr) ''unknown'') query w)"

definition leads_controller_routes :: "route list" where
  "leads_controller_routes =
    [endpoint ''LeadsController.list'' GET [Lit ''leads''] NeedsDirectory,
     endpoint ''LeadsController.getFilters'' GET [Lit ''leads'', Lit ''filters''] NeedsDirectory,
     endpoint ''LeadsController.export'' GET [Lit ''leads'', Lit ''export''] NeedsDirectory,
     endpoint ''LeadsController.getCredits'' GET [Lit ''leads'', Lit ''credits''] SignedIn,
     endpoint ''LeadsController.parseQuery'' POST [Lit ''leads'', Lit ''parse-query''] SignedIn,
     endpoint ''LeadsController.getTaxonomy'' GET [Lit ''leads'', Lit ''taxonomy''] SignedIn,
     endpoint ''LeadsController.suggest'' GET [Lit ''leads'', Lit ''suggest''] SignedIn,
     endpoint ''LeadsController.aiSearch'' POST [Lit ''leads'', Lit ''ai-search''] SignedIn,
     endpoint ''LeadsController.getHistory'' GET [Lit ''leads'', Lit ''ai-search'', Lit ''history''] SignedIn,
     endpoint ''LeadsController.getSearchJob'' GET [Lit ''leads'', Lit ''ai-search'', Param ''jobId''] SignedIn,
     endpoint ''LeadsController.cancelSearchJob'' POST [Lit ''leads'', Lit ''ai-search'', Param ''jobId'', Lit ''cancel''] SignedIn,
     endpoint ''LeadsController.getMoreLeads'' POST [Lit ''leads'', Lit ''ai-search'', Param ''jobId'', Lit ''more''] SignedIn,
     endpoint ''LeadsController.updateResultReviewStatus'' PATCH [Lit ''leads'', Lit ''ai-search'', Param ''jobId'', Lit ''results'', Param ''resultId''] SignedIn]"

definition public_leads_routes :: "route list" where
  "public_leads_routes =
    [throttle 20 (endpoint ''PublicLeadsController.preview'' GET [Lit ''leads'', Lit ''preview''] PublicRoute),
     throttle 5 (endpoint ''PublicLeadsController.submitSelf'' POST [Lit ''leads'', Lit ''self''] SignedIn),
     endpoint ''PublicLeadsController.getEventOptions'' GET [Lit ''leads'', Lit ''self'', Lit ''events''] SignedIn,
     endpoint ''PublicLeadsController.getAnonymousSearchStatus'' GET [Lit ''leads'', Lit ''ai-search'', Lit ''anonymous'', Lit ''status''] PublicRoute,
     throttle 5 (endpoint ''PublicLeadsController.anonymousAiSearch'' POST [Lit ''leads'', Lit ''ai-search'', Lit ''anonymous''] PublicRoute)]"

definition leads_routes :: "route list" where
  "leads_routes = leads_controller_routes @ public_leads_routes"

lemmas leads_routes_defs = leads_routes_def leads_controller_routes_def public_leads_routes_def

primrec leads_name :: "leadsCall \<Rightarrow> string" where
  "leads_name (ListDirectory f pageNo pageSize) = ''LeadsController.list''"
| "leads_name DirectoryFilters = ''LeadsController.getFilters''"
| "leads_name (ExportDirectory f) = ''LeadsController.export''"
| "leads_name GetCredits = ''LeadsController.getCredits''"
| "leads_name (ParseQuery query jobTitles) = ''LeadsController.parseQuery''"
| "leads_name GetTaxonomy = ''LeadsController.getTaxonomy''"
| "leads_name (Suggest field s) = ''LeadsController.suggest''"
| "leads_name (AiSearch campaignName dto) = ''LeadsController.aiSearch''"
| "leads_name GetHistory = ''LeadsController.getHistory''"
| "leads_name (GetSearchJob jobId) = ''LeadsController.getSearchJob''"
| "leads_name (CancelSearchJob jobId) = ''LeadsController.cancelSearchJob''"
| "leads_name (GetMoreLeads jobId n) = ''LeadsController.getMoreLeads''"
| "leads_name (UpdateReviewStatus jobId resultId st) = ''LeadsController.updateResultReviewStatus''"
| "leads_name (PreviewLeads s) = ''PublicLeadsController.preview''"
| "leads_name (SubmitSelf sdto) = ''PublicLeadsController.submitSelf''"
| "leads_name GetEventOptions = ''PublicLeadsController.getEventOptions''"
| "leads_name GetAnonymousStatus = ''PublicLeadsController.getAnonymousSearchStatus''"
| "leads_name (AnonymousAiSearch query) = ''PublicLeadsController.anonymousAiSearch''"

definition leads_access :: "leadsCall \<Rightarrow> access" where
  "leads_access call = access_of leads_routes (leads_name call)"

lemma leads_access_simps [simp]:
  "leads_access (ListDirectory f pageNo pageSize) = NeedsDirectory"
  "leads_access DirectoryFilters = NeedsDirectory"
  "leads_access (ExportDirectory f) = NeedsDirectory"
  "leads_access GetCredits = SignedIn"
  "leads_access (ParseQuery query jobTitles) = SignedIn"
  "leads_access GetTaxonomy = SignedIn"
  "leads_access (Suggest field s) = SignedIn"
  "leads_access (AiSearch campaignName dto) = SignedIn"
  "leads_access GetHistory = SignedIn"
  "leads_access (GetSearchJob jobId) = SignedIn"
  "leads_access (CancelSearchJob jobId) = SignedIn"
  "leads_access (GetMoreLeads jobId n) = SignedIn"
  "leads_access (UpdateReviewStatus jobId resultId st) = SignedIn"
  "leads_access (PreviewLeads s) = PublicRoute"
  "leads_access (SubmitSelf sdto) = SignedIn"
  "leads_access GetEventOptions = SignedIn"
  "leads_access GetAnonymousStatus = PublicRoute"
  "leads_access (AnonymousAiSearch query) = PublicRoute"
  by (simp_all add: leads_access_def leads_routes_defs route_defs)

section \<open>Billing\<close>

datatype billingCall =
    ListPlans
  | CreateCheckout string
  | CreatePortal
  | SubscriptionStatus
  | CancelSubscription
  | ResumeSubscription
  | ListCreditPacks
  | CreateCreditsCheckout string nat
  | ListTiers
  | LeadFinderStatus
  | LeadFinderCheckout string
  | CancelLeadFinder

datatype billingReply =
    PlansReply "plan list"
  | UrlReply string
  | StatusReply subscriptionStatusView
  | BillingMessage string
  | PacksReply "creditPack list"
  | TiersReply "leadFinderTier list"
  | LeadFinderStatusReply leadFinderStatus

primrec billing_handle ::
  "clientEnv \<Rightarrow> cfg \<Rightarrow> req \<Rightarrow> httpRequest \<Rightarrow> ident \<Rightarrow> world \<Rightarrow> billingCall \<Rightarrow> billingReply result \<times> world" where
  "billing_handle env c q hr sub w ListPlans = answer PlansReply (Inr (listPlans w), w)"
| "billing_handle env c q hr sub w (CreateCheckout planSlug) = answer UrlReply (createCheckoutSession c q sub planSlug w)"
| "billing_handle env c q hr sub w CreatePortal = answer UrlReply (createPortalSession q sub w)"
| "billing_handle env c q hr sub w SubscriptionStatus = answer StatusReply (Inr (getStatus c q sub w), w)"
| "billing_handle env c q hr sub w CancelSubscription = answer BillingMessage (cancel q sub w)"
| "billing_handle env c q hr sub w ResumeSubscription = answer BillingMessage (resume q sub w)"
| "billing_handle env c q hr sub w ListCreditPacks = answer PacksReply (Inr (listCreditPacks w), w)"
| "billing_handle env c q hr sub w (CreateCreditsCheckout packSlug quantity) = answer UrlReply (createCreditsCheckoutSession q sub packSlug quantity w)"
| "billing_handle env c q hr sub w ListTiers = answer TiersReply (Inr (listTiers w), w)"
| "billing_handle env c q hr sub w LeadFinderStatus = answer LeadFinderStatusReply (Inr (lf_getStatus q sub w), w)"
| "billing_handle env c q hr sub w (LeadFinderCheckout tierSlug) = answer UrlReply (lf_createCheckoutSession q sub tierSlug w)"
| "billing_handle env c q hr sub w CancelLeadFinder = answer BillingMessage (lf_cancel q sub w)"

definition subscriptions_routes :: "route list" where
  "subscriptions_routes =
    [endpoint ''SubscriptionsController.listPlans'' GET [Lit ''subscriptions'', Lit ''plans''] PublicRoute,
     endpoint ''SubscriptionsController.createCheckout'' POST [Lit ''subscriptions'', Lit ''checkout''] SignedIn,
     endpoint ''SubscriptionsController.createPortal'' POST [Lit ''subscriptions'', Lit ''portal''] SignedIn,
     endpoint ''SubscriptionsController.status'' GET [Lit ''subscriptions'', Lit ''status''] SignedIn,
     endpoint ''SubscriptionsController.cancel'' POST [Lit ''subscriptions'', Lit ''cancel''] SignedIn,
     endpoint ''SubscriptionsController.resume'' POST [Lit ''subscriptions'', Lit ''resume''] SignedIn,
     endpoint ''SubscriptionsController.listCreditPacks'' GET [Lit ''subscriptions'', Lit ''credit-packs''] PublicRoute,
     endpoint ''SubscriptionsController.createCreditsCheckout'' POST [Lit ''subscriptions'', Lit ''credits'', Lit ''checkout''] SignedIn]"

definition lead_finder_routes :: "route list" where
  "lead_finder_routes =
    [endpoint ''LeadFinderBillingController.listTiers'' GET [Lit ''lead-finder'', Lit ''tiers''] PublicRoute,
     endpoint ''LeadFinderBillingController.status'' GET [Lit ''lead-finder'', Lit ''status''] SignedIn,
     endpoint ''LeadFinderBillingController.createCheckout'' POST [Lit ''lead-finder'', Lit ''checkout''] SignedIn,
     endpoint ''LeadFinderBillingController.cancel'' POST [Lit ''lead-finder'', Lit ''cancel''] SignedIn]"

definition billing_routes :: "route list" where
  "billing_routes = subscriptions_routes @ lead_finder_routes"

lemmas billing_routes_defs = billing_routes_def subscriptions_routes_def lead_finder_routes_def

primrec billing_name :: "billingCall \<Rightarrow> string" where
  "billing_name ListPlans = ''SubscriptionsController.listPlans''"
| "billing_name (CreateCheckout planSlug) = ''SubscriptionsController.createCheckout''"
| "billing_name CreatePortal = ''SubscriptionsController.createPortal''"
| "billing_name SubscriptionStatus = ''SubscriptionsController.status''"
| "billing_name CancelSubscription = ''SubscriptionsController.cancel''"
| "billing_name ResumeSubscription = ''SubscriptionsController.resume''"
| "billing_name ListCreditPacks = ''SubscriptionsController.listCreditPacks''"
| "billing_name (CreateCreditsCheckout packSlug quantity) = ''SubscriptionsController.createCreditsCheckout''"
| "billing_name ListTiers = ''LeadFinderBillingController.listTiers''"
| "billing_name LeadFinderStatus = ''LeadFinderBillingController.status''"
| "billing_name (LeadFinderCheckout tierSlug) = ''LeadFinderBillingController.createCheckout''"
| "billing_name CancelLeadFinder = ''LeadFinderBillingController.cancel''"

definition billing_access :: "billingCall \<Rightarrow> access" where
  "billing_access call = access_of billing_routes (billing_name call)"

lemma billing_access_simps [simp]:
  "billing_access ListPlans = PublicRoute"
  "billing_access (CreateCheckout planSlug) = SignedIn"
  "billing_access CreatePortal = SignedIn"
  "billing_access SubscriptionStatus = SignedIn"
  "billing_access CancelSubscription = SignedIn"
  "billing_access ResumeSubscription = SignedIn"
  "billing_access ListCreditPacks = PublicRoute"
  "billing_access (CreateCreditsCheckout packSlug quantity) = SignedIn"
  "billing_access ListTiers = PublicRoute"
  "billing_access LeadFinderStatus = SignedIn"
  "billing_access (LeadFinderCheckout tierSlug) = SignedIn"
  "billing_access CancelLeadFinder = SignedIn"
  by (simp_all add: billing_access_def billing_routes_defs route_defs)

section \<open>Accounts, contact, opting out\<close>

datatype accountCall =
    GetProfile
  | UpdateProfile "string option" "string option"
  | ListInvites
  | CreateInvite string
  | SubmitContact contactDto
  | Unsubscribe string string
  | ResendWebhook string svixHeaders
  | Health

datatype accountReply =
    ProfileReply profile
  | InvitesReply "inviteView list"
  | AccountMessage string
  | AccountEmpty

primrec account_handle ::
  "clientEnv \<Rightarrow> cfg \<Rightarrow> req \<Rightarrow> httpRequest \<Rightarrow> ident \<Rightarrow> world \<Rightarrow> accountCall \<Rightarrow> accountReply result \<times> world" where
  "account_handle env c q hr sub w GetProfile = answer ProfileReply ((getProfile sub w), w)"
| "account_handle env c q hr sub w (UpdateProfile fullName phone) = answer ProfileReply (patchProfile sub fullName phone w)"
| "account_handle env c q hr sub w ListInvites = answer InvitesReply (Inr (listInvites sub w), w)"
| "account_handle env c q hr sub w (CreateInvite email) = answer AccountMessage (createInvite q sub email w)"
| "account_handle env c q hr sub w (SubmitContact cdto) = answer AccountMessage (map_prod Inr id (submit q cdto w))"
| "account_handle env c q hr sub w (Unsubscribe email token) = answer AccountMessage (unsubscribe (ce_hmac env) (ce_unsubscribeSecret env) email token w)"
| "account_handle env c q hr sub w (ResendWebhook body headers) = answer (\<lambda>_. AccountEmpty) (handleResendWebhook (ce_number env) (ce_hmac64 env) (ce_parseEvent env) (ce_webhookSecret env) q body headers w)"
| "account_handle env c q hr sub w Health = answer AccountMessage (Inr ''ok'', w)"

definition users_routes :: "route list" where
  "users_routes =
    [endpoint ''UsersController.getProfile'' GET [Lit ''users'', Lit ''me''] SignedIn,
     endpoint ''UsersController.updateProfile'' PATCH [Lit ''users'', Lit ''me''] SignedIn]"

definition invites_routes :: "route list" where
  "invites_routes =
    [endpoint ''InvitesController.list'' GET [Lit ''invites''] SignedIn,
     throttle 10 (endpoint ''InvitesController.create'' POST [Lit ''invites''] SignedIn)]"

definition contact_routes :: "route list" where
  "contact_routes =
    [throttle 5 (endpoint ''ContactController.submit'' POST [Lit ''contact''] PublicRoute)]"

definition unsubscribe_routes :: "route list" where
  "unsubscribe_routes =
    [throttle 10 (endpoint ''UnsubscribeController.unsubscribe'' POST [Lit ''unsubscribe''] PublicRoute)]"

definition resend_routes :: "route list" where
  "resend_routes =
    [endpoint ''ResendWebhookController.handleResendWebhook'' POST [Lit ''webhooks'', Lit ''resend''] PublicRoute]"

definition app_routes :: "route list" where
  "app_routes =
    [endpoint ''AppController.health'' GET [] PublicRoute]"

definition account_routes :: "route list" where
  "account_routes = users_routes @ invites_routes @ contact_routes @ unsubscribe_routes @ resend_routes @ app_routes"

lemmas account_routes_defs = account_routes_def users_routes_def invites_routes_def contact_routes_def unsubscribe_routes_def resend_routes_def app_routes_def

primrec account_name :: "accountCall \<Rightarrow> string" where
  "account_name GetProfile = ''UsersController.getProfile''"
| "account_name (UpdateProfile fullName phone) = ''UsersController.updateProfile''"
| "account_name ListInvites = ''InvitesController.list''"
| "account_name (CreateInvite email) = ''InvitesController.create''"
| "account_name (SubmitContact cdto) = ''ContactController.submit''"
| "account_name (Unsubscribe email token) = ''UnsubscribeController.unsubscribe''"
| "account_name (ResendWebhook body headers) = ''ResendWebhookController.handleResendWebhook''"
| "account_name Health = ''AppController.health''"

definition account_access :: "accountCall \<Rightarrow> access" where
  "account_access call = access_of account_routes (account_name call)"

lemma account_access_simps [simp]:
  "account_access GetProfile = SignedIn"
  "account_access (UpdateProfile fullName phone) = SignedIn"
  "account_access ListInvites = SignedIn"
  "account_access (CreateInvite email) = SignedIn"
  "account_access (SubmitContact cdto) = PublicRoute"
  "account_access (Unsubscribe email token) = PublicRoute"
  "account_access (ResendWebhook body headers) = PublicRoute"
  "account_access Health = PublicRoute"
  by (simp_all add: account_access_def account_routes_defs route_defs)

section \<open>Serving\<close>

definition serve_leads ::
  "clientEnv \<Rightarrow> cfg \<Rightarrow> req \<Rightarrow> bool \<Rightarrow> httpRequest \<Rightarrow> leadsCall \<Rightarrow> world \<Rightarrow> (httpFailure + leadsReply) \<times> world" where
  "serve_leads env c q limited hr call w =
     serve c q limited (leads_access call) hr (Inr call) (\<lambda>user x w. leads_handle env c q hr (subject user) w x) w"

definition serve_billing ::
  "clientEnv \<Rightarrow> cfg \<Rightarrow> req \<Rightarrow> bool \<Rightarrow> httpRequest \<Rightarrow> billingCall \<Rightarrow> world \<Rightarrow> (httpFailure + billingReply) \<times> world" where
  "serve_billing env c q limited hr call w =
     serve c q limited (billing_access call) hr (Inr call) (\<lambda>user x w. billing_handle env c q hr (subject user) w x) w"

definition serve_account ::
  "clientEnv \<Rightarrow> cfg \<Rightarrow> req \<Rightarrow> bool \<Rightarrow> httpRequest \<Rightarrow> accountCall \<Rightarrow> world \<Rightarrow> (httpFailure + accountReply) \<times> world" where
  "serve_account env c q limited hr call w =
     serve c q limited (account_access call) hr (Inr call) (\<lambda>user x w. account_handle env c q hr (subject user) w x) w"

end
