(* ===== verification/HttpProperties.thy ===== *)
theory HttpProperties
  imports Complex_Main System AuthController ClientControllers
begin

text \<open>
  The controllers and the system behind them: what a request can do to the state is one of the steps of the
  system, or nothing; which request reaches which handler; what the paused site still does.
\<close>

section \<open>A request is a step of the system\<close>

lemma auth_handle_step:
  "snd (auth_handle c q production fresh hr sub w call) = w \<or> auth_step c q w (snd (auth_handle c q production fresh hr sub w call))"
proof (cases call)
  case (Register dto)
  show ?thesis unfolding Register
    by (simp add: http_register_def case_prod_beta Let_def step_register)
next
  case (Login email pw)
  show ?thesis unfolding Login using step_login [of c q w email pw "fst (buildMeta production fresh hr)"]
    by (auto simp: http_login_def case_prod_beta Let_def split: sum.splits loginResult.splits prod.splits)
next
  case (VerifyLogin tok code)
  show ?thesis unfolding VerifyLogin using step_verifyLogin [of c q w tok code "fst (buildMeta production fresh hr)"]
    by (auto simp: http_verifyLogin_def case_prod_beta Let_def split: sum.splits prod.splits)
next
  case Refresh
  show ?thesis unfolding Refresh
    using step_refresh [of c q w "the (getCookie hr REFRESH_COOKIE)" "fst (buildMeta production fresh hr)"]
    by (auto simp: http_refresh_def case_prod_beta Let_def split: sum.splits prod.splits)
next
  case (DeleteAccount pw)
  show ?thesis unfolding DeleteAccount using step_deleteAccount [of c q w sub pw]
    by (auto simp: http_deleteAccount_def split: sum.splits prod.splits)
qed (simp_all add: pass_def http_logout_def http_logoutAll_def Let_def auth_step.intros)

lemma admin_handle_step:
  "snd (admin_handle env c q sub w call) = w \<or> request_step c q w (snd (admin_handle env c q sub w call))"
  by (cases call) (simp_all add: by_admin by_background admin_step.intros background_step.intros)

lemma leads_handle_step:
  "snd (leads_handle env c q hr sub w call) = w \<or> request_step c q w (snd (leads_handle env c q hr sub w call))"
  by (cases call) (simp_all add: by_customer customer_request.intros)

lemma billing_handle_step:
  "snd (billing_handle env c q hr sub w call) = w \<or> request_step c q w (snd (billing_handle env c q hr sub w call))"
  by (cases call) (simp_all add: by_directory by_lead_finder directory_step.intros lead_finder_step.intros)

lemma account_handle_step:
  "snd (account_handle env c q hr sub w call) = w \<or> request_step c q w (snd (account_handle env c q hr sub w call))"
  by (cases call) (simp_all add: by_customer by_background customer_request.intros background_step.intros)

text \<open>
  The contract of a controller: whoever the caller is, a handler leaves the state as it is or makes one step of the
  system. What a controller serves behind the guards and the validation pipe then does the same.
\<close>

locale controller =
  fixes c :: cfg and q :: req and handle :: "ident \<Rightarrow> world \<Rightarrow> 'call \<Rightarrow> 'reply result \<times> world" and needs :: "'call \<Rightarrow> access"
  assumes handle_step: "snd (handle sub w call) = w \<or> request_step c q w (snd (handle sub w call))"
begin

lemma serve_request_step:
  "snd (serve c q limited (needs call) hr (Inr call) (\<lambda>user x w. handle (subject user) w x) w) = w
   \<or> request_step c q w (snd (serve c q limited (needs call) hr (Inr call) (\<lambda>user x w. handle (subject user) w x) w))"
  using serve_step [of c q limited "needs call" hr "Inr call" "\<lambda>user x w. handle (subject user) w x" w] handle_step
  by (metis id_apply snd_map_prod)

lemma refused_changes_nothing:
  "authorize c q limited (needs call) hr w = Inl f
   \<Longrightarrow> serve c q limited (needs call) hr (Inr call) (\<lambda>user x w. handle (subject user) w x) w = (Inl f, w)"
  by (rule serve_refused)

end

interpretation admin_controller: controller c q "admin_handle env c q" admin_access for env c q
  by unfold_locales (rule admin_handle_step)

interpretation leads_controller: controller c q "leads_handle env c q hr" leads_access for env c q hr
  by unfold_locales (rule leads_handle_step)

interpretation billing_controller: controller c q "billing_handle env c q hr" billing_access for env c q hr
  by unfold_locales (rule billing_handle_step)

interpretation account_controller: controller c q "account_handle env c q hr" account_access for env c q hr
  by unfold_locales (rule account_handle_step)

inductive http_step :: "cfg \<Rightarrow> req \<Rightarrow> world \<Rightarrow> world \<Rightarrow> bool" for c q w where
  http_auth: "http_step c q w (snd (serve_auth c q limited production fresh hr (auth_access call) (Inr call) w))"
| http_admin: "http_step c q w (snd (serve_admin aenv c q limited hr acall w))"
| http_leads: "http_step c q w (snd (serve_leads env c q limited hr lcall w))"
| http_billing: "http_step c q w (snd (serve_billing env c q limited hr bcall w))"
| http_account: "http_step c q w (snd (serve_account env c q limited hr ccall w))"

lemma http_step_request: "http_step c q w w' \<Longrightarrow> w' = w \<or> request_step c q w w'"
proof (induction rule: http_step.induct)
  case (http_auth limited production fresh hr call)
  show ?case
    using auth_handle_step [of c q production fresh hr _ w call]
    by (auto simp: serve_auth_def by_auth split: sum.splits prod.splits) (metis by_auth snd_conv)+
next
  case (http_admin aenv limited hr acall)
  show ?case unfolding serve_admin_def by (rule admin_controller.serve_request_step)
next
  case (http_leads env limited hr lcall)
  show ?case unfolding serve_leads_def by (rule leads_controller.serve_request_step)
next
  case (http_billing env limited hr bcall)
  show ?case unfolding serve_billing_def by (rule billing_controller.serve_request_step)
next
  case (http_account env limited hr ccall)
  show ?case unfolding serve_account_def by (rule account_controller.serve_request_step)
qed

lemma system_inv_later: "system_inv c t w \<Longrightarrow> t \<le> t' \<Longrightarrow> system_inv c t' w"
  by (auto simp: system_inv_def intro: auth_inv_later)

text \<open>
  The API refines the system. Any sequence of requests to the controllers, whoever sends them and whatever they
  carry, moves the state along steps of the system, in the same order, so every invariant of the system holds for the
  API. Who may call what, and for whom, is the subject of \<open>Isolation\<close>.
\<close>

theorem http_refines_system:
  assumes "runs http_step c t w t' w'"
  shows "\<exists>t''. t'' \<le> t' \<and> runs system_step c t w t'' w' \<and> (system_inv c t w \<longrightarrow> system_inv c t' w')"
  using assms
proof (induction rule: runs.induct)
  case runs_refl
  show ?case by (intro exI [of _ t]) (simp add: runs.runs_refl)
next
  case (runs_step t1 w1 q w2)
  then obtain t2 where t2: "t2 \<le> t1" "runs system_step c t w t2 w1" "system_inv c t w \<Longrightarrow> system_inv c t1 w1" by blast
  from http_step_request [OF runs_step.hyps(3)] show ?case
  proof
    assume same: "w2 = w1"
    show ?thesis
      using t2 runs_step.hyps(2) same system_inv_later [of c t1 w1 "q_now q"] by (intro exI [of _ t2]) auto
  next
    assume "request_step c q w1 w2"
    then have "runs system_step c t w (q_now q) w2"
      using t2 runs_step.hyps(2) by (intro runs.runs_step [OF t2(2)]) (simp_all add: a_request)
    then show ?thesis using system_runs_inv by (intro exI [of _ "q_now q"]) blast
  qed
qed

definition sample_env :: clientEnv where
  "sample_env = \<lparr>ce_claude = (\<lambda>_. Some None), ce_apollo = sample_api, ce_csv = (\<lambda>_ _. []), ce_hmac = (@),
     ce_unsubscribeSecret = ''s'', ce_number = (\<lambda>_. None), ce_hmac64 = (@), ce_parseEvent = (\<lambda>_. None),
     ce_webhookSecret = None\<rparr>"

definition sample_http :: httpRequest where
  "sample_http = \<lparr>hr_method = POST, hr_path = [''unsubscribe''], hr_url = ''/api/v1/unsubscribe'', hr_authorization = None,
     hr_requestId = None, hr_ip = None, hr_userAgent = None, hr_cookies = []\<rparr>"

lemma serve_unsubscribe:
  "serve_account env c q False hr (Unsubscribe e (signUnsubscribeToken (ce_hmac env) e (ce_unsubscribeSecret env))) w
     = (Inr (AccountMessage (normalizeEmail e @ '' has been unsubscribed.'')), suppress (normalizeEmail e) w)"
proof -
  have "signUnsubscribeToken (ce_hmac env) (normalizeEmail e) s = signUnsubscribeToken (ce_hmac env) e s" for s
    using normalizeEmail_idem [of e] by (simp add: signUnsubscribeToken_def normalizeEmail_def)
  then show ?thesis
    by (simp add: serve_account_def serve_def authorize_def jwt_canActivate_def unsubscribe_def
        verifyUnsubscribeToken_def answer_def Let_def flip: normalizeEmail_def)
qed

theorem http_refines_system_witness:
  "\<exists>t. t \<le> 5 \<and> runs system_step sample_cfg 0 campaign_world t (suppress ''bob@example.com'' campaign_world)"
proof -
  have n: "normalizeEmail ''bob@example.com'' = ''bob@example.com''" by code_simp
  have "http_step sample_cfg (sample_req 5) campaign_world (suppress ''bob@example.com'' campaign_world)"
    using http_account [of sample_cfg "sample_req 5" campaign_world sample_env False sample_http
        "Unsubscribe ''bob@example.com'' (signUnsubscribeToken (ce_hmac sample_env) ''bob@example.com'' (ce_unsubscribeSecret sample_env))"]
    by (simp add: serve_unsubscribe n)
  then have "runs http_step sample_cfg 0 campaign_world (q_now (sample_req 5)) (suppress ''bob@example.com'' campaign_world)"
    by (intro runs.runs_step [OF runs.runs_refl]) (simp_all add: sample_defs)
  from http_refines_system [OF this] show ?thesis by (auto simp: sample_defs)
qed

section \<open>Which handler serves a request\<close>

definition stripe_route :: route where
  "stripe_route = endpoint ''WebhooksController.handleStripeWebhook'' POST [Lit ''webhooks'', Lit ''stripe''] PublicRoute"

definition api_routes :: "route list" where
  "api_routes = auth_routes @ admin_routes @ leads_routes @ billing_routes @ account_routes
     @ [stripe_route]"

text \<open>
  A quick test for overlapping routes, for paths in lower case: the same method and no position with two different
  fixed segments.
\<close>

fun paths_clash :: "segment list \<Rightarrow> segment list \<Rightarrow> bool" where
  "paths_clash [] ys = (ys = [])"
| "paths_clash (x # xs) ys = (case ys of [] \<Rightarrow> False
     | y # ys' \<Rightarrow> if (case x of Param _ \<Rightarrow> True | Lit s \<Rightarrow> (case y of Param _ \<Rightarrow> True | Lit t \<Rightarrow> s = t)) then paths_clash xs ys' else False)"

fun clashes :: "route list \<Rightarrow> (string \<times> string) list" where
  "clashes [] = []"
| "clashes (r # rs) = map (\<lambda>s. (rt_handler r, rt_handler s))
     (filter (\<lambda>s. if rt_method r = rt_method s then paths_clash (rt_path r) (rt_path s) else False) rs) @ clashes rs"

fun not_capital :: "char \<Rightarrow> bool" where
  "not_capital (Char b0 b1 b2 b3 b4 b5 b6 b7) = (if b5 then True else \<not> b6)"

lemma not_capital_lower: "not_capital c \<Longrightarrow> lower_char c = c"
  by (cases c rule: not_capital.cases)
    (auto simp: lower_char_def of_bool_def split: if_splits)

fun lower_segment :: "segment \<Rightarrow> bool" where
  "lower_segment (Lit s) = (if s = [] then False else list_all not_capital s)"
| "lower_segment (Param _) = True"

definition lower_paths :: "route list \<Rightarrow> bool" where
  "lower_paths rs = list_all lower_segment (remdups (concat (map rt_path rs)))"

lemma lower_segment_Lit: "lower_segment (Lit s) \<Longrightarrow> s \<noteq> [] \<and> toLowerCase s = s"
  by (auto simp: toLowerCase_def list_all_iff not_capital_lower intro: map_idI split: if_splits)

lemma paths_clash_overlap:
  "list_all lower_segment xs \<Longrightarrow> list_all lower_segment ys \<Longrightarrow> list_all2 segments_overlap xs ys \<Longrightarrow> paths_clash xs ys"
proof (induction xs arbitrary: ys)
  case (Cons x xs)
  then obtain y ys' where "ys = y # ys'" by (cases ys) auto
  with Cons show ?case by (cases x; cases y) (auto dest!: lower_segment_Lit simp del: lower_segment.simps(1))
qed simp

lemma clashes_complete:
  assumes "lower_paths rs" "set (clashes rs) \<subseteq> C"
  shows "sorted_wrt (\<lambda>r s. routes_overlap r s \<longrightarrow> (rt_handler r, rt_handler s) \<in> C) rs"
  using assms
proof (induction rs)
  case (Cons r rs)
  then have "sorted_wrt (\<lambda>r s. routes_overlap r s \<longrightarrow> (rt_handler r, rt_handler s) \<in> C) rs"
    by (intro Cons.IH) (auto simp: lower_paths_def list_all_iff)
  moreover have "routes_overlap r s \<longrightarrow> (rt_handler r, rt_handler s) \<in> C" if s: "s \<in> set rs" for s
  proof
    assume over: "routes_overlap r s"
    then have "paths_clash (rt_path r) (rt_path s)"
      using Cons.prems(1) s by (intro paths_clash_overlap) (auto simp: lower_paths_def routes_overlap_def list_all_iff)
    then have "(rt_handler r, rt_handler s) \<in> set (clashes (r # rs))"
      using over s by (auto simp: routes_overlap_def)
    then show "(rt_handler r, rt_handler s) \<in> C" using Cons.prems(2) by blast
  qed
  ultimately show ?case by simp
qed simp

text \<open>Routes of controllers with different first segments cannot overlap.\<close>

definition first_segments :: "route list \<Rightarrow> segment option list" where
  "first_segments rs = remdups (map (\<lambda>r. case rt_path r of [] \<Rightarrow> None | x # _ \<Rightarrow> Some x) rs)"

fun apart :: "segment option \<Rightarrow> segment option \<Rightarrow> bool" where
  "apart None None = False"
| "apart None (Some _) = True"
| "apart (Some _) None = True"
| "apart (Some x) (Some y) = (\<not> segments_overlap x y)"

lemma apart_routes:
  assumes "list_all (\<lambda>a. list_all (apart a) (first_segments ys)) (first_segments xs)" "r \<in> set xs" "s \<in> set ys"
  shows "\<not> routes_overlap r s"
proof -
  have "apart (case rt_path r of [] \<Rightarrow> None | x # _ \<Rightarrow> Some x) (case rt_path s of [] \<Rightarrow> None | x # _ \<Rightarrow> Some x)"
    using assms by (auto simp: first_segments_def list_all_iff)
  then show ?thesis by (auto simp: routes_overlap_def split: list.splits)
qed

lemma find_route_first:
  assumes "sorted_wrt P rs" "find_route rs m path = Some r" "s \<in> set rs" "route_matches s m path"
  shows "s = r \<or> P r s"
  using assms by (induction rs) (auto simp: find_route_def split: if_splits)

lemma clashes_of_groups:
  "clashes auth_routes = []" "clashes admin_routes = []"
  "clashes leads_routes = [(''LeadsController.getHistory'', ''LeadsController.getSearchJob'')]"
  "clashes billing_routes = []" "clashes account_routes = []"
  by code_simp+

lemma lower_groups:
  "lower_paths auth_routes" "lower_paths admin_routes" "lower_paths leads_routes" "lower_paths billing_routes"
  "lower_paths account_routes"
  by code_simp+

definition first_words :: "string list \<Rightarrow> segment option list" where
  "first_words ws = map (\<lambda>s. Some (Lit s)) ws"

lemma first_segments_of_groups:
  "first_segments auth_routes = first_words [''auth'']" "first_segments admin_routes = first_words [''admin'']"
  "first_segments leads_routes = first_words [''leads'']"
  "first_segments billing_routes = first_words [''subscriptions'', ''lead-finder'']"
  "first_segments account_routes = first_words [''users'', ''invites'', ''contact'', ''unsubscribe'', ''webhooks''] @ [None]"
  by code_simp+


definition history_clash :: "(string \<times> string) set" where
  "history_clash = {(''LeadsController.getHistory'', ''LeadsController.getSearchJob'')}"

definition words_apart :: "route list \<Rightarrow> route list \<Rightarrow> bool" where
  "words_apart xs ys = list_all (\<lambda>a. list_all (apart a) (first_segments ys)) (first_segments xs)"

lemma first_segments_append:
  "set (first_segments (xs @ ys)) = set (first_segments xs) \<union> set (first_segments ys)"
  by (auto simp: first_segments_def)

lemma sorted_wrt_apart:
  assumes "sorted_wrt (\<lambda>r s. routes_overlap r s \<longrightarrow> P r s) xs" "sorted_wrt (\<lambda>r s. routes_overlap r s \<longrightarrow> P r s) ys"
    "words_apart xs ys"
  shows "sorted_wrt (\<lambda>r s. routes_overlap r s \<longrightarrow> P r s) (xs @ ys)"
  using assms apart_routes [of ys xs] by (auto simp: sorted_wrt_append words_apart_def)

lemma words_apart_append: "words_apart xs ys \<Longrightarrow> words_apart xs zs \<Longrightarrow> words_apart xs (ys @ zs)"
  by (auto simp: words_apart_def list_all_iff first_segments_append)

lemma last_segments: "first_segments (account_routes @ [stripe_route])
    = first_words [''users'', ''invites'', ''contact'', ''unsubscribe''] @ [None] @ first_words [''webhooks'']"
  by code_simp

lemma last_groups:
  "lower_paths (account_routes @ [stripe_route])" "clashes (account_routes @ [stripe_route]) = []"
  by code_simp+

lemma groups_apart:
  "words_apart auth_routes admin_routes" "words_apart auth_routes leads_routes"
  "words_apart auth_routes billing_routes" "words_apart auth_routes (account_routes @ [stripe_route])"
  "words_apart admin_routes leads_routes" "words_apart admin_routes billing_routes"
  "words_apart admin_routes (account_routes @ [stripe_route])" "words_apart leads_routes billing_routes"
  "words_apart leads_routes (account_routes @ [stripe_route])" "words_apart billing_routes (account_routes @ [stripe_route])"
  unfolding words_apart_def first_segments_of_groups last_segments by code_simp+

lemma api_sorted:
  "sorted_wrt (\<lambda>r s. routes_overlap r s \<longrightarrow> (rt_handler r, rt_handler s) \<in> history_clash) api_routes"
  unfolding api_routes_def
  by (intro sorted_wrt_apart words_apart_append groups_apart clashes_complete lower_groups last_groups)
    (simp_all add: clashes_of_groups last_groups history_clash_def)


definition public_handlers :: "string list" where
  "public_handlers = [''register'', ''verifyEmail'', ''login'', ''verifyLogin'', ''refresh'', ''logout'',
     ''forgotPassword'', ''resetPassword'', ''PublicLeadsController.preview'',
     ''PublicLeadsController.getAnonymousSearchStatus'', ''PublicLeadsController.anonymousAiSearch'',
     ''SubscriptionsController.listPlans'', ''SubscriptionsController.listCreditPacks'',
     ''LeadFinderBillingController.listTiers'', ''ContactController.submit'',
     ''UnsubscribeController.unsubscribe'', ''ResendWebhookController.handleResendWebhook'', ''AppController.health'',
     ''WebhooksController.handleStripeWebhook'']"

lemma public_routes: "map rt_handler (filter (\<lambda>r. rt_access r = PublicRoute) api_routes) = public_handlers"
  by code_simp

text \<open>
  C34: The routing table has no accident in it. Whatever the method and the path, at most one route of the API matches
  a request, with one exception, where the order of registration decides: \<open>GET leads/ai-search/history\<close> also
  matches \<open>leads/ai-search/:jobId\<close>, and goes to the history. The handlers that need no token are nineteen, and they
  are the only ones a request without a valid token ever reaches.
\<close>

theorem routes_unambiguous:
  assumes "find_route api_routes m path = Some r" "s \<in> set api_routes" "route_matches s m path"
  shows "(s = r \<or> rt_handler r = ''LeadsController.getHistory'' \<and> rt_handler s = ''LeadsController.getSearchJob'')
    \<and> (jwt_canActivate c q False (hr_authorization hr) w = Inl e \<and> authorize c q limited (rt_access r) hr w = Inr user
        \<longrightarrow> rt_handler r \<in> set public_handlers)"
proof -
  note r = find_route_SomeD [OF assms(1)]
  have "s = r \<or> rt_handler r = ''LeadsController.getHistory'' \<and> rt_handler s = ''LeadsController.getSearchJob''"
    using find_route_first [OF api_sorted assms] routes_overlapI [OF conjunct2 [OF r] assms(3)]
    by (auto simp: history_clash_def)
  moreover have "rt_handler r \<in> set public_handlers"
    if "jwt_canActivate c q False (hr_authorization hr) w = Inl e" "authorize c q limited (rt_access r) hr w = Inr user"
  proof -
    have "rt_access r = PublicRoute" using authorize_jwt [OF that(2)] that(1) by (cases "rt_access r = PublicRoute") auto
    with r show ?thesis unfolding public_routes [symmetric] by simp
  qed
  ultimately show ?thesis by blast
qed

lemma history_route:
  "find_route api_routes GET [''leads'', ''ai-search'', ''history'']
     = Some (endpoint ''LeadsController.getHistory'' GET [Lit ''leads'', Lit ''ai-search'', Lit ''history''] SignedIn)"
  by code_simp

theorem routes_unambiguous_witness:
  "find_route api_routes GET [''leads'', ''ai-search'', ''history'']
     \<noteq> Some (endpoint ''LeadsController.getSearchJob'' GET [Lit ''leads'', Lit ''ai-search'', Param ''jobId''] SignedIn)"
proof -
  let ?r = "endpoint ''LeadsController.getHistory'' GET [Lit ''leads'', Lit ''ai-search'', Lit ''history''] SignedIn"
  have "?r \<in> set api_routes" using find_route_SomeD [OF history_route] by blast
  moreover have "route_matches ?r GET [''leads'', ''ai-search'', ''history'']"
    using find_route_SomeD [OF history_route] by blast
  ultimately show ?thesis
    using routes_unambiguous [of GET "[''leads'', ''ai-search'', ''history'']"
        "endpoint ''LeadsController.getSearchJob'' GET [Lit ''leads'', Lit ''ai-search'', Param ''jobId''] SignedIn" ?r]
    by (auto simp: endpoint_def)
qed

section \<open>The paused site\<close>

lemma drip_queue:
  "(\<And>k. up k) \<Longrightarrow> bulkEmailQueue (snd (runDailyDrip up q w)) = bulkEmailQueue w @ drip_sends w"
  by (cases "drip_batch w = []") (simp_all add: runDailyDrip_idle runDailyDrip_batch accepted_all, simp add: drip_sends_def)

text \<open>
  While the site is paused every request is answered 503 and changes nothing, the link of an opt-out mail
  included; but the campaign is driven by a job, not by a request, and goes on mailing. An address that uses its link
  is mailed by the next drip all the same; on a site that is not paused the link works and the drip leaves the address
  out.
\<close>

theorem paused_site_keeps_mailing:
  fixes env :: clientEnv
  assumes "normalizeEmail e \<in> set (drip_sends w)" "\<And>k. up k"
  defines "link \<equiv> Unsubscribe e (signUnsubscribeToken (ce_hmac env) e (ce_unsubscribeSecret env))"
  shows "middleware site_paused (serve_account env c q limited hr call) w = (Inl Unavailable, w)
    \<and> (\<exists>new. bulkEmailQueue (snd (runDailyDrip up q' (snd (middleware site_paused (serve_account env c q False hr link) w))))
        = bulkEmailQueue w @ new \<and> normalizeEmail e \<in> set new)
    \<and> (\<exists>new. bulkEmailQueue (snd (runDailyDrip up q' (snd (middleware False (serve_account env c q False hr link) w))))
        = bulkEmailQueue w @ new \<and> normalizeEmail e \<notin> set new)"
proof -
  let ?w = "suppress (normalizeEmail e) w"
  have "normalizeEmail e \<notin> set (drip_sends ?w)"
    by (auto simp: drip_sends_def opted_out_def suppress_def)
  moreover have "bulkEmailQueue ?w = bulkEmailQueue w" by (simp add: suppress_def)
  ultimately show ?thesis
    using assms(1,2) by (simp add: middleware_def site_paused_def link_def serve_unsubscribe drip_queue)
qed

theorem paused_site_keeps_mailing_witness:
  "''bob@example.com'' \<in> set (bulkEmailQueue (snd (runDailyDrip (\<lambda>_. True) (sample_req 6) (snd (middleware site_paused
     (serve_account sample_env sample_cfg (sample_req 5) False sample_http (Unsubscribe ''bob@example.com''
        (signUnsubscribeToken (ce_hmac sample_env) ''bob@example.com'' (ce_unsubscribeSecret sample_env)))) campaign_world)))))"
proof -
  have n: "normalizeEmail ''bob@example.com'' = ''bob@example.com''" by code_simp
  have e: "''bob@example.com'' \<in> set (drip_sends campaign_world)"
    by (simp add: drip_sends_iff drip_batch_def pending_batch_def orderAsc_def findMany_def drip_paused_def
        drip_cap_def default_settings_def has_account_def opted_out_def campaign_sample_defs)
  show ?thesis
    using paused_site_keeps_mailing [of "''bob@example.com''" campaign_world "\<lambda>_. True" sample_env sample_cfg
        "sample_req 5" False sample_http Health "sample_req 6"] e
    by (auto simp: n)
qed

section \<open>What an error shows\<close>

text \<open>
  An error that is not an \<open>HttpException\<close> is answered with status 500 and a fixed text: the answer is the same
  function of the request whatever went wrong, and it is logged. The identifier in the body is the one in the header
  and the one in the log, and it is the client's own when it sent one. An \<open>HttpException\<close> keeps its status and its
  message; it is logged from 500 up.
\<close>

theorem errors_leak_nothing:
  "let (body, headers, logs) = catch_exception exc hr now uuid in
     headers = [(''x-request-id'', eb_requestId body)]
     \<and> eb_path body = hr_url hr
     \<and> (truthy (hr_requestId hr) \<longrightarrow> hr_requestId hr = Some (eb_requestId body))
     \<and> (\<not> truthy (hr_requestId hr) \<longrightarrow> eb_requestId body = uuid)
     \<and> (case exc of
          None \<Rightarrow> eb_statusCode body = 500 \<and> eb_error body = ''Internal Server Error''
            \<and> eb_message body = Text ''Something went wrong. Please try again later.''
            \<and> logs = [UnhandledException (eb_requestId body) (hr_method hr) (hr_url hr)]
        | Some e \<Rightarrow> eb_statusCode body = he_status e
            \<and> (\<forall>s. he_response e = PlainResponse s \<longrightarrow> eb_message body = Text s)
            \<and> (\<forall>m err. he_response e = ObjectResponse (Some m) err \<longrightarrow> eb_message body = m)
            \<and> (logs = [] \<longleftrightarrow> he_status e < 500))"
  by (cases exc; cases "hr_requestId hr")
    (auto simp: catch_exception_def resolveBody_def Let_def nullish_def truthy_def split: exceptionResponse.splits option.splits)

end
