(* ===== verification/Isolation.thy ===== *)
theory Isolation
  imports Complex_Main HttpProperties
begin

text \<open>
  What a customer can do over HTTP: the controllers of customers and visitors as one interface, who gets past the
  guards, which rows a request can change, and what each accepted request does. The tables of calls below are written from
  the contract of the API, not from the controllers: they do not use the routes, the guards or the handlers of the model.
\<close>

section \<open>The rows of an account\<close>

record accountRows =
  ac_user :: "user option"
  ac_devices :: "device list"
  ac_sessions :: "session list"
  ac_tokens :: "verificationToken list"
  ac_consents :: "consentRecord list"
  ac_invites :: "invite list"
  ac_subscriptions :: "subscription list"
  ac_leadFinder :: "leadFinderSubscription list"
  ac_invoices :: "invoice list"
  ac_grants :: "creditGrant list"
  ac_jobs :: "leadSearchJob list"
  ac_results :: "leadSearchResult list"
  ac_revoked :: "redisEntry option"

definition jobs_of :: "ident \<Rightarrow> world \<Rightarrow> ident set" where
  "jobs_of i w = jb_id ` {x \<in> set (leadSearchJobs w). jb_userId x = i}"

definition plans_of :: "ident \<Rightarrow> world \<Rightarrow> ident set" where
  "plans_of i w = sb_id ` {x \<in> set (subscriptions w). sb_userId x = i}"

definition rows_of :: "ident \<Rightarrow> world \<Rightarrow> accountRows" where
  "rows_of i w = \<lparr>ac_user = findById i w,
     ac_devices = filter (\<lambda>x. d_userId x = i) (devices w), ac_sessions = filter (\<lambda>x. s_userId x = i) (sessions w),
     ac_tokens = filter (\<lambda>x. vt_userId x = i) (verificationTokens w),
     ac_consents = filter (\<lambda>x. cr_userId x = i) (consentRecords w),
     ac_invites = filter (\<lambda>x. iv_inviterId x = i) (invites w),
     ac_subscriptions = filter (\<lambda>x. sb_userId x = i) (subscriptions w),
     ac_leadFinder = filter (\<lambda>x. lf_userId x = i) (leadFinderSubscriptions w),
     ac_invoices = filter (\<lambda>x. in_subscriptionId x \<in> plans_of i w) (invoices w),
     ac_grants = filter (\<lambda>x. cg_userId x = i) (creditGrants w),
     ac_jobs = filter (\<lambda>x. jb_userId x = i) (leadSearchJobs w),
     ac_results = filter (\<lambda>x. rs_jobId x \<in> jobs_of i w) (leadSearchResults w),
     ac_revoked = redis w (RevokedUser i)\<rparr>"

lemma rows_of_writes [simp]:
  "rows_of i (audit_record q e w) = rows_of i w" "rows_of i (enqueue q m w) = rows_of i w"
  "rows_of i (w\<lparr>stripeCalls := calls\<rparr>) = rows_of i w" "rows_of i (w\<lparr>contactMessages := ms\<rparr>) = rows_of i w"
  "rows_of i (w\<lparr>emailSuppressions := es\<rparr>) = rows_of i w" "rows_of i (w\<lparr>leads := ls\<rparr>) = rows_of i w"
  "rows_of i (w\<lparr>apolloQueue := as\<rparr>) = rows_of i w" "rows_of i (w\<lparr>prospectInviteQueue := ps\<rparr>) = rows_of i w"
  by (simp_all add: rows_of_def jobs_of_def plans_of_def findById_def)

lemma filter_updateMany_other:
  assumes "\<And>x. x \<in> set xs \<Longrightarrow> p x \<Longrightarrow> \<not> P x \<and> \<not> P (f x)"
  shows "filter P (updateMany p f xs) = filter P xs"
  using assms by (induction xs) (auto simp: updateMany_def)

lemma rows_of_users:
  "findById i (w\<lparr>users := us\<rparr>) = findById i w \<Longrightarrow> rows_of i (w\<lparr>users := us\<rparr>) = rows_of i w"
  by (simp add: rows_of_def jobs_of_def plans_of_def)

lemma rows_of_update_user:
  assumes "j \<noteq> i" "\<And>u. u_id (f u) = u_id u"
  shows "rows_of j (update_user i f w) = rows_of j w"
  using findById_update_user [OF assms(2), of j i w] assms(1) unfolding update_user_def by (intro rows_of_users) simp

lemma rows_of_subscriptions:
  assumes "\<And>x. x \<in> set (subscriptions w) \<Longrightarrow> p x \<Longrightarrow> sb_userId x \<noteq> j \<and> sb_userId (f x) \<noteq> j"
    and "\<And>x. sb_id (f x) = sb_id x"
  shows "rows_of j (w\<lparr>subscriptions := updateMany p f (subscriptions w)\<rparr>) = rows_of j w"
proof -
  have "plans_of j (w\<lparr>subscriptions := updateMany p f (subscriptions w)\<rparr>) = plans_of j w"
    using assms by (force simp: plans_of_def set_updateMany image_iff)
  moreover have "filter (\<lambda>x. sb_userId x = j) (updateMany p f (subscriptions w)) = filter (\<lambda>x. sb_userId x = j) (subscriptions w)"
    using assms(1) by (intro filter_updateMany_other) blast
  ultimately show ?thesis by (simp add: rows_of_def jobs_of_def findById_def)
qed

lemma rows_of_lf:
  assumes "\<And>x. x \<in> set (leadFinderSubscriptions w) \<Longrightarrow> p x \<Longrightarrow> lf_userId x \<noteq> j \<and> lf_userId (f x) \<noteq> j"
  shows "rows_of j (w\<lparr>leadFinderSubscriptions := updateMany p f (leadFinderSubscriptions w)\<rparr>) = rows_of j w"
proof -
  have "filter (\<lambda>x. lf_userId x = j) (updateMany p f (leadFinderSubscriptions w)) = filter (\<lambda>x. lf_userId x = j) (leadFinderSubscriptions w)"
    using assms by (intro filter_updateMany_other) blast
  then show ?thesis by (simp add: rows_of_def jobs_of_def plans_of_def findById_def)
qed

lemma rows_of_jobs:
  assumes "\<And>x. x \<in> set (leadSearchJobs w) \<Longrightarrow> p x \<Longrightarrow> jb_userId x \<noteq> j \<and> jb_userId (f x) \<noteq> j"
  shows "rows_of j (w\<lparr>leadSearchJobs := updateMany p f (leadSearchJobs w)\<rparr>) = rows_of j w"
proof -
  have "filter (\<lambda>x. jb_userId x = j) (updateMany p f (leadSearchJobs w)) = filter (\<lambda>x. jb_userId x = j) (leadSearchJobs w)"
    using assms by (intro filter_updateMany_other) blast
  moreover from this have "{x \<in> set (updateMany p f (leadSearchJobs w)). jb_userId x = j} = {x \<in> set (leadSearchJobs w). jb_userId x = j}"
    by (metis set_filter)
  ultimately show ?thesis by (simp add: rows_of_def jobs_of_def plans_of_def findById_def)
qed

lemma rows_of_results:
  assumes "\<And>x. x \<in> set (leadSearchResults w) \<Longrightarrow> p x \<Longrightarrow> rs_jobId x \<notin> jobs_of j w \<and> rs_jobId (f x) \<notin> jobs_of j w"
  shows "rows_of j (w\<lparr>leadSearchResults := updateMany p f (leadSearchResults w)\<rparr>) = rows_of j w"
proof -
  have "filter (\<lambda>x. rs_jobId x \<in> jobs_of j w) (updateMany p f (leadSearchResults w)) = filter (\<lambda>x. rs_jobId x \<in> jobs_of j w) (leadSearchResults w)"
    using assms by (intro filter_updateMany_other) blast
  then show ?thesis by (simp add: rows_of_def jobs_of_def plans_of_def findById_def)
qed

text \<open>Primary keys that are not part of the invariant of the system.\<close>

definition search_keys :: "world \<Rightarrow> bool" where
  "search_keys w \<longleftrightarrow> unique_on jb_id (leadSearchJobs w) \<and> unique_on rs_id (leadSearchResults w)"

section \<open>No handler touches the rows of another account\<close>

lemma redis_count_rows [simp]: "rows_of j (snd (redis_count q (AnonAiSearch ip) ttl w)) = rows_of j w"
  by (auto simp: redis_count_def redis_incr_def redis_expire_def rows_of_def jobs_of_def plans_of_def findById_def Let_def
      split: option.splits)

lemma rows_anonymous: "rows_of j (snd (anonymousSearch c cl api q ip query w)) = rows_of j w"
proof -
  obtain n w1 where r: "redis_count q (AnonAiSearch ip) (secondsUntilMidnight c q) w = (n, w1)"
    by (cases "redis_count q (AnonAiSearch ip) (secondsUntilMidnight c q) w")
  then have "rows_of j w1 = rows_of j w" by (metis redis_count_rows snd_conv)
  then show ?thesis
    by (auto simp: anonymousSearch_def checkAnonymousSearchLimit_def r split: sum.splits if_splits)
qed

lemma found_job_owner:
  assumes "search_keys w" "find_job k w = Some x" "y \<in> set (leadSearchJobs w)" "jb_id y = k"
  shows "jb_userId y = jb_userId x"
proof -
  have x: "x \<in> set (leadSearchJobs w)" "jb_id x = k" using assms(2) by (auto simp: find_job_def dest!: findFirst_SomeD)
  have u: "unique_on jb_id (leadSearchJobs w)" using assms(1) by (simp add: search_keys_def)
  show ?thesis using unique_onD [OF u assms(3) x(1)] assms(4) x(2) by simp
qed

lemma rows_set_job_status:
  assumes "search_keys w" "find_job k w = Some x" "jb_userId x \<noteq> j"
  shows "rows_of j (set_job_status k st w) = rows_of j w"
  unfolding set_job_status_def using found_job_owner [OF assms(1,2)] assms(3) by (intro rows_of_jobs) auto

lemma rows_aiSearch:
  assumes "j \<noteq> i" shows "rows_of j (snd (aiSearch c q i name dto w)) = rows_of j w"
proof -
  have "rows_of j (w\<lparr>leadSearchJobs := leadSearchJobs w @ [x]\<rparr>) = rows_of j w" if "jb_userId x = i" for x
  proof -
    have "jobs_of j (w\<lparr>leadSearchJobs := leadSearchJobs w @ [x]\<rparr>) = jobs_of j w"
      using that assms by (auto simp: jobs_of_def)
    then show ?thesis using that assms by (simp add: rows_of_def plans_of_def findById_def)
  qed
  then show ?thesis by (auto simp: aiSearch_def add_search_def Let_def split: option.splits)
qed

lemma rows_getMoreLeads:
  assumes "search_keys w" "j \<noteq> i" shows "rows_of j (snd (getMoreLeads c q i k n w)) = rows_of j w"
  using assms rows_set_job_status [OF assms(1)]
  by (auto simp: getMoreLeads_def add_search_def Let_def split: option.splits)

lemma rows_cancelSearchJob:
  assumes "search_keys w" "j \<noteq> i" shows "rows_of j (snd (cancelSearchJob i k w)) = rows_of j w"
  using assms rows_set_job_status [OF assms(1)] by (auto simp: cancelSearchJob_def split: option.splits)

lemma rows_reviewStatus:
  assumes keys: "search_keys w" and "j \<noteq> i"
  shows "rows_of j (snd (updateResultReviewStatus i k rid st w)) = rows_of j w"
proof -
  have "rows_of j (w\<lparr>leadSearchResults := updateMany (\<lambda>x. rs_id x = rid) (\<lambda>x. x\<lparr>rs_reviewStatus := st\<rparr>) (leadSearchResults w)\<rparr>)
      = rows_of j w"
    if job: "find_job k w = Some x" "jb_userId x = i" and r: "findFirst (\<lambda>r. rs_id r = rid) (leadSearchResults w) = Some r" "rs_jobId r = k"
    for x r
  proof (rule rows_of_results)
    fix y assume y: "y \<in> set (leadSearchResults w)" "rs_id y = rid"
    have u: "unique_on rs_id (leadSearchResults w)" using keys by (simp add: search_keys_def)
    have "y = r" using unique_onD [OF u y(1)] r(1) y(2) by (auto dest!: findFirst_SomeD)
    moreover have "k \<notin> jobs_of j w" using found_job_owner [OF keys job(1)] job(2) assms(2) by (auto simp: jobs_of_def)
    ultimately show "rs_jobId y \<notin> jobs_of j w \<and> rs_jobId (y\<lparr>rs_reviewStatus := st\<rparr>) \<notin> jobs_of j w" using r(2) by simp
  qed
  then show ?thesis by (auto simp: updateResultReviewStatus_def split: option.splits)
qed

definition visitor_leads :: "leadsCall \<Rightarrow> bool" where
  "visitor_leads call = (case call of PreviewLeads _ \<Rightarrow> True | GetAnonymousStatus \<Rightarrow> True | AnonymousAiSearch _ \<Rightarrow> True | _ \<Rightarrow> False)"

lemma rows_leads:
  assumes "search_keys w" "visitor_leads call \<or> j \<noteq> i"
  shows "rows_of j (snd (leads_handle env c q hr i w call)) = rows_of j w"
proof (cases "visitor_leads call")
  case True
  then show ?thesis by (cases call) (auto simp: visitor_leads_def rows_anonymous)
next
  case False
  with assms(2) have ne: "j \<noteq> i" by blast
  show ?thesis
    by (cases call) (simp_all add: rows_aiSearch [OF ne] rows_getMoreLeads [OF assms(1) ne] rows_cancelSearchJob [OF assms(1) ne]
        rows_reviewStatus [OF assms(1) ne] rows_anonymous submitSelf_def Let_def)
qed

text \<open>Billing: the customer id, the subscription found for the caller, and calls to Stripe.\<close>

lemma rows_stripe [simp]:
  "rows_of j (snd (stripe_checkout q p m w)) = rows_of j w" "rows_of j (snd (stripe_cancel q x w)) = rows_of j w"
  "rows_of j (snd (stripe_set_cancel q x b w)) = rows_of j w"
  by (simp_all add: stripe_checkout_def stripe_cancel_def stripe_set_cancel_def)

lemma rows_customer:
  assumes "j \<noteq> i" shows "rows_of j (snd (getOrCreateStripeCustomer q i e n w)) = rows_of j w"
proof -
  have "rows_of j (snd (claim_customer i x w1)) = rows_of j w1" for x w1
  proof -
    let ?us = "updateMany (\<lambda>u. u_id u = i \<and> u_stripeCustomerId u = None) (\<lambda>u. u\<lparr>u_stripeCustomerId := Some x\<rparr>) (users w1)"
    have "findById j (w1\<lparr>users := ?us\<rparr>) = findById j w1"
      using assms unfolding findById_def
      by (cases "findFirst (\<lambda>u. u_id u = j) (users w1)") (auto simp: findFirst_updateMany dest!: findFirst_SomeD)
    from rows_of_users [OF this] show ?thesis by (simp add: claim_customer_def Let_def)
  qed
  then show ?thesis
    by (auto simp: getOrCreateStripeCustomer_def create_customer_def case_prod_beta)
qed

lemma rows_of_own_subscription:
  assumes "subs_ok w" "s \<in> set (subscriptions w)" "sb_userId s \<noteq> j"
    and "\<And>x. sb_userId (f x) = sb_userId x" "\<And>x. sb_id (f x) = sb_id x"
  shows "rows_of j (update_subscription (sb_id s) f w) = rows_of j w"
  unfolding update_subscription_def
proof (rule rows_of_subscriptions)
  fix x assume x: "x \<in> set (subscriptions w)" "sb_id x = sb_id s"
  have u: "unique_on sb_id (subscriptions w)" using assms(1) by (simp add: subs_ok_def)
  show "sb_userId x \<noteq> j \<and> sb_userId (f x) \<noteq> j" using unique_onD [OF u x(1) assms(2)] x(2) assms(3,4) by simp
qed (rule assms(5))

lemma current_subscription_own: "current_subscription i w = Some s \<Longrightarrow> s \<in> set (subscriptions w) \<and> sb_userId s = i"
  by (auto simp: current_subscription_def live_subscription_def dest!: findFirstDesc_SomeD)

lemma rows_drop_expired:
  assumes "subs_ok w" "j \<noteq> i" "existing = None \<or> existing = current_subscription i w"
  shows "rows_of j (snd (drop_expired q existing w)) = rows_of j w"
proof (cases existing)
  case (Some s)
  with assms(3) have s: "s \<in> set (subscriptions w)" "sb_userId s = i" using current_subscription_own by auto
  have "rows_of j (update_subscription (sb_id s) cancel_subscription_row (w\<lparr>stripeCalls := calls\<rparr>)) = rows_of j w" for calls
    by (subst rows_of_own_subscription) (use assms(1,2) s in \<open>auto simp: subs_ok_def cancel_subscription_row_def\<close>)
  then show ?thesis by (simp add: drop_expired_def Some stripe_cancel_def)
qed (simp add: drop_expired_def)

lemma rows_checkout:
  assumes "subs_ok w" "j \<noteq> i"
  shows "rows_of j (snd (createCheckoutSession c q i slug w)) = rows_of j w"
proof (cases "findById i w")
  case (Some user)
  then have id: "u_id user = i" by (auto dest: findById_SomeD)
  let ?P = "\<lambda>w'. rows_of j w' = rows_of j w"
  have drop: "?P (snd (drop_expired q (current_subscription i w) w))"
    by (rule rows_drop_expired [OF assms]) simp
  have cust: "?P w1 \<Longrightarrow> ?P (snd (getOrCreateStripeCustomer q i e n w1))" for e n w1
    using rows_customer [OF assms(2)] by simp
  show ?thesis
    unfolding createCheckoutSession_def Some
    by (auto simp: id Let_def drop split: option.splits intro!: result_chain [where P = ?P] cust)
qed (simp add: createCheckoutSession_def)

lemma rows_credits_checkout:
  assumes "j \<noteq> i" shows "rows_of j (snd (createCreditsCheckoutSession q i slug n w)) = rows_of j w"
proof (cases "findById i w")
  case (Some user)
  then have id: "u_id user = i" by (auto dest: findById_SomeD)
  show ?thesis
    unfolding createCreditsCheckoutSession_def Some
    by (auto simp: id rows_customer [OF assms] split: option.splits intro!: result_chain [where P = "\<lambda>w'. rows_of j w' = rows_of j w"])
qed (simp add: createCreditsCheckoutSession_def)

lemma rows_lf_checkout:
  assumes "j \<noteq> i" shows "rows_of j (snd (lf_createCheckoutSession q i slug w)) = rows_of j w"
proof (cases "findById i w")
  case (Some user)
  then have id: "u_id user = i" by (auto dest: findById_SomeD)
  show ?thesis
    unfolding lf_createCheckoutSession_def Some
    by (auto simp: id rows_customer [OF assms] split: option.splits intro!: result_chain [where P = "\<lambda>w'. rows_of j w' = rows_of j w"])
qed (simp add: lf_createCheckoutSession_def)

lemma rows_cancel:
  assumes "subs_ok w" "j \<noteq> i"
  shows "rows_of j (snd (cancel q i w)) = rows_of j w" "rows_of j (snd (resume q i w)) = rows_of j w"
proof -
  have own: "rows_of j (update_subscription (sb_id s) f (w\<lparr>stripeCalls := calls\<rparr>)) = rows_of j w"
    if "s \<in> set (subscriptions w)" "sb_userId s = i" "\<And>x. sb_userId (f x) = sb_userId x" "\<And>x. sb_id (f x) = sb_id x" for s f calls
    using assms that by (subst rows_of_own_subscription) (auto simp: subs_ok_def)
  show "rows_of j (snd (cancel q i w)) = rows_of j w"
    by (auto simp: cancel_def stripe_set_cancel_def Let_def split: option.splits dest!: current_subscription_own intro!: own)
  show "rows_of j (snd (resume q i w)) = rows_of j w"
    by (auto simp: resume_def stripe_set_cancel_def Let_def live_subscription_def split: option.splits
        dest!: findFirstDesc_SomeD intro!: own)
qed

lemma rows_lf_cancel:
  assumes "lf_ok w" "j \<noteq> i"
  shows "rows_of j (snd (lf_cancel q i w)) = rows_of j w"
proof -
  have own: "rows_of j (update_lf (lf_id s) (\<lambda>x. x\<lparr>lf_cancelAtPeriodEnd := True\<rparr>) (w\<lparr>stripeCalls := calls\<rparr>)) = rows_of j w"
    if s: "s \<in> set (leadFinderSubscriptions w)" "lf_userId s = i" for s calls
  proof -
    have u: "unique_on lf_id (leadFinderSubscriptions w)" using assms(1) by (simp add: lf_ok_def)
    have "rows_of j (w1\<lparr>leadFinderSubscriptions := updateMany (\<lambda>x. lf_id x = lf_id s) (\<lambda>x. x\<lparr>lf_cancelAtPeriodEnd := True\<rparr>)
        (leadFinderSubscriptions w1)\<rparr>) = rows_of j w1" if "w1 = w\<lparr>stripeCalls := calls\<rparr>" for w1
      using unique_onD [OF u _ s(1)] s(2) assms(2) that by (intro rows_of_lf) auto
    then show ?thesis by (simp add: update_lf_def)
  qed
  show ?thesis
    by (auto simp: lf_cancel_def stripe_set_cancel_def lf_live_def split: option.splits dest!: findFirstDesc_SomeD intro!: own)
qed

lemma rows_billing:
  assumes "subs_ok w" "lf_ok w" "j \<noteq> i"
  shows "rows_of j (snd (billing_handle env c q hr i w call)) = rows_of j w"
  by (cases call) (simp_all add: rows_checkout [OF assms(1,3)] rows_credits_checkout [OF assms(3)] rows_lf_checkout [OF assms(3)]
      rows_cancel [OF assms(1,3)] rows_lf_cancel [OF assms(2,3)] createPortalSession_def)

definition visitor_account :: "accountCall \<Rightarrow> bool" where
  "visitor_account call = (case call of SubmitContact _ \<Rightarrow> True | Unsubscribe _ _ \<Rightarrow> True | ResendWebhook _ _ \<Rightarrow> True
     | Health \<Rightarrow> True | _ \<Rightarrow> False)"

lemma rows_suppress [simp]: "rows_of j (suppress e w) = rows_of j w"
  by (simp add: suppress_def)

lemma rows_webhook: "rows_of j (snd (handleResendWebhook a b d e q body h w)) = rows_of j w"
  by (auto simp: handleResendWebhook_def markBounced_def markComplained_def suppressAndUpdateStatus_def Let_def split: option.splits)

lemma rows_account:
  assumes "visitor_account call \<or> j \<noteq> i"
  shows "rows_of j (snd (account_handle env c q hr i w call)) = rows_of j w"
proof (cases call)
  case (UpdateProfile n p)
  with assms show ?thesis
    by (auto simp: visitor_account_def patchProfile_def updateProfile_def Let_def rows_of_update_user split: option.splits)
next
  case (CreateInvite e)
  have "rows_of j (w\<lparr>invites := invites w @ [x]\<rparr>) = rows_of j w" if "iv_inviterId x = i" for x
    using that assms CreateInvite by (simp add: visitor_account_def rows_of_def jobs_of_def plans_of_def findById_def)
  then show ?thesis by (auto simp: CreateInvite createInvite_def Let_def split: option.splits)
qed (use assms in \<open>auto simp: visitor_account_def submit_def unsubscribe_def rows_webhook Let_def\<close>)

section \<open>What an accepted call does\<close>

definition checkout_opened :: "world \<Rightarrow> (string \<times> string) set \<Rightarrow> bool" where
  "checkout_opened w' facts \<longleftrightarrow>
     (\<exists>price md. stripeCalls w' \<noteq> [] \<and> last (stripeCalls w') = CheckoutCreate price md \<and> facts \<subseteq> set md)"

definition leads_effect :: "ident \<Rightarrow> leadsCall \<Rightarrow> world \<Rightarrow> world \<Rightarrow> bool" where
  "leads_effect i call w w' \<longleftrightarrow> (case call of
     AiSearch name dto \<Rightarrow> (\<exists>x. leadSearchJobs w' = leadSearchJobs w @ [x] \<and> jb_userId x = i \<and> jb_query x = name \<and> jb_status x = RUNNING)
   | CancelSearchJob k \<Rightarrow> (\<exists>x \<in> set (leadSearchJobs w'). jb_id x = k \<and> jb_userId x = i \<and> jb_status x \<noteq> RUNNING)
   | GetMoreLeads k n \<Rightarrow> (\<exists>x \<in> set (leadSearchJobs w'). jb_id x = k \<and> jb_userId x = i \<and> jb_status x = RUNNING)
       \<and> (\<exists>a. apolloQueue w' = apolloQueue w @ [a] \<and> aj_jobId a = k \<and> aj_userId a = i)
   | UpdateReviewStatus k rid st \<Rightarrow>
       (\<exists>r \<in> set (leadSearchResults w'). rs_id r = rid \<and> rs_jobId r = k \<and> rs_reviewStatus r = st)
   | SubmitSelf d \<Rightarrow> (\<exists>l. leads w' = leads w @ [l] \<and> le_submittedByUserId l = Some i \<and> \<not> le_approved l \<and> le_name l = sl_name d)
   | _ \<Rightarrow> True)"

definition billing_effect :: "ident \<Rightarrow> billingCall \<Rightarrow> world \<Rightarrow> world \<Rightarrow> bool" where
  "billing_effect i call w w' \<longleftrightarrow> (case call of
     CreateCheckout slug \<Rightarrow>
       (\<exists>p \<in> set (plans w). pl_slug p = slug \<and> checkout_opened w' {(''userId'', i), (''planId'', pl_id p)})
   | CreateCreditsCheckout slug n \<Rightarrow>
       (\<exists>p \<in> set (creditPacks w). cp_slug p = slug
          \<and> checkout_opened w' {(''userId'', i), (''credits'', show_nat (nat (cp_credits p) * n))})
   | LeadFinderCheckout slug \<Rightarrow>
       (\<exists>t \<in> set (leadFinderTiers w). ti_slug t = slug
          \<and> checkout_opened w' {(''userId'', i), (''tierId'', ti_id t), (''kind'', ''lead_finder_tier'')})
   | CreatePortal \<Rightarrow> (\<exists>u x. findById i w = Some u \<and> u_stripeCustomerId u = Some x \<and> stripeCalls w' = stripeCalls w @ [PortalCreate x])
   | CancelSubscription \<Rightarrow>
       (\<exists>s \<in> set (subscriptions w). sb_userId s = i
          \<and> stripeCalls w' = stripeCalls w @ [SubscriptionSetCancelAtPeriodEnd (sb_stripeSubscriptionId s) True]
          \<and> s\<lparr>sb_cancelAtPeriodEnd := True\<rparr> \<in> set (subscriptions w'))
   | ResumeSubscription \<Rightarrow>
       (\<exists>s \<in> set (subscriptions w). sb_userId s = i
          \<and> stripeCalls w' = stripeCalls w @ [SubscriptionSetCancelAtPeriodEnd (sb_stripeSubscriptionId s) False]
          \<and> s\<lparr>sb_cancelAtPeriodEnd := False\<rparr> \<in> set (subscriptions w'))
   | CancelLeadFinder \<Rightarrow>
       (\<exists>s \<in> set (leadFinderSubscriptions w). lf_userId s = i
          \<and> stripeCalls w' = stripeCalls w @ [SubscriptionSetCancelAtPeriodEnd (lf_stripeSubscriptionId s) True]
          \<and> s\<lparr>lf_cancelAtPeriodEnd := True\<rparr> \<in> set (leadFinderSubscriptions w'))
   | _ \<Rightarrow> True)"

definition account_effect :: "ident \<Rightarrow> accountCall \<Rightarrow> world \<Rightarrow> world \<Rightarrow> bool" where
  "account_effect i call w w' \<longleftrightarrow> (case call of
     UpdateProfile n p \<Rightarrow> (\<exists>u. findById i w' = Some u \<and> (\<forall>x. n = Some x \<longrightarrow> u_fullName u = x) \<and> (\<forall>x. p = Some x \<longrightarrow> u_phone u = Some x))
   | CreateInvite e \<Rightarrow> (\<exists>v \<in> set (invites w'). iv_inviterId v = i \<and> iv_email v = normalizeEmail e)
   | SubmitContact d \<Rightarrow> (\<exists>m. contactMessages w' = contactMessages w @ [m] \<and> cm_email m = ct_email d \<and> cm_message m = ct_message d)
   | Unsubscribe e token \<Rightarrow> normalizeEmail e \<in> set (emailSuppressions w')
   | ResendWebhook body headers \<Rightarrow> set (emailSuppressions w) \<subseteq> set (emailSuppressions w')
   | _ \<Rightarrow> True)"

lemma find_jobD: "find_job k w = Some x \<Longrightarrow> x \<in> set (leadSearchJobs w) \<and> jb_id x = k"
  by (auto simp: find_job_def dest: findFirst_SomeD)

lemma job_status_set:
  assumes "find_job k w = Some x" "jb_userId x = i"
  shows "\<exists>y \<in> set (leadSearchJobs (set_job_status k st w)). jb_id y = k \<and> jb_userId y = i \<and> jb_status y = st"
  using find_jobD [OF assms(1)] assms(2) by (intro bexI [of _ "x\<lparr>jb_status := st\<rparr>"]) (auto simp: set_job_status_def set_updateMany)

lemma updateMany_row:
  assumes "s \<in> set rows" "p s"
  shows "f s \<in> set (updateMany p f rows)"
  using assms by (auto simp: set_updateMany image_iff)

lemma leads_done:
  assumes "fst (leads_handle env c q hr i w call) = Inr a"
  shows "leads_effect i call w (snd (leads_handle env c q hr i w call))"
proof (cases call)
  case (AiSearch name dto)
  with assms show ?thesis
    by (auto simp: leads_effect_def answer_def aiSearch_def add_search_def Let_def split: option.splits if_splits)
next
  case (CancelSearchJob k)
  with assms find_jobD [of k w] job_status_set [of k w _ i CANCELLED] show ?thesis
    by (fastforce simp: leads_effect_def answer_def cancelSearchJob_def split: option.splits if_splits)
next
  case (GetMoreLeads k n)
  with assms job_status_set [of k w _ i RUNNING] show ?thesis
    by (auto simp: leads_effect_def answer_def getMoreLeads_def add_search_def Let_def set_job_status_def
        split: option.splits if_splits)
next
  case (UpdateReviewStatus k rid st)
  with assms obtain r where r: "findFirst (\<lambda>r. rs_id r = rid) (leadSearchResults w) = Some r" "rs_jobId r = k"
    by (auto simp: answer_def updateResultReviewStatus_def split: option.splits if_splits)
  with UpdateReviewStatus assms findFirst_SomeD [OF r(1)] show ?thesis
    by (auto simp: leads_effect_def answer_def updateResultReviewStatus_def intro!: bexI [of _ "r\<lparr>rs_reviewStatus := st\<rparr>"]
        updateMany_row split: option.splits if_splits)
next
  case (SubmitSelf d)
  then show ?thesis by (simp add: leads_effect_def answer_def submitSelf_def Let_def)
qed (simp_all add: leads_effect_def)

lemma cancel_done:
  assumes "fst (cancel q i w) = Inr m"
  shows "\<exists>s \<in> set (subscriptions w). sb_userId s = i
    \<and> stripeCalls (snd (cancel q i w)) = stripeCalls w @ [SubscriptionSetCancelAtPeriodEnd (sb_stripeSubscriptionId s) True]
    \<and> s\<lparr>sb_cancelAtPeriodEnd := True\<rparr> \<in> set (subscriptions (snd (cancel q i w)))"
proof -
  from assms obtain s where s: "current_subscription i w = Some s" by (auto simp: cancel_def split: option.splits)
  with assms current_subscription_own [OF s] show ?thesis
    by (intro bexI [of _ s]) (auto simp: cancel_def stripe_set_cancel_def update_subscription_def Let_def intro: updateMany_row split: if_splits)
qed

lemma resume_done:
  assumes "fst (resume q i w) = Inr m"
  shows "\<exists>s \<in> set (subscriptions w). sb_userId s = i
    \<and> stripeCalls (snd (resume q i w)) = stripeCalls w @ [SubscriptionSetCancelAtPeriodEnd (sb_stripeSubscriptionId s) False]
    \<and> s\<lparr>sb_cancelAtPeriodEnd := False\<rparr> \<in> set (subscriptions (snd (resume q i w)))"
proof -
  from assms obtain s where
    s: "findFirstDesc sb_createdAt (\<lambda>s. live_subscription i s \<and> sb_cancelAtPeriodEnd s) (subscriptions w) = Some s"
    by (auto simp: resume_def split: option.splits)
  from findFirstDesc_SomeD [OF s] assms s show ?thesis
    by (intro bexI [of _ s]) (auto simp: resume_def live_subscription_def stripe_set_cancel_def update_subscription_def Let_def intro: updateMany_row split: if_splits)
qed

lemma lf_cancel_done:
  assumes "fst (lf_cancel q i w) = Inr m"
  shows "\<exists>s \<in> set (leadFinderSubscriptions w). lf_userId s = i
    \<and> stripeCalls (snd (lf_cancel q i w)) = stripeCalls w @ [SubscriptionSetCancelAtPeriodEnd (lf_stripeSubscriptionId s) True]
    \<and> s\<lparr>lf_cancelAtPeriodEnd := True\<rparr> \<in> set (leadFinderSubscriptions (snd (lf_cancel q i w)))"
proof -
  from assms obtain s where s: "findFirstDesc lf_createdAt (lf_live i) (leadFinderSubscriptions w) = Some s"
    by (auto simp: lf_cancel_def split: option.splits)
  from findFirstDesc_SomeD [OF s] assms s show ?thesis
    by (intro bexI [of _ s]) (auto simp: lf_cancel_def lf_live_def stripe_set_cancel_def update_lf_def intro: updateMany_row split: if_splits)
qed

lemma checkout_done:
  assumes "fst (createCheckoutSession c q i slug w) = Inr m"
  shows "\<exists>p \<in> set (plans w). pl_slug p = slug
    \<and> checkout_opened (snd (createCheckoutSession c q i slug w)) {(''userId'', i), (''planId'', pl_id p)}"
proof -
  from assms obtain u p where u: "findById i w = Some u" and p: "findFirst (\<lambda>p. pl_slug p = slug) (plans w) = Some p"
    by (auto simp: createCheckoutSession_def split: option.splits)
  have id: "u_id u = i" using findById_SomeD [OF u] by simp
  from findFirst_SomeD [OF p] assms show ?thesis
    by (intro bexI [of _ p]) (auto simp: createCheckoutSession_def u p id Let_def checkout_opened_def stripe_checkout_def
        split: if_splits sum.splits prod.splits)
qed

lemma credits_checkout_done:
  assumes "fst (createCreditsCheckoutSession q i slug n w) = Inr m"
  shows "\<exists>p \<in> set (creditPacks w). cp_slug p = slug \<and> checkout_opened (snd (createCreditsCheckoutSession q i slug n w))
    {(''userId'', i), (''credits'', show_nat (nat (cp_credits p) * n))}"
proof -
  from assms obtain u p where u: "findById i w = Some u" and p: "findFirst (\<lambda>p. cp_slug p = slug) (creditPacks w) = Some p"
    by (auto simp: createCreditsCheckoutSession_def split: option.splits)
  have id: "u_id u = i" using findById_SomeD [OF u] by simp
  from findFirst_SomeD [OF p] assms show ?thesis
    by (intro bexI [of _ p]) (auto simp: createCreditsCheckoutSession_def u p id checkout_opened_def stripe_checkout_def
        split: if_splits sum.splits prod.splits)
qed

lemma lf_checkout_done:
  assumes "fst (lf_createCheckoutSession q i slug w) = Inr m"
  shows "\<exists>t \<in> set (leadFinderTiers w). ti_slug t = slug \<and> checkout_opened (snd (lf_createCheckoutSession q i slug w))
    {(''userId'', i), (''tierId'', ti_id t), (''kind'', ''lead_finder_tier'')}"
proof -
  from assms obtain u t where u: "findById i w = Some u" and t: "findFirst (\<lambda>t. ti_slug t = slug) (leadFinderTiers w) = Some t"
    by (auto simp: lf_createCheckoutSession_def split: option.splits)
  have id: "u_id u = i" using findById_SomeD [OF u] by simp
  from findFirst_SomeD [OF t] assms show ?thesis
    by (intro bexI [of _ t]) (auto simp: lf_createCheckoutSession_def u t id checkout_opened_def stripe_checkout_def lead_finder_kind_def
        split: if_splits sum.splits prod.splits)
qed

lemma billing_done:
  assumes "fst (billing_handle env c q hr i w call) = Inr a"
  shows "billing_effect i call w (snd (billing_handle env c q hr i w call))"
proof -
  have a: "\<exists>b. x = Inr b" if "map_sum id f x = Inr y" for f :: "'x \<Rightarrow> 'y" and x :: "'x result" and y
    using that by (cases x) auto
  show ?thesis
  proof (cases call)
    case CreatePortal
    with assms show ?thesis
      by (auto simp: billing_effect_def answer_def createPortalSession_def customer_of_def Option.bind_eq_Some_conv
          split: if_splits elim!: truthyE)
  qed (use assms in \<open>auto simp: billing_effect_def answer_def dest!: a intro: checkout_done credits_checkout_done lf_checkout_done
      cancel_done resume_done lf_cancel_done\<close>)
qed

lemma account_done:
  assumes "fst (account_handle env c q hr i w call) = Inr a"
  shows "account_effect i call w (snd (account_handle env c q hr i w call))"
proof (cases call)
  case (UpdateProfile n p)
  have "findById i (update_user i f w) = map_option f (findById i w)" if "\<And>u. u_id (f u) = u_id u" for f
    using findById_update_user [OF that] by simp
  with UpdateProfile assms show ?thesis
    by (auto simp: account_effect_def answer_def patchProfile_def updateProfile_def Let_def split: option.splits)
next
  case (CreateInvite e)
  have "\<exists>v \<in> set (invites w). iv_inviterId v = i \<and> iv_email v = normalizeEmail e"
    if "findFirst (\<lambda>v. iv_inviterId v = i \<and> iv_email v = normalizeEmail e) (invites w) = Some v" for v
    using findFirst_SomeD [OF that] by blast
  with CreateInvite assms show ?thesis
    by (auto simp: account_effect_def answer_def createInvite_def Let_def split: option.splits if_splits)
next
  case (Unsubscribe e token)
  with assms show ?thesis
    by (auto simp: account_effect_def answer_def unsubscribe_def suppress_def Let_def normalizeEmail_def split: if_splits)
next
  case (ResendWebhook body headers)
  then show ?thesis
    by (auto simp: account_effect_def handleResendWebhook_def markBounced_def markComplained_def
        suppressAndUpdateStatus_def suppress_def Let_def split: option.splits)
qed (auto simp: account_effect_def answer_def submit_def)

section \<open>The API for customers and visitors\<close>

datatype clientCall = LeadsCall leadsCall | BillingCall billingCall | AccountCall accountCall

datatype clientReply = LeadsAnswer leadsReply | BillingAnswer billingReply | AccountAnswer accountReply

definition serve_client ::
  "clientEnv \<Rightarrow> cfg \<Rightarrow> req \<Rightarrow> bool \<Rightarrow> httpRequest \<Rightarrow> clientCall \<Rightarrow> world \<Rightarrow> (httpFailure + clientReply) \<times> world" where
  "serve_client env c q limited hr call w =
     (case call of
        LeadsCall x \<Rightarrow> map_prod (map_sum id LeadsAnswer) id (serve_leads env c q limited hr x w)
      | BillingCall x \<Rightarrow> map_prod (map_sum id BillingAnswer) id (serve_billing env c q limited hr x w)
      | AccountCall x \<Rightarrow> map_prod (map_sum id AccountAnswer) id (serve_account env c q limited hr x w))"

text \<open>Who may call what: everyone, the entitled (below), and everyone else who is signed in.\<close>

definition for_visitors :: "clientCall \<Rightarrow> bool" where
  "for_visitors call = (case call of
     LeadsCall x \<Rightarrow> visitor_leads x
   | BillingCall x \<Rightarrow> x \<in> {ListPlans, ListCreditPacks, ListTiers}
   | AccountCall x \<Rightarrow> visitor_account x)"

definition for_subscribers :: "clientCall \<Rightarrow> bool" where
  "for_subscribers call = (case call of
     LeadsCall x \<Rightarrow> (case x of ListDirectory _ _ _ \<Rightarrow> True | DirectoryFilters \<Rightarrow> True | ExportDirectory _ \<Rightarrow> True | _ \<Rightarrow> False)
   | _ \<Rightarrow> False)"

definition only_reads :: "clientCall \<Rightarrow> bool" where
  "only_reads call = (case call of
     LeadsCall x \<Rightarrow> (case x of AiSearch _ _ \<Rightarrow> False | CancelSearchJob _ \<Rightarrow> False | GetMoreLeads _ _ \<Rightarrow> False
       | UpdateReviewStatus _ _ _ \<Rightarrow> False | SubmitSelf _ \<Rightarrow> False | AnonymousAiSearch _ \<Rightarrow> False | _ \<Rightarrow> True)
   | BillingCall x \<Rightarrow> x \<in> {ListPlans, SubscriptionStatus, ListCreditPacks, ListTiers, LeadFinderStatus}
   | AccountCall x \<Rightarrow> x \<in> {GetProfile, ListInvites, Health})"

definition effect :: "ident \<Rightarrow> clientCall \<Rightarrow> world \<Rightarrow> world \<Rightarrow> bool" where
  "effect i call w w' = (case call of LeadsCall x \<Rightarrow> leads_effect i x w w' | BillingCall x \<Rightarrow> billing_effect i x w w'
     | AccountCall x \<Rightarrow> account_effect i x w w')"

text \<open>
  The verified token of a request, and who is entitled to the directory: administrators, accounts that were granted
  it, and accounts whose newest subscription that did not expire is running, in its grace period, or was cancelled.
\<close>

definition caller :: "cfg \<Rightarrow> req \<Rightarrow> httpRequest \<Rightarrow> world \<Rightarrow> jwtPayload option" where
  "caller c q hr w = (case jwt_canActivate c q False (hr_authorization hr) w of Inr u \<Rightarrow> u | Inl _ \<Rightarrow> None)"

definition entitled :: "cfg \<Rightarrow> time \<Rightarrow> jwtPayload \<Rightarrow> world \<Rightarrow> bool" where
  "entitled c now p w \<longleftrightarrow> payload_role p = Some ADMIN \<or> payload_role p = Some SUPER_ADMIN
     \<or> (\<exists>u. findById (payload_sub p) w = Some u \<and> u_adminGrantedDirectoryAccess u)
     \<or> (\<exists>s \<in> set (subscriptions w). sb_userId s = payload_sub p
          \<and> (sb_status s = Sub_ACTIVE \<or> sb_status s = Sub_TRIALING \<or> sb_status s = Sub_CANCELED
             \<or> sb_status s = Sub_PAST_DUE \<and> (\<forall>t. sb_pastDueSince s = Some t \<longrightarrow> now < t + c_gracePeriodDays c * 86400000))
          \<and> (\<forall>x \<in> set (subscriptions w). sb_userId x = payload_sub p
               \<and> sb_status x \<in> {Sub_ACTIVE, Sub_TRIALING, Sub_PAST_DUE, Sub_CANCELED} \<longrightarrow> sb_createdAt x \<le> sb_createdAt s))"

lemma directory_entitled:
  assumes "directory_canActivate c q (Some p) w = Inr ()"
  shows "entitled c (q_now q) p w"
proof (cases "is_staff (payload_role p) \<or> granted_directory (payload_sub p) w")
  case True
  then show ?thesis by (auto simp: entitled_def is_staff_def granted_directory_def split: option.splits)
next
  case False
  with assms obtain s where
    s: "findFirstDesc sb_createdAt (\<lambda>s. sb_userId s = payload_sub p \<and> sb_status s \<in> set live_statuses \<union> {Sub_CANCELED})
        (subscriptions w) = Some s"
      "hasDirectoryAccess (q_now q) (sb_status s) (sb_pastDueSince s) (c_gracePeriodDays c)"
    by (auto simp: directory_canActivate_def split: option.splits if_splits)
  from findFirstDesc_SomeD [OF s(1)] s(2) show ?thesis
    by (auto simp: entitled_def hasDirectoryAccess_def hasActiveAccess_def live_statuses_def split: if_splits option.splits
        intro!: bexI [of _ s])
qed

section \<open>Isolation\<close>

text \<open>
  The contract of a handler behind the guards: what it changes (\<open>fine\<close>) and what an accepted call has done
  (\<open>finished\<close>), for the account it is given. The guards decide whether it runs, and for whom.
\<close>

lemma serve_outcome:
  assumes "serve c q limited a hr (Inr call) (\<lambda>user x w. handle (subject user) w x) w = (r, w')"
  obtains (refused) f where "r = Inl f" "w' = w" "limited \<longrightarrow> f = TooManyRequests"
  | (public) "\<not> limited" "a = PublicRoute" "w' = snd (handle [] w call)" "map_sum Failure id (fst (handle [] w call)) = r"
  | (signed_in) p where "\<not> limited" "caller c q hr w = Some p" "a \<noteq> PublicRoute" "a = NeedsDirectory \<longrightarrow> entitled c (q_now q) p w"
      "w' = snd (handle (payload_sub p) w call)" "map_sum Failure id (fst (handle (payload_sub p) w call)) = r"
proof (cases "authorize c q limited a hr w")
  case (Inl f)
  with assms show ?thesis by (intro refused [of f]) (auto simp: serve_def authorize_def)
next
  case (Inr user)
  then have w': "w' = snd (handle (subject user) w call)" and r: "map_sum Failure id (fst (handle (subject user) w call)) = r"
    using assms by (auto simp: serve_def split: prod.splits)
  have free: "\<not> limited" using Inr by (auto simp: authorize_def)
  note jwt = authorize_jwt [OF Inr]
  show ?thesis
  proof (cases "a = PublicRoute")
    case True
    then have "user = None" using jwt by (simp add: jwt_canActivate_def)
    with True free w' r show ?thesis by (intro public) auto
  next
    case False
    from authorize_user [OF Inr False] obtain p where p: "user = Some p" by blast
    have "entitled c (q_now q) p w" if "a = NeedsDirectory"
      using Inr that p by (intro directory_entitled) (auto simp: authorize_def split: if_splits sum.splits)
    moreover have "caller c q hr w = Some p" using jwt False p by (simp add: caller_def)
    ultimately show ?thesis using False free p w' r by (intro signed_in) auto
  qed
qed

definition access_for :: "clientCall \<Rightarrow> access" where
  "access_for call = (case call of LeadsCall x \<Rightarrow> leads_access x | BillingCall x \<Rightarrow> billing_access x | AccountCall x \<Rightarrow> account_access x)"

lemma access_for_visitors: "access_for call = PublicRoute \<longleftrightarrow> for_visitors call"
  by (cases call; rename_tac x; case_tac x)
    (simp_all add: access_for_def for_visitors_def visitor_leads_def visitor_account_def)

lemma access_for_subscribers: "for_subscribers call \<Longrightarrow> access_for call = NeedsDirectory"
  by (cases call; rename_tac x; case_tac x) (simp_all add: access_for_def for_subscribers_def)

definition handle_client :: "clientEnv \<Rightarrow> cfg \<Rightarrow> req \<Rightarrow> httpRequest \<Rightarrow> ident \<Rightarrow> world \<Rightarrow> clientCall \<Rightarrow> clientReply result \<times> world" where
  "handle_client env c q hr i w call =
     (case call of
        LeadsCall x \<Rightarrow> map_prod (map_sum id LeadsAnswer) id (leads_handle env c q hr i w x)
      | BillingCall x \<Rightarrow> map_prod (map_sum id BillingAnswer) id (billing_handle env c q hr i w x)
      | AccountCall x \<Rightarrow> map_prod (map_sum id AccountAnswer) id (account_handle env c q hr i w x))"

lemma map_sum_Inr: "map_sum f g x = Inr y \<longleftrightarrow> (\<exists>z. x = Inr z \<and> y = g z)"
  by (cases x) auto

lemma serve_client_handle:
  "serve_client env c q limited hr call w
     = serve c q limited (access_for call) hr (Inr call) (\<lambda>user x w. handle_client env c q hr (subject user) w x) w"
  by (cases call) (auto simp: serve_client_def serve_leads_def serve_billing_def serve_account_def serve_def access_for_def
      handle_client_def sum.map_comp split: sum.splits prod.splits)

lemma handle_client_rows:
  assumes "subs_ok w" "lf_ok w" "search_keys w" "for_visitors call \<or> j \<noteq> i"
  shows "rows_of j (snd (handle_client env c q hr i w call)) = rows_of j w"
proof (cases call)
  case (LeadsCall x)
  with assms show ?thesis by (simp add: handle_client_def for_visitors_def rows_leads)
next
  case (BillingCall x)
  with assms rows_billing [of w j i env c q hr x] show ?thesis
    by (auto simp: handle_client_def for_visitors_def)
next
  case (AccountCall x)
  with assms show ?thesis by (simp add: handle_client_def for_visitors_def rows_account)
qed

lemma handle_client_done:
  assumes "fst (handle_client env c q hr i w call) = Inr a"
  shows "effect i call w (snd (handle_client env c q hr i w call))"
  using assms
  by (cases call) (auto simp: handle_client_def effect_def map_sum_Inr intro: leads_done billing_done account_done)

lemma handle_client_reads: "only_reads call \<Longrightarrow> snd (handle_client env c q hr i w call) = w"
  by (cases call; rename_tac x; case_tac x) (simp_all add: handle_client_def only_reads_def)

lemma visitor_effect: "for_visitors call \<Longrightarrow> effect i call w w' = effect j call w w'"
  by (cases call; rename_tac x; case_tac x)
    (simp_all add: for_visitors_def visitor_leads_def visitor_account_def effect_def leads_effect_def billing_effect_def account_effect_def)

text \<open>
  C5: A customer reaches their own rows and nothing else. Whatever request arrives at the controllers for customers and
  visitors: over the rate limit it is refused; without a valid token everything but the public calls is refused; the
  directory is refused to whoever is neither staff, nor granted access, nor a subscriber (past their grace period
  counts as none), and whatever is refused by a guard changes nothing. A call that reads changes nothing at all. No
  request changes a row of an account other than the one its token names: the profile, devices, sessions, mail tokens,
  consents, invites, subscriptions, invoices, credit grants, searches, results and revocation of everyone else are the
  ones they were. And an accepted request has done what its route says, for that account: cancelling sets the flag of
  one of its own subscriptions and tells Stripe so, resuming clears it, a checkout names the account and the plan, pack
  or tier that was asked for, a search is started, stopped or extended in its name.
\<close>

theorem customer_requests_isolated:
  assumes "subs_ok w" "lf_ok w" "search_keys w" "serve_client env c q limited hr call w = (r, w')"
  shows "(limited \<longrightarrow> r = Inl TooManyRequests \<and> w' = w)
    \<and> (\<not> for_visitors call \<and> caller c q hr w = None \<longrightarrow> (\<exists>f. r = Inl f) \<and> w' = w)
    \<and> (for_subscribers call \<and> \<not> (\<exists>p. caller c q hr w = Some p \<and> entitled c (q_now q) p w) \<longrightarrow> (\<exists>f. r = Inl f) \<and> w' = w)
    \<and> (only_reads call \<longrightarrow> w' = w)
    \<and> (\<forall>j. for_visitors call \<or> (\<forall>p. caller c q hr w = Some p \<longrightarrow> payload_sub p \<noteq> j) \<longrightarrow> rows_of j w' = rows_of j w)
    \<and> (\<forall>a. r = Inr a \<longrightarrow> effect (case caller c q hr w of Some p \<Rightarrow> payload_sub p | None \<Rightarrow> []) call w w')"
  using assms(4) unfolding serve_client_handle
proof (cases rule: serve_outcome)
  case (refused f)
  then show ?thesis by simp
next
  case public
  then have v: "for_visitors call" "\<not> for_subscribers call"
    using access_for_visitors access_for_subscribers by fastforce+
  with public show ?thesis
    using handle_client_rows [OF assms(1-3)] handle_client_reads handle_client_done [of env c q hr "[]" w call]
      visitor_effect [OF v(1), of "[]" w w' "case caller c q hr w of Some p \<Rightarrow> payload_sub p | None \<Rightarrow> []"]
    by (auto simp: map_sum_Inr)
next
  case (signed_in p)
  then have "\<not> for_visitors call" "for_subscribers call \<longrightarrow> entitled c (q_now q) p w"
    using access_for_visitors access_for_subscribers by blast+
  with signed_in show ?thesis
    using handle_client_rows [OF assms(1-3)] handle_client_reads handle_client_done [of env c q hr "payload_sub p" w call]
    by (auto simp: map_sum_Inr)
qed

definition signed_request :: httpRequest where
  "signed_request = \<lparr>hr_method = POST, hr_path = [''subscriptions'', ''cancel''], hr_url = ''/api/v1/subscriptions/cancel'',
     hr_authorization = Some ''Bearer access'', hr_requestId = None, hr_ip = None, hr_userAgent = None, hr_cookies = []\<rparr>"

lemma sample_jwt:
  "jwt_canActivate sample_cfg (sample_req 5) False (hr_authorization signed_request) billing_world
     = Inr (Some (AccessTokenPayload ''u1'' ''ann@example.com'' USER None))"
  by code_simp

lemma sample_cancel: "\<not> isl (fst (cancel (sample_req 5) ''u1'' billing_world))"
  by code_simp

lemma sample_cancel_served:
  "fst (serve_client sample_env sample_cfg (sample_req 5) False signed_request (BillingCall CancelSubscription) billing_world)
     = Inr (BillingAnswer (BillingMessage (projr (fst (cancel (sample_req 5) ''u1'' billing_world)))))"
  using sample_cancel sample_jwt
  by (cases "cancel (sample_req 5) ''u1'' billing_world"; cases "fst (cancel (sample_req 5) ''u1'' billing_world)")
    (auto simp: serve_client_def serve_billing_def serve_def authorize_def answer_def)

theorem customer_requests_isolated_witness:
  "\<exists>w'. serve_client sample_env sample_cfg (sample_req 5) False signed_request (BillingCall CancelSubscription) billing_world
         = (Inr (BillingAnswer (BillingMessage (projr (fst (cancel (sample_req 5) ''u1'' billing_world))))), w')
     \<and> rows_of ''a1'' w' = rows_of ''a1'' billing_world
     \<and> (\<exists>s \<in> set (subscriptions billing_world). sb_userId s = ''u1'' \<and> s\<lparr>sb_cancelAtPeriodEnd := True\<rparr> \<in> set (subscriptions w'))"
proof -
  obtain w' where served: "serve_client sample_env sample_cfg (sample_req 5) False signed_request (BillingCall CancelSubscription) billing_world
      = (Inr (BillingAnswer (BillingMessage (projr (fst (cancel (sample_req 5) ''u1'' billing_world))))), w')"
    using sample_cancel_served by (metis prod.collapse)
  have ok: "lf_ok billing_world" "search_keys billing_world"
    by (simp_all add: lf_ok_def search_keys_def unique_on_def one_live_def billing_sample_defs sample_defs)
  from customer_requests_isolated [OF billing_subs_ok ok served] served show ?thesis
    by (auto simp: caller_def sample_jwt for_visitors_def effect_def billing_effect_def)
qed

end
