(* ===== verification/Queueing.thy ===== *)
theory Queueing
  imports Complex_Main "HOL-Library.Monad_Syntax" CampaignProperties StripeWebhooks Email Renewal
begin

text \<open>
  The producing side of the queues: \<open>withTimeout\<close> (\<open>with-timeout.util.ts\<close>), the private \<open>enqueue\<close> and \<open>enqueueBulk\<close>
  of \<open>EmailService\<close> as they wait for Redis, the jobs each \<open>send\<close> method writes (\<open>email.service.ts\<close>) and how the worker
  reads them back (\<open>email.processor.ts\<close>), and the two daily schedules (\<open>prospect-campaign.module.ts\<close>,
  \<open>renewal-reminder.module.ts\<close>).

  The other theories say of a call of the queue only whether it was accepted in time. Here a call is a schedule: what
  happens to it in the order it happens, with the milliseconds since the call.
\<close>

section \<open>A call with a time limit\<close>

datatype 'a settlement = Fulfilled 'a | Rejected string | TimerFires

type_synonym 'a schedule = "(nat \<times> 'a settlement) list"

record 'a timed =
  td_timer :: bool
  td_outcome :: "(string + 'a) option"

definition timed_out :: "nat \<Rightarrow> string" where
  "timed_out ms = ''Timed out after '' @ show_nat ms @ ''ms''"

definition started :: "'a timed" where
  "started = \<lparr>td_timer = True, td_outcome = None\<rparr>"

text \<open>A promise settles once: a later \<open>resolve\<close> or \<open>reject\<close> does nothing.\<close>

definition settle :: "string + 'a \<Rightarrow> 'a timed \<Rightarrow> 'a timed" where
  "settle r s = (case td_outcome s of None \<Rightarrow> s\<lparr>td_outcome := Some r\<rparr> | Some _ \<Rightarrow> s)"

fun on_settlement :: "nat \<Rightarrow> 'a settlement \<Rightarrow> 'a timed \<Rightarrow> 'a timed" where
  "on_settlement ms TimerFires s =
     (if td_timer s then settle (Inl (timed_out ms)) (s\<lparr>td_timer := False\<rparr>) else s)"
| "on_settlement ms (Fulfilled v) s = settle (Inr v) (s\<lparr>td_timer := False\<rparr>)"
| "on_settlement ms (Rejected e) s = settle (Inl e) (s\<lparr>td_timer := False\<rparr>)"

text \<open>What \<open>await withTimeout(promise, ms)\<close> returns and when; \<open>None\<close> when it never returns.\<close>

fun await :: "nat \<Rightarrow> 'a schedule \<Rightarrow> 'a timed \<Rightarrow> (nat \<times> (string + 'a)) option" where
  "await ms [] s = None"
| "await ms ((t, e) # evs) s =
     (let s' = on_settlement ms e s
      in case td_outcome s' of Some r \<Rightarrow> Some (t, r) | None \<Rightarrow> await ms evs s')"

definition withTimeout :: "nat \<Rightarrow> 'a schedule \<Rightarrow> (nat \<times> (string + 'a)) option" where
  "withTimeout ms evs = await ms evs started"

text \<open>What the runtime promises: events come in order, and a timer that is not cleared fires when its time has come.\<close>

definition timely :: "nat \<Rightarrow> 'a schedule \<Rightarrow> bool" where
  "timely ms evs \<longleftrightarrow> sorted (map fst evs)
     \<and> ((ms, TimerFires) \<in> set evs \<or> list_ex (\<lambda>(t, e). t \<le> ms \<and> e \<noteq> TimerFires) evs)"

fun outcome :: "nat \<Rightarrow> 'a settlement \<Rightarrow> string + 'a" where
  "outcome ms TimerFires = Inl (timed_out ms)"
| "outcome ms (Fulfilled v) = Inr v"
| "outcome ms (Rejected e) = Inl e"

lemma withTimeout_first [simp]: "withTimeout ms ((t, e) # evs) = Some (t, outcome ms e)"
  by (cases e) (simp_all add: withTimeout_def started_def settle_def Let_def)

lemma withTimeout_never [simp]: "withTimeout ms [] = None"
  by (simp add: withTimeout_def)

lemma settled_stays: "td_outcome s = Some r \<Longrightarrow> td_outcome (on_settlement ms e s) = Some r"
  by (cases e) (simp_all add: settle_def)

lemma settled_stays_run: "td_outcome s = Some r \<Longrightarrow> td_outcome (foldl (\<lambda>s e. on_settlement ms e s) s es) = Some r"
  by (induction es arbitrary: s) (simp_all add: settled_stays)

lemma withTimeout_timely:
  assumes "timely ms evs"
  obtains t e evs' where "evs = (t, e) # evs'" "t \<le> ms" "withTimeout ms evs = Some (t, outcome ms e)"
proof -
  obtain t e evs' where evs: "evs = (t, e) # evs'"
    using assms by (cases evs) (auto simp: timely_def)
  moreover have "t \<le> ms" using assms by (auto simp: evs timely_def list_ex_iff)
  ultimately show ?thesis using that by simp
qed

section \<open>Sending in bulk\<close>

definition ENQUEUE_TIMEOUT_MS :: nat where "ENQUEUE_TIMEOUT_MS = 3000"
definition BULK_ENQUEUE_TIMEOUT_MS :: nat where "BULK_ENQUEUE_TIMEOUT_MS = 15000"

text \<open>Redis has the jobs once the call is fulfilled, whether the caller still waits or not.\<close>

definition lands :: "'a schedule \<Rightarrow> bool" where
  "lands evs = list_ex (\<lambda>(t, e). case e of Fulfilled _ \<Rightarrow> True | _ \<Rightarrow> False) evs"

definition in_time :: "nat \<Rightarrow> 'a schedule \<Rightarrow> bool" where
  "in_time ms evs = (case withTimeout ms evs of Some (_, Inr _) \<Rightarrow> True | _ \<Rightarrow> False)"

lemma in_time_lands: "in_time ms evs \<Longrightarrow> lands evs"
  by (cases evs) (auto simp: in_time_def lands_def split: settlement.splits sum.splits elim: outcome.elims)

text \<open>The loop: how long it waits, the batches it logs as failed (index, size, reason), the jobs Redis ends up with.\<close>

function bulk_loop ::
  "(nat \<Rightarrow> unit schedule) \<Rightarrow> nat \<Rightarrow> nat \<Rightarrow> string list \<Rightarrow> (nat \<times> (nat \<times> nat \<times> string) list \<times> string list) option" where
  "bulk_loop calls k i jobs =
     (if jobs = [] then Some (0, [], [])
      else let chunk = take BULK_CHUNK_SIZE jobs in
        (case withTimeout BULK_ENQUEUE_TIMEOUT_MS (calls k) of
           None \<Rightarrow> None
         | Some (t, r) \<Rightarrow>
             (case bulk_loop calls (k + 1) (i + BULK_CHUNK_SIZE) (drop BULK_CHUNK_SIZE jobs) of
                None \<Rightarrow> None
              | Some (t', logs, queued) \<Rightarrow>
                  Some (t + t', (case r of Inl e \<Rightarrow> (i, length chunk, e) # logs | Inr _ \<Rightarrow> logs),
                        (if lands (calls k) then chunk else []) @ queued))))"
  by pat_completeness auto

termination
  by (relation "measure (\<lambda>(calls, k, i, jobs). length jobs)") (simp_all add: BULK_CHUNK_SIZE_def)

declare bulk_loop.simps [simp del]

definition accepted_from :: "(nat \<Rightarrow> bool) \<Rightarrow> nat \<Rightarrow> string list \<Rightarrow> string list" where
  "accepted_from up k jobs = concat (map snd (filter (\<lambda>(k, chunk). up k) (enumerate k (chunks BULK_CHUNK_SIZE jobs))))"

lemma accepted_from_step:
  "accepted_from up k jobs = (if jobs = [] then []
     else (if up k then take BULK_CHUNK_SIZE jobs else []) @ accepted_from up (Suc k) (drop BULK_CHUNK_SIZE jobs))"
proof (cases "jobs = []")
  case False
  then have "chunks BULK_CHUNK_SIZE jobs = take BULK_CHUNK_SIZE jobs # chunks BULK_CHUNK_SIZE (drop BULK_CHUNK_SIZE jobs)"
    by (subst chunks.simps) (simp add: BULK_CHUNK_SIZE_def)
  with False show ?thesis by (simp add: accepted_from_def)
qed (simp add: accepted_from_def chunks.simps)

lemma bulk_loop_ends:
  assumes "\<And>k. timely BULK_ENQUEUE_TIMEOUT_MS (calls k)"
  shows "\<exists>t logs. bulk_loop calls k i jobs = Some (t, logs, accepted_from (\<lambda>k. lands (calls k)) k jobs)
    \<and> t \<le> BULK_ENQUEUE_TIMEOUT_MS * length (chunks BULK_CHUNK_SIZE jobs)
    \<and> length logs \<le> length (chunks BULK_CHUNK_SIZE jobs)
    \<and> (logs = [] \<longleftrightarrow> (\<forall>j < length (chunks BULK_CHUNK_SIZE jobs). in_time BULK_ENQUEUE_TIMEOUT_MS (calls (k + j))))"
  using assms
proof (induction calls k i jobs rule: bulk_loop.induct)
  case (1 calls k i jobs)
  show ?case
  proof (cases "jobs = []")
    case True
    have "chunks BULK_CHUNK_SIZE ([] :: string list) = []" by (subst chunks.simps) simp
    then show ?thesis by (simp add: True accepted_from_def bulk_loop.simps [of calls k i "[]"])
  next
    case False
    obtain t e evs' where evs: "calls k = (t, e) # evs'" "t \<le> BULK_ENQUEUE_TIMEOUT_MS"
      "withTimeout BULK_ENQUEUE_TIMEOUT_MS (calls k) = Some (t, outcome BULK_ENQUEUE_TIMEOUT_MS e)"
      by (rule withTimeout_timely [OF "1.prems", of k])
    have "\<exists>t' logs. bulk_loop calls (k + 1) (i + BULK_CHUNK_SIZE) (drop BULK_CHUNK_SIZE jobs)
        = Some (t', logs, accepted_from (\<lambda>k. lands (calls k)) (k + 1) (drop BULK_CHUNK_SIZE jobs))
      \<and> t' \<le> BULK_ENQUEUE_TIMEOUT_MS * length (chunks BULK_CHUNK_SIZE (drop BULK_CHUNK_SIZE jobs))
      \<and> length logs \<le> length (chunks BULK_CHUNK_SIZE (drop BULK_CHUNK_SIZE jobs))
      \<and> (logs = [] \<longleftrightarrow> (\<forall>j < length (chunks BULK_CHUNK_SIZE (drop BULK_CHUNK_SIZE jobs)).
            in_time BULK_ENQUEUE_TIMEOUT_MS (calls (k + 1 + j))))"
      using "1.IH" [OF False refl evs(3) refl "1.prems"] .
    then obtain t' logs where rest: "bulk_loop calls (k + 1) (i + BULK_CHUNK_SIZE) (drop BULK_CHUNK_SIZE jobs)
        = Some (t', logs, accepted_from (\<lambda>k. lands (calls k)) (Suc k) (drop BULK_CHUNK_SIZE jobs))"
      "t' \<le> BULK_ENQUEUE_TIMEOUT_MS * length (chunks BULK_CHUNK_SIZE (drop BULK_CHUNK_SIZE jobs))"
      "length logs \<le> length (chunks BULK_CHUNK_SIZE (drop BULK_CHUNK_SIZE jobs))"
      "logs = [] \<longleftrightarrow> (\<forall>j < length (chunks BULK_CHUNK_SIZE (drop BULK_CHUNK_SIZE jobs)).
            in_time BULK_ENQUEUE_TIMEOUT_MS (calls (Suc k + j)))" by auto
    have ch: "length (chunks BULK_CHUNK_SIZE jobs) = Suc (length (chunks BULK_CHUNK_SIZE (drop BULK_CHUNK_SIZE jobs)))"
      using False by (subst chunks.simps) (simp add: BULK_CHUNK_SIZE_def)
    have first: "in_time BULK_ENQUEUE_TIMEOUT_MS (calls k) \<longleftrightarrow> (\<exists>v. outcome BULK_ENQUEUE_TIMEOUT_MS e = Inr v)"
      by (auto simp: in_time_def evs split: sum.splits)
    show ?thesis
      unfolding ch by (subst bulk_loop.simps, subst accepted_from_step)
        (use False evs(2) rest in \<open>auto simp: evs(3) Let_def All_less_Suc2 first split: sum.splits\<close>)
  qed
qed

lemma length_chunks: "0 < n \<Longrightarrow> length (chunks n xs) = (length xs + n - 1) div n"
proof (induction n xs rule: chunks.induct)
  case (1 n xs)
  show ?case
  proof (cases "xs = []")
    case False
    then have "length (chunks n xs) = Suc ((length (drop n xs) + n - 1) div n)"
      using 1 by (subst chunks.simps) simp
    also have "\<dots> = (length xs + n - 1) div n"
    proof (cases "length xs \<le> n")
      case True
      then have "(length xs + n - 1) div n = 1"
        using False 1(2) by (intro div_nat_eqI) (cases xs; simp)+
      with True 1(2) show ?thesis by simp
    next
      case len: False
      then have "length xs + n - 1 = (length (drop n xs) + n - 1) + n" by simp
      with 1(2) show ?thesis by (simp only: div_add_self2)
    qed
    finally show ?thesis .
  qed (use 1(2) in \<open>simp add: chunks.simps\<close>)
qed

definition enqueue_timed :: "unit schedule \<Rightarrow> emailJob \<Rightarrow> world \<Rightarrow> (nat \<times> string option \<times> world) option" where
  "enqueue_timed evs job w =
     (case withTimeout ENQUEUE_TIMEOUT_MS evs of
        None \<Rightarrow> None
      | Some (t, r) \<Rightarrow> Some (t, (case r of Inl e \<Rightarrow> Some e | Inr _ \<Rightarrow> None),
          if lands evs then w\<lparr>emailQueue := emailQueue w @ [job]\<rparr> else w))"

definition enqueueBulk_timed ::
  "(nat \<Rightarrow> unit schedule) \<Rightarrow> string list \<Rightarrow> world \<Rightarrow> (nat \<times> (nat \<times> nat \<times> string) list \<times> world) option" where
  "enqueueBulk_timed calls jobs w =
     (case bulk_loop calls 0 0 jobs of
        None \<Rightarrow> None
      | Some (t, logs, queued) \<Rightarrow> Some (t, logs, w\<lparr>bulkEmailQueue := bulkEmailQueue w @ queued\<rparr>))"

text \<open>
  C16: Queueing mail always comes back. Whatever Redis does with the calls, answer, fail, answer late or never, a single
  job keeps its caller waiting for at most 3 seconds and a bulk send for at most 15 seconds per 500 addresses, and
  neither raises an error. When no answer comes late, the effect is the one the services are modelled with: the job is
  queued if the call was answered in time and lost otherwise, batch by batch, and every lost batch is logged.
\<close>

theorem enqueueing_ends:
  assumes "timely ENQUEUE_TIMEOUT_MS evs" "\<And>k. timely BULK_ENQUEUE_TIMEOUT_MS (calls k)"
  shows "\<exists>t msg w1 t' logs w2.
      enqueue_timed evs job w = Some (t, msg, w1) \<and> t \<le> 3000
      \<and> (lands evs = in_time ENQUEUE_TIMEOUT_MS evs \<and> q_queueUp q = in_time ENQUEUE_TIMEOUT_MS evs \<longrightarrow> w1 = enqueue q job w)
      \<and> enqueueBulk_timed calls jobs w = Some (t', logs, w2) \<and> t' \<le> 15000 * ((length jobs + 499) div 500)
      \<and> ((\<forall>k. lands (calls k) = in_time BULK_ENQUEUE_TIMEOUT_MS (calls k))
          \<longrightarrow> w2 = enqueueBulk (\<lambda>k. in_time BULK_ENQUEUE_TIMEOUT_MS (calls k)) jobs w)
      \<and> (logs = [] \<longleftrightarrow> (\<forall>k < (length jobs + 499) div 500. in_time BULK_ENQUEUE_TIMEOUT_MS (calls k)))"
proof -
  obtain t e evs' where evs: "evs = (t, e) # evs'" "t \<le> ENQUEUE_TIMEOUT_MS"
      "withTimeout ENQUEUE_TIMEOUT_MS evs = Some (t, outcome ENQUEUE_TIMEOUT_MS e)"
    by (rule withTimeout_timely [OF assms(1)])
  have len: "length (chunks BULK_CHUNK_SIZE jobs) = (length jobs + 499) div 500"
    by (simp add: length_chunks BULK_CHUNK_SIZE_def)
  obtain t' logs where bulk: "bulk_loop calls 0 0 jobs = Some (t', logs, accepted_from (\<lambda>k. lands (calls k)) 0 jobs)"
      "t' \<le> BULK_ENQUEUE_TIMEOUT_MS * ((length jobs + 499) div 500)"
      "logs = [] \<longleftrightarrow> (\<forall>j < (length jobs + 499) div 500. in_time BULK_ENQUEUE_TIMEOUT_MS (calls j))"
    using bulk_loop_ends [of calls 0 0 jobs, OF assms(2)] by (auto simp: len)
  let ?w1 = "if lands evs then w\<lparr>emailQueue := emailQueue w @ [job]\<rparr> else w"
  let ?w2 = "w\<lparr>bulkEmailQueue := bulkEmailQueue w @ accepted_from (\<lambda>k. lands (calls k)) 0 jobs\<rparr>"
  have one: "enqueue_timed evs job w = Some (t, (case outcome ENQUEUE_TIMEOUT_MS e of Inl e \<Rightarrow> Some e | Inr _ \<Rightarrow> None), ?w1)"
    unfolding enqueue_timed_def evs(3) by simp
  have two: "enqueueBulk_timed calls jobs w = Some (t', logs, ?w2)" unfolding enqueueBulk_timed_def bulk(1) by simp
  have "lands evs = in_time ENQUEUE_TIMEOUT_MS evs \<and> q_queueUp q = in_time ENQUEUE_TIMEOUT_MS evs \<longrightarrow> ?w1 = enqueue q job w"
    by (simp add: enqueue_def)
  moreover have "(\<forall>k. lands (calls k) = in_time BULK_ENQUEUE_TIMEOUT_MS (calls k))
      \<longrightarrow> ?w2 = enqueueBulk (\<lambda>k. in_time BULK_ENQUEUE_TIMEOUT_MS (calls k)) jobs w"
    by (simp add: enqueueBulk_def accepted_from_def)
  moreover have "t \<le> 3000" "t' \<le> 15000 * ((length jobs + 499) div 500)"
    using evs(2) bulk(2) by (simp_all add: ENQUEUE_TIMEOUT_MS_def BULK_ENQUEUE_TIMEOUT_MS_def)
  ultimately show ?thesis using one two bulk(3) by blast
qed

theorem enqueueing_ends_witness:
  "\<exists>t logs w2. enqueueBulk_timed (\<lambda>k. if k = 1 then [(15000, TimerFires)] else [(4, Fulfilled ())])
       (replicate 1200 ''a@b.co'') sample_world = Some (t, logs, w2) \<and> t \<le> 45000 \<and> logs \<noteq> []"
proof -
  let ?calls = "\<lambda>k :: nat. if k = 1 then [(15000, TimerFires)] else [(4 :: nat, Fulfilled ())]"
  have t: "timely BULK_ENQUEUE_TIMEOUT_MS (?calls k)" for k
    by (simp add: timely_def BULK_ENQUEUE_TIMEOUT_MS_def)
  have "timely ENQUEUE_TIMEOUT_MS [(4, Fulfilled ())]" by (simp add: timely_def ENQUEUE_TIMEOUT_MS_def)
  from enqueueing_ends [where calls = ?calls and job = "WelcomeEmail [] []" and w = sample_world and q = "sample_req 1"
      and jobs = "replicate 1200 ''a@b.co''", OF this t]
  obtain t' logs w2 where bulk: "enqueueBulk_timed ?calls (replicate 1200 ''a@b.co'') sample_world = Some (t', logs, w2)"
      "t' \<le> 15000 * ((length (replicate 1200 ''a@b.co'') + 499) div 500)"
      "logs = [] \<longleftrightarrow> (\<forall>k < (length (replicate 1200 ''a@b.co'') + 499) div 500. in_time BULK_ENQUEUE_TIMEOUT_MS (?calls k))"
    by (elim exE conjE)
  have "\<not> in_time BULK_ENQUEUE_TIMEOUT_MS (?calls 1)" by (simp add: in_time_def)
  moreover have "(1 :: nat) < (length (replicate 1200 ''a@b.co'') + 499) div 500" by simp
  ultimately have "logs \<noteq> []" using bulk(3) by blast
  moreover have "t' \<le> 45000" using bulk(2) by simp
  ultimately show ?thesis using bulk(1) by blast
qed

section \<open>The Stripe webhook\<close>

definition handleStripeWebhook_timed ::
  "(string \<Rightarrow> string \<Rightarrow> webhookEvent option) \<Rightarrow> unit schedule \<Rightarrow> string \<Rightarrow> string option
    \<Rightarrow> webhookEvent list \<Rightarrow> (unit result \<times> webhookEvent list) option" where
  "handleStripeWebhook_timed constructEvent evs rawBody signature queue =
     (if \<not> truthy signature then Some (Inl (BadRequest Missing_signature), queue)
      else (case constructEvent rawBody (the signature) of
              None \<Rightarrow> Some (Inl (BadRequest Signature_verification_failed), queue)
            | Some event \<Rightarrow>
                (case withTimeout ENQUEUE_TIMEOUT_MS evs of
                   None \<Rightarrow> None
                 | Some (t, r) \<Rightarrow>
                     Some ((case r of Inl _ \<Rightarrow> Inl (ServiceUnavailable Could_not_queue_event) | Inr _ \<Rightarrow> Inr ()),
                           if lands evs then queue @ [event] else queue))))"

lemma webhook_timed:
  assumes "timely ENQUEUE_TIMEOUT_MS evs" "lands evs = in_time ENQUEUE_TIMEOUT_MS evs" "q_queueUp q = in_time ENQUEUE_TIMEOUT_MS evs"
  shows "handleStripeWebhook_timed constructEvent evs rawBody signature queue
    = Some (handleStripeWebhook constructEvent q rawBody signature queue)"
proof -
  obtain t e evs' where evs: "evs = (t, e) # evs'"
      "withTimeout ENQUEUE_TIMEOUT_MS evs = Some (t, outcome ENQUEUE_TIMEOUT_MS e)"
    by (rule withTimeout_timely [OF assms(1)])
  then have "in_time ENQUEUE_TIMEOUT_MS evs \<longleftrightarrow> (\<exists>v. outcome ENQUEUE_TIMEOUT_MS e = Inr v)"
    by (auto simp: in_time_def split: sum.splits)
  then show ?thesis
    unfolding handleStripeWebhook_timed_def handleStripeWebhook_def evs(2) assms(2,3)
    by (auto split: option.splits sum.splits)
qed

text \<open>
  A webhook that was answered 503 can still be processed. The call goes on after the time limit, and when Redis
  comes back the event is queued although Stripe was told it was not; the redelivery it then makes queues the same
  event a second time, because a job carries no identifier of the event.
\<close>

theorem late_webhook_queued_twice:
  assumes "truthy signature" "constructEvent rawBody (the signature) = Some event"
    and "\<not> in_time ENQUEUE_TIMEOUT_MS evs" "lands evs" "timely ENQUEUE_TIMEOUT_MS evs"
    and "in_time ENQUEUE_TIMEOUT_MS evs'" "timely ENQUEUE_TIMEOUT_MS evs'"
  shows "\<exists>queue'. handleStripeWebhook_timed constructEvent evs rawBody signature queue
        = Some (Inl (ServiceUnavailable Could_not_queue_event), queue')
      \<and> handleStripeWebhook_timed constructEvent evs' rawBody signature queue' = Some (Inr (), queue @ [event, event])"
proof -
  obtain t e evs1 where evs: "evs = (t, e) # evs1" "withTimeout ENQUEUE_TIMEOUT_MS evs = Some (t, outcome ENQUEUE_TIMEOUT_MS e)"
    by (rule withTimeout_timely [OF assms(5)])
  then obtain msg where "outcome ENQUEUE_TIMEOUT_MS e = Inl msg"
    using assms(3) by (auto simp: in_time_def split: sum.splits)
  moreover obtain t' e' evs2 where evs': "evs' = (t', e') # evs2" "withTimeout ENQUEUE_TIMEOUT_MS evs' = Some (t', outcome ENQUEUE_TIMEOUT_MS e')"
    by (rule withTimeout_timely [OF assms(7)])
  then obtain v where "outcome ENQUEUE_TIMEOUT_MS e' = Inr v"
    using assms(6) by (auto simp: in_time_def split: sum.splits)
  ultimately show ?thesis
    unfolding handleStripeWebhook_timed_def evs(2) evs'(2) using assms(1,2,4) in_time_lands [OF assms(6)] by simp
qed

definition sample_event :: webhookEvent where
  "sample_event = \<lparr>we_id = ''evt_1'', we_type = ''invoice.voided'', we_object = OtherStripeEvent ''invoice.voided''\<rparr>"

theorem late_webhook_queued_twice_witness:
  "\<exists>queue'. handleStripeWebhook_timed (\<lambda>_ _. Some sample_event) [(3000, TimerFires), (9000, Fulfilled ())] ''body'' (Some ''sig'') []
        = Some (Inl (ServiceUnavailable Could_not_queue_event), queue')
      \<and> handleStripeWebhook_timed (\<lambda>_ _. Some sample_event) [(5, Fulfilled ())] ''body'' (Some ''sig'') queue'
        = Some (Inr (), [sample_event, sample_event])"
  using late_webhook_queued_twice [where signature = "Some ''sig''" and constructEvent = "\<lambda>_ _. Some sample_event"
      and rawBody = "''body''" and event = sample_event and evs = "[(3000, TimerFires), (9000, Fulfilled ())]"
      and evs' = "[(5, Fulfilled ())]" and queue = "[]"]
  by (simp add: truthy_def in_time_def lands_def timely_def ENQUEUE_TIMEOUT_MS_def)

section \<open>Email jobs as they travel\<close>










































section \<open>Daily jobs\<close>

text \<open>
  A scheduler of BullMQ is kept under its id, so registering it again replaces it (\<open>upsertJobScheduler\<close>).
\<close>

record jobScheduler =
  js_pattern :: string
  js_jobName :: string

type_synonym schedulers = "string \<rightharpoonup> jobScheduler"

definition campaign_onApplicationBootstrap :: "schedulers \<Rightarrow> schedulers" where
  "campaign_onApplicationBootstrap s =
     s(''daily-prospect-campaign-drip'' \<mapsto> \<lparr>js_pattern = ''0 10 * * *'', js_jobName = ''drip''\<rparr>)"

definition reminder_onApplicationBootstrap :: "schedulers \<Rightarrow> schedulers" where
  "reminder_onApplicationBootstrap s =
     s(''daily-renewal-reminder-scan'' \<mapsto> \<lparr>js_pattern = ''0 9 * * *'', js_jobName = ''scan''\<rparr>)"

definition process_campaign_job :: "string \<Rightarrow> (nat \<Rightarrow> bool) \<Rightarrow> req \<Rightarrow> world \<Rightarrow> world" where
  "process_campaign_job name up q w = (if name \<noteq> ''drip'' then w else snd (runDailyDrip up q w))"

lemma boot_again:
  "campaign_onApplicationBootstrap (campaign_onApplicationBootstrap s) = campaign_onApplicationBootstrap s"
  "reminder_onApplicationBootstrap (reminder_onApplicationBootstrap s) = reminder_onApplicationBootstrap s"
  "campaign_onApplicationBootstrap (reminder_onApplicationBootstrap s) = reminder_onApplicationBootstrap (campaign_onApplicationBootstrap s)"
  by (auto simp: campaign_onApplicationBootstrap_def reminder_onApplicationBootstrap_def fun_eq_iff)

lemma drip_keys:
  assumes "\<And>x s. f (x\<lparr>pi_status := s\<rparr>) = f x" "\<And>x s t. f (x\<lparr>pi_status := s, pi_sentAt := t\<rparr>) = f x"
  shows "map f (prospectInviteQueue (snd (runDailyDrip up q w))) = map f (prospectInviteQueue w)"
proof (cases "drip_batch w = []")
  case False
  have "map f (prospectInviteQueue (drip_sorted w)) = map f (prospectInviteQueue w)"
    unfolding drip_sorted_def sort_batch_stamp using assms(1) by (subst stamp_all_image) simp_all
  then show ?thesis
    unfolding runDailyDrip_batch(3) [OF False]
    using assms(2) by (simp add: mark_sent_def updateMany_def comp_def if_distrib cong: if_cong)
qed (simp add: runDailyDrip_idle)

lemma drip_keeps_settings:
  "prospects_ok w \<Longrightarrow> prospects_ok (snd (runDailyDrip up q w))"
  "drip_cap (snd (runDailyDrip up q w)) = drip_cap w"
  "drip_paused (snd (runDailyDrip up q w)) = drip_paused w"
proof -
  show "prospects_ok (snd (runDailyDrip up q w))" if "prospects_ok w"
    using that by (simp add: prospects_ok_def unique_on_def drip_keys)
  have "campaign (snd (runDailyDrip up q w)) = Some (nullish (campaign w) default_settings)"
    by (cases "drip_batch w = []") (simp_all add: runDailyDrip_idle runDailyDrip_batch)
  then show "drip_cap (snd (runDailyDrip up q w)) = drip_cap w" "drip_paused (snd (runDailyDrip up q w)) = drip_paused w"
    by (simp_all add: drip_cap_def drip_paused_def nullish_def)
qed

lemma drip_pending_any:
  assumes "prospects_ok w" "\<not> drip_paused w"
  shows "by_status (snd (runDailyDrip up q w)) Pro_PENDING = by_status w Pro_PENDING - drip_cap w"
proof (cases "drip_batch w = []")
  case True
  then have "length (drip_batch w) = 0" by simp
  then show ?thesis unfolding drip_batch_rows(2) using assms(2) by (auto simp: runDailyDrip_idle [OF True] by_status_def)
next
  case False
  show ?thesis unfolding drip_pending [OF assms(1) False] drip_batch_rows(2) using assms(2) by simp
qed

fun drip_days :: "((nat \<Rightarrow> bool) \<times> req) list \<Rightarrow> world \<Rightarrow> world" where
  "drip_days [] w = w"
| "drip_days ((up, q) # days) w = drip_days days (process_campaign_job ''drip'' up q w)"

text \<open>
  C37: A campaign that is not paused empties its queue. With a daily cap of \<open>c\<close> addresses, \<open>d\<close> runs of the daily job
  leave the backlog shorter by \<open>c * d\<close>, so that any backlog is gone after finitely many days, however many addresses
  are skipped, whether the mail queue answers or not; the job of another name does nothing, and starting the application
  again leaves one schedule of each job.
\<close>

theorem backlog_drains:
  assumes "prospects_ok w" "\<not> drip_paused w"
  shows "by_status (drip_days days w) Pro_PENDING = by_status w Pro_PENDING - drip_cap w * length days
    \<and> (0 < drip_cap w \<and> by_status w Pro_PENDING \<le> length days \<longrightarrow> by_status (drip_days days w) Pro_PENDING = 0)
    \<and> (\<forall>name. name \<noteq> ''drip'' \<longrightarrow> process_campaign_job name up q w = w)
    \<and> campaign_onApplicationBootstrap (reminder_onApplicationBootstrap s)
        = (campaign_onApplicationBootstrap \<circ> reminder_onApplicationBootstrap) (campaign_onApplicationBootstrap (reminder_onApplicationBootstrap s))"
proof -
  have pending: "by_status (drip_days days w) Pro_PENDING = by_status w Pro_PENDING - drip_cap w * length days"
    using assms
  proof (induction days arbitrary: w)
    case (Cons d days)
    obtain up q where d: "d = (up, q)" by (cases d)
    let ?w = "snd (runDailyDrip up q w)"
    have "by_status (drip_days days ?w) Pro_PENDING = by_status ?w Pro_PENDING - drip_cap w * length days"
      using Cons.IH [of ?w] Cons.prems by (simp add: drip_keeps_settings)
    then show ?case using drip_pending_any [OF Cons.prems, of up q] by (simp add: d process_campaign_job_def)
  qed simp
  moreover have "by_status w Pro_PENDING \<le> drip_cap w * length days"
    if "0 < drip_cap w" "by_status w Pro_PENDING \<le> length days"
    using that by (metis le_trans mult.commute mult_le_mono2 mult.right_neutral Suc_leI One_nat_def)
  ultimately show ?thesis by (simp add: process_campaign_job_def boot_again)
qed

theorem backlog_drains_witness:
  "by_status (drip_days (replicate 3 (\<lambda>_. False, sample_req 5)) campaign_world) Pro_PENDING = 0"
proof -
  have "\<not> drip_paused campaign_world" "drip_cap campaign_world = 25" "by_status campaign_world Pro_PENDING = 3"
    by (simp_all add: drip_paused_def drip_cap_def default_settings_def by_status_def campaign_sample_defs countRows_def)
  with backlog_drains [OF campaign_sample, of "replicate 3 (\<lambda>_. False, sample_req 5)"] show ?thesis by simp
qed

end
