(* ===== verification/Dto.thy ===== *)
theory Dto
  imports Complex_Main "HOL-Library.Monad_Syntax" Taxonomy AuthController ClientControllers
begin

text \<open>
  The request bodies and queries: every DTO class as the table of its properties with their decorators, the query
  boolean (\<open>parse-query-boolean.decorator.ts\<close>), and what the handlers get from an accepted request.

  The checks are code of \<open>class-validator\<close> and the pipe that runs them is code of Nest; both are parameters. What
  the application relies on is stated as their laws: \<open>validator_law\<close> for the checks, \<open>pipe_law\<close> for a pipe with the
  options of \<open>main.ts\<close> (\<open>whitelist\<close>, \<open>forbidNonWhitelisted\<close>, \<open>transform\<close>).
\<close>

section \<open>Classes as tables\<close>

datatype check =
    IsString | IsEmail | IsUrl | IsUUID | IsDateString | IsBoolean | IsInt | IsArray
  | MinLength nat | MaxLength nat | LengthBetween nat nat | Minimum int | Maximum int
  | ArrayMinSize nat | ArrayMaxSize nat | IsOneOf "string list" | EqualsTrue | Each check

datatype conversion = AsIs | ToNumber | QueryBoolean

record dtoField =
  fd_name :: string
  fd_optional :: bool
  fd_conversion :: conversion
  fd_default :: "json option"
  fd_checks :: "check list"

type_synonym dto = "dtoField list"

type_synonym body = "(string \<times> json) list"

definition field :: "string \<Rightarrow> bool \<Rightarrow> conversion \<Rightarrow> json option \<Rightarrow> check list \<Rightarrow> dtoField" where
  "field name optional conv dflt checks =
     \<lparr>fd_name = name, fd_optional = optional, fd_conversion = conv, fd_default = dflt, fd_checks = checks\<rparr>"

definition PaginationQueryDto :: dto where
  "PaginationQueryDto =
    [field ''page'' True ToNumber (Some (JInt 1)) [IsInt, Minimum 1],
     field ''pageSize'' True ToNumber (Some (JInt 25)) [IsInt, Minimum 1, Maximum 100]]"

definition CreateLeadDto :: dto where
  "CreateLeadDto =
    [field ''name'' False AsIs None [IsString, MaxLength 200],
     field ''companyType'' True AsIs None [IsOneOf [''ADVERTISER'', ''AD_NETWORK'', ''AFFILIATE'', ''AFFILIATE_NETWORK'', ''AGENCY'', ''SOLUTION_PROVIDER'']],
     field ''likelyToAttend'' False AsIs None [IsString, MaxLength 200],
     field ''title'' True AsIs None [IsString, MaxLength 200],
     field ''company'' True AsIs None [IsString, MaxLength 200],
     field ''website'' True AsIs None [IsUrl, MaxLength 500],
     field ''linkedin'' True AsIs None [IsUrl, MaxLength 500],
     field ''appLink'' True AsIs None [IsUrl, MaxLength 500],
     field ''email'' True AsIs None [IsEmail, MaxLength 200],
     field ''phone'' True AsIs None [IsString, MaxLength 50]]"

definition BulkInviteProspectsDto :: dto where
  "BulkInviteProspectsDto =
    [field ''emails'' False AsIs None [IsArray, ArrayMinSize 1, ArrayMaxSize 50000, Each IsString, Each (MaxLength 200)]]"

definition InviteProspectDto :: dto where
  "InviteProspectDto =
    [field ''email'' False AsIs None [IsEmail, MaxLength 200]]"

definition InviteUserDto :: dto where
  "InviteUserDto =
    [field ''email'' False AsIs None [IsEmail, MaxLength 200],
     field ''role'' True AsIs None [IsOneOf [''USER'', ''PREMIUM'', ''ADMIN'', ''SUPER_ADMIN'']],
     field ''grantDirectoryAccess'' True AsIs None [IsBoolean],
     field ''grantLeadFinderAccess'' True AsIs None [IsBoolean]]"

definition ListAuditLogsQueryDto :: dto where
  "ListAuditLogsQueryDto = PaginationQueryDto @
    [field ''action'' True AsIs None [IsString, MaxLength 100],
     field ''actorUserId'' True AsIs None [IsUUID],
     field ''targetId'' True AsIs None [IsString, MaxLength 200]]"

definition ListFlaggedSessionsQueryDto :: dto where
  "ListFlaggedSessionsQueryDto = PaginationQueryDto @
    [field ''minScore'' True ToNumber (Some (JInt 1)) [IsInt, Minimum 0]]"

definition ListProspectsQueryDto :: dto where
  "ListProspectsQueryDto = PaginationQueryDto @
    [field ''search'' True AsIs None [IsString, MaxLength 200]]"

definition ListSubscriptionsQueryDto :: dto where
  "ListSubscriptionsQueryDto = PaginationQueryDto @
    [field ''status'' True AsIs None [IsOneOf [''TRIALING'', ''ACTIVE'', ''PAST_DUE'', ''CANCELED'', ''EXPIRED'']]]"

definition ListUsersQueryDto :: dto where
  "ListUsersQueryDto = PaginationQueryDto @
    [field ''status'' True AsIs None [IsOneOf [''ACTIVE'', ''SUSPENDED'', ''DELETED'']],
     field ''role'' True AsIs None [IsOneOf [''USER'', ''PREMIUM'', ''ADMIN'', ''SUPER_ADMIN'']],
     field ''search'' True AsIs None [IsString, MaxLength 200]]"

definition PitchProspectDto :: dto where
  "PitchProspectDto =
    [field ''template'' False AsIs None [IsOneOf [''INTRO'', ''VALUE'', ''URGENCY'']]]"

definition SetDirectoryAccessDto :: dto where
  "SetDirectoryAccessDto =
    [field ''granted'' False AsIs None [IsBoolean]]"

definition SetLeadFinderAccessDto :: dto where
  "SetLeadFinderAccessDto =
    [field ''granted'' False AsIs None [IsBoolean]]"

definition SuspendUserDto :: dto where
  "SuspendUserDto =
    [field ''reason'' True AsIs None [IsString, MaxLength 500]]"

definition Confirm2faDto :: dto where
  "Confirm2faDto =
    [field ''code'' False AsIs None [IsString, LengthBetween 6 6]]"

definition DeleteAccountDto :: dto where
  "DeleteAccountDto =
    [field ''password'' False AsIs None [IsString, MinLength 1]]"

definition Disable2faDto :: dto where
  "Disable2faDto =
    [field ''password'' False AsIs None [IsString, MinLength 1]]"

definition ForgotPasswordDto :: dto where
  "ForgotPasswordDto =
    [field ''email'' False AsIs None [IsEmail]]"

definition LoginDto :: dto where
  "LoginDto =
    [field ''email'' False AsIs None [IsEmail],
     field ''password'' False AsIs None [IsString, MinLength 1]]"

definition RegisterDto :: dto where
  "RegisterDto =
    [field ''email'' False AsIs None [IsEmail],
     field ''password'' False AsIs None [IsString, MinLength 8, MaxLength 72],
     field ''fullName'' False AsIs None [IsString, MinLength 1, MaxLength 200],
     field ''phone'' True AsIs None [IsString, MaxLength 30],
     field ''acceptedTerms'' False AsIs None [EqualsTrue]]"

definition ResetPasswordDto :: dto where
  "ResetPasswordDto =
    [field ''token'' False AsIs None [IsString],
     field ''newPassword'' False AsIs None [IsString, MinLength 8, MaxLength 72]]"

definition VerifyEmailDto :: dto where
  "VerifyEmailDto =
    [field ''token'' False AsIs None [IsString]]"

definition VerifyLoginDto :: dto where
  "VerifyLoginDto =
    [field ''challengeToken'' False AsIs None [IsString],
     field ''code'' False AsIs None [IsString, LengthBetween 6 6]]"

definition ContactDto :: dto where
  "ContactDto =
    [field ''name'' False AsIs None [IsString, MinLength 1, MaxLength 200],
     field ''email'' False AsIs None [IsEmail, MaxLength 200],
     field ''reason'' False AsIs None [IsOneOf [''BILLING'', ''ACCOUNT_ISSUE'', ''REMOVE_RECORD'', ''OTHER'']],
     field ''message'' False AsIs None [IsString, MinLength 1, MaxLength 5000]]"

definition ListContactMessagesQueryDto :: dto where
  "ListContactMessagesQueryDto = PaginationQueryDto @
    [field ''resolved'' True QueryBoolean None [IsBoolean],
     field ''reason'' True AsIs None [IsOneOf [''BILLING'', ''ACCOUNT_ISSUE'', ''REMOVE_RECORD'', ''OTHER'']]]"

definition ReplyContactMessageDto :: dto where
  "ReplyContactMessageDto =
    [field ''message'' False AsIs None [IsString, MinLength 1, MaxLength 5000]]"

definition UnsubscribeDto :: dto where
  "UnsubscribeDto =
    [field ''email'' False AsIs None [IsEmail, MaxLength 200],
     field ''token'' False AsIs None [IsString, MaxLength 200]]"

definition CreateInviteDto :: dto where
  "CreateInviteDto =
    [field ''email'' False AsIs None [IsEmail, MaxLength 200]]"

definition CreateLeadFinderCheckoutDto :: dto where
  "CreateLeadFinderCheckoutDto =
    [field ''tierSlug'' False AsIs None [IsString]]"

definition AiSearchDto :: dto where
  "AiSearchDto =
    [field ''campaignName'' False AsIs None [IsString, MinLength 1, MaxLength 200],
     field ''searchKeywords'' True AsIs None [IsArray, ArrayMaxSize 20, Each IsString],
     field ''targetIndustries'' True AsIs None [IsArray, ArrayMaxSize 20, Each IsString],
     field ''personTitles'' True AsIs None [IsArray, ArrayMaxSize 20, Each IsString],
     field ''personSeniorities'' True AsIs None [IsArray, ArrayMaxSize (length PERSON_SENIORITIES), Each (IsOneOf PERSON_SENIORITIES)],
     field ''personFunctions'' True AsIs None [IsArray, ArrayMaxSize (length VERIFIED_PERSON_FUNCTIONS), Each (IsOneOf VERIFIED_PERSON_FUNCTIONS)],
     field ''location'' True AsIs None [IsString, MaxLength 200],
     field ''companySizeRanges'' True AsIs None [IsArray, ArrayMaxSize (length (map fst COMPANY_SIZE_RANGES)), Each (IsOneOf (map fst COMPANY_SIZE_RANGES))],
     field ''revenueMin'' True AsIs None [IsInt, Minimum 0],
     field ''revenueMax'' True AsIs None [IsInt, Minimum 0],
     field ''exclusions'' True AsIs None [IsArray, ArrayMaxSize 20, Each IsString],
     field ''personName'' True AsIs None [IsString, MaxLength 200],
     field ''personOrganization'' True AsIs None [IsString, MaxLength 200]]"

definition AnonymousAiSearchDto :: dto where
  "AnonymousAiSearchDto =
    [field ''query'' False AsIs None [IsString, MinLength 3, MaxLength 300]]"

definition ExportLeadsQueryDto :: dto where
  "ExportLeadsQueryDto =
    [field ''companyType'' True AsIs None [IsOneOf [''ADVERTISER'', ''AD_NETWORK'', ''AFFILIATE'', ''AFFILIATE_NETWORK'', ''AGENCY'', ''SOLUTION_PROVIDER'', ''UNCLASSIFIED'']],
     field ''likelyToAttend'' True AsIs None [IsString, MaxLength 200],
     field ''search'' True AsIs None [IsString, MaxLength 200],
     field ''hasEmail'' True QueryBoolean None [IsBoolean]]"

definition GetMoreLeadsDto :: dto where
  "GetMoreLeadsDto =
    [field ''count'' True AsIs None [IsInt, Minimum 1, Maximum 100]]"

definition ListLeadsQueryDto :: dto where
  "ListLeadsQueryDto = PaginationQueryDto @
    [field ''companyType'' True AsIs None [IsOneOf [''ADVERTISER'', ''AD_NETWORK'', ''AFFILIATE'', ''AFFILIATE_NETWORK'', ''AGENCY'', ''SOLUTION_PROVIDER'', ''UNCLASSIFIED'']],
     field ''likelyToAttend'' True AsIs None [IsString, MaxLength 200],
     field ''search'' True AsIs None [IsString, MaxLength 200],
     field ''hasEmail'' True QueryBoolean None [IsBoolean],
     field ''approved'' True QueryBoolean None [IsBoolean],
     field ''fromDate'' True AsIs None [IsDateString],
     field ''toDate'' True AsIs None [IsDateString]]"

definition ParseQueryDto :: dto where
  "ParseQueryDto =
    [field ''query'' False AsIs None [IsString, MinLength 1, MaxLength 500],
     field ''jobTitles'' True AsIs None [IsArray, ArrayMaxSize 20, Each IsString]]"

definition PreviewLeadsQueryDto :: dto where
  "PreviewLeadsQueryDto =
    [field ''search'' False AsIs None [IsString, MinLength 2, MaxLength 200]]"

definition SelfSubmitLeadDto :: dto where
  "SelfSubmitLeadDto =
    [field ''name'' False AsIs None [IsString, MaxLength 200],
     field ''companyType'' False AsIs None [IsOneOf [''ADVERTISER'', ''AD_NETWORK'', ''AFFILIATE'', ''AFFILIATE_NETWORK'', ''AGENCY'', ''SOLUTION_PROVIDER'']],
     field ''likelyToAttend'' False AsIs None [IsString, MaxLength 200],
     field ''title'' True AsIs None [IsString, MaxLength 200],
     field ''company'' True AsIs None [IsString, MaxLength 200],
     field ''website'' True AsIs None [IsUrl, MaxLength 500],
     field ''linkedin'' True AsIs None [IsUrl, MaxLength 500],
     field ''email'' True AsIs None [IsEmail, MaxLength 200],
     field ''phone'' True AsIs None [IsString, MaxLength 50]]"

definition SuggestQueryDto :: dto where
  "SuggestQueryDto =
    [field ''field'' False AsIs None [IsOneOf [''title'', ''company'']],
     field ''q'' False AsIs None [IsString, MinLength 1, MaxLength 100]]"

definition UpdateLeadDto :: dto where
  "UpdateLeadDto = map (\<lambda>f. f\<lparr>fd_optional := True\<rparr>) CreateLeadDto"

definition UpdateReviewStatusDto :: dto where
  "UpdateReviewStatusDto =
    [field ''reviewStatus'' False AsIs None [IsOneOf [''new'', ''approved'', ''skipped'']]]"

definition SendTestEmailDto :: dto where
  "SendTestEmailDto =
    [field ''email'' False AsIs None [IsEmail, MaxLength 200]]"

definition UpdateCampaignSettingsDto :: dto where
  "UpdateCampaignSettingsDto =
    [field ''dailyCap'' True AsIs None [IsInt, Minimum 1, Maximum 1000],
     field ''paused'' True AsIs None [IsBoolean]]"

definition UpdateEmailTemplateDto :: dto where
  "UpdateEmailTemplateDto =
    [field ''subject'' True AsIs None [IsString, MaxLength 200],
     field ''heading'' True AsIs None [IsString, MaxLength 200],
     field ''body'' True AsIs None [IsString, MaxLength 2000],
     field ''ctaLabel'' True AsIs None [IsString, MaxLength 60],
     field ''footnote'' True AsIs None [IsString, MaxLength 300],
     field ''mailingAddress'' True AsIs None [IsString, MaxLength 300]]"

definition CreateCheckoutDto :: dto where
  "CreateCheckoutDto =
    [field ''planSlug'' False AsIs None [IsString]]"

definition CreateCreditsCheckoutDto :: dto where
  "CreateCreditsCheckoutDto =
    [field ''packSlug'' False AsIs None [IsString],
     field ''quantity'' False ToNumber (Some (JInt 1)) [IsInt, Minimum 1, Maximum 20]]"

definition UpdateProfileDto :: dto where
  "UpdateProfileDto =
    [field ''fullName'' True AsIs None [IsString, MinLength 1, MaxLength 200],
     field ''phone'' True AsIs None [IsString, MaxLength 30]]"

lemmas dto_defs = PaginationQueryDto_def CreateLeadDto_def BulkInviteProspectsDto_def InviteProspectDto_def
  InviteUserDto_def ListAuditLogsQueryDto_def ListFlaggedSessionsQueryDto_def ListProspectsQueryDto_def
  ListSubscriptionsQueryDto_def ListUsersQueryDto_def PitchProspectDto_def SetDirectoryAccessDto_def
  SetLeadFinderAccessDto_def SuspendUserDto_def Confirm2faDto_def DeleteAccountDto_def Disable2faDto_def
  ForgotPasswordDto_def LoginDto_def RegisterDto_def ResetPasswordDto_def VerifyEmailDto_def VerifyLoginDto_def
  ContactDto_def ListContactMessagesQueryDto_def ReplyContactMessageDto_def UnsubscribeDto_def CreateInviteDto_def
  CreateLeadFinderCheckoutDto_def AiSearchDto_def AnonymousAiSearchDto_def ExportLeadsQueryDto_def
  GetMoreLeadsDto_def ListLeadsQueryDto_def ParseQueryDto_def PreviewLeadsQueryDto_def SelfSubmitLeadDto_def
  SuggestQueryDto_def UpdateLeadDto_def UpdateReviewStatusDto_def SendTestEmailDto_def
  UpdateCampaignSettingsDto_def UpdateEmailTemplateDto_def CreateCheckoutDto_def CreateCreditsCheckoutDto_def
  UpdateProfileDto_def

section \<open>The pipe\<close>

definition parseQueryBoolean :: "json \<Rightarrow> json" where
  "parseQueryBoolean v = (case v of
       JStr s \<Rightarrow> if s = ''true'' then JBool True else if s = ''false'' then JBool False else v
     | _ \<Rightarrow> v)"

text \<open>
  \<open>number\<close> is the conversion \<open>@Type(() => Number)\<close> of \<open>class-transformer\<close>: null stays null, any other value becomes a
  number (or a list of numbers), never null.
\<close>

fun convert :: "(json \<Rightarrow> json) \<Rightarrow> conversion \<Rightarrow> json \<Rightarrow> json" where
  "convert number AsIs v = v"
| "convert number ToNumber v = number v"
| "convert number QueryBoolean v = parseQueryBoolean v"


text \<open>
  \<open>chars\<close> is the number of characters \<open>class-validator\<close> counts in a text, which the model holds in UTF-8: at most
  the number of its bytes, and just that for ASCII.
\<close>

definition ascii :: "string \<Rightarrow> bool" where
  "ascii s \<longleftrightarrow> (\<forall>c \<in> set s. (of_char c :: nat) < 128)"

definition validator_law :: "(check \<Rightarrow> json \<Rightarrow> bool) \<Rightarrow> (string \<Rightarrow> nat) \<Rightarrow> bool" where
  "validator_law holds chars \<longleftrightarrow>
     (\<forall>v. holds IsString v \<or> holds IsEmail v \<or> holds IsUrl v \<or> holds IsUUID v \<or> holds IsDateString v \<longrightarrow> (\<exists>s. v = JStr s))
   \<and> (\<forall>v. holds IsBoolean v \<longrightarrow> (\<exists>b. v = JBool b))
   \<and> (\<forall>v. holds IsInt v \<longrightarrow> (\<exists>i. v = JInt i))
   \<and> (\<forall>v. holds IsArray v \<longrightarrow> (\<exists>xs. v = JArr xs))
   \<and> (\<forall>v. holds EqualsTrue v \<longrightarrow> v = JBool True)
   \<and> (\<forall>xs v. holds (IsOneOf xs) v \<longrightarrow> (\<exists>s \<in> set xs. v = JStr s))
   \<and> (\<forall>s. chars s \<le> length s \<and> (ascii s \<longrightarrow> chars s = length s))
   \<and> (\<forall>n s. holds (MinLength n) (JStr s) \<longrightarrow> n \<le> chars s)
   \<and> (\<forall>n s. holds (MaxLength n) (JStr s) \<longrightarrow> chars s \<le> n)
   \<and> (\<forall>m n s. holds (LengthBetween m n) (JStr s) \<longrightarrow> m \<le> chars s \<and> chars s \<le> n)
   \<and> (\<forall>n i. holds (Minimum n) (JInt i) \<longrightarrow> n \<le> i)
   \<and> (\<forall>n i. holds (Maximum n) (JInt i) \<longrightarrow> i \<le> n)
   \<and> (\<forall>n xs. holds (ArrayMinSize n) (JArr xs) \<longrightarrow> n \<le> length xs)
   \<and> (\<forall>n xs. holds (ArrayMaxSize n) (JArr xs) \<longrightarrow> length xs \<le> n)
   \<and> (\<forall>c xs. holds (Each c) (JArr xs) \<longrightarrow> (\<forall>x \<in> set xs. holds c x))"

text \<open>
  The value of a property: the converted one of the body, or the initial one of the class. A property marked optional
  may be missing or null, whatever its other checks; any other must pass all of them.
\<close>

definition property_value :: "(json \<Rightarrow> json) \<Rightarrow> body \<Rightarrow> dtoField \<Rightarrow> json option" where
  "property_value number b f =
     (case map_of b (fd_name f) of Some v \<Rightarrow> Some (convert number (fd_conversion f) v) | None \<Rightarrow> fd_default f)"

definition property_ok :: "(check \<Rightarrow> json \<Rightarrow> bool) \<Rightarrow> dtoField \<Rightarrow> json option \<Rightarrow> bool" where
  "property_ok holds f v = (case v of
       None \<Rightarrow> fd_optional f
     | Some x \<Rightarrow> (fd_optional f \<and> x = JNull) \<or> list_all (\<lambda>c. holds c x) (fd_checks f))"

definition pipe_law :: "(check \<Rightarrow> json \<Rightarrow> bool) \<Rightarrow> (json \<Rightarrow> json) \<Rightarrow> (dto \<Rightarrow> body \<Rightarrow> body option) \<Rightarrow> bool" where
  "pipe_law holds number pipe \<longleftrightarrow>
     (\<forall>d b r. pipe d b = Some r \<longrightarrow>
        fst ` set b \<subseteq> fd_name ` set d
        \<and> (\<forall>k. k \<notin> fd_name ` set d \<longrightarrow> map_of r k = None)
        \<and> (\<forall>f \<in> set d. map_of r (fd_name f) = property_value number b f \<and> property_ok holds f (property_value number b f)))
   \<and> (\<forall>d b. distinct (map fd_name d) \<and> fst ` set b \<subseteq> fd_name ` set d \<and> (\<forall>f \<in> set d. property_ok holds f (property_value number b f))
        \<longrightarrow> (\<exists>r. pipe d b = Some r))"

section \<open>What handlers get\<close>

text \<open>Reading a property as a handler does; null counts as missing where the code tests with \<open>??\<close>.\<close>

definition str :: "string \<Rightarrow> body \<Rightarrow> string option" where
  "str k r = (case map_of r k of Some (JStr s) \<Rightarrow> Some s | _ \<Rightarrow> None)"



definition opt_str :: "string \<Rightarrow> body \<Rightarrow> string option option" where
  "opt_str k r = (case map_of r k of None \<Rightarrow> Some None | Some JNull \<Rightarrow> Some None | Some (JStr s) \<Rightarrow> Some (Some s) | _ \<Rightarrow> None)"

text \<open>The routes of the authentication controller that take a body, with its class.\<close>

definition auth_bodies :: "(string \<times> dto) list" where
  "auth_bodies = [(''register'', RegisterDto), (''verifyEmail'', VerifyEmailDto), (''login'', LoginDto),
     (''verifyLogin'', VerifyLoginDto), (''forgotPassword'', ForgotPasswordDto), (''resetPassword'', ResetPasswordDto),
     (''confirm2fa'', Confirm2faDto), (''disable2fa'', Disable2faDto), (''deleteAccount'', DeleteAccountDto)]"

definition read_auth_call :: "string \<Rightarrow> body \<Rightarrow> authCall option" where
  "read_auth_call name r =
     (if name = ''register'' then do { e \<leftarrow> str ''email'' r; n \<leftarrow> str ''fullName'' r; p \<leftarrow> str ''password'' r; ph \<leftarrow> opt_str ''phone'' r;
        Some (Register \<lparr>rg_email = e, rg_fullName = n, rg_password = p, rg_phone = ph\<rparr>) }
      else if name = ''verifyEmail'' then do { t \<leftarrow> str ''token'' r; Some (VerifyEmail t) }
      else if name = ''login'' then do { e \<leftarrow> str ''email'' r; p \<leftarrow> str ''password'' r; Some (Login e p) }
      else if name = ''verifyLogin'' then do { t \<leftarrow> str ''challengeToken'' r; k \<leftarrow> str ''code'' r; Some (VerifyLogin t k) }
      else if name = ''forgotPassword'' then do { e \<leftarrow> str ''email'' r; Some (ForgotPassword e) }
      else if name = ''resetPassword'' then do { t \<leftarrow> str ''token'' r; p \<leftarrow> str ''newPassword'' r; Some (ResetPassword t p) }
      else if name = ''confirm2fa'' then do { k \<leftarrow> str ''code'' r; Some (Confirm2fa k) }
      else if name = ''disable2fa'' then do { p \<leftarrow> str ''password'' r; Some (Disable2fa p) }
      else if name = ''deleteAccount'' then do { p \<leftarrow> str ''password'' r; Some (DeleteAccount p) }
      else None)"

text \<open>What the classes promise the service.\<close>

fun auth_call_ok :: "(string \<Rightarrow> nat) \<Rightarrow> authCall \<Rightarrow> bool" where
  "auth_call_ok chars (Register d) \<longleftrightarrow> 8 \<le> chars (rg_password d) \<and> chars (rg_password d) \<le> 72 \<and> rg_fullName d \<noteq> []
     \<and> chars (rg_fullName d) \<le> 200 \<and> (case rg_phone d of None \<Rightarrow> True | Some p \<Rightarrow> chars p \<le> 30)"
| "auth_call_ok chars (ResetPassword t p) \<longleftrightarrow> 8 \<le> chars p \<and> chars p \<le> 72"
| "auth_call_ok chars (VerifyLogin t k) \<longleftrightarrow> chars k = 6"
| "auth_call_ok chars (Confirm2fa k) \<longleftrightarrow> chars k = 6"
| "auth_call_ok chars (Login e p) \<longleftrightarrow> p \<noteq> []"
| "auth_call_ok chars (Disable2fa p) \<longleftrightarrow> p \<noteq> []"
| "auth_call_ok chars (DeleteAccount p) \<longleftrightarrow> p \<noteq> []"
| "auth_call_ok chars _ \<longleftrightarrow> True"

section \<open>Lemmas\<close>

lemma validator_lawD:
  assumes "validator_law holds chars"
  shows "holds IsString v \<Longrightarrow> \<exists>s. v = JStr s" "holds IsEmail v \<Longrightarrow> \<exists>s. v = JStr s" "holds IsInt v \<Longrightarrow> \<exists>i. v = JInt i"
    "holds IsArray v \<Longrightarrow> \<exists>xs. v = JArr xs" "holds EqualsTrue v \<Longrightarrow> v = JBool True" "holds IsBoolean v \<Longrightarrow> \<exists>b. v = JBool b"
    "holds (MinLength n) (JStr s) \<Longrightarrow> n \<le> chars s" "holds (MaxLength n) (JStr s) \<Longrightarrow> chars s \<le> n"
    "holds (LengthBetween m n) (JStr s) \<Longrightarrow> m \<le> chars s \<and> chars s \<le> n"
    "holds (Minimum j) (JInt i) \<Longrightarrow> j \<le> i" "holds (Maximum j) (JInt i) \<Longrightarrow> i \<le> j"
    "holds (ArrayMinSize n) (JArr xs) \<Longrightarrow> n \<le> length xs" "holds (ArrayMaxSize n) (JArr xs) \<Longrightarrow> length xs \<le> n"
    "holds (Each c) (JArr xs) \<Longrightarrow> x \<in> set xs \<Longrightarrow> holds c x" "chars s \<le> length s"
  using assms unfolding validator_law_def by meson+

lemma pipe_property:
  assumes "pipe_law holds number pipe" "pipe d b = Some r" "f \<in> set d"
  shows "map_of r (fd_name f) = property_value number b f" "property_ok holds f (map_of r (fd_name f))"
  using assms unfolding pipe_law_def by metis+

lemma pipe_keys:
  assumes "pipe_law holds number pipe" "pipe d b = Some r" "k \<notin> fd_name ` set d"
  shows "map_of b k = None" "map_of r k = None"
  using assms unfolding pipe_law_def by (metis image_eqI map_of_eq_None_iff subsetD)+

lemma required_property:
  assumes "pipe_law holds number pipe" "pipe d b = Some r" "field k False cv df cs \<in> set d"
  obtains v where "map_of r k = Some v" "\<forall>c \<in> set cs. holds c v"
  using pipe_property(2) [OF assms] by (auto simp: field_def property_ok_def list_all_iff split: option.splits)

lemma optional_property:
  assumes "pipe_law holds number pipe" "pipe d b = Some r" "field k True cv df cs \<in> set d"
  obtains "map_of r k = None" | "map_of r k = Some JNull" | v where "map_of r k = Some v" "\<forall>c \<in> set cs. holds c v"
  using pipe_property(2) [OF assms] by (auto simp: field_def property_ok_def list_all_iff split: option.splits)

lemma required_str:
  assumes "validator_law holds chars" "pipe_law holds number pipe" "pipe d b = Some r" "field k False cv df cs \<in> set d"
    "IsString \<in> set cs \<or> IsEmail \<in> set cs"
  shows "\<exists>s. str k r = Some s \<and> (\<forall>c \<in> set cs. holds c (JStr s))"
proof -
  obtain v where v: "map_of r k = Some v" "\<forall>c \<in> set cs. holds c v" by (rule required_property [OF assms(2,3,4)])
  then obtain s where "v = JStr s" using assms(5) validator_lawD(1,2) [OF assms(1), of v] by blast
  then show ?thesis using v by (simp add: str_def)
qed

lemmas auth_dto_defs = RegisterDto_def VerifyEmailDto_def LoginDto_def VerifyLoginDto_def ForgotPasswordDto_def
  ResetPasswordDto_def Confirm2faDto_def Disable2faDto_def DeleteAccountDto_def

lemma read_register:
  assumes "validator_law holds chars" "pipe_law holds number pipe" "pipe RegisterDto b = Some r"
  shows "\<exists>d. read_auth_call ''register'' r = Some (Register d) \<and> auth_call_ok chars (Register d)
    \<and> map_of r ''acceptedTerms'' = Some (JBool True)"
proof -
  note law = validator_lawD [OF assms(1)] and req = required_str [OF assms] and opt = optional_property [OF assms(2,3)]
  obtain e where e: "str ''email'' r = Some e" using req [of "''email''" AsIs None "[IsEmail]"] by (auto simp: RegisterDto_def)
  obtain p where p: "str ''password'' r = Some p" "8 \<le> chars p" "chars p \<le> 72"
    using req [of "''password''" AsIs None "[IsString, MinLength 8, MaxLength 72]"] law(7,8) by (fastforce simp: RegisterDto_def)
  obtain n where n: "str ''fullName'' r = Some n" "1 \<le> chars n" "chars n \<le> 200"
    using req [of "''fullName''" AsIs None "[IsString, MinLength 1, MaxLength 200]"] law(7,8) by (fastforce simp: RegisterDto_def)
  obtain ph where ph: "opt_str ''phone'' r = Some ph" "case ph of None \<Rightarrow> True | Some x \<Rightarrow> chars x \<le> 30"
  proof (rule opt [of "''phone''"])
    show "field ''phone'' True AsIs None [IsString, MaxLength 30] \<in> set RegisterDto" by (simp add: RegisterDto_def)
    fix v assume v: "map_of r ''phone'' = Some v" "\<forall>c \<in> set [IsString, MaxLength 30]. holds c v"
    then obtain s where s: "v = JStr s" using law(1) [of v] by auto
    then have "chars s \<le> 30" using v(2) law(8) by simp
    with s v show thesis by (intro that [of "Some s"]) (simp_all add: opt_str_def)
  qed (auto simp: opt_str_def intro: that [of None])
  have t: "map_of r ''acceptedTerms'' = Some (JBool True)"
    by (rule required_property [OF assms(2,3), of "''acceptedTerms''"]) (auto simp: RegisterDto_def dest: law(5))
  have "n \<noteq> []" using n(2) law(15) [of n] by (cases n) auto
  then show ?thesis
    using e p n ph t by (auto simp: read_auth_call_def)
qed

lemma read_other_bodies:
  assumes "validator_law holds chars" "pipe_law holds number pipe" "pipe d b = Some r" "(name, d) \<in> set auth_bodies"
    "name \<noteq> ''register''"
  shows "\<exists>call. read_auth_call name r = Some call \<and> auth_name call = name \<and> auth_call_ok chars call"
proof -
  note law = validator_lawD [OF assms(1)] and req = required_str [OF assms(1-3), where cv = AsIs and df = None]
  have len: "n \<le> length s" if "holds (MinLength n) (JStr s)" for n s using order_trans [OF law(7) [OF that] law(15)] .
  from assms(4) show ?thesis unfolding auth_bodies_def list.set
  proof (elim insertE emptyE)
    assume "(name, d) = (''register'', RegisterDto)"
    with assms(5) show ?thesis by simp
  next
    assume "(name, d) = (''verifyEmail'', VerifyEmailDto)"
    then show ?thesis using req [of "''token''" "[IsString]"] by (auto simp: VerifyEmailDto_def read_auth_call_def)
  next
    assume "(name, d) = (''login'', LoginDto)"
    then show ?thesis using req [of "''email''" "[IsEmail]"] req [of "''password''" "[IsString, MinLength 1]"]
      by (fastforce simp: LoginDto_def read_auth_call_def dest: len)
  next
    assume "(name, d) = (''verifyLogin'', VerifyLoginDto)"
    then show ?thesis using req [of "''challengeToken''" "[IsString]"] req [of "''code''" "[IsString, LengthBetween 6 6]"]
      by (fastforce simp: VerifyLoginDto_def read_auth_call_def dest: law(9))
  next
    assume "(name, d) = (''forgotPassword'', ForgotPasswordDto)"
    then show ?thesis using req [of "''email''" "[IsEmail]"] by (auto simp: ForgotPasswordDto_def read_auth_call_def)
  next
    assume "(name, d) = (''resetPassword'', ResetPasswordDto)"
    then show ?thesis using req [of "''token''" "[IsString]"] req [of "''newPassword''" "[IsString, MinLength 8, MaxLength 72]"]
      by (fastforce simp: ResetPasswordDto_def read_auth_call_def dest: law(7,8))
  next
    assume "(name, d) = (''confirm2fa'', Confirm2faDto)"
    then show ?thesis using req [of "''code''" "[IsString, LengthBetween 6 6]"]
      by (fastforce simp: Confirm2faDto_def read_auth_call_def dest: law(9))
  next
    assume "(name, d) = (''disable2fa'', Disable2faDto)"
    then show ?thesis using req [of "''password''" "[IsString, MinLength 1]"]
      by (fastforce simp: Disable2faDto_def read_auth_call_def dest: len)
  next
    assume "(name, d) = (''deleteAccount'', DeleteAccountDto)"
    then show ?thesis using req [of "''password''" "[IsString, MinLength 1]"]
      by (fastforce simp: DeleteAccountDto_def read_auth_call_def dest: len)
  qed
qed

text \<open>
  C17: Every body the pipe accepts for a route of the authentication controller is a call of that route with values of
  the declared types and sizes: the handler never sees a missing or mistyped property. A body with a property the class
  does not declare is refused, so a registration cannot bring a role or any other column of the account, and one that
  does not accept the terms does not reach the service.
\<close>

theorem accepted_bodies_typed:
  assumes "validator_law holds chars" "pipe_law holds number pipe" "(name, d) \<in> set auth_bodies" "pipe d b = Some r"
  shows "(\<exists>call. read_auth_call name r = Some call \<and> auth_name call = name \<and> auth_call_ok chars call)
    \<and> (\<forall>k. k \<notin> fd_name ` set d \<longrightarrow> map_of b k = None \<and> map_of r k = None)
    \<and> (name = ''register'' \<longrightarrow> map_of b ''role'' = None \<and> map_of r ''acceptedTerms'' = Some (JBool True))"
proof (cases "name = ''register''")
  case True
  then have d: "d = RegisterDto" using assms(3) by (auto simp: auth_bodies_def)
  then have "''role'' \<notin> fd_name ` set d" by (simp add: RegisterDto_def field_def)
  with read_register [OF assms(1,2), of b r] True d assms(4) pipe_keys [OF assms(2,4)] show ?thesis
    by (metis auth_name.simps(1))
next
  case False
  with read_other_bodies [OF assms(1,2,4,3)] pipe_keys [OF assms(2,4)] show ?thesis by simp
qed

section \<open>Pages, batches and quantities\<close>










text \<open>
  \<open>IsOptional\<close> lets null through. A profile update with the name null passes every check of its class, which
  means to bound the name to 1 to 200 characters, and the handler passes the null on to a column that cannot be null.
\<close>

theorem null_name_accepted:
  assumes "pipe_law holds number pipe"
  shows "\<exists>r. pipe UpdateProfileDto [(''fullName'', JNull)] = Some r \<and> map_of r ''fullName'' = Some JNull"
proof -
  let ?b = "[(''fullName'', JNull)]"
  have "distinct (map fd_name UpdateProfileDto)" "fst ` set ?b \<subseteq> fd_name ` set UpdateProfileDto"
    "\<forall>f \<in> set UpdateProfileDto. property_ok holds f (property_value number ?b f)"
    by (simp_all add: UpdateProfileDto_def field_def property_ok_def property_value_def)
  then obtain r where r: "pipe UpdateProfileDto ?b = Some r" using assms unfolding pipe_law_def by blast
  have "map_of r ''fullName'' = property_value number ?b (field ''fullName'' True AsIs None [IsString, MinLength 1, MaxLength 200])"
    using pipe_property(1) [OF assms r, of "field ''fullName'' True AsIs None [IsString, MinLength 1, MaxLength 200]"]
    by (simp add: UpdateProfileDto_def field_def)
  with r show ?thesis by (simp add: property_value_def field_def)
qed

section \<open>A validator and a pipe with these laws\<close>

definition is_text :: "(string \<Rightarrow> bool) \<Rightarrow> json \<Rightarrow> bool" where
  "is_text P v = (case v of JStr s \<Rightarrow> P s | _ \<Rightarrow> False)"

definition is_num :: "(int \<Rightarrow> bool) \<Rightarrow> json \<Rightarrow> bool" where
  "is_num P v = (case v of JInt i \<Rightarrow> P i | _ \<Rightarrow> False)"

definition is_list :: "(json list \<Rightarrow> bool) \<Rightarrow> json \<Rightarrow> bool" where
  "is_list P v = (case v of JArr xs \<Rightarrow> P xs | _ \<Rightarrow> False)"

primrec sample_holds :: "check \<Rightarrow> json \<Rightarrow> bool" where
  "sample_holds IsString = is_text (\<lambda>_. True)"
| "sample_holds IsEmail = is_text (\<lambda>s. CHR ''@'' \<in> set s)"
| "sample_holds IsUrl = is_text (\<lambda>s. CHR ''.'' \<in> set s)"
| "sample_holds IsUUID = is_text (\<lambda>s. length s = 36)"
| "sample_holds IsDateString = is_text (\<lambda>s. 10 \<le> length s)"
| "sample_holds IsBoolean = (\<lambda>v. v = JBool True \<or> v = JBool False)"
| "sample_holds IsInt = is_num (\<lambda>_. True)"
| "sample_holds IsArray = is_list (\<lambda>_. True)"
| "sample_holds (MinLength n) = is_text (\<lambda>s. n \<le> length s)"
| "sample_holds (MaxLength n) = is_text (\<lambda>s. length s \<le> n)"
| "sample_holds (LengthBetween m n) = is_text (\<lambda>s. m \<le> length s \<and> length s \<le> n)"
| "sample_holds (Minimum n) = is_num (\<lambda>i. n \<le> i)"
| "sample_holds (Maximum n) = is_num (\<lambda>i. i \<le> n)"
| "sample_holds (ArrayMinSize n) = is_list (\<lambda>xs. n \<le> length xs)"
| "sample_holds (ArrayMaxSize n) = is_list (\<lambda>xs. length xs \<le> n)"
| "sample_holds (IsOneOf xs) = is_text (\<lambda>s. s \<in> set xs)"
| "sample_holds EqualsTrue = (\<lambda>v. v = JBool True)"
| "sample_holds (Each c) = is_list (\<lambda>xs. list_all (sample_holds c) xs)"

definition sample_number :: "json \<Rightarrow> json" where
  "sample_number v = (case v of JStr s \<Rightarrow> JInt (int (decimal 0 s)) | JInt i \<Rightarrow> JInt i | JNull \<Rightarrow> JNull | _ \<Rightarrow> JInt 0)"

definition sample_pipe :: "dto \<Rightarrow> body \<Rightarrow> body option" where
  "sample_pipe d b =
     (if distinct (map fd_name d) \<and> list_all (\<lambda>x. fst x \<in> set (map fd_name d)) b
         \<and> list_all (\<lambda>f. property_ok sample_holds f (property_value sample_number b f)) d
      then Some (concat (map (\<lambda>f. case property_value sample_number b f of None \<Rightarrow> [] | Some v \<Rightarrow> [(fd_name f, v)]) d))
      else None)"

lemma sample_validator: "validator_law sample_holds length"
  unfolding validator_law_def
  by (auto simp: is_text_def is_num_def is_list_def list_all_iff split: json.splits)


lemma map_of_properties:
  assumes "distinct (map fd_name d)"
  shows "f \<in> set d \<Longrightarrow> map_of (concat (map (\<lambda>f. case g f of None \<Rightarrow> [] | Some v \<Rightarrow> [(fd_name f, v)]) d)) (fd_name f) = g f"
    and "k \<notin> fd_name ` set d \<Longrightarrow> map_of (concat (map (\<lambda>f. case g f of None \<Rightarrow> [] | Some v \<Rightarrow> [(fd_name f, v)]) d)) k = None"
proof -
  show outside: "map_of (concat (map (\<lambda>f. case g f of None \<Rightarrow> [] | Some v \<Rightarrow> [(fd_name f, v)]) d)) k = None"
    if "k \<notin> fd_name ` set d" for k d
    using that by (induction d) (auto split: option.splits)
  show "f \<in> set d \<Longrightarrow> map_of (concat (map (\<lambda>f. case g f of None \<Rightarrow> [] | Some v \<Rightarrow> [(fd_name f, v)]) d)) (fd_name f) = g f"
    using assms
  proof (induction d)
    case (Cons x d)
    have other: "fd_name f \<noteq> fd_name x" if "f \<in> set d" for f using Cons.prems(2) that by (auto simp: image_iff)
    show ?case using Cons outside [of "fd_name x" d] other by (cases "g x") (auto simp: map_add_def split: option.splits)
  qed simp
qed

lemma sample_pipe_law: "pipe_law sample_holds sample_number sample_pipe"
  unfolding pipe_law_def sample_pipe_def
  using map_of_properties [where g = "property_value sample_number b" for b]
  by (auto simp: list_all_iff split: if_splits)

lemmas sample_laws = sample_validator sample_pipe_law

definition sample_body :: body where
  "sample_body = [(''email'', JStr ''a@b.co''), (''password'', JStr ''longenough''), (''fullName'', JStr ''Ann''), (''acceptedTerms'', JBool True)]"

theorem accepted_bodies_typed_witness:
  "read_auth_call ''register'' (the (sample_pipe RegisterDto sample_body)) \<noteq> None
   \<and> map_of sample_body ''role'' = None"
proof -
  have r: "sample_pipe RegisterDto sample_body = Some sample_body" by code_simp
  have "(''register'', RegisterDto) \<in> set auth_bodies" by (simp add: auth_bodies_def)
  from accepted_bodies_typed [OF sample_laws this r] show ?thesis by (auto simp: r)
qed


theorem null_name_accepted_witness:
  "\<exists>r. sample_pipe UpdateProfileDto [(''fullName'', JNull)] = Some r \<and> map_of r ''fullName'' = Some JNull"
  using null_name_accepted [OF sample_pipe_law] .

end
