(* ===== verification/Env.thy ===== *)
theory Env
  imports Complex_Main "HOL-Library.Monad_Syntax" Samples
begin

text \<open>
  The configuration: the schema of \<open>env.validation.ts\<close> as a table and the numbers the services read from the
  environment (\<open>users.service.ts\<close>, \<open>sessions.service.ts\<close>, \<open>auth.service.ts\<close> and others). The validation itself is
  code of Joi, run by \<open>ConfigModule\<close>; it is a parameter with the laws
  \<open>joi_law\<close> (which variables there are) and \<open>joi_values_law\<close> (what their values look like).
\<close>

section \<open>The schema\<close>

datatype envCheck =
    ValidText "string list" | PortNumber | UriWith "string list" | AnyUri | MinChars nat | Base64Text | EmailAddress
  | PlainText | IntegerMin int

record envVar =
  ev_name :: string
  ev_required :: bool
  ev_default :: "json option"
  ev_check :: envCheck

definition required :: "string \<Rightarrow> envCheck \<Rightarrow> envVar" where
  "required name check = \<lparr>ev_name = name, ev_required = True, ev_default = None, ev_check = check\<rparr>"

definition setting :: "string \<Rightarrow> int \<Rightarrow> int \<Rightarrow> envVar" where
  "setting name low dflt = \<lparr>ev_name = name, ev_required = False, ev_default = Some (JInt dflt), ev_check = IntegerMin low\<rparr>"

definition envValidationSchema :: "envVar list" where
  "envValidationSchema =
    [\<lparr>ev_name = ''NODE_ENV'', ev_required = False, ev_default = Some (JStr ''development''),
      ev_check = ValidText [''development'', ''test'', ''production'']\<rparr>,
     \<lparr>ev_name = ''PORT'', ev_required = False, ev_default = Some (JInt 3000), ev_check = PortNumber\<rparr>,
     required ''DATABASE_URL'' (UriWith [''postgres'', ''postgresql'']),
     required ''REDIS_URL'' (UriWith [''redis'', ''rediss'']),
     required ''FRONTEND_URL'' AnyUri,
     required ''JWT_ACCESS_SECRET'' (MinChars 32),
     setting ''JWT_ACCESS_EXPIRY_SECONDS'' 60 900,
     setting ''REFRESH_TOKEN_EXPIRY_DAYS'' 1 30,
     required ''TWO_FACTOR_ENCRYPTION_KEY'' Base64Text,
     required ''UNSUBSCRIBE_SECRET'' (MinChars 32),
     required ''COMPANY_MAILING_ADDRESS'' (MinChars 10),
     \<lparr>ev_name = ''RESEND_WEBHOOK_SECRET'', ev_required = False, ev_default = None, ev_check = PlainText\<rparr>,
     required ''RESEND_API_KEY'' PlainText,
     required ''SUPPORT_EMAIL'' EmailAddress,
     (required ''RESEND_FROM_EMAIL'' PlainText)\<lparr>ev_default := Some (JStr ''conference.contact <onboarding@resend.dev>'')\<rparr>,
     setting ''LOGIN_MAX_ATTEMPTS'' 1 5,
     setting ''LOGIN_LOCKOUT_MINUTES'' 1 15,
     setting ''MAX_TRUSTED_DEVICES'' 1 3,
     setting ''RISK_HIGH_THRESHOLD'' 0 50,
     required ''STRIPE_SECRET_KEY'' PlainText,
     required ''STRIPE_WEBHOOK_SECRET'' PlainText,
     setting ''PAYMENT_GRACE_PERIOD_DAYS'' 0 7,
     required ''ANTHROPIC_API_KEY'' PlainText,
     required ''APOLLO_API_KEY'' PlainText,
     setting ''LEAD_SEARCH_MAX_RESULTS'' 1 50]"

type_synonym environment = "string \<rightharpoonup> string"

type_synonym validated = "string \<rightharpoonup> json"

text \<open>
  What the application relies on: a schema that accepts the environment has found every required variable (a default
  does not stand in for a required one), fills in the defaults of the others, and an integer with a minimum is an
  integer from that minimum on. A missing required variable makes it refuse, and the application does not start.
\<close>

definition joi_law :: "(envVar list \<Rightarrow> environment \<Rightarrow> validated option) \<Rightarrow> bool" where
  "joi_law validate \<longleftrightarrow>
     (\<forall>schema raw env. validate schema raw = Some env \<longrightarrow>
        (\<forall>v \<in> set schema. case raw (ev_name v) of
            None \<Rightarrow> \<not> ev_required v \<and> env (ev_name v) = ev_default v
          | Some s \<Rightarrow> (\<exists>x. env (ev_name v) = Some x \<and> (\<forall>n. ev_check v = IntegerMin n \<longrightarrow> (\<exists>i. x = JInt i \<and> n \<le> i)))))"

text \<open>
  What a check of the schema promises of a value: a text is not empty (\<open>Joi.string()\<close> refuses the empty one), has its
  minimal length or is one of the listed ones; a number is an integer in its range.
\<close>

fun value_fits :: "envCheck \<Rightarrow> json \<Rightarrow> bool" where
  "value_fits (IntegerMin n) x = (case x of JInt i \<Rightarrow> n \<le> i | _ \<Rightarrow> False)"
| "value_fits PortNumber x = (case x of JInt i \<Rightarrow> 0 \<le> i \<and> i \<le> 65535 | _ \<Rightarrow> False)"
| "value_fits (ValidText vs) x = (case x of JStr s \<Rightarrow> s \<in> set vs | _ \<Rightarrow> False)"
| "value_fits (MinChars n) x = (case x of JStr s \<Rightarrow> s \<noteq> [] \<and> n \<le> length s | _ \<Rightarrow> False)"
| "value_fits _ x = (case x of JStr s \<Rightarrow> s \<noteq> [] | _ \<Rightarrow> False)"

definition joi_values_law :: "(envVar list \<Rightarrow> environment \<Rightarrow> validated option) \<Rightarrow> bool" where
  "joi_values_law validate \<longleftrightarrow>
     (\<forall>schema raw env. validate schema raw = Some env \<longrightarrow>
        (\<forall>v \<in> set schema. \<forall>x. raw (ev_name v) \<noteq> None \<and> env (ev_name v) = Some x \<longrightarrow> value_fits (ev_check v) x))"

section \<open>The numbers the services read\<close>

definition config_get :: "validated \<Rightarrow> string \<Rightarrow> int \<Rightarrow> int option" where
  "config_get env name dflt = (case env name of None \<Rightarrow> Some dflt | Some (JInt i) \<Rightarrow> Some i | _ \<Rightarrow> None)"

definition load_settings :: "validated \<Rightarrow> cfg \<Rightarrow> cfg option" where
  "load_settings env base = do {
     threshold \<leftarrow> config_get env ''RISK_HIGH_THRESHOLD'' 50;
     refreshDays \<leftarrow> config_get env ''REFRESH_TOKEN_EXPIRY_DAYS'' 30;
     devices \<leftarrow> config_get env ''MAX_TRUSTED_DEVICES'' 3;
     attempts \<leftarrow> config_get env ''LOGIN_MAX_ATTEMPTS'' 5;
     lockout \<leftarrow> config_get env ''LOGIN_LOCKOUT_MINUTES'' 15;
     grace \<leftarrow> config_get env ''PAYMENT_GRACE_PERIOD_DAYS'' 7;
     ttl \<leftarrow> config_get env ''JWT_ACCESS_EXPIRY_SECONDS'' 900;
     results \<leftarrow> config_get env ''LEAD_SEARCH_MAX_RESULTS'' 25;
     Some (base\<lparr>c_riskHighThreshold := threshold, c_refreshExpiryDays := refreshDays, c_maxTrustedDevices := devices,
       c_maxAttempts := attempts, c_lockoutMinutes := lockout, c_gracePeriodDays := grace,
       c_accessTokenTtlSeconds := ttl, c_maxResultsPerSearch := results\<rparr>) }"

definition settings_ok :: "cfg \<Rightarrow> bool" where
  "settings_ok c \<longleftrightarrow> 0 \<le> c_riskHighThreshold c \<and> 1 \<le> c_refreshExpiryDays c \<and> 1 \<le> c_maxTrustedDevices c
     \<and> 1 \<le> c_maxAttempts c \<and> 1 \<le> c_lockoutMinutes c \<and> 0 \<le> c_gracePeriodDays c
     \<and> 60 \<le> c_accessTokenTtlSeconds c \<and> 1 \<le> c_maxResultsPerSearch c"

lemma config_get_setting:
  assumes "joi_law validate" "validate schema raw = Some env" "setting name low dflt \<in> set schema" "low \<le> dflt"
  shows "\<exists>i. config_get env name d = Some i \<and> low \<le> i \<and> (raw name = None \<longrightarrow> i = dflt)"
proof -
  have v: "case raw name of None \<Rightarrow> env name = Some (JInt dflt) | Some s \<Rightarrow> (\<exists>x. env name = Some x \<and> (\<exists>i. x = JInt i \<and> low \<le> i))"
    using assms(1-3) unfolding joi_law_def by (fastforce simp: setting_def split: option.splits)
  show ?thesis
  proof (cases "raw name")
    case None
    with v assms(4) show ?thesis by (simp add: config_get_def)
  next
    case (Some s)
    with v show ?thesis by (auto simp: config_get_def)
  qed
qed

lemma settings_in_schema:
  "setting ''RISK_HIGH_THRESHOLD'' 0 50 \<in> set envValidationSchema"
  "setting ''REFRESH_TOKEN_EXPIRY_DAYS'' 1 30 \<in> set envValidationSchema"
  "setting ''MAX_TRUSTED_DEVICES'' 1 3 \<in> set envValidationSchema"
  "setting ''LOGIN_MAX_ATTEMPTS'' 1 5 \<in> set envValidationSchema"
  "setting ''LOGIN_LOCKOUT_MINUTES'' 1 15 \<in> set envValidationSchema"
  "setting ''PAYMENT_GRACE_PERIOD_DAYS'' 0 7 \<in> set envValidationSchema"
  "setting ''JWT_ACCESS_EXPIRY_SECONDS'' 60 900 \<in> set envValidationSchema"
  "setting ''LEAD_SEARCH_MAX_RESULTS'' 1 50 \<in> set envValidationSchema"
  by (simp_all add: envValidationSchema_def)

text \<open>The texts: a required variable was given, and its value fits its check.\<close>

lemma required_given:
  assumes "joi_law validate" "joi_values_law validate" "validate schema raw = Some env" "v \<in> set schema" "ev_required v"
  shows "raw (ev_name v) \<noteq> None \<and> (\<exists>x. env (ev_name v) = Some x \<and> value_fits (ev_check v) x)"
proof -
  have l: "case raw (ev_name v) of None \<Rightarrow> \<not> ev_required v \<and> env (ev_name v) = ev_default v
      | Some s \<Rightarrow> \<exists>x. env (ev_name v) = Some x \<and> (\<forall>n. ev_check v = IntegerMin n \<longrightarrow> (\<exists>i. x = JInt i \<and> n \<le> i))"
    using assms(1,3,4) unfolding joi_law_def by blast
  then obtain s x where s: "raw (ev_name v) = Some s" "env (ev_name v) = Some x"
    using assms(5) by (cases "raw (ev_name v)") auto
  with assms(2-4) show ?thesis unfolding joi_values_law_def by blast
qed

lemma mode_known:
  assumes "joi_law validate" "joi_values_law validate" "validate envValidationSchema raw = Some env"
  shows "env ''NODE_ENV'' \<in> {Some (JStr ''development''), Some (JStr ''test''), Some (JStr ''production'')}"
proof -
  let ?v = "\<lparr>ev_name = ''NODE_ENV'', ev_required = False, ev_default = Some (JStr ''development''),
    ev_check = ValidText [''development'', ''test'', ''production'']\<rparr>"
  have v: "?v \<in> set envValidationSchema" by (simp add: envValidationSchema_def)
  have "case raw (ev_name ?v) of None \<Rightarrow> \<not> ev_required ?v \<and> env (ev_name ?v) = ev_default ?v
      | Some s \<Rightarrow> \<exists>x. env (ev_name ?v) = Some x \<and> (\<forall>n. ev_check ?v = IntegerMin n \<longrightarrow> (\<exists>i. x = JInt i \<and> n \<le> i))"
    using assms(1,3) v unfolding joi_law_def by blast
  moreover have "value_fits (ev_check ?v) x" if "raw (ev_name ?v) \<noteq> None" "env (ev_name ?v) = Some x" for x
    using assms(2,3) v that unfolding joi_values_law_def by blast
  ultimately show ?thesis
    by (cases "raw ''NODE_ENV''") (auto split: json.splits)
qed

text \<open>What is required: the texts and addresses by name, with the least length the schema asks for.\<close>

definition needed_texts :: "(string \<times> nat) list" where
  "needed_texts =
    [(''DATABASE_URL'', 1), (''REDIS_URL'', 1), (''FRONTEND_URL'', 1), (''JWT_ACCESS_SECRET'', 32),
     (''TWO_FACTOR_ENCRYPTION_KEY'', 1), (''UNSUBSCRIBE_SECRET'', 32), (''COMPANY_MAILING_ADDRESS'', 10),
     (''RESEND_API_KEY'', 1), (''SUPPORT_EMAIL'', 1), (''RESEND_FROM_EMAIL'', 1), (''STRIPE_SECRET_KEY'', 1),
     (''STRIPE_WEBHOOK_SECRET'', 1), (''ANTHROPIC_API_KEY'', 1), (''APOLLO_API_KEY'', 1)]"

lemma needed_in_schema:
  "\<forall>(k, n) \<in> set needed_texts. \<exists>v \<in> set envValidationSchema. ev_name v = k \<and> ev_required v
     \<and> (\<forall>x. value_fits (ev_check v) x \<longrightarrow> (\<exists>s. x = JStr s \<and> n \<le> length s))"
  unfolding needed_texts_def envValidationSchema_def required_def
  by (simp add: setting_def Suc_le_eq split: json.splits)

text \<open>The numbers: name, least value and the value when unset.\<close>

lemma settings_loaded:
  assumes "joi_law validate" "validate envValidationSchema raw = Some env"
  shows "\<exists>c. load_settings env base = Some c \<and> settings_ok c \<and> c_hash c = c_hash base
    \<and> (raw ''RISK_HIGH_THRESHOLD'' = None \<longrightarrow> c_riskHighThreshold c = 50)
    \<and> (raw ''REFRESH_TOKEN_EXPIRY_DAYS'' = None \<longrightarrow> c_refreshExpiryDays c = 30)
    \<and> (raw ''MAX_TRUSTED_DEVICES'' = None \<longrightarrow> c_maxTrustedDevices c = 3)
    \<and> (raw ''LOGIN_MAX_ATTEMPTS'' = None \<longrightarrow> c_maxAttempts c = 5)
    \<and> (raw ''LOGIN_LOCKOUT_MINUTES'' = None \<longrightarrow> c_lockoutMinutes c = 15)
    \<and> (raw ''PAYMENT_GRACE_PERIOD_DAYS'' = None \<longrightarrow> c_gracePeriodDays c = 7)
    \<and> (raw ''JWT_ACCESS_EXPIRY_SECONDS'' = None \<longrightarrow> c_accessTokenTtlSeconds c = 900)
    \<and> (raw ''LEAD_SEARCH_MAX_RESULTS'' = None \<longrightarrow> c_maxResultsPerSearch c = 50)"
proof -
  note g = config_get_setting [OF assms]
  obtain threshold where 1: "config_get env ''RISK_HIGH_THRESHOLD'' 50 = Some threshold" "0 \<le> threshold"
      "raw ''RISK_HIGH_THRESHOLD'' = None \<Longrightarrow> threshold = 50"
    using g [OF settings_in_schema(1), of 50] by auto
  obtain days where 2: "config_get env ''REFRESH_TOKEN_EXPIRY_DAYS'' 30 = Some days" "1 \<le> days"
      "raw ''REFRESH_TOKEN_EXPIRY_DAYS'' = None \<Longrightarrow> days = 30"
    using g [OF settings_in_schema(2), of 30] by auto
  obtain devs where 3: "config_get env ''MAX_TRUSTED_DEVICES'' 3 = Some devs" "1 \<le> devs"
      "raw ''MAX_TRUSTED_DEVICES'' = None \<Longrightarrow> devs = 3"
    using g [OF settings_in_schema(3), of 3] by auto
  obtain attempts where 4: "config_get env ''LOGIN_MAX_ATTEMPTS'' 5 = Some attempts" "1 \<le> attempts"
      "raw ''LOGIN_MAX_ATTEMPTS'' = None \<Longrightarrow> attempts = 5"
    using g [OF settings_in_schema(4), of 5] by auto
  obtain lockout where 5: "config_get env ''LOGIN_LOCKOUT_MINUTES'' 15 = Some lockout" "1 \<le> lockout"
      "raw ''LOGIN_LOCKOUT_MINUTES'' = None \<Longrightarrow> lockout = 15"
    using g [OF settings_in_schema(5), of 15] by auto
  obtain grace where 6: "config_get env ''PAYMENT_GRACE_PERIOD_DAYS'' 7 = Some grace" "0 \<le> grace"
      "raw ''PAYMENT_GRACE_PERIOD_DAYS'' = None \<Longrightarrow> grace = 7"
    using g [OF settings_in_schema(6), of 7] by auto
  obtain ttl where 7: "config_get env ''JWT_ACCESS_EXPIRY_SECONDS'' 900 = Some ttl" "60 \<le> ttl"
      "raw ''JWT_ACCESS_EXPIRY_SECONDS'' = None \<Longrightarrow> ttl = 900"
    using g [OF settings_in_schema(7), of 900] by auto
  obtain results where 8: "config_get env ''LEAD_SEARCH_MAX_RESULTS'' 25 = Some results" "1 \<le> results"
      "raw ''LEAD_SEARCH_MAX_RESULTS'' = None \<Longrightarrow> results = 50"
    using g [OF settings_in_schema(8), of 25] by auto
  show ?thesis
    using 1 2 3 4 5 6 7 8 by (simp add: load_settings_def settings_ok_def)
qed

text \<open>
  C18: An application that starts has a sound configuration. When the environment is accepted, each of the fourteen
  texts the application cannot work without (the addresses of database, queue and frontend, the secrets of access
  tokens, second factor and opt-out links, the keys of Stripe, Resend, Anthropic and Apollo, the postal and mail
  addresses) was given and is not empty, the two signing secrets with at least 32 characters; the mode is one of the
  three; and the numbers the services read are integers within their bounds: at least one attempt, one
  minute of lockout, one device, one day of refresh token, a minute of access token, one result per search, and a grace
  period and a risk threshold that are not negative. A number that is not set has the value the schema gives it,
  whatever default the service itself names.
\<close>

theorem started_application_configured:
  assumes "joi_law validate" "joi_values_law validate" "validate envValidationSchema raw = Some env"
  shows "(\<forall>(k, n) \<in> set [(''DATABASE_URL'', 1), (''REDIS_URL'', 1), (''FRONTEND_URL'', 1), (''JWT_ACCESS_SECRET'', 32),
        (''TWO_FACTOR_ENCRYPTION_KEY'', 1), (''UNSUBSCRIBE_SECRET'', 32), (''COMPANY_MAILING_ADDRESS'', 10),
        (''RESEND_API_KEY'', 1), (''SUPPORT_EMAIL'', 1), (''RESEND_FROM_EMAIL'', 1), (''STRIPE_SECRET_KEY'', 1),
        (''STRIPE_WEBHOOK_SECRET'', 1), (''ANTHROPIC_API_KEY'', 1), (''APOLLO_API_KEY'', 1)].
      raw k \<noteq> None \<and> (\<exists>s. env k = Some (JStr s) \<and> n \<le> length s))
    \<and> env ''NODE_ENV'' \<in> {Some (JStr ''development''), Some (JStr ''test''), Some (JStr ''production'')}
    \<and> (\<exists>c. load_settings env base = Some c \<and> settings_ok c \<and> c_hash c = c_hash base
        \<and> (raw ''RISK_HIGH_THRESHOLD'' = None \<longrightarrow> c_riskHighThreshold c = 50)
        \<and> (raw ''REFRESH_TOKEN_EXPIRY_DAYS'' = None \<longrightarrow> c_refreshExpiryDays c = 30)
        \<and> (raw ''MAX_TRUSTED_DEVICES'' = None \<longrightarrow> c_maxTrustedDevices c = 3)
        \<and> (raw ''LOGIN_MAX_ATTEMPTS'' = None \<longrightarrow> c_maxAttempts c = 5)
        \<and> (raw ''LOGIN_LOCKOUT_MINUTES'' = None \<longrightarrow> c_lockoutMinutes c = 15)
        \<and> (raw ''PAYMENT_GRACE_PERIOD_DAYS'' = None \<longrightarrow> c_gracePeriodDays c = 7)
        \<and> (raw ''JWT_ACCESS_EXPIRY_SECONDS'' = None \<longrightarrow> c_accessTokenTtlSeconds c = 900)
        \<and> (raw ''LEAD_SEARCH_MAX_RESULTS'' = None \<longrightarrow> c_maxResultsPerSearch c = 50))"
proof -
  have "raw k \<noteq> None \<and> (\<exists>s. env k = Some (JStr s) \<and> n \<le> length s)" if "(k, n) \<in> set needed_texts" for k n
  proof -
    from bspec [OF needed_in_schema that] obtain v where v: "v \<in> set envValidationSchema" "ev_name v = k" "ev_required v"
      "\<And>x. value_fits (ev_check v) x \<Longrightarrow> \<exists>s. x = JStr s \<and> n \<le> length s" by auto
    with required_given [OF assms v(1,3)] show ?thesis by blast
  qed
  moreover have "env ''NODE_ENV'' \<in> {Some (JStr ''development''), Some (JStr ''test''), Some (JStr ''production'')}"
    by (rule mode_known [OF assms])
  ultimately show ?thesis
    using settings_loaded [OF assms(1,3)] unfolding needed_texts_def by blast
qed

section \<open>A validation with this law\<close>

definition sample_validate :: "envVar list \<Rightarrow> environment \<Rightarrow> validated option" where
  "sample_validate schema raw =
     (if list_all (\<lambda>v. case raw (ev_name v) of None \<Rightarrow> \<not> ev_required v | Some s \<Rightarrow> value_fits (ev_check v) (JStr s)) schema
         \<and> distinct (map ev_name schema)
      then Some (\<lambda>k. case raw k of Some s \<Rightarrow> Some (JStr s)
                  | None \<Rightarrow> (case List.find (\<lambda>v. ev_name v = k) schema of Some v \<Rightarrow> ev_default v | None \<Rightarrow> None))
      else None)"

lemma find_by_name: "distinct (map ev_name vs) \<Longrightarrow> v \<in> set vs \<Longrightarrow> List.find (\<lambda>x. ev_name x = ev_name v) vs = Some v"
  by (induction vs) auto

lemma sample_validate_value:
  assumes "sample_validate schema raw = Some env" "v \<in> set schema"
  shows "case raw (ev_name v) of None \<Rightarrow> \<not> ev_required v \<and> env (ev_name v) = ev_default v
    | Some s \<Rightarrow> env (ev_name v) = Some (JStr s) \<and> value_fits (ev_check v) (JStr s)"
  using assms by (auto simp: sample_validate_def list_all_iff find_by_name split: if_splits option.splits)

lemma sample_joi: "joi_law sample_validate"
  unfolding joi_law_def
proof (intro allI impI ballI)
  fix schema raw env v
  assume "sample_validate schema raw = Some env" "v \<in> set schema"
  from sample_validate_value [OF this]
  show "case raw (ev_name v) of None \<Rightarrow> \<not> ev_required v \<and> env (ev_name v) = ev_default v
      | Some s \<Rightarrow> \<exists>x. env (ev_name v) = Some x \<and> (\<forall>n. ev_check v = IntegerMin n \<longrightarrow> (\<exists>i. x = JInt i \<and> n \<le> i))"
    by (cases "raw (ev_name v)") (auto split: json.splits)
qed

lemma sample_joi_values: "joi_values_law sample_validate"
  unfolding joi_values_law_def
proof (intro allI impI ballI)
  fix schema raw env v x
  assume "sample_validate schema raw = Some env" "v \<in> set schema" "raw (ev_name v) \<noteq> None \<and> env (ev_name v) = Some x"
  with sample_validate_value [OF this(1,2)] show "value_fits (ev_check v) x"
    by (cases "raw (ev_name v)") auto
qed

definition sample_environment :: environment where
  "sample_environment k = (if k \<in> set (map ev_name (filter ev_required envValidationSchema)) then Some (replicate 40 (CHR ''x''))
     else None)"

lemma sample_environment_accepted: "\<exists>env. sample_validate envValidationSchema sample_environment = Some env"
  by (simp add: sample_validate_def sample_environment_def envValidationSchema_def required_def setting_def)

theorem started_application_configured_witness:
  "\<exists>env c. sample_validate envValidationSchema sample_environment = Some env \<and> load_settings env sample_cfg = Some c
     \<and> settings_ok c \<and> c_maxAttempts c = 5 \<and> env ''JWT_ACCESS_SECRET'' \<noteq> None"
proof -
  obtain env where env: "sample_validate envValidationSchema sample_environment = Some env"
    using sample_environment_accepted by blast
  have unset: "sample_environment ''LOGIN_MAX_ATTEMPTS'' = None"
    by (simp add: sample_environment_def envValidationSchema_def required_def setting_def)
  note t = started_application_configured [OF sample_joi sample_joi_values env, of sample_cfg]
  from t [THEN conjunct2, THEN conjunct2] obtain c where
    c: "load_settings env sample_cfg = Some c" "settings_ok c" "c_maxAttempts c = 5" using unset by blast
  from bspec [OF t [THEN conjunct1], of "(''JWT_ACCESS_SECRET'', 32)"] have "env ''JWT_ACCESS_SECRET'' \<noteq> None"
    by auto
  with env c show ?thesis by blast
qed

end
