(* ===== verification/Scripts.thy ===== *)
theory Scripts
  imports Complex_Main Samples
begin

text \<open>
  The scripts an operator runs against the database: the imports of the lead lists (\<open>import-leads.ts\<close>,
  \<open>import-leads-2026-events.ts\<close>, \<open>import-leads-barcelona-2026.ts\<close>, \<open>import-leads-contact-io-2026.ts\<close>), the seeds of plan,
  credit pack and tiers (\<open>seed-plans.ts\<close>, \<open>seed-credit-packs.ts\<close>, \<open>seed-lead-finder-tiers.ts\<close>) and the prices created at
  Stripe (\<open>create-stripe-plan.ts\<close>, \<open>create-credit-pack.ts\<close>, \<open>create-lead-finder-tiers.ts\<close>).

  Reading and parsing a CSV file is outside: a script gets its rows, one record per line with the columns of its
  \<open>CsvRow\<close>. \<open>ids\<close> gives the identifiers the database makes for new rows, \<open>now\<close> the time of the run.
\<close>

section \<open>Importing leads\<close>

record csvRow =
  csv_name :: string
  csv_likelyToAttend :: string
  csv_company :: string
  csv_website :: string
  csv_title :: string
  csv_linkedIn :: string
  csv_appLink :: string
  csv_email :: string
  csv_phone :: string
  csv_type :: string

definition orNull :: "string \<Rightarrow> string option" where
  "orNull v = (let trimmed = trim v in if 0 < length trimmed then Some trimmed else None)"

definition TYPE_MAP :: "(string \<times> companyType) list" where
  "TYPE_MAP = [(''advertiser'', ADVERTISER), (''ad network'', AD_NETWORK), (''affiliate'', AFFILIATE),
     (''affiliate network'', AFFILIATE_NETWORK), (''agency'', AGENCY), (''solution provider'', SOLUTION_PROVIDER)]"

definition IMPORT_BATCH_SIZE :: nat where "IMPORT_BATCH_SIZE = 1000"

text \<open>The data of a new row; identifier and time are filled in by the database.\<close>

definition lead_data :: "csvRow \<Rightarrow> string option \<Rightarrow> companyType option \<Rightarrow> string \<Rightarrow> lead" where
  "lead_data row appLink companyType likelyToAttend =
     \<lparr>le_id = [], le_name = trim (csv_name row), le_title = orNull (csv_title row), le_company = orNull (csv_company row),
      le_website = orNull (csv_website row), le_linkedin = orNull (csv_linkedIn row), le_appLink = appLink,
      le_email = map_option toLowerCase (orNull (csv_email row)), le_phone = orNull (csv_phone row),
      le_companyType = companyType, le_likelyToAttend = likelyToAttend, le_approved = True,
      le_submittedByUserId = None, le_createdAt = 0\<rparr>"

definition create_leads :: "(nat \<Rightarrow> ident) \<Rightarrow> time \<Rightarrow> lead list \<Rightarrow> world \<Rightarrow> world" where
  "create_leads ids now rows w =
     w\<lparr>leads := leads w @ map (\<lambda>(i, r). r\<lparr>le_id := ids i, le_createdAt := now\<rparr>) (enumerate (length (leads w)) rows)\<rparr>"

definition insert_batches :: "(nat \<Rightarrow> ident) \<Rightarrow> time \<Rightarrow> lead list \<Rightarrow> world \<Rightarrow> world" where
  "insert_batches ids now rows w = foldl (\<lambda>w batch. create_leads ids now batch w) w (chunks IMPORT_BATCH_SIZE rows)"

text \<open>\<open>import-leads.ts\<close>: the table is emptied, then each file is loaded with the type its name stands for.\<close>

definition FILES :: "(string \<times> companyType) list" where
  "FILES = [(''Advertiser.csv'', ADVERTISER), (''Ad Network.csv'', AD_NETWORK), (''Affiliate.csv'', AFFILIATE),
     (''Affiliate Network.csv'', AFFILIATE_NETWORK), (''Agency.csv'', AGENCY), (''Solution Provider.csv'', SOLUTION_PROVIDER)]"

definition import_leads :: "(nat \<Rightarrow> ident) \<Rightarrow> time \<Rightarrow> (string \<Rightarrow> csvRow list) \<Rightarrow> world \<Rightarrow> world" where
  "import_leads ids now read w =
     foldl (\<lambda>w (filename, companyType).
         insert_batches ids now
           (map (\<lambda>row. lead_data row (orNull (csv_appLink row)) (Some companyType) (trim (csv_likelyToAttend row))) (read filename)) w)
       (w\<lparr>leads := []\<rparr>) FILES"

text \<open>\<open>import-leads-2026-events.ts\<close>: the event is fixed per file, and a file whose first row is there is skipped.\<close>

definition event_type :: "csvRow \<Rightarrow> companyType option" where
  "event_type row = (let typeRaw = toLowerCase (trim (csv_type row))
     in if typeRaw \<noteq> [] \<and> typeRaw \<noteq> ''--'' then map_of TYPE_MAP typeRaw else None)"

definition event_record :: "string \<Rightarrow> csvRow \<Rightarrow> lead" where
  "event_record eventName row = lead_data row (orNull (csv_appLink row)) (event_type row) eventName"

definition same_person :: "string \<Rightarrow> csvRow \<Rightarrow> lead \<Rightarrow> bool" where
  "same_person eventName row l \<longleftrightarrow> le_name l = trim (csv_name row) \<and> le_likelyToAttend l = eventName
     \<and> le_email l = map_option toLowerCase (orNull (csv_email row))"

definition importFile :: "(nat \<Rightarrow> ident) \<Rightarrow> time \<Rightarrow> csvRow list \<Rightarrow> string \<Rightarrow> world \<Rightarrow> world" where
  "importFile ids now rows eventName w =
     (if (case List.find (\<lambda>row. trim (csv_name row) \<noteq> []) rows of
            None \<Rightarrow> False
          | Some firstRow \<Rightarrow> findFirst (same_person eventName firstRow) (leads w) \<noteq> None)
      then w
      else insert_batches ids now (map (event_record eventName) (filter (\<lambda>row. trim (csv_name row) \<noteq> []) rows)) w)"

definition EVENT_FILES :: "(string \<times> string) list" where
  "EVENT_FILES =
    [(''Affiliate Summit West 2026.csv'', ''Affiliate Summit West 2026''),
     (''Affiliate takeover Miami 2026.csv'', ''Affiliate takeover Miami 2026''),
     (''Affiliate World Bangkok 2026 (source file misnamed 2025).csv'', ''Affiliate World Bangkok 2026''),
     (''Leadscon 2026.csv'', ''Leadscon 2026''),
     (''MAU Vegas 2026.csv'', ''MAU Vegas 2026''),
     (''Mass Torts Made Perfect 2026.csv'', ''Mass Torts Made Perfect 2026''),
     (''Medicarians 2026.csv'', ''Medicarians 2026''),
     (''Affiliate Summit East 2026.csv'', ''Affiliate Summit East 2026'')]"

definition import_events :: "(nat \<Rightarrow> ident) \<Rightarrow> time \<Rightarrow> (string \<Rightarrow> csvRow list) \<Rightarrow> world \<Rightarrow> world" where
  "import_events ids now read w = foldl (\<lambda>w (file, eventName). importFile ids now (read file) eventName w) w EVENT_FILES"

text \<open>
  The two lists of one event: refused when the table has rows of that event, while the new rows carry the event of
  their own column.
\<close>

definition list_type :: "csvRow \<Rightarrow> companyType option" where
  "list_type row = (let typeRaw = toLowerCase (trim (csv_type row))
     in if typeRaw \<noteq> [] then map_of TYPE_MAP typeRaw else None)"

definition list_record :: "csvRow \<Rightarrow> lead" where
  "list_record row = lead_data row None (list_type row) (trim (csv_likelyToAttend row))"

definition import_list :: "(nat \<Rightarrow> ident) \<Rightarrow> time \<Rightarrow> string \<Rightarrow> csvRow list \<Rightarrow> world \<Rightarrow> world" where
  "import_list ids now eventName rows w =
     (if 0 < countRows (\<lambda>l. le_likelyToAttend l = eventName) (leads w) then w
      else insert_batches ids now (map list_record rows) w)"

definition import_barcelona :: "(nat \<Rightarrow> ident) \<Rightarrow> time \<Rightarrow> csvRow list \<Rightarrow> world \<Rightarrow> world" where
  "import_barcelona ids now rows w =
     import_list ids now ''Affiliate Takeover Barcelona 2026'' (filter (\<lambda>row. toLowerCase (trim (csv_name row)) \<noteq> ''name'') rows) w"

definition import_contact_io :: "(nat \<Rightarrow> ident) \<Rightarrow> time \<Rightarrow> csvRow list \<Rightarrow> world \<Rightarrow> world" where
  "import_contact_io ids now rows w = import_list ids now ''Contact.io 2026'' rows w"

section \<open>Seeds and prices\<close>

text \<open>An upsert by slug: \<open>upd\<close> on the row that has it, otherwise the new row.\<close>

definition upsert_by :: "('r \<Rightarrow> string) \<Rightarrow> string \<Rightarrow> ('r \<Rightarrow> 'r) \<Rightarrow> 'r \<Rightarrow> 'r list \<Rightarrow> 'r list" where
  "upsert_by slug s upd new rows =
     (if list_ex (\<lambda>r. slug r = s) rows then updateMany (\<lambda>r. slug r = s) upd rows else rows @ [new])"

definition seed_plans :: "ident \<Rightarrow> string option \<Rightarrow> world \<Rightarrow> world" where
  "seed_plans newId price w =
     (let stripePriceId = nullish price ''price_1U2UpICdtcz0ii9wLh7NVEiP''
      in w\<lparr>plans := upsert_by pl_slug ''full-access''
           (\<lambda>p. p\<lparr>pl_stripePriceId := stripePriceId, pl_interval := SIX_MONTHS, pl_amountCents := 5000\<rparr>)
           \<lparr>pl_id = newId, pl_name = ''Full Access'', pl_slug = ''full-access'', pl_stripePriceId = stripePriceId,
            pl_interval = SIX_MONTHS, pl_amountCents = 5000, pl_currency = ''usd'', pl_isActive = True\<rparr> (plans w)\<rparr>)"

definition seed_credit_packs :: "ident \<Rightarrow> string option \<Rightarrow> world \<Rightarrow> world" where
  "seed_credit_packs newId price w =
     (let stripePriceId = nullish price ''price_1U2aO4Cdtcz0ii9wNjuCngVN''
      in w\<lparr>creditPacks := upsert_by cp_slug ''credits-500''
           (\<lambda>p. p\<lparr>cp_stripePriceId := stripePriceId, cp_amountCents := 5000, cp_credits := 500\<rparr>)
           \<lparr>cp_id = newId, cp_name = ''500 Lead Finder credits'', cp_slug = ''credits-500'', cp_credits = 500,
            cp_stripePriceId = stripePriceId, cp_amountCents = 5000, cp_currency = ''usd'', cp_isActive = True\<rparr> (creditPacks w)\<rparr>)"

definition tier_row :: "ident \<Rightarrow> string \<Rightarrow> string \<Rightarrow> int \<Rightarrow> string option \<Rightarrow> int \<Rightarrow> bool \<Rightarrow> leadFinderTier" where
  "tier_row i name slug credits price amountCents recurring =
     \<lparr>ti_id = i, ti_name = name, ti_slug = slug, ti_credits = credits, ti_stripePriceId = price, ti_amountCents = amountCents,
      ti_currency = ''usd'', ti_recurring = recurring, ti_isActive = True\<rparr>"

definition TIERS :: "(string \<Rightarrow> ident) \<Rightarrow> (string \<Rightarrow> string option) \<Rightarrow> leadFinderTier list" where
  "TIERS newId env =
    [tier_row (newId ''free'') ''Free'' ''free'' 100 None 0 False,
     tier_row (newId ''starter'') ''Starter'' ''starter'' 100
       (Some (nullish (env ''STRIPE_PRICE_LEAD_FINDER_STARTER'') ''price_1U2X2yCdtcz0ii9wDEAn5yfZ'')) 2000 True,
     tier_row (newId ''growth'') ''Growth'' ''growth'' 500
       (Some (nullish (env ''STRIPE_PRICE_LEAD_FINDER_GROWTH'') ''price_1U2X2zCdtcz0ii9wtOtsHlpH'')) 5000 True,
     tier_row (newId ''scale'') ''Scale'' ''scale'' 1000
       (Some (nullish (env ''STRIPE_PRICE_LEAD_FINDER_SCALE'') ''price_1U2X30Cdtcz0ii9wMo90J1eu'')) 9000 True]"

definition seed_tier :: "leadFinderTier \<Rightarrow> leadFinderTier list \<Rightarrow> leadFinderTier list" where
  "seed_tier t = upsert_by ti_slug (ti_slug t)
     (\<lambda>r. r\<lparr>ti_credits := ti_credits t, ti_stripePriceId := ti_stripePriceId t, ti_amountCents := ti_amountCents t,
        ti_recurring := ti_recurring t\<rparr>) t"

definition seed_lead_finder_tiers :: "(string \<Rightarrow> ident) \<Rightarrow> (string \<Rightarrow> string option) \<Rightarrow> world \<Rightarrow> world" where
  "seed_lead_finder_tiers newId env w = w\<lparr>leadFinderTiers := foldl (\<lambda>rows t. seed_tier t rows) (leadFinderTiers w) (TIERS newId env)\<rparr>"

text \<open>The prices the other scripts create at Stripe, with the interval of a recurring one.\<close>

record stripePrice =
  sp_unitAmount :: int
  sp_interval :: "billingInterval option"

definition create_stripe_plan :: stripePrice where
  "create_stripe_plan = \<lparr>sp_unitAmount = 20000, sp_interval = Some MONTH\<rparr>"

definition create_credit_pack :: stripePrice where
  "create_credit_pack = \<lparr>sp_unitAmount = 3900, sp_interval = None\<rparr>"

definition create_lead_finder_tiers :: "(string \<times> int \<times> stripePrice) list" where
  "create_lead_finder_tiers =
    [(''Starter'', 100, \<lparr>sp_unitAmount = 2000, sp_interval = Some MONTH\<rparr>),
     (''Growth'', 500, \<lparr>sp_unitAmount = 5000, sp_interval = Some MONTH\<rparr>),
     (''Scale'', 1000, \<lparr>sp_unitAmount = 9000, sp_interval = Some MONTH\<rparr>)]"

section \<open>Running an import twice\<close>

text \<open>A stored row and the data it was made from.\<close>

definition stored_as :: "lead \<Rightarrow> lead \<Rightarrow> bool" where
  "stored_as d l \<longleftrightarrow> l\<lparr>le_id := le_id d, le_createdAt := le_createdAt d\<rparr> = d"

lemma create_leads_rows:
  "\<exists>new. leads (create_leads ids now rows w) = leads w @ new \<and> list_all2 stored_as rows new"
proof -
  have "list_all2 stored_as rows (map (\<lambda>(i, r). r\<lparr>le_id := ids i, le_createdAt := now\<rparr>) (enumerate k rows))" for k
    by (induction rows arbitrary: k) (simp_all add: stored_as_def)
  then show ?thesis by (simp add: create_leads_def)
qed

lemma insert_batches_rows:
  "\<exists>new. leads (insert_batches ids now rows w) = leads w @ new \<and> list_all2 stored_as rows new"
proof -
  have "\<exists>new. leads (foldl (\<lambda>w batch. create_leads ids now batch w) w bs) = leads w @ new \<and> list_all2 stored_as (concat bs) new" for bs
  proof (induction bs arbitrary: w)
    case (Cons b bs)
    obtain new where new: "leads (create_leads ids now b w) = leads w @ new" "list_all2 stored_as b new"
      using create_leads_rows by blast
    obtain new' where "leads (foldl (\<lambda>w batch. create_leads ids now batch w) (create_leads ids now b w) bs)
        = leads (create_leads ids now b w) @ new'" "list_all2 stored_as (concat bs) new'"
      using Cons.IH by blast
    with new show ?case by (auto intro: list_all2_appendI)
  qed simp
  from this [of "chunks IMPORT_BATCH_SIZE rows"] show ?thesis
    by (simp add: insert_batches_def concat_chunks IMPORT_BATCH_SIZE_def)
qed

lemma insert_batches_none [simp]: "insert_batches ids now [] w = w"
  by (simp add: insert_batches_def chunks.simps)

lemma stored_columns:
  "stored_as d l \<Longrightarrow> le_name l = le_name d \<and> le_likelyToAttend l = le_likelyToAttend d \<and> le_email l = le_email d
     \<and> le_submittedByUserId l = le_submittedByUserId d \<and> le_approved l = le_approved d"
  by (cases d; cases l) (simp add: stored_as_def)

lemma stored_member: "list_all2 stored_as rows new \<Longrightarrow> d \<in> set rows \<Longrightarrow> \<exists>l \<in> set new. stored_as d l"
  by (induction rule: list_all2_induct) auto

lemma stored_origin: "list_all2 stored_as rows new \<Longrightarrow> l \<in> set new \<Longrightarrow> \<exists>d \<in> set rows. stored_as d l"
  by (induction rule: list_all2_induct) auto

lemma same_person_record: "stored_as (event_record eventName row) l \<Longrightarrow> same_person eventName row l"
  by (drule stored_columns) (simp add: same_person_def event_record_def lead_data_def)

lemma importFile_done:
  assumes "List.find (\<lambda>row. trim (csv_name row) \<noteq> []) rows = Some firstRow" "l \<in> set (leads w)" "same_person eventName firstRow l"
  shows "importFile ids now rows eventName w = w"
  using assms by (auto simp: importFile_def findFirst_def find_None_iff)

lemma importFile_again: "importFile ids' now' rows eventName (importFile ids now rows eventName w) = importFile ids now rows eventName w"
proof (cases "List.find (\<lambda>row. trim (csv_name row) \<noteq> []) rows")
  case None
  then have "filter (\<lambda>row. trim (csv_name row) \<noteq> []) rows = []" by (auto simp: find_None_iff filter_empty_conv)
  with None show ?thesis by (simp add: importFile_def)
next
  case (Some row)
  show ?thesis
  proof (cases "findFirst (same_person eventName row) (leads w)")
    case None
    obtain new where new: "leads (importFile ids now rows eventName w) = leads w @ new"
      "list_all2 stored_as (map (event_record eventName) (filter (\<lambda>row. trim (csv_name row) \<noteq> []) rows)) new"
      using insert_batches_rows [of ids now "map (event_record eventName) (filter (\<lambda>row. trim (csv_name row) \<noteq> []) rows)" w] Some None
      by (auto simp: importFile_def)
    have "event_record eventName row \<in> set (map (event_record eventName) (filter (\<lambda>row. trim (csv_name row) \<noteq> []) rows))"
      using Some by (auto simp: find_Some_iff)
    then obtain l where "l \<in> set new" "stored_as (event_record eventName row) l" using stored_member [OF new(2)] by blast
    then show ?thesis using importFile_done [OF Some] same_person_record new(1) by (metis Un_iff set_append)
  next
    case found: (Some l)
    then show ?thesis using Some by (simp add: importFile_def)
  qed
qed

text \<open>
  The event import can be run again. A second run of a file changes nothing, whatever time and identifiers it runs
  with, and neither does a run that finds the first row of the file in place; so an import that was interrupted after
  its first batch is never completed by running it again. Before that, a run adds exactly the rows of the file that
  have a name, in order, with the event of the file, approved.
\<close>

theorem event_import_runs_once:
  assumes "List.find (\<lambda>row. trim (csv_name row) \<noteq> []) rows = Some firstRow"
  shows "importFile ids' now' rows eventName (importFile ids now rows eventName w) = importFile ids now rows eventName w
    \<and> (\<forall>k > 0. importFile ids' now' rows eventName
          (insert_batches ids now (take k (map (event_record eventName) (filter (\<lambda>row. trim (csv_name row) \<noteq> []) rows))) w)
        = insert_batches ids now (take k (map (event_record eventName) (filter (\<lambda>row. trim (csv_name row) \<noteq> []) rows))) w)
    \<and> (findFirst (same_person eventName firstRow) (leads w) = None \<longrightarrow>
        (\<exists>new. leads (importFile ids now rows eventName w) = leads w @ new
          \<and> list_all2 stored_as (map (event_record eventName) (filter (\<lambda>row. trim (csv_name row) \<noteq> []) rows)) new
          \<and> (\<forall>l \<in> set new. le_likelyToAttend l = eventName \<and> le_approved l)))"
proof (intro conjI allI impI)
  let ?rs = "map (event_record eventName) (filter (\<lambda>row. trim (csv_name row) \<noteq> []) rows)"
  show "importFile ids' now' rows eventName (importFile ids now rows eventName w) = importFile ids now rows eventName w"
    by (rule importFile_again)
  obtain rest where first: "filter (\<lambda>row. trim (csv_name row) \<noteq> []) rows = firstRow # rest"
    using assms by (induction rows) (auto split: if_splits)
  fix k :: nat assume "0 < k"
  then have mem: "event_record eventName firstRow \<in> set (take k ?rs)" unfolding first by (cases k) simp_all
  obtain new where new: "leads (insert_batches ids now (take k ?rs) w) = leads w @ new" "list_all2 stored_as (take k ?rs) new"
    using insert_batches_rows by blast
  then obtain l where "l \<in> set new" "stored_as (event_record eventName firstRow) l" using stored_member [OF new(2) mem] by blast
  then show "importFile ids' now' rows eventName (insert_batches ids now (take k ?rs) w) = insert_batches ids now (take k ?rs) w"
    using new(1) by (intro importFile_done [OF assms, of l]) (simp_all add: same_person_record)
next
  let ?rs = "map (event_record eventName) (filter (\<lambda>row. trim (csv_name row) \<noteq> []) rows)"
  assume "findFirst (same_person eventName firstRow) (leads w) = None"
  then have "importFile ids now rows eventName w = insert_batches ids now ?rs w" using assms by (simp add: importFile_def)
  moreover obtain new where new: "leads (insert_batches ids now ?rs w) = leads w @ new" "list_all2 stored_as ?rs new"
    using insert_batches_rows by blast
  moreover have "le_likelyToAttend l = eventName \<and> le_approved l" if "l \<in> set new" for l
    using stored_origin [OF new(2) that] by (auto dest!: stored_columns simp: event_record_def lead_data_def)
  ultimately show "\<exists>new. leads (importFile ids now rows eventName w) = leads w @ new \<and> list_all2 stored_as ?rs new
      \<and> (\<forall>l \<in> set new. le_likelyToAttend l = eventName \<and> le_approved l)" by metis
qed

definition sample_row :: csvRow where
  "sample_row = \<lparr>csv_name = ''Ann'', csv_likelyToAttend = ''Expo'', csv_company = [], csv_website = [], csv_title = ''CEO'',
     csv_linkedIn = [], csv_appLink = [], csv_email = ''ann@expo.co'', csv_phone = [], csv_type = ''Agency''\<rparr>"

theorem event_import_runs_once_witness:
  "importFile (\<lambda>_. ''j'') 2 [sample_row] ''Expo 2026'' (importFile (\<lambda>_. ''i'') 1 [sample_row] ''Expo 2026'' sample_world)
     = importFile (\<lambda>_. ''i'') 1 [sample_row] ''Expo 2026'' sample_world"
proof -
  have "List.find (\<lambda>row. trim (csv_name row) \<noteq> []) [sample_row] = Some sample_row" by code_simp
  from event_import_runs_once [OF this] show ?thesis by blast
qed

lemma import_list_guarded:
  assumes "\<exists>l \<in> set (leads w). le_likelyToAttend l = eventName"
  shows "import_list ids now eventName rows w = w"
  using assms by (auto simp: import_list_def countRows_def filter_empty_conv)

lemma import_list_open:
  assumes "\<forall>l \<in> set (leads w). le_likelyToAttend l \<noteq> eventName"
  shows "\<exists>new. leads (import_list ids now eventName rows w) = leads w @ new \<and> list_all2 stored_as (map list_record rows) new"
proof -
  have "countRows (\<lambda>l. le_likelyToAttend l = eventName) (leads w) = 0" using assms by (auto simp: countRows_def filter_empty_conv)
  then show ?thesis using insert_batches_rows [of ids now "map list_record rows" w] by (simp add: import_list_def)
qed

text \<open>
  The guard of the two single lists looks for the event in the script while the rows get the event of the file.
  When they agree for some row, a second run is refused; when no row of the file carries exactly that text, the second
  run imports every row again.
\<close>

theorem list_import_guard:
  assumes "\<forall>l \<in> set (leads w). le_likelyToAttend l \<noteq> eventName"
  shows "((\<exists>row \<in> set rows. trim (csv_likelyToAttend row) = eventName) \<longrightarrow>
        import_list ids' now' eventName rows (import_list ids now eventName rows w) = import_list ids now eventName rows w)
    \<and> ((\<forall>row \<in> set rows. trim (csv_likelyToAttend row) \<noteq> eventName) \<longrightarrow>
        length (leads (import_list ids' now' eventName rows (import_list ids now eventName rows w)))
          = length (leads w) + 2 * length rows)"
proof -
  obtain new where new: "leads (import_list ids now eventName rows w) = leads w @ new" "list_all2 stored_as (map list_record rows) new"
    using import_list_open [OF assms] by blast
  have len: "length new = length rows" using list_all2_lengthD [OF new(2)] by simp
  show ?thesis
  proof (intro conjI impI)
    assume "\<exists>row \<in> set rows. trim (csv_likelyToAttend row) = eventName"
    then obtain row where row: "row \<in> set rows" "trim (csv_likelyToAttend row) = eventName" by blast
    then obtain l where "l \<in> set new" "stored_as (list_record row) l" using stored_member [OF new(2), of "list_record row"] by auto
    then have "l \<in> set (leads (import_list ids now eventName rows w))" "le_likelyToAttend l = eventName"
      using row(2) by (auto simp: new(1) list_record_def lead_data_def dest!: stored_columns)
    then show "import_list ids' now' eventName rows (import_list ids now eventName rows w) = import_list ids now eventName rows w"
      by (intro import_list_guarded) blast
  next
    assume other: "\<forall>row \<in> set rows. trim (csv_likelyToAttend row) \<noteq> eventName"
    have "le_likelyToAttend l \<noteq> eventName" if "l \<in> set new" for l
      using stored_origin [OF new(2) that] other by (auto dest!: stored_columns simp: list_record_def lead_data_def)
    then have "\<forall>l \<in> set (leads (import_list ids now eventName rows w)). le_likelyToAttend l \<noteq> eventName"
      using assms by (auto simp: new(1))
    from import_list_open [OF this, of ids' now' rows] obtain new'
      where "leads (import_list ids' now' eventName rows (import_list ids now eventName rows w)) = (leads w @ new) @ new'"
        "list_all2 stored_as (map list_record rows) new'" by (auto simp: new(1))
    then show "length (leads (import_list ids' now' eventName rows (import_list ids now eventName rows w)))
        = length (leads w) + 2 * length rows"
      using len list_all2_lengthD by fastforce
  qed
qed

theorem list_import_guard_witness:
  "length (leads (import_list (\<lambda>_. ''j'') 2 ''Contact.io 2026'' [sample_row]
     (import_list (\<lambda>_. ''i'') 1 ''Contact.io 2026'' [sample_row] (sample_world\<lparr>leads := []\<rparr>)))) = 2"
proof -
  have "trim (csv_likelyToAttend sample_row) \<noteq> ''Contact.io 2026''" by code_simp
  then show ?thesis
    using list_import_guard [of "sample_world\<lparr>leads := []\<rparr>" "''Contact.io 2026''" "[sample_row]"] by simp
qed

text \<open>The first import empties the table: submissions and every other list are gone afterwards.\<close>

lemma import_leads_forgets:
  "\<forall>l \<in> set (leads (import_leads ids now read w)). le_submittedByUserId l = None \<and> le_approved l \<and> le_companyType l \<noteq> None"
proof -
  let ?P = "\<lambda>l :: lead. le_submittedByUserId l = None \<and> le_approved l \<and> le_companyType l \<noteq> None"
  let ?step = "\<lambda>w (filename, companyType). insert_batches ids now
      (map (\<lambda>row. lead_data row (orNull (csv_appLink row)) (Some companyType) (trim (csv_likelyToAttend row))) (read filename)) w"
  have keep: "\<forall>l \<in> set (leads (?step w f)). ?P l" if old: "\<forall>l \<in> set (leads w). ?P l" for w f
  proof -
    obtain name ct where f: "f = (name, ct)" by (cases f)
    let ?rs = "map (\<lambda>row. lead_data row (orNull (csv_appLink row)) (Some ct) (trim (csv_likelyToAttend row))) (read name)"
    obtain new where new: "leads (insert_batches ids now ?rs w) = leads w @ new" "list_all2 stored_as ?rs new"
      using insert_batches_rows by blast
    have "?P l" if l: "l \<in> set new" for l
    proof -
      obtain row where "stored_as (lead_data row (orNull (csv_appLink row)) (Some ct) (trim (csv_likelyToAttend row))) l"
        using stored_origin [OF new(2) l] by auto
      then show ?thesis by (cases l) (simp add: stored_as_def lead_data_def)
    qed
    with old show ?thesis by (auto simp: f new(1))
  qed
  have all: "\<forall>l \<in> set (leads (foldl ?step w fs)). ?P l" if "\<forall>l \<in> set (leads w). ?P l" for w fs
    using that
  proof (induction fs arbitrary: w)
    case (Cons f fs)
    show ?case unfolding foldl_Cons by (rule Cons.IH) (rule keep [OF Cons.prems])
  qed simp
  show ?thesis unfolding import_leads_def by (rule all) simp
qed

section \<open>Seeding twice\<close>

lemma upsert_by_again:
  assumes "slug new = s" "\<And>r. slug (upd r) = slug r" "\<And>r. upd (upd r) = upd r" "upd new = new"
  shows "upsert_by slug s upd new' (upsert_by slug s upd new rows) = upsert_by slug s upd new rows"
proof (cases "\<exists>r \<in> set rows. slug r = s")
  case True
  then obtain r where r: "r \<in> set rows" "slug r = s" by blast
  let ?rows = "map (\<lambda>r. if slug r = s then upd r else r) rows"
  have once: "upsert_by slug s upd x rows = ?rows" for x
    using True by (simp add: upsert_by_def updateMany_def list_ex_iff)
  have "upd r \<in> set ?rows" "slug (upd r) = s" using r assms(2) by (auto intro!: image_eqI [of _ _ r])
  then have "\<exists>r \<in> set ?rows. slug r = s" by blast
  then have "upsert_by slug s upd new' ?rows = map (\<lambda>r. if slug r = s then upd r else r) ?rows"
    by (simp add: upsert_by_def updateMany_def list_ex_iff)
  also have "\<dots> = ?rows" using assms(2,3) by simp
  finally show ?thesis unfolding once .
next
  case False
  then have once: "upsert_by slug s upd new rows = rows @ [new]" by (auto simp: upsert_by_def list_ex_iff)
  have "map (\<lambda>r. if slug r = s then upd r else r) rows = rows" using False by (intro map_idI) auto
  then show ?thesis unfolding once using assms(1,4) by (simp add: upsert_by_def updateMany_def)
qed

lemma upsert_by_has:
  assumes "slug new = s" "\<And>r. slug (upd r) = slug r" "P new" "\<And>r. P (upd r)"
  shows "\<exists>r \<in> set (upsert_by slug s upd new rows). slug r = s \<and> P r"
proof (cases "\<exists>r \<in> set rows. slug r = s")
  case True
  then obtain r where r: "r \<in> set rows" "slug r = s" by blast
  then have "upd r \<in> set (upsert_by slug s upd new rows)"
    using True by (auto simp: upsert_by_def updateMany_def list_ex_iff intro!: image_eqI [of _ _ r])
  with r(2) assms(2,4) show ?thesis by metis
qed (use assms in \<open>auto simp: upsert_by_def list_ex_iff\<close>)

text \<open>A tier is settled when a row has its slug and every such row has its terms.\<close>

definition tier_terms :: "leadFinderTier \<Rightarrow> leadFinderTier \<Rightarrow> leadFinderTier" where
  "tier_terms t r = r\<lparr>ti_credits := ti_credits t, ti_stripePriceId := ti_stripePriceId t, ti_amountCents := ti_amountCents t,
     ti_recurring := ti_recurring t\<rparr>"

definition settled :: "leadFinderTier \<Rightarrow> leadFinderTier list \<Rightarrow> bool" where
  "settled t rows \<longleftrightarrow> (\<exists>r \<in> set rows. ti_slug r = ti_slug t) \<and> (\<forall>r \<in> set rows. ti_slug r = ti_slug t \<longrightarrow> tier_terms t r = r)"

lemma tier_terms_simps [simp]: "ti_slug (tier_terms t r) = ti_slug r" "tier_terms t (tier_terms t r) = tier_terms t r" "tier_terms t t = t"
  by (simp_all add: tier_terms_def)

lemma seed_tier_eq: "seed_tier t rows = (if \<exists>r \<in> set rows. ti_slug r = ti_slug t
    then map (\<lambda>r. if ti_slug r = ti_slug t then tier_terms t r else r) rows else rows @ [t])"
  by (simp add: seed_tier_def upsert_by_def updateMany_def list_ex_iff tier_terms_def)

lemma settled_seed: "settled t (seed_tier t rows)"
proof (cases "\<exists>r \<in> set rows. ti_slug r = ti_slug t")
  case True
  then obtain r where r: "r \<in> set rows" "ti_slug r = ti_slug t" by blast
  then have "tier_terms t r \<in> set (seed_tier t rows)" using True by (auto simp: seed_tier_eq intro!: image_eqI [of _ _ r])
  then have "\<exists>r \<in> set (seed_tier t rows). ti_slug r = ti_slug t" using r(2) tier_terms_simps(1) by metis
  then show ?thesis using True by (auto simp: settled_def seed_tier_eq)
qed (auto simp: settled_def seed_tier_eq)

lemma settled_other:
  assumes "ti_slug t \<noteq> ti_slug t'" "settled t rows"
  shows "settled t (seed_tier t' rows)"
proof -
  obtain r where r: "r \<in> set rows" "ti_slug r = ti_slug t" using assms(2) by (auto simp: settled_def)
  then have "r \<in> set (seed_tier t' rows)" using assms(1) by (auto simp: seed_tier_eq intro!: image_eqI [of _ _ r])
  then have "\<exists>r \<in> set (seed_tier t' rows). ti_slug r = ti_slug t" using r(2) by blast
  then show ?thesis using assms by (auto simp: settled_def seed_tier_eq split: if_splits)
qed

lemma settled_again:
  assumes "settled t rows" "ti_slug t' = ti_slug t" "tier_terms t' = tier_terms t"
  shows "seed_tier t' rows = rows"
  using assms by (auto simp: settled_def seed_tier_eq intro!: map_idI)

lemma seed_tiers_again:
  "leadFinderTiers (seed_lead_finder_tiers newId' env (seed_lead_finder_tiers newId env w)) = leadFinderTiers (seed_lead_finder_tiers newId env w)"
proof -
  let ?rows = "leadFinderTiers (seed_lead_finder_tiers newId env w)"
  have slugs: "distinct (map ti_slug (TIERS newId env))" by (simp add: TIERS_def tier_row_def)
  have fold: "list_all (\<lambda>t. settled t (foldl (\<lambda>rows t. seed_tier t rows) rows ts)) ts"
    if "distinct (map ti_slug ts)" for ts rows
    using that
  proof (induction ts rule: rev_induct)
    case (snoc t ts)
    then show ?case by (auto simp: list_all_iff settled_seed image_iff intro!: settled_other)
  qed simp
  then have set: "list_all (\<lambda>t. settled t ?rows) (TIERS newId env)"
    using slugs by (simp add: seed_lead_finder_tiers_def)
  have "list_all (\<lambda>t'. \<exists>t \<in> set (TIERS newId env). ti_slug t' = ti_slug t \<and> tier_terms t' = tier_terms t) (TIERS newId' env)"
    by (simp add: TIERS_def tier_row_def tier_terms_def fun_eq_iff)
  then have "list_all (\<lambda>t'. seed_tier t' ?rows = ?rows) (TIERS newId' env)"
    using set settled_again by (fastforce simp: list_all_iff)
  then have "foldl (\<lambda>rows t. seed_tier t rows) ?rows (TIERS newId' env) = ?rows"
    by (induction "TIERS newId' env" rule: rev_induct) (simp_all add: TIERS_def)
  then show ?thesis by (simp add: seed_lead_finder_tiers_def)
qed

definition sells :: "leadFinderTier \<Rightarrow> string \<times> int \<times> stripePrice \<Rightarrow> bool" where
  "sells t p \<longleftrightarrow> ti_name t = fst p \<and> ti_credits t = fst (snd p) \<and> ti_amountCents t = sp_unitAmount (snd (snd p))
     \<and> ti_recurring t = (sp_interval (snd (snd p)) \<noteq> None)"

text \<open>
  Seeding can be repeated, and the catalogue it writes is the one the product describes: the plan costs 50 dollars
  for six months, a credit of the pack costs what a credit of the Growth tier costs, and the paid tiers are those whose
  prices the tier script creates. The prices the other two scripts create are not those of the catalogue: 200 dollars a
  month for the plan, 39 dollars for the pack.
\<close>

theorem seeded_catalogue:
  "plans (seed_plans i price (seed_plans i' price w)) = plans (seed_plans i' price w)
   \<and> creditPacks (seed_credit_packs i price (seed_credit_packs i' price w)) = creditPacks (seed_credit_packs i' price w)
   \<and> leadFinderTiers (seed_lead_finder_tiers newId' env (seed_lead_finder_tiers newId env w)) = leadFinderTiers (seed_lead_finder_tiers newId env w)
   \<and> (\<exists>p \<in> set (plans (seed_plans i price w)). pl_slug p = ''full-access'' \<and> pl_amountCents p = 5000 \<and> pl_interval p = SIX_MONTHS
        \<and> (pl_amountCents p, Some (pl_interval p)) \<noteq> (sp_unitAmount create_stripe_plan, sp_interval create_stripe_plan))
   \<and> (\<exists>k \<in> set (creditPacks (seed_credit_packs i price w)). cp_slug k = ''credits-500'' \<and> cp_amountCents k \<noteq> sp_unitAmount create_credit_pack
        \<and> (\<forall>t \<in> set (TIERS newId env). ti_slug t = ''growth'' \<longrightarrow> cp_amountCents k * ti_credits t = ti_amountCents t * cp_credits k))
   \<and> list_all2 sells (filter (\<lambda>t. ti_amountCents t \<noteq> 0) (TIERS newId env)) create_lead_finder_tiers"
proof (intro conjI)
  show "plans (seed_plans i price (seed_plans i' price w)) = plans (seed_plans i' price w)"
    by (simp add: seed_plans_def Let_def upsert_by_again)
  show "creditPacks (seed_credit_packs i price (seed_credit_packs i' price w)) = creditPacks (seed_credit_packs i' price w)"
    by (simp add: seed_credit_packs_def Let_def upsert_by_again)
  show "leadFinderTiers (seed_lead_finder_tiers newId' env (seed_lead_finder_tiers newId env w)) = leadFinderTiers (seed_lead_finder_tiers newId env w)"
    by (rule seed_tiers_again)
  have "\<exists>p \<in> set (plans (seed_plans i price w)). pl_slug p = ''full-access'' \<and> pl_amountCents p = 5000 \<and> pl_interval p = SIX_MONTHS"
    using upsert_by_has [of pl_slug _ "''full-access''" _ "\<lambda>p. pl_amountCents p = 5000 \<and> pl_interval p = SIX_MONTHS" "plans w"]
    unfolding seed_plans_def Let_def by simp
  then show "\<exists>p \<in> set (plans (seed_plans i price w)). pl_slug p = ''full-access'' \<and> pl_amountCents p = 5000 \<and> pl_interval p = SIX_MONTHS
      \<and> (pl_amountCents p, Some (pl_interval p)) \<noteq> (sp_unitAmount create_stripe_plan, sp_interval create_stripe_plan)"
    by (auto simp: create_stripe_plan_def)
  have "\<exists>k \<in> set (creditPacks (seed_credit_packs i price w)). cp_slug k = ''credits-500'' \<and> cp_amountCents k = 5000 \<and> cp_credits k = 500"
    using upsert_by_has [of cp_slug _ "''credits-500''" _ "\<lambda>k. cp_amountCents k = 5000 \<and> cp_credits k = 500" "creditPacks w"]
    unfolding seed_credit_packs_def Let_def by simp
  then show "\<exists>k \<in> set (creditPacks (seed_credit_packs i price w)). cp_slug k = ''credits-500'' \<and> cp_amountCents k \<noteq> sp_unitAmount create_credit_pack
      \<and> (\<forall>t \<in> set (TIERS newId env). ti_slug t = ''growth'' \<longrightarrow> cp_amountCents k * ti_credits t = ti_amountCents t * cp_credits k)"
    by (auto simp: create_credit_pack_def TIERS_def tier_row_def)
  show "list_all2 sells (filter (\<lambda>t. ti_amountCents t \<noteq> 0) (TIERS newId env)) create_lead_finder_tiers"
    by (simp add: TIERS_def tier_row_def sells_def create_lead_finder_tiers_def)
qed

end
