(* ===== verification/Wiring.thy ===== *)
theory Wiring
  imports Complex_Main "HOL-Library.Multiset" Env StripeWebhooks
begin

text \<open>
  How the application is put together: the constructor of every class that Nest builds (\<open>@Injectable\<close>, \<open>@Controller\<close>,
  \<open>@Processor\<close>, \<open>@Catch\<close>), every module with its imports, providers, controllers and exports, and the job options of the
  queues (\<open>queue.module.ts\<close>, \<open>leads.module.ts\<close>). What Nest itself, \<open>@nestjs/config\<close>, \<open>@nestjs/jwt\<close> and
  \<open>@nestjs/bullmq\<close> provide is the parameter \<open>framework\<close> with the law \<open>framework_law\<close>.

  A class can be built when each of its dependencies is visible in its module and has been built before. \<open>construct\<close>
  looks for an order; \<open>buildable\<close> says declaratively that one exists, and the two agree.
\<close>

section \<open>Classes and modules\<close>

text \<open>What can be injected: the classes of the application, the Redis client, the queues and what the framework offers.\<close>

datatype injectable =
    ConfigService | Reflector | JwtService | REDIS_CLIENT | BullQueue string
  | AdminController | AdminService | AppController | AuditService | AuthController | AuthService | JwtAuthGuard |
    RolesGuard | StripeCustomerService | StripeService | EncryptionService | AllExceptionsFilter | GeoipService |
    TokenRevocationService | TokenService | ContactController | ContactService | BulkEmailProcessor |
    EmailProcessor | EmailService | UnsubscribeController | InvitesController | InvitesService |
    LeadFinderBillingController | LeadFinderBillingService | ApolloSearchProcessor | ApolloService | ClaudeService |
    LeadsController | LeadsService | PublicLeadsController | PrismaService | ProspectCampaignProcessor |
    ProspectCampaignService | ResendWebhookController | RenewalReminderProcessor | RenewalReminderService |
    DevicesService | RiskService | SessionsService | DirectoryAccessGuard | SubscriptionGuard |
    StripeWebhookProcessor | SubscriptionsController | SubscriptionsService | WebhooksController | UsersController |
    UsersService

record classDef =
  cd_class :: injectable
  cd_inject :: "injectable list"
  cd_required :: "string list"
  cd_optional :: "(string \<times> int option) list"

text \<open>
  A constructor: its parameters in order, the keys it reads with \<open>getOrThrow\<close>, and those it reads with \<open>get\<close> and a
  number to fall back on.
\<close>

definition ctor ::
  "injectable \<Rightarrow> injectable list \<Rightarrow> string list \<Rightarrow> (string \<times> int option) list \<Rightarrow> classDef" where
  "ctor cls params keys optional =
     \<lparr>cd_class = cls, cd_inject = params, cd_required = keys, cd_optional = optional\<rparr>"

record jobOptions =
  jo_attempts :: nat
  jo_backoff :: "(string \<times> nat) option"
  jo_removeOnComplete :: nat
  jo_removeOnFail :: nat

text \<open>The factory of an asynchronous module: what is injected into it and the keys it reads with \<open>getOrThrow\<close>.\<close>

record factory =
  fc_inject :: "injectable list"
  fc_required :: "string list"

datatype moduleName =
    AdminModule | AppModule | AuditModule | AuthModule | BillingModule | CommonModule |
    ContactModule | EmailModule | InvitesModule | LeadFinderBillingModule | LeadsModule | PrismaModule |
    ProspectCampaignModule | QueueModule | RenewalReminderModule | SessionsModule | SubscriptionsModule | UsersModule

datatype moduleImport =
    Own moduleName
  | RegisterQueue "(string \<times> jobOptions option) list"
  | JwtModule_registerAsync factory
  | BullModule_forRootAsync factory jobOptions
  | ConfigModule_forRoot bool
  | ThrottlerModule_forRoot

record nestModule =
  nm_name :: moduleName
  nm_global :: bool
  nm_imports :: "moduleImport list"
  nm_controllers :: "classDef list"
  nm_providers :: "classDef list"
  nm_guards :: "classDef list"
  nm_own :: "injectable list"
  nm_framework :: "string list"
  nm_exports :: "injectable list"
  nm_reexports :: "string list"

text \<open>
  \<open>nm_guards\<close> are the classes its controllers name in \<open>@UseGuards\<close>, which Nest builds in the module of the controller;
  \<open>nm_own\<close> are the parameters of the constructor of the module class itself; \<open>nm_framework\<close> and \<open>nm_reexports\<close> name
  providers and exported modules that are code of the framework.
\<close>

section \<open>The constructors\<close>

definition ctor_AdminController :: classDef where
  "ctor_AdminController = ctor AdminController [AdminService, ProspectCampaignService] [] []"

definition ctor_AdminService :: classDef where
  "ctor_AdminService = ctor AdminService
    [PrismaService, SessionsService, AuditService, TokenRevocationService, ConfigService, AuthService, EmailService]
    []
    [(''PAYMENT_GRACE_PERIOD_DAYS'', Some 7)]"

definition ctor_AppController :: classDef where
  "ctor_AppController = ctor AppController [] [] []"

definition ctor_AuditService :: classDef where
  "ctor_AuditService = ctor AuditService [PrismaService] [] []"

definition ctor_AuthController :: classDef where
  "ctor_AuthController = ctor AuthController [AuthService, TokenService, ConfigService] [] []"

definition ctor_AuthService :: classDef where
  "ctor_AuthService = ctor AuthService
    [PrismaService, UsersService, DevicesService, SessionsService, TokenService, EmailService, AuditService,
     EncryptionService, JwtService, ConfigService, StripeService, GeoipService, RiskService, TokenRevocationService]
    []
    [(''RISK_HIGH_THRESHOLD'', Some 50)]"

definition ctor_JwtAuthGuard :: classDef where
  "ctor_JwtAuthGuard = ctor JwtAuthGuard [JwtService, Reflector, TokenRevocationService] [] []"

definition ctor_RolesGuard :: classDef where
  "ctor_RolesGuard = ctor RolesGuard [Reflector] [] []"

definition ctor_StripeCustomerService :: classDef where
  "ctor_StripeCustomerService = ctor StripeCustomerService [PrismaService, StripeService, UsersService] [] []"

definition ctor_StripeService :: classDef where
  "ctor_StripeService = ctor StripeService
    [ConfigService]
    [''STRIPE_SECRET_KEY'', ''STRIPE_WEBHOOK_SECRET'']
    []"

definition ctor_EncryptionService :: classDef where
  "ctor_EncryptionService = ctor EncryptionService [ConfigService] [''TWO_FACTOR_ENCRYPTION_KEY''] []"

definition ctor_AllExceptionsFilter :: classDef where
  "ctor_AllExceptionsFilter = ctor AllExceptionsFilter [] [] []"

definition ctor_GeoipService :: classDef where
  "ctor_GeoipService = ctor GeoipService [] [] []"

definition ctor_TokenRevocationService :: classDef where
  "ctor_TokenRevocationService = ctor TokenRevocationService
    [REDIS_CLIENT, ConfigService]
    []
    [(''JWT_ACCESS_EXPIRY_SECONDS'', Some 900)]"

definition ctor_TokenService :: classDef where
  "ctor_TokenService = ctor TokenService [] [] []"

definition ctor_ContactController :: classDef where
  "ctor_ContactController = ctor ContactController [ContactService] [] []"

definition ctor_ContactService :: classDef where
  "ctor_ContactService = ctor ContactService [PrismaService, EmailService] [] []"

definition ctor_BulkEmailProcessor :: classDef where
  "ctor_BulkEmailProcessor = ctor BulkEmailProcessor
    [ConfigService, PrismaService]
    [''RESEND_API_KEY'', ''RESEND_FROM_EMAIL'', ''FRONTEND_URL'', ''SUPPORT_EMAIL'', ''UNSUBSCRIBE_SECRET'',
     ''COMPANY_MAILING_ADDRESS'']
    []"

definition ctor_EmailProcessor :: classDef where
  "ctor_EmailProcessor = ctor EmailProcessor
    [ConfigService]
    [''RESEND_API_KEY'', ''RESEND_FROM_EMAIL'', ''FRONTEND_URL'', ''SUPPORT_EMAIL'']
    []"

definition ctor_EmailService :: classDef where
  "ctor_EmailService = ctor EmailService
    [BullQueue ''email'', BullQueue ''bulk-email'', ConfigService]
    [''FRONTEND_URL'']
    [(''NODE_ENV'', None)]"

definition ctor_UnsubscribeController :: classDef where
  "ctor_UnsubscribeController = ctor UnsubscribeController
    [PrismaService, ConfigService]
    [''UNSUBSCRIBE_SECRET'']
    []"

definition ctor_InvitesController :: classDef where
  "ctor_InvitesController = ctor InvitesController [InvitesService] [] []"

definition ctor_InvitesService :: classDef where
  "ctor_InvitesService = ctor InvitesService [PrismaService, UsersService, EmailService] [] []"

definition ctor_LeadFinderBillingController :: classDef where
  "ctor_LeadFinderBillingController = ctor LeadFinderBillingController [LeadFinderBillingService] [] []"

definition ctor_LeadFinderBillingService :: classDef where
  "ctor_LeadFinderBillingService = ctor LeadFinderBillingService
    [PrismaService, StripeService, StripeCustomerService, UsersService, AuditService, ConfigService, EmailService]
    [''FRONTEND_URL'']
    [(''PAYMENT_GRACE_PERIOD_DAYS'', Some 7)]"

definition ctor_ApolloSearchProcessor :: classDef where
  "ctor_ApolloSearchProcessor = ctor ApolloSearchProcessor
    [PrismaService, ApolloService, LeadsService, AuditService]
    []
    []"

definition ctor_ApolloService :: classDef where
  "ctor_ApolloService = ctor ApolloService [ConfigService] [''APOLLO_API_KEY''] []"

definition ctor_ClaudeService :: classDef where
  "ctor_ClaudeService = ctor ClaudeService [ConfigService] [''ANTHROPIC_API_KEY''] []"

definition ctor_LeadsController :: classDef where
  "ctor_LeadsController = ctor LeadsController [LeadsService] [] []"

definition ctor_LeadsService :: classDef where
  "ctor_LeadsService = ctor LeadsService
    [PrismaService, ConfigService, AuditService, ClaudeService, ApolloService, BullQueue ''apollo-search'',
     REDIS_CLIENT]
    []
    [(''LEAD_SEARCH_MAX_RESULTS'', Some 25), (''PAYMENT_GRACE_PERIOD_DAYS'', Some 7)]"

definition ctor_PublicLeadsController :: classDef where
  "ctor_PublicLeadsController = ctor PublicLeadsController [LeadsService] [] []"

definition ctor_PrismaService :: classDef where
  "ctor_PrismaService = ctor PrismaService [ConfigService] [''DATABASE_URL''] []"

definition ctor_ProspectCampaignProcessor :: classDef where
  "ctor_ProspectCampaignProcessor = ctor ProspectCampaignProcessor [ProspectCampaignService] [] []"

definition ctor_ProspectCampaignService :: classDef where
  "ctor_ProspectCampaignService = ctor ProspectCampaignService
    [PrismaService, EmailService, AuditService, ConfigService]
    [''COMPANY_MAILING_ADDRESS'']
    []"

definition ctor_ResendWebhookController :: classDef where
  "ctor_ResendWebhookController = ctor ResendWebhookController
    [ConfigService, ProspectCampaignService]
    []
    [(''RESEND_WEBHOOK_SECRET'', None)]"

definition ctor_RenewalReminderProcessor :: classDef where
  "ctor_RenewalReminderProcessor = ctor RenewalReminderProcessor [RenewalReminderService] [] []"

definition ctor_RenewalReminderService :: classDef where
  "ctor_RenewalReminderService = ctor RenewalReminderService [PrismaService, EmailService] [] []"

definition ctor_DevicesService :: classDef where
  "ctor_DevicesService = ctor DevicesService
    [PrismaService, ConfigService]
    []
    [(''MAX_TRUSTED_DEVICES'', Some 3)]"

definition ctor_RiskService :: classDef where
  "ctor_RiskService = ctor RiskService [PrismaService] [] []"

definition ctor_SessionsService :: classDef where
  "ctor_SessionsService = ctor SessionsService
    [PrismaService, TokenService, ConfigService]
    []
    [(''REFRESH_TOKEN_EXPIRY_DAYS'', Some 30), (''MAX_TRUSTED_DEVICES'', Some 3)]"

definition ctor_DirectoryAccessGuard :: classDef where
  "ctor_DirectoryAccessGuard = ctor DirectoryAccessGuard
    [PrismaService, ConfigService]
    []
    [(''PAYMENT_GRACE_PERIOD_DAYS'', Some 7)]"

definition ctor_SubscriptionGuard :: classDef where
  "ctor_SubscriptionGuard = ctor SubscriptionGuard
    [PrismaService, ConfigService]
    []
    [(''PAYMENT_GRACE_PERIOD_DAYS'', Some 7)]"

definition ctor_StripeWebhookProcessor :: classDef where
  "ctor_StripeWebhookProcessor = ctor StripeWebhookProcessor
    [SubscriptionsService, LeadFinderBillingService, AuditService]
    []
    []"

definition ctor_SubscriptionsController :: classDef where
  "ctor_SubscriptionsController = ctor SubscriptionsController [SubscriptionsService] [] []"

definition ctor_SubscriptionsService :: classDef where
  "ctor_SubscriptionsService = ctor SubscriptionsService
    [PrismaService, StripeService, StripeCustomerService, UsersService, AuditService, ConfigService, EmailService]
    [''FRONTEND_URL'']
    [(''PAYMENT_GRACE_PERIOD_DAYS'', Some 7)]"

definition ctor_WebhooksController :: classDef where
  "ctor_WebhooksController = ctor WebhooksController [StripeService, BullQueue ''stripe-webhook''] [] []"

definition ctor_UsersController :: classDef where
  "ctor_UsersController = ctor UsersController [UsersService] [] []"

definition ctor_UsersService :: classDef where
  "ctor_UsersService = ctor UsersService
    [PrismaService, ConfigService]
    []
    [(''LOGIN_MAX_ATTEMPTS'', Some 5), (''LOGIN_LOCKOUT_MINUTES'', Some 15)]"

text \<open>The Redis client of \<open>queue.module.ts\<close>, a provider with a factory.\<close>

definition ctor_REDIS_CLIENT :: classDef where
  "ctor_REDIS_CLIENT = ctor REDIS_CLIENT [ConfigService] [''REDIS_URL''] []"

lemmas ctor_defs = ctor_REDIS_CLIENT_def
  ctor_AdminController_def ctor_AdminService_def ctor_AppController_def ctor_AuditService_def ctor_AuthController_def
  ctor_AuthService_def ctor_JwtAuthGuard_def ctor_RolesGuard_def ctor_StripeCustomerService_def
  ctor_StripeService_def ctor_EncryptionService_def ctor_AllExceptionsFilter_def ctor_GeoipService_def
  ctor_TokenRevocationService_def ctor_TokenService_def ctor_ContactController_def ctor_ContactService_def
  ctor_BulkEmailProcessor_def ctor_EmailProcessor_def ctor_EmailService_def ctor_UnsubscribeController_def
  ctor_InvitesController_def ctor_InvitesService_def ctor_LeadFinderBillingController_def
  ctor_LeadFinderBillingService_def ctor_ApolloSearchProcessor_def ctor_ApolloService_def ctor_ClaudeService_def
  ctor_LeadsController_def ctor_LeadsService_def ctor_PublicLeadsController_def ctor_PrismaService_def
  ctor_ProspectCampaignProcessor_def ctor_ProspectCampaignService_def ctor_ResendWebhookController_def
  ctor_RenewalReminderProcessor_def ctor_RenewalReminderService_def ctor_DevicesService_def ctor_RiskService_def
  ctor_SessionsService_def ctor_DirectoryAccessGuard_def ctor_SubscriptionGuard_def ctor_StripeWebhookProcessor_def
  ctor_SubscriptionsController_def ctor_SubscriptionsService_def ctor_WebhooksController_def ctor_UsersController_def
  ctor_UsersService_def

section \<open>The modules\<close>

text \<open>The options of \<open>queue.module.ts\<close> for every queue, and those of the search queue, which replace them.\<close>

definition defaultJobOptions :: jobOptions where
  "defaultJobOptions = \<lparr>jo_attempts = 3, jo_backoff = Some (''exponential'', 5000),
     jo_removeOnComplete = 24 * 60 * 60, jo_removeOnFail = 7 * 24 * 60 * 60\<rparr>"

definition search_job_options :: jobOptions where
  "search_job_options = \<lparr>jo_attempts = 1, jo_backoff = None,
     jo_removeOnComplete = 24 * 60 * 60, jo_removeOnFail = 7 * 24 * 60 * 60\<rparr>"

definition module_AdminModule :: nestModule where
  "module_AdminModule =
    \<lparr>nm_name = AdminModule, nm_global = False,
     nm_imports = [Own SessionsModule, Own AuditModule, Own AuthModule, Own EmailModule, Own ProspectCampaignModule],
     nm_controllers = [ctor_AdminController],
     nm_providers = [ctor_AdminService],
     nm_guards = [ctor_RolesGuard],
     nm_own = [], nm_framework = [],
     nm_exports = [], nm_reexports = []\<rparr>"

definition module_AppModule :: nestModule where
  "module_AppModule =
    \<lparr>nm_name = AppModule, nm_global = False,
     nm_imports = [ConfigModule_forRoot True, ThrottlerModule_forRoot, Own PrismaModule, Own QueueModule,
       Own CommonModule, Own UsersModule, Own SessionsModule, Own EmailModule, Own AuditModule, Own AuthModule,
       Own BillingModule, Own SubscriptionsModule, Own AdminModule, Own LeadsModule, Own ContactModule,
       Own InvitesModule, Own RenewalReminderModule, Own ProspectCampaignModule],
     nm_controllers = [ctor_AppController],
     nm_providers = [ctor_AllExceptionsFilter],
     nm_guards = [],
     nm_own = [], nm_framework = [''ThrottlerGuard''],
     nm_exports = [], nm_reexports = []\<rparr>"

definition module_AuditModule :: nestModule where
  "module_AuditModule =
    \<lparr>nm_name = AuditModule, nm_global = False,
     nm_imports = [],
     nm_controllers = [],
     nm_providers = [ctor_AuditService],
     nm_guards = [],
     nm_own = [], nm_framework = [],
     nm_exports = [AuditService], nm_reexports = []\<rparr>"

definition module_AuthModule :: nestModule where
  "module_AuthModule =
    \<lparr>nm_name = AuthModule, nm_global = False,
     nm_imports = [Own UsersModule, Own SessionsModule, Own EmailModule, Own AuditModule, Own BillingModule,
       JwtModule_registerAsync \<lparr>fc_inject = [ConfigService], fc_required = [''JWT_ACCESS_SECRET'']\<rparr>],
     nm_controllers = [ctor_AuthController],
     nm_providers = [ctor_AuthService, ctor_JwtAuthGuard],
     nm_guards = [],
     nm_own = [], nm_framework = [],
     nm_exports = [AuthService], nm_reexports = []\<rparr>"

definition module_BillingModule :: nestModule where
  "module_BillingModule =
    \<lparr>nm_name = BillingModule, nm_global = False,
     nm_imports = [Own UsersModule],
     nm_controllers = [],
     nm_providers = [ctor_StripeService, ctor_StripeCustomerService],
     nm_guards = [],
     nm_own = [], nm_framework = [],
     nm_exports = [StripeService, StripeCustomerService], nm_reexports = []\<rparr>"

definition module_CommonModule :: nestModule where
  "module_CommonModule =
    \<lparr>nm_name = CommonModule, nm_global = True,
     nm_imports = [Own QueueModule],
     nm_controllers = [],
     nm_providers = [ctor_TokenService, ctor_EncryptionService, ctor_GeoipService, ctor_TokenRevocationService],
     nm_guards = [],
     nm_own = [], nm_framework = [],
     nm_exports = [TokenService, EncryptionService, GeoipService, TokenRevocationService], nm_reexports = []\<rparr>"

definition module_ContactModule :: nestModule where
  "module_ContactModule =
    \<lparr>nm_name = ContactModule, nm_global = False,
     nm_imports = [Own EmailModule],
     nm_controllers = [ctor_ContactController],
     nm_providers = [ctor_ContactService],
     nm_guards = [],
     nm_own = [], nm_framework = [],
     nm_exports = [], nm_reexports = []\<rparr>"

definition module_EmailModule :: nestModule where
  "module_EmailModule =
    \<lparr>nm_name = EmailModule, nm_global = False,
     nm_imports = [RegisterQueue [(''email'', None), (''bulk-email'', None)]],
     nm_controllers = [ctor_UnsubscribeController],
     nm_providers = [ctor_EmailService, ctor_EmailProcessor, ctor_BulkEmailProcessor],
     nm_guards = [],
     nm_own = [], nm_framework = [],
     nm_exports = [EmailService], nm_reexports = []\<rparr>"

definition module_InvitesModule :: nestModule where
  "module_InvitesModule =
    \<lparr>nm_name = InvitesModule, nm_global = False,
     nm_imports = [Own EmailModule, Own UsersModule],
     nm_controllers = [ctor_InvitesController],
     nm_providers = [ctor_InvitesService],
     nm_guards = [],
     nm_own = [], nm_framework = [],
     nm_exports = [], nm_reexports = []\<rparr>"

definition module_LeadFinderBillingModule :: nestModule where
  "module_LeadFinderBillingModule =
    \<lparr>nm_name = LeadFinderBillingModule, nm_global = False,
     nm_imports = [Own BillingModule, Own UsersModule, Own AuditModule, Own EmailModule],
     nm_controllers = [ctor_LeadFinderBillingController],
     nm_providers = [ctor_LeadFinderBillingService],
     nm_guards = [],
     nm_own = [], nm_framework = [],
     nm_exports = [LeadFinderBillingService], nm_reexports = []\<rparr>"

definition module_LeadsModule :: nestModule where
  "module_LeadsModule =
    \<lparr>nm_name = LeadsModule, nm_global = False,
     nm_imports = [Own SubscriptionsModule, Own AuditModule,
       RegisterQueue [(''apollo-search'', Some search_job_options)]],
     nm_controllers = [ctor_LeadsController, ctor_PublicLeadsController],
     nm_providers = [ctor_LeadsService, ctor_ClaudeService, ctor_ApolloService, ctor_ApolloSearchProcessor],
     nm_guards = [ctor_DirectoryAccessGuard],
     nm_own = [], nm_framework = [],
     nm_exports = [LeadsService], nm_reexports = []\<rparr>"

definition module_PrismaModule :: nestModule where
  "module_PrismaModule =
    \<lparr>nm_name = PrismaModule, nm_global = True,
     nm_imports = [],
     nm_controllers = [],
     nm_providers = [ctor_PrismaService],
     nm_guards = [],
     nm_own = [], nm_framework = [],
     nm_exports = [PrismaService], nm_reexports = []\<rparr>"

definition module_ProspectCampaignModule :: nestModule where
  "module_ProspectCampaignModule =
    \<lparr>nm_name = ProspectCampaignModule, nm_global = False,
     nm_imports = [RegisterQueue [(''prospect-campaign'', None)], Own EmailModule, Own AuditModule],
     nm_controllers = [ctor_ResendWebhookController],
     nm_providers = [ctor_ProspectCampaignService, ctor_ProspectCampaignProcessor],
     nm_guards = [],
     nm_own = [BullQueue ''prospect-campaign''], nm_framework = [],
     nm_exports = [ProspectCampaignService], nm_reexports = []\<rparr>"

definition module_QueueModule :: nestModule where
  "module_QueueModule =
    \<lparr>nm_name = QueueModule, nm_global = True,
     nm_imports = [
       BullModule_forRootAsync \<lparr>fc_inject = [ConfigService], fc_required = [''REDIS_URL'']\<rparr> defaultJobOptions],
     nm_controllers = [],
     nm_providers = [ctor_REDIS_CLIENT],
     nm_guards = [],
     nm_own = [], nm_framework = [],
     nm_exports = [REDIS_CLIENT], nm_reexports = [''BullModule'']\<rparr>"

definition module_RenewalReminderModule :: nestModule where
  "module_RenewalReminderModule =
    \<lparr>nm_name = RenewalReminderModule, nm_global = False,
     nm_imports = [RegisterQueue [(''renewal-reminder'', None)], Own EmailModule],
     nm_controllers = [],
     nm_providers = [ctor_RenewalReminderService, ctor_RenewalReminderProcessor],
     nm_guards = [],
     nm_own = [BullQueue ''renewal-reminder''], nm_framework = [],
     nm_exports = [], nm_reexports = []\<rparr>"

definition module_SessionsModule :: nestModule where
  "module_SessionsModule =
    \<lparr>nm_name = SessionsModule, nm_global = False,
     nm_imports = [],
     nm_controllers = [],
     nm_providers = [ctor_DevicesService, ctor_SessionsService, ctor_RiskService],
     nm_guards = [],
     nm_own = [], nm_framework = [],
     nm_exports = [DevicesService, SessionsService, RiskService], nm_reexports = []\<rparr>"

definition module_SubscriptionsModule :: nestModule where
  "module_SubscriptionsModule =
    \<lparr>nm_name = SubscriptionsModule, nm_global = False,
     nm_imports = [Own BillingModule, Own UsersModule, Own AuditModule, Own EmailModule, Own LeadFinderBillingModule,
       RegisterQueue [(''stripe-webhook'', None)]],
     nm_controllers = [ctor_SubscriptionsController, ctor_WebhooksController],
     nm_providers = [ctor_SubscriptionsService, ctor_SubscriptionGuard, ctor_DirectoryAccessGuard,
       ctor_StripeWebhookProcessor],
     nm_guards = [],
     nm_own = [], nm_framework = [],
     nm_exports = [SubscriptionsService, SubscriptionGuard, DirectoryAccessGuard], nm_reexports = []\<rparr>"

definition module_UsersModule :: nestModule where
  "module_UsersModule =
    \<lparr>nm_name = UsersModule, nm_global = False,
     nm_imports = [],
     nm_controllers = [ctor_UsersController],
     nm_providers = [ctor_UsersService],
     nm_guards = [],
     nm_own = [], nm_framework = [],
     nm_exports = [UsersService], nm_reexports = []\<rparr>"

text \<open>All modules; \<open>AppModule\<close> is the one \<open>main.ts\<close> starts from.\<close>

definition app_modules :: "nestModule list" where
  "app_modules =
    [module_AppModule, module_AdminModule, module_AuditModule, module_AuthModule,
     module_BillingModule, module_CommonModule, module_ContactModule, module_EmailModule, module_InvitesModule,
     module_LeadFinderBillingModule, module_LeadsModule, module_PrismaModule, module_ProspectCampaignModule,
     module_QueueModule, module_RenewalReminderModule, module_SessionsModule, module_SubscriptionsModule,
     module_UsersModule]"

lemmas module_defs = module_AppModule_def module_AdminModule_def module_AuditModule_def module_AuthModule_def
  module_BillingModule_def module_CommonModule_def module_ContactModule_def module_EmailModule_def
  module_InvitesModule_def module_LeadFinderBillingModule_def module_LeadsModule_def module_PrismaModule_def
  module_ProspectCampaignModule_def module_QueueModule_def module_RenewalReminderModule_def module_SessionsModule_def
  module_SubscriptionsModule_def module_UsersModule_def

section \<open>Dependency injection\<close>

text \<open>
  What the framework offers: to every module, to a module that imports one of its modules, and through a module of the
  application that exports one of its modules.
\<close>

record framework =
  fw_core :: "injectable list"
  fw_exports :: "moduleImport \<Rightarrow> injectable list"
  fw_reexports :: "string \<Rightarrow> injectable list"

text \<open>
  What the application relies on: the \<open>Reflector\<close> is available everywhere, the configuration module provides
  \<open>ConfigService\<close>, a registered queue can be injected by its name, and the JWT module provides \<open>JwtService\<close>.
\<close>

definition framework_law :: "framework \<Rightarrow> bool" where
  "framework_law fw \<longleftrightarrow> Reflector \<in> set (fw_core fw)
     \<and> (\<forall>g. ConfigService \<in> set (fw_exports fw (ConfigModule_forRoot g)))
     \<and> (\<forall>qs n. n \<in> fst ` set qs \<longrightarrow> BullQueue n \<in> set (fw_exports fw (RegisterQueue qs)))
     \<and> (\<forall>f. JwtService \<in> set (fw_exports fw (JwtModule_registerAsync f)))"

definition exported :: "framework \<Rightarrow> nestModule \<Rightarrow> injectable list" where
  "exported fw m = nm_exports m @ concat (map (fw_reexports fw) (nm_reexports m))"

fun offered :: "framework \<Rightarrow> nestModule list \<Rightarrow> moduleImport \<Rightarrow> injectable list" where
  "offered fw app (Own n) = concat (map (exported fw) (filter (\<lambda>m. nm_name m = n) app))"
| "offered fw app i = fw_exports fw i"

text \<open>The configuration module is imported with \<open>isGlobal: true\<close>.\<close>

definition everywhere :: "framework \<Rightarrow> nestModule list \<Rightarrow> injectable list" where
  "everywhere fw app = fw_core fw @ concat (map (exported fw) (filter nm_global app))
     @ (if list_ex (\<lambda>m. ConfigModule_forRoot True \<in> set (nm_imports m)) app
        then fw_exports fw (ConfigModule_forRoot True) else [])"

definition visible :: "framework \<Rightarrow> nestModule list \<Rightarrow> nestModule \<Rightarrow> injectable list" where
  "visible fw app m = map cd_class (nm_providers m) @ concat (map (offered fw app) (nm_imports m)) @ everywhere fw app"

text \<open>The objects Nest builds; only a provider can be injected into others.\<close>

type_synonym instance_def = "bool \<times> nestModule \<times> classDef"

definition module_instances :: "nestModule \<Rightarrow> instance_def list" where
  "module_instances m = map (\<lambda>d. (True, m, d)) (nm_providers m)
     @ map (\<lambda>d. (False, m, d)) (nm_controllers m @ nm_guards m)"

definition app_instances :: "nestModule list \<Rightarrow> instance_def list" where
  "app_instances app = concat (map module_instances app)"

definition provided :: "nestModule list \<Rightarrow> injectable list" where
  "provided app = map cd_class (concat (map nm_providers app))"

definition inst_class :: "instance_def \<Rightarrow> injectable" where
  "inst_class x = cd_class (snd (snd x))"

definition resolved :: "framework \<Rightarrow> nestModule list \<Rightarrow> (injectable \<Rightarrow> bool) \<Rightarrow> instance_def \<Rightarrow> bool" where
  "resolved fw app built x = (case x of (_, m, d) \<Rightarrow>
     list_all (\<lambda>t. t \<in> set (visible fw app m) \<and> (t \<in> set (provided app) \<longrightarrow> built t)) (cd_inject d))"

lemma app_instances_iff:
  "(p, m, d) \<in> set (app_instances app) \<longleftrightarrow>
     m \<in> set app \<and> d \<in> set (if p then nm_providers m else nm_controllers m @ nm_guards m)"
  by (auto simp: app_instances_def module_instances_def)

text \<open>Build what can be built, round by round; \<open>Inl\<close> the objects that are stuck.\<close>

function construct ::
  "framework \<Rightarrow> nestModule list \<Rightarrow> injectable list \<Rightarrow> instance_def list \<Rightarrow> instance_def list + instance_def list" where
  "construct fw app built pending =
     (if pending = [] then Inr []
      else let now = filter (resolved fw app (\<lambda>t. t \<in> set built)) pending;
               later = filter (\<lambda>x. \<not> resolved fw app (\<lambda>t. t \<in> set built) x) pending
           in if now = [] then Inl pending
              else (case construct fw app (map inst_class (filter fst now) @ built) later of
                      Inl stuck \<Rightarrow> Inl stuck
                    | Inr order \<Rightarrow> Inr (now @ order)))"
  by pat_completeness auto

termination
  by (relation "measure (\<lambda>(fw, app, built, pending). length pending)")
    (auto simp: filter_empty_conv length_filter_less)

declare construct.simps [simp del]

lemma construct_Nil [simp]: "construct fw app built [] = Inr []"
  by (simp add: construct.simps [of _ _ _ "[]"])

text \<open>The declarative reading: a provider can be built when all it needs is visible and can be built.\<close>

inductive buildable :: "framework \<Rightarrow> nestModule list \<Rightarrow> injectable \<Rightarrow> bool" for fw app where
  build: "\<lbrakk>(True, m, d) \<in> set (app_instances app);
      \<And>t. t \<in> set (cd_inject d) \<Longrightarrow> t \<in> set (visible fw app m);
      \<And>t. t \<in> set (cd_inject d) \<Longrightarrow> t \<in> set (provided app) \<Longrightarrow> buildable fw app t\<rbrakk>
    \<Longrightarrow> buildable fw app (cd_class d)"

lemma resolved_iff:
  "resolved fw app built (p, m, d) \<longleftrightarrow>
     (\<forall>t \<in> set (cd_inject d). t \<in> set (visible fw app m) \<and> (t \<in> set (provided app) \<longrightarrow> built t))"
  by (simp add: resolved_def list_all_iff)

lemma resolved_mono:
  "resolved fw app built x \<Longrightarrow> (\<And>t. t \<in> set (provided app) \<Longrightarrow> built t \<Longrightarrow> built' t) \<Longrightarrow> resolved fw app built' x"
  by (cases x) (auto simp: resolved_iff)

text \<open>An order that \<open>construct\<close> returns has every object once, after all it depends on.\<close>

definition well_ordered :: "framework \<Rightarrow> nestModule list \<Rightarrow> injectable list \<Rightarrow> instance_def list \<Rightarrow> bool" where
  "well_ordered fw app built order \<longleftrightarrow> (\<forall>xs x ys. order = xs @ x # ys
     \<longrightarrow> resolved fw app (\<lambda>t. t \<in> set built \<or> t \<in> inst_class ` {y \<in> set xs. fst y}) x)"

lemma well_ordered_append:
  assumes "\<And>x. x \<in> set now \<Longrightarrow> resolved fw app (\<lambda>t. t \<in> set built) x"
    and rest: "well_ordered fw app (map inst_class (filter fst now) @ built) order"
  shows "well_ordered fw app built (now @ order)"
  unfolding well_ordered_def
proof (intro allI impI)
  fix xs x ys
  assume split: "now @ order = xs @ x # ys"
  show "resolved fw app (\<lambda>t. t \<in> set built \<or> t \<in> inst_class ` {y \<in> set xs. fst y}) x"
  proof (cases "length xs < length now")
    case True
    with split have "x \<in> set now" by (metis nth_append nth_append_length nth_mem)
    from assms(1) [OF this] show ?thesis by (rule resolved_mono) simp
  next
    case False
    with split obtain us where us: "xs = now @ us" "order = us @ x # ys"
      by (auto simp: append_eq_append_conv2 not_less)
    from rest us(2)
    have "resolved fw app (\<lambda>t. t \<in> set (map inst_class (filter fst now) @ built) \<or> t \<in> inst_class ` {y \<in> set us. fst y}) x"
      unfolding well_ordered_def by blast
    then show ?thesis by (rule resolved_mono) (auto simp: us(1))
  qed
qed

lemma construct_sound:
  "construct fw app built pending = Inr order \<Longrightarrow> mset order = mset pending \<and> well_ordered fw app built order"
proof (induction fw app built pending arbitrary: order rule: construct.induct)
  case (1 fw app built pending)
  let ?ok = "resolved fw app (\<lambda>t. t \<in> set built)"
  show ?case
  proof (cases "pending = []")
    case True
    with 1(2) show ?thesis by (simp add: well_ordered_def)
  next
    case False
    with 1(2) obtain rest where now: "filter ?ok pending \<noteq> []" and order: "order = filter ?ok pending @ rest"
      and rest: "construct fw app (map inst_class (filter fst (filter ?ok pending)) @ built) (filter (\<lambda>x. \<not> ?ok x) pending) = Inr rest"
      by (auto simp: construct.simps [of _ _ _ pending] Let_def split: if_splits sum.splits)
    note ih = 1(1) [OF False refl refl now rest]
    have "well_ordered fw app built order"
      unfolding order using ih by (intro well_ordered_append) auto
    moreover have "mset order = mset pending"
      using ih by (simp add: order)
    ultimately show ?thesis by simp
  qed
qed

text \<open>
  The search is complete: as long as every provider is either pending or built, a round that builds nothing would
  contradict the rule of \<open>buildable\<close>, so objects that can be built are never stuck.
\<close>

lemma stuck_all_built:
  assumes inv: "\<And>x. x \<in> set (app_instances app) \<Longrightarrow> fst x \<Longrightarrow> x \<in> set pending \<or> inst_class x \<in> set built"
    and none: "filter (resolved fw app (\<lambda>t. t \<in> set built)) pending = []"
  shows "buildable fw app t \<Longrightarrow> t \<in> set built"
proof (induction rule: buildable.induct)
  case (build m d)
  then have "resolved fw app (\<lambda>t. t \<in> set built) (True, m, d)" by (auto simp: resolved_iff)
  with none have "(True, m, d) \<notin> set pending" by (auto simp: filter_empty_conv)
  with inv [OF build(1)] show ?case by (simp add: inst_class_def)
qed

lemma construct_complete:
  assumes "\<And>x. x \<in> set pending \<Longrightarrow> resolved fw app (buildable fw app) x"
    and "\<And>x. x \<in> set (app_instances app) \<Longrightarrow> fst x \<Longrightarrow> x \<in> set pending \<or> inst_class x \<in> set built"
  shows "\<exists>order. construct fw app built pending = Inr order"
  using assms
proof (induction fw app built pending rule: construct.induct)
  case (1 fw app built pending)
  let ?ok = "resolved fw app (\<lambda>t. t \<in> set built)"
  show ?case
  proof (cases "pending = []")
    case False
    have now: "filter ?ok pending \<noteq> []"
    proof
      assume none: "filter ?ok pending = []"
      from False obtain x where x: "x \<in> set pending" by (cases pending) auto
      have "?ok x"
        using 1(2) [OF x] stuck_all_built [OF 1(3) none] by (rule resolved_mono) auto
      with none x show False by (auto simp: filter_empty_conv)
    qed
    have "x \<in> set (filter (\<lambda>x. \<not> ?ok x) pending) \<or> inst_class x \<in> set (map inst_class (filter fst (filter ?ok pending)) @ built)"
      if "x \<in> set (app_instances app)" "fst x" for x
      using 1(3) [OF that] that(2) by (cases "?ok x") (simp_all, blast+)
    then have "\<exists>order. construct fw app (map inst_class (filter fst (filter ?ok pending)) @ built)
        (filter (\<lambda>x. \<not> ?ok x) pending) = Inr order"
      using 1(2) by (intro 1(1) [OF False refl refl now]) simp_all
    with now show ?thesis by (auto simp: construct.simps [of _ _ _ pending] Let_def)
  qed simp
qed

lemma construct_buildable:
  assumes "construct fw app built pending = Inr order"
    and "set pending \<subseteq> set (app_instances app)" "\<And>t. t \<in> set built \<Longrightarrow> buildable fw app t"
  shows "\<forall>x \<in> set pending. resolved fw app (buildable fw app) x"
  using assms
proof (induction fw app built pending arbitrary: order rule: construct.induct)
  case (1 fw app built pending)
  let ?ok = "resolved fw app (\<lambda>t. t \<in> set built)"
  show ?case
  proof (cases "pending = []")
    case False
    with 1(2) obtain rest where now: "filter ?ok pending \<noteq> []"
      and rest: "construct fw app (map inst_class (filter fst (filter ?ok pending)) @ built) (filter (\<lambda>x. \<not> ?ok x) pending) = Inr rest"
      by (auto simp: construct.simps [of _ _ _ pending] Let_def split: if_splits sum.splits)
    have ok: "resolved fw app (buildable fw app) x" if "?ok x" for x
      using that 1(4) by (rule resolved_mono) simp
    have "buildable fw app (inst_class x)" if x: "x \<in> set pending" "?ok x" "fst x" for x
    proof -
      obtain m d where md: "x = (True, m, d)" using x(3) by (cases x) auto
      show ?thesis
        using x(1) 1(3) ok [OF x(2)] unfolding md by (auto simp: resolved_iff inst_class_def intro: build [of m d])
    qed
    then have "\<forall>x \<in> set (filter (\<lambda>x. \<not> ?ok x) pending). resolved fw app (buildable fw app) x"
      using 1(3,4) by (intro 1(1) [OF False refl refl now rest]) auto
    then have "resolved fw app (buildable fw app) x" if "x \<in> set pending" "\<not> ?ok x" for x
      using that by (metis (mono_tags, lifting) mem_Collect_eq set_filter)
    with ok show ?thesis by blast
  qed simp
qed

lemma buildable_mono:
  assumes more: "\<And>m. m \<in> set app \<Longrightarrow> set (visible fw app m) \<subseteq> set (visible fw' app m)"
  shows "buildable fw app t \<Longrightarrow> buildable fw' app t"
proof (induction rule: buildable.induct)
  case (build m d)
  have "m \<in> set app" using build(1) by (simp add: app_instances_iff)
  with build more show ?case by (intro buildable.build [of m d]) blast+
qed

lemma resolved_more:
  assumes more: "\<And>m. m \<in> set app \<Longrightarrow> set (visible fw app m) \<subseteq> set (visible fw' app m)"
    and x: "x \<in> set (app_instances app)" "resolved fw app (buildable fw app) x"
  shows "resolved fw' app (buildable fw' app) x"
proof (cases x)
  case (fields p m d)
  have "m \<in> set app" using x(1) by (simp add: fields app_instances_iff)
  with more [OF this] x(2) buildable_mono [OF more] show ?thesis by (auto simp: fields resolved_iff)
qed

text \<open>The framework that offers only what the law asks for.\<close>

definition bare_framework :: framework where
  "bare_framework = \<lparr>fw_core = [Reflector],
     fw_exports = (\<lambda>i. case i of
         ConfigModule_forRoot _ \<Rightarrow> [ConfigService]
       | RegisterQueue qs \<Rightarrow> map (BullQueue \<circ> fst) qs
       | JwtModule_registerAsync _ \<Rightarrow> [JwtService]
       | _ \<Rightarrow> []),
     fw_reexports = (\<lambda>_. [])\<rparr>"

lemma bare_framework_law: "framework_law bare_framework"
  by (auto simp: framework_law_def bare_framework_def)

lemma exported_more: "set (exported bare_framework m) \<subseteq> set (exported fw m)"
  by (auto simp: exported_def bare_framework_def)

lemma offered_more:
  assumes "framework_law fw"
  shows "set (offered bare_framework app i) \<subseteq> set (offered fw app i)"
proof (cases i)
  case (Own n)
  have "set (exported bare_framework m) \<subseteq> set (exported fw m)" for m by (rule exported_more)
  then show ?thesis unfolding Own offered.simps by (simp, blast)
qed (use assms in \<open>auto simp: framework_law_def bare_framework_def\<close>)

lemma everywhere_more:
  assumes "framework_law fw"
  shows "set (everywhere bare_framework app) \<subseteq> set (everywhere fw app)"
proof -
  have "set (fw_core bare_framework) \<subseteq> set (fw_core fw)"
    "set (fw_exports bare_framework (ConfigModule_forRoot True)) \<subseteq> set (fw_exports fw (ConfigModule_forRoot True))"
    using assms by (simp_all add: framework_law_def bare_framework_def)
  then show ?thesis using exported_more [of _ fw] unfolding everywhere_def by (simp, blast)
qed

lemma visible_more:
  assumes "framework_law fw"
  shows "set (visible bare_framework app m) \<subseteq> set (visible fw app m)"
proof -
  have "set (concat (map (offered bare_framework app) is)) \<subseteq> set (concat (map (offered fw app) is))" for "is"
    using offered_more [OF assms, of app] by (simp, blast)
  then show ?thesis using everywhere_more [OF assms, of app] unfolding visible_def set_append by blast
qed

text \<open>
  The contract of a layered application: a class depends on lower layers only, and sees what it depends on. This alone
  makes every provider buildable.
\<close>

locale layered_application =
  fixes fw :: framework and app :: "nestModule list" and rank :: "injectable \<Rightarrow> nat"
  assumes layered: "(p, m, d) \<in> set (app_instances app) \<Longrightarrow> resolved fw app (\<lambda>t. rank t < rank (cd_class d)) (p, m, d)"
begin

lemma provided_buildable: "t \<in> set (provided app) \<Longrightarrow> buildable fw app t"
proof (induction "rank t" arbitrary: t rule: less_induct)
  case less
  then obtain m d where md: "(True, m, d) \<in> set (app_instances app)" "t = cd_class d"
    by (auto simp: provided_def app_instances_iff)
  from layered [OF md(1)] md(2) less.hyps show ?case
    unfolding md(2) by (intro build [OF md(1)]) (auto simp: resolved_iff)
qed

lemma instances_resolved: "x \<in> set (app_instances app) \<Longrightarrow> resolved fw app (buildable fw app) x"
  by (cases x) (auto intro: resolved_mono [OF layered] provided_buildable)

end

text \<open>The layers of this application, from the infrastructure up to the controllers of the composed services.\<close>

fun layer :: "injectable \<Rightarrow> nat" where
  "layer AllExceptionsFilter = 1"
| "layer ApolloService = 1"
| "layer AppController = 1"
| "layer ClaudeService = 1"
| "layer EmailProcessor = 1"
| "layer EmailService = 1"
| "layer EncryptionService = 1"
| "layer GeoipService = 1"
| "layer PrismaService = 1"
| "layer REDIS_CLIENT = 1"
| "layer RolesGuard = 1"
| "layer StripeService = 1"
| "layer TokenService = 1"
| "layer AuditService = 2"
| "layer BulkEmailProcessor = 2"
| "layer ContactService = 2"
| "layer DevicesService = 2"
| "layer DirectoryAccessGuard = 2"
| "layer RenewalReminderService = 2"
| "layer RiskService = 2"
| "layer SessionsService = 2"
| "layer SubscriptionGuard = 2"
| "layer TokenRevocationService = 2"
| "layer UnsubscribeController = 2"
| "layer UsersService = 2"
| "layer WebhooksController = 2"
| "layer AuthService = 3"
| "layer ContactController = 3"
| "layer InvitesService = 3"
| "layer JwtAuthGuard = 3"
| "layer LeadsService = 3"
| "layer ProspectCampaignService = 3"
| "layer RenewalReminderProcessor = 3"
| "layer StripeCustomerService = 3"
| "layer UsersController = 3"
| "layer AdminService = 4"
| "layer ApolloSearchProcessor = 4"
| "layer AuthController = 4"
| "layer InvitesController = 4"
| "layer LeadFinderBillingService = 4"
| "layer LeadsController = 4"
| "layer ProspectCampaignProcessor = 4"
| "layer PublicLeadsController = 4"
| "layer ResendWebhookController = 4"
| "layer SubscriptionsService = 4"
| "layer AdminController = 5"
| "layer LeadFinderBillingController = 5"
| "layer StripeWebhookProcessor = 5"
| "layer SubscriptionsController = 5"
| "layer _ = 0"

lemma ctor_sel [simp]:
  "cd_class (ctor a b c d) = a" "cd_inject (ctor a b c d) = b" "cd_required (ctor a b c d) = c" "cd_optional (ctor a b c d) = d"
  by (simp_all add: ctor_def)

lemma app_exports:
  "offered bare_framework app_modules (Own n) = (case n of
       AuditModule \<Rightarrow> [AuditService]
     | AuthModule \<Rightarrow> [AuthService]
     | BillingModule \<Rightarrow> [StripeService, StripeCustomerService]
     | CommonModule \<Rightarrow> [TokenService, EncryptionService, GeoipService, TokenRevocationService]
     | EmailModule \<Rightarrow> [EmailService]
     | LeadFinderBillingModule \<Rightarrow> [LeadFinderBillingService]
     | LeadsModule \<Rightarrow> [LeadsService]
     | PrismaModule \<Rightarrow> [PrismaService]
     | ProspectCampaignModule \<Rightarrow> [ProspectCampaignService]
     | QueueModule \<Rightarrow> [REDIS_CLIENT]
     | SessionsModule \<Rightarrow> [DevicesService, SessionsService, RiskService]
     | SubscriptionsModule \<Rightarrow> [SubscriptionsService, SubscriptionGuard, DirectoryAccessGuard]
     | UsersModule \<Rightarrow> [UsersService]
     | _ \<Rightarrow> [])"
  by (cases n) (simp_all add: app_modules_def module_defs exported_def bare_framework_def)

lemma app_everywhere:
  "set (everywhere bare_framework app_modules) = {ConfigService, Reflector, PrismaService, REDIS_CLIENT,
     TokenService, EncryptionService, GeoipService, TokenRevocationService}"
  by (auto simp: everywhere_def app_modules_def module_defs exported_def bare_framework_def)

lemma bare_exports [simp]:
  "fw_exports bare_framework (RegisterQueue qs) = map (BullQueue \<circ> fst) qs"
  "fw_exports bare_framework (JwtModule_registerAsync f) = [JwtService]"
  "fw_exports bare_framework (ConfigModule_forRoot g) = [ConfigService]"
  "fw_exports bare_framework ThrottlerModule_forRoot = []"
  "fw_exports bare_framework (BullModule_forRootAsync f jo) = []"
  by (simp_all add: bare_framework_def)

definition layered_module :: "nestModule \<Rightarrow> bool" where
  "layered_module m \<longleftrightarrow> list_all (\<lambda>d. list_all (\<lambda>t. t \<in> set (visible bare_framework app_modules m)
     \<and> layer t < layer (cd_class d)) (cd_inject d)) (nm_providers m @ nm_controllers m @ nm_guards m)"

lemma app_layered: "list_all layered_module app_modules"
proof -
  have "\<forall>m \<in> set app_modules. layered_module m"
    unfolding layered_module_def visible_def set_append app_everywhere
    by (subst (1) app_modules_def) (simp add: module_defs ctor_defs app_exports del: offered.simps(1))
  then show ?thesis by (simp add: list_all_iff)
qed

interpretation conference: layered_application bare_framework app_modules layer
proof
  fix p m d
  assume "(p, m, d) \<in> set (app_instances app_modules)"
  with app_layered show "resolved bare_framework app_modules (\<lambda>t. layer t < layer (cd_class d)) (p, m, d)"
    by (cases p) (auto simp: app_instances_iff list_all_iff layered_module_def resolved_iff)
qed

lemma app_resolved:
  assumes "framework_law fw" "x \<in> set (app_instances app_modules)"
  shows "resolved fw app_modules (buildable fw app_modules) x"
  using assms visible_more conference.instances_resolved by (blast intro: resolved_more)

lemma app_constructed:
  assumes "framework_law fw"
  shows "\<exists>order. construct fw app_modules [] (app_instances app_modules) = Inr order
    \<and> mset order = mset (app_instances app_modules) \<and> well_ordered fw app_modules [] order"
proof -
  obtain order where "construct fw app_modules [] (app_instances app_modules) = Inr order"
    using construct_complete [OF app_resolved [OF assms]] by blast
  with construct_sound show ?thesis by blast
qed

section \<open>Starting the application\<close>

text \<open>
  \<open>NestFactory.create\<close>: the environment is validated, the factories of the asynchronous modules and the constructors
  run. A key that is read with \<open>getOrThrow\<close> and missing throws, and so does a two-factor key that does not decode to 32
  bytes (\<open>encryption.service.ts\<close>); \<open>bytes\<close> is the length of the decoded key.
\<close>

datatype startError =
    InvalidEnvironment | UnresolvedDependencies "injectable list" | MissingKey string | BadEncryptionKey

fun factory_keys :: "moduleImport \<Rightarrow> string list" where
  "factory_keys (JwtModule_registerAsync f) = fc_required f"
| "factory_keys (BullModule_forRootAsync f _) = fc_required f"
| "factory_keys _ = []"

definition getOrThrow_all :: "validated \<Rightarrow> string list \<Rightarrow> startError + unit" where
  "getOrThrow_all env keys =
     (case find (\<lambda>k. env k = None) keys of Some k \<Rightarrow> Inl (MissingKey k) | None \<Rightarrow> Inr ())"

definition run_ctor :: "(json option \<Rightarrow> nat) \<Rightarrow> validated \<Rightarrow> classDef \<Rightarrow> startError + injectable" where
  "run_ctor bytes env d =
     (case getOrThrow_all env (cd_required d) of
        Inl e \<Rightarrow> Inl e
      | Inr _ \<Rightarrow> if cd_class d = EncryptionService \<and> bytes (env ''TWO_FACTOR_ENCRYPTION_KEY'') \<noteq> 32
                 then Inl BadEncryptionKey else Inr (cd_class d))"

fun run_ctors :: "(json option \<Rightarrow> nat) \<Rightarrow> validated \<Rightarrow> classDef list \<Rightarrow> startError + injectable list" where
  "run_ctors bytes env [] = Inr []"
| "run_ctors bytes env (d # ds) =
     (case run_ctor bytes env d of
        Inl e \<Rightarrow> Inl e
      | Inr x \<Rightarrow> (case run_ctors bytes env ds of Inl e \<Rightarrow> Inl e | Inr xs \<Rightarrow> Inr (x # xs)))"

definition create_application ::
  "framework \<Rightarrow> (envVar list \<Rightarrow> environment \<Rightarrow> validated option) \<Rightarrow> (json option \<Rightarrow> nat) \<Rightarrow> environment
    \<Rightarrow> startError + validated \<times> injectable list" where
  "create_application fw validate bytes raw =
     (case validate envValidationSchema raw of
        None \<Rightarrow> Inl InvalidEnvironment
      | Some env \<Rightarrow>
          (case construct fw app_modules [] (app_instances app_modules) of
             Inl stuck \<Rightarrow> Inl (UnresolvedDependencies (map inst_class stuck))
           | Inr order \<Rightarrow>
               (case getOrThrow_all env (concat (map factory_keys (concat (map nm_imports app_modules)))) of
                  Inl e \<Rightarrow> Inl e
                | Inr _ \<Rightarrow> map_sum id (Pair env) (run_ctors bytes env (map (snd \<circ> snd) order)))))"

lemma getOrThrow_all_ok: "(\<And>k. k \<in> set keys \<Longrightarrow> env k \<noteq> None) \<Longrightarrow> getOrThrow_all env keys = Inr ()"
  by (auto simp: getOrThrow_all_def find_Some_iff split: option.splits)

text \<open>The names the schema requires.\<close>

definition required_names :: "string list" where
  "required_names = map ev_name (filter ev_required envValidationSchema)"

lemma required_name_set:
  assumes "joi_law validate" "validate envValidationSchema raw = Some env" "k \<in> set required_names"
  shows "env k \<noteq> None"
proof -
  obtain v where v: "v \<in> set envValidationSchema" "ev_required v" "k = ev_name v"
    using assms(3) by (auto simp: required_names_def)
  with assms(1,2) show ?thesis unfolding joi_law_def by (fastforce split: option.splits)
qed

lemma keys_required:
  "list_all (\<lambda>k. k \<in> set required_names) (concat (map factory_keys (concat (map nm_imports app_modules))))"
  "list_all (\<lambda>m. list_all (\<lambda>d. list_all (\<lambda>k. k \<in> set required_names) (cd_required d))
     (nm_providers m @ nm_controllers m @ nm_guards m)) app_modules"
  by (simp_all add: app_modules_def module_defs ctor_defs required_names_def envValidationSchema_def
      required_def setting_def)

lemma run_ctors_eq:
  assumes "\<And>d k. d \<in> set ds \<Longrightarrow> k \<in> set (cd_required d) \<Longrightarrow> env k \<noteq> None"
  shows "run_ctors bytes env ds =
    (if EncryptionService \<in> cd_class ` set ds \<and> bytes (env ''TWO_FACTOR_ENCRYPTION_KEY'') \<noteq> 32
     then Inl BadEncryptionKey else Inr (map cd_class ds))"
  using assms
proof (induction ds)
  case (Cons d ds)
  have "getOrThrow_all env (cd_required d) = Inr ()" using Cons.prems [of d] by (intro getOrThrow_all_ok) simp
  then have "run_ctor bytes env d = (if cd_class d = EncryptionService \<and> bytes (env ''TWO_FACTOR_ENCRYPTION_KEY'') \<noteq> 32
      then Inl BadEncryptionKey else Inr (cd_class d))"
    by (simp add: run_ctor_def)
  moreover have "run_ctors bytes env ds =
    (if EncryptionService \<in> cd_class ` set ds \<and> bytes (env ''TWO_FACTOR_ENCRYPTION_KEY'') \<noteq> 32
     then Inl BadEncryptionKey else Inr (map cd_class ds))"
    using Cons.prems by (intro Cons.IH) (metis list.set_intros(2))
  ultimately show ?case by auto
qed simp

lemma application_created:
  assumes law: "framework_law fw" and joi: "joi_law validate"
  shows "case validate envValidationSchema raw of
      None \<Rightarrow> create_application fw validate bytes raw = Inl InvalidEnvironment
    | Some env \<Rightarrow> (\<exists>order. mset order = mset (app_instances app_modules) \<and> well_ordered fw app_modules [] order
        \<and> create_application fw validate bytes raw =
            (if bytes (env ''TWO_FACTOR_ENCRYPTION_KEY'') = 32 then Inr (env, map inst_class order) else Inl BadEncryptionKey))"
proof (cases "validate envValidationSchema raw")
  case None
  then show ?thesis by (simp add: create_application_def)
next
  case (Some env)
  obtain order where order: "construct fw app_modules [] (app_instances app_modules) = Inr order"
      "mset order = mset (app_instances app_modules)" "well_ordered fw app_modules [] order"
    using app_constructed [OF law] by blast
  note set_order = mset_eq_setD [OF order(2)]
  have env: "env k \<noteq> None" if "k \<in> set required_names" for k
    using required_name_set [OF joi Some that] .
  have "getOrThrow_all env (concat (map factory_keys (concat (map nm_imports app_modules)))) = Inr ()"
    using keys_required(1) env by (intro getOrThrow_all_ok) (auto simp: list_all_iff)
  moreover have "env k \<noteq> None" if "d \<in> set (map (snd \<circ> snd) order)" "k \<in> set (cd_required d)" for d k
  proof -
    from that(1) obtain p m where "(p, m, d) \<in> set (app_instances app_modules)"
      unfolding set_order [symmetric] by auto
    then have "k \<in> set required_names"
      using keys_required(2) that(2) by (auto simp: app_instances_iff list_all_iff split: if_splits)
    then show ?thesis by (rule env)
  qed
  moreover have "(True, module_CommonModule, ctor_EncryptionService) \<in> set order"
    unfolding set_order by (simp add: app_instances_iff app_modules_def module_CommonModule_def)
  then have "EncryptionService \<in> cd_class ` set (map (snd \<circ> snd) order)"
    by (force simp: ctor_EncryptionService_def)
  moreover have "map cd_class (map (snd \<circ> snd) order) = map inst_class order" by (simp add: inst_class_def)
  ultimately have "create_application fw validate bytes raw =
      (if bytes (env ''TWO_FACTOR_ENCRYPTION_KEY'') = 32 then Inr (env, map inst_class order) else Inl BadEncryptionKey)"
    using run_ctors_eq [of "map (snd \<circ> snd) order" env bytes]
    unfolding create_application_def Some option.case order(1) sum.case by simp
  with Some order show ?thesis by auto
qed

text \<open>
  C19: The application is wired. Whatever the framework offers beyond its documentation, an environment that the schema
  accepts lets \<open>NestFactory.create\<close> build every provider, controller and guard of every module exactly once, each after
  everything it injects and with every dependency visible in its own module; no constructor misses a key of the
  configuration. One check is left to the constructors: a two-factor key that is valid base64 but not 32 bytes long
  passes the schema and stops the start. Without a valid environment nothing is built.
\<close>

theorem application_starts:
  assumes law: "framework_law fw" and joi: "joi_law validate"
  shows "case validate envValidationSchema raw of
      None \<Rightarrow> create_application fw validate bytes raw = Inl InvalidEnvironment
    | Some env \<Rightarrow> (\<exists>order. mset order = mset (app_instances app_modules) \<and> well_ordered fw app_modules [] order
        \<and> create_application fw validate bytes raw =
            (if bytes (env ''TWO_FACTOR_ENCRYPTION_KEY'') = 32 then Inr (env, map inst_class order) else Inl BadEncryptionKey))"
  by (rule application_created [OF assms])

theorem application_starts_witness:
  "\<exists>env order. create_application bare_framework sample_validate (\<lambda>_. 32) sample_environment = Inr (env, map inst_class order)
     \<and> mset order = mset (app_instances app_modules)"
proof -
  obtain env where env: "sample_validate envValidationSchema sample_environment = Some env"
    by (simp add: sample_validate_def sample_environment_def envValidationSchema_def required_def setting_def)
  from application_starts [OF bare_framework_law sample_joi, where raw = sample_environment and bytes = "\<lambda>_. 32"] show ?thesis
    by (auto simp: env)
qed

section \<open>Queues and their workers\<close>

text \<open>The workers (\<open>@Processor\<close>) with the queue each serves and its rate limit, jobs per milliseconds.\<close>

definition workers :: "(string \<times> injectable \<times> (nat \<times> nat) option) list" where
  "workers =
     [(''email'', EmailProcessor, None),
      (''bulk-email'', BulkEmailProcessor, Some (10, 1000)),
      (''stripe-webhook'', StripeWebhookProcessor, None),
      (''apollo-search'', ApolloSearchProcessor, None),
      (''renewal-reminder'', RenewalReminderProcessor, None),
      (''prospect-campaign'', ProspectCampaignProcessor, None)]"

fun queues_of :: "moduleImport \<Rightarrow> (string \<times> jobOptions option) list" where
  "queues_of (RegisterQueue qs) = qs"
| "queues_of _ = []"

fun root_options :: "moduleImport \<Rightarrow> jobOptions list" where
  "root_options (BullModule_forRootAsync _ jo) = [jo]"
| "root_options _ = []"

text \<open>The options of a queue replace those of the root; they are not merged.\<close>

definition queue_options :: "nestModule list \<Rightarrow> string \<Rightarrow> jobOptions option" where
  "queue_options app q =
     (let imports = concat (map nm_imports app)
      in case map_of (concat (map queues_of imports)) q of
           None \<Rightarrow> None
         | Some (Some jo) \<Rightarrow> Some jo
         | Some None \<Rightarrow> (case concat (map root_options imports) of [] \<Rightarrow> None | jo # _ \<Rightarrow> Some jo))"

lemma queues_served:
  "\<forall>m \<in> set app_modules. \<forall>q \<in> fst ` set (concat (map queues_of (nm_imports m))).
     map_option fst (map_of workers q) \<in> Some ` cd_class ` set (nm_providers m)"
  "distinct (map fst workers)" "distinct (map (fst \<circ> snd) workers)"
  by (simp_all add: app_modules_def module_defs workers_def ctor_defs)

lemma job_attempts:
  "map_option jo_attempts (queue_options app_modules q) =
     (if q = ''apollo-search'' then Some 1 else if q \<in> set (map fst workers) then Some JOB_ATTEMPTS else None)"
  by (simp add: queue_options_def app_modules_def module_defs workers_def JOB_ATTEMPTS_def search_job_options_def
      defaultJobOptions_def)

end
