(* ===== verification/Bootstrap.thy ===== *)
theory Bootstrap
  imports Complex_Main Wiring Queueing
begin

text \<open>
  The process of \<open>main.ts\<close>: the graceful shutdown as a machine driven by the events of Node, the middleware in the order
  of registration and what it makes of the body of a request, and \<open>bootstrap\<close>, from the creation of the application
  (\<open>Wiring\<close>) over the hooks of \<open>prisma.service.ts\<close> and the two scheduling modules to listening on the port.
\<close>

section \<open>Graceful shutdown\<close>

definition HARD_SHUTDOWN_TIMEOUT_MS :: nat where "HARD_SHUTDOWN_TIMEOUT_MS = 10000"

datatype signal = SIGTERM | SIGINT

text \<open>
  What can happen to the process: a signal, the timer, the end of \<open>app.close()\<close> (resolved or rejected), and an event loop
  with nothing left to do, at which Node exits by itself; the timer is \<open>unref\<close>ed and does not prevent that.
\<close>

datatype shutdownEvent = Signal signal | ForceExitTimer | CloseResolves | CloseRejects string | LoopEmpty

datatype shutdownLog = Received signal | DidNotFinish nat | ErrorDuringShutdown string

record process =
  pr_shuttingDown :: bool
  pr_timer :: "nat option"
  pr_closes :: nat
  pr_exit :: "(nat \<times> nat) option"
  pr_log :: "shutdownLog list"

definition running :: process where
  "running = \<lparr>pr_shuttingDown = False, pr_timer = None, pr_closes = 0, pr_exit = None, pr_log = []\<rparr>"

definition log_line :: "shutdownLog \<Rightarrow> process \<Rightarrow> process" where
  "log_line l p = p\<lparr>pr_log := pr_log p @ [l]\<rparr>"

definition process_exit :: "nat \<Rightarrow> nat \<Rightarrow> process \<Rightarrow> process" where
  "process_exit t code p = p\<lparr>pr_exit := Some (t, code)\<rparr>"

definition shutdown :: "nat \<Rightarrow> signal \<Rightarrow> process \<Rightarrow> process" where
  "shutdown t s p =
     (if pr_shuttingDown p then p
      else (log_line (Received s) p)\<lparr>pr_shuttingDown := True,
             pr_timer := Some (t + HARD_SHUTDOWN_TIMEOUT_MS), pr_closes := pr_closes p + 1\<rparr>)"

fun on_event :: "nat \<Rightarrow> shutdownEvent \<Rightarrow> process \<Rightarrow> process" where
  "on_event t (Signal s) p = shutdown t s p"
| "on_event t ForceExitTimer p =
     (case pr_timer p of
        Some d \<Rightarrow> if d \<le> t then process_exit t 1 (log_line (DidNotFinish HARD_SHUTDOWN_TIMEOUT_MS) p) else p
      | None \<Rightarrow> p)"
| "on_event t CloseResolves p = (if pr_closes p = 0 then p else process_exit t 0 p)"
| "on_event t (CloseRejects e) p =
     (if pr_closes p = 0 then p else process_exit t 1 (log_line (ErrorDuringShutdown e) p))"
| "on_event t LoopEmpty p = process_exit t 0 p"

fun run_process :: "(nat \<times> shutdownEvent) list \<Rightarrow> process \<Rightarrow> process" where
  "run_process [] p = p"
| "run_process ((t, e) # evs) p = (if pr_exit p \<noteq> None then p else run_process evs (on_event t e p))"

text \<open>The invariant: the timer runs and \<open>close\<close> has been called once, from the first signal on.\<close>

definition process_inv :: "nat \<Rightarrow> process \<Rightarrow> bool" where
  "process_inv now p \<longleftrightarrow>
     (if pr_shuttingDown p then pr_closes p = 1 \<and> (\<exists>d. pr_timer p = Some d \<and> d \<le> now + HARD_SHUTDOWN_TIMEOUT_MS)
      else pr_closes p = 0 \<and> pr_timer p = None)"

fun exit_code :: "shutdownEvent \<Rightarrow> nat" where
  "exit_code ForceExitTimer = 1"
| "exit_code (CloseRejects _) = 1"
| "exit_code _ = 0"

lemma process_inv_step: "process_inv now p \<Longrightarrow> now \<le> t \<Longrightarrow> process_inv t (on_event t e p)"
  by (cases e) (auto simp: process_inv_def shutdown_def log_line_def process_exit_def split: if_splits option.splits)

lemma step_exit:
  assumes "pr_exit p = None" "pr_exit (on_event t e p) = Some x"
  shows "x = (t, exit_code e) \<and> (\<forall>s. e \<noteq> Signal s)"
  using assms by (cases e) (auto simp: shutdown_def log_line_def process_exit_def split: if_splits option.splits)

lemma run_exited [simp]: "pr_exit p \<noteq> None \<Longrightarrow> run_process evs p = p"
  by (cases evs) auto

lemma run_append: "run_process (xs @ ys) p = run_process ys (run_process xs p)"
  by (induction xs p rule: run_process.induct) auto

lemma run_inv:
  assumes "process_inv now p" "sorted (now # map fst evs)" "\<forall>x \<in> set evs. fst x \<le> t" "now \<le> t"
  shows "process_inv t (run_process evs p)"
  using assms
proof (induction evs p arbitrary: now rule: run_process.induct)
  case (1 p)
  then show ?case by (auto simp: process_inv_def split: if_splits)
next
  case (2 t' e evs p)
  show ?case
  proof (cases "pr_exit p")
    case None
    have "process_inv t' (on_event t' e p)" using 2(2,3) by (intro process_inv_step) auto
    then have "process_inv t (run_process evs (on_event t' e p))" using 2(3-5) None by (intro 2(1)) auto
    then show ?thesis using None by simp
  next
    case (Some x)
    with 2(2,5) show ?thesis by (auto simp: process_inv_def split: if_splits)
  qed
qed

text \<open>An exit is due to one event, and everything before it left the process running.\<close>

lemma run_exit_cause:
  assumes "pr_exit p = None" "pr_exit (run_process evs p) = Some x"
  shows "\<exists>before t e after. evs = before @ (t, e) # after \<and> pr_exit (run_process before p) = None
    \<and> x = (t, exit_code e) \<and> (\<forall>s. e \<noteq> Signal s)"
  using assms
proof (induction evs p rule: run_process.induct)
  case (2 t e evs p)
  show ?case
  proof (cases "pr_exit (on_event t e p)")
    case None
    with 2 obtain before t' e' after where "evs = before @ (t', e') # after"
      "pr_exit (run_process before (on_event t e p)) = None" "x = (t', exit_code e')" "\<forall>s. e' \<noteq> Signal s"
      by auto
    with 2(2) show ?thesis by (intro exI [of _ "(t, e) # before"]) auto
  next
    case (Some y)
    with step_exit [OF 2(2) Some] 2(2,3) show ?thesis by (intro exI [of _ "[]"]) auto
  qed
qed simp

lemma step_keeps_timer:
  "pr_shuttingDown p \<Longrightarrow> pr_shuttingDown (on_event t e p) \<and> pr_timer (on_event t e p) = pr_timer p"
  by (cases e) (auto simp: shutdown_def log_line_def process_exit_def split: option.splits)

lemma run_keeps_timer:
  "pr_shuttingDown p \<Longrightarrow> pr_shuttingDown (run_process evs p) \<and> pr_timer (run_process evs p) = pr_timer p"
  by (induction evs p rule: run_process.induct) (auto simp: step_keeps_timer)

lemma due_timer_exits: "pr_timer p = Some d \<Longrightarrow> d \<le> t \<Longrightarrow> pr_exit (run_process [(t, ForceExitTimer)] p) \<noteq> None"
  by (simp add: process_exit_def log_line_def)

lemma running_inv: "process_inv 0 running" "pr_exit running = None"
  by (simp_all add: process_inv_def running_def)

lemma signal_and_timer_exit:
  assumes "sorted (map fst (xs @ [(t, Signal s)]))"
  shows "pr_exit (run_process (xs @ (t, Signal s) # us @ [(t + HARD_SHUTDOWN_TIMEOUT_MS, ForceExitTimer)]) running) \<noteq> None"
proof -
  let ?T = "t + HARD_SHUTDOWN_TIMEOUT_MS" and ?p = "run_process xs running"
  note last = run_append [of "xs @ (t, Signal s) # us" "[(?T, ForceExitTimer)]" running]
  show ?thesis
  proof (cases "pr_exit (run_process (xs @ (t, Signal s) # us) running)")
    case None
    then have "pr_exit ?p = None" unfolding run_append by (metis option.distinct(1) run_exited)
    moreover have sd: "pr_shuttingDown (on_event t (Signal s) ?p)" by (simp add: shutdown_def)
    have "process_inv t ?p" using running_inv(1) assms by (intro run_inv [of 0]) (auto simp: sorted_append)
    then have "process_inv t (on_event t (Signal s) ?p)" by (rule process_inv_step) simp
    with sd obtain d where "pr_timer (on_event t (Signal s) ?p) = Some d" "d \<le> ?T" by (auto simp: process_inv_def)
    ultimately have "pr_timer (run_process (xs @ (t, Signal s) # us) running) = Some d" "d \<le> ?T"
      using run_keeps_timer [OF sd, of us] by (simp_all add: run_append del: on_event.simps)
    from due_timer_exits [OF this] last show ?thesis by simp
  next
    case (Some x)
    with last show ?thesis by simp
  qed
qed

text \<open>
  C20: A signal always ends the process. Whatever signals, failures and silences follow and however often the signal is
  repeated, the process has exited ten seconds after a signal, when Node fires the timers that are due; \<open>app.close()\<close>
  was called at most once; and one event decided the exit code: 0 when the shutdown finished or nothing was left to do, 1
  when it failed or the timer cut it off.
\<close>

theorem shutdown_ends:
  assumes "sorted (map fst evs)" "(t, Signal s) \<in> set evs" "(t + HARD_SHUTDOWN_TIMEOUT_MS, ForceExitTimer) \<in> set evs"
  shows "\<exists>before t' e after. evs = before @ (t', e) # after \<and> t' \<le> t + HARD_SHUTDOWN_TIMEOUT_MS
    \<and> pr_exit (run_process before running) = None
    \<and> pr_exit (run_process evs running) = Some (t', exit_code e) \<and> (\<forall>s. e \<noteq> Signal s)
    \<and> pr_closes (run_process evs running) \<le> 1"
proof -
  let ?T = "t + HARD_SHUTDOWN_TIMEOUT_MS"
  from split_list [OF assms(2)] obtain xs ys where evs: "evs = xs @ (t, Signal s) # ys" by blast
  have "(?T, ForceExitTimer) \<notin> set xs"
    using assms(1) by (auto simp: evs sorted_append HARD_SHUTDOWN_TIMEOUT_MS_def)
  with assms(3) evs obtain us vs where ys: "ys = us @ (?T, ForceExitTimer) # vs"
    by (auto dest: split_list)
  let ?zs = "xs @ (t, Signal s) # us @ [(?T, ForceExitTimer)]"
  have zs: "evs = ?zs @ vs" "sorted (map fst ?zs)" using assms(1) by (auto simp: evs ys sorted_append)
  have until: "\<forall>x \<in> set ?zs. fst x \<le> ?T" using zs(2) by (auto simp: sorted_append)
  obtain x where x: "pr_exit (run_process ?zs running) = Some x"
    using signal_and_timer_exit [of xs t s us] zs(2) by (auto simp: sorted_append)
  have same: "run_process evs running = run_process ?zs running"
    unfolding zs(1) run_append [of ?zs] using x by simp
  obtain before t' e after where cause: "?zs = before @ (t', e) # after" "pr_exit (run_process before running) = None"
      "x = (t', exit_code e)" "\<forall>s. e \<noteq> Signal s"
    using run_exit_cause [OF running_inv(2) x] by blast
  have "process_inv ?T (run_process ?zs running)"
    using running_inv(1) zs(2) until by (intro run_inv [of 0]) (auto simp: sorted_append)
  then have "pr_closes (run_process evs running) \<le> 1" unfolding same by (simp add: process_inv_def split: if_splits)
  moreover have "t' \<le> ?T" using until unfolding cause(1) by simp
  moreover have "evs = before @ (t', e) # after @ vs" unfolding zs(1) cause(1) by simp
  ultimately show ?thesis using cause x same by (metis append_Cons)
qed

theorem shutdown_ends_witness:
  "\<exists>t' e. pr_exit (run_process [(5, Signal SIGTERM), (7, Signal SIGINT), (10005, ForceExitTimer)] running)
     = Some (t', exit_code e) \<and> t' \<le> 10005"
  using shutdown_ends [of "[(5, Signal SIGTERM), (7, Signal SIGINT), (10005, ForceExitTimer)]" 5 SIGTERM]
  unfolding HARD_SHUTDOWN_TIMEOUT_MS_def by force

section \<open>Middleware\<close>

text \<open>
  The middleware \<open>bootstrap\<close> registers, in order. \<open>RawBody\<close> is \<open>express.raw\<close> mounted on a path for one content type;
  \<open>JsonBody\<close> and \<open>UrlencodedBody\<close> carry their limit in bytes.
\<close>

datatype appMiddleware =
    SitePaused | Helmet | CookieParser | RawBody string string | JsonBody nat | UrlencodedBody nat

definition ten_mb :: nat where "ten_mb = 10 * 1024 * 1024"

definition bootstrap_middleware :: "appMiddleware list" where
  "bootstrap_middleware =
     [SitePaused, Helmet, CookieParser,
      RawBody ''/api/v1/webhooks/stripe'' ''application/json'',
      RawBody ''/api/v1/webhooks/resend'' ''application/json'',
      JsonBody ten_mb, UrlencodedBody ten_mb]"

record incoming =
  in_path :: string
  in_type :: string
  in_body :: string

text \<open>
  What Express and its parsers decide: whether a path lies under a mount point, whether a content type matches, how JSON
  and forms are parsed (\<open>None\<close>: malformed), and the limit of \<open>express.raw\<close>, which the application leaves at its default.
\<close>

record express =
  ex_under :: "string \<Rightarrow> string \<Rightarrow> bool"
  ex_type :: "string \<Rightarrow> string \<Rightarrow> bool"
  ex_json :: "string \<Rightarrow> json option"
  ex_form :: "string \<Rightarrow> json option"
  ex_rawLimit :: nat

definition JSON_TYPE :: string where "JSON_TYPE = ''application/json''"
definition FORM_TYPE :: string where "FORM_TYPE = ''application/x-www-form-urlencoded''"

datatype requestBody = Unread | Raw string | Parsed json

datatype delivery = Respond nat | Deliver requestBody

text \<open>A parser reads a body only once, and only of its content type; a body above the limit is refused with 413.\<close>

fun parse_body :: "express \<Rightarrow> appMiddleware \<Rightarrow> incoming \<Rightarrow> requestBody \<Rightarrow> delivery" where
  "parse_body ex SitePaused r b = Respond 503"
| "parse_body ex (RawBody path ctype) r b =
     (if b = Unread \<and> ex_under ex path (in_path r) \<and> ex_type ex ctype (in_type r)
      then if ex_rawLimit ex < length (in_body r) then Respond 413 else Deliver (Raw (in_body r))
      else Deliver b)"
| "parse_body ex (JsonBody limit) r b =
     (if b = Unread \<and> ex_type ex JSON_TYPE (in_type r)
      then if limit < length (in_body r) then Respond 413
           else (case ex_json ex (in_body r) of None \<Rightarrow> Respond 400 | Some j \<Rightarrow> Deliver (Parsed j))
      else Deliver b)"
| "parse_body ex (UrlencodedBody limit) r b =
     (if b = Unread \<and> ex_type ex FORM_TYPE (in_type r)
      then if limit < length (in_body r) then Respond 413
           else (case ex_form ex (in_body r) of None \<Rightarrow> Respond 400 | Some j \<Rightarrow> Deliver (Parsed j))
      else Deliver b)"
| "parse_body ex _ r b = Deliver b"

fun pass_middleware :: "express \<Rightarrow> appMiddleware list \<Rightarrow> incoming \<Rightarrow> requestBody \<Rightarrow> delivery" where
  "pass_middleware ex [] r b = Deliver b"
| "pass_middleware ex (m # ms) r b =
     (case parse_body ex m r b of Respond code \<Rightarrow> Respond code | Deliver b' \<Rightarrow> pass_middleware ex ms r b')"

lemma body_read_once: "b \<noteq> Unread \<Longrightarrow> SitePaused \<notin> set ms \<Longrightarrow> pass_middleware ex ms r b = Deliver b"
proof (induction ms)
  case (Cons m ms)
  then have "parse_body ex m r b = Deliver b" by (cases m) auto
  with Cons show ?case by simp
qed simp

text \<open>
  The webhooks see the bytes that were signed. Once the site is back (the middleware that pauses it removed), a JSON
  request to a webhook, up to the limit of the raw parser, reaches its controller with the exact bytes of its body, and
  the JSON parser behind it does not touch them; a JSON request anywhere else is parsed, refused with 413 above 10 MB and
  with 400 when malformed. While the site is paused every request is answered 503 before anything is read.
\<close>

theorem webhook_bytes_untouched:
  assumes json: "ex_type ex JSON_TYPE (in_type r)"
  shows "pass_middleware ex bootstrap_middleware r Unread = Respond 503
    \<and> pass_middleware ex (remove1 SitePaused bootstrap_middleware) r Unread =
        (if ex_under ex ''/api/v1/webhooks/stripe'' (in_path r) \<or> ex_under ex ''/api/v1/webhooks/resend'' (in_path r)
         then if ex_rawLimit ex < length (in_body r) then Respond 413 else Deliver (Raw (in_body r))
         else if ten_mb < length (in_body r) then Respond 413
         else case ex_json ex (in_body r) of None \<Rightarrow> Respond 400 | Some j \<Rightarrow> Deliver (Parsed j))"
proof -
  have "remove1 SitePaused bootstrap_middleware = [Helmet, CookieParser, RawBody ''/api/v1/webhooks/stripe'' JSON_TYPE,
      RawBody ''/api/v1/webhooks/resend'' JSON_TYPE, JsonBody ten_mb, UrlencodedBody ten_mb]"
    by (simp add: bootstrap_middleware_def JSON_TYPE_def)
  moreover have "pass_middleware ex bootstrap_middleware r Unread = Respond 503"
    by (simp add: bootstrap_middleware_def)
  ultimately show ?thesis using json by (simp add: body_read_once split: option.splits)
qed

definition sample_express :: express where
  "sample_express = \<lparr>ex_under = (\<lambda>p q. p = q), ex_type = (\<lambda>p q. p = q), ex_json = (\<lambda>s. Some (JStr s)),
     ex_form = (\<lambda>_. None), ex_rawLimit = 102400\<rparr>"

theorem webhook_bytes_untouched_witness:
  "pass_middleware sample_express (remove1 SitePaused bootstrap_middleware)
     \<lparr>in_path = ''/api/v1/webhooks/stripe'', in_type = ''application/json'', in_body = ''{}''\<rparr> Unread = Deliver (Raw ''{}'')"
  using webhook_bytes_untouched [of sample_express
      "\<lparr>in_path = ''/api/v1/webhooks/stripe'', in_type = ''application/json'', in_body = ''{}''\<rparr>"]
  by (simp add: sample_express_def JSON_TYPE_def)

section \<open>Bootstrap\<close>

text \<open>
  A promise that \<open>bootstrap\<close> awaits returns, throws, or never settles: a command of BullMQ waits for Redis as long as it is
  unreachable. \<open>app.listen\<close> runs the hooks first: \<open>onModuleInit\<close> of \<open>PrismaService\<close>, then \<open>onApplicationBootstrap\<close> of
  the two modules that register a daily job.
\<close>

datatype hookResult = Returns | Throws | NeverReturns

fun await_hooks :: "hookResult list \<Rightarrow> hookResult" where
  "await_hooks [] = Returns"
| "await_hooks (Returns # hs) = await_hooks hs"
| "await_hooks (h # hs) = h"

record surroundings =
  sr_connect :: hookResult
  sr_upsert :: "string \<Rightarrow> hookResult"
  sr_listen :: hookResult

definition prisma_onModuleInit :: "surroundings \<Rightarrow> hookResult \<times> string list" where
  "prisma_onModuleInit sr =
     (case sr_connect sr of Returns \<Rightarrow> (Returns, [''Database connection established'']) | h \<Rightarrow> (h, []))"

datatype corsOrigin = AnyOrigin | OnlyOrigin json

definition is_production :: "validated \<Rightarrow> bool" where
  "is_production env \<longleftrightarrow> env ''NODE_ENV'' = Some (JStr ''production'')"

text \<open>In production only the frontend may call with credentials; \<open>getOrThrow\<close> fails without its address.\<close>

definition cors_origin :: "validated \<Rightarrow> corsOrigin option" where
  "cors_origin env = (if is_production env then map_option OnlyOrigin (env ''FRONTEND_URL'') else Some AnyOrigin)"

definition listen_port :: "validated \<Rightarrow> json" where
  "listen_port env = nullish (env ''PORT'') (JInt 3000)"

text \<open>
  What the server has been set up with: the proxies it trusts for the address of the client, the parsers, CORS with
  credentials, the prefix of all routes, the options of the validation pipe, the path of the API documentation, the
  port, the objects that were built and the daily jobs.
\<close>

record pipeOptions =
  vp_whitelist :: bool
  vp_forbidNonWhitelisted :: bool
  vp_transform :: bool

record server =
  sv_trustProxy :: nat
  sv_middleware :: "appMiddleware list"
  sv_origin :: corsOrigin
  sv_credentials :: bool
  sv_prefix :: string
  sv_pipe :: pipeOptions
  sv_docs :: "string option"
  sv_port :: json
  sv_objects :: "injectable list"
  sv_schedulers :: schedulers

datatype bootResult = Serving server | Exited nat | Waiting

definition listen_hooks :: "surroundings \<Rightarrow> hookResult" where
  "listen_hooks sr = await_hooks
     [fst (prisma_onModuleInit sr), sr_upsert sr ''daily-renewal-reminder-scan'',
      sr_upsert sr ''daily-prospect-campaign-drip'', sr_listen sr]"

definition bootstrap ::
  "framework \<Rightarrow> (envVar list \<Rightarrow> environment \<Rightarrow> validated option) \<Rightarrow> (json option \<Rightarrow> nat) \<Rightarrow> surroundings
    \<Rightarrow> environment \<Rightarrow> schedulers \<Rightarrow> bootResult" where
  "bootstrap fw validate bytes sr raw jobs =
     (case create_application fw validate bytes raw of
        Inl _ \<Rightarrow> Exited 1
      | Inr (env, objects) \<Rightarrow>
          (case cors_origin env of
             None \<Rightarrow> Exited 1
           | Some origin \<Rightarrow>
               (case listen_hooks sr of
                  Throws \<Rightarrow> Exited 1
                | NeverReturns \<Rightarrow> Waiting
                | Returns \<Rightarrow> Serving \<lparr>sv_trustProxy = 1, sv_middleware = bootstrap_middleware, sv_origin = origin,
                    sv_credentials = True, sv_prefix = ''api/v1'',
                    sv_pipe = \<lparr>vp_whitelist = True, vp_forbidNonWhitelisted = True, vp_transform = True\<rparr>,
                    sv_docs = (if is_production env then None else Some ''api/docs''),
                    sv_port = listen_port env, sv_objects = objects,
                    sv_schedulers = campaign_onApplicationBootstrap (reminder_onApplicationBootstrap jobs)\<rparr>)))"

lemma cors_origin_set:
  assumes "joi_law validate" "validate envValidationSchema raw = Some env"
  shows "\<exists>url. cors_origin env = Some (if is_production env then OnlyOrigin url else AnyOrigin) \<and> env ''FRONTEND_URL'' = Some url"
proof -
  have "''FRONTEND_URL'' \<in> set required_names"
    by (simp add: required_names_def envValidationSchema_def required_def setting_def)
  from required_name_set [OF assms this] show ?thesis by (auto simp: cors_origin_def)
qed

lemma daily_jobs:
  "campaign_onApplicationBootstrap (reminder_onApplicationBootstrap
     (campaign_onApplicationBootstrap (reminder_onApplicationBootstrap s))) =
   campaign_onApplicationBootstrap (reminder_onApplicationBootstrap s)"
  "campaign_onApplicationBootstrap (reminder_onApplicationBootstrap s) ''daily-renewal-reminder-scan''
     = Some \<lparr>js_pattern = ''0 9 * * *'', js_jobName = ''scan''\<rparr>"
  "campaign_onApplicationBootstrap (reminder_onApplicationBootstrap s) ''daily-prospect-campaign-drip''
     = Some \<lparr>js_pattern = ''0 10 * * *'', js_jobName = ''drip''\<rparr>"
  using boot_again by (metis, simp_all add: campaign_onApplicationBootstrap_def reminder_onApplicationBootstrap_def)

lemma waits_for_redis:
  "sr_connect sr = Returns \<Longrightarrow> \<forall>k. sr_upsert sr k = NeverReturns \<Longrightarrow> listen_hooks sr = NeverReturns"
  by (simp add: listen_hooks_def prisma_onModuleInit_def)

text \<open>
  C21: How the process starts. Without a valid environment, or with a two-factor key of the wrong length, it exits with
  code 1. Otherwise it serves as soon as the database, the two daily jobs and the port are ready: with one object of every
  class, both daily jobs registered once however often it restarts, the port of the environment, in production only the
  frontend as a caller with credentials and no API documentation. The daily jobs are awaited without a limit: while
  Redis is unreachable the process neither serves nor exits.
\<close>

theorem bootstrap_outcome:
  assumes law: "framework_law fw" and joi: "joi_law validate"
  shows "(case validate envValidationSchema raw of
      None \<Rightarrow> bootstrap fw validate bytes sr raw jobs = Exited 1
    | Some env \<Rightarrow>
        if bytes (env ''TWO_FACTOR_ENCRYPTION_KEY'') \<noteq> 32 then bootstrap fw validate bytes sr raw jobs = Exited 1
        else (case listen_hooks sr of
            Throws \<Rightarrow> bootstrap fw validate bytes sr raw jobs = Exited 1
          | NeverReturns \<Rightarrow> bootstrap fw validate bytes sr raw jobs = Waiting
          | Returns \<Rightarrow> (\<exists>sv url. bootstrap fw validate bytes sr raw jobs = Serving sv
              \<and> mset (sv_objects sv) = image_mset inst_class (mset (app_instances app_modules))
              \<and> sv_port sv = listen_port env \<and> env ''FRONTEND_URL'' = Some url
              \<and> sv_origin sv = (if is_production env then OnlyOrigin url else AnyOrigin)
              \<and> (sv_docs sv = None \<longleftrightarrow> is_production env)
              \<and> bootstrap fw validate bytes sr raw (sv_schedulers sv) = Serving sv
              \<and> map_option js_jobName (sv_schedulers sv ''daily-renewal-reminder-scan'') = Some ''scan''
              \<and> map_option js_jobName (sv_schedulers sv ''daily-prospect-campaign-drip'') = Some ''drip'')))
    \<and> (sr_connect sr = Returns \<and> (\<forall>k. sr_upsert sr k = NeverReturns) \<longrightarrow> listen_hooks sr = NeverReturns)"
proof (cases "validate envValidationSchema raw")
  case None
  with application_created [OF law joi, where raw = raw and bytes = bytes] show ?thesis by (simp add: bootstrap_def waits_for_redis)
next
  case (Some env)
  with application_created [OF law joi, where raw = raw and bytes = bytes]
  obtain order where order: "mset order = mset (app_instances app_modules)"
    and app: "create_application fw validate bytes raw =
      (if bytes (env ''TWO_FACTOR_ENCRYPTION_KEY'') = 32 then Inr (env, map inst_class order) else Inl BadEncryptionKey)"
    by auto
  obtain url where url: "cors_origin env = Some (if is_production env then OnlyOrigin url else AnyOrigin)"
    "env ''FRONTEND_URL'' = Some url"
    using cors_origin_set [OF joi Some] by blast
  show ?thesis
    using order url waits_for_redis [of sr] unfolding Some
    by (cases "listen_hooks sr") (simp_all add: bootstrap_def app daily_jobs, blast+)
qed

theorem bootstrap_outcome_witness:
  "\<exists>sv. bootstrap bare_framework sample_validate (\<lambda>_. 32) \<lparr>sr_connect = Returns, sr_upsert = (\<lambda>_. Returns), sr_listen = Returns\<rparr>
     sample_environment Map.empty = Serving sv \<and> sv_docs sv \<noteq> None"
proof -
  let ?sr = "\<lparr>sr_connect = Returns, sr_upsert = (\<lambda>_. Returns), sr_listen = Returns\<rparr>"
  obtain env where env: "sample_validate envValidationSchema sample_environment = Some env" "\<not> is_production env"
    by (simp add: sample_validate_def sample_environment_def envValidationSchema_def required_def setting_def is_production_def)
  have "listen_hooks ?sr = Returns" by (simp add: listen_hooks_def prisma_onModuleInit_def)
  with bootstrap_outcome [OF bare_framework_law sample_joi, where raw = sample_environment and bytes = "\<lambda>_. 32" and sr = ?sr and jobs = Map.empty] env show ?thesis
    by auto
qed

end
