(* ===== verification/Diagnostics.thy ===== *)
theory Diagnostics
  imports Complex_Main "HOL-Library.Sublist" Scripts
begin

text \<open>
  The scripts that look at a database: \<open>check-audit.ts\<close>, \<open>check-leads.ts\<close>, \<open>check-sessions.ts\<close>,
  \<open>check-subscription.ts\<close>, and \<open>smoke-test.ts\<close>, which writes a plan, a user and a subscription, tries to delete the user
  against the foreign key, and cleans up. A printed value is the result; \<open>Inl\<close> is an exit with code 1 and what it prints.
\<close>

section \<open>Looking at rows\<close>

text \<open>\<open>contains\<close> of Prisma without a mode: the text occurs somewhere, in the same case.\<close>

definition str_contains :: "string \<Rightarrow> string \<Rightarrow> bool" where
  "str_contains s part = sublist part s"

definition check_audit :: "string option \<Rightarrow> world \<Rightarrow> (string \<times> json option \<times> time) list" where
  "check_audit arg w =
     (let pre = nullish arg []
      in map (\<lambda>l. (al_action l, al_metadata l, al_createdAt l))
           (take 50 (orderDesc al_createdAt (findMany (\<lambda>l. str_contains (al_action l) pre) (auditLogs w)))))"

record leadCounts =
  lc_found :: "lead option option"
  lc_byType :: "(companyType option \<times> nat) list"
  lc_emptyCompany :: nat
  lc_total :: nat

text \<open>\<open>groupBy\<close> gives one line per value that occurs.\<close>

definition group_count :: "('r \<Rightarrow> 'k) \<Rightarrow> 'r list \<Rightarrow> ('k \<times> nat) list" where
  "group_count key rows = map (\<lambda>k. (k, countRows (\<lambda>r. key r = k) rows)) (remdups (map key rows))"

definition check_leads :: "cfg \<Rightarrow> string option \<Rightarrow> world \<Rightarrow> leadCounts" where
  "check_leads c search w =
     \<lparr>lc_found = (if truthy search then Some (findFirst (\<lambda>l. c_contains c (le_name l) (the search)) (leads w)) else None),
      lc_byType = group_count le_companyType (leads w),
      lc_emptyCompany = countRows (\<lambda>l. le_company l = None) (leads w),
      lc_total = countRows (\<lambda>_. True) (leads w)\<rparr>"

record sessionLine =
  sl_ip :: "string option"
  sl_country :: "string option"
  sl_city :: "string option"
  sl_timezone :: "string option"
  sl_riskScore :: int
  sl_riskSignals :: "json option"
  sl_createdAt :: time

definition check_sessions :: "string option \<Rightarrow> world \<Rightarrow> string + sessionLine list" where
  "check_sessions arg w =
     (if \<not> truthy arg then Inl ''Usage: check-sessions.ts <email>''
      else case findFirst (\<lambda>u. u_email u = the arg) (users w) of
        None \<Rightarrow> Inl ''No user with that email''
      | Some user \<Rightarrow> Inr
          (map (\<lambda>s. \<lparr>sl_ip = s_ipAddress s, sl_country = s_country s, sl_city = s_city s, sl_timezone = s_timezone s,
                sl_riskScore = s_riskScore s, sl_riskSignals = s_riskSignals s, sl_createdAt = s_createdAt s\<rparr>)
             (orderAsc s_createdAt (findMany (\<lambda>s. s_userId s = u_id user) (sessions w)))))"

definition check_subscription :: "string option \<Rightarrow> world \<Rightarrow> string + (subscription \<times> plan option \<times> invoice list) list" where
  "check_subscription arg w =
     (if \<not> truthy arg then Inl ''Usage: check-subscription.ts <email>''
      else Inr (map (\<lambda>s. (s, findFirst (\<lambda>p. pl_id p = sb_planId s) (plans w),
                         findMany (\<lambda>i. in_subscriptionId i = sb_id s) (invoices w)))
        (orderDesc sb_createdAt
           (findMany (\<lambda>s. list_ex (\<lambda>u. u_id u = sb_userId s \<and> u_email u = the arg) (users w)) (subscriptions w)))))"

lemma sum_group_count: "sum_list (map snd (group_count key rows)) = length rows"
proof -
  have "sum_list (map snd (group_count key rows)) = (\<Sum>k \<in> set (map key rows). countRows (\<lambda>r. key r = k) rows)"
    by (simp add: group_count_def comp_def sum_list_distinct_conv_sum_set)
  also have "\<dots> = (\<Sum>k \<in> key ` set rows. count_list (map key rows) k)"
    by (simp add: countRows_def count_list_eq_length_filter filter_map comp_def eq_commute)
  also have "\<dots> = length rows" using sum_count_set [of "map key rows" "key ` set rows"] by simp
  finally show ?thesis .
qed

lemma check_leads_adds_up: "sum_list (map snd (lc_byType (check_leads c search w))) = lc_total (check_leads c search w)"
  by (simp add: check_leads_def sum_group_count countRows_def)

section \<open>The smoke test\<close>

text \<open>What the database does when a user is deleted (\<open>onDelete\<close> in \<open>schema.prisma\<close>): Restrict, Cascade, SetNull.\<close>

definition user_restricted :: "ident \<Rightarrow> world \<Rightarrow> bool" where
  "user_restricted i w \<longleftrightarrow> list_ex (\<lambda>s. sb_userId s = i) (subscriptions w)
     \<or> list_ex (\<lambda>s. lf_userId s = i) (leadFinderSubscriptions w)"

definition unlink :: "ident \<Rightarrow> ident option \<Rightarrow> ident option" where
  "unlink i r = (if r = Some i then None else r)"

definition cascade_user :: "ident \<Rightarrow> world \<Rightarrow> world" where
  "cascade_user i w = w\<lparr>
     devices := deleteMany (\<lambda>x. d_userId x = i) (devices w),
     sessions := deleteMany (\<lambda>x. s_userId x = i) (sessions w),
     verificationTokens := deleteMany (\<lambda>x. vt_userId x = i) (verificationTokens w),
     consentRecords := deleteMany (\<lambda>x. cr_userId x = i) (consentRecords w),
     invites := deleteMany (\<lambda>x. iv_inviterId x = i) (invites w),
     adminAccessInvites := deleteMany (\<lambda>x. ai_invitedByUserId x = i) (adminAccessInvites w),
     auditLogs := map (\<lambda>x. x\<lparr>al_actorUserId := unlink i (al_actorUserId x)\<rparr>) (auditLogs w),
     creditGrants := deleteMany (\<lambda>x. cg_userId x = i) (creditGrants w),
     leads := map (\<lambda>x. x\<lparr>le_submittedByUserId := unlink i (le_submittedByUserId x)\<rparr>) (leads w),
     leadSearchJobs := deleteMany (\<lambda>x. jb_userId x = i) (leadSearchJobs w),
     leadSearchResults := deleteMany (\<lambda>x. list_ex (\<lambda>j. jb_id j = rs_jobId x \<and> jb_userId j = i) (leadSearchJobs w))
       (leadSearchResults w),
     prospectInviteQueue := map (\<lambda>x. x\<lparr>pi_uploadedByUserId := unlink i (pi_uploadedByUserId x)\<rparr>) (prospectInviteQueue w)\<rparr>"

definition db_delete_user :: "ident \<Rightarrow> world \<Rightarrow> bool \<times> world" where
  "db_delete_user i w =
     (if user_restricted i w \<or> \<not> list_ex (\<lambda>u. u_id u = i) (users w) then (False, w)
      else (True, (cascade_user i w)\<lparr>users := deleteMany (\<lambda>u. u_id u = i) (users w)\<rparr>))"

definition smoke_plan :: "ident \<Rightarrow> plan" where
  "smoke_plan i = \<lparr>pl_id = i, pl_name = ''Full Access'', pl_slug = ''full-access'', pl_stripePriceId = ''price_test_123'',
     pl_interval = MONTH, pl_amountCents = 20000, pl_currency = ''usd'', pl_isActive = True\<rparr>"

definition smoke_user :: "ident \<Rightarrow> time \<Rightarrow> user" where
  "smoke_user i now = \<lparr>u_id = i, u_email = ''smoke-test@example.com'', u_fullName = ''Smoke Test'',
     u_passwordHash = ''not-a-real-hash'', u_phone = None, u_role = USER, u_status = ACTIVE,
     u_adminGrantedDirectoryAccess = False, u_adminGrantedLeadFinderAccess = False, u_stripeCustomerId = None,
     u_emailVerifiedAt = None, u_twoFactorEnabled = False, u_twoFactorSecret = None, u_failedLoginCount = 0,
     u_lockedUntil = None, u_lastLoginAt = None, u_createdAt = now, u_deletedAt = None, u_leadFinderCredits = 100\<rparr>"

definition smoke_subscription :: "ident \<Rightarrow> ident \<Rightarrow> ident \<Rightarrow> time \<Rightarrow> subscription" where
  "smoke_subscription i userId planId now = \<lparr>sb_id = i, sb_userId = userId, sb_planId = planId,
     sb_stripeCustomerId = ''cus_test_123'', sb_stripeSubscriptionId = ''sub_test_123'', sb_status = Sub_ACTIVE,
     sb_currentPeriodStart = now, sb_currentPeriodEnd = now + 30 * 24 * 60 * 60 * 1000, sb_cancelAtPeriodEnd = False,
     sb_trialEndsAt = None, sb_pastDueSince = None, sb_renewalReminderSentForPeriodEnd = None, sb_createdAt = now\<rparr>"

text \<open>
  The run, with the identifiers the database makes: whether it ends with exit code 0, and the state it leaves. A create
  that meets a unique column throws, and then nothing is cleaned up.
\<close>

definition smoke_test :: "ident \<Rightarrow> ident \<Rightarrow> ident \<Rightarrow> time \<Rightarrow> world \<Rightarrow> bool \<times> world" where
  "smoke_test planId userId subId now w =
     (if list_ex (\<lambda>p. pl_slug p = ''full-access'' \<or> pl_stripePriceId p = ''price_test_123'') (plans w) then (False, w)
      else let w1 = w\<lparr>plans := plans w @ [smoke_plan planId]\<rparr>
      in if list_ex (\<lambda>u. u_email u = ''smoke-test@example.com'') (users w1) then (False, w1)
      else let w2 = w1\<lparr>users := users w1 @ [smoke_user userId now]\<rparr>
      in if list_ex (\<lambda>s. sb_stripeSubscriptionId s = ''sub_test_123'') (subscriptions w2) then (False, w2)
      else let w3 = w2\<lparr>subscriptions := subscriptions w2 @ [smoke_subscription subId userId planId now]\<rparr>
      in case db_delete_user userId w3 of (deleted, w4) \<Rightarrow>
         if \<not> list_ex (\<lambda>s. sb_id s = subId) (subscriptions w4) then (False, w4)
         else let w5 = w4\<lparr>subscriptions := deleteMany (\<lambda>s. sb_id s = subId) (subscriptions w4)\<rparr>
         in case db_delete_user userId w5 of (gone, w6) \<Rightarrow>
            if \<not> gone then (False, w6)
            else (\<not> deleted, w6\<lparr>plans := deleteMany (\<lambda>p. pl_id p = planId) (plans w6)\<rparr>))"

text \<open>An identifier the database has just made occurs nowhere.\<close>

definition unused_id :: "ident \<Rightarrow> world \<Rightarrow> bool" where
  "unused_id i w \<longleftrightarrow> cascade_user i w = w \<and> \<not> user_restricted i w \<and> \<not> list_ex (\<lambda>u. u_id u = i) (users w)
     \<and> \<not> list_ex (\<lambda>p. pl_id p = i) (plans w) \<and> \<not> list_ex (\<lambda>s. sb_id s = i) (subscriptions w)"

lemma deleteMany_unused: "\<not> list_ex p rows \<Longrightarrow> deleteMany p rows = rows"
  by (auto simp: deleteMany_def list_ex_iff filter_id_conv)

lemma cascade_user_frame:
  "cascade_user i (w\<lparr>users := us\<rparr>) = (cascade_user i w)\<lparr>users := us\<rparr>"
  "cascade_user i (w\<lparr>plans := ps\<rparr>) = (cascade_user i w)\<lparr>plans := ps\<rparr>"
  "cascade_user i (w\<lparr>subscriptions := ss\<rparr>) = (cascade_user i w)\<lparr>subscriptions := ss\<rparr>"
  by (simp_all add: cascade_user_def)

lemma deleteMany_append: "deleteMany p (xs @ ys) = deleteMany p xs @ deleteMany p ys"
  by (simp add: deleteMany_def)

lemma deleteMany_one [simp]: "deleteMany p [x] = (if p x then [] else [x])"
  by (simp add: deleteMany_def)

lemma seeded_plan_there: "\<exists>p \<in> set (plans (seed_plans newId price w)). pl_slug p = ''full-access''"
proof (cases "list_ex (\<lambda>r. pl_slug r = ''full-access'') (plans w)")
  case True
  then obtain r where r: "r \<in> set (plans w)" "pl_slug r = ''full-access''" by (auto simp: list_ex_iff)
  let ?f = "\<lambda>p. p\<lparr>pl_stripePriceId := nullish price ''price_1U2UpICdtcz0ii9wLh7NVEiP'', pl_interval := SIX_MONTHS, pl_amountCents := 5000\<rparr>"
  have "?f r \<in> set (plans (seed_plans newId price w))"
    using True r by (auto simp: seed_plans_def Let_def upsert_by_def updateMany_def image_iff)
  with r(2) show ?thesis by (intro bexI [of _ "?f r"]) simp_all
qed (simp add: seed_plans_def Let_def upsert_by_def)

text \<open>
  The smoke test. On a database without its plan, its address and its subscription it passes, confirms that a user with
  billing history cannot be deleted, and leaves every table as it was. On a database with the catalogue of
  \<open>seed-plans.ts\<close> it fails at its first step, because the seeded plan has the same slug; and a run that stops between its
  steps leaves its plan behind, so that every later run fails.
\<close>

theorem smoke_test_cleans_up:
  assumes fresh: "unused_id planId w" "unused_id userId w" "unused_id subId w"
    and plan: "\<not> list_ex (\<lambda>p. pl_slug p = ''full-access'' \<or> pl_stripePriceId p = ''price_test_123'') (plans w)"
    and sub: "\<not> list_ex (\<lambda>s. sb_stripeSubscriptionId s = ''sub_test_123'') (subscriptions w)"
  shows "smoke_test planId userId subId now w =
     (if list_ex (\<lambda>u. u_email u = ''smoke-test@example.com'') (users w)
      then (False, w\<lparr>plans := plans w @ [smoke_plan planId]\<rparr>) else (True, w))
   \<and> fst (smoke_test planId userId subId now (w\<lparr>plans := plans w @ [smoke_plan planId]\<rparr>)) = False
   \<and> fst (smoke_test planId userId subId now (seed_plans newId price w)) = False"
proof (intro conjI)
  show "fst (smoke_test planId userId subId now (w\<lparr>plans := plans w @ [smoke_plan planId]\<rparr>)) = False"
    by (simp add: smoke_test_def smoke_plan_def)
  show "fst (smoke_test planId userId subId now (seed_plans newId price w)) = False"
    using seeded_plan_there [of newId price w] by (auto simp: smoke_test_def list_ex_iff)
  show "smoke_test planId userId subId now w =
     (if list_ex (\<lambda>u. u_email u = ''smoke-test@example.com'') (users w)
      then (False, w\<lparr>plans := plans w @ [smoke_plan planId]\<rparr>) else (True, w))"
    using plan sub fresh [unfolded unused_id_def user_restricted_def]
    by (simp add: smoke_test_def Let_def db_delete_user_def user_restricted_def cascade_user_frame deleteMany_append
        deleteMany_unused smoke_plan_def smoke_user_def smoke_subscription_def)
qed

theorem smoke_test_cleans_up_witness:
  "smoke_test ''p'' ''u'' ''s'' 5 empty_world = (True, empty_world)"
proof -
  have "unused_id i empty_world" for i
    by (simp add: unused_id_def cascade_user_def user_restricted_def empty_world_def deleteMany_def)
  then show ?thesis
    using smoke_test_cleans_up [of "''p''" empty_world "''u''" "''s''"] by (simp add: empty_world_def)
qed

end
