(* ===== verification/ClaudeTool.thy ===== *)
theory ClaudeTool
  imports Complex_Main Apollo
begin

text \<open>
  The request \<open>claude.service.ts\<close> sends: model, limit, message and the one tool the model is forced to call, with the
  input schema of that tool; and the reading of the input as JSON. The prompts (the system text and the descriptions of
  the fields) are prose for the model and left out. \<open>Apollo\<close> has what the service makes of the input.
\<close>

datatype schemaType = TextType | TextsType "string list option"

record claudeTool =
  ct_name :: string
  ct_properties :: "(string \<times> schemaType) list"
  ct_required :: "string list"

definition EXTRACT_APOLLO_FILTERS_TOOL :: claudeTool where
  "EXTRACT_APOLLO_FILTERS_TOOL =
    \<lparr>ct_name = ''extract_apollo_filters'',
     ct_properties =
      [(''campaignName'', TextType),
       (''searchKeywords'', TextsType None),
       (''targetIndustries'', TextsType None),
       (''personTitles'', TextsType None),
       (''personSeniorities'', TextsType (Some PERSON_SENIORITIES)),
       (''location'', TextType),
       (''personName'', TextType),
       (''personOrganization'', TextType)],
     ct_required = [''campaignName'']\<rparr>"

definition REQUEST_TIMEOUT :: nat where "REQUEST_TIMEOUT = 20000"

record claudeRequest =
  cq_model :: string
  cq_max_tokens :: nat
  cq_content :: string
  cq_tools :: "claudeTool list"
  cq_tool_choice :: string
  cq_timeout :: nat

definition claude_request :: "string \<Rightarrow> string list option \<Rightarrow> claudeRequest" where
  "claude_request query jobTitles =
    \<lparr>cq_model = ''claude-sonnet-5'', cq_max_tokens = 1024, cq_content = user_content query jobTitles,
     cq_tools = [EXTRACT_APOLLO_FILTERS_TOOL], cq_tool_choice = ''extract_apollo_filters'', cq_timeout = REQUEST_TIMEOUT\<rparr>"

section \<open>Reading the input of the tool\<close>

definition text_field :: "(string \<times> json) list \<Rightarrow> string \<Rightarrow> string option" where
  "text_field entries k = (case map_of entries k of Some (JStr s) \<Rightarrow> Some s | _ \<Rightarrow> None)"

fun text_of :: "json \<Rightarrow> string option" where
  "text_of (JStr s) = Some s"
| "text_of _ = None"

definition texts_field :: "(string \<times> json) list \<Rightarrow> string \<Rightarrow> string list option" where
  "texts_field entries k = (case map_of entries k of Some (JArr xs) \<Rightarrow> Some (List.map_filter text_of xs) | _ \<Rightarrow> None)"

definition read_input :: "(string \<times> json) list \<Rightarrow> toolInput" where
  "read_input entries =
    \<lparr>tu_campaignName = text_field entries ''campaignName'', tu_searchKeywords = texts_field entries ''searchKeywords'',
     tu_targetIndustries = texts_field entries ''targetIndustries'', tu_personTitles = texts_field entries ''personTitles'',
     tu_personSeniorities = texts_field entries ''personSeniorities'', tu_location = text_field entries ''location'',
     tu_personName = text_field entries ''personName'', tu_personOrganization = text_field entries ''personOrganization''\<rparr>"

text \<open>What the schema asks of an input; the service itself casts the input without looking (\<open>as Partial<...>\<close>).\<close>

fun type_ok :: "schemaType \<Rightarrow> json \<Rightarrow> bool" where
  "type_ok TextType (JStr s) = True"
| "type_ok (TextsType en) (JArr xs) =
     list_all (\<lambda>x. case x of JStr s \<Rightarrow> (case en of None \<Rightarrow> True | Some vs \<Rightarrow> s \<in> set vs) | _ \<Rightarrow> False) xs"
| "type_ok _ _ = False"

definition conforms :: "claudeTool \<Rightarrow> (string \<times> json) list \<Rightarrow> bool" where
  "conforms tool entries \<longleftrightarrow> list_all (\<lambda>k. map_of entries k \<noteq> None) (ct_required tool)
     \<and> list_all (\<lambda>(k, t). case map_of entries k of None \<Rightarrow> True | Some x \<Rightarrow> type_ok t x) (ct_properties tool)"

lemma conforming_texts:
  assumes "type_ok (TextsType (Some vs)) (JArr xs)"
  shows "set (List.map_filter text_of xs) \<subseteq> set vs"
  using assms by (induction xs) (auto simp: map_filter_simps split: json.splits)

text \<open>
  An input of the model that keeps to the schema of its tool, which the request forces it to call, gives filters with known
  seniorities only, so that the search the user confirms is not refused for them, and a campaign name whenever the model
  or the user gave any text.
\<close>

theorem conforming_filters:
  assumes tool: "cq_tools (claude_request query jobTitles) = [tool]" "conforms tool entries"
    and reply: "claude (cq_content (claude_request query jobTitles)) = Some (Some (read_input entries))"
  shows "\<exists>p. parseApolloQuery claude query jobTitles = Inr p
    \<and> set (pf_personSeniorities p) \<subseteq> set PERSON_SENIORITIES
    \<and> (pf_campaignName p = [] \<longrightarrow> query = [])"
proof -
  have ok: "case map_of entries ''personSeniorities'' of None \<Rightarrow> True | Some x \<Rightarrow> type_ok (TextsType (Some PERSON_SENIORITIES)) x"
    using tool by (auto simp: claude_request_def EXTRACT_APOLLO_FILTERS_TOOL_def conforms_def)
  have "set (nullish (texts_field entries ''personSeniorities'') []) \<subseteq> set PERSON_SENIORITIES"
    using ok conforming_texts [of PERSON_SENIORITIES]
    by (auto simp: texts_field_def simp del: type_ok.simps split: option.splits json.splits)
  with reply show ?thesis
    by (auto simp: parseApolloQuery_def claude_request_def read_input_def truthy_def split: option.splits list.splits)
qed

theorem conforming_filters_witness:
  "\<exists>p. parseApolloQuery (\<lambda>_. Some (Some (read_input [(''campaignName'', JStr ''CTOs''),
       (''personSeniorities'', JArr [JStr ''c_suite''])]))) ''ctos'' None = Inr p
     \<and> set (pf_personSeniorities p) \<subseteq> set PERSON_SENIORITIES"
  using conforming_filters [of "''ctos''" None EXTRACT_APOLLO_FILTERS_TOOL
      "[(''campaignName'', JStr ''CTOs''), (''personSeniorities'', JArr [JStr ''c_suite''])]"
      "\<lambda>_. Some (Some (read_input [(''campaignName'', JStr ''CTOs''), (''personSeniorities'', JArr [JStr ''c_suite''])]))"]
  by (auto simp: claude_request_def conforms_def EXTRACT_APOLLO_FILTERS_TOOL_def PERSON_SENIORITIES_def)

end
