(* ===== verification/Spec2Isabelle.thy ===== *)
theory Spec2Isabelle
  imports Complex_Main AuthProperties ApolloSearch StripeWebhooks Renewal CampaignProperties AdminReportProperties
    AdminProperties LeadsProperties EmailProperties System HttpProperties Isolation Queueing Dto Env Scripts Wiring Bootstrap
    Diagnostics ClaudeTool
begin

text \<open>
  Verification of the conference.contact backend, a NestJS API in TypeScript (\<open>src/src\<close>) over a PostgreSQL database
  (\<open>src/prisma/schema.prisma\<close>), Redis and BullMQ queues, with Stripe, Resend, Apollo and Claude as outside services.
  The product sells access to a directory of conference contacts and a search for new leads that spends credits.

  \<^bold>\<open>The program.\<close> A request passes the middleware of \<open>main.ts\<close>, the throttle, the JWT, role and directory guards and
  the validation pipe, and reaches a controller, which calls one service. The services share the database; they mail
  through two queues, whose workers render and send; Stripe webhooks are queued and processed by a worker with retries;
  searches run in a worker; two daily jobs send renewal reminders and a batch of the cold-outreach campaign.

  \<^bold>\<open>State and operations.\<close> \<open>Schema\<close> has one record per table, one datatype per enum and the record \<open>world\<close>: every
  table as the list of its rows in insertion order, the Redis keys with their expiry, the queues, and the log of calls
  to Stripe. \<open>Prelude\<close> models what the services use of Prisma (find, ordered reads, update, delete, unique columns),
  of JavaScript strings and of time, in milliseconds. An operation is a function from the configuration \<open>cfg\<close>, the
  request \<open>req\<close> (the clock, random draws, and whether Redis, the queue and Stripe answer) and its arguments to a result
  and a new state; an exception is \<open>Inl\<close> with the class and the message of the source (\<open>Messages\<close>), and the state it
  leaves is the one the code had reached.

  \<^bold>\<open>Theories.\<close>
  \<^item> \<open>Infra\<close>: audit log, queue producer, Redis (\<open>audit.service.ts\<close>, \<open>email.service.ts\<close>); the contract \<open>attempt_limit\<close>.
    \<open>Users\<close>, \<open>Crypto\<close>, \<open>Revocation\<close>: \<open>users.service.ts\<close>, the helpers of \<open>common\<close>, \<open>token-revocation.service.ts\<close>.
  \<^item> \<open>Sessions\<close>: \<open>sessions.service.ts\<close>, \<open>devices.service.ts\<close>, \<open>risk.service.ts\<close>; the contract \<open>session_store\<close> with its
    abstraction to a map from tokens to accounts.
  \<^item> \<open>Auth\<close>: \<open>auth.service.ts\<close>. \<open>AuthInvariant\<close>: the invariant of the account tables, the step relation of the service
    and the contract \<open>account_service\<close>, from which every service that meets it gets invariants along runs.
    \<open>AuthProperties\<close>: the branches of login, refresh, reset and deletion.
  \<^item> \<open>Access\<close>: \<open>subscription-access.util.ts\<close> and the four guards. \<open>StripeCustomer\<close>, \<open>Subscriptions\<close>,
    \<open>SubscriptionProperties\<close>, \<open>LeadFinderBilling\<close>, \<open>StripeWebhooks\<close>: the two billing services over the contract
    \<open>subscription_store\<close> (at most one live row per account), and the webhook with its queue and retries.
  \<^item> \<open>Taxonomy\<close>, \<open>Apollo\<close>, \<open>Leads\<close>, \<open>LeadsProperties\<close>, \<open>ApolloSearch\<close>: \<open>apollo-taxonomy.ts\<close>, the two clients,
    \<open>leads.service.ts\<close> and the search worker, whose loop runs against an environment of concurrent requests.
  \<^item> \<open>Campaign\<close>, \<open>CampaignProperties\<close>, \<open>Renewal\<close>, \<open>Invites\<close>: the campaign with bounces and opt-outs, the reminders (one
    scan for both tables, contract \<open>reminder_table\<close>), invitations and the contact form.
  \<^item> \<open>Admin\<close>, \<open>AdminProperties\<close>, \<open>AdminReports\<close>, \<open>AdminReportProperties\<close>: \<open>admin.service.ts\<close>, its operations and reports.
  \<^item> \<open>Email\<close>, \<open>EmailProperties\<close>: the two mail workers down to the bytes of subject and page. \<open>Queueing\<close>: the jobs the
    \<open>send\<close> methods write and the worker reads, \<open>with-timeout.util.ts\<close>, the daily schedules.
  \<^item> \<open>System\<close>: all services as one step relation, and what each of them leaves alone (\<open>billing_part\<close> and its extensions).
  \<^item> \<open>Http\<close>, \<open>AuthController\<close>, \<open>AdminController\<close>, \<open>ClientControllers\<close>, \<open>HttpProperties\<close>: guards, cookies, exception filter,
    every route and handler; the contract \<open>controller\<close> and the refinement of the system by the API. \<open>Isolation\<close>: the rows
    of an account, what each call of a customer may change and has to do, in tables of its own beside those of the code.
  \<^item> \<open>Dto\<close>, \<open>Env\<close>: the request classes and the environment schema as tables. \<open>Scripts\<close>, \<open>Diagnostics\<close>: imports, seeds,
    prices, the scripts that print rows and the smoke test. \<open>ClaudeTool\<close>: the request to Claude with the schema of its tool.
  \<^item> \<open>Wiring\<close>: every module and every constructor as tables, dependency injection with the contract
    \<open>layered_application\<close>, queue options and workers. \<open>Bootstrap\<close>: \<open>main.ts\<close>, from the environment to a serving process, the
    middleware in its order and the graceful shutdown.
  \<^item> \<open>Samples\<close>: a small configuration and state for the witnesses.

  \<^bold>\<open>What is shown.\<close> For accounts: rotation, replay detection, lockout, single-use links, what suspension, impersonation
  and deletion do, the session cap. For billing: one live subscription per account and product under any order of
  events, the grace period, exactly one customer under concurrent first checkouts, what a webhook job grants when the
  database fails between the writes of a grant (too much: a finding). For searches:
  credits never negative, one credit per enriched result, every job ends. For mail: nobody is mailed twice or after
  opting out, the cap, opt-out links that work, no markup from user text, jobs that survive the queue unchanged, calls
  that always return, a backlog that drains, one reminder per period end whenever the scans run and stop. For reports: the revenue loops equal a declarative
  table. For the API: which calls need which token, that a customer changes only their own rows and gets what the route says,
  unambiguous routing, what every answer does to the cookie, typed and bounded requests (and which null gets through),
  the variables without which nothing starts, and that any run of requests is a run of the system with its invariant.
  For the process: every object is built once and after all it needs, when the process serves, exits or waits, webhooks
  that see the signed bytes, and a shutdown that always ends.
  Some theorems state what the code does against its documentation; they carry the details of a finding.

  \<^bold>\<open>Parameters.\<close> Argon2, SHA-256, AES-GCM, HMAC, JWT, TOTP, GeoIP, the user-agent parser, CSV rendering, the clients of
  Stripe, Resend, Apollo and Claude, class-validator with Nest's pipe, Joi, what Nest's packages offer for injection,
  the body parsers of Express and its path matching, and case-insensitive matching are functions
  passed in; where a theorem relies on one of them, the law is a hypothesis and a witness has an instance of it.

  \<^bold>\<open>Loops and bounds.\<close> Loops over lists are structural or have a termination proof (batches by the length that is left);
  no definition uses fuel. A job is attempted three times, as \<open>queue.module.ts\<close> says. Integers of JavaScript are \<open>int\<close>
  or \<open>nat\<close>: amounts, counters and times stay far below 2^53. The credit balance is a four-byte column: a grant that does
  not fit (\<open>INT4_MAX\<close>) is refused by the database. Strings are lists of bytes; where class-validator counts characters,
  the count is a parameter of which only the relation to the bytes is used.

  \<^bold>\<open>Failures.\<close> Redis, the queues and Stripe may not answer in any operation (\<open>q_redisUp\<close>, \<open>q_queueUp\<close>, \<open>q_stripeUp\<close>). The
  database may fail at each write of a credit grant (\<open>q_dbFails\<close>), where retries make it matter; in all other operations
  it answers, and an operation is one step of the system.

  \<^bold>\<open>Not modelled.\<close> The text of prompts, security headers and the pages of Swagger; SQL execution and transaction isolation
  below the level of one operation, except where a race is the point (first checkout, search worker); the counters of
  the throttle; log lines without an effect; reading CSV files; the order in which Nest builds objects that do not depend
  on each other; the tests.
\<close>

section \<open>The whole system\<close>

text \<open>
  C4: the invariant of the backend. Start in a state where it holds and let any requests of customers and
  administrators, billing webhooks, campaign mails, scheduled jobs and search jobs follow, in any order: it holds
  again, and with it no account has more live sessions than the cap, no two accounts share an address, every
  session belongs to an account, no account has two live subscriptions of the same product, no address is queued
  twice for the campaign, and the audit log has only grown.
\<close>

theorem system_invariant:
  assumes inv: "system_inv c t w" and run: "runs system_step c t w t' w'"
  shows "system_inv c t' w'
    \<and> (\<exists>rows. auditLogs w' = auditLogs w @ rows)
    \<and> (\<forall>i. int (countRows (\<lambda>s. s_userId s = i \<and> session_live t' s) (sessions w')) \<le> max 1 (c_maxTrustedDevices c))
    \<and> unique_on u_email (users w') \<and> s_userId ` set (sessions w') \<subseteq> u_id ` set (users w')
    \<and> (\<forall>s \<in> set (subscriptions w'). \<forall>s' \<in> set (subscriptions w'). sb_userId s = sb_userId s'
         \<and> sb_status s \<in> set live_statuses \<and> sb_status s' \<in> set live_statuses \<longrightarrow> s = s')
    \<and> (\<forall>s \<in> set (leadFinderSubscriptions w'). \<forall>s' \<in> set (leadFinderSubscriptions w'). lf_userId s = lf_userId s'
         \<and> lf_status s \<in> set live_statuses \<and> lf_status s' \<in> set live_statuses \<longrightarrow> s = s')
    \<and> unique_on pi_email (prospectInviteQueue w')"
proof -
  have ok: "system_inv c t' w'" using system_runs_inv [OF run inv] .
  then have auth: "users_ok w'" "sessions_ok w'" "\<And>i. int (liveCount t' i w') \<le> sessionCap c"
    and shop: "one_live sb_userId sb_status (subscriptions w')" "one_live lf_userId lf_status (leadFinderSubscriptions w')"
      "unique_on pi_email (prospectInviteQueue w')"
    by (simp_all add: system_inv_def auth_inv_def subs_ok_def lf_ok_def)
  have "\<exists>rows. auditLogs w' = auditLogs w @ rows"
    using backend.runs_evolve [OF run] by (simp add: extends_audit_def)
  moreover have "int (countRows (\<lambda>s. s_userId s = i \<and> session_live t' s) (sessions w')) \<le> max 1 (c_maxTrustedDevices c)" for i
    using auth(3) [of i] by (simp add: liveCount_def sessionCap_def user_live_def [abs_def])
  moreover have "unique_on u_email (users w')" "s_userId ` set (sessions w') \<subseteq> u_id ` set (users w')"
    using auth(1,2) by (auto simp: users_ok_def sessions_ok_def)
  ultimately show ?thesis
    using ok shop(3) one_liveD [OF shop(1)] one_liveD [OF shop(2)] by blast
qed

lemma sample_system_inv: "system_inv sample_cfg 20 sample_world"
  using sample_inv
  by (simp add: system_inv_def subs_ok_def lf_ok_def one_live_def unique_on_def sample_world_def empty_world_def)

theorem system_invariant_witness:
  "system_inv sample_cfg 20 (snd (suspendUser sample_cfg (sample_req 20) ''a1'' ''u1'' None sample_world))"
proof -
  have "system_step sample_cfg (sample_req 20) sample_world (snd (suspendUser sample_cfg (sample_req 20) ''a1'' ''u1'' None sample_world))"
    by (intro a_request by_admin step_suspendUser)
  then have "runs system_step sample_cfg 20 sample_world (q_now (sample_req 20))
      (snd (suspendUser sample_cfg (sample_req 20) ''a1'' ''u1'' None sample_world))"
    by (intro runs_step [OF runs_refl]) (simp_all add: sample_req_def)
  from system_invariant [OF sample_system_inv this] show ?thesis by (simp add: sample_req_def)
qed

text \<open>
  C8: suspending an account locks its owner out. After a successful suspension by another administrator the
  account is \<open>SUSPENDED\<close>; every refresh token it held is dead, at that instant and in every state the system
  can reach later; while Redis answers, every access token of the account is refused for as long as one can
  still be valid; a login fails whatever the password; and the tokens of other accounts are untouched.
\<close>

theorem suspended_user_locked_out:
  assumes inv: "system_inv c (q_now q) w" and ok: "fst (suspendUser c q a i reason w) = Inr m"
  shows "a \<noteq> i
    \<and> map_option u_status (findById i (snd (suspendUser c q a i reason w))) = Some SUSPENDED
    \<and> (\<forall>tok t' w'. holder c (q_now q) tok w = Some i \<and> runs system_step c (q_now q) (snd (suspendUser c q a i reason w)) t' w'
         \<longrightarrow> holder c t' tok w' = None)
    \<and> (\<forall>q' tok email r imp. q_redisUp q \<and> q_redisUp q' \<and> q_now q' < q_now q + c_accessTokenTtlSeconds c * 1000
         \<and> tok \<noteq> [] \<and> c_jwtVerify c (q_now q') tok = Some (AccessTokenPayload i email r imp)
         \<longrightarrow> jwt_canActivate c q' False (Some (''Bearer '' @ tok)) (snd (suspendUser c q a i reason w))
             = Inl (Unauthorized Access_has_been_revoked))
    \<and> (\<forall>q' email pw meta. map_option u_id (findByEmail email (snd (suspendUser c q a i reason w))) = Some i \<longrightarrow>
         (\<exists>e. login c q' email pw meta (snd (suspendUser c q a i reason w))
            = (Inl (Unauthorized e), snd (suspendUser c q a i reason w))))
    \<and> (\<forall>tok j. holder c (q_now q) tok w = Some j \<and> j \<noteq> i \<longrightarrow>
         holder c (q_now q) tok (snd (suspendUser c q a i reason w)) = Some j)"
proof -
  let ?w = "snd (suspendUser c q a i reason w)"
  let ?f = "\<lambda>u. u\<lparr>u_status := SUSPENDED\<rparr>"
  from ok obtain u where u: "a \<noteq> i" "findById i w = Some u" "u_status u = ACTIVE"
    by (auto simp: suspendUser_def split: option.splits if_splits)
  have sok: "sessions_ok w" and uok: "users_ok w" using inv by (simp_all add: system_inv_def auth_inv_def)
  have rows: "users ?w = users (update_user i ?f w)" "sessions ?w = sessions (revokeAllForUser q i w)"
    "redis ?w = redis (revokeUser c q i w)"
    using u by (simp_all add: suspendUser_def Let_def revokeAllForUser_def update_sessions_def revokeUser_def redis_setEx_def)
  have user: "findById i ?w = Some (?f u)"
    using u(2) findById_users_cong [OF rows(1)] by (simp add: findById_update_user)
  have holders: "holder c t tok ?w = holder c t tok (revokeAllForUser q i w)" for t tok
    by (simp add: holder_def rows(2))
  have dead: "holder c t' tok w' = None"
    if h: "holder c (q_now q) tok w = Some i" and run: "runs system_step c (q_now q) ?w t' w'" for tok t' w'
  proof (rule backend.dead_forever [OF _ run])
    show "auth_inv c (q_now q) ?w"
      using admin_step_keeps [OF step_suspendUser] inv by (simp add: auth_keeps_def system_inv_def)
    show "issued_token c tok ?w"
      using store.owner_issued [OF h] store.issued_later [OF _ session_evolves_revokeAllForUser]
      by (simp add: issued_token_def rows(2))
    show "holder c (q_now q) tok ?w = None"
      using h sok by (simp add: holders holder_revokeAllForUser)
  qed
  have guard: "jwt_canActivate c q' False (Some (''Bearer '' @ tok)) ?w = Inl (Unauthorized Access_has_been_revoked)"
    if "q_redisUp q" "q_redisUp q'" "q_now q' < q_now q + c_accessTokenTtlSeconds c * 1000" "tok \<noteq> []"
      "c_jwtVerify c (q_now q') tok = Some (AccessTokenPayload i email r imp)" for q' tok email r imp
    using that isRevoked_after_revokeUser [of q q' i c w] isRevoked_redis_cong [OF rows(3), of q' i]
    by (simp add: jwt_canActivate_def extractBearerToken_def)
  have login: "\<exists>e. login c q' email pw meta ?w = (Inl (Unauthorized e), ?w)"
    if h: "map_option u_id (findByEmail email ?w) = Some i" for q' email pw meta
  proof -
    from h obtain x where x: "findByEmail email ?w = Some x" "u_id x = i" by auto
    have "users_ok ?w" using uok users_ok_update_user [of ?f] users_ok_cong [OF rows(1)] by simp
    then have "unique_on u_id (users ?w)" by (simp add: users_ok_def)
    then have "x = ?f u"
      by (rule unique_onD) (use findByEmail_SomeD [OF x(1)] findById_SomeD [OF user] x(2) in simp_all)
    then show ?thesis by (simp add: login_def x(1))
  qed
  show ?thesis
    using u(1) user dead guard login holders store.others_stay [OF sok] u(2) by auto
qed


theorem suspended_user_locked_out_witness:
  "holder sample_cfg 900 ''tok'' (snd (suspendUser sample_cfg (sample_req 20) ''a1'' ''u1'' None sample_world)) = None
   \<and> jwt_canActivate sample_cfg (sample_req 900) False (Some ''Bearer access'')
       (snd (suspendUser sample_cfg (sample_req 20) ''a1'' ''u1'' None sample_world)) = Inl (Unauthorized Access_has_been_revoked)"
proof -
  let ?q = "sample_req 20" and ?w = "snd (suspendUser sample_cfg (sample_req 20) ''a1'' ''u1'' None sample_world)"
  have inv: "system_inv sample_cfg (q_now ?q) sample_world" using sample_system_inv by (simp add: sample_req_def)
  have ok: "fst (suspendUser sample_cfg ?q ''a1'' ''u1'' None sample_world) = Inr ''User suspended''"
    by (simp add: suspendUser_def findById_def sample_defs)
  note locked = suspended_user_locked_out [OF inv ok, THEN conjunct2, THEN conjunct2]
  have "holder sample_cfg (q_now ?q) ''tok'' sample_world = Some ''u1''"
    by (simp add: holder_def session_live_def sample_defs)
  moreover have "system_step sample_cfg (sample_req 900) ?w ?w"
    by (intro a_request by_failed_webhook [where n = 1 and m = 0]) (simp add: onFailed_def)
  then have "runs system_step sample_cfg (q_now ?q) ?w 900 ?w"
    using runs_step [OF runs_refl, of "q_now ?q" "sample_req 900" system_step sample_cfg ?w ?w] by (simp add: sample_req_def)
  ultimately have "holder sample_cfg 900 ''tok'' ?w = None" using locked by blast
  moreover have "jwt_canActivate sample_cfg (sample_req 900) False (Some (''Bearer '' @ ''access'')) ?w
      = Inl (Unauthorized Access_has_been_revoked)"
    by (rule locked [THEN conjunct2, THEN conjunct1, rule_format, where email = "''ann@example.com''" and r = USER and imp = None])
      (simp add: sample_defs)
  ultimately show ?thesis by simp
qed

section \<open>Administrators and customers\<close>

text \<open>
  C25: viewing the product as a customer is bounded. A token is minted only for another account that is active and
  not an administrator's; it carries the administrator's identity and lasts ten minutes, the only trace in
  the state is the audit entry, and the guard of the administrators' routes refuses it. But it is tied to the
  customer alone: suspending the administrator who minted it does not take it back.
\<close>

theorem impersonation_guarded:
  assumes ok: "fst (impersonateUser c q a i w) = Inr (tok, email)"
  shows "\<exists>u. findById i w = Some u \<and> a \<noteq> i \<and> u_status u = ACTIVE \<and> u_role u \<notin> {ADMIN, SUPER_ADMIN}
    \<and> email = u_email u
    \<and> tok = c_jwtSign c (q_now q) (AccessTokenPayload i (u_email u) (u_role u) (Some a)) 600
    \<and> snd (impersonateUser c q a i w) = audit_record q (about a Admin_user_impersonated ''User'' i) w
    \<and> roles_canActivate [ADMIN, SUPER_ADMIN] (Some (AccessTokenPayload i (u_email u) (u_role u) (Some a)))
        = Inl (Forbidden Insufficient_permissions)
    \<and> (\<forall>q' b reason w'. isRevoked q' i (snd (suspendUser c q' b a reason w')) = isRevoked q' i w')"
proof -
  from ok obtain u where u: "findById i w = Some u" "a \<noteq> i" "u_role u \<noteq> ADMIN" "u_role u \<noteq> SUPER_ADMIN"
    "u_status u = ACTIVE" "email = u_email u" "tok = signImpersonationToken c q (u_id u) (u_email u) (u_role u) a"
    by (auto simp: impersonateUser_def split: option.splits if_splits)
  have id: "u_id u = i" using u(1) by (auto dest: findById_SomeD)
  have "isRevoked q' i (snd (suspendUser c q' b a reason w')) = isRevoked q' i w'" for q' b reason w'
  proof -
    have "redis (revokeAllForUser q' a w') = redis w'" for w' by (simp add: revokeAllForUser_def update_sessions_def)
    then have "redis (snd (suspendUser c q' b a reason w')) (RevokedUser i) = redis w' (RevokedUser i)"
      using u(2) by (auto simp: suspendUser_def Let_def revokeUser_def redis_setEx_def update_user_def split: option.splits)
    then show ?thesis by (simp add: isRevoked_def redis_get_def)
  qed
  then show ?thesis
    using u id by (simp add: impersonateUser_def signImpersonationToken_def roles_canActivate_def)
qed

theorem impersonation_guarded_witness:
  "fst (impersonateUser sample_cfg (sample_req 20) ''a1'' ''u1'' sample_world) = Inr (''access'', ''ann@example.com'')
   \<and> snd (impersonateUser sample_cfg (sample_req 20) ''a1'' ''u1'' sample_world)
       = audit_record (sample_req 20) (about ''a1'' Admin_user_impersonated ''User'' ''u1'') sample_world"
proof -
  have ok: "fst (impersonateUser sample_cfg (sample_req 20) ''a1'' ''u1'' sample_world) = Inr (''access'', ''ann@example.com'')"
    by (simp add: impersonateUser_def findById_def signImpersonationToken_def sample_defs)
  from impersonation_guarded [OF ok] ok show ?thesis by auto
qed

lemma deleteUser_keeps_billing:
  "subscriptions (snd (deleteUser c q a i w)) = subscriptions w"
  "leadFinderSubscriptions (snd (deleteUser c q a i w)) = leadFinderSubscriptions w"
  "stripeCalls (snd (deleteUser c q a i w)) = stripeCalls w"
  by (auto simp: deleteUser_def Let_def revokeAllForUser_def update_sessions_def split: option.splits)

text \<open>What a successful deletion writes about subscriptions: it cancels the first live one, here and at Stripe.\<close>

lemma deleteAccount_cancels:
  assumes "fst (deleteAccount c q i pw w) = Inr m"
  shows "case findFirst (live_subscription i) (subscriptions w) of
      None \<Rightarrow> subscriptions (snd (deleteAccount c q i pw w)) = subscriptions w
        \<and> stripeCalls (snd (deleteAccount c q i pw w)) = stripeCalls w
    | Some b \<Rightarrow> subscriptions (snd (deleteAccount c q i pw w)) =
          updateMany (\<lambda>x. sb_id x = sb_id b) cancel_subscription_row (subscriptions w)
        \<and> stripeCalls (snd (deleteAccount c q i pw w)) =
          stripeCalls w @ [SubscriptionCancel (sb_stripeSubscriptionId b)]"
proof -
  have live: "(\<lambda>b. sb_userId b = i \<and> sb_status b \<in> set live_statuses) = live_subscription i"
    by (simp add: live_subscription_def [abs_def])
  show ?thesis
    using assms unfolding deleteAccount_def live
    by (auto simp: Let_def stripe_cancel_def erase_account_def revokeAllForUser_def update_sessions_def
        split: option.splits if_splits)
qed

text \<open>
  C23: what erasing an account does to its bills. A customer who deletes the account has no live directory subscription
  left, and every one there was is cancelled at Stripe; but a Lead Finder subscription stays live, locally and at
  Stripe, and keeps being charged. An administrator who deletes the account touches neither: nothing is cancelled.
\<close>

theorem deletion_and_billing:
  assumes ok: "subs_ok w" and erased: "fst (deleteAccount c q i pw w) = Inr m"
  shows "(\<forall>s \<in> set (subscriptions w). live_subscription i s \<longrightarrow>
        SubscriptionCancel (sb_stripeSubscriptionId s) \<in> set (stripeCalls (snd (deleteAccount c q i pw w))))
    \<and> (\<forall>s \<in> set (subscriptions (snd (deleteAccount c q i pw w))). \<not> live_subscription i s)
    \<and> leadFinderSubscriptions (snd (deleteAccount c q i pw w)) = leadFinderSubscriptions w
    \<and> set (stripeCalls (snd (deleteAccount c q i pw w))) \<subseteq> set (stripeCalls w)
        \<union> (\<lambda>s. SubscriptionCancel (sb_stripeSubscriptionId s)) ` {s \<in> set (subscriptions w). live_subscription i s}
    \<and> subscriptions (snd (deleteUser c q a i w)) = subscriptions w
    \<and> leadFinderSubscriptions (snd (deleteUser c q a i w)) = leadFinderSubscriptions w
    \<and> stripeCalls (snd (deleteUser c q a i w)) = stripeCalls w"
proof -
  let ?w = "snd (deleteAccount c q i pw w)" and ?live = "findFirst (live_subscription i) (subscriptions w)"
  note effect = deleteAccount_cancels [OF erased]
  have "(\<forall>s \<in> set (subscriptions w). live_subscription i s \<longrightarrow> SubscriptionCancel (sb_stripeSubscriptionId s) \<in> set (stripeCalls ?w))
    \<and> (\<forall>s \<in> set (subscriptions ?w). \<not> live_subscription i s)
    \<and> set (stripeCalls ?w) \<subseteq> set (stripeCalls w)
        \<union> (\<lambda>s. SubscriptionCancel (sb_stripeSubscriptionId s)) ` {s \<in> set (subscriptions w). live_subscription i s}"
  proof (cases ?live)
    case None
    with effect show ?thesis by (auto simp: findFirst_None_iff)
  next
    case (Some b)
    then have b: "b \<in> set (subscriptions w)" "live_subscription i b" by (auto dest: findFirst_SomeD)
    have only: "s = b" if "s \<in> set (subscriptions w)" "live_subscription i s" for s
      using that b ok one_liveD [of sb_userId sb_status "subscriptions w" s b]
      by (auto simp: subs_ok_def live_subscription_def)
    have "\<not> live_subscription i (cancel_subscription_row s)" for s
      by (simp add: live_subscription_def live_statuses_def)
    then have gone: "\<not> live_subscription i s"
      if "s \<in> set (updateMany (\<lambda>x. sb_id x = sb_id b) cancel_subscription_row (subscriptions w))" for s
      using that only by (elim in_updateManyE) blast+
    from effect Some have e: "subscriptions ?w = updateMany (\<lambda>x. sb_id x = sb_id b) cancel_subscription_row (subscriptions w)"
      "stripeCalls ?w = stripeCalls w @ [SubscriptionCancel (sb_stripeSubscriptionId b)]" by simp_all
    have "SubscriptionCancel (sb_stripeSubscriptionId s) \<in> set (stripeCalls ?w)"
      if "s \<in> set (subscriptions w)" "live_subscription i s" for s
      using only [OF that] by (simp add: e(2))
    moreover have "set (stripeCalls ?w) \<subseteq> set (stripeCalls w)
        \<union> (\<lambda>s. SubscriptionCancel (sb_stripeSubscriptionId s)) ` {s \<in> set (subscriptions w). live_subscription i s}"
      using b by (auto simp: e(2))
    ultimately show ?thesis using gone by (simp add: e(1))
  qed
  then show ?thesis using deleteUser_keeps_billing deleteAccount_shop(1) [of c q i pw w] by blast
qed

definition sample_live_lf :: leadFinderSubscription where
  "sample_live_lf = \<lparr>lf_id = ''l1'', lf_userId = ''u1'', lf_tierId = ''t1'', lf_stripeCustomerId = ''cus_1'',
     lf_stripeSubscriptionId = ''st_lf'', lf_status = Sub_ACTIVE, lf_currentPeriodStart = 0, lf_currentPeriodEnd = 100000,
     lf_cancelAtPeriodEnd = False, lf_pastDueSince = None, lf_renewalReminderSentForPeriodEnd = None, lf_createdAt = 0\<rparr>"

theorem deletion_and_billing_witness:
  "leadFinderSubscriptions (snd (deleteAccount sample_cfg (sample_req 20) ''u1'' ''pw''
       (sample_world\<lparr>leadFinderSubscriptions := [sample_live_lf]\<rparr>))) = [sample_live_lf]
   \<and> stripeCalls (snd (deleteUser sample_cfg (sample_req 20) ''a1'' ''u1''
       (sample_world\<lparr>leadFinderSubscriptions := [sample_live_lf]\<rparr>))) = []"
proof -
  let ?w = "sample_world\<lparr>leadFinderSubscriptions := [sample_live_lf]\<rparr>"
  have ok: "subs_ok ?w" by (simp add: subs_ok_def one_live_def unique_on_def sample_world_def empty_world_def)
  have erased: "fst (deleteAccount sample_cfg (sample_req 20) ''u1'' ''pw'' ?w) = Inr ''Your account has been deleted.''"
    by (simp add: deleteAccount_def findById_def erase_account_def deleted_email_def Let_def sample_defs)
  note bills = deletion_and_billing [OF ok erased, of "''a1''", THEN conjunct2, THEN conjunct2]
  have "leadFinderSubscriptions ?w = [sample_live_lf]" "stripeCalls ?w = []" by (simp_all add: sample_world_def empty_world_def)
  with bills show ?thesis by metis
qed

text \<open>
  C24: an invitation by an administrator is kept at registration, role included. Whatever role the request asks
  for, \<open>SUPER_ADMIN\<close> too, the account registered under the invited address has it from its first moment, with the
  granted access, and the guard of the administrators' routes lets its owner in when the role is one of theirs. No check
  compares the role with the one of the inviting administrator.
\<close>

theorem invited_role_applied:
  assumes invited: "fst (inviteUser q1 a dto w) = Inr m"
    and same: "normalizeEmail (rg_email rdto) = toLowerCase (trim (iu_email dto))"
    and registered: "fst (register c q2 rdto meta (snd (inviteUser q1 a dto w))) = Inr m'"
  shows "\<exists>u. findById (q_newId q2) (snd (register c q2 rdto meta (snd (inviteUser q1 a dto w)))) = Some u
    \<and> u_email u = toLowerCase (trim (iu_email dto)) \<and> u_status u = ACTIVE
    \<and> u_role u = nullish (iu_role dto) USER
    \<and> u_adminGrantedDirectoryAccess u = nullish (iu_grantDirectoryAccess dto) True
    \<and> u_adminGrantedLeadFinderAccess u = nullish (iu_grantLeadFinderAccess dto) False
    \<and> (u_role u = ADMIN \<or> u_role u = SUPER_ADMIN \<longrightarrow>
         roles_canActivate [ADMIN, SUPER_ADMIN] (Some (AccessTokenPayload (u_id u) (u_email u) (u_role u) None)) = Inr ())"
proof -
  let ?e = "toLowerCase (trim (iu_email dto))" and ?p = "\<lambda>i. ai_email i = toLowerCase (trim (iu_email dto)) \<and> ai_status i = Invite_PENDING"
  let ?w1 = "snd (inviteUser q1 a dto w)" and ?w2 = "snd (register c q2 rdto meta (snd (inviteUser q1 a dto w)))"
  have "\<exists>i. findFirst ?p (adminAccessInvites (write_access_invite q1 a ?e dto w)) = Some i
      \<and> ai_role i = nullish (iu_role dto) USER
      \<and> ai_grantDirectoryAccess i = nullish (iu_grantDirectoryAccess dto) True
      \<and> ai_grantLeadFinderAccess i = nullish (iu_grantLeadFinderAccess dto) False"
  proof (cases "findFirst ?p (adminAccessInvites w)")
    case None
    then show ?thesis by (simp add: write_access_invite_def Let_def findFirst_append)
  next
    case (Some i)
    then show ?thesis by (auto simp: write_access_invite_def Let_def findFirst_updateMany)
  qed
  moreover have "adminAccessInvites ?w1 = adminAccessInvites (write_access_invite q1 a ?e dto w)"
    using invited by (auto simp: inviteUser_def Let_def split: if_splits)
  ultimately obtain i where i: "findFirst ?p (adminAccessInvites ?w1) = Some i"
    "ai_role i = nullish (iu_role dto) USER" "ai_grantDirectoryAccess i = nullish (iu_grantDirectoryAccess dto) True"
    "ai_grantLeadFinderAccess i = nullish (iu_grantLeadFinderAccess dto) False" by auto
  let ?u = "registered_user q2 rdto (Some i)"
  from registered obtain w3 where w3: "insert_user ?u ?w1 = Inr w3" "users ?w2 = users w3"
    by (auto simp: register_def same i(1) Let_def accept_admin_invite_def split: option.splits sum.splits)
  have u: "u_id ?u = q_newId q2" "u_email ?u = ?e" "u_status ?u = ACTIVE" "u_role ?u = ai_role i"
    "u_adminGrantedDirectoryAccess ?u = ai_grantDirectoryAccess i" "u_adminGrantedLeadFinderAccess ?u = ai_grantLeadFinderAccess i"
    by (simp_all add: registered_user_def new_user_def same Let_def)
  have "users ?w2 = users ?w1 @ [?u]" "\<forall>x \<in> set (users ?w1). u_id x \<noteq> q_newId q2"
    using w3 u(1) by (auto simp: insert_user_def split: if_splits)
  then have "findById (q_newId q2) ?w2 = Some ?u"
    using u(1) by (simp add: findById_def findFirst_append findFirst_None_iff [THEN iffD2])
  with u i show ?thesis by (auto simp: roles_canActivate_def)
qed

definition admin_invite :: inviteUserDto where
  "admin_invite = \<lparr>iu_email = ''Eve@example.com'', iu_role = Some SUPER_ADMIN, iu_grantDirectoryAccess = None,
     iu_grantLeadFinderAccess = None\<rparr>"

definition eve_registers :: registerDto where
  "eve_registers = \<lparr>rg_email = ''eve@example.com'', rg_fullName = ''Eve'', rg_password = ''pw2'', rg_phone = None\<rparr>"

theorem invited_role_applied_witness:
  "map_option u_role (findById ''n1'' (snd (register sample_cfg (sample_req 30) eve_registers sample_meta
     (snd (inviteUser (sample_req 20) ''a1'' admin_invite sample_world))))) = Some SUPER_ADMIN"
proof -
  let ?w1 = "snd (inviteUser (sample_req 20) ''a1'' admin_invite sample_world)"
  have email: "toLowerCase (trim ''Eve@example.com'') = ''eve@example.com''" by code_simp
  have email': "toLowerCase (trim ''eve@example.com'') = ''eve@example.com''" by code_simp
  have invited: "fst (inviteUser (sample_req 20) ''a1'' admin_invite sample_world) = Inr ''Invite sent to eve@example.com.''"
    by (simp add: inviteUser_def admin_invite_def email Let_def sample_defs)
  have users: "users ?w1 = [sample_user]"
    by (simp add: inviteUser_def admin_invite_def email Let_def write_access_invite_def sample_world_def sample_user_def
        empty_world_def)
  have none: "findByEmail ''eve@example.com'' ?w1 = None"
    by (simp add: findByEmail_def users normalizeEmail_def email' sample_user_def)
  have "insert_user (registered_user (sample_req 30) eve_registers ai) ?w1
      = Inr (?w1\<lparr>users := [sample_user, registered_user (sample_req 30) eve_registers ai]\<rparr>)" for ai
  proof -
    have "u_id (registered_user (sample_req 30) eve_registers ai) = ''n1''"
      "u_email (registered_user (sample_req 30) eve_registers ai) = ''eve@example.com''"
      by (simp_all add: registered_user_def new_user_def eve_registers_def normalizeEmail_def email' Let_def sample_req_def
          split: option.splits)
    then show ?thesis by (simp add: insert_user_def users sample_user_def)
  qed
  then have "\<exists>m. fst (register sample_cfg (sample_req 30) eve_registers sample_meta ?w1) = Inr m"
    using none by (simp add: register_def Let_def eve_registers_def)
  then obtain m where registered: "fst (register sample_cfg (sample_req 30) eve_registers sample_meta ?w1) = Inr m" by blast
  have same: "normalizeEmail (rg_email eve_registers) = toLowerCase (trim (iu_email admin_invite))"
    by (simp add: eve_registers_def admin_invite_def normalizeEmail_def email email')
  from invited_role_applied [OF invited same registered] show ?thesis by (auto simp: sample_req_def admin_invite_def)
qed

end
